(* ===== verification/Gate_Prelude.thy ===== *)
theory Gate_Prelude
  imports Complex_Main "HOL-Library.Char_ord" "HOL-Library.List_Lexorder"
    "HOL-Library.Product_Lexorder" "HOL-Library.Sublist"
begin

text \<open>
  The shared vocabulary of the development: fallible results, the fragment of Python's string
  and collection library the modelled modules use, JSON values, the external canonicalization
  and digest functions as a record of parameters, and the interface of a sealed receipt.

  Strings are byte sequences (UTF-8). Byte-wise lexicographic order agrees with Python's
  code-point order; the case and white-space functions below are exact on ASCII text.
\<close>

named_theorems result_simps \<open>rewriting fallible computations\<close>
named_theorems str_simps \<open>evaluating the string functions\<close>

section \<open>Fallible results\<close>

text \<open>A raising function returns \<open>Inl\<close> the exception or \<open>Inr\<close> the value.\<close>

definition rbind :: "'e + 'a \<Rightarrow> ('a \<Rightarrow> 'e + 'b) \<Rightarrow> 'e + 'b" where
  "rbind m f = (case m of Inl e \<Rightarrow> Inl e | Inr a \<Rightarrow> f a)"

text \<open>\<open>require b e\<close> is the guard \<open>if not b: raise e\<close>.\<close>

definition require :: "bool \<Rightarrow> 'e \<Rightarrow> 'e + unit" where
  "require b e = (if b then Inr () else Inl e)"

definition lift_err :: "('e \<Rightarrow> 'f) \<Rightarrow> 'e + 'a \<Rightarrow> 'f + 'a" where
  "lift_err h m = (case m of Inl e \<Rightarrow> Inl (h e) | Inr a \<Rightarrow> Inr a)"

definition of_opt :: "'e \<Rightarrow> 'a option \<Rightarrow> 'e + 'a" where
  "of_opt e m = (case m of None \<Rightarrow> Inl e | Some a \<Rightarrow> Inr a)"

fun rmap :: "('a \<Rightarrow> 'e + 'b) \<Rightarrow> 'a list \<Rightarrow> 'e + 'b list" where
  "rmap f [] = Inr []"
| "rmap f (x # xs) = rbind (f x) (\<lambda>y. rbind (rmap f xs) (\<lambda>ys. Inr (y # ys)))"

fun reach_all :: "('a \<Rightarrow> 'e + unit) \<Rightarrow> 'a list \<Rightarrow> 'e + unit" where
  "reach_all f [] = Inr ()"
| "reach_all f (x # xs) = rbind (f x) (\<lambda>_. reach_all f xs)"

lemma rbind_Inr [simp, result_simps]: "rbind (Inr a) f = f a"
  by (simp add: rbind_def)

lemma rbind_Inl [simp, result_simps]: "rbind (Inl e) f = Inl e"
  by (simp add: rbind_def)

lemma rbind_eq_Inr [simp, result_simps]:
  "rbind m f = Inr y \<longleftrightarrow> (\<exists>x. m = Inr x \<and> f x = Inr y)"
  by (cases m) simp_all

lemma rbind_eq_Inl:
  "rbind m f = Inl e \<longleftrightarrow> m = Inl e \<or> (\<exists>x. m = Inr x \<and> f x = Inl e)"
  by (cases m) simp_all

lemma rbind_assoc: "rbind (rbind m f) g = rbind m (\<lambda>x. rbind (f x) g)"
  by (cases m) simp_all

lemma rbind_cong: "(\<And>x. m = Inr x \<Longrightarrow> f x = g x) \<Longrightarrow> rbind m f = rbind m g"
  by (cases m) simp_all

text \<open>For evaluation: a computation is evaluated before what follows it.\<close>

lemma rbind_weak_cong: "m = m' \<Longrightarrow> rbind m f = rbind m' f"
  by simp

lemma ex_rbind: "(\<exists>y. rbind m f = Inr y) \<longleftrightarrow> (\<exists>x. m = Inr x \<and> (\<exists>y. f x = Inr y))"
  by auto

lemma require_Inr [simp, result_simps]: "require b e = Inr u \<longleftrightarrow> b"
  by (simp add: require_def)

lemma require_Inl [simp, result_simps]: "require b e = Inl e' \<longleftrightarrow> \<not> b \<and> e' = e"
  by (auto simp: require_def)

lemma require_True [simp, result_simps]: "require True e = Inr ()"
  by (simp add: require_def)

lemma require_False [simp, result_simps]: "require False e = Inl e"
  by (simp add: require_def)

lemma lift_err_Inr [simp, result_simps]: "lift_err h m = Inr a \<longleftrightarrow> m = Inr a"
  by (cases m) (simp_all add: lift_err_def)

lemma lift_err_Inl [simp, result_simps]: "lift_err h m = Inl f \<longleftrightarrow> (\<exists>e. m = Inl e \<and> f = h e)"
  by (cases m) (auto simp: lift_err_def)

lemma lift_err_simps [simp]:
  "lift_err h (Inr a) = Inr a" "lift_err h (Inl e) = Inl (h e)"
  by (simp_all add: lift_err_def)

lemma of_opt_Inr [simp, result_simps]: "of_opt e m = Inr a \<longleftrightarrow> m = Some a"
  by (cases m) (simp_all add: of_opt_def)

lemma of_opt_Inl [simp, result_simps]: "of_opt e m = Inl e' \<longleftrightarrow> m = None \<and> e' = e"
  by (cases m) (auto simp: of_opt_def)

lemma of_opt_simps [simp]: "of_opt e (Some a) = Inr a" "of_opt e None = Inl e"
  by (simp_all add: of_opt_def)

lemma reach_all_Inr [simp, result_simps]:
  "reach_all f xs = Inr u \<longleftrightarrow> (\<forall>x\<in>set xs. f x = Inr ())"
  by (induction xs) auto

lemma rmap_Inr_conv: "rmap f xs = Inr ys \<longleftrightarrow> list_all2 (\<lambda>x y. f x = Inr y) xs ys"
  by (induction xs arbitrary: ys) (auto simp: list_all2_Cons1)

lemma rmap_length: "rmap f xs = Inr ys \<Longrightarrow> length ys = length xs"
  by (simp add: rmap_Inr_conv list_all2_lengthD)

lemma rmap_set_iff: "rmap f xs = Inr ys \<Longrightarrow> y \<in> set ys \<longleftrightarrow> (\<exists>x\<in>set xs. f x = Inr y)"
  by (induction xs arbitrary: ys) auto

lemma rmap_idem: "(\<And>x y. f x = Inr y \<Longrightarrow> f y = Inr y) \<Longrightarrow> rmap f xs = Inr ys \<Longrightarrow> rmap f ys = Inr ys"
  by (induction xs arbitrary: ys) auto

lemma rmap_map:
  assumes "rmap f xs = Inr ys" and "\<And>x y. f x = Inr y \<Longrightarrow> g y = h x"
  shows "map g ys = map h xs"
  using assms by (induction xs arbitrary: ys) auto

lemma rmap_total:
  "(\<And>x. x \<in> set xs \<Longrightarrow> \<exists>y. f x = Inr y) \<Longrightarrow> \<exists>ys. rmap f xs = Inr ys"
proof (induction xs)
  case Nil
  then show ?case by simp
next
  case (Cons x xs)
  then obtain y ys where "f x = Inr y" "rmap f xs = Inr ys" by force
  then show ?case by simp
qed

lemma rmap_pure: "(\<And>x. x \<in> set xs \<Longrightarrow> f x = Inr (g x)) \<Longrightarrow> rmap f xs = Inr (map g xs)"
  by (induction xs) auto

lemma rmap_distinct: "rmap f xs = Inr ys \<Longrightarrow> distinct (map f xs) \<Longrightarrow> distinct ys"
proof -
  assume "rmap f xs = Inr ys" and d: "distinct (map f xs)"
  then have "map f xs = map Inr ys" by (auto simp: rmap_Inr_conv list_all2_conv_all_nth intro: nth_equalityI)
  then show ?thesis using d by (simp add: distinct_map)
qed

section \<open>Lists side by side, and sorting\<close>

lemma list_all2_preimage: "list_all2 P xs ys \<Longrightarrow> y \<in> set ys \<Longrightarrow> \<exists>x\<in>set xs. P x y"
  by (induction rule: list_all2_induct) auto

lemma list_all2_image: "list_all2 P xs ys \<Longrightarrow> x \<in> set xs \<Longrightarrow> \<exists>y\<in>set ys. P x y"
  by (induction rule: list_all2_induct) auto

lemma map_insort_key: "map f (insort_key f x xs) = insort (f x) (map f xs)"
  by (induction xs) auto

lemma map_sort_key: "map f (sort_key f xs) = sort (map f xs)"
  by (induction xs) (simp_all add: map_insort_key)

section \<open>Strings\<close>

definition ws_char :: "char \<Rightarrow> bool" where
  "ws_char c \<longleftrightarrow> c \<in> set [CHR 0x09, CHR 0x0A, CHR 0x0B, CHR 0x0C, CHR 0x0D,
     CHR 0x1C, CHR 0x1D, CHR 0x1E, CHR 0x1F, CHR '' '']"

definition lstrip :: "string \<Rightarrow> string" where
  "lstrip s = dropWhile ws_char s"

definition strip :: "string \<Rightarrow> string" where
  "strip s = rev (lstrip (rev (lstrip s)))"

text \<open>The stripping pydantic applies under \<open>str_strip_whitespace\<close> (Rust's \<open>trim\<close>).\<close>

definition trim_char :: "char \<Rightarrow> bool" where
  "trim_char c \<longleftrightarrow> c \<in> set [CHR 0x09, CHR 0x0A, CHR 0x0B, CHR 0x0C, CHR 0x0D, CHR '' '']"

definition trim :: "string \<Rightarrow> string" where
  "trim s = rev (dropWhile trim_char (rev (dropWhile trim_char s)))"

definition upper_char :: "char \<Rightarrow> char" where
  "upper_char c = (if CHR ''a'' \<le> c \<and> c \<le> CHR ''z'' then char_of (of_char c - 32 :: nat) else c)"

definition lower_char :: "char \<Rightarrow> char" where
  "lower_char c = (if CHR ''A'' \<le> c \<and> c \<le> CHR ''Z'' then char_of (of_char c + 32 :: nat) else c)"

definition upper :: "string \<Rightarrow> string" where
  "upper s = map upper_char s"

definition lower :: "string \<Rightarrow> string" where
  "lower s = map lower_char s"

text \<open>Python's \<open>p in s\<close> on strings.\<close>

fun contains :: "string \<Rightarrow> string \<Rightarrow> bool" where
  "contains p [] \<longleftrightarrow> p = []"
| "contains p (c # cs) \<longleftrightarrow> take (length p) (c # cs) = p \<or> contains p cs"

fun join :: "string \<Rightarrow> string list \<Rightarrow> string" where
  "join sep [] = []"
| "join sep [x] = x"
| "join sep (x # y # zs) = x @ sep @ join sep (y # zs)"

fun split_on :: "char \<Rightarrow> string \<Rightarrow> string list" where
  "split_on c [] = [[]]"
| "split_on c (x # xs) =
     (case split_on c xs of [] \<Rightarrow> [[x]]
      | p # ps \<Rightarrow> if x = c then [] # p # ps else (x # p) # ps)"

definition digit_char :: "nat \<Rightarrow> char" where
  "digit_char d = char_of (48 + d)"

function nat_str :: "nat \<Rightarrow> string" where
  "nat_str n = (if n < 10 then [digit_char n] else nat_str (n div 10) @ [digit_char (n mod 10)])"
  by pat_completeness auto
termination
  by (relation "measure id") auto

declare nat_str.simps [simp del]

definition int_str :: "int \<Rightarrow> string" where
  "int_str i = (if i < 0 then CHR ''-'' # nat_str (nat (- i)) else nat_str (nat i))"

definition bool_str :: "bool \<Rightarrow> string" where
  "bool_str b = (if b then ''true'' else ''false'')"

definition is_digit :: "char \<Rightarrow> bool" where
  "is_digit c \<longleftrightarrow> CHR ''0'' \<le> c \<and> c \<le> CHR ''9''"

definition alnum_char :: "char \<Rightarrow> bool" where
  "alnum_char c \<longleftrightarrow> (CHR ''A'' \<le> c \<and> c \<le> CHR ''Z'') \<or> (CHR ''a'' \<le> c \<and> c \<le> CHR ''z'') \<or> is_digit c"

definition is_hex :: "char \<Rightarrow> bool" where
  "is_hex c \<longleftrightarrow> is_digit c \<or> (CHR ''a'' \<le> c \<and> c \<le> CHR ''f'')"

text \<open>The pattern \<open>^[0-9a-f]{64}$\<close> of every digest field.\<close>

definition is_sha256 :: "string \<Rightarrow> bool" where
  "is_sha256 s \<longleftrightarrow> length s = 64 \<and> list_all is_hex s"

text \<open>The place holder \<open>"0" * 64\<close> of a draft receipt.\<close>

definition zero_sha :: string where
  "zero_sha = replicate 64 (CHR ''0'')"

lemma lstrip_idem [simp]: "lstrip (lstrip s) = lstrip s"
  by (simp add: lstrip_def dropWhile_idem)

lemma lstrip_Nil [simp]: "lstrip [] = []"
  by (simp add: lstrip_def)

lemma lstrip_Cons: "lstrip s = c # cs \<Longrightarrow> \<not> ws_char c"
  by (metis hd_dropWhile list.distinct(1) list.sel(1) lstrip_def)

lemma lstrip_fix: "s = [] \<or> \<not> ws_char (hd s) \<Longrightarrow> lstrip s = s"
  by (cases s) (auto simp: lstrip_def)

lemma hd_rev_lstrip_rev: "xs \<noteq> [] \<Longrightarrow> lstrip (rev xs) \<noteq> [] \<Longrightarrow> hd (rev (lstrip (rev xs))) = hd xs"
proof -
  assume "lstrip (rev xs) \<noteq> []"
  moreover obtain ys where "rev xs = ys @ lstrip (rev xs)"
    unfolding lstrip_def by (metis takeWhile_dropWhile_id)
  ultimately have "last (rev xs) = last (lstrip (rev xs))"
    by (metis last_appendR)
  then show "hd (rev (lstrip (rev xs))) = hd xs"
    by (metis \<open>lstrip (rev xs) \<noteq> []\<close> hd_rev last_rev rev_is_Nil_conv rev_rev_ident)
qed

lemma strip_idem [simp]: "strip (strip s) = strip s"
proof (cases "strip s = []")
  case True
  then show ?thesis by (simp add: strip_def)
next
  case False
  then have ne: "lstrip (rev (lstrip s)) \<noteq> []" by (simp add: strip_def)
  then have "lstrip s \<noteq> []" by (metis lstrip_Nil rev.simps(1))
  then have "hd (strip s) = hd (lstrip s)"
    unfolding strip_def using ne by (rule hd_rev_lstrip_rev)
  moreover have "\<not> ws_char (hd (lstrip s))"
    using \<open>lstrip s \<noteq> []\<close> by (metis list.collapse lstrip_Cons)
  ultimately have "lstrip (strip s) = strip s"
    by (intro lstrip_fix) auto
  then show ?thesis by (simp add: strip_def)
qed

lemma contains_iff: "contains p s \<longleftrightarrow> (\<exists>a b. s = a @ p @ b)"
proof (induction s)
  case Nil
  then show ?case by simp
next
  case (Cons c cs)
  have "take (length p) (c # cs) = p \<longleftrightarrow> (\<exists>b. c # cs = p @ b)"
    by (metis append_eq_conv_conj append_take_drop_id)
  moreover have "(\<exists>a b. c # cs = a @ p @ b) \<longleftrightarrow>
      (\<exists>b. c # cs = p @ b) \<or> (\<exists>a b. cs = a @ p @ b)"
    by (metis append_Cons append_Nil list.inject neq_Nil_conv)
  ultimately show ?case using Cons.IH by simp
qed

lemma split_on_neq_Nil [simp]: "split_on c s \<noteq> []"
  by (cases s) (auto split: list.splits)

lemma split_on_Cons [simp]:
  "split_on c (x # xs) = (if x = c then [] # split_on c xs else (x # hd (split_on c xs)) # tl (split_on c xs))"
  by (cases "split_on c xs") auto

declare split_on.simps(2) [simp del]

lemma join_split_on: "join [c] (split_on c s) = s"
proof (induction s)
  case Nil
  then show ?case by simp
next
  case (Cons x xs)
  then show ?case
    by (cases "split_on c xs"; cases "tl (split_on c xs)") auto
qed

lemma split_on_part: "w \<in> set (split_on c s) \<Longrightarrow> c \<notin> set w"
proof (induction s arbitrary: w)
  case Nil
  then show ?case by simp
next
  case (Cons x xs)
  have "hd (split_on c xs) \<in> set (split_on c xs)" "set (tl (split_on c xs)) \<subseteq> set (split_on c xs)"
    by (auto intro: list.set_sel(2))
  then show ?case using Cons by (auto split: if_splits)
qed

lemma upper_idem [simp]: "upper (upper s) = upper s"
proof -
  have "upper_char (upper_char c) = upper_char c" for c
  proof (cases "CHR ''a'' \<le> c \<and> c \<le> CHR ''z''")
    case True
    then have b: "97 \<le> (of_char c :: nat)" "(of_char c :: nat) \<le> 122"
      by (simp_all add: less_eq_char_def)
    then have "of_char (char_of (of_char c - 32 :: nat)) = (of_char c - 32 :: nat)"
      by simp
    then show ?thesis using True b
      by (auto simp: upper_char_def less_eq_char_def)
  next
    case False
    then show ?thesis by (auto simp: upper_char_def)
  qed
  then show ?thesis by (simp add: upper_def)
qed

lemma digit_char_props:
  assumes "d < 10"
  shows "is_digit (digit_char d)" "digit_char d \<noteq> CHR ''_''" "\<not> ws_char (digit_char d)"
    "digit_char d \<noteq> CHR ''-''" "digit_char d \<noteq> CHR ''+''" "of_char (digit_char d) = (48 + of_nat d :: int)"
proof -
  have "\<forall>d\<in>set [0..<10]. is_digit (digit_char d) \<and> digit_char d \<noteq> CHR ''_'' \<and> \<not> ws_char (digit_char d)
     \<and> digit_char d \<noteq> CHR ''-'' \<and> digit_char d \<noteq> CHR ''+'' \<and> of_char (digit_char d) = (48 + of_nat d :: int)"
    by code_simp
  moreover have "d \<in> set [0..<10]" using assms by simp
  ultimately show "is_digit (digit_char d)" "digit_char d \<noteq> CHR ''_''" "\<not> ws_char (digit_char d)"
    "digit_char d \<noteq> CHR ''-''" "digit_char d \<noteq> CHR ''+''" "of_char (digit_char d) = (48 + of_nat d :: int)"
    by blast+
qed

lemma nat_str_digits: "c \<in> set (nat_str n) \<Longrightarrow> \<exists>d<10. c = digit_char d"
proof (induction n rule: nat_str.induct)
  case (1 n)
  then show ?case
    by (auto simp: nat_str.simps[of n] split: if_splits intro: exI[of _ n] exI[of _ "n mod 10"])
qed

lemma nat_str_not_Nil [simp]: "nat_str n \<noteq> []"
  by (subst nat_str.simps) simp

lemma split_on_absent: "c \<notin> set s \<Longrightarrow> split_on c s = [s]"
  by (induction s) auto

lemma strip_id: "s \<noteq> [] \<Longrightarrow> \<not> ws_char (hd s) \<Longrightarrow> \<not> ws_char (last s) \<Longrightarrow> strip s = s"
  by (simp add: strip_def lstrip_fix hd_rev)

section \<open>Sorted sets\<close>

text \<open>Python's \<open>sorted(set(xs))\<close>.\<close>

definition sorted_set :: "'a::linorder list \<Rightarrow> 'a list" where
  "sorted_set xs = sort (remdups xs)"

lemma set_sorted_set [simp]: "set (sorted_set xs) = set xs"
  by (simp add: sorted_set_def)

lemma distinct_sorted_set [simp]: "distinct (sorted_set xs)"
  by (simp add: sorted_set_def)

lemma sorted_sorted_set [simp]: "sorted (sorted_set xs)"
  by (simp add: sorted_set_def)

lemma sorted_set_cong: "set xs = set ys \<Longrightarrow> sorted_set xs = sorted_set ys"
  by (metis distinct_sorted_set set_sorted_set sorted_distinct_set_unique sorted_sorted_set)

lemma sorted_set_fixpoint: "sorted_set xs = xs \<longleftrightarrow> sorted xs \<and> distinct xs"
  by (metis distinct_sorted_set set_sorted_set sorted_distinct_set_unique sorted_sorted_set)

lemma eq_sorted_set_iff [simp]: "xs = sorted_set xs \<longleftrightarrow> sorted xs \<and> distinct xs"
  by (metis sorted_set_fixpoint)

lemma sorted_set_idem [simp]: "sorted_set (sorted_set xs) = sorted_set xs"
  by (simp add: sorted_set_fixpoint)

lemma sorted_set_Nil [simp]: "sorted_set [] = []"
  by (simp add: sorted_set_def)

lemma sorted_set_eq_Nil [simp]: "sorted_set xs = [] \<longleftrightarrow> xs = []"
  by (metis set_empty2 set_sorted_set)

lemma sorted_map_distinct: "sorted (map f (sort_key f xs))"
  by simp

lemma distinct_map_sort_key [simp]: "distinct (map f (sort_key f xs)) \<longleftrightarrow> distinct (map f xs)"
  by (metis distinct_map distinct_sort set_sort)

lemma sort_key_Nil_iff [simp]: "sort_key f xs = [] \<longleftrightarrow> xs = []"
  by (metis length_0_conv length_sort)

lemma sort_key_fixpoint:
  "sorted (map f xs) \<Longrightarrow> sort_key f xs = xs"
  by (rule sort_key_id_if_sorted)

section \<open>JSON values\<close>

text \<open>
  The JSON data model that \<open>model_dump(mode="json")\<close> produces; \<open>JNum\<close> holds a finite
  float, which is a rational number.
\<close>

datatype json =
    JNull
  | JBool bool
  | JInt int
  | JNum rat
  | JStr string
  | JArr "json list"
  | JObj "(string \<times> json) list"

abbreviation JStrs :: "string list \<Rightarrow> json" where
  "JStrs xs \<equiv> JArr (map JStr xs)"

definition JOpt :: "('a \<Rightarrow> json) \<Rightarrow> 'a option \<Rightarrow> json" where
  "JOpt f m = (case m of None \<Rightarrow> JNull | Some a \<Rightarrow> f a)"

text \<open>Python truth value of an optional string: \<open>None\<close> and \<open>""\<close> are false.\<close>

definition opt_truthy :: "string option \<Rightarrow> bool" where
  "opt_truthy m = (case m of None \<Rightarrow> False | Some s \<Rightarrow> s \<noteq> [])"

section \<open>External canonicalization and digests\<close>

text \<open>
  \<open>jcs\<close> is \<open>rfc8785.dumps\<close> (a third-party package; \<open>None\<close> where it raises and the callers turn
  the exception into a \<open>ValueError\<close>), \<open>dumps\<close> is \<open>json.dumps\<close> with sorted keys and compact
  separators, \<open>dumps_spaced\<close> the same with the default separators, \<open>sha256\<close> maps bytes to the hexadecimal digest. Nothing is assumed about them.
\<close>

record crypto =
  jcs :: "json \<Rightarrow> string option"
  dumps :: "json \<Rightarrow> string"
  dumps_spaced :: "json \<Rightarrow> string"
  sha256 :: "string \<Rightarrow> string"

definition jcs_sha :: "crypto \<Rightarrow> json \<Rightarrow> string option" where
  "jcs_sha C v = map_option (sha256 C) (jcs C v)"

definition dumps_sha :: "crypto \<Rightarrow> json \<Rightarrow> string" where
  "dumps_sha C v = sha256 C (dumps C v)"

text \<open>A crypto instance for evaluated examples: every document has the same bytes.\<close>

definition toy_crypto :: crypto where
  "toy_crypto = \<lparr>jcs = (\<lambda>_. Some ''doc''), dumps = (\<lambda>_. ''doc''),
     dumps_spaced = (\<lambda>_. ''doc''), sha256 = (\<lambda>_. zero_sha)\<rparr>"

text \<open>\<open>evidence.canonical_json_bytes\<close>: the canonical text with its trailing newline.\<close>

definition canonical_json_sha :: "crypto \<Rightarrow> json \<Rightarrow> string" where
  "canonical_json_sha C v = sha256 C (dumps C v @ [CHR 0x0A])"

section \<open>Dictionaries\<close>

text \<open>
  A dictionary in insertion order. Assigning an existing key keeps its position, as in Python.
\<close>

fun dict_set :: "'k \<Rightarrow> 'v \<Rightarrow> ('k \<times> 'v) list \<Rightarrow> ('k \<times> 'v) list" where
  "dict_set k v [] = [(k, v)]"
| "dict_set k v ((a, b) # xs) = (if a = k then (k, v) # xs else (a, b) # dict_set k v xs)"

lemma map_of_dict_set [simp]: "map_of (dict_set k v xs) = (map_of xs)(k \<mapsto> v)"
  by (induction xs) auto

lemma keys_dict_set [simp]: "fst ` set (dict_set k v xs) = insert k (fst ` set xs)"
proof -
  have "dom (map_of (dict_set k v xs)) = insert k (dom (map_of xs))" by simp
  then show ?thesis by (simp only: dom_map_of_conv_image_fst)
qed

lemma dict_set_new: "k \<notin> fst ` set xs \<Longrightarrow> dict_set k v xs = xs @ [(k, v)]"
  by (induction xs) auto

lemma distinct_dict_set: "distinct (map fst xs) \<Longrightarrow> distinct (map fst (dict_set k v xs))"
  by (induction xs) auto

section \<open>Interface: replayed receipts\<close>

text \<open>
  The contract several modules share: \<open>build\<close> computes a receipt from an input, \<open>verify\<close> accepts a
  receipt exactly when replaying \<open>build\<close> on the input stored in it gives the receipt back.
\<close>

locale replayed_receipt =
  fixes build :: "'i \<Rightarrow> 'e + 'r"
    and verify :: "'r \<Rightarrow> 'e + unit"
    and input :: "'r \<Rightarrow> 'i"
    and admissible :: "'r \<Rightarrow> bool"
  assumes verify_replays: "admissible r \<Longrightarrow> verify r = Inr () \<longleftrightarrow> build (input r) = Inr r"
    and build_admissible: "build i = Inr r \<Longrightarrow> admissible r"
    and build_input: "build i = Inr r \<Longrightarrow> build (input r) = build i"
begin

lemma build_verifies: "build i = Inr r \<Longrightarrow> verify r = Inr ()"
  by (metis build_admissible build_input verify_replays)

lemma verified_built: "admissible r \<Longrightarrow> verify r = Inr () \<Longrightarrow> \<exists>i. build i = Inr r"
  using verify_replays by blast

lemma verified_determined:
  assumes "admissible r" "admissible s" "verify r = Inr ()" "verify s = Inr ()" "input r = input s"
  shows "r = s"
  using assms verify_replays by (metis sum.inject(2))

end

section \<open>Interface: operations that keep an invariant\<close>

text \<open>
  A store with partial operations (an operation that raises leaves the store as it was, because the
  surrounding transaction rolls back) and an invariant every successful operation keeps.
\<close>

locale guarded_store =
  fixes exec :: "'op \<Rightarrow> 's \<Rightarrow> 'e + ('r \<times> 's)"
    and inv :: "'s \<Rightarrow> bool"
  assumes exec_inv: "inv s \<Longrightarrow> exec c s = Inr (r, s') \<Longrightarrow> inv s'"
begin

fun run :: "'op list \<Rightarrow> 's \<Rightarrow> 's" where
  "run [] s = s"
| "run (c # cs) s = (case exec c s of Inl _ \<Rightarrow> run cs s | Inr (r, s') \<Rightarrow> run cs s')"

lemma run_inv: "inv s \<Longrightarrow> inv (run cs s)"
  by (induction cs arbitrary: s) (auto split: sum.splits intro: exec_inv)

lemma run_append: "run (xs @ ys) s = run ys (run xs s)"
  by (induction xs arbitrary: s) (auto split: sum.splits)

lemma run_preserves:
  assumes "\<And>c s r s'. inv s \<Longrightarrow> P s \<Longrightarrow> exec c s = Inr (r, s') \<Longrightarrow> P s'" and "inv s" and "P s"
  shows "P (run cs s)"
  using assms(2,3)
proof (induction cs arbitrary: s)
  case Nil
  then show ?case by simp
next
  case (Cons c cs)
  then show ?case
    by (auto split: sum.splits intro: assms(1) exec_inv)
qed

end

end
