(* ===== verification/Gate_Contracts.thy ===== *)
theory Gate_Contracts
  imports Gate_Prelude
begin

text \<open>
  The portable data contracts of \<open>contracts.py\<close>: enumerations as datatypes, pydantic models as
  records, and the field and model validators as functions that reject or normalise a record.
  Floats of thresholds are rationals. A failing validation is one \<open>contract_error\<close>.
\<close>

section \<open>Enumerations\<close>

datatype gate_decision = GatePass | GateQuarantine | GateRecapture | GateDefer

datatype severity = SevCritical | SevHigh | SevMedium | SevLow

datatype evidence_status = EvVerified | EvSourceBacked | EvInferred | EvUnsupported

datatype rule_check_result = CheckPass | CheckFail

datatype split = Train | Val | Test

datatype annotation_requirement = Required | Optional | NotApplicable | Unknown

datatype work_order_action = Recapture | Relabel | RemoveOrRepartition | Investigate

datatype trace_status = TraceOk | TraceError | TraceSkipped

datatype order_status = OrderOpen | OrderSimulatedComplete

fun split_str :: "split \<Rightarrow> string" where
  "split_str Train = ''train''"
| "split_str Val = ''val''"
| "split_str Test = ''test''"

fun severity_str :: "severity \<Rightarrow> string" where
  "severity_str SevCritical = ''critical''"
| "severity_str SevHigh = ''high''"
| "severity_str SevMedium = ''medium''"
| "severity_str SevLow = ''low''"

fun evidence_status_str :: "evidence_status \<Rightarrow> string" where
  "evidence_status_str EvVerified = ''verified''"
| "evidence_status_str EvSourceBacked = ''source-backed''"
| "evidence_status_str EvInferred = ''inferred''"
| "evidence_status_str EvUnsupported = ''unsupported''"

fun trace_status_str :: "trace_status \<Rightarrow> string" where
  "trace_status_str TraceOk = ''ok''"
| "trace_status_str TraceError = ''error''"
| "trace_status_str TraceSkipped = ''skipped''"

fun action_str :: "work_order_action \<Rightarrow> string" where
  "action_str Recapture = ''RECAPTURE''"
| "action_str Relabel = ''RELABEL''"
| "action_str RemoveOrRepartition = ''REMOVE_OR_REPARTITION''"
| "action_str Investigate = ''INVESTIGATE''"

fun requirement_str :: "annotation_requirement \<Rightarrow> string" where
  "requirement_str Required = ''REQUIRED''"
| "requirement_str Optional = ''OPTIONAL''"
| "requirement_str NotApplicable = ''NOT_APPLICABLE''"
| "requirement_str Unknown = ''UNKNOWN''"

section \<open>Samples and manifests\<close>

datatype contract_error =
    FieldConstraint          \<comment> \<open>a pydantic \<open>Field(...)\<close> bound\<close>
  | PathNotRelative          \<comment> \<open>paths in manifests must be relative\<close>
  | PathTraversal            \<comment> \<open>path traversal is forbidden\<close>
  | DuplicateSampleIds       \<comment> \<open>sample_id values must be unique\<close>
  | BadVocabularyLabel       \<comment> \<open>blank or oversized label\<close>
  | DuplicateVocabulary
  | DuplicateAssetIds
  | CategoryOutsideVocabulary
  | RequirementsDigestMismatch
  | RequirementsMapMismatch
  | RequirementsMapEmpty

record sample_record =
  sr_sample_id :: string
  sr_relative_path :: string
  sr_split :: split
  sr_category :: string
  sr_view :: string
  sr_condition :: string
  sr_annotation_path :: "string option"
  sr_source_sample_id :: "string option"

definition to_posix :: "string \<Rightarrow> string" where
  "to_posix s = map (\<lambda>c. if c = CHR 0x5C then CHR ''/'' else c) s"

definition portable_relative_path :: "string \<Rightarrow> contract_error + string" where
  "portable_relative_path value =
     (let normalized = to_posix value; parts = split_on (CHR ''/'') normalized in
      if take 1 normalized = ''/'' \<or> CHR '':'' \<in> set (hd parts) then Inl PathNotRelative
      else if ''..'' \<in> set parts then Inl PathTraversal
      else Inr normalized)"

definition portable_optional_path :: "string option \<Rightarrow> contract_error + string option" where
  "portable_optional_path value =
     (case value of None \<Rightarrow> Inr None
      | Some p \<Rightarrow> rbind (portable_relative_path p) (\<lambda>n. Inr (Some n)))"

definition validate_sample :: "sample_record \<Rightarrow> contract_error + sample_record" where
  "validate_sample s =
     rbind (require (sr_sample_id s \<noteq> [] \<and> sr_relative_path s \<noteq> [] \<and> sr_category s \<noteq> []
                     \<and> sr_view s \<noteq> [] \<and> sr_condition s \<noteq> []) FieldConstraint) (\<lambda>_.
     rbind (portable_relative_path (sr_relative_path s)) (\<lambda>rel.
     rbind (portable_optional_path (sr_annotation_path s)) (\<lambda>ann.
     Inr (s\<lparr>sr_relative_path := rel, sr_annotation_path := ann\<rparr>))))"

record batch_manifest =
  bm_batch_id :: string
  bm_seed :: int
  bm_samples :: "sample_record list"

definition unique_sample_ids :: "sample_record list \<Rightarrow> contract_error + sample_record list" where
  "unique_sample_ids samples =
     (if distinct (map sr_sample_id samples) then Inr samples else Inl DuplicateSampleIds)"

definition validate_manifest :: "batch_manifest \<Rightarrow> contract_error + batch_manifest" where
  "validate_manifest m =
     rbind (require (bm_batch_id m \<noteq> [] \<and> 0 \<le> bm_seed m \<and> bm_samples m \<noteq> []) FieldConstraint) (\<lambda>_.
     rbind (rmap validate_sample (bm_samples m)) (\<lambda>ss.
     rbind (unique_sample_ids ss) (\<lambda>ss'.
     Inr (m\<lparr>bm_samples := ss'\<rparr>))))"

section \<open>Batch contracts\<close>

record quality_thresholds =
  qt_expected_width :: int
  qt_expected_height :: int
  qt_min_mean_luma :: rat
  qt_max_mean_luma :: rat
  qt_min_sharpness :: rat
  qt_max_mask_fraction :: rat
  qt_min_mask_fraction :: rat
  qt_near_duplicate_hamming :: int

definition default_thresholds :: quality_thresholds where
  "default_thresholds =
     \<lparr>qt_expected_width = 128, qt_expected_height = 128, qt_min_mean_luma = 35,
      qt_max_mean_luma = 225, qt_min_sharpness = 18, qt_max_mask_fraction = 65 / 100,
      qt_min_mask_fraction = 2 / 1000, qt_near_duplicate_hamming = 4\<rparr>"

definition thresholds_ok :: "quality_thresholds \<Rightarrow> bool" where
  "thresholds_ok t \<longleftrightarrow>
     16 \<le> qt_expected_width t \<and> 16 \<le> qt_expected_height t
   \<and> 0 \<le> qt_min_mean_luma t \<and> qt_min_mean_luma t \<le> 255
   \<and> 0 \<le> qt_max_mean_luma t \<and> qt_max_mean_luma t \<le> 255
   \<and> 0 \<le> qt_min_sharpness t
   \<and> 0 < qt_max_mask_fraction t \<and> qt_max_mask_fraction t \<le> 1
   \<and> 0 \<le> qt_min_mask_fraction t \<and> qt_min_mask_fraction t < 1
   \<and> 0 \<le> qt_near_duplicate_hamming t \<and> qt_near_duplicate_hamming t \<le> 64"

record coverage_contract =
  cc_categories :: "string list"
  cc_views :: "string list"
  cc_conditions :: "string list"
  cc_min_per_cell :: int
  cc_splits :: "split list"

definition coverage_ok :: "coverage_contract \<Rightarrow> bool" where
  "coverage_ok c \<longleftrightarrow> cc_categories c \<noteq> [] \<and> cc_views c \<noteq> [] \<and> cc_conditions c \<noteq> []
     \<and> 1 \<le> cc_min_per_cell c"

record human_annotation_review =
  ha_reviewer_name :: string
  ha_note :: string
  ha_expected_asset_sha256 :: string
  ha_expected_annotation_revision :: int
  ha_expected_annotation_sha256 :: string
  ha_operator_attests_reviewed :: bool

text \<open>Both models strip their strings (\<open>str_strip_whitespace\<close>) before the checks.\<close>

definition strip_review :: "human_annotation_review \<Rightarrow> human_annotation_review" where
  "strip_review r = r\<lparr>ha_reviewer_name := trim (ha_reviewer_name r), ha_note := trim (ha_note r),
     ha_expected_asset_sha256 := trim (ha_expected_asset_sha256 r),
     ha_expected_annotation_sha256 := trim (ha_expected_annotation_sha256 r)\<rparr>"

definition human_review_ok :: "human_annotation_review \<Rightarrow> bool" where
  "human_review_ok r \<longleftrightarrow>
     2 \<le> length (ha_reviewer_name r) \<and> length (ha_reviewer_name r) \<le> 120
   \<and> 8 \<le> length (ha_note r) \<and> length (ha_note r) \<le> 2000
   \<and> is_sha256 (ha_expected_asset_sha256 r) \<and> 0 \<le> ha_expected_annotation_revision r
   \<and> is_sha256 (ha_expected_annotation_sha256 r) \<and> ha_operator_attests_reviewed r"

record sample_acceptance =
  sa_asset_id :: string
  sa_split :: split
  sa_category :: string
  sa_annotation_requirement :: annotation_requirement
  sa_human_review :: human_annotation_review

definition strip_sample_acceptance :: "sample_acceptance \<Rightarrow> sample_acceptance" where
  "strip_sample_acceptance s = s\<lparr>sa_asset_id := trim (sa_asset_id s), sa_category := trim (sa_category s),
     sa_human_review := strip_review (sa_human_review s)\<rparr>"

definition sample_acceptance_ok :: "sample_acceptance \<Rightarrow> bool" where
  "sample_acceptance_ok s \<longleftrightarrow>
     1 \<le> length (sa_asset_id s) \<and> length (sa_asset_id s) \<le> 120
   \<and> 1 \<le> length (sa_category s) \<and> length (sa_category s) \<le> 120 \<and> human_review_ok (sa_human_review s)"

record acceptance_requirements =
  ar_purpose_description :: string
  ar_category_vocabulary :: "string list"
  ar_samples :: "sample_acceptance list"

definition validate_vocabulary :: "string list \<Rightarrow> contract_error + string list" where
  "validate_vocabulary values =
     (let normalized = map strip values in
      rbind (require (\<forall>v\<in>set normalized. v \<noteq> [] \<and> length v \<le> 120) BadVocabularyLabel) (\<lambda>_.
      rbind (require (distinct normalized) DuplicateVocabulary) (\<lambda>_. Inr (sort normalized))))"

definition validate_acceptance_samples ::
    "sample_acceptance list \<Rightarrow> contract_error + sample_acceptance list" where
  "validate_acceptance_samples values =
     rbind (require (distinct (map sa_asset_id values)) DuplicateAssetIds) (\<lambda>_.
     Inr (sort_key sa_asset_id values))"

definition validate_acceptance_requirements ::
    "acceptance_requirements \<Rightarrow> contract_error + acceptance_requirements" where
  "validate_acceptance_requirements r =
     (let purpose = trim (ar_purpose_description r); vocabulary = map trim (ar_category_vocabulary r);
          samples = map strip_sample_acceptance (ar_samples r) in
      rbind (require (8 \<le> length purpose \<and> length purpose \<le> 1000 \<and> 1 \<le> length vocabulary \<and> length vocabulary \<le> 500
         \<and> 1 \<le> length samples \<and> length samples \<le> 10000 \<and> list_all sample_acceptance_ok samples) FieldConstraint) (\<lambda>_.
      rbind (validate_vocabulary vocabulary) (\<lambda>voc.
      rbind (validate_acceptance_samples samples) (\<lambda>ss.
      rbind (require (\<forall>s\<in>set ss. sa_category s \<in> set voc) CategoryOutsideVocabulary) (\<lambda>_.
      Inr (r\<lparr>ar_purpose_description := purpose, ar_category_vocabulary := voc, ar_samples := ss\<rparr>))))))"

datatype contract_schema = SchemaV1 | SchemaV2

record batch_contract =
  bc_schema_version :: contract_schema
  bc_contract_id :: string
  bc_required_splits :: "split list"
  bc_annotations_required :: bool
  bc_thresholds :: quality_thresholds
  bc_coverage :: coverage_contract
  bc_policy_version :: string
  bc_acceptance_requirements_sha256 :: "string option"
  bc_sample_annotation_requirements :: "(string \<times> annotation_requirement) list option"

definition default_batch_contract :: batch_contract where
  "default_batch_contract =
     \<lparr>bc_schema_version = SchemaV1, bc_contract_id = ''visiondata-image-demo-v1'',
      bc_required_splits = [Train, Val, Test], bc_annotations_required = True,
      bc_thresholds = default_thresholds,
      bc_coverage = \<lparr>cc_categories = [''bearing'', ''gear''], cc_views = [''front'', ''side''],
         cc_conditions = [''bright'', ''dim''], cc_min_per_cell = 1, cc_splits = [Train]\<rparr>,
      bc_policy_version = ''gate-policy-1.0'', bc_acceptance_requirements_sha256 = None,
      bc_sample_annotation_requirements = None\<rparr>"

definition validate_batch_contract :: "batch_contract \<Rightarrow> contract_error + batch_contract" where
  "validate_batch_contract c =
     (let explicit = (bc_schema_version c = SchemaV2) in
      rbind (require (thresholds_ok (bc_thresholds c) \<and> coverage_ok (bc_coverage c)
         \<and> (case bc_acceptance_requirements_sha256 c of None \<Rightarrow> True | Some d \<Rightarrow> is_sha256 d)
         \<and> (case bc_sample_annotation_requirements c of None \<Rightarrow> True
            | Some rs \<Rightarrow> (\<forall>(k, v)\<in>set rs. v \<noteq> Unknown))) FieldConstraint) (\<lambda>_.
      rbind (require (explicit = (bc_acceptance_requirements_sha256 c \<noteq> None))
         RequirementsDigestMismatch) (\<lambda>_.
      rbind (require (explicit = (bc_sample_annotation_requirements c \<noteq> None))
         RequirementsMapMismatch) (\<lambda>_.
      rbind (require (\<not> (explicit \<and> bc_sample_annotation_requirements c = Some []))
         RequirementsMapEmpty) (\<lambda>_. Inr c)))))"

section \<open>Findings, traces, opinions, work orders, results\<close>

record finding =
  fi_finding_id :: string
  fi_code :: string
  fi_severity :: severity
  fi_tool :: string
  fi_sample_ids :: "string list"
  fi_summary :: string
  fi_evidence :: "(string \<times> json) list"
  fi_evidence_status :: evidence_status
  fi_recommended_action :: string

record tool_trace =
  tt_sequence :: int
  tt_tool :: string
  tt_status :: trace_status
  tt_input_sha256 :: string
  tt_parameters :: "(string \<times> json) list"
  tt_result_sha256 :: string
  tt_finding_ids :: "string list"
  tt_error :: "string option"
  tt_contract_version :: string
  tt_contract_digest :: "string option"
  tt_adapter :: string

datatype confidence = ConfHigh | ConfMedium | ConfLow

record confidence_axes =
  ca_E :: confidence
  ca_T :: confidence
  ca_A :: confidence
  ca_M :: confidence

record agent_opinion =
  ao_role_id :: string
  ao_display_name :: string
  ao_focus :: string
  ao_evidence_refs :: "string list"
  ao_claims :: "string list"
  ao_challenge :: string
  ao_recommendation :: gate_decision
  ao_confidence_axes :: confidence_axes
  ao_limitations :: "string list"
  ao_required_additional_evidence :: "string list"
  ao_counterfactual_guard :: string

record council_trace =
  ct_backend :: string
  ct_shared_model_disclosure :: string
  ct_independent_opinions :: "agent_opinion list"
  ct_cross_examination :: "string list"
  ct_unresolved_objections :: "string list"

record work_order =
  wo_work_order_id :: string
  wo_action :: work_order_action
  wo_priority :: severity
  wo_reason_codes :: "string list"
  wo_sample_ids :: "string list"
  wo_replacement_requirements :: "(string \<times> json) list"
  wo_status :: order_status

section \<open>JSON projections\<close>

definition dump_sample :: "sample_record \<Rightarrow> json" where
  "dump_sample s = JObj
     [(''sample_id'', JStr (sr_sample_id s)), (''relative_path'', JStr (sr_relative_path s)),
      (''split'', JStr (split_str (sr_split s))), (''category'', JStr (sr_category s)),
      (''view'', JStr (sr_view s)), (''condition'', JStr (sr_condition s)),
      (''annotation_path'', JOpt JStr (sr_annotation_path s)),
      (''source_sample_id'', JOpt JStr (sr_source_sample_id s))]"

definition dump_manifest :: "batch_manifest \<Rightarrow> json" where
  "dump_manifest m = JObj
     [(''schema_version'', JStr ''1.0''), (''batch_id'', JStr (bm_batch_id m)),
      (''seed'', JInt (bm_seed m)), (''samples'', JArr (map dump_sample (bm_samples m)))]"

definition dump_thresholds :: "quality_thresholds \<Rightarrow> json" where
  "dump_thresholds t = JObj
     [(''expected_width'', JInt (qt_expected_width t)),
      (''expected_height'', JInt (qt_expected_height t)),
      (''min_mean_luma'', JNum (qt_min_mean_luma t)),
      (''max_mean_luma'', JNum (qt_max_mean_luma t)),
      (''min_sharpness'', JNum (qt_min_sharpness t)),
      (''max_mask_fraction'', JNum (qt_max_mask_fraction t)),
      (''min_mask_fraction'', JNum (qt_min_mask_fraction t)),
      (''near_duplicate_hamming'', JInt (qt_near_duplicate_hamming t))]"

definition dump_coverage :: "coverage_contract \<Rightarrow> json" where
  "dump_coverage c = JObj
     [(''categories'', JStrs (cc_categories c)), (''views'', JStrs (cc_views c)),
      (''conditions'', JStrs (cc_conditions c)), (''min_per_cell'', JInt (cc_min_per_cell c)),
      (''splits'', JStrs (map split_str (cc_splits c)))]"

text \<open>The two optional v2 fields are left out of the serialization when they are \<open>None\<close>.\<close>

definition dump_contract :: "batch_contract \<Rightarrow> json" where
  "dump_contract c = JObj (
     [(''schema_version'', JStr (case bc_schema_version c of SchemaV1 \<Rightarrow> ''1.0'' | SchemaV2 \<Rightarrow> ''2.0'')),
      (''contract_id'', JStr (bc_contract_id c)),
      (''intended_use'', JStr ''sandbox_experiment_training_pool''),
      (''required_splits'', JStrs (map split_str (bc_required_splits c))),
      (''annotations_required'', JBool (bc_annotations_required c)),
      (''thresholds'', dump_thresholds (bc_thresholds c)),
      (''coverage'', dump_coverage (bc_coverage c)),
      (''policy_version'', JStr (bc_policy_version c))]
     @ (case bc_acceptance_requirements_sha256 c of None \<Rightarrow> []
        | Some d \<Rightarrow> [(''acceptance_requirements_sha256'', JStr d)])
     @ (case bc_sample_annotation_requirements c of None \<Rightarrow> []
        | Some rs \<Rightarrow> [(''sample_annotation_requirements'',
             JObj (map (\<lambda>(k, v). (k, JStr (requirement_str v))) rs))]))"

definition dump_tool_trace :: "tool_trace \<Rightarrow> json" where
  "dump_tool_trace t = JObj
     [(''sequence'', JInt (tt_sequence t)), (''tool'', JStr (tt_tool t)),
      (''status'', JStr (trace_status_str (tt_status t))),
      (''input_sha256'', JStr (tt_input_sha256 t)), (''parameters'', JObj (tt_parameters t)),
      (''result_sha256'', JStr (tt_result_sha256 t)),
      (''finding_ids'', JStrs (tt_finding_ids t)), (''error'', JOpt JStr (tt_error t)),
      (''contract_version'', JStr (tt_contract_version t)),
      (''contract_digest'', JOpt JStr (tt_contract_digest t)),
      (''adapter'', JStr (tt_adapter t))]"

section \<open>Lemmas\<close>

lemma to_posix_idem: "CHR 0x5C \<notin> set s \<Longrightarrow> to_posix s = s"
  by (auto simp: to_posix_def intro: map_idI)

lemma to_posix_no_backslash: "CHR 0x5C \<notin> set (to_posix s)"
  by (auto simp: to_posix_def)

lemma to_posix_to_posix [simp]: "to_posix (to_posix s) = to_posix s"
  by (simp add: to_posix_idem to_posix_no_backslash)

lemma portable_relative_path_Inr:
  "portable_relative_path p = Inr q \<longleftrightarrow>
     q = to_posix p \<and> take 1 q \<noteq> ''/'' \<and> CHR '':'' \<notin> set (hd (split_on (CHR ''/'') q))
     \<and> ''..'' \<notin> set (split_on (CHR ''/'') q)"
  by (auto simp: portable_relative_path_def Let_def)

lemma validate_sample_id: "validate_sample s = Inr s' \<Longrightarrow> sr_sample_id s' = sr_sample_id s"
  by (auto simp: validate_sample_def)

lemma validate_manifest_ids:
  "validate_manifest m = Inr m' \<Longrightarrow> map sr_sample_id (bm_samples m') = map sr_sample_id (bm_samples m)"
  by (auto simp: validate_manifest_def unique_sample_ids_def validate_sample_id
      intro: rmap_map split: if_splits)

lemma portable_path_safe:
  "portable_relative_path p = Inr q \<Longrightarrow>
     take 1 q \<noteq> ''/'' \<and> ''..'' \<notin> set (split_on (CHR ''/'') q) \<and> CHR 0x5C \<notin> set q
     \<and> portable_relative_path q = Inr q"
  by (auto simp: portable_relative_path_Inr to_posix_no_backslash)

lemma validate_sample_idem: "validate_sample s = Inr s' \<Longrightarrow> validate_sample s' = Inr s'"
  by (auto simp: validate_sample_def portable_optional_path_def portable_relative_path_Inr
      split: option.splits)
     (auto simp: to_posix_def)

lemma validate_sample_path:
  "validate_sample s = Inr s' \<Longrightarrow> portable_relative_path (sr_relative_path s') = Inr (sr_relative_path s')"
  by (auto simp: validate_sample_def dest: portable_path_safe)

text \<open>A small batch for evaluated examples.\<close>

definition demo_sample :: sample_record where
  "demo_sample = \<lparr>sr_sample_id = ''s1'', sr_relative_path = ''a/s1.png'', sr_split = Train,
     sr_category = ''gear'', sr_view = ''front'', sr_condition = ''dim'',
     sr_annotation_path = None, sr_source_sample_id = None\<rparr>"

definition demo_manifest :: batch_manifest where
  "demo_manifest = \<lparr>bm_batch_id = ''b1'', bm_seed = 7, bm_samples = [demo_sample]\<rparr>"

definition demo_trace :: tool_trace where
  "demo_trace = \<lparr>tt_sequence = 1, tt_tool = ''image_quality'', tt_status = TraceOk,
     tt_input_sha256 = zero_sha, tt_parameters = [], tt_result_sha256 = zero_sha,
     tt_finding_ids = [], tt_error = None, tt_contract_version = ''1'',
     tt_contract_digest = None, tt_adapter = ''local''\<rparr>"

definition demo_finding :: finding where
  "demo_finding = \<lparr>fi_finding_id = ''f1'', fi_code = ''LOW_SHARPNESS'', fi_severity = SevHigh,
     fi_tool = ''image_quality'', fi_sample_ids = [''s1''], fi_summary = ''blurred'',
     fi_evidence = [], fi_evidence_status = EvVerified, fi_recommended_action = ''recapture''\<rparr>"

section \<open>Properties\<close>

text \<open>Validating a manifest is idempotent, keeps the sample identifiers, which are then distinct, and
  leaves only relative paths without back slash and without a parent component.\<close>

theorem manifest_validation_sound:
  assumes "validate_manifest m = Inr m'"
  shows "validate_manifest m' = Inr m' \<and> distinct (map sr_sample_id (bm_samples m'))
    \<and> map sr_sample_id (bm_samples m') = map sr_sample_id (bm_samples m)
    \<and> (\<forall>s\<in>set (bm_samples m'). take 1 (sr_relative_path s) \<noteq> ''/''
         \<and> CHR 0x5C \<notin> set (sr_relative_path s)
         \<and> ''..'' \<notin> set (split_on (CHR ''/'') (sr_relative_path s)))"
proof -
  obtain ss where ss: "rmap validate_sample (bm_samples m) = Inr ss" "m' = m\<lparr>bm_samples := ss\<rparr>"
    "distinct (map sr_sample_id ss)" "bm_batch_id m \<noteq> []" "0 \<le> bm_seed m" "bm_samples m \<noteq> []"
    using assms by (auto simp: validate_manifest_def unique_sample_ids_def split: if_splits)
  have i: "rmap validate_sample ss = Inr ss" by (rule rmap_idem[OF validate_sample_idem ss(1)])
  have ne: "ss \<noteq> []" using rmap_length[OF ss(1)] ss(6) by auto
  have "portable_relative_path (sr_relative_path s) = Inr (sr_relative_path s)" if "s \<in> set ss" for s
    using that rmap_set_iff[OF ss(1)] validate_sample_path by auto
  then have safe: "\<forall>s\<in>set ss. take 1 (sr_relative_path s) \<noteq> ''/'' \<and> CHR 0x5C \<notin> set (sr_relative_path s)
      \<and> ''..'' \<notin> set (split_on (CHR ''/'') (sr_relative_path s))"
    using portable_path_safe by blast
  have "validate_manifest m' = Inr m'"
    using ss ne by (simp add: validate_manifest_def i unique_sample_ids_def)
  then show ?thesis
    using validate_manifest_ids[OF assms] ss(3) safe unfolding ss(2) by simp
qed

end
