(* ===== verification/Runtime_Safety.thy ===== *)
theory Runtime_Safety
  imports Gate_Contracts
begin

text \<open>
  \<open>runtime_safety.py\<close>: the six executable invariants evaluated before a governed transition, the
  sealed receipt, its replay-based verification and the fail-fast wrapper. The detail texts are the
  constructors of \<open>inv_detail\<close>; \<open>inv_detail_text\<close> gives the wording that enters the digest.
\<close>

section \<open>Facts about a proposed transition\<close>

datatype scenario_profile = Generic | Industrial | Automotive | Finance | Education | Wearable

datatype runtime_action =
  ActGatePass | ActExecuteCapa | ActExecuteChildRun | ActMachineWrite | ActProductionRelease | ActOther

datatype actor_kind = ActorAgent | ActorHuman | ActorSystem

datatype invariant_status = InvPass | InvFail | InvNotApplicable

datatype invariant_id = INV1 | INV2 | INV3 | INV4 | INV5 | INV6

fun scenario_str :: "scenario_profile \<Rightarrow> string" where
  "scenario_str Generic = ''generic''"
| "scenario_str Industrial = ''industrial''"
| "scenario_str Automotive = ''automotive''"
| "scenario_str Finance = ''finance''"
| "scenario_str Education = ''education''"
| "scenario_str Wearable = ''wearable''"

fun runtime_action_str :: "runtime_action \<Rightarrow> string" where
  "runtime_action_str ActGatePass = ''GATE_PASS''"
| "runtime_action_str ActExecuteCapa = ''EXECUTE_CAPA''"
| "runtime_action_str ActExecuteChildRun = ''EXECUTE_CHILD_RUN''"
| "runtime_action_str ActMachineWrite = ''MACHINE_WRITE''"
| "runtime_action_str ActProductionRelease = ''PRODUCTION_RELEASE''"
| "runtime_action_str ActOther = ''OTHER''"

fun actor_str :: "actor_kind \<Rightarrow> string" where
  "actor_str ActorAgent = ''AGENT''"
| "actor_str ActorHuman = ''HUMAN''"
| "actor_str ActorSystem = ''SYSTEM''"

fun invariant_status_str :: "invariant_status \<Rightarrow> string" where
  "invariant_status_str InvPass = ''PASS''"
| "invariant_status_str InvFail = ''FAIL''"
| "invariant_status_str InvNotApplicable = ''NOT_APPLICABLE''"

fun invariant_id_str :: "invariant_id \<Rightarrow> string" where
  "invariant_id_str INV1 = ''INV-1''"
| "invariant_id_str INV2 = ''INV-2''"
| "invariant_id_str INV3 = ''INV-3''"
| "invariant_id_str INV4 = ''INV-4''"
| "invariant_id_str INV5 = ''INV-5''"
| "invariant_id_str INV6 = ''INV-6''"

record invariant_context =
  ic_action :: runtime_action
  ic_actor_kind :: actor_kind
  ic_scenario_profile :: scenario_profile
  ic_input_sha256 :: string
  ic_failed_required_rule_check_ids :: "string list"
  ic_named_human_approver :: "string option"
  ic_parent_case_sha256 :: "string option"
  ic_parent_source_readonly :: "bool option"
  ic_machine_write_permitted :: bool
  ic_production_release_allowed :: bool
  ic_open_responsibilities_count :: int

datatype safety_error =
    ContextConstraint             \<comment> \<open>pydantic validation of the context\<close>
  | InvariantPayloadNotCanonical
  | ContextDigestMismatch
  | OutcomesMismatch
  | DispositionMismatch
  | ReceiptDigestMismatch

text \<open>\<open>sorted({item.strip() for item in value if item.strip()})\<close>, used by several validators.\<close>

definition normalize_string_set :: "string list \<Rightarrow> string list" where
  "normalize_string_set value = sorted_set (filter (\<lambda>s. s \<noteq> []) (map strip value))"

definition reject_blank_approver :: "string option \<Rightarrow> string option" where
  "reject_blank_approver value =
     (case value of None \<Rightarrow> None | Some v \<Rightarrow> if strip v = [] then None else Some (strip v))"

definition make_invariant_context :: "invariant_context \<Rightarrow> safety_error + invariant_context" where
  "make_invariant_context raw =
     (let c = raw\<lparr>ic_input_sha256 := trim (ic_input_sha256 raw),
                  ic_parent_case_sha256 := map_option trim (ic_parent_case_sha256 raw)\<rparr> in
      rbind (require (is_sha256 (ic_input_sha256 c)
         \<and> (case ic_parent_case_sha256 c of None \<Rightarrow> True | Some d \<Rightarrow> is_sha256 d)
         \<and> 0 \<le> ic_open_responsibilities_count c) ContextConstraint) (\<lambda>_.
      Inr (c\<lparr>ic_failed_required_rule_check_ids :=
                normalize_string_set (ic_failed_required_rule_check_ids c),
             ic_named_human_approver := reject_blank_approver (ic_named_human_approver c)\<rparr>)))"

section \<open>Required rule checks per scenario\<close>

definition SCENARIO_PASS_GUARD_CHECK_IDS :: "string list" where
  "SCENARIO_PASS_GUARD_CHECK_IDS =
     [''RC-GOVERNANCE-SCOPE'', ''RC-COUNTERFACTUAL-REMOVE-1'',
      ''RC-COUNTERFACTUAL-TOOL-REMOVE-1'', ''RC-COUNTERFACTUAL-RULE-STABILITY-1'']"

definition INDUSTRIAL_PASS_MANDATORY_CHECK_IDS :: "string list" where
  "INDUSTRIAL_PASS_MANDATORY_CHECK_IDS =
     [''RC-TOOL-COUNT'', ''RC-SCENARIO-TOOLS'', ''RC-TRACE-OK'', ''RC-EVIDENCE-QUALITY'']"

definition required_gate_check_ids :: "scenario_profile \<Rightarrow> string list" where
  "required_gate_check_ids profile =
     SCENARIO_PASS_GUARD_CHECK_IDS
     @ (if profile = Industrial then INDUSTRIAL_PASS_MANDATORY_CHECK_IDS else [])"

section \<open>Outcomes\<close>

datatype inv_detail =
    ChecksFailed | ChecksPassed | NotGatePass
  | ApproverBound | ApproverMissing | NotCapa
  | LineageBound | LineageUnbound | NotChildRun
  | MachineWriteForbidden | MachineWriteDisabled
  | ReleaseRestricted | ReleaseDisabled
  | OpenResponsibilities | NoOpenResponsibility | NotRelease

fun inv_detail_text :: "inv_detail \<Rightarrow> string" where
  "inv_detail_text ChecksFailed = ''Required PASS-level tool or evidence checks failed.''"
| "inv_detail_text ChecksPassed = ''All required PASS-level tool and evidence checks passed.''"
| "inv_detail_text NotGatePass = ''The proposed action is not a Gate PASS transition.''"
| "inv_detail_text ApproverBound = ''CAPA execution is bound to a named human approver.''"
| "inv_detail_text ApproverMissing =
     ''CAPA execution requires a named, non-anonymous human approver.''"
| "inv_detail_text NotCapa = ''The proposed action does not execute CAPA.''"
| "inv_detail_text LineageBound =
     ''Child Run is bound to an immutable parent digest and read-only source.''"
| "inv_detail_text LineageUnbound =
     ''Child Run requires a parent digest and an explicitly read-only parent source.''"
| "inv_detail_text NotChildRun = ''The proposed action does not execute a Child Run.''"
| "inv_detail_text MachineWriteForbidden = ''Direct machine or PLC write is forbidden.''"
| "inv_detail_text MachineWriteDisabled = ''Direct machine and PLC write remains disabled.''"
| "inv_detail_text ReleaseRestricted =
     ''Production release authority is restricted to a human decision.''"
| "inv_detail_text ReleaseDisabled =
     ''Agent and system production-release authority remains disabled.''"
| "inv_detail_text OpenResponsibilities =
     ''Open responsibilities require fail-closed transfer to investigation.''"
| "inv_detail_text NoOpenResponsibility =
     ''No open responsibility blocks the proposed human release transition.''"
| "inv_detail_text NotRelease = ''The proposed action is not a production-release transition.''"

record invariant_outcome =
  io_invariant_id :: invariant_id
  io_status :: invariant_status
  io_detail :: inv_detail
  io_related_refs :: "string list"

definition outcome ::
    "invariant_id \<Rightarrow> invariant_status \<Rightarrow> inv_detail \<Rightarrow> string list \<Rightarrow> invariant_outcome" where
  "outcome i st d refs =
     \<lparr>io_invariant_id = i, io_status = st, io_detail = d,
      io_related_refs = sorted_set (filter (\<lambda>r. r \<noteq> []) refs)\<rparr>"

definition approver_text :: "invariant_context \<Rightarrow> string" where
  "approver_text c = strip (case ic_named_human_approver c of None \<Rightarrow> [] | Some a \<Rightarrow> a)"

definition valid_approver :: "invariant_context \<Rightarrow> bool" where
  "valid_approver c \<longleftrightarrow> approver_text c \<noteq> [] \<and> upper (approver_text c) \<noteq> ''ANONYMOUS''"

definition lineage_bound :: "invariant_context \<Rightarrow> bool" where
  "lineage_bound c \<longleftrightarrow> opt_truthy (ic_parent_case_sha256 c) \<and> ic_parent_source_readonly c = Some True"

definition opt_bool_str :: "bool option \<Rightarrow> string" where
  "opt_bool_str b = (case b of None \<Rightarrow> ''none'' | Some v \<Rightarrow> bool_str v)"

definition eval_inv1 :: "invariant_context \<Rightarrow> invariant_outcome" where
  "eval_inv1 c =
     (if ic_action c = ActGatePass
      then (let failed = ic_failed_required_rule_check_ids c in
        outcome INV1 (if failed \<noteq> [] then InvFail else InvPass)
          (if failed \<noteq> [] then ChecksFailed else ChecksPassed)
          (map (\<lambda>i. ''rule-check:'' @ i) failed))
      else outcome INV1 InvNotApplicable NotGatePass [])"

definition eval_inv2 :: "invariant_context \<Rightarrow> invariant_outcome" where
  "eval_inv2 c =
     (if ic_action c = ActExecuteCapa
      then outcome INV2 (if valid_approver c then InvPass else InvFail)
          (if valid_approver c then ApproverBound else ApproverMissing)
          [if valid_approver c then ''approver:'' @ approver_text c else ''approver:missing'']
      else outcome INV2 InvNotApplicable NotCapa [])"

definition eval_inv3 :: "invariant_context \<Rightarrow> invariant_outcome" where
  "eval_inv3 c =
     (if ic_action c = ActExecuteChildRun
      then outcome INV3 (if lineage_bound c then InvPass else InvFail)
          (if lineage_bound c then LineageBound else LineageUnbound)
          [if opt_truthy (ic_parent_case_sha256 c)
           then ''parent-sha256:'' @ the (ic_parent_case_sha256 c) else ''parent-sha256:missing'',
           ''parent-readonly:'' @ opt_bool_str (ic_parent_source_readonly c)]
      else outcome INV3 InvNotApplicable NotChildRun [])"

definition eval_inv4 :: "invariant_context \<Rightarrow> invariant_outcome" where
  "eval_inv4 c =
     (let violation = ic_machine_write_permitted c \<or> ic_action c = ActMachineWrite in
      outcome INV4 (if violation then InvFail else InvPass)
        (if violation then MachineWriteForbidden else MachineWriteDisabled)
        [''machine-write-permitted:'' @ bool_str (ic_machine_write_permitted c)])"

definition eval_inv5 :: "invariant_context \<Rightarrow> invariant_outcome" where
  "eval_inv5 c =
     (let unauthorized = ic_production_release_allowed c
            \<or> (ic_action c = ActProductionRelease \<and> ic_actor_kind c \<noteq> ActorHuman) in
      outcome INV5 (if unauthorized then InvFail else InvPass)
        (if unauthorized then ReleaseRestricted else ReleaseDisabled)
        [''actor:'' @ actor_str (ic_actor_kind c),
         ''production-release-allowed:'' @ bool_str (ic_production_release_allowed c)])"

definition eval_inv6 :: "invariant_context \<Rightarrow> invariant_outcome" where
  "eval_inv6 c =
     (if ic_action c = ActProductionRelease
      then outcome INV6 (if 0 < ic_open_responsibilities_count c then InvFail else InvPass)
          (if 0 < ic_open_responsibilities_count c then OpenResponsibilities else NoOpenResponsibility)
          [''open-responsibilities:'' @ int_str (ic_open_responsibilities_count c)]
      else outcome INV6 InvNotApplicable NotRelease [])"

definition evaluate_outcomes :: "invariant_context \<Rightarrow> invariant_outcome list" where
  "evaluate_outcomes c =
     [eval_inv1 c, eval_inv2 c, eval_inv3 c, eval_inv4 c, eval_inv5 c, eval_inv6 c]"

section \<open>Receipts\<close>

record invariant_receipt =
  ir_context :: invariant_context
  ir_context_sha256 :: string
  ir_outcomes :: "invariant_outcome list"
  ir_allowed :: bool
  ir_receipt_sha256 :: string

definition dump_context :: "invariant_context \<Rightarrow> json" where
  "dump_context c = JObj
     [(''schema_version'', JStr ''visiondata-gate.runtime-invariant-context.v1''),
      (''action'', JStr (runtime_action_str (ic_action c))),
      (''actor_kind'', JStr (actor_str (ic_actor_kind c))),
      (''scenario_profile'', JStr (scenario_str (ic_scenario_profile c))),
      (''input_sha256'', JStr (ic_input_sha256 c)),
      (''failed_required_rule_check_ids'', JStrs (ic_failed_required_rule_check_ids c)),
      (''named_human_approver'', JOpt JStr (ic_named_human_approver c)),
      (''parent_case_sha256'', JOpt JStr (ic_parent_case_sha256 c)),
      (''parent_source_readonly'', JOpt JBool (ic_parent_source_readonly c)),
      (''machine_write_permitted'', JBool (ic_machine_write_permitted c)),
      (''production_release_allowed'', JBool (ic_production_release_allowed c)),
      (''open_responsibilities_count'', JInt (ic_open_responsibilities_count c))]"

definition dump_outcome :: "invariant_outcome \<Rightarrow> json" where
  "dump_outcome o1 = JObj
     [(''invariant_id'', JStr (invariant_id_str (io_invariant_id o1))),
      (''status'', JStr (invariant_status_str (io_status o1))),
      (''detail'', JStr (inv_detail_text (io_detail o1))),
      (''related_refs'', JStrs (io_related_refs o1))]"

text \<open>\<open>draft.model_dump(mode="json", exclude={"receipt_sha256"})\<close>.\<close>

definition invariant_receipt_payload :: "invariant_receipt \<Rightarrow> json" where
  "invariant_receipt_payload r = JObj
     [(''schema_version'', JStr ''visiondata-gate.runtime-invariant-receipt.v1''),
      (''checker_version'', JStr ''runtime-invariant-checker.v1''),
      (''context'', dump_context (ir_context r)),
      (''context_sha256'', JStr (ir_context_sha256 r)),
      (''outcomes'', JArr (map dump_outcome (ir_outcomes r))),
      (''allowed'', JBool (ir_allowed r))]"

definition build_runtime_invariant_receipt ::
    "crypto \<Rightarrow> invariant_context \<Rightarrow> safety_error + invariant_receipt" where
  "build_runtime_invariant_receipt C c =
     (let outcomes = evaluate_outcomes c;
          allowed = (\<not> (\<exists>o1\<in>set outcomes. io_status o1 = InvFail)) in
      rbind (of_opt InvariantPayloadNotCanonical (jcs_sha C (dump_context c))) (\<lambda>context_sha.
      (let draft = \<lparr>ir_context = c, ir_context_sha256 = context_sha, ir_outcomes = outcomes,
                    ir_allowed = allowed, ir_receipt_sha256 = zero_sha\<rparr> in
       rbind (of_opt InvariantPayloadNotCanonical (jcs_sha C (invariant_receipt_payload draft)))
         (\<lambda>d. Inr (draft\<lparr>ir_receipt_sha256 := d\<rparr>)))))"

definition verify_runtime_invariant_receipt ::
    "crypto \<Rightarrow> invariant_receipt \<Rightarrow> safety_error + unit" where
  "verify_runtime_invariant_receipt C r =
     rbind (build_runtime_invariant_receipt C (ir_context r)) (\<lambda>expected.
     rbind (require (ir_context_sha256 r = ir_context_sha256 expected) ContextDigestMismatch) (\<lambda>_.
     rbind (require (ir_outcomes r = ir_outcomes expected) OutcomesMismatch) (\<lambda>_.
     rbind (require (ir_allowed r = ir_allowed expected) DispositionMismatch) (\<lambda>_.
     require (ir_receipt_sha256 r = ir_receipt_sha256 expected) ReceiptDigestMismatch))))"

text \<open>
  \<open>assert_runtime_invariants\<close> raises \<open>SafetyInvariantViolation(receipt)\<close> with the failed receipt.
\<close>

datatype assert_error = AssertBuild safety_error | SafetyInvariantViolation invariant_receipt

definition assert_runtime_invariants ::
    "crypto \<Rightarrow> invariant_context \<Rightarrow> assert_error + invariant_receipt" where
  "assert_runtime_invariants C c =
     rbind (lift_err AssertBuild (build_runtime_invariant_receipt C c)) (\<lambda>r.
     if \<not> ir_allowed r then Inl (SafetyInvariantViolation r) else Inr r)"

section \<open>Lemmas\<close>

lemma outcome_sel [simp]:
  "io_invariant_id (outcome i st d refs) = i" "io_status (outcome i st d refs) = st"
  "io_detail (outcome i st d refs) = d"
  by (simp_all add: outcome_def)

lemma eval_ids:
  "map io_invariant_id (evaluate_outcomes c) = [INV1, INV2, INV3, INV4, INV5, INV6]"
  by (simp add: evaluate_outcomes_def eval_inv1_def eval_inv2_def eval_inv3_def eval_inv4_def
      eval_inv5_def eval_inv6_def Let_def)

text \<open>Which invariant fails, one lemma per invariant.\<close>

lemma eval_fail_iff:
  "io_status (eval_inv1 c) = InvFail \<longleftrightarrow>
     ic_action c = ActGatePass \<and> ic_failed_required_rule_check_ids c \<noteq> []"
  "io_status (eval_inv2 c) = InvFail \<longleftrightarrow> ic_action c = ActExecuteCapa \<and> \<not> valid_approver c"
  "io_status (eval_inv3 c) = InvFail \<longleftrightarrow> ic_action c = ActExecuteChildRun \<and> \<not> lineage_bound c"
  "io_status (eval_inv4 c) = InvFail \<longleftrightarrow>
     ic_machine_write_permitted c \<or> ic_action c = ActMachineWrite"
  "io_status (eval_inv5 c) = InvFail \<longleftrightarrow> ic_production_release_allowed c
     \<or> (ic_action c = ActProductionRelease \<and> ic_actor_kind c \<noteq> ActorHuman)"
  "io_status (eval_inv6 c) = InvFail \<longleftrightarrow>
     ic_action c = ActProductionRelease \<and> 0 < ic_open_responsibilities_count c"
  by (auto simp: eval_inv1_def eval_inv2_def eval_inv3_def eval_inv4_def eval_inv5_def
      eval_inv6_def Let_def)

lemma build_receipt_fields:
  assumes "build_runtime_invariant_receipt C c = Inr r"
  shows "ir_context r = c" "ir_outcomes r = evaluate_outcomes c"
    "ir_allowed r = (\<not> (\<exists>o1\<in>set (evaluate_outcomes c). io_status o1 = InvFail))"
    "jcs_sha C (dump_context c) = Some (ir_context_sha256 r)"
    "jcs_sha C (invariant_receipt_payload r) = Some (ir_receipt_sha256 r)"
  using assms
  by (auto simp: build_runtime_invariant_receipt_def Let_def invariant_receipt_payload_def)

lemma ex_evaluate_outcomes:
  "(\<exists>o1\<in>set (evaluate_outcomes c). P o1) \<longleftrightarrow> P (eval_inv1 c) \<or> P (eval_inv2 c) \<or> P (eval_inv3 c)
     \<or> P (eval_inv4 c) \<or> P (eval_inv5 c) \<or> P (eval_inv6 c)"
  by (simp add: evaluate_outcomes_def)

interpretation rsr: replayed_receipt "build_runtime_invariant_receipt C"
  "verify_runtime_invariant_receipt C" ir_context "\<lambda>_. True" for C
proof
  fix r
  show "verify_runtime_invariant_receipt C r = Inr ()
      \<longleftrightarrow> build_runtime_invariant_receipt C (ir_context r) = Inr r"
    by (auto simp: verify_runtime_invariant_receipt_def dest: build_receipt_fields(1)
        intro!: invariant_receipt.equality)
next
  fix i r assume "build_runtime_invariant_receipt C i = Inr r"
  then show "build_runtime_invariant_receipt C (ir_context r) = build_runtime_invariant_receipt C i"
    by (simp add: build_receipt_fields(1))
qed simp

text \<open>The abstract disposition: what each governed action needs.\<close>

definition transition_permitted :: "invariant_context \<Rightarrow> bool" where
  "transition_permitted c \<longleftrightarrow>
     \<not> ic_machine_write_permitted c \<and> \<not> ic_production_release_allowed c
   \<and> (case ic_action c of
        ActGatePass \<Rightarrow> ic_failed_required_rule_check_ids c = []
      | ActExecuteCapa \<Rightarrow> valid_approver c
      | ActExecuteChildRun \<Rightarrow> lineage_bound c
      | ActMachineWrite \<Rightarrow> False
      | ActProductionRelease \<Rightarrow>
          ic_actor_kind c = ActorHuman \<and> ic_open_responsibilities_count c \<le> 0
      | ActOther \<Rightarrow> True)"

lemma allowed_permitted:
  "build_runtime_invariant_receipt C c = Inr r \<Longrightarrow> ir_allowed r \<longleftrightarrow> transition_permitted c"
  by (cases "ic_action c")
     (auto simp: build_receipt_fields ex_evaluate_outcomes eval_fail_iff transition_permitted_def)

lemma build_receipt_exists:
  "(\<exists>r. build_runtime_invariant_receipt C c = Inr r) \<or>
   build_runtime_invariant_receipt C c = Inl InvariantPayloadNotCanonical"
  by (cases "build_runtime_invariant_receipt C c")
     (auto simp: build_runtime_invariant_receipt_def Let_def rbind_eq_Inl)

definition demo_context :: invariant_context where
  "demo_context = \<lparr>ic_action = ActExecuteCapa, ic_actor_kind = ActorAgent,
     ic_scenario_profile = Industrial, ic_input_sha256 = zero_sha,
     ic_failed_required_rule_check_ids = [], ic_named_human_approver = Some ''Li Wei'',
     ic_parent_case_sha256 = None, ic_parent_source_readonly = None,
     ic_machine_write_permitted = False, ic_production_release_allowed = False,
     ic_open_responsibilities_count = 0\<rparr>"

lemma demo_receipt_builds: "\<exists>r. build_runtime_invariant_receipt toy_crypto demo_context = Inr r"
  by (simp add: build_runtime_invariant_receipt_def Let_def jcs_sha_def toy_crypto_def)

section \<open>Properties\<close>

text \<open>C10: a receipt allows a transition exactly when the abstract policy permits it, lists the six invariants
  in order, and never allows a machine write or a production release by an agent or the system.\<close>

theorem runtime_receipt_decides:
  assumes "build_runtime_invariant_receipt C c = Inr r"
  shows "(ir_allowed r \<longleftrightarrow> transition_permitted c)
    \<and> map io_invariant_id (ir_outcomes r) = [INV1, INV2, INV3, INV4, INV5, INV6]
    \<and> (ir_allowed r \<longrightarrow> \<not> ic_machine_write_permitted c \<and> ic_action c \<noteq> ActMachineWrite
        \<and> (ic_action c = ActProductionRelease \<longrightarrow> ic_actor_kind c = ActorHuman))"
  using allowed_permitted[OF assms] build_receipt_fields(2)[OF assms] eval_ids[of c]
  by (auto simp: transition_permitted_def)

theorem runtime_receipt_decides_witness:
  "\<exists>r. build_runtime_invariant_receipt toy_crypto demo_context = Inr r \<and> ir_allowed r
     \<and> \<not> transition_permitted (demo_context\<lparr>ic_named_human_approver := Some '' anonymous ''\<rparr>)"
proof -
  obtain r where r: "build_runtime_invariant_receipt toy_crypto demo_context = Inr r"
    using demo_receipt_builds ..
  have "transition_permitted demo_context"
    "\<not> transition_permitted (demo_context\<lparr>ic_named_human_approver := Some '' anonymous ''\<rparr>)"
    by code_simp+
  then show ?thesis using r runtime_receipt_decides[OF r] by blast
qed

text \<open>A built receipt verifies, and it is the only verified receipt for its context: changing any
  outcome, disposition or digest is detected.\<close>

theorem runtime_receipt_replays:
  assumes "build_runtime_invariant_receipt C c = Inr r"
  shows "verify_runtime_invariant_receipt C r = Inr ()
    \<and> (verify_runtime_invariant_receipt C s = Inr () \<and> ir_context s = c \<longleftrightarrow> s = r)"
proof -
  have v: "verify_runtime_invariant_receipt C r = Inr ()" by (rule rsr.build_verifies[OF assms])
  have "s = r" if "verify_runtime_invariant_receipt C s = Inr ()" "ir_context s = c"
    using rsr.verified_determined[OF TrueI TrueI that(1) v] that(2) build_receipt_fields(1)[OF assms] by simp
  then show ?thesis using v build_receipt_fields(1)[OF assms] by blast
qed

text \<open>The fail-fast wrapper raises only for a payload that cannot be canonicalized or with a verifiable receipt
  of a transition that is not permitted.\<close>

theorem assert_raises_on_refusal:
  assumes "assert_runtime_invariants C c = Inl e"
  shows "(e = AssertBuild InvariantPayloadNotCanonical \<and> (\<exists>v. jcs C v = None))
       \<or> (\<exists>r. e = SafetyInvariantViolation r \<and> \<not> transition_permitted c
            \<and> verify_runtime_invariant_receipt C r = Inr ())"
proof (cases "build_runtime_invariant_receipt C c")
  case (Inl e')
  then have "e' = InvariantPayloadNotCanonical" using build_receipt_exists[of C c] by auto
  moreover have "\<exists>v. jcs C v = None"
    using Inl by (auto simp: build_runtime_invariant_receipt_def Let_def jcs_sha_def rbind_eq_Inl)
  ultimately show ?thesis using assms Inl by (auto simp: assert_runtime_invariants_def)
next
  case (Inr r)
  then show ?thesis using assms allowed_permitted[OF Inr] rsr.build_verifies[OF Inr]
    by (auto simp: assert_runtime_invariants_def split: if_splits)
qed

end
