(* ===== verification/Council.thy ===== *)
theory Council
  imports Gate_Contracts
begin

text \<open>
  \<open>agents.py\<close>: the deterministic six-role council, the one-reviewer baseline and the no-agent
  receipt. Everything here is advisory text derived from findings and tool traces.
\<close>

section \<open>Roles\<close>

record role_spec =
  ro_role_id :: string
  ro_display_name :: string
  ro_focus :: string
  ro_keywords :: "string list"
  ro_challenge :: string
  ro_counterfactual_guard :: string

definition role_data_contract :: role_spec where
  "role_data_contract =
     \<lparr>ro_role_id = ''ai_data_contract'', ro_display_name = ''AI Data Contract Expert'',
      ro_focus = ''Frozen contract scope, evidence status, and release boundary'',
      ro_keywords = [''CONTRACT'', ''SCHEMA'', ''SPLIT'', ''COVERAGE''],
      ro_challenge = ''AI Acquisition Quality Expert: are every threshold and claimed measurement tied to an executed tool trace?'',
      ro_counterfactual_guard = ''If one split is removed and the rest remain unchanged, recommendation should only tighten, never expand.''\<rparr>"

definition role_acquisition_quality :: role_spec where
  "role_acquisition_quality =
     \<lparr>ro_role_id = ''ai_acquisition_quality'', ro_display_name = ''AI Acquisition Quality Expert'',
      ro_focus = ''Decodeability, dimensions, illumination, and sharpness'',
      ro_keywords = [''DECODE'', ''DIMENSION'', ''LUMA'', ''SHARP'', ''BLUR'', ''QUALITY''],
      ro_challenge = ''AI Annotation and Coverage Expert: could mask structure or missing coverage invalidate the apparent image-quality conclusion?'',
      ro_counterfactual_guard = ''If one high-quality sample is replaced by the same corruption level, recommendation should remain consistent after recompute.''\<rparr>"

definition role_duplicate_leakage :: role_spec where
  "role_duplicate_leakage =
     \<lparr>ro_role_id = ''ai_duplicate_leakage'', ro_display_name = ''AI Duplicate and Leakage Expert'',
      ro_focus = ''Exact duplicates, near duplicates, and cross-split leakage'',
      ro_keywords = [''DUPLICATE'', ''LEAK'', ''SPLIT''],
      ro_challenge = ''AI Annotation and Coverage Expert: after removal or repartition, does every required coverage cell remain populated?'',
      ro_counterfactual_guard = ''If one suspected duplicate source is excluded, core leakage conclusions should not become more permissive.''\<rparr>"

definition role_annotation_coverage :: role_spec where
  "role_annotation_coverage =
     \<lparr>ro_role_id = ''ai_annotation_coverage'', ro_display_name = ''AI Annotation and Coverage Expert'',
      ro_focus = ''Annotation structure and contract coverage cells'',
      ro_keywords = [''ANNOTATION'', ''MASK'', ''LABEL'', ''BBOX'', ''COVERAGE'', ''MISSING_CELL''],
      ro_challenge = ''AI Duplicate and Leakage Expert: would a proposed relabel preserve a duplicate or cross-split leak?'',
      ro_counterfactual_guard = ''If one annotation path is perturbed within bounded edits, coverage and relabel risk profile should be revalidated.''\<rparr>"

definition role_repair_safety :: role_spec where
  "role_repair_safety =
     \<lparr>ro_role_id = ''ai_repair_safety'', ro_display_name = ''AI Repair Safety Expert'',
      ro_focus = ''Work-order remediation side-effects and residual risk'',
      ro_keywords = [''RECAPTURE'', ''REMOVE_OR_REPARTITION'', ''RELABEL'', ''REPAIR''],
      ro_challenge = ''All AI council roles: can every remediation order be executed without introducing higher-priority unresolved findings?'',
      ro_counterfactual_guard = ''After applying a hypothetical repair order, recommendation should be retested by a full deterministic second pass.''\<rparr>"

definition role_red_team_auditor :: role_spec where
  "role_red_team_auditor =
     \<lparr>ro_role_id = ''ai_red_team_auditor'', ro_display_name = ''AI Red-Team Audit Expert'',
      ro_focus = ''Missing evidence, tool failures, and unsafe release claims'',
      ro_keywords = [],
      ro_challenge = ''All AI council roles: identify one conclusion that would change if a tool failed or its evidence were unsupported.'',
      ro_counterfactual_guard = ''Any transition from ok to error on a critical tool must force DEFER; failure-free relaxation is invalid.''\<rparr>"

definition ROLE_SPECS :: "role_spec list" where
  "ROLE_SPECS = [role_data_contract, role_acquisition_quality, role_duplicate_leakage,
     role_annotation_coverage, role_repair_safety, role_red_team_auditor]"

definition is_relevant :: "role_spec \<Rightarrow> finding \<Rightarrow> bool" where
  "is_relevant role f \<longleftrightarrow>
     (if ro_role_id role = ''ai_red_team_auditor'' then True
      else list_ex (\<lambda>k. contains k (upper (fi_code f))) (ro_keywords role))"

definition role_findings :: "role_spec \<Rightarrow> finding list \<Rightarrow> finding list" where
  "role_findings role fs = filter (is_relevant role) fs"

section \<open>Recommendation, confidence and claims\<close>

definition evidence_blocks :: "finding \<Rightarrow> bool" where
  "evidence_blocks f \<longleftrightarrow> fi_evidence_status f = EvUnsupported
     \<or> (fi_evidence_status f = EvInferred \<and> fi_severity f \<in> {SevCritical, SevHigh})"

definition recommendation :: "finding list \<Rightarrow> tool_trace list \<Rightarrow> gate_decision" where
  "recommendation fs ts =
     (if list_ex (\<lambda>t. tt_status t \<noteq> TraceOk) ts then GateDefer
      else if list_ex evidence_blocks fs then GateDefer
      else (let codes = join '' '' (map (\<lambda>f. upper (fi_code f)) fs) in
        if list_ex (\<lambda>k. contains k codes)
             [''COVERAGE'', ''MISSING_CELL'', ''SHARP'', ''BLUR'', ''LUMA'', ''DIMENSION'', ''QUALITY'']
        then GateRecapture
        else if fs \<noteq> [] then GateQuarantine
        else GatePass))"

definition confidence_of :: "finding list \<Rightarrow> tool_trace list \<Rightarrow> confidence_axes" where
  "confidence_of fs ts =
     \<lparr>ca_E = (if fs \<noteq> [] \<and> list_all (\<lambda>f. fi_evidence_status f = EvVerified) fs
              then ConfHigh else ConfMedium),
      ca_T = (if ts \<noteq> [] \<and> list_all (\<lambda>t. tt_status t = TraceOk) ts then ConfHigh else ConfLow),
      ca_A = (if fs \<noteq> [] then ConfHigh else ConfMedium),
      ca_M = ConfLow\<rparr>"

definition claims :: "finding list \<Rightarrow> tool_trace list \<Rightarrow> string list" where
  "claims fs ts =
     (let cs = map (\<lambda>f. ''Tool finding '' @ fi_finding_id f @ '' reports code '' @ fi_code f
                 @ '' with evidence status '' @ evidence_status_str (fi_evidence_status f) @ ''.'') fs
          @ map (\<lambda>t. ''Tool trace '' @ int_str (tt_sequence t) @ '':'' @ tt_tool t
                 @ '' ended with status '' @ trace_status_str (tt_status t) @ ''.'')
              (filter (\<lambda>t. tt_status t \<noteq> TraceOk) ts) in
      if cs = [] then [''No role-specific finding was emitted by the executed tool traces; this is not proof that untested issues are absent.'']
      else cs)"

definition finding_evidence_line :: "finding \<Rightarrow> string" where
  "finding_evidence_line f =
     fi_code f @ '' at sample set '' @ join '', '' (sort (fi_sample_ids f))"

definition relevant_evidence :: "finding list \<Rightarrow> string list" where
  "relevant_evidence fs =
     take 4 ((if list_ex (\<lambda>f. fi_evidence_status f \<noteq> EvVerified) fs
              then [''Re-collect unsupported or inferred findings from raw tool outputs.''] else [])
             @ map finding_evidence_line fs)"

definition required_additional_evidence ::
    "role_spec \<Rightarrow> finding list \<Rightarrow> tool_trace list \<Rightarrow> string list" where
  "required_additional_evidence role fs ts =
     (if ts = [] then [''No deterministic evidence traces were available; rerun all tools.'']
      else (let missing = (if ro_role_id role = ''ai_red_team_auditor''
              then map (\<lambda>t. ''Tool '' @ tt_tool t @ '' returned non-OK status ''
                        @ trace_status_str (tt_status t) @ ''.'')
                     (filter (\<lambda>t. tt_status t \<noteq> TraceOk) ts) else []) in
        if missing \<noteq> [] then missing @ [''Request complete trace payloads for each failed/unknown tool.'']
        else if fs = [] then
          [''Collect a focused control probe for one sample in role keywords ''
           @ join '', '' (take 2 (ro_keywords role)) @ '' before changing final posture.'']
        else relevant_evidence fs))"

section \<open>Councils\<close>

definition metric_refs :: "(string \<times> json) list \<Rightarrow> string list" where
  "metric_refs metrics = map (\<lambda>k. ''metric:'' @ k) (sort (map fst metrics))"

definition trace_ref :: "tool_trace \<Rightarrow> string" where
  "trace_ref t = ''trace:'' @ int_str (tt_sequence t) @ '':'' @ tt_tool t"

definition role_opinion ::
    "finding list \<Rightarrow> tool_trace list \<Rightarrow> (string \<times> json) list \<Rightarrow> role_spec \<Rightarrow> agent_opinion" where
  "role_opinion fs ts metrics role =
     (let relevant = role_findings role fs in
      \<lparr>ao_role_id = ro_role_id role, ao_display_name = ro_display_name role,
       ao_focus = ro_focus role,
       ao_evidence_refs = map fi_finding_id relevant
         @ map trace_ref (filter (\<lambda>t. tt_status t \<noteq> TraceOk
              \<or> ro_role_id role = ''ai_red_team_auditor'') ts)
         @ metric_refs metrics,
       ao_claims = claims relevant ts, ao_challenge = ro_challenge role,
       ao_recommendation = recommendation relevant ts,
       ao_confidence_axes = confidence_of relevant ts,
       ao_limitations =
         [''This is an AI role, not a human domain expert.'',
          ''The role shares one backend with all other council roles.'',
          ''Its recommendation is advisory and cannot override tool evidence.''],
       ao_required_additional_evidence = required_additional_evidence role relevant ts,
       ao_counterfactual_guard = ro_counterfactual_guard role\<rparr>)"

text \<open>Python's \<open>trace.error or trace.status\<close>.\<close>

definition error_or_status :: "tool_trace \<Rightarrow> string" where
  "error_or_status t =
     (if opt_truthy (tt_error t) then the (tt_error t) else trace_status_str (tt_status t))"

definition unresolved_objections :: "finding list \<Rightarrow> tool_trace list \<Rightarrow> string list" where
  "unresolved_objections fs ts =
     map (\<lambda>t. ''Tool '' @ tt_tool t @ '' did not complete successfully: '' @ error_or_status t @ ''.'')
       (filter (\<lambda>t. tt_status t \<noteq> TraceOk) ts)
     @ map (\<lambda>f. ''Finding '' @ fi_finding_id f @ '' has unsupported evidence.'')
       (filter (\<lambda>f. fi_evidence_status f = EvUnsupported) fs)
     @ (if fs = [] then [''Absence of findings is conditional on the tools that actually ran.''] else [])
     @ [''No AI council opinion establishes production readiness; production authority remains human.'']"

definition build_council ::
    "finding list \<Rightarrow> tool_trace list \<Rightarrow> (string \<times> json) list \<Rightarrow> council_trace" where
  "build_council fs ts metrics =
     \<lparr>ct_backend = ''shared-deterministic-ai-council-simulator-v1'',
      ct_shared_model_disclosure = ''All named experts are explicitly simulated AI roles using one shared backend. Their agreement is not independent evidence, and a vote is never used to justify a gate decision.'',
      ct_independent_opinions = map (role_opinion fs ts metrics) ROLE_SPECS,
      ct_cross_examination = map ro_challenge ROLE_SPECS,
      ct_unresolved_objections = unresolved_objections fs ts\<rparr>"

definition build_single_agent_review ::
    "finding list \<Rightarrow> tool_trace list \<Rightarrow> (string \<times> json) list \<Rightarrow> council_trace" where
  "build_single_agent_review fs ts metrics =
     \<lparr>ct_backend = ''single-deterministic-ai-reviewer-v1'',
      ct_shared_model_disclosure = ''Exactly one deterministic AI reviewer interprets the shared typed evidence; the Policy Judge remains the only release authority.'',
      ct_independent_opinions =
        [\<lparr>ao_role_id = ''ai_generalist_reviewer'',
          ao_display_name = ''AI Generalist Evidence Reviewer'',
          ao_focus = ''All frozen contract, measurement, remediation, and release evidence'',
          ao_evidence_refs = map fi_finding_id fs @ map trace_ref ts @ metric_refs metrics,
          ao_claims = claims fs ts,
          ao_challenge = ''Policy Judge: reject any recommendation that is not supported by a completed ToolTrace and the frozen contract.'',
          ao_recommendation = recommendation fs ts,
          ao_confidence_axes = confidence_of fs ts,
          ao_limitations =
            [''This is one AI reviewer, not a panel or a human expert.'',
             ''It cannot call tools, change the contract, or write the release decision.'',
             ''Its recommendation is advisory and is not detection evidence.''],
          ao_required_additional_evidence =
            map (\<lambda>t. ''Resolve non-OK trace '' @ tt_tool t @ '':'' @ trace_status_str (tt_status t) @ ''.'')
              (filter (\<lambda>t. tt_status t \<noteq> TraceOk) ts),
          ao_counterfactual_guard = ''Reordering equivalent findings or traces must not make the release decision more permissive.''\<rparr>],
      ct_cross_examination = [],
      ct_unresolved_objections =
        map (\<lambda>t. ''Tool '' @ tt_tool t @ '' did not complete successfully: '' @ error_or_status t @ ''.'')
          (filter (\<lambda>t. tt_status t \<noteq> TraceOk) ts)
        @ [''A single reviewer is not independent corroboration and has no production authority.'']\<rparr>"

definition build_traditional_pipeline_receipt :: council_trace where
  "build_traditional_pipeline_receipt =
     \<lparr>ct_backend = ''traditional-deterministic-pipeline-v1'',
      ct_shared_model_disclosure = ''No AI reviewer is used. Deterministic tool outputs flow directly into the same frozen Policy Judge used by the Agent baselines.'',
      ct_independent_opinions = [], ct_cross_examination = [],
      ct_unresolved_objections = [''This baseline has no Agent interpretation or cross-role challenge.'']\<rparr>"

section \<open>Lemmas\<close>

lemma recommendation_pass_iff:
  "recommendation fs ts = GatePass \<longleftrightarrow> fs = [] \<and> list_all (\<lambda>t. tt_status t = TraceOk) ts"
  by (auto simp: recommendation_def Let_def list_ex_iff list_all_iff split: if_splits)

lemma recommendation_defer_iff:
  "recommendation fs ts = GateDefer \<longleftrightarrow>
     (\<exists>t\<in>set ts. tt_status t \<noteq> TraceOk) \<or> (\<exists>f\<in>set fs. evidence_blocks f)"
  by (auto simp: recommendation_def Let_def list_ex_iff)

lemma red_team_sees_all: "role_findings role_red_team_auditor fs = fs"
  by (simp add: role_findings_def is_relevant_def role_red_team_auditor_def)

lemma build_council_opinions:
  "ct_independent_opinions (build_council fs ts m) = map (role_opinion fs ts m) ROLE_SPECS"
  by (simp add: build_council_def)

end
