(* ===== verification/Rule_Pack.thy ===== *)
theory Rule_Pack
  imports Gate_Contracts
begin

text \<open>
  \<open>rulepack.py\<close>: the validated industrial rule pack, its compilation into a runtime binding and
  the revalidation of a binding before use. Reading the pack file is a parameter: the two build
  modes differ in the source identity and digest they record.
\<close>

section \<open>Rule packs\<close>

datatype rule_action =
  RaRecapture | RaRemoveOrRepartition | RaRelabel | RaInvestigate | RaQuarantine

datatype on_unavailable = OnDefer | OnInvestigate

datatype precedence = PrInvestigate | PrRecapture | PrDefer | PrRelease

datatype source_identity = FileBytes | CanonicalModel

datatype rulepack_error =
    PackConstraint
  | DuplicateFindingCodes | NonCanonicalFindingCode
  | DuplicateTools | DuplicateRuleIds | DuplicateTriggerIds | SharedFindingCode | BadPrecedence
  | ToolSetMismatch "string list" "string list"
  | ThresholdSetMismatch "string list" "string list"
  | ThresholdValuesInvalid | BadMinimumCoverage
  | NonExecutableAction string
  | NoLocalExecutor string | TriggerContractMismatch string
  | BindingCodeSets | BindingCodeSyntax | BindingTriggerSets | BindingSeal
  | BindingIntegrity        \<comment> \<open>rule pack runtime binding failed integrity validation\<close>

record trigger_rule =
  tr_trigger_id :: string
  tr_observed_condition :: string
  tr_worker_capability :: string
  tr_max_cost_units :: int
  tr_on_unavailable :: on_unavailable

record policy_rule =
  pr_rule_id :: string
  pr_finding_codes :: "string list"
  pr_severity :: severity
  pr_action :: rule_action
  pr_human_gate_required :: bool
  pr_evidence_requirements :: "string list"
  pr_acceptance_criteria :: "string list"
  pr_safety_boundary :: string

record rule_pack =
  rp_pack_id :: string
  rp_version :: string
  rp_required_tools :: "string list"
  rp_thresholds :: "(string \<times> json) list"
  rp_dynamic_trigger_rules :: "trigger_rule list"
  rp_decision_precedence :: "precedence list"
  rp_rules :: "policy_rule list"
  rp_production_release_allowed :: bool
  rp_raw_redistribution_allowed :: bool
  rp_claim_boundary :: string

definition is_upper_char :: "char \<Rightarrow> bool" where
  "is_upper_char c \<longleftrightarrow> CHR ''A'' \<le> c \<and> c \<le> CHR ''Z''"

definition is_lower_char :: "char \<Rightarrow> bool" where
  "is_lower_char c \<longleftrightarrow> CHR ''a'' \<le> c \<and> c \<le> CHR ''z''"

text \<open>The pattern \<open>[A-Z][A-Z0-9_]*\<close>.\<close>

definition finding_code_syntax :: "string \<Rightarrow> bool" where
  "finding_code_syntax v \<longleftrightarrow> v \<noteq> [] \<and> is_upper_char (hd v)
     \<and> list_all (\<lambda>c. is_upper_char c \<or> is_digit c \<or> c = CHR ''_'') (tl v)"

definition punct_char :: "char \<Rightarrow> bool" where
  "punct_char c \<longleftrightarrow> c = CHR ''.'' \<or> c = CHR ''_'' \<or> c = CHR ''-''"

text \<open>The patterns \<open>[a-z0-9][a-z0-9._-]+\<close> and \<open>[A-Z0-9][A-Z0-9._-]+\<close>.\<close>

definition lower_id_syntax :: "string \<Rightarrow> bool" where
  "lower_id_syntax v \<longleftrightarrow> 2 \<le> length v \<and> (is_lower_char (hd v) \<or> is_digit (hd v))
     \<and> list_all (\<lambda>c. is_lower_char c \<or> is_digit c \<or> punct_char c) (tl v)"

definition upper_id_syntax :: "string \<Rightarrow> bool" where
  "upper_id_syntax v \<longleftrightarrow> 2 \<le> length v \<and> (is_upper_char (hd v) \<or> is_digit (hd v))
     \<and> list_all (\<lambda>c. is_upper_char c \<or> is_digit c \<or> punct_char c) (tl v)"

definition version_syntax :: "string \<Rightarrow> bool" where
  "version_syntax v \<longleftrightarrow> (let ps = split_on (CHR ''.'') v in
     length ps = 3 \<and> list_all (\<lambda>p. p \<noteq> [] \<and> list_all is_digit p) ps)"

definition validate_finding_codes :: "string list \<Rightarrow> rulepack_error + unit" where
  "validate_finding_codes values =
     rbind (require (distinct values) DuplicateFindingCodes) (\<lambda>_.
     require (\<forall>v\<in>set values. v = upper (strip v) \<and> finding_code_syntax v) NonCanonicalFindingCode)"

definition trigger_ok :: "trigger_rule \<Rightarrow> bool" where
  "trigger_ok t \<longleftrightarrow> lower_id_syntax (tr_trigger_id t) \<and> 3 \<le> length (tr_observed_condition t)
     \<and> 3 \<le> length (tr_worker_capability t) \<and> 1 \<le> tr_max_cost_units t \<and> tr_max_cost_units t \<le> 8"

definition validate_rule :: "policy_rule \<Rightarrow> rulepack_error + unit" where
  "validate_rule r =
     rbind (require (upper_id_syntax (pr_rule_id r) \<and> pr_finding_codes r \<noteq> []
        \<and> pr_evidence_requirements r \<noteq> [] \<and> pr_acceptance_criteria r \<noteq> []
        \<and> 8 \<le> length (pr_safety_boundary r)) PackConstraint) (\<lambda>_.
     validate_finding_codes (pr_finding_codes r))"

definition pack_codes :: "rule_pack \<Rightarrow> string list" where
  "pack_codes p = concat (map pr_finding_codes (rp_rules p))"

definition validate_rule_pack :: "rule_pack \<Rightarrow> rulepack_error + rule_pack" where
  "validate_rule_pack p =
     rbind (require (lower_id_syntax (rp_pack_id p) \<and> version_syntax (rp_version p)
        \<and> rp_required_tools p \<noteq> [] \<and> rp_dynamic_trigger_rules p \<noteq> []
        \<and> list_all trigger_ok (rp_dynamic_trigger_rules p)
        \<and> length (rp_decision_precedence p) = 4 \<and> rp_rules p \<noteq> []
        \<and> \<not> rp_production_release_allowed p \<and> \<not> rp_raw_redistribution_allowed p
        \<and> 20 \<le> length (rp_claim_boundary p)) PackConstraint) (\<lambda>_.
     rbind (reach_all validate_rule (rp_rules p)) (\<lambda>_.
     rbind (require (distinct (rp_required_tools p)) DuplicateTools) (\<lambda>_.
     rbind (require (distinct (map pr_rule_id (rp_rules p))) DuplicateRuleIds) (\<lambda>_.
     rbind (require (distinct (map tr_trigger_id (rp_dynamic_trigger_rules p))) DuplicateTriggerIds) (\<lambda>_.
     rbind (require (distinct (pack_codes p)) SharedFindingCode) (\<lambda>_.
     rbind (require (rp_decision_precedence p = [PrInvestigate, PrRecapture, PrDefer, PrRelease])
        BadPrecedence) (\<lambda>_. Inr p)))))))"

section \<open>Runtime bindings\<close>

definition RUNTIME_TOOLS :: "string list" where
  "RUNTIME_TOOLS = [''image_quality'', ''duplicate_leakage'', ''annotation_integrity'',
     ''coverage_matrix'', ''governance_audit'']"

definition RUNTIME_TRIGGER_CONTRACTS :: "(string \<times> string \<times> string) list" where
  "RUNTIME_TRIGGER_CONTRACTS =
     [(''metadata-count-drift'', ''metadata_count_delta != 0'',
       ''industrial-metadata-reconciliation''),
      (''native-resolution-groups'', ''native_resolution_group_count > 1'',
       ''native-resolution-quality-reconciliation''),
      (''cross-tool-action-conflict'', ''conflicting_action_sample_count > 0'',
       ''industrial-remediation-conflict-adjudication'')]"

definition QUALITY_THRESHOLD_FIELDS :: "string list" where
  "QUALITY_THRESHOLD_FIELDS = [''expected_width'', ''expected_height'', ''min_mean_luma'',
     ''max_mean_luma'', ''min_sharpness'', ''max_mask_fraction'', ''min_mask_fraction'',
     ''near_duplicate_hamming'']"

definition RUNTIME_THRESHOLD_FIELDS :: "string list" where
  "RUNTIME_THRESHOLD_FIELDS = QUALITY_THRESHOLD_FIELDS @ [''min_coverage_per_cell'']"

record rulepack_binding =
  rb_pack_id :: string
  rb_pack_version :: string
  rb_source_identity :: source_identity
  rb_source_sha256 :: string
  rb_semantic_sha256 :: string
  rb_action_by_finding_code :: "(string \<times> work_order_action) list"
  rb_rule_id_by_finding_code :: "(string \<times> string) list"
  rb_dynamic_trigger_capabilities :: "(string \<times> string) list"
  rb_dynamic_trigger_max_cost_units :: "(string \<times> int) list"
  rb_thresholds :: "(string \<times> json) list"
  rb_binding_sha256 :: string

fun source_identity_str :: "source_identity \<Rightarrow> string" where
  "source_identity_str FileBytes = ''FILE_BYTES''"
| "source_identity_str CanonicalModel = ''CANONICAL_MODEL''"

definition binding_claim_boundary :: string where
  "binding_claim_boundary = ''This binding proves that one rule pack can be executed by the current local deterministic runtime. It is not factory calibration, customer acceptance, a Python sandbox, or production-release authority.''"

text \<open>\<open>model_dump(mode="json", exclude={"binding_sha256"})\<close>.\<close>

definition binding_payload :: "rulepack_binding \<Rightarrow> json" where
  "binding_payload b = JObj
     [(''schema_version'', JStr ''visiondata-gate.rulepack-runtime-binding.v1''),
      (''pack_id'', JStr (rb_pack_id b)), (''pack_version'', JStr (rb_pack_version b)),
      (''source_identity'', JStr (source_identity_str (rb_source_identity b))),
      (''source_sha256'', JStr (rb_source_sha256 b)),
      (''semantic_sha256'', JStr (rb_semantic_sha256 b)),
      (''action_by_finding_code'',
         JObj (map (\<lambda>(k, a). (k, JStr (action_str a))) (rb_action_by_finding_code b))),
      (''rule_id_by_finding_code'',
         JObj (map (\<lambda>(k, r). (k, JStr r)) (rb_rule_id_by_finding_code b))),
      (''dynamic_trigger_capabilities'',
         JObj (map (\<lambda>(k, c). (k, JStr c)) (rb_dynamic_trigger_capabilities b))),
      (''dynamic_trigger_max_cost_units'',
         JObj (map (\<lambda>(k, n). (k, JInt n)) (rb_dynamic_trigger_max_cost_units b))),
      (''thresholds'', JObj (rb_thresholds b)),
      (''production_release_allowed_by_default'', JBool False),
      (''final_authority'', JStr ''responsible_human''),
      (''claim_boundary'', JStr binding_claim_boundary)]"

definition validate_runtime_binding :: "crypto \<Rightarrow> rulepack_binding \<Rightarrow> rulepack_error + rulepack_binding" where
  "validate_runtime_binding C b =
     (let action_codes = map fst (rb_action_by_finding_code b);
          rule_codes = map fst (rb_rule_id_by_finding_code b) in
      rbind (require (is_sha256 (rb_source_sha256 b) \<and> is_sha256 (rb_semantic_sha256 b)
         \<and> is_sha256 (rb_binding_sha256 b)) PackConstraint) (\<lambda>_.
      rbind (require (action_codes \<noteq> [] \<and> set action_codes = set rule_codes) BindingCodeSets) (\<lambda>_.
      rbind (require (\<forall>code\<in>set action_codes. finding_code_syntax code) BindingCodeSyntax) (\<lambda>_.
      rbind (require (set (map fst (rb_dynamic_trigger_capabilities b))
         = set (map fst (rb_dynamic_trigger_max_cost_units b))) BindingTriggerSets) (\<lambda>_.
      rbind (require (canonical_json_sha C (binding_payload b) = rb_binding_sha256 b) BindingSeal) (\<lambda>_.
      Inr b))))))"

definition verify_rule_pack_runtime_binding ::
    "crypto \<Rightarrow> rulepack_binding \<Rightarrow> rulepack_error + rulepack_binding" where
  "verify_rule_pack_runtime_binding C b =
     lift_err (\<lambda>_. BindingIntegrity) (validate_runtime_binding C b)"

section \<open>Compilation\<close>

definition num_int :: "json \<Rightarrow> int option" where
  "num_int v = (case v of JInt i \<Rightarrow> Some i
     | JNum q \<Rightarrow> (if of_int \<lfloor>q\<rfloor> = q then Some \<lfloor>q\<rfloor> else None) | _ \<Rightarrow> None)"

definition num_rat :: "json \<Rightarrow> rat option" where
  "num_rat v = (case v of JInt i \<Rightarrow> Some (of_int i) | JNum q \<Rightarrow> Some q | _ \<Rightarrow> None)"

text \<open>\<open>QualityThresholds.model_validate\<close> on the quality fields of the pack's thresholds.\<close>

definition thresholds_of :: "(string \<times> json) list \<Rightarrow> quality_thresholds option" where
  "thresholds_of ts =
     (let int_field = (\<lambda>k. Option.bind (map_of ts k) num_int);
          rat_field = (\<lambda>k. Option.bind (map_of ts k) num_rat) in
      Option.bind (int_field ''expected_width'') (\<lambda>w.
      Option.bind (int_field ''expected_height'') (\<lambda>h.
      Option.bind (rat_field ''min_mean_luma'') (\<lambda>ll.
      Option.bind (rat_field ''max_mean_luma'') (\<lambda>lu.
      Option.bind (rat_field ''min_sharpness'') (\<lambda>sh.
      Option.bind (rat_field ''max_mask_fraction'') (\<lambda>mu.
      Option.bind (rat_field ''min_mask_fraction'') (\<lambda>ml.
      Option.bind (int_field ''near_duplicate_hamming'') (\<lambda>nd.
      (let t = \<lparr>qt_expected_width = w, qt_expected_height = h, qt_min_mean_luma = ll,
                qt_max_mean_luma = lu, qt_min_sharpness = sh, qt_max_mask_fraction = mu,
                qt_min_mask_fraction = ml, qt_near_duplicate_hamming = nd\<rparr> in
       if thresholds_ok t then Some t else None))))))))))"

definition runtime_action_of :: "policy_rule \<Rightarrow> rulepack_error + work_order_action" where
  "runtime_action_of r = (case pr_action r of
       RaRecapture \<Rightarrow> Inr Recapture | RaRelabel \<Rightarrow> Inr Relabel
     | RaRemoveOrRepartition \<Rightarrow> Inr RemoveOrRepartition | RaInvestigate \<Rightarrow> Inr Investigate
     | RaQuarantine \<Rightarrow> Inl (NonExecutableAction (pr_rule_id r)))"

fun set_codes :: "'v \<Rightarrow> string list \<Rightarrow> (string \<times> 'v) list \<Rightarrow> (string \<times> 'v) list" where
  "set_codes v [] d = d"
| "set_codes v (c # cs) d = set_codes v cs (dict_set c v d)"

text \<open>The loop over \<open>pack.rules\<close>, filling both dictionaries.\<close>

fun compile_rules ::
    "policy_rule list \<Rightarrow> (string \<times> work_order_action) list \<Rightarrow> (string \<times> string) list
       \<Rightarrow> rulepack_error + (string \<times> work_order_action) list \<times> (string \<times> string) list" where
  "compile_rules [] acts ids = Inr (acts, ids)"
| "compile_rules (r # rs) acts ids =
     rbind (runtime_action_of r) (\<lambda>a.
     compile_rules rs (set_codes a (pr_finding_codes r) acts)
       (set_codes (pr_rule_id r) (pr_finding_codes r) ids))"

text \<open>The loop over \<open>pack.dynamic_trigger_rules\<close>.\<close>

fun compile_triggers ::
    "trigger_rule list \<Rightarrow> (string \<times> string) list \<Rightarrow> (string \<times> int) list
       \<Rightarrow> rulepack_error + (string \<times> string) list \<times> (string \<times> int) list" where
  "compile_triggers [] caps costs = Inr (caps, costs)"
| "compile_triggers (t # ts) caps costs =
     (case map_of RUNTIME_TRIGGER_CONTRACTS (tr_trigger_id t) of
        None \<Rightarrow> Inl (NoLocalExecutor (tr_trigger_id t))
      | Some expected \<Rightarrow>
          if (tr_observed_condition t, tr_worker_capability t) \<noteq> expected
          then Inl (TriggerContractMismatch (tr_trigger_id t))
          else compile_triggers ts (dict_set (tr_trigger_id t) (tr_worker_capability t) caps)
                 (dict_set (tr_trigger_id t) (tr_max_cost_units t) costs))"

definition missing_of :: "string list \<Rightarrow> string list \<Rightarrow> string list" where
  "missing_of expected observed = sorted_set (filter (\<lambda>x. x \<notin> set observed) expected)"

text \<open>
  \<open>build_rule_pack_runtime_binding\<close>; \<open>ident\<close> and \<open>source_sha\<close> are \<open>FILE_BYTES\<close> with the file's
  digest or \<open>CANONICAL_MODEL\<close> with the semantic digest, \<open>pack_json\<close> is \<open>pack.model_dump\<close>.
\<close>

definition build_rule_pack_runtime_binding ::
    "crypto \<Rightarrow> json \<Rightarrow> source_identity \<Rightarrow> string \<Rightarrow> rule_pack \<Rightarrow> rulepack_error + rulepack_binding" where
  "build_rule_pack_runtime_binding C pack_json ident source_sha p =
     rbind (require (set (rp_required_tools p) = set RUNTIME_TOOLS)
        (ToolSetMismatch (missing_of RUNTIME_TOOLS (rp_required_tools p))
                         (missing_of (rp_required_tools p) RUNTIME_TOOLS))) (\<lambda>_.
     rbind (require (set (map fst (rp_thresholds p)) = set RUNTIME_THRESHOLD_FIELDS)
        (ThresholdSetMismatch (missing_of RUNTIME_THRESHOLD_FIELDS (map fst (rp_thresholds p)))
                              (missing_of (map fst (rp_thresholds p)) RUNTIME_THRESHOLD_FIELDS))) (\<lambda>_.
     rbind (require (thresholds_of (rp_thresholds p) \<noteq> None) ThresholdValuesInvalid) (\<lambda>_.
     rbind (require (case map_of (rp_thresholds p) ''min_coverage_per_cell'' of
                       Some (JInt n) \<Rightarrow> 1 \<le> n | _ \<Rightarrow> False) BadMinimumCoverage) (\<lambda>_.
     rbind (compile_rules (rp_rules p) [] []) (\<lambda>(acts, ids).
     rbind (compile_triggers (rp_dynamic_trigger_rules p) [] []) (\<lambda>(caps, costs).
     (let draft = \<lparr>rb_pack_id = rp_pack_id p, rb_pack_version = rp_version p,
            rb_source_identity = ident, rb_source_sha256 = source_sha,
            rb_semantic_sha256 = canonical_json_sha C pack_json,
            rb_action_by_finding_code = acts, rb_rule_id_by_finding_code = ids,
            rb_dynamic_trigger_capabilities = caps, rb_dynamic_trigger_max_cost_units = costs,
            rb_thresholds = rp_thresholds p, rb_binding_sha256 = zero_sha\<rparr> in
      validate_runtime_binding C
        (draft\<lparr>rb_binding_sha256 := canonical_json_sha C (binding_payload draft)\<rparr>))))))))"

section \<open>Lemmas\<close>

lemma set_codes_map_of:
  "map_of (set_codes v cs d) k = (if k \<in> set cs then Some v else map_of d k)"
  by (induction cs arbitrary: d) auto

lemma compile_rules_actions:
  assumes "compile_rules rs acts ids = Inr (acts', ids')" and "distinct (concat (map pr_finding_codes rs))"
    and "r \<in> set rs" and "code \<in> set (pr_finding_codes r)"
  shows "map_of ids' code = Some (pr_rule_id r)
    \<and> (\<exists>a. runtime_action_of r = Inr a \<and> map_of acts' code = Some a)"
proof -
  have keep: "compile_rules rs acts ids = Inr (acts', ids') \<Longrightarrow>
      code \<notin> set (concat (map pr_finding_codes rs)) \<Longrightarrow>
      map_of acts' code = map_of acts code \<and> map_of ids' code = map_of ids code" for rs acts ids
    by (induction rs arbitrary: acts ids) (auto simp: set_codes_map_of)
  show ?thesis using assms
  proof (induction rs arbitrary: acts ids)
    case Nil
    then show ?case by simp
  next
    case (Cons x xs)
    show ?case
    proof (cases "r = x")
      case True
      with Cons.prems have "code \<notin> set (concat (map pr_finding_codes xs))" by auto
      with Cons.prems keep[where rs = xs] True show ?thesis
        by (auto simp: set_codes_map_of)
    next
      case False
      from Cons.prems(1) obtain a where
        "compile_rules xs (set_codes a (pr_finding_codes x) acts)
           (set_codes (pr_rule_id x) (pr_finding_codes x) ids) = Inr (acts', ids')" by auto
      then show ?thesis by (rule Cons.IH) (use Cons.prems False in auto)
    qed
  qed
qed

lemma compile_rules_dom:
  "compile_rules rs acts ids = Inr (acts', ids') \<Longrightarrow>
     dom (map_of acts') = dom (map_of acts) \<union> set (concat (map pr_finding_codes rs))
   \<and> dom (map_of ids') = dom (map_of ids) \<union> set (concat (map pr_finding_codes rs))"
proof (induction rs arbitrary: acts ids)
  case Nil
  then show ?case by simp
next
  case (Cons x xs)
  have d: "dom (map_of (set_codes v cs d)) = set cs \<union> dom (map_of d)" for v :: "'c" and cs and d
    by (auto simp: set_codes_map_of split: if_splits)
  from Cons.prems obtain a where
    c: "compile_rules xs (set_codes a (pr_finding_codes x) acts)
       (set_codes (pr_rule_id x) (pr_finding_codes x) ids) = Inr (acts', ids')" by auto
  show ?case using Cons.IH[OF c] by (simp only: d list.map concat.simps set_append) (simp add: Un_ac)
qed

lemma validate_runtime_binding_Inr:
  "validate_runtime_binding C b = Inr b' \<Longrightarrow> b' = b"
  by (simp add: validate_runtime_binding_def Let_def)

lemma validate_runtime_binding_codes:
  "validate_runtime_binding C b = Inr b \<Longrightarrow>
     dom (map_of (rb_action_by_finding_code b)) = dom (map_of (rb_rule_id_by_finding_code b))"
  by (auto simp: validate_runtime_binding_def Let_def dom_map_of_conv_image_fst)

lemma build_binding_valid:
  "build_rule_pack_runtime_binding C j i s p = Inr b \<Longrightarrow> validate_runtime_binding C b = Inr b"
  by (auto simp: build_rule_pack_runtime_binding_def Let_def dest: validate_runtime_binding_Inr)

lemma build_binding_rules:
  "build_rule_pack_runtime_binding C j i s p = Inr b \<Longrightarrow>
     compile_rules (rp_rules p) [] [] = Inr (rb_action_by_finding_code b, rb_rule_id_by_finding_code b)"
  by (auto simp: build_rule_pack_runtime_binding_def Let_def dest!: validate_runtime_binding_Inr)

text \<open>A pack for evaluated examples.\<close>

definition demo_pack :: rule_pack where
  "demo_pack =
     \<lparr>rp_pack_id = ''demo-pack'', rp_version = ''1.0.0'', rp_required_tools = RUNTIME_TOOLS,
      rp_thresholds = [(''expected_width'', JInt 128), (''expected_height'', JInt 128),
        (''min_mean_luma'', JNum 35), (''max_mean_luma'', JNum 225), (''min_sharpness'', JNum 18),
        (''max_mask_fraction'', JNum (1 / 2)), (''min_mask_fraction'', JNum (1 / 4)),
        (''near_duplicate_hamming'', JInt 4), (''min_coverage_per_cell'', JInt 1)],
      rp_dynamic_trigger_rules = [\<lparr>tr_trigger_id = ''metadata-count-drift'',
         tr_observed_condition = ''metadata_count_delta != 0'',
         tr_worker_capability = ''industrial-metadata-reconciliation'', tr_max_cost_units = 2,
         tr_on_unavailable = OnDefer\<rparr>],
      rp_decision_precedence = [PrInvestigate, PrRecapture, PrDefer, PrRelease],
      rp_rules = [\<lparr>pr_rule_id = ''R-1'', pr_finding_codes = [''LOW_SHARPNESS''],
         pr_severity = SevHigh, pr_action = RaRelabel, pr_human_gate_required = True,
         pr_evidence_requirements = [''trace''], pr_acceptance_criteria = [''sharp''],
         pr_safety_boundary = ''local only''\<rparr>],
      rp_production_release_allowed = False, rp_raw_redistribution_allowed = False,
      rp_claim_boundary = ''demonstration pack only''\<rparr>"

lemma demo_pack_valid: "validate_rule_pack demo_pack = Inr demo_pack"
  by code_simp

lemma demo_pack_builds:
  "\<exists>b. build_rule_pack_runtime_binding toy_crypto JNull CanonicalModel zero_sha demo_pack = Inr b"
proof -
  have "(case build_rule_pack_runtime_binding toy_crypto JNull CanonicalModel zero_sha demo_pack of
      Inr b \<Rightarrow> True | _ \<Rightarrow> False)"
    by code_simp
  then show ?thesis by (auto split: sum.splits)
qed

section \<open>Properties\<close>

text \<open>A built binding passes the verification done before use, maps exactly the codes of the pack, and
  no pack with a QUARANTINE rule can be built.\<close>

theorem rulepack_binding_verifies:
  assumes "build_rule_pack_runtime_binding C pack_json ident source_sha p = Inr b"
  shows "verify_rule_pack_runtime_binding C b = Inr b
    \<and> set (map fst (rb_action_by_finding_code b)) = set (pack_codes p)
    \<and> set (map fst (rb_rule_id_by_finding_code b)) = set (pack_codes p)
    \<and> (\<forall>r\<in>set (rp_rules p). pr_action r \<noteq> RaQuarantine)"
proof -
  note c = build_binding_rules[OF assms]
  have q: "compile_rules rs acts ids = Inr x \<Longrightarrow> r \<in> set rs \<Longrightarrow> pr_action r \<noteq> RaQuarantine" for rs acts ids x r
    by (induction rs arbitrary: acts ids) (auto simp: runtime_action_of_def split: rule_action.splits)
  show ?thesis
    using compile_rules_dom[OF c] build_binding_valid[OF assms] q[OF c]
    by (auto simp: verify_rule_pack_runtime_binding_def pack_codes_def dom_map_of_conv_image_fst)
qed

end
