(* ===== verification/Gate_Policy.thy ===== *)
theory Gate_Policy
  imports Runtime_Safety Council Rule_Pack
begin

text \<open>
  \<open>policy.py\<close>: from findings and tool traces to work orders, the gate decision, the rule checks with
  their counterfactual probes, and the final fail-closed guard of \<open>apply_policy\<close>. Rule-check details
  and decision reasons are constructors; \<open>check_detail_text\<close> and \<open>reason_text\<close> give the wording.
\<close>

section \<open>Scenario rulebook\<close>

record scenario_rules =
  sp_label :: string
  sp_require_governance_metrics :: bool
  sp_min_tool_count :: int
  sp_required_tool_names :: "string list"
  sp_max_governance_missing_cells :: int
  sp_max_governance_unknown_cells :: int
  sp_counterfactual_probe_budget :: int
  sp_counterfactual_flip_tolerance :: int
  sp_counterfactual_tool_probe_budget :: int
  sp_counterfactual_tool_flip_tolerance :: int
  sp_rule_packages :: "string list"

definition core_tools :: "string list" where
  "core_tools = [''image_quality'', ''duplicate_leakage'', ''annotation_integrity'', ''coverage_matrix'']"

definition all_packages :: "string list" where
  "all_packages = [''CORE'', ''COUNTERFACTUAL-FINDING'', ''COUNTERFACTUAL-TOOL'', ''RULE-STABILITY'']"

definition governed_rules :: "string \<Rightarrow> int \<Rightarrow> int \<Rightarrow> int \<Rightarrow> int \<Rightarrow> scenario_rules" where
  "governed_rules label max_missing max_unknown budget tolerance =
     \<lparr>sp_label = label, sp_require_governance_metrics = True, sp_min_tool_count = 5,
      sp_required_tool_names = core_tools @ [''governance_audit''],
      sp_max_governance_missing_cells = max_missing, sp_max_governance_unknown_cells = max_unknown,
      sp_counterfactual_probe_budget = budget, sp_counterfactual_flip_tolerance = tolerance,
      sp_counterfactual_tool_probe_budget = budget,
      sp_counterfactual_tool_flip_tolerance = tolerance, sp_rule_packages = all_packages\<rparr>"

fun SCENARIO_RULEBOOK :: "scenario_profile \<Rightarrow> scenario_rules" where
  "SCENARIO_RULEBOOK Generic =
     \<lparr>sp_label = ''Generic'', sp_require_governance_metrics = False, sp_min_tool_count = 4,
      sp_required_tool_names = core_tools,
      sp_max_governance_missing_cells = 0, sp_max_governance_unknown_cells = 0,
      sp_counterfactual_probe_budget = 0, sp_counterfactual_flip_tolerance = 99,
      sp_counterfactual_tool_probe_budget = 0, sp_counterfactual_tool_flip_tolerance = 99,
      sp_rule_packages = [''CORE'']\<rparr>"
| "SCENARIO_RULEBOOK Industrial = governed_rules ''Industrial'' 1 1 3 1"
| "SCENARIO_RULEBOOK Automotive = governed_rules ''Automotive'' 0 0 2 0"
| "SCENARIO_RULEBOOK Finance = governed_rules ''Finance'' 0 0 1 0"
| "SCENARIO_RULEBOOK Education = governed_rules ''Education'' 2 1 3 1"
| "SCENARIO_RULEBOOK Wearable = governed_rules ''Wearable'' 1 1 2 1"

section \<open>Actions of findings\<close>

definition RECAPTURE_KEYWORDS :: "string list" where
  "RECAPTURE_KEYWORDS = [''COVERAGE'', ''MISSING_CELL'', ''UNDERREPRESENT'', ''DECODE'', ''DIMENSION'',
     ''RESOLUTION'', ''LUMA'', ''SHARP'', ''BLUR'', ''QUALITY'']"

definition RELABEL_KEYWORDS :: "string list" where
  "RELABEL_KEYWORDS = [''ANNOTATION'', ''MASK'', ''LABEL'', ''BBOX'', ''POLYGON'']"

definition REPARTITION_KEYWORDS :: "string list" where
  "REPARTITION_KEYWORDS = [''DUPLICATE'', ''LEAK'', ''SPLIT'']"

definition FROZEN_CODE_ACTIONS :: "(string \<times> work_order_action) list" where
  "FROZEN_CODE_ACTIONS =
     [(''DECODE_FAILURE'', Recapture), (''INVALID_DIMENSIONS'', Recapture),
      (''LOW_SHARPNESS'', Recapture), (''OVEREXPOSED'', Recapture), (''UNDEREXPOSED'', Recapture),
      (''COVERAGE_GAP'', Recapture), (''EXACT_DUPLICATE'', RemoveOrRepartition),
      (''CROSS_SPLIT_EXACT_DUPLICATE'', RemoveOrRepartition),
      (''CROSS_SPLIT_NEAR_DUPLICATE'', RemoveOrRepartition),
      (''MISSING_ANNOTATION'', Relabel), (''ANNOTATION_DIMENSION_MISMATCH'', Relabel)]"

definition nonempty_json_list :: "json option \<Rightarrow> bool" where
  "nonempty_json_list v = (case v of Some (JArr xs) \<Rightarrow> xs \<noteq> [] | _ \<Rightarrow> False)"

definition finding_action :: "finding \<Rightarrow> rulepack_binding option \<Rightarrow> work_order_action" where
  "finding_action f pack =
     (let code = upper (fi_code f); rec = lower (fi_recommended_action f) in
      case pack of
        Some b \<Rightarrow> (case map_of (rb_action_by_finding_code b) code of None \<Rightarrow> Investigate | Some a \<Rightarrow> a)
      | None \<Rightarrow>
          if code = ''GOVERNANCE_SCOPE_GAP''
             \<and> nonempty_json_list (map_of (fi_evidence f) ''missing_cells'') then Recapture
          else (case map_of FROZEN_CODE_ACTIONS code of
            Some a \<Rightarrow> a
          | None \<Rightarrow>
              if list_ex (\<lambda>k. contains k code) RECAPTURE_KEYWORDS \<or> contains ''recapture'' rec
              then Recapture
              else if list_ex (\<lambda>k. contains k code) RELABEL_KEYWORDS \<or> contains ''relabel'' rec
              then Relabel
              else if list_ex (\<lambda>k. contains k code) REPARTITION_KEYWORDS
                \<or> contains ''repartition'' rec \<or> contains ''remove'' rec
              then RemoveOrRepartition
              else Investigate))"

section \<open>Work orders\<close>

definition stable_work_order_id :: "crypto \<Rightarrow> (string \<times> json) list \<Rightarrow> string" where
  "stable_work_order_id C payload = ''wo-'' @ take 16 (dumps_sha C (JObj payload))"

definition work_order_rulepack_binding :: "rulepack_binding \<Rightarrow> string \<Rightarrow> (string \<times> json) list" where
  "work_order_rulepack_binding b rule_id =
     [(''rule_pack_id'', JStr (rb_pack_id b)), (''rule_pack_version'', JStr (rb_pack_version b)),
      (''rule_pack_source_identity'', JStr (source_identity_str (rb_source_identity b))),
      (''rule_pack_source_sha256'', JStr (rb_source_sha256 b)),
      (''rule_pack_semantic_sha256'', JStr (rb_semantic_sha256 b)),
      (''rule_pack_binding_sha256'', JStr (rb_binding_sha256 b)), (''rule_id'', JStr rule_id)]"

text \<open>\<open>d.update(kvs)\<close>.\<close>

definition dict_update :: "('k \<times> 'v) list \<Rightarrow> ('k \<times> 'v) list \<Rightarrow> ('k \<times> 'v) list" where
  "dict_update d kvs = fold (\<lambda>(k, v) acc. dict_set k v acc) kvs d"

definition with_rulepack ::
    "rulepack_binding option \<Rightarrow> string \<Rightarrow> (string \<times> json) list \<Rightarrow> (string \<times> json) list" where
  "with_rulepack pack finding_code d =
     (case pack of None \<Rightarrow> d
      | Some b \<Rightarrow> dict_update d (work_order_rulepack_binding b
          (case map_of (rb_rule_id_by_finding_code b) finding_code of
             None \<Rightarrow> ''UNMATCHED_FAIL_CLOSED'' | Some r \<Rightarrow> r)))"

definition finding_work_order ::
    "crypto \<Rightarrow> finding \<Rightarrow> bool \<Rightarrow> rulepack_binding option \<Rightarrow> work_order" where
  "finding_work_order C f force_investigate pack =
     (let action = (if force_investigate then Investigate else finding_action f pack);
          payload = [(''action'', JStr (action_str action)), (''finding_id'', JStr (fi_finding_id f)),
                     (''reason_codes'', JStrs [fi_code f]),
                     (''sample_ids'', JStrs (sort (fi_sample_ids f)))];
          requirements = dict_set ''source_finding_id'' (JStr (fi_finding_id f)) (fi_evidence f) in
      \<lparr>wo_work_order_id = stable_work_order_id C (with_rulepack pack (upper (fi_code f)) payload),
       wo_action = action, wo_priority = fi_severity f, wo_reason_codes = [fi_code f],
       wo_sample_ids = sort (fi_sample_ids f),
       wo_replacement_requirements = with_rulepack pack (upper (fi_code f)) requirements,
       wo_status = OrderOpen\<rparr>)"

definition trace_work_order :: "crypto \<Rightarrow> tool_trace \<Rightarrow> rulepack_binding option \<Rightarrow> work_order" where
  "trace_work_order C t pack =
     (let reason = (if tt_status t = TraceError then ''TOOL_ERROR'' else ''TOOL_SKIPPED'');
          payload = [(''action'', JStr ''INVESTIGATE''), (''reason_codes'', JStrs [reason, tt_tool t]),
                     (''sequence'', JInt (tt_sequence t))];
          requirements = [(''tool'', JStr (tt_tool t)), (''trace_sequence'', JInt (tt_sequence t)),
                     (''error'', JStr (error_or_status t))];
          code = (if tt_status t = TraceError then ''FOLLOWUP_TOOL_ERROR''
                  else ''FOLLOWUP_BUDGET_EXHAUSTED'') in
      \<lparr>wo_work_order_id = stable_work_order_id C (with_rulepack pack code payload),
       wo_action = Investigate, wo_priority = SevCritical, wo_reason_codes = [reason, tt_tool t],
       wo_sample_ids = [],
       wo_replacement_requirements = with_rulepack pack code requirements,
       wo_status = OrderOpen\<rparr>)"

definition with_unmatched ::
    "rulepack_binding option \<Rightarrow> (string \<times> json) list \<Rightarrow> (string \<times> json) list" where
  "with_unmatched pack d = (case pack of None \<Rightarrow> d
     | Some b \<Rightarrow> dict_update d (work_order_rulepack_binding b ''UNMATCHED_FAIL_CLOSED''))"

definition missing_trace_work_order :: "crypto \<Rightarrow> rulepack_binding option \<Rightarrow> work_order" where
  "missing_trace_work_order C pack =
     \<lparr>wo_work_order_id = stable_work_order_id C (with_unmatched pack
        [(''action'', JStr ''INVESTIGATE''), (''reason_codes'', JStrs [''NO_TOOL_TRACE''])]),
      wo_action = Investigate, wo_priority = SevCritical, wo_reason_codes = [''NO_TOOL_TRACE''],
      wo_sample_ids = [],
      wo_replacement_requirements = with_unmatched pack
        [(''required'', JStr ''at least one completed tool trace'')],
      wo_status = OrderOpen\<rparr>"

definition build_core_work_orders ::
    "crypto \<Rightarrow> finding list \<Rightarrow> tool_trace list \<Rightarrow> rulepack_binding option
       \<Rightarrow> work_order list \<times> tool_trace list \<times> bool" where
  "build_core_work_orders C fs ts pack =
     (let incomplete = filter (\<lambda>t. tt_status t \<noteq> TraceOk) ts;
          unsupported = filter evidence_blocks fs;
          unsupported_ids = map fi_finding_id unsupported;
          orders = map (\<lambda>t. trace_work_order C t pack) incomplete
            @ (if ts = [] then [missing_trace_work_order C pack] else [])
            @ map (\<lambda>f. finding_work_order C f (fi_finding_id f \<in> set unsupported_ids) pack) fs in
      (orders, incomplete, incomplete \<noteq> [] \<or> ts = [] \<or> unsupported \<noteq> []))"

section \<open>Gate decision\<close>

datatype decision_reason =
    ReasonDefer | ReasonRecapture | ReasonQuarantine | ReasonPass
  | ReasonInvariantDefer scenario_profile "string list"

fun reason_text :: "decision_reason \<Rightarrow> string" where
  "reason_text ReasonDefer = ''DEFER: required tool evidence is missing, failed, skipped, or unsupported; the batch is not released.''"
| "reason_text ReasonRecapture = ''RECAPTURE: verified capture-quality or coverage findings require reserve replacement before the batch can be reconsidered.''"
| "reason_text ReasonQuarantine = ''QUARANTINE: verified findings require relabeling, removal, repartition, or investigation before release.''"
| "reason_text ReasonPass = ''PASS only for the frozen sandbox experiment training pool contract; production release still requires human authority.''"
| "reason_text (ReasonInvariantDefer sp ids) = ''DEFER: scenario profile '' @ scenario_str sp
     @ '' failed mandatory PASS-level runtime invariants ('' @ join '', '' ids @ '').''"

definition derive_gate_decision :: "work_order list \<Rightarrow> bool \<Rightarrow> gate_decision \<times> decision_reason" where
  "derive_gate_decision orders block_release =
     (if block_release then (GateDefer, ReasonDefer)
      else if list_ex (\<lambda>wo. wo_action wo = Recapture) orders then (GateRecapture, ReasonRecapture)
      else if orders \<noteq> [] then (GateQuarantine, ReasonQuarantine)
      else (GatePass, ReasonPass))"

fun decision_order :: "gate_decision \<Rightarrow> int" where
  "decision_order GateDefer = 0"
| "decision_order GateQuarantine = 1"
| "decision_order GateRecapture = 2"
| "decision_order GatePass = 3"

text \<open>\<open>_decision_order\<close> makes the decisions a linear order, from strict to permissive.\<close>

instantiation gate_decision :: linorder
begin

definition less_eq_gate_decision :: "gate_decision \<Rightarrow> gate_decision \<Rightarrow> bool" where
  "less_eq_gate_decision a b \<longleftrightarrow> decision_order a \<le> decision_order b"

definition less_gate_decision :: "gate_decision \<Rightarrow> gate_decision \<Rightarrow> bool" where
  "less_gate_decision a b \<longleftrightarrow> decision_order a < decision_order b"

instance
proof
  fix a b :: gate_decision
  show "a \<le> b \<Longrightarrow> b \<le> a \<Longrightarrow> a = b"
    by (cases a; cases b) (simp_all add: less_eq_gate_decision_def)
qed (auto simp: less_eq_gate_decision_def less_gate_decision_def)

end

definition core_decision ::
    "crypto \<Rightarrow> finding list \<Rightarrow> tool_trace list \<Rightarrow> rulepack_binding option \<Rightarrow> gate_decision" where
  "core_decision C fs ts pack =
     (let (orders, _, block) = build_core_work_orders C fs ts pack in
      fst (derive_gate_decision orders block))"

section \<open>Lemmas\<close>

lemma build_core_work_orders_block:
  "snd (snd (build_core_work_orders C fs ts pack)) \<longleftrightarrow>
     ts = [] \<or> (\<exists>t\<in>set ts. tt_status t \<noteq> TraceOk) \<or> (\<exists>f\<in>set fs. evidence_blocks f)"
  by (auto simp: build_core_work_orders_def Let_def filter_empty_conv)

lemma core_decision_split:
  "core_decision C fs ts pack =
     fst (derive_gate_decision (fst (build_core_work_orders C fs ts pack))
       (snd (snd (build_core_work_orders C fs ts pack))))"
  by (simp add: core_decision_def case_prod_beta)

lemma orders_length:
  "length (fst (build_core_work_orders C fs ts pack)) =
     length fs + length (filter (\<lambda>t. tt_status t \<noteq> TraceOk) ts) + (if ts = [] then 1 else 0)"
  by (simp add: build_core_work_orders_def Let_def)

lemma core_decision_pass_iff:
  "core_decision C fs ts pack = GatePass \<longleftrightarrow>
     fs = [] \<and> ts \<noteq> [] \<and> (\<forall>t\<in>set ts. tt_status t = TraceOk)"
proof -
  have "fst (build_core_work_orders C fs ts pack) = [] \<longleftrightarrow>
      fs = [] \<and> ts \<noteq> [] \<and> (\<forall>t\<in>set ts. tt_status t = TraceOk)"
    by (auto simp: build_core_work_orders_def Let_def filter_empty_conv)
  then show ?thesis
    by (auto simp: core_decision_split derive_gate_decision_def build_core_work_orders_block)
qed

lemma core_decision_defer_iff:
  "core_decision C fs ts pack = GateDefer \<longleftrightarrow>
     ts = [] \<or> (\<exists>t\<in>set ts. tt_status t \<noteq> TraceOk) \<or> (\<exists>f\<in>set fs. evidence_blocks f)"
  by (auto simp: core_decision_split derive_gate_decision_def build_core_work_orders_block)

lemma core_decision_recapture_iff:
  "core_decision C fs ts pack = GateRecapture \<longleftrightarrow>
     ts \<noteq> [] \<and> (\<forall>t\<in>set ts. tt_status t = TraceOk) \<and> (\<forall>f\<in>set fs. \<not> evidence_blocks f)
     \<and> (\<exists>f\<in>set fs. finding_action f pack = Recapture)"
proof -
  have "filter evidence_blocks fs = [] \<longleftrightarrow> (\<forall>f\<in>set fs. \<not> evidence_blocks f)"
    "filter (\<lambda>t. tt_status t \<noteq> TraceOk) ts = [] \<longleftrightarrow> (\<forall>t\<in>set ts. tt_status t = TraceOk)"
    by (simp_all add: filter_empty_conv)
  then show ?thesis
    by (auto simp: core_decision_split derive_gate_decision_def build_core_work_orders_block
        build_core_work_orders_def Let_def finding_work_order_def list_ex_iff)
qed

lemma derive_reason:
  "derive_gate_decision os b = (d, r) \<Longrightarrow> d = GatePass \<Longrightarrow> r = ReasonPass"
  by (auto simp: derive_gate_decision_def split: if_splits)

section \<open>Properties\<close>

text \<open>Under a validated and compiled rule pack a finding gets the action of the one rule that lists its
  upper-cased code, and INVESTIGATE when no rule lists it.\<close>

theorem rulepack_actions_are_executed:
  assumes "validate_rule_pack p = Inr p'"
    and "build_rule_pack_runtime_binding C pack_json ident source_sha p' = Inr b"
  shows "finding_action f (Some b) =
    (case find (\<lambda>r. upper (fi_code f) \<in> set (pr_finding_codes r)) (rp_rules p) of
       None \<Rightarrow> Investigate
     | Some r \<Rightarrow> (case pr_action r of RaRecapture \<Rightarrow> Recapture | RaRelabel \<Rightarrow> Relabel
         | RaRemoveOrRepartition \<Rightarrow> RemoveOrRepartition | _ \<Rightarrow> Investigate))"
proof -
  have p: "p' = p" "distinct (concat (map pr_finding_codes (rp_rules p)))"
    using assms(1) by (auto simp: validate_rule_pack_def pack_codes_def)
  note c = build_binding_rules[OF assms(2)[unfolded p(1)]]
  let ?code = "upper (fi_code f)"
  show ?thesis
  proof (cases "find (\<lambda>r. ?code \<in> set (pr_finding_codes r)) (rp_rules p)")
    case None
    then have "?code \<notin> dom (map_of (rb_action_by_finding_code b))"
      using compile_rules_dom[OF c] by (auto simp: find_None_iff)
    then have n: "map_of (rb_action_by_finding_code b) ?code = None" by blast
    show ?thesis by (simp add: finding_action_def Let_def None n)
  next
    case (Some r)
    then have "r \<in> set (rp_rules p)" "?code \<in> set (pr_finding_codes r)"
      by (auto simp: find_Some_iff)
    then obtain a where a: "runtime_action_of r = Inr a" "map_of (rb_action_by_finding_code b) ?code = Some a"
      using compile_rules_actions[OF c p(2)] by blast
    then show ?thesis
      by (auto simp: Some finding_action_def Let_def runtime_action_of_def split: rule_action.splits)
  qed
qed

text \<open>With at least one trace, the red-team role recommends PASS or DEFER exactly when the
  deterministic decision is PASS or DEFER; with no trace the policy defers although the role says PASS.\<close>

theorem red_team_agrees_with_policy:
  assumes "ts \<noteq> []"
  shows "(ao_recommendation (role_opinion fs ts m role_red_team_auditor) = GatePass \<longleftrightarrow>
           core_decision C fs ts pack = GatePass)
    \<and> (ao_recommendation (role_opinion fs ts m role_red_team_auditor) = GateDefer \<longleftrightarrow>
           core_decision C fs ts pack = GateDefer)"
  using assms by (auto simp: role_opinion_def Let_def red_team_sees_all recommendation_pass_iff
      recommendation_defer_iff core_decision_pass_iff core_decision_defer_iff list_all_iff)

end
