(* ===== verification/Gate_Checks.thy ===== *)
theory Gate_Checks
  imports Gate_Policy
begin

text \<open>
  \<open>policy.py\<close>, the rule checks: normalisation and parsing of the metrics, the core checks, and
  the three counterfactual packages (single-finding deletions, tool-trace perturbations, stability
  of the rule outputs). Metrics are a dictionary of JSON values with distinct keys; \<open>JNull\<close>,
  \<open>JArr\<close> and \<open>JObj\<close> stand for the objects that are neither numbers nor strings.
\<close>

section \<open>Metrics\<close>

type_synonym metrics = "(string \<times> json) list"

definition normalized_metric :: "crypto \<Rightarrow> json \<Rightarrow> json" where
  "normalized_metric C v = (case v of
       JBool b \<Rightarrow> JStr (bool_str b)
     | JInt i \<Rightarrow> JInt i | JNum q \<Rightarrow> JNum q | JStr s \<Rightarrow> JStr s
     | _ \<Rightarrow> JStr (dumps_spaced C v))"

definition normalized_metrics :: "crypto \<Rightarrow> metrics \<Rightarrow> metrics" where
  "normalized_metrics C m = map (\<lambda>(k, v). (k, normalized_metric C v)) (sort_key fst m)"

datatype metric_error =
    MetricNotInteger string          \<comment> \<open>TypeError\<close>
  | MetricUnsupported string string  \<comment> \<open>TypeError\<close>
  | MetricNegative string            \<comment> \<open>ValueError\<close>
  | BadIntLiteral string             \<comment> \<open>ValueError of \<open>int(s)\<close>\<close>
  | TooManyDigits nat                \<comment> \<open>ValueError of \<open>int(s)\<close>\<close>
  | NotIntConvertible string         \<comment> \<open>TypeError of \<open>int(x)\<close>\<close>

fun metric_error_text :: "metric_error \<Rightarrow> string" where
  "metric_error_text (MetricNotInteger k) = ''governance metric '' @ k @ '' must be an integer''"
| "metric_error_text (MetricUnsupported k t) =
     ''governance metric '' @ k @ '' has unsupported type: '' @ t"
| "metric_error_text (MetricNegative k) = ''governance metric '' @ k @ '' must be non-negative''"
| "metric_error_text (BadIntLiteral s) =
     ''invalid literal for int() with base 10: '' @ [CHR 0x27] @ s @ [CHR 0x27]"
| "metric_error_text (TooManyDigits n) =
     ''Exceeds the limit (4300 digits) for integer string conversion: value has '' @ nat_str n
     @ '' digits; use sys.set_int_max_str_digits() to increase the limit''"
| "metric_error_text (NotIntConvertible t) =
     ''int() argument must be a string, a bytes-like object or a real number, not ''
     @ [CHR 0x27] @ t @ [CHR 0x27]"

fun type_name :: "json \<Rightarrow> string" where
  "type_name JNull = ''NoneType''"
| "type_name (JBool _) = ''bool''"
| "type_name (JInt _) = ''int''"
| "type_name (JNum _) = ''float''"
| "type_name (JStr _) = ''str''"
| "type_name (JArr _) = ''list''"
| "type_name (JObj _) = ''dict''"

definition digits_val :: "string \<Rightarrow> int" where
  "digits_val ds = foldl (\<lambda>a d. 10 * a + (of_char d - 48)) 0 ds"

text \<open>
  \<open>int(s)\<close> on a string: white space is stripped, one sign is allowed, and single underscores may
  separate digits; more than 4300 digits are refused.
\<close>

definition int_literal :: "string \<Rightarrow> metric_error + int" where
  "int_literal s =
     (let t = strip s;
          neg = (take 1 t = ''-'');
          body = (if take 1 t = ''-'' \<or> take 1 t = ''+'' then drop 1 t else t);
          groups = split_on (CHR ''_'') body;
          digits = concat groups in
      if \<not> list_all (\<lambda>g. g \<noteq> [] \<and> list_all is_digit g) groups then Inl (BadIntLiteral s)
      else if 4300 < length digits then Inl (TooManyDigits (length digits))
      else Inr (if neg then - digits_val digits else digits_val digits))"

definition rat_trunc :: "rat \<Rightarrow> int" where
  "rat_trunc q = (if q < 0 then - \<lfloor>- q\<rfloor> else \<lfloor>q\<rfloor>)"

text \<open>\<open>int(x)\<close> on a metric value.\<close>

definition py_int :: "json \<Rightarrow> metric_error + int" where
  "py_int v = (case v of
       JBool b \<Rightarrow> Inr (if b then 1 else 0) | JInt i \<Rightarrow> Inr i | JNum q \<Rightarrow> Inr (rat_trunc q)
     | JStr s \<Rightarrow> int_literal s | _ \<Rightarrow> Inl (NotIntConvertible (type_name v)))"

text \<open>\<open>int(metrics.get("tool_count", 0))\<close>.\<close>

definition tool_count :: "metrics \<Rightarrow> metric_error + int" where
  "tool_count m = py_int (case map_of m ''tool_count'' of None \<Rightarrow> JInt 0 | Some v \<Rightarrow> v)"

definition remove_prefix :: "string \<Rightarrow> string \<Rightarrow> string" where
  "remove_prefix p s = (if take (length p) s = p then drop (length p) s else s)"

definition governance_raw :: "string \<Rightarrow> json \<Rightarrow> metric_error + bool \<times> int" where
  "governance_raw raw_key raw = (case raw of
       JBool b \<Rightarrow> Inr (True, if b then 1 else 0)
     | JInt i \<Rightarrow> if i < 0 then Inl (MetricNegative raw_key) else Inr (True, i)
     | JNum q \<Rightarrow> if of_int \<lfloor>q\<rfloor> \<noteq> q then Inl (MetricNotInteger raw_key)
         else if q < 0 then Inl (MetricNegative raw_key) else Inr (True, \<lfloor>q\<rfloor>)
     | JStr s \<Rightarrow>
         (let stripped = strip s; unsigned = dropWhile (\<lambda>c. c = CHR ''-'') stripped in
          if stripped = [] \<or> unsigned = [] \<or> \<not> list_all is_digit unsigned
          then Inl (MetricNotInteger raw_key)
          else rbind (int_literal stripped) (\<lambda>value.
            if value < 0 then Inl (MetricNegative raw_key) else Inr (True, value)))
     | _ \<Rightarrow> Inl (MetricUnsupported raw_key (type_name raw)))"

definition governance_metric :: "metrics \<Rightarrow> string \<Rightarrow> metric_error + bool \<times> int" where
  "governance_metric m key =
     (let canonical_key = ''governance_'' @ key;
          raw_key = (if map_of m canonical_key \<noteq> None then canonical_key
                     else remove_prefix ''governance_'' key) in
      case map_of m raw_key of None \<Rightarrow> Inr (False, 0) | Some raw \<Rightarrow> governance_raw raw_key raw)"

section \<open>Rule checks\<close>

datatype governance_detail =
    GovParsingIssue | GovNoMissing | GovNoUnknown | GovAligned | GovExceeds int int int int

datatype check_detail =
    ToolSuiteInvoked | ToolCountShort int int string
  | RequiredToolsRan string | MissingRequiredTools "string list"
  | TracesSuccessful | NonOkTraces "string list"
  | FindingsVerified | StrongerEvidence
  | GovernanceMissing string | GovernanceScope string governance_detail
  | DeletionDisabled | DeletionNoFindings | DeletionFlipped nat nat
  | DeletionTolerated | DeletionRobust
  | ToolDisabled | ToolNoVariants | ToolFlipped nat nat | ToolTolerated | ToolRobust
  | StabilityDisabled | StabilityFailed nat | StabilityPassed | StabilityTolerated
  | RulepackUsed string string
  | InvariantsAllow | InvariantsBlock "string list"

fun governance_detail_text :: "governance_detail \<Rightarrow> string" where
  "governance_detail_text GovParsingIssue = ''governance metrics parsing/availability issue''"
| "governance_detail_text GovNoMissing = ''missing governance_missing_cell_count metric''"
| "governance_detail_text GovNoUnknown = ''missing governance_unknown_cell_count metric''"
| "governance_detail_text GovAligned = ''Governance scope aligns with contract.''"
| "governance_detail_text (GovExceeds m u lm lu) =
     ''Governance scope exceeds scenario limits: missing='' @ int_str m @ '', unknown='' @ int_str u
     @ '', limits missing<='' @ int_str lm @ '', unknown<='' @ int_str lu"

fun check_detail_text :: "check_detail \<Rightarrow> string" where
  "check_detail_text ToolSuiteInvoked = ''Core tool suite was fully invoked.''"
| "check_detail_text (ToolCountShort n k l) = ''Core tool suite invocation count is '' @ int_str n
     @ '', require >= '' @ int_str k @ '' for scenario '' @ l @ ''.''"
| "check_detail_text (RequiredToolsRan l) = ''All required tools executed for scenario '' @ l @ ''.''"
| "check_detail_text (MissingRequiredTools ts) =
     ''Missing scenario-required tool trace(s): '' @ join '', '' ts"
| "check_detail_text TracesSuccessful = ''All tool traces are successful.''"
| "check_detail_text (NonOkTraces ts) = ''Non-OK traces: '' @ join '', '' ts"
| "check_detail_text FindingsVerified = ''All findings are verified or source-backed.''"
| "check_detail_text StrongerEvidence = ''Some findings require stronger evidence.''"
| "check_detail_text (GovernanceMissing l) = ''Scenario rulebook('' @ l
     @ '') requires governance metrics, but governance tool output is missing.''"
| "check_detail_text (GovernanceScope l d) = ''Scenario rulebook('' @ l
     @ '') governance scope check: '' @ governance_detail_text d"
| "check_detail_text DeletionDisabled =
     ''Counterfactual perturbation checks are not enabled for this package.''"
| "check_detail_text DeletionNoFindings =
     ''Not enough findings to perform counterfactual perturbation checks.''"
| "check_detail_text (DeletionFlipped n k) = ''Counterfactual single-finding deletions changed decision in a stricter-to-looser direction for ''
     @ nat_str n @ ''/'' @ nat_str k @ '' probes.''"
| "check_detail_text DeletionTolerated =
     ''Decision remained non-more-permissive under single-finding deletions.''"
| "check_detail_text DeletionRobust =
     ''Decision was robust for all sampled single-finding deletions.''"
| "check_detail_text ToolDisabled =
     ''Tool-level counterfactual checks are disabled for this scenario profile.''"
| "check_detail_text ToolNoVariants =
     ''No tool-level counterfactual perturbations were applicable.''"
| "check_detail_text (ToolFlipped n k) = ''Counterfactual tool perturbations changed decision in a stricter-to-looser direction for ''
     @ nat_str n @ ''/'' @ nat_str k @ '' perturbations.''"
| "check_detail_text ToolTolerated =
     ''Decision remained non-more-permissive under deterministic tool perturbations.''"
| "check_detail_text ToolRobust = ''Decision was robust for sampled tool perturbations.''"
| "check_detail_text StabilityDisabled =
     ''Rule-stability counterfactual checks are disabled for this package.''"
| "check_detail_text (StabilityFailed n) = ''Rule decision stability checks failed: '' @ nat_str n
     @ '' unstable rule outputs under counterfactual perturbation.''"
| "check_detail_text StabilityPassed =
     ''Rule stability checks passed under sampled counterfactual perturbations.''"
| "check_detail_text StabilityTolerated = ''Rule outputs were stable within configured tolerances.''"
| "check_detail_text (RulepackUsed p v) = ''Runtime used '' @ p @ ''@'' @ v
     @ ''; unmatched finding codes fail closed to INVESTIGATE.''"
| "check_detail_text InvariantsAllow =
     ''Executable runtime invariants allow the sandbox Gate PASS transition.''"
| "check_detail_text (InvariantsBlock is) =
     ''Executable runtime invariants blocked Gate PASS: '' @ join '', '' is @ ''.''"

record rule_check =
  rc_check_id :: string
  rc_status :: rule_check_result
  rc_detail :: check_detail
  rc_related_refs :: "string list"

definition rule_check_of :: "string \<Rightarrow> bool \<Rightarrow> check_detail \<Rightarrow> string list \<Rightarrow> rule_check" where
  "rule_check_of i ok d refs =
     \<lparr>rc_check_id = i, rc_status = (if ok then CheckPass else CheckFail), rc_detail = d,
      rc_related_refs = refs\<rparr>"

section \<open>Core checks\<close>

text \<open>
  The reading of one governance counter: whether the tool reported it, its value (\<open>None\<close> when the
  variable was never assigned), and the issue recorded when parsing raised.
\<close>

record governance_reading =
  gr_present :: bool
  gr_value :: "int option"
  gr_issue :: "string option"

definition read_governance :: "metrics \<Rightarrow> string \<Rightarrow> governance_reading" where
  "read_governance m key =
     (if map_of m (''governance_'' @ key) \<noteq> None \<or> map_of m key \<noteq> None
      then (case governance_metric m key of
          Inl e \<Rightarrow> \<lparr>gr_present = False, gr_value = None,
             gr_issue = Some (''governance_'' @ key @ '' parse failure: '' @ metric_error_text e)\<rparr>
        | Inr (p, v) \<Rightarrow> \<lparr>gr_present = p, gr_value = Some v, gr_issue = None\<rparr>)
      else \<lparr>gr_present = False, gr_value = None, gr_issue = None\<rparr>)"

definition opt_list :: "'a option \<Rightarrow> 'a list" where
  "opt_list m = (case m of None \<Rightarrow> [] | Some a \<Rightarrow> [a])"

definition governance_check :: "scenario_profile \<Rightarrow> metrics \<Rightarrow> rule_check list" where
  "governance_check sp m =
     (let profile = SCENARIO_RULEBOOK sp;
          mi = read_governance m ''missing_cell_count'';
          un = read_governance m ''unknown_cell_count'';
          present = (gr_present mi \<or> gr_present un);
          required = sp_require_governance_metrics profile;
          unavailable = (required \<and> (\<not> gr_present mi \<or> \<not> gr_present un));
          metric_missing = (gr_issue mi \<noteq> None \<or> gr_issue un \<noteq> None \<or> unavailable);
          issues = opt_list (gr_issue mi) @ opt_list (gr_issue un)
            @ (if unavailable
               then (if gr_present mi then [] else [''governance_missing_cell_count missing''])
                  @ (if gr_present un then [] else [''governance_unknown_cell_count missing''])
               else []);
          max_m = sp_max_governance_missing_cells profile;
          max_u = sp_max_governance_unknown_cells profile;
          exceeds = (case (gr_value mi, gr_value un) of
              (Some a, Some b) \<Rightarrow> max_m < a \<or> max_u < b | _ \<Rightarrow> False);
          detail = (if metric_missing then GovParsingIssue
            else (case gr_value mi of None \<Rightarrow> GovNoMissing
              | Some a \<Rightarrow> (case gr_value un of None \<Rightarrow> GovNoUnknown
                | Some b \<Rightarrow> if a \<le> max_m \<and> b \<le> max_u then GovAligned
                            else GovExceeds a b max_m max_u)));
          absent = (required \<and> \<not> present) in
      if present \<or> required
      then [rule_check_of ''RC-GOVERNANCE-SCOPE'' (\<not> (metric_missing \<or> absent \<or> exceeds))
              (if absent then GovernanceMissing (sp_label profile)
               else GovernanceScope (sp_label profile) detail)
              (if \<not> metric_missing
               then (if absent then [''governance:missing-metrics'']
                     else [''governance_missing_cell_count'', ''governance_unknown_cell_count''])
               else issues)]
      else [])"

definition bad_trace_tools :: "tool_trace list \<Rightarrow> string list" where
  "bad_trace_tools ts =
     sorted_set (map tt_tool (filter (\<lambda>t. tt_status t \<noteq> TraceOk \<or> tt_error t \<noteq> None) ts))"

definition unverified_ids :: "finding list \<Rightarrow> string list" where
  "unverified_ids fs =
     sorted_set (map fi_finding_id (filter (\<lambda>f. fi_evidence_status f \<noteq> EvVerified) fs))"

definition build_core_rule_checks ::
    "finding list \<Rightarrow> tool_trace list \<Rightarrow> metrics \<Rightarrow> scenario_profile \<Rightarrow> metric_error + rule_check list" where
  "build_core_rule_checks fs ts m sp =
     rbind (tool_count m) (\<lambda>n.
     (let profile = SCENARIO_RULEBOOK sp; label = sp_label profile;
          required = sp_required_tool_names profile; observed = map tt_tool ts;
          bad = bad_trace_tools ts; failed = unverified_ids fs in
      Inr ([rule_check_of ''RC-TOOL-COUNT'' (sp_min_tool_count profile \<le> n)
              (if sp_min_tool_count profile \<le> n then ToolSuiteInvoked
               else ToolCountShort n (sp_min_tool_count profile) label)
              [''tool_count'', ''tool_error_count''],
            rule_check_of ''RC-SCENARIO-TOOLS'' (set required \<subseteq> set observed)
              (if set required \<subseteq> set observed then RequiredToolsRan label
               else MissingRequiredTools (sorted_set (filter (\<lambda>t. t \<notin> set observed) required)))
              (map (\<lambda>t. ''tool:'' @ t) (sort required)),
            rule_check_of ''RC-TRACE-OK'' (bad = [])
              (if bad = [] then TracesSuccessful else NonOkTraces bad)
              (if bad = [] then [''trace:all-ok''] else map (\<lambda>t. ''trace:'' @ t) bad),
            rule_check_of ''RC-EVIDENCE-QUALITY'' (failed = [])
              (if failed = [] then FindingsVerified else StrongerEvidence)
              (if failed = [] then [''findings:verified''] else failed)]
           @ governance_check sp m)))"

section \<open>Single-finding deletions\<close>

definition order_findings :: "finding list \<Rightarrow> finding list" where
  "order_findings fs = sort_key (\<lambda>f. (fi_code f, fi_finding_id f)) fs"

definition more_permissive :: "gate_decision \<Rightarrow> gate_decision \<Rightarrow> bool" where
  "more_permissive candidate base \<longleftrightarrow> decision_order base < decision_order candidate"

definition deletion_flips ::
    "crypto \<Rightarrow> gate_decision \<Rightarrow> finding list \<Rightarrow> tool_trace list \<Rightarrow> rulepack_binding option
       \<Rightarrow> finding list \<Rightarrow> string list" where
  "deletion_flips C base ordered ts pack candidates =
     map fi_finding_id (filter (\<lambda>f. more_permissive
       (core_decision C (filter (\<lambda>g. fi_finding_id g \<noteq> fi_finding_id f) ordered) ts pack) base)
       candidates)"

definition build_counterfactual_rule_checks ::
    "crypto \<Rightarrow> gate_decision \<Rightarrow> finding list \<Rightarrow> tool_trace list \<Rightarrow> scenario_profile
       \<Rightarrow> rulepack_binding option \<Rightarrow> rule_check" where
  "build_counterfactual_rule_checks C base fs ts sp pack =
     (let profile = SCENARIO_RULEBOOK sp; i = ''RC-COUNTERFACTUAL-REMOVE-1'' in
      if sp_counterfactual_probe_budget profile \<le> 0
      then rule_check_of i True DeletionDisabled [''counterfactual:disabled'']
      else let max_probes = min (length fs) (nat (sp_counterfactual_probe_budget profile)) in
      if max_probes = 0
      then rule_check_of i True DeletionNoFindings [''counterfactual:no-findings'']
      else let ordered = order_findings fs; candidates = take max_probes ordered;
               flipped = deletion_flips C base ordered ts pack candidates;
               failed = (sp_counterfactual_flip_tolerance profile < int (length flipped)) in
        rule_check_of i (\<not> failed)
          (if failed then DeletionFlipped (length flipped) (length candidates)
           else if flipped \<noteq> [] then DeletionTolerated else DeletionRobust)
          (if flipped \<noteq> [] then map (\<lambda>x. ''finding:'' @ x) flipped else [''findings:stable'']))"

section \<open>Tool-trace perturbations\<close>

definition tool_trace_signature :: "crypto \<Rightarrow> tool_trace \<Rightarrow> string" where
  "tool_trace_signature C t = dumps C (dump_tool_trace t)"

definition trace_sequence_signature :: "crypto \<Rightarrow> tool_trace list \<Rightarrow> string list" where
  "trace_sequence_signature C ts = map (tool_trace_signature C) ts"

definition targets :: "string \<Rightarrow> string \<Rightarrow> tool_trace \<Rightarrow> bool" where
  "targets finding_id tool t \<longleftrightarrow> tt_tool t = tool \<and> finding_id \<in> set (tt_finding_ids t)"

text \<open>The loop that keeps the first of the targeted traces with equal signatures.\<close>

fun dedupe_traces ::
    "crypto \<Rightarrow> string \<Rightarrow> string \<Rightarrow> string list \<Rightarrow> tool_trace list \<Rightarrow> tool_trace list" where
  "dedupe_traces C fid tool seen [] = []"
| "dedupe_traces C fid tool seen (t # ts) =
     (if targets fid tool t
      then (if tool_trace_signature C t \<in> set seen then dedupe_traces C fid tool seen ts
            else t # dedupe_traces C fid tool (tool_trace_signature C t # seen) ts)
      else t # dedupe_traces C fid tool seen ts)"

definition tool_perturbations_for_target ::
    "crypto \<Rightarrow> string \<Rightarrow> string \<Rightarrow> tool_trace list \<Rightarrow> (string \<times> tool_trace list) list" where
  "tool_perturbations_for_target C fid tool ts =
     (let suffix = fid @ '':'' @ tool;
          removed = filter (\<lambda>t. \<not> targets fid tool t) ts;
          deduped = dedupe_traces C fid tool [] ts;
          reordered = filter (\<lambda>t. tt_tool t = tool) ts @ filter (\<lambda>t. tt_tool t \<noteq> tool) ts in
      (if removed \<noteq> ts then [(''remove:'' @ suffix, removed)] else [])
      @ (if deduped \<noteq> ts then [(''dedupe:'' @ suffix, deduped)] else [])
      @ (if reordered \<noteq> ts then [(''reorder:'' @ suffix, reordered)] else []))"

text \<open>The variants collected so far and the signatures seen.\<close>

type_synonym variants = "(string \<times> tool_trace list) list \<times> string list list"

fun add_variants ::
    "crypto \<Rightarrow> nat \<Rightarrow> string list \<Rightarrow> (string \<times> tool_trace list) list \<Rightarrow> variants \<Rightarrow> variants" where
  "add_variants C budget base [] (vs, seen) = (vs, seen)"
| "add_variants C budget base ((label, candidate) # rest) (vs, seen) =
     (if budget \<le> length vs then (vs, seen)
      else let sig = trace_sequence_signature C candidate in
        if sig \<in> set seen \<or> sig = base then add_variants C budget base rest (vs, seen)
        else add_variants C budget base rest (vs @ [(label, candidate)], sig # seen))"

fun add_tools ::
    "crypto \<Rightarrow> nat \<Rightarrow> tool_trace list \<Rightarrow> string \<Rightarrow> string list \<Rightarrow> variants \<Rightarrow> variants" where
  "add_tools C budget ts fid [] acc = acc"
| "add_tools C budget ts fid (tool # tools) acc =
     add_tools C budget ts fid tools
       (add_variants C budget (trace_sequence_signature C ts)
          (tool_perturbations_for_target C fid tool ts) acc)"

definition touched_tools :: "string \<Rightarrow> tool_trace list \<Rightarrow> string list" where
  "touched_tools fid ts = sorted_set (map tt_tool (filter (\<lambda>t. fid \<in> set (tt_finding_ids t)) ts))"

fun add_findings :: "crypto \<Rightarrow> nat \<Rightarrow> tool_trace list \<Rightarrow> finding list \<Rightarrow> variants \<Rightarrow> variants" where
  "add_findings C budget ts [] acc = acc"
| "add_findings C budget ts (f # fs) acc =
     (if budget \<le> length (fst acc) then acc
      else add_findings C budget ts fs
        (add_tools C budget ts (fi_finding_id f) (touched_tools (fi_finding_id f) ts) acc))"

definition build_tool_perturbation_candidates ::
    "crypto \<Rightarrow> finding list \<Rightarrow> tool_trace list \<Rightarrow> int \<Rightarrow> (string \<times> tool_trace list) list" where
  "build_tool_perturbation_candidates C fs ts budget =
     (if budget \<le> 0 \<or> fs = [] then []
      else fst (add_findings C (nat budget) ts (order_findings fs) ([], [])))"

text \<open>The probe loop: it stops as soon as the tolerance is exceeded.\<close>

fun tool_probe_loop ::
    "(tool_trace list \<Rightarrow> bool) \<Rightarrow> int \<Rightarrow> (string \<times> tool_trace list) list \<Rightarrow> string list \<Rightarrow> nat
       \<Rightarrow> string list \<times> nat" where
  "tool_probe_loop flips tolerance [] flipped executed = (flipped, executed)"
| "tool_probe_loop flips tolerance ((probe, candidate) # rest) flipped executed =
     (let flipped' = (if flips candidate then flipped @ [probe] else flipped) in
      if tolerance < int (length flipped') then (flipped', executed + 1)
      else tool_probe_loop flips tolerance rest flipped' (executed + 1))"

definition build_counterfactual_tool_checks ::
    "crypto \<Rightarrow> gate_decision \<Rightarrow> finding list \<Rightarrow> tool_trace list \<Rightarrow> scenario_profile
       \<Rightarrow> rulepack_binding option \<Rightarrow> rule_check" where
  "build_counterfactual_tool_checks C base fs ts sp pack =
     (let profile = SCENARIO_RULEBOOK sp; i = ''RC-COUNTERFACTUAL-TOOL-REMOVE-1'' in
      if sp_counterfactual_tool_probe_budget profile \<le> 0
      then rule_check_of i True ToolDisabled [''counterfactual:tool-disabled'']
      else let candidates = build_tool_perturbation_candidates C fs ts
                 (sp_counterfactual_tool_probe_budget profile) in
      if candidates = []
      then rule_check_of i True ToolNoVariants [''counterfactual:tool-no-variants'']
      else let tolerance = sp_counterfactual_tool_flip_tolerance profile;
               (flipped, executed) = tool_probe_loop
                 (\<lambda>candidate. more_permissive (core_decision C fs candidate pack) base)
                 tolerance candidates [] 0;
               failed = (tolerance < int (length flipped)) in
        rule_check_of i (\<not> failed)
          (if failed then ToolFlipped (length flipped) (max 1 executed)
           else if flipped \<noteq> [] then ToolTolerated else ToolRobust)
          (if flipped \<noteq> [] then map (\<lambda>x. ''tool:'' @ x) flipped else [''counterfactual-tool-stable'']))"

section \<open>Rule stability\<close>

definition status_map :: "rule_check list \<Rightarrow> (string \<times> rule_check_result) list" where
  "status_map checks = dict_update [] (map (\<lambda>c. (rc_check_id c, rc_status c)) checks)"

text \<open>The identifiers of the rules a candidate turns from FAIL to PASS or drops.\<close>

definition permissive_rules ::
    "(string \<times> rule_check_result) list \<Rightarrow> (string \<times> rule_check_result) list \<Rightarrow> string list" where
  "permissive_rules base candidate =
     filter (\<lambda>i. map_of base i = Some CheckFail
        \<and> map_of candidate i \<in> {Some CheckPass, None}) (sort (map fst base))"

text \<open>
  The flips of the single-finding deletions and of the tool perturbations, each by its violation
  text; the two lists have as many entries as the \<open>finding_flips\<close> and \<open>tool_flips\<close> of the code.
\<close>

definition finding_violations ::
    "rule_check list \<Rightarrow> finding list \<Rightarrow> tool_trace list \<Rightarrow> metrics \<Rightarrow> scenario_profile
       \<Rightarrow> finding list \<Rightarrow> metric_error + string list" where
  "finding_violations core fs ts m sp probes =
     rbind (rmap (\<lambda>f.
        rbind (build_core_rule_checks (filter (\<lambda>g. fi_finding_id g \<noteq> fi_finding_id f) fs) ts m sp)
          (\<lambda>cs. Inr (map (\<lambda>i. ''finding:'' @ fi_finding_id f @ ''|'' @ i)
             (permissive_rules (status_map core) (status_map cs))))) probes)
     (\<lambda>xs. Inr (concat xs))"

definition tool_violations ::
    "rule_check list \<Rightarrow> finding list \<Rightarrow> metrics \<Rightarrow> scenario_profile
       \<Rightarrow> (string \<times> tool_trace list) list \<Rightarrow> metric_error + string list" where
  "tool_violations core fs m sp probes =
     rbind (rmap (\<lambda>(probe, candidate).
        rbind (build_core_rule_checks fs candidate m sp)
          (\<lambda>cs. Inr (map (\<lambda>i. probe @ '':'' @ i)
             (permissive_rules (status_map core) (status_map cs))))) probes)
     (\<lambda>xs. Inr (concat xs))"

definition build_counterfactual_rule_stability_check ::
    "crypto \<Rightarrow> rule_check list \<Rightarrow> finding list \<Rightarrow> tool_trace list \<Rightarrow> metrics \<Rightarrow> scenario_profile
       \<Rightarrow> metric_error + rule_check" where
  "build_counterfactual_rule_stability_check C core fs ts m sp =
     (let profile = SCENARIO_RULEBOOK sp; i = ''RC-COUNTERFACTUAL-RULE-STABILITY-1'';
          budget = sp_counterfactual_probe_budget profile;
          tool_budget = sp_counterfactual_tool_probe_budget profile in
      if budget \<le> 0 \<and> tool_budget \<le> 0
      then Inr (rule_check_of i True StabilityDisabled [''counterfactual-stability:disabled''])
      else let ordered = order_findings fs in
        rbind (finding_violations core fs ts m sp (take (nat (max 0 budget)) ordered)) (\<lambda>fv.
        rbind (if 0 < tool_budget
               then (let n = min (length ordered) (nat tool_budget) in
                 tool_violations core fs m sp
                   (build_tool_perturbation_candidates C (take n ordered) ts (int n)))
               else Inr []) (\<lambda>tv.
        (let violations = fv @ tv;
             failed = (sp_counterfactual_flip_tolerance profile < int (length fv)
                     \<or> sp_counterfactual_tool_flip_tolerance profile < int (length tv)) in
         Inr (rule_check_of i (\<not> failed)
           (if failed then StabilityFailed (length violations)
            else if violations = [] then StabilityPassed else StabilityTolerated)
           (if violations \<noteq> [] then take 24 violations else [''counterfactual-rule-stable'']))))))"

definition build_rule_checks ::
    "crypto \<Rightarrow> finding list \<Rightarrow> tool_trace list \<Rightarrow> metrics \<Rightarrow> gate_decision \<Rightarrow> scenario_profile
       \<Rightarrow> rulepack_binding option \<Rightarrow> metric_error + rule_check list" where
  "build_rule_checks C fs ts m base sp pack =
     (let packages = sp_rule_packages (SCENARIO_RULEBOOK sp) in
      rbind (build_core_rule_checks fs ts m sp) (\<lambda>core.
      rbind (if ''RULE-STABILITY'' \<in> set packages
             then rbind (build_counterfactual_rule_stability_check C core fs ts m sp) (\<lambda>c. Inr [c])
             else Inr []) (\<lambda>stability.
      Inr (core
        @ (if ''COUNTERFACTUAL-FINDING'' \<in> set packages
           then [build_counterfactual_rule_checks C base fs ts sp pack] else [])
        @ (if ''COUNTERFACTUAL-TOOL'' \<in> set packages
           then [build_counterfactual_tool_checks C base fs ts sp pack] else [])
        @ stability))))"

section \<open>Lemmas\<close>

lemma rule_check_of_sel [simp]:
  "rc_check_id (rule_check_of i ok d refs) = i"
  "rc_status (rule_check_of i ok d refs) = CheckFail \<longleftrightarrow> \<not> ok"
  "rc_status (rule_check_of i ok d refs) = CheckPass \<longleftrightarrow> ok"
  by (simp_all add: rule_check_of_def)

lemma order_findings_Nil [simp]: "order_findings [] = []"
  by (simp add: order_findings_def)

lemma tool_candidates_Nil [simp]: "build_tool_perturbation_candidates C [] ts b = []"
  by (simp add: build_tool_perturbation_candidates_def)

lemma no_findings_counterfactuals:
  "rc_status (build_counterfactual_rule_checks C base [] ts sp pack) = CheckPass"
  "rc_check_id (build_counterfactual_rule_checks C base fs ts sp pack) = ''RC-COUNTERFACTUAL-REMOVE-1''"
  "rc_status (build_counterfactual_tool_checks C base [] ts sp pack) = CheckPass"
  "rc_check_id (build_counterfactual_tool_checks C base fs ts sp pack) = ''RC-COUNTERFACTUAL-TOOL-REMOVE-1''"
  by (simp_all add: build_counterfactual_rule_checks_def build_counterfactual_tool_checks_def Let_def
      split: prod.splits)

lemma tolerance_nonneg: "0 \<le> sp_counterfactual_flip_tolerance (SCENARIO_RULEBOOK sp)"
  "0 \<le> sp_counterfactual_tool_flip_tolerance (SCENARIO_RULEBOOK sp)"
  by (cases sp; simp add: governed_rules_def)+

lemma no_findings_stability:
  "build_counterfactual_rule_stability_check C core [] ts m sp = Inr c \<Longrightarrow>
     rc_status c = CheckPass \<and> rc_check_id c = ''RC-COUNTERFACTUAL-RULE-STABILITY-1''"
  using tolerance_nonneg[of sp]
  by (auto simp: build_counterfactual_rule_stability_check_def Let_def finding_violations_def
      tool_violations_def split: if_splits)

lemma stability_total:
  assumes "tool_count m = Inr n"
  shows "\<exists>c. build_counterfactual_rule_stability_check C core fs ts m sp = Inr c"
proof -
  have f: "\<exists>ys. finding_violations core fs ts m sp ps = Inr ys" for ps
    unfolding finding_violations_def using assms
    by (auto simp: build_core_rule_checks_def Let_def intro!: rmap_total)
  have t: "\<exists>ys. tool_violations core fs m sp ps = Inr ys" for ps
    unfolding tool_violations_def using assms
    by (auto simp: build_core_rule_checks_def Let_def intro!: rmap_total)
  have rb: "m = Inr x \<Longrightarrow> (\<exists>c. rbind m g = Inr c) \<longleftrightarrow> (\<exists>c. g x = Inr c)" for m x and g :: "'x \<Rightarrow> 'y + 'z"
    by simp
  obtain fv where fv: "finding_violations core fs ts m sp (take (nat (max 0
     (sp_counterfactual_probe_budget (SCENARIO_RULEBOOK sp)))) (order_findings fs)) = Inr fv"
    using f by blast
  let ?n = "min (length (order_findings fs)) (nat (sp_counterfactual_tool_probe_budget (SCENARIO_RULEBOOK sp)))"
  obtain tv where tv: "tool_violations core fs m sp
     (build_tool_perturbation_candidates C (take ?n (order_findings fs)) ts (int ?n)) = Inr tv"
    using t by blast
  show ?thesis
    by (simp only: build_counterfactual_rule_stability_check_def Let_def fv tv rbind_Inr split: if_split)
       blast
qed

lemma governance_raw_reported: "governance_raw k v = Inr (p, n) \<Longrightarrow> p \<and> 0 \<le> n"
  by (auto simp: governance_raw_def Let_def split: json.splits if_splits)

lemma governance_metric_absent:
  assumes "governance_metric m key = Inr (p, n)" and "remove_prefix ''governance_'' key = key"
  shows "p \<longleftrightarrow> map_of m (''governance_'' @ key) \<noteq> None \<or> map_of m key \<noteq> None"
  using assms by (auto simp: governance_metric_def Let_def dest: governance_raw_reported
      split: option.splits if_splits)

lemma governance_metric_fails:
  assumes "governance_metric m key = Inl e" and "remove_prefix ''governance_'' key = key"
  shows "map_of m (''governance_'' @ key) \<noteq> None \<or> map_of m key \<noteq> None"
  using assms by (auto simp: governance_metric_def Let_def
      split: option.splits if_splits)

lemma read_governance_sel:
  assumes "remove_prefix ''governance_'' key = key"
  shows "gr_present (read_governance m key) \<longleftrightarrow> (\<exists>n. governance_metric m key = Inr (True, n))"
    and "gr_issue (read_governance m key) = None \<longleftrightarrow> (\<exists>p n. governance_metric m key = Inr (p, n))"
    and "gr_value (read_governance m key) = (case governance_metric m key of
           Inr (True, n) \<Rightarrow> Some n | _ \<Rightarrow> None)"
  using governance_metric_absent[OF _ assms, of m] governance_metric_fails[OF _ assms, of m]
  by (auto simp: read_governance_def split: sum.splits)

text \<open>What the governance check demands, read off the two counters.\<close>

definition governance_accepts :: "scenario_profile \<Rightarrow> metrics \<Rightarrow> bool" where
  "governance_accepts sp m =
     (let mi = governance_metric m ''missing_cell_count'';
          un = governance_metric m ''unknown_cell_count'';
          profile = SCENARIO_RULEBOOK sp in
      case (mi, un) of
        (Inr (True, a), Inr (True, b)) \<Rightarrow> a \<le> sp_max_governance_missing_cells profile
           \<and> b \<le> sp_max_governance_unknown_cells profile
      | (Inr (True, _), Inr (False, _)) \<Rightarrow> sp = Generic
      | (Inr (False, _), Inr (True, _)) \<Rightarrow> sp = Generic
      | (Inr (True, _), Inl _) \<Rightarrow> False
      | (Inl _, Inr (True, _)) \<Rightarrow> False
      | _ \<Rightarrow> sp = Generic)"

lemma required_governance: "sp_require_governance_metrics (SCENARIO_RULEBOOK sp) \<longleftrightarrow> sp \<noteq> Generic"
  by (cases sp) (simp_all add: governed_rules_def)

lemma governance_check_accepts:
  "(\<forall>c\<in>set (governance_check sp m). rc_status c = CheckPass) \<longleftrightarrow> governance_accepts sp m"
proof -
  have p: "remove_prefix ''governance_'' ''missing_cell_count'' = ''missing_cell_count''" "remove_prefix ''governance_'' ''unknown_cell_count'' = ''unknown_cell_count''"
    by (simp_all add: remove_prefix_def)
  show ?thesis
    by (cases "governance_metric m ''missing_cell_count''"; cases "governance_metric m ''unknown_cell_count''")
      (auto simp: governance_check_def governance_accepts_def Let_def read_governance_sel[OF p(1)]
         read_governance_sel[OF p(2)] required_governance split: if_splits bool.splits prod.splits)
qed

lemma governance_check_ids: "c \<in> set (governance_check sp m) \<Longrightarrow> rc_check_id c = ''RC-GOVERNANCE-SCOPE''"
  by (auto simp: governance_check_def Let_def split: if_splits)

lemma digits_val_nat_str: "digits_val (nat_str n) = int n"
proof (induction n rule: nat_str.induct)
  case (1 n)
  then show ?case
    by (cases "n < 10")
       (simp_all add: nat_str.simps[of n] digits_val_def digit_char_props
          zdiv_int zmod_int del: of_nat_div of_nat_mod)
qed

lemma int_literal_int_str:
  assumes "length (nat_str (nat \<bar>i\<bar>)) \<le> 4300"
  shows "int_literal (int_str i) = Inr i"
proof -
  define n where "n = nat \<bar>i\<bar>"
  have len: "length (nat_str n) \<le> 4300"
    using assms by (simp add: n_def)
  have dig: "\<exists>d<10. c = digit_char d" if "c \<in> set (nat_str n)" for c
    using that by (rule nat_str_digits)
  have all: "list_all is_digit (nat_str n)" "CHR ''_'' \<notin> set (nat_str n)"
    using dig digit_char_props by (fastforce simp: list_all_iff)+
  have hd: "\<not> ws_char (hd (nat_str n))" "hd (nat_str n) \<noteq> CHR ''-''" "hd (nat_str n) \<noteq> CHR ''+''"
    "\<not> ws_char (last (nat_str n))"
    using dig[OF hd_in_set] dig[OF last_in_set] digit_char_props by fastforce+
  have t1: "take (Suc 0) (nat_str n) = [hd (nat_str n)]"
    by (cases "nat_str n") auto
  have mw: "\<not> ws_char (CHR ''-'')" by (simp add: ws_char_def)
  show ?thesis
  proof (cases "i < 0")
    case True
    then have s: "int_str i = CHR ''-'' # nat_str n" by (simp add: int_str_def n_def)
    have "strip (int_str i) = int_str i" using mw hd by (simp add: s strip_id)
    then show ?thesis using True len all
      by (simp add: int_literal_def s split_on_absent digits_val_nat_str n_def)
  next
    case False
    then have s: "int_str i = nat_str n" by (simp add: int_str_def n_def)
    have "strip (int_str i) = int_str i" using hd by (simp add: s strip_id)
    then show ?thesis using False len all hd
      by (simp add: int_literal_def s t1 split_on_absent digits_val_nat_str Let_def) (simp add: n_def)
  qed
qed

text \<open>The invariant of the variant collection.\<close>

definition variants_ok :: "crypto \<Rightarrow> nat \<Rightarrow> string list \<Rightarrow> variants \<Rightarrow> bool" where
  "variants_ok C budget base acc \<longleftrightarrow>
     length (fst acc) \<le> budget
   \<and> rev (snd acc) = map (\<lambda>(l, ts). trace_sequence_signature C ts) (fst acc)
   \<and> distinct (snd acc) \<and> base \<notin> set (snd acc)"

lemma add_variants_ok:
  "variants_ok C budget base acc \<Longrightarrow> variants_ok C budget base (add_variants C budget base cs acc)"
  by (induction C budget base cs acc rule: add_variants.induct)
     (auto simp: variants_ok_def Let_def split: if_splits)

lemma add_tools_ok:
  "variants_ok C budget (trace_sequence_signature C ts) acc \<Longrightarrow>
   variants_ok C budget (trace_sequence_signature C ts) (add_tools C budget ts fid tools acc)"
  by (induction tools arbitrary: acc) (simp_all add: add_variants_ok)

lemma add_findings_ok:
  "variants_ok C budget (trace_sequence_signature C ts) acc \<Longrightarrow>
   variants_ok C budget (trace_sequence_signature C ts) (add_findings C budget ts fs acc)"
  by (induction fs arbitrary: acc) (simp_all add: add_tools_ok)

lemma candidates_ok:
  assumes "vs = build_tool_perturbation_candidates C fs ts budget"
  shows "int (length vs) \<le> max 0 budget"
    and "distinct (map (\<lambda>(l, us). trace_sequence_signature C us) vs)"
    and "(l, us) \<in> set vs \<Longrightarrow> trace_sequence_signature C us \<noteq> trace_sequence_signature C ts"
proof -
  let ?acc = "add_findings C (nat budget) ts (order_findings fs) ([], [])"
  have ok: "variants_ok C (nat budget) (trace_sequence_signature C ts) ?acc"
    by (rule add_findings_ok) (simp add: variants_ok_def)
  have sig: "set (snd ?acc) = (\<lambda>(l, us). trace_sequence_signature C us) ` set (fst ?acc)"
    using ok by (metis image_set set_rev variants_ok_def)
  have d: "distinct (map (\<lambda>(l, us). trace_sequence_signature C us) (fst ?acc))"
    using ok by (metis distinct_rev variants_ok_def)
  show "int (length vs) \<le> max 0 budget"
    "distinct (map (\<lambda>(l, us). trace_sequence_signature C us) vs)"
    "(l, us) \<in> set vs \<Longrightarrow> trace_sequence_signature C us \<noteq> trace_sequence_signature C ts"
    using ok d sig unfolding assms build_tool_perturbation_candidates_def variants_ok_def
    by (auto split: if_splits) force
qed

lemma tool_probe_loop_decides:
  assumes "int (length flipped) \<le> tol"
  shows "tol < int (length (fst (tool_probe_loop flips tol cs flipped k))) \<longleftrightarrow>
     tol < int (length flipped + length (filter (\<lambda>c. flips (snd c)) cs))"
  using assms
proof (induction cs arbitrary: flipped k)
  case Nil
  then show ?case by simp
next
  case (Cons c cs)
  obtain p ts where c: "c = (p, ts)" by (metis surj_pair)
  show ?case
  proof (cases "flips ts \<and> tol < int (length flipped) + 1")
    case True
    then show ?thesis by (simp add: c)
  next
    case False
    then show ?thesis using Cons.prems Cons.IH[of "if flips ts then flipped @ [p] else flipped" "k + 1"]
      by (auto simp: c Let_def)
  qed
qed

lemma dropWhile_dash_int_str:
  "dropWhile (\<lambda>c. c = CHR ''-'') (int_str i) = nat_str (nat \<bar>i\<bar>)"
proof -
  have "dropWhile (\<lambda>c. c = CHR ''-'') (nat_str n) = nat_str n" for n
    using nat_str_digits[OF hd_in_set[OF nat_str_not_Nil[of n]]] digit_char_props(4)
    by (cases "nat_str n") fastforce+
  then show ?thesis by (auto simp: int_str_def)
qed

lemma int_str_not_Nil: "int_str i \<noteq> []"
  by (simp add: int_str_def)

lemma nat_str_all_digits: "list_all is_digit (nat_str n)"
  using nat_str_digits digit_char_props(1) by (fastforce simp: list_all_iff)

lemma strip_int_str: "strip (int_str i) = int_str i"
proof -
  have "\<not> ws_char (CHR ''-'')" by (simp add: ws_char_def)
  moreover have "\<not> ws_char (hd (nat_str n))" "\<not> ws_char (last (nat_str n))" for n
    using nat_str_digits[OF hd_in_set[OF nat_str_not_Nil[of n]]]
      nat_str_digits[OF last_in_set[OF nat_str_not_Nil[of n]]] digit_char_props(3) by fastforce+
  ultimately show ?thesis by (intro strip_id) (auto simp: int_str_def)
qed

section \<open>Properties\<close>

text \<open>The tool-trace perturbations never exceed the probe budget, differ pairwise, and none of them
  is the trace list itself (compared by signature).\<close>

theorem tool_perturbations_bounded:
  "int (length (build_tool_perturbation_candidates C fs ts budget)) \<le> max 0 budget
   \<and> distinct (map (trace_sequence_signature C \<circ> snd) (build_tool_perturbation_candidates C fs ts budget))
   \<and> trace_sequence_signature C ts \<notin>
       set (map (trace_sequence_signature C \<circ> snd) (build_tool_perturbation_candidates C fs ts budget))"
proof -
  have eq: "(\<lambda>(l, us). trace_sequence_signature C us) = trace_sequence_signature C \<circ> snd"
    by (auto simp: fun_eq_iff)
  show ?thesis
    using candidates_ok[OF refl, where C = C and fs = fs and ts = ts and budget = budget] unfolding eq by (auto simp: image_iff) metis
qed

text \<open>Stopping the probe loop early does not change the verdict: the check fails exactly when more
  perturbations than tolerated, counted over the whole candidate list, loosen the decision.\<close>

theorem early_stop_is_exact:
  "rc_status (build_counterfactual_tool_checks C base fs ts sp pack) = CheckFail \<longleftrightarrow>
     sp_counterfactual_tool_flip_tolerance (SCENARIO_RULEBOOK sp) <
       int (length (filter (\<lambda>v. decision_order base < decision_order (core_decision C fs (snd v) pack))
         (build_tool_perturbation_candidates C fs ts
            (sp_counterfactual_tool_probe_budget (SCENARIO_RULEBOOK sp)))))"
proof -
  let ?tol = "sp_counterfactual_tool_flip_tolerance (SCENARIO_RULEBOOK sp)"
  let ?flips = "\<lambda>us. more_permissive (core_decision C fs us pack) base"
  let ?cs = "build_tool_perturbation_candidates C fs ts (sp_counterfactual_tool_probe_budget (SCENARIO_RULEBOOK sp))"
  have loop: "?tol < int (length (fst (tool_probe_loop ?flips ?tol ?cs [] 0))) \<longleftrightarrow>
      ?tol < int (length (filter (\<lambda>v. ?flips (snd v)) ?cs))"
    using tool_probe_loop_decides[of "[]" ?tol ?flips ?cs 0] tolerance_nonneg(2)[of sp] by simp
  have "sp_counterfactual_tool_probe_budget (SCENARIO_RULEBOOK sp) \<le> 0 \<Longrightarrow> ?cs = []"
    by (simp add: build_tool_perturbation_candidates_def)
  then have "rc_status (build_counterfactual_tool_checks C base fs ts sp pack) = CheckFail \<longleftrightarrow>
      ?tol < int (length (fst (tool_probe_loop ?flips ?tol ?cs [] 0)))"
    using tolerance_nonneg(2)[of sp]
    by (simp add: build_counterfactual_tool_checks_def Let_def case_prod_beta not_le del: SCENARIO_RULEBOOK.simps)
  then show ?thesis using loop unfolding more_permissive_def by simp
qed

text \<open>What the governance check decides from the two counters. For the generic scenario it is absent
  when neither counter was read, also when both were present and unreadable; every other scenario needs both
  counters, readable and within the limits.\<close>

theorem governance_check_decides:
  "(governance_check sp m = [] \<longleftrightarrow> sp = Generic
      \<and> \<not> (\<exists>n. governance_metric m ''missing_cell_count'' = Inr (True, n))
      \<and> \<not> (\<exists>n. governance_metric m ''unknown_cell_count'' = Inr (True, n)))
   \<and> (list_all (\<lambda>c. rc_status c = CheckPass) (governance_check sp m) \<longleftrightarrow> governance_accepts sp m)"
proof -
  have p: "remove_prefix ''governance_'' ''missing_cell_count'' = ''missing_cell_count''"
     "remove_prefix ''governance_'' ''unknown_cell_count'' = ''unknown_cell_count''"
    by (simp_all add: remove_prefix_def)
  have "governance_check sp m = [] \<longleftrightarrow> sp = Generic
      \<and> \<not> (\<exists>n. governance_metric m ''missing_cell_count'' = Inr (True, n))
      \<and> \<not> (\<exists>n. governance_metric m ''unknown_cell_count'' = Inr (True, n))"
    unfolding governance_check_def Let_def read_governance_sel[OF p(1)] read_governance_sel[OF p(2)]
      required_governance
    by (simp del: SCENARIO_RULEBOOK.simps)
  then show ?thesis using governance_check_accepts[of sp m] by (simp add: list_all_iff)
qed

text \<open>A metric reported as a decimal string is read as the integer it denotes, for signed integers of up to
  4300 digits.\<close>

theorem metric_strings_roundtrip:
  assumes "length (nat_str (nat \<bar>i\<bar>)) \<le> 4300"
  shows "py_int (JStr (int_str i)) = py_int (JInt i)
    \<and> governance_raw k (JStr (int_str i)) = governance_raw k (JInt i)"
  using int_literal_int_str[OF assms]
  by (simp add: py_int_def governance_raw_def Let_def strip_int_str dropWhile_dash_int_str
      nat_str_all_digits int_str_not_Nil del: dropWhile_eq_Nil_conv)

end
