(* ===== verification/Gate_Apply.thy ===== *)
theory Gate_Apply
  imports Gate_Checks
begin

text \<open>
  \<open>policy.py\<close>, the entry points: the snapshot of a scenario's rule profile and \<open>apply_policy\<close> (also
  exported as \<open>run_policy\<close>), which derives the decision and lets a PASS through only when the
  runtime invariants of \<open>runtime_safety.py\<close> allow it.
\<close>

section \<open>Scenario snapshot\<close>

definition enabled_checks :: "scenario_profile \<Rightarrow> string list" where
  "enabled_checks sp =
     (let scenario = SCENARIO_RULEBOOK sp; packages = set (sp_rule_packages scenario) in
      [''RC-TOOL-COUNT'', ''RC-SCENARIO-TOOLS'', ''RC-TRACE-OK'', ''RC-EVIDENCE-QUALITY'',
       ''RC-RUNTIME-INVARIANT-GUARD'']
      @ (if sp_require_governance_metrics scenario then [''RC-GOVERNANCE-SCOPE''] else [])
      @ (if ''COUNTERFACTUAL-FINDING'' \<in> packages then [''RC-COUNTERFACTUAL-REMOVE-1''] else [])
      @ (if ''COUNTERFACTUAL-TOOL'' \<in> packages then [''RC-COUNTERFACTUAL-TOOL-REMOVE-1''] else [])
      @ (if ''RULE-STABILITY'' \<in> packages then [''RC-COUNTERFACTUAL-RULE-STABILITY-1''] else []))"

definition build_scenario_rule_profile_snapshot :: "scenario_profile \<Rightarrow> json" where
  "build_scenario_rule_profile_snapshot sp =
     (let scenario = SCENARIO_RULEBOOK sp in JObj
      [(''scenario_profile'', JStr (scenario_str sp)), (''label'', JStr (sp_label scenario)),
       (''require_governance_metrics'', JBool (sp_require_governance_metrics scenario)),
       (''min_tool_count'', JInt (sp_min_tool_count scenario)),
       (''required_tool_names'', JStrs (sp_required_tool_names scenario)),
       (''counters'', JObj
         [(''max_governance_missing_cells'', JInt (sp_max_governance_missing_cells scenario)),
          (''max_governance_unknown_cells'', JInt (sp_max_governance_unknown_cells scenario)),
          (''counterfactual_probe_budget'', JInt (sp_counterfactual_probe_budget scenario)),
          (''counterfactual_flip_tolerance'', JInt (sp_counterfactual_flip_tolerance scenario)),
          (''counterfactual_tool_probe_budget'',
             JInt (sp_counterfactual_tool_probe_budget scenario)),
          (''counterfactual_tool_flip_tolerance'',
             JInt (sp_counterfactual_tool_flip_tolerance scenario))]),
       (''rule_packages'', JStrs (sp_rule_packages scenario)),
       (''enabled_checks'', JStrs (enabled_checks sp))])"

section \<open>Applying the policy\<close>

datatype policy_error =
    RulepackRejected rulepack_error
  | ToolCountError metric_error
  | InvariantError safety_error
  | ResultConstraint                \<comment> \<open>\<open>input_sha256\<close> must have 64 characters\<close>

record gate_result =
  ga_run_id :: string
  ga_batch_id :: string
  ga_contract_id :: string
  ga_input_sha256 :: string
  ga_policy_version :: string
  ga_decision :: gate_decision
  ga_decision_reason :: decision_reason
  ga_metrics :: metrics
  ga_findings :: "finding list"
  ga_tool_trace :: "tool_trace list"
  ga_council_trace :: council_trace
  ga_rule_checks :: "rule_check list"
  ga_work_orders :: "work_order list"

text \<open>The keyword arguments of \<open>apply_policy\<close>.\<close>

record policy_options =
  po_council_trace :: "council_trace option"
  po_scenario_profile :: scenario_profile
  po_input_sha256 :: "string option"
  po_run_id :: "string option"
  po_runtime_rulepack :: "rulepack_binding option"

definition canonical_sha256 :: "crypto \<Rightarrow> batch_manifest \<Rightarrow> batch_contract \<Rightarrow> string" where
  "canonical_sha256 C manifest contract =
     dumps_sha C (JObj [(''contract'', dump_contract contract), (''manifest'', dump_manifest manifest)])"

definition policy_digest ::
    "crypto \<Rightarrow> batch_manifest \<Rightarrow> batch_contract \<Rightarrow> string option \<Rightarrow> rulepack_binding option \<Rightarrow> string" where
  "policy_digest C manifest contract input pack =
     (let digest = (if opt_truthy input then the input else canonical_sha256 C manifest contract) in
      case pack of None \<Rightarrow> digest
      | Some b \<Rightarrow> dumps_sha C (JObj [(''base_input_sha256'', JStr digest),
                                    (''rule_pack_binding_sha256'', JStr (rb_binding_sha256 b))]))"

definition rulepack_check :: "rulepack_binding \<Rightarrow> rule_check" where
  "rulepack_check b = rule_check_of ''RC-RULEPACK-RUNTIME-BINDING'' True
     (RulepackUsed (rb_pack_id b) (rb_pack_version b))
     [''sha256:'' @ rb_binding_sha256 b, ''rulepack:'' @ rb_pack_id b]"

definition failed_required_checks :: "scenario_profile \<Rightarrow> rule_check list \<Rightarrow> string list" where
  "failed_required_checks sp checks =
     sort (map rc_check_id (filter (\<lambda>c. rc_status c = CheckFail
        \<and> rc_check_id c \<in> set (required_gate_check_ids sp)) checks))"

definition gate_pass_context ::
    "scenario_profile \<Rightarrow> string \<Rightarrow> string list \<Rightarrow> invariant_context" where
  "gate_pass_context sp digest failed =
     \<lparr>ic_action = ActGatePass, ic_actor_kind = ActorSystem, ic_scenario_profile = sp,
      ic_input_sha256 = digest, ic_failed_required_rule_check_ids = failed,
      ic_named_human_approver = None, ic_parent_case_sha256 = None,
      ic_parent_source_readonly = None, ic_machine_write_permitted = False,
      ic_production_release_allowed = False, ic_open_responsibilities_count = 0\<rparr>"

text \<open>
  The guarded PASS: the receipt's verdict, the appended guard check, and the decision it leaves.
\<close>

definition guard_pass ::
    "crypto \<Rightarrow> scenario_profile \<Rightarrow> string \<Rightarrow> rule_check list
       \<Rightarrow> policy_error + gate_decision \<times> decision_reason \<times> rule_check list" where
  "guard_pass C sp digest checks =
     (let failed = failed_required_checks sp checks in
      rbind (lift_err InvariantError (make_invariant_context (gate_pass_context sp digest failed))) (\<lambda>ctx.
      rbind (lift_err InvariantError (build_runtime_invariant_receipt C ctx)) (\<lambda>receipt.
      (let failed_invariants = map (\<lambda>o1. invariant_id_str (io_invariant_id o1))
             (filter (\<lambda>o1. io_status o1 = InvFail) (ir_outcomes receipt));
           guard = rule_check_of ''RC-RUNTIME-INVARIANT-GUARD'' (ir_allowed receipt)
             (if ir_allowed receipt then InvariantsAllow else InvariantsBlock failed_invariants)
             ((''runtime-invariant-receipt:sha256:'' @ ir_receipt_sha256 receipt)
              # map (\<lambda>i. ''rule-check:'' @ i) failed) in
       Inr (if ir_allowed receipt then (GatePass, ReasonPass, checks @ [guard])
            else (GateDefer, ReasonInvariantDefer sp failed, checks @ [guard]))))))"

definition apply_policy ::
    "crypto \<Rightarrow> batch_manifest \<Rightarrow> batch_contract \<Rightarrow> finding list \<Rightarrow> tool_trace list \<Rightarrow> metrics
       \<Rightarrow> policy_options \<Rightarrow> policy_error + gate_result" where
  "apply_policy C manifest contract fs ts m opts =
     (let sp = po_scenario_profile opts in
      rbind (case po_runtime_rulepack opts of None \<Rightarrow> Inr None
             | Some b \<Rightarrow> lift_err RulepackRejected
                 (rbind (verify_rule_pack_runtime_binding C b) (\<lambda>v. Inr (Some v)))) (\<lambda>pack.
      (let digest = policy_digest C manifest contract (po_input_sha256 opts) pack;
           council = (case po_council_trace opts of None \<Rightarrow> build_council fs ts m | Some c \<Rightarrow> c);
           (orders, _, block) = build_core_work_orders C fs ts pack;
           (decision, reason) = derive_gate_decision orders block in
       rbind (lift_err ToolCountError (build_rule_checks C fs ts m decision sp pack)) (\<lambda>checks0.
       (let checks = (case pack of None \<Rightarrow> checks0 | Some b \<Rightarrow> rulepack_check b # checks0) in
        rbind (if decision = GatePass then guard_pass C sp digest checks
               else Inr (decision, reason, checks)) (\<lambda>(final, why, all_checks).
        rbind (require (length digest = 64) ResultConstraint) (\<lambda>_.
        Inr \<lparr>ga_run_id = (if opt_truthy (po_run_id opts) then the (po_run_id opts)
                         else ''gate-'' @ take 16 digest),
             ga_batch_id = bm_batch_id manifest, ga_contract_id = bc_contract_id contract,
             ga_input_sha256 = digest,
             ga_policy_version = (case pack of None \<Rightarrow> bc_policy_version contract
               | Some b \<Rightarrow> bc_policy_version contract @ ''+'' @ rb_pack_id b @ ''@'' @ rb_pack_version b),
             ga_decision = final, ga_decision_reason = why, ga_metrics = normalized_metrics C m,
             ga_findings = fs, ga_tool_trace = ts, ga_council_trace = council,
             ga_rule_checks = all_checks, ga_work_orders = orders\<rparr>)))))))"

definition run_policy ::
    "crypto \<Rightarrow> batch_manifest \<Rightarrow> batch_contract \<Rightarrow> finding list \<Rightarrow> tool_trace list \<Rightarrow> metrics
       \<Rightarrow> policy_options \<Rightarrow> policy_error + gate_result" where
  "run_policy = apply_policy"

section \<open>Lemmas\<close>

lemma packages: "''RULE-STABILITY'' \<in> set (sp_rule_packages (SCENARIO_RULEBOOK sp)) \<longleftrightarrow> sp \<noteq> Generic"
  "''COUNTERFACTUAL-FINDING'' \<in> set (sp_rule_packages (SCENARIO_RULEBOOK sp)) \<longleftrightarrow> sp \<noteq> Generic"
  "''COUNTERFACTUAL-TOOL'' \<in> set (sp_rule_packages (SCENARIO_RULEBOOK sp)) \<longleftrightarrow> sp \<noteq> Generic"
  by (cases sp; simp add: governed_rules_def all_packages_def)+

lemma build_rule_checks_total:
  "(\<exists>cs. build_rule_checks C fs ts m base sp pack = Inr cs) \<longleftrightarrow> (\<exists>n. tool_count m = Inr n)"
proof
  assume "\<exists>n. tool_count m = Inr n"
  then obtain n where n: "tool_count m = Inr n" ..
  then obtain core where core: "build_core_rule_checks fs ts m sp = Inr core"
    by (auto simp: build_core_rule_checks_def Let_def)
  obtain c where c: "build_counterfactual_rule_stability_check C core fs ts m sp = Inr c"
    using stability_total[OF n] by blast
  show "\<exists>cs. build_rule_checks C fs ts m base sp pack = Inr cs"
    by (simp add: build_rule_checks_def Let_def core c)
qed (auto simp: build_rule_checks_def build_core_rule_checks_def Let_def)

definition industrial_complete :: "tool_trace list \<Rightarrow> metrics \<Rightarrow> bool" where
  "industrial_complete ts m \<longleftrightarrow>
     (case tool_count m of Inr n \<Rightarrow> 5 \<le> n | Inl _ \<Rightarrow> False)
   \<and> set (sp_required_tool_names (SCENARIO_RULEBOOK Industrial)) \<subseteq> set (map tt_tool ts)
   \<and> (\<forall>t\<in>set ts. tt_status t = TraceOk \<and> tt_error t = None)"

lemma failed_required_Nil:
  "failed_required_checks sp checks = [] \<longleftrightarrow>
     (\<forall>c\<in>set checks. rc_check_id c \<in> set (required_gate_check_ids sp) \<longrightarrow> rc_status c \<noteq> CheckFail)"
  by (auto simp: failed_required_checks_def filter_empty_conv)

lemma bad_trace_tools_Nil:
  "bad_trace_tools ts = [] \<longleftrightarrow> (\<forall>t\<in>set ts. tt_status t = TraceOk \<and> tt_error t = None)"
  by (auto simp: bad_trace_tools_def filter_empty_conv)

lemma required_ids_mem:
  "''RC-GOVERNANCE-SCOPE'' \<in> set (required_gate_check_ids sp)"
  "''RC-TOOL-COUNT'' \<in> set (required_gate_check_ids sp) \<longleftrightarrow> sp = Industrial"
  "''RC-SCENARIO-TOOLS'' \<in> set (required_gate_check_ids sp) \<longleftrightarrow> sp = Industrial"
  "''RC-TRACE-OK'' \<in> set (required_gate_check_ids sp) \<longleftrightarrow> sp = Industrial"
  "''RC-EVIDENCE-QUALITY'' \<in> set (required_gate_check_ids sp) \<longleftrightarrow> sp = Industrial"
  by (simp_all add: required_gate_check_ids_def SCENARIO_PASS_GUARD_CHECK_IDS_def
      INDUSTRIAL_PASS_MANDATORY_CHECK_IDS_def)

lemma status_not_fail: "st \<noteq> CheckFail \<longleftrightarrow> st = CheckPass"
  by (cases st) simp_all

lemma core_checks_required:
  assumes "build_core_rule_checks [] ts m sp = Inr core"
  shows "failed_required_checks sp core = [] \<longleftrightarrow>
    governance_accepts sp m \<and> (sp = Industrial \<longrightarrow> industrial_complete ts m)"
proof -
  obtain n where n: "tool_count m = Inr n"
    using assms by (auto simp: build_core_rule_checks_def Let_def)
  have min: "sp_min_tool_count (SCENARIO_RULEBOOK Industrial) = 5" by (simp add: governed_rules_def)
  have g: "(\<forall>c\<in>set (governance_check sp m). rc_check_id c \<in> set (required_gate_check_ids sp)
        \<longrightarrow> rc_status c \<noteq> CheckFail) \<longleftrightarrow> governance_accepts sp m"
    by (simp only: governance_check_accepts[symmetric] status_not_fail)
       (auto simp: governance_check_ids required_ids_mem(1))
  have shape: "\<exists>d1 r1 d2 r2 d3 r3 d4 r4. core =
      [rule_check_of ''RC-TOOL-COUNT'' (sp_min_tool_count (SCENARIO_RULEBOOK sp) \<le> n) d1 r1,
       rule_check_of ''RC-SCENARIO-TOOLS''
         (set (sp_required_tool_names (SCENARIO_RULEBOOK sp)) \<subseteq> set (map tt_tool ts)) d2 r2,
       rule_check_of ''RC-TRACE-OK'' (bad_trace_tools ts = []) d3 r3,
       rule_check_of ''RC-EVIDENCE-QUALITY'' (unverified_ids [] = []) d4 r4] @ governance_check sp m"
    using assms[symmetric] unfolding build_core_rule_checks_def Let_def n rbind_Inr sum.inject
    by - ((rule exI)+, assumption)
  then obtain d1 r1 d2 r2 d3 r3 d4 r4 where core: "core =
      [rule_check_of ''RC-TOOL-COUNT'' (sp_min_tool_count (SCENARIO_RULEBOOK sp) \<le> n) d1 r1,
       rule_check_of ''RC-SCENARIO-TOOLS''
         (set (sp_required_tool_names (SCENARIO_RULEBOOK sp)) \<subseteq> set (map tt_tool ts)) d2 r2,
       rule_check_of ''RC-TRACE-OK'' (bad_trace_tools ts = []) d3 r3,
       rule_check_of ''RC-EVIDENCE-QUALITY'' (unverified_ids [] = []) d4 r4] @ governance_check sp m"
    by blast
  have nov: "unverified_ids [] = []" by (simp add: unverified_ids_def)
  have "failed_required_checks sp core = [] \<longleftrightarrow> governance_accepts sp m \<and>
     (sp = Industrial \<longrightarrow> sp_min_tool_count (SCENARIO_RULEBOOK sp) \<le> n
        \<and> set (sp_required_tool_names (SCENARIO_RULEBOOK sp)) \<subseteq> set (map tt_tool ts)
        \<and> bad_trace_tools ts = [])"
    unfolding failed_required_Nil
    unfolding core nov
    by (simp only: set_append ball_Un g list.set ball_simps rule_check_of_sel required_ids_mem) blast
  then show ?thesis
    by (cases "sp = Industrial")
       (simp_all add: industrial_complete_def n bad_trace_tools_Nil min del: SCENARIO_RULEBOOK.simps)
qed

lemma rule_checks_required:
  assumes "build_rule_checks C [] ts m base sp pack = Inr checks"
  shows "failed_required_checks sp checks = [] \<longleftrightarrow>
    governance_accepts sp m \<and> (sp = Industrial \<longrightarrow> industrial_complete ts m)"
proof -
  obtain core where core: "build_core_rule_checks [] ts m sp = Inr core"
    using assms by (auto simp: build_rule_checks_def Let_def)
  have "failed_required_checks sp checks = [] \<longleftrightarrow> failed_required_checks sp core = []"
  proof (cases "sp = Generic")
    case True
    then show ?thesis using assms core by (simp add: build_rule_checks_def)
  next
    case False
    then obtain s where s: "build_counterfactual_rule_stability_check C core [] ts m sp = Inr s"
      and c: "checks = core @ [build_counterfactual_rule_checks C base [] ts sp pack,
          build_counterfactual_tool_checks C base [] ts sp pack, s]"
      using assms by (auto simp: build_rule_checks_def Let_def packages core)
    show ?thesis using no_findings_stability[OF s]
      by (auto simp: failed_required_Nil c no_findings_counterfactuals)
  qed
  then show ?thesis using core_checks_required[OF core] by simp
qed

lemma required_ids_nonblank: "i \<in> set (required_gate_check_ids sp) \<Longrightarrow> strip i \<noteq> []"
proof -
  have "\<forall>i\<in>set (SCENARIO_PASS_GUARD_CHECK_IDS @ INDUSTRIAL_PASS_MANDATORY_CHECK_IDS). strip i \<noteq> []"
    by code_simp
  then show "i \<in> set (required_gate_check_ids sp) \<Longrightarrow> strip i \<noteq> []"
    by (auto simp: required_gate_check_ids_def split: if_splits)
qed

lemma gate_context_normalized:
  assumes "make_invariant_context (gate_pass_context sp digest failed) = Inr ctx"
    and "set failed \<subseteq> set (required_gate_check_ids sp)"
  shows "ic_action ctx = ActGatePass \<and> \<not> ic_machine_write_permitted ctx
    \<and> \<not> ic_production_release_allowed ctx
    \<and> (ic_failed_required_rule_check_ids ctx = [] \<longleftrightarrow> failed = [])"
proof -
  have "(\<forall>x\<in>set failed. strip x = []) \<longleftrightarrow> failed = []"
    using assms(2) required_ids_nonblank[of _ sp] by (cases failed) auto
  then show ?thesis using assms(1)
    by (auto simp: make_invariant_context_def gate_pass_context_def Let_def normalize_string_set_def
        filter_empty_conv)
qed

lemma guard_pass_decision:
  assumes "guard_pass C sp digest checks = Inr (d, why, all)"
  shows "d = (if failed_required_checks sp checks = [] then GatePass else GateDefer)"
    and "why = (if failed_required_checks sp checks = [] then ReasonPass
                else ReasonInvariantDefer sp (failed_required_checks sp checks))"
    and "\<exists>g. all = checks @ [g] \<and> rc_check_id g = ''RC-RUNTIME-INVARIANT-GUARD''
           \<and> (rc_status g = CheckPass \<longleftrightarrow> d = GatePass)"
proof -
  let ?f = "failed_required_checks sp checks"
  have sub: "set ?f \<subseteq> set (required_gate_check_ids sp)"
    by (auto simp: failed_required_checks_def)
  obtain ctx r where ctx: "make_invariant_context (gate_pass_context sp digest ?f) = Inr ctx"
    and r: "build_runtime_invariant_receipt C ctx = Inr r"
    and res: "(d, why) = (if ir_allowed r then (GatePass, ReasonPass)
        else (GateDefer, ReasonInvariantDefer sp ?f))"
      "\<exists>g. all = checks @ [g] \<and> rc_check_id g = ''RC-RUNTIME-INVARIANT-GUARD''
           \<and> (rc_status g = CheckPass \<longleftrightarrow> ir_allowed r)"
    using assms by (auto simp: guard_pass_def Let_def split: if_splits)
  have "ir_allowed r \<longleftrightarrow> ?f = []"
    using allowed_permitted[OF r] gate_context_normalized[OF ctx sub]
    by (auto simp: transition_permitted_def)
  then show "d = (if ?f = [] then GatePass else GateDefer)"
    and "why = (if ?f = [] then ReasonPass else ReasonInvariantDefer sp ?f)"
    and "\<exists>g. all = checks @ [g] \<and> rc_check_id g = ''RC-RUNTIME-INVARIANT-GUARD''
           \<and> (rc_status g = CheckPass \<longleftrightarrow> d = GatePass)"
    using res by (auto split: if_splits)
qed

lemma core_decision_derive:
  "build_core_work_orders C fs ts pack = (orders, inc, block) \<Longrightarrow>
   derive_gate_decision orders block = (d, r) \<Longrightarrow> core_decision C fs ts pack = d"
  by (simp add: core_decision_def)

lemma apply_policy_Inr:
  assumes "apply_policy C man con fs ts m opts = Inr g"
  obtains checks0 pack checks where
    "pack = po_runtime_rulepack opts"
    "build_rule_checks C fs ts m (core_decision C fs ts pack) (po_scenario_profile opts) pack = Inr checks0"
    "checks = opt_list (map_option rulepack_check pack) @ checks0"
    "ga_input_sha256 g = policy_digest C man con (po_input_sha256 opts) pack"
    "ga_work_orders g = fst (build_core_work_orders C fs ts pack)"
    "if core_decision C fs ts pack = GatePass
     then guard_pass C (po_scenario_profile opts) (ga_input_sha256 g) checks
       = Inr (ga_decision g, ga_decision_reason g, ga_rule_checks g)
     else ga_decision g = core_decision C fs ts pack \<and> ga_rule_checks g = checks"
proof -
  have pk: "verify_rule_pack_runtime_binding C b = Inr v \<Longrightarrow> v = b" for b v
    by (auto simp: verify_rule_pack_runtime_binding_def dest: validate_runtime_binding_Inr)
  let ?pack = "po_runtime_rulepack opts"
  obtain orders inc block where w: "build_core_work_orders C fs ts ?pack = (orders, inc, block)"
    by (metis prod_cases3)
  obtain d r where d: "derive_gate_decision orders block = (d, r)" by (metis surj_pair)
  note cd = core_decision_derive[OF w d]
  have "\<exists>checks0. build_rule_checks C fs ts m d (po_scenario_profile opts) ?pack = Inr checks0
      \<and> (if d = GatePass then guard_pass C (po_scenario_profile opts)
           (policy_digest C man con (po_input_sha256 opts) ?pack)
           (opt_list (map_option rulepack_check ?pack) @ checks0)
         else Inr (d, r, opt_list (map_option rulepack_check ?pack) @ checks0))
        = Inr (ga_decision g, ga_decision_reason g, ga_rule_checks g)
      \<and> ga_input_sha256 g = policy_digest C man con (po_input_sha256 opts) ?pack
      \<and> ga_work_orders g = orders"
  proof (cases ?pack)
    case None
    then show ?thesis using assms w d
      by (cases "d = GatePass") (auto simp: apply_policy_def Let_def opt_list_def)
  next
    case (Some b)
    then show ?thesis using assms w d
      by (cases "d = GatePass") (auto simp: apply_policy_def Let_def opt_list_def dest!: pk)
  qed
  then obtain checks0 where c0: "build_rule_checks C fs ts m d (po_scenario_profile opts) ?pack = Inr checks0"
    and rest: "(if d = GatePass then guard_pass C (po_scenario_profile opts)
           (policy_digest C man con (po_input_sha256 opts) ?pack)
           (opt_list (map_option rulepack_check ?pack) @ checks0)
         else Inr (d, r, opt_list (map_option rulepack_check ?pack) @ checks0))
        = Inr (ga_decision g, ga_decision_reason g, ga_rule_checks g)"
    and g: "ga_input_sha256 g = policy_digest C man con (po_input_sha256 opts) ?pack"
      "ga_work_orders g = orders" by blast
  show thesis
    by (rule that[OF refl _ refl g(1)]) (use c0 rest g w cd in \<open>auto split: if_splits\<close>)
qed

text \<open>The decision the gate promises, without work orders, checks, probes or receipts.\<close>

definition gate_spec ::
    "finding list \<Rightarrow> tool_trace list \<Rightarrow> metrics \<Rightarrow> scenario_profile \<Rightarrow> rulepack_binding option
       \<Rightarrow> gate_decision" where
  "gate_spec fs ts m sp pack =
     (if ts = [] \<or> (\<exists>t\<in>set ts. tt_status t \<noteq> TraceOk) \<or> (\<exists>f\<in>set fs. evidence_blocks f) then GateDefer
      else if \<exists>f\<in>set fs. finding_action f pack = Recapture then GateRecapture
      else if fs \<noteq> [] then GateQuarantine
      else if governance_accepts sp m \<and> (sp = Industrial \<longrightarrow> industrial_complete ts m) then GatePass
      else GateDefer)"

lemma core_decision_spec:
  "core_decision C fs ts pack =
     (if ts = [] \<or> (\<exists>t\<in>set ts. tt_status t \<noteq> TraceOk) \<or> (\<exists>f\<in>set fs. evidence_blocks f) then GateDefer
      else if \<exists>f\<in>set fs. finding_action f pack = Recapture then GateRecapture
      else if fs \<noteq> [] then GateQuarantine else GatePass)"
  using core_decision_pass_iff[of C fs ts pack] core_decision_defer_iff[of C fs ts pack]
    core_decision_recapture_iff[of C fs ts pack]
  by (cases "core_decision C fs ts pack") auto

lemma rulepack_check_passes: "rc_status (rulepack_check b) = CheckPass"
  by (simp add: rulepack_check_def)

lemma failed_required_pack:
  "failed_required_checks sp (opt_list (map_option rulepack_check pack) @ cs) = [] \<longleftrightarrow>
   failed_required_checks sp cs = []"
  by (cases pack) (auto simp: failed_required_Nil opt_list_def rulepack_check_passes)

lemma apply_policy_fields:
  assumes "apply_policy C man con fs ts m opts = Inr g"
  shows "ga_findings g = fs" "ga_tool_trace g = ts" "ga_metrics g = normalized_metrics C m"
    "length (ga_input_sha256 g) = 64"
  using assms by (auto simp: apply_policy_def Let_def case_prod_beta)

definition demo_options :: "scenario_profile \<Rightarrow> policy_options" where
  "demo_options sp = \<lparr>po_council_trace = None, po_scenario_profile = sp, po_input_sha256 = None,
     po_run_id = None, po_runtime_rulepack = None\<rparr>"

definition result_decision :: "policy_error + gate_result \<Rightarrow> gate_decision option" where
  "result_decision r = (case r of Inl _ \<Rightarrow> None | Inr g \<Rightarrow> Some (ga_decision g))"

lemma demo_decision:
  "result_decision (apply_policy toy_crypto demo_manifest default_batch_contract [] [demo_trace] []
     (demo_options Generic)) = Some GatePass"
  by code_simp

text \<open>The two payloads of the guard's receipt: what canonicalization must accept for it to be sealed.\<close>

definition guard_accepted :: "crypto \<Rightarrow> invariant_context \<Rightarrow> bool" where
  "guard_accepted C c \<longleftrightarrow> (\<exists>d. jcs_sha C (dump_context c) = Some d
     \<and> jcs C (invariant_receipt_payload \<lparr>ir_context = c, ir_context_sha256 = d, ir_outcomes = evaluate_outcomes c,
         ir_allowed = (\<forall>x\<in>set (evaluate_outcomes c). io_status x \<noteq> InvFail), ir_receipt_sha256 = zero_sha\<rparr>) \<noteq> None)"

lemma make_context_total:
  "make_invariant_context (gate_pass_context sp d failed) =
     (if is_sha256 (trim d) then Inr (gate_pass_context sp (trim d) (normalize_string_set failed)) else Inl ContextConstraint)"
  by (simp add: make_invariant_context_def gate_pass_context_def reject_blank_approver_def Let_def)

lemma build_receipt_total: "(\<exists>r. build_runtime_invariant_receipt C c = Inr r) \<longleftrightarrow> guard_accepted C c"
proof -
  have "(\<not> (\<exists>x\<in>set (evaluate_outcomes c). io_status x = InvFail)) = (\<forall>x\<in>set (evaluate_outcomes c). io_status x \<noteq> InvFail)"
    by simp
  then show ?thesis unfolding build_runtime_invariant_receipt_def guard_accepted_def Let_def
    by (auto simp: jcs_sha_def of_opt_def split: option.split)
qed

lemma guard_pass_total:
  "(\<exists>x. guard_pass C sp d checks = Inr x) \<longleftrightarrow> is_sha256 (trim d)
     \<and> guard_accepted C (gate_pass_context sp (trim d) (normalize_string_set (failed_required_checks sp checks)))"
  using build_receipt_total[of C "gate_pass_context sp (trim d) (normalize_string_set (failed_required_checks sp checks))"]
  by (auto simp: guard_pass_def make_context_total Let_def split: if_splits) metis

lemma core_decision_pass_reason:
  "(case build_core_work_orders C fs ts pack of (orders, _, block) \<Rightarrow> derive_gate_decision orders block)
    = (core_decision C fs ts pack,
       snd (case build_core_work_orders C fs ts pack of (orders, _, block) \<Rightarrow> derive_gate_decision orders block))"
  by (simp add: core_decision_def case_prod_beta prod_eq_iff)

lemma stability_check_id:
  assumes "build_counterfactual_rule_stability_check C core fs ts m sp = Inr c"
  shows "rc_check_id c = ''RC-COUNTERFACTUAL-RULE-STABILITY-1''"
proof (cases "sp_counterfactual_probe_budget (SCENARIO_RULEBOOK sp) \<le> 0
    \<and> sp_counterfactual_tool_probe_budget (SCENARIO_RULEBOOK sp) \<le> 0")
  case True
  then show ?thesis
    using assms by (auto simp: build_counterfactual_rule_stability_check_def)
next
  case False
  show ?thesis
    using assms unfolding build_counterfactual_rule_stability_check_def Let_def if_not_P[OF False]
      rbind_eq_Inr sum.inject
    by (elim exE conjE) (drule sym, simp only: rule_check_of_sel)
qed

lemma governed_check_ids:
  assumes "sp \<noteq> Generic"
  shows "map rc_check_id (governance_check sp m) = [''RC-GOVERNANCE-SCOPE'']"
  unfolding governance_check_def Let_def required_governance
  by (simp only: assms simp_thms not_False_eq_True if_True list.map rule_check_of_sel)

lemma core_check_ids:
  assumes "build_core_rule_checks fs ts m sp = Inr core"
  shows "map rc_check_id core =
    [''RC-TOOL-COUNT'', ''RC-SCENARIO-TOOLS'', ''RC-TRACE-OK'', ''RC-EVIDENCE-QUALITY'']
    @ map rc_check_id (governance_check sp m)"
  using assms by (auto simp: build_core_rule_checks_def Let_def simp del: SCENARIO_RULEBOOK.simps)

section \<open>Properties\<close>

text \<open>C1: whenever \<open>apply_policy\<close> returns, its decision is the one of \<open>gate_spec\<close>: DEFER when tool
  evidence is missing, failed, skipped or unsupported, then RECAPTURE, then QUARANTINE, and PASS only when no
  finding is left, the governance counters are in the scenario's scope and, for the industrial
  scenario, the five tools ran and no trace carries an error.\<close>

theorem apply_policy_refines_gate_spec:
  assumes "apply_policy C manifest contract fs ts m opts = Inr g"
  shows "ga_decision g = gate_spec fs ts m (po_scenario_profile opts) (po_runtime_rulepack opts)"
proof -
  obtain checks0 pack checks where pack: "pack = po_runtime_rulepack opts"
    and cs: "build_rule_checks C fs ts m (core_decision C fs ts pack) (po_scenario_profile opts) pack = Inr checks0"
    and checks: "checks = opt_list (map_option rulepack_check pack) @ checks0"
    and res: "if core_decision C fs ts pack = GatePass
     then guard_pass C (po_scenario_profile opts) (ga_input_sha256 g) checks
       = Inr (ga_decision g, ga_decision_reason g, ga_rule_checks g)
     else ga_decision g = core_decision C fs ts pack \<and> ga_rule_checks g = checks"
    using apply_policy_Inr[OF assms] by metis
  show ?thesis
  proof (cases "core_decision C fs ts pack = GatePass")
    case True
    with res guard_pass_decision(1) have "ga_decision g =
        (if failed_required_checks (po_scenario_profile opts) checks0 = [] then GatePass else GateDefer)"
      by (fastforce simp: checks failed_required_pack)
    moreover have p: "fs = []" "ts \<noteq> []" "\<forall>t\<in>set ts. tt_status t = TraceOk"
      using True by (simp_all add: core_decision_pass_iff)
    ultimately show ?thesis
      using rule_checks_required[OF cs[unfolded True p(1)]] by (auto simp: gate_spec_def)
  next
    case False
    then show ?thesis using res by (auto simp: core_decision_spec gate_spec_def pack split: if_splits)
  qed
qed

theorem apply_policy_refines_gate_spec_witness:
  "\<exists>g. apply_policy toy_crypto demo_manifest default_batch_contract [] [demo_trace] []
       (demo_options Generic) = Inr g
     \<and> ga_decision g = GatePass
     \<and> gate_spec [] [demo_trace] [] Generic None = GatePass"
proof -
  obtain g where g: "apply_policy toy_crypto demo_manifest default_batch_contract [] [demo_trace] []
       (demo_options Generic) = Inr g" "ga_decision g = GatePass"
    using demo_decision by (auto simp: result_decision_def split: sum.splits)
  show ?thesis
    using apply_policy_refines_gate_spec[OF g(1)] g by (auto simp: demo_options_def)
qed

text \<open>C2: a PASS has no finding and no work order, at least one trace and only successful ones, no
  failed check among those the scenario requires, and carries the passed runtime guard as last check.\<close>

theorem pass_is_fully_evidenced:
  assumes "apply_policy C manifest contract fs ts m opts = Inr g" and "ga_decision g = GatePass"
  shows "ga_findings g = [] \<and> ga_work_orders g = [] \<and> ga_tool_trace g \<noteq> []
    \<and> (\<forall>t\<in>set (ga_tool_trace g). tt_status t = TraceOk)
    \<and> (\<forall>c\<in>set (ga_rule_checks g). rc_check_id c \<in> set (required_gate_check_ids (po_scenario_profile opts))
         \<longrightarrow> rc_status c = CheckPass)
    \<and> rc_check_id (last (ga_rule_checks g)) = ''RC-RUNTIME-INVARIANT-GUARD''
    \<and> rc_status (last (ga_rule_checks g)) = CheckPass \<and> ga_decision_reason g = ReasonPass"
proof -
  obtain pack checks where o: "ga_work_orders g = fst (build_core_work_orders C fs ts pack)"
    and res: "if core_decision C fs ts pack = GatePass
     then guard_pass C (po_scenario_profile opts) (ga_input_sha256 g) checks
       = Inr (ga_decision g, ga_decision_reason g, ga_rule_checks g)
     else ga_decision g = core_decision C fs ts pack \<and> ga_rule_checks g = checks"
    using apply_policy_Inr[OF assms(1)] by metis
  have p: "core_decision C fs ts pack = GatePass" using res assms(2) by (auto split: if_splits)
  with res have gp: "guard_pass C (po_scenario_profile opts) (ga_input_sha256 g) checks
       = Inr (GatePass, ga_decision_reason g, ga_rule_checks g)" using assms(2) by simp
  obtain k where k: "ga_rule_checks g = checks @ [k]" "rc_check_id k = ''RC-RUNTIME-INVARIANT-GUARD''"
    "rc_status k = CheckPass" using guard_pass_decision(3)[OF gp] by blast
  have f: "failed_required_checks (po_scenario_profile opts) checks = []"
    using guard_pass_decision(1)[OF gp] by (auto split: if_splits)
  have "ga_work_orders g = []"
    using p orders_length[of C fs ts pack] by (simp add: o core_decision_pass_iff)
  then show ?thesis
    using p f guard_pass_decision(2)[OF gp] unfolding core_decision_pass_iff failed_required_Nil status_not_fail
    by (auto simp: apply_policy_fields[OF assms(1)] k)
qed

theorem pass_is_fully_evidenced_witness:
  "\<exists>g. apply_policy toy_crypto demo_manifest default_batch_contract [] [demo_trace] []
       (demo_options Generic) = Inr g \<and> ga_decision g = GatePass
     \<and> rc_status (last (ga_rule_checks g)) = CheckPass"
proof -
  obtain g where g: "apply_policy toy_crypto demo_manifest default_batch_contract [] [demo_trace] []
       (demo_options Generic) = Inr g" "ga_decision g = GatePass"
    using demo_decision by (auto simp: result_decision_def split: sum.splits)
  show ?thesis
    using pass_is_fully_evidenced[OF g] g by blast
qed

text \<open>The council trace has no authority: supplying any opinion changes nothing of the result
  (or of the error) but the recorded trace itself.\<close>

theorem council_has_no_authority:
  "apply_policy C manifest contract fs ts m (opts\<lparr>po_council_trace := Some c\<rparr>) =
     rbind (apply_policy C manifest contract fs ts m opts) (\<lambda>g. Inr (g\<lparr>ga_council_trace := c\<rparr>))"
  unfolding apply_policy_def Let_def rbind_assoc
  by (auto intro!: rbind_cong simp: rbind_assoc case_prod_beta)

text \<open>The work orders are, in this order, one critical investigation per unsuccessful trace, one
  when no trace exists, and one order per finding with its severity and sorted samples; findings that share an
  identifier with a blocking one are investigated, whatever their code.\<close>

theorem work_orders_cover_evidence:
  assumes "apply_policy C manifest contract fs ts m opts = Inr g"
  shows "map (\<lambda>w. (wo_action w, wo_priority w, wo_sample_ids w)) (ga_work_orders g) =
      map (\<lambda>t. (Investigate, SevCritical, [])) (filter (\<lambda>t. tt_status t \<noteq> TraceOk) ts)
    @ (if ts = [] then [(Investigate, SevCritical, [])] else [])
    @ map (\<lambda>f. (if \<exists>f'\<in>set fs. evidence_blocks f' \<and> fi_finding_id f' = fi_finding_id f
               then Investigate else finding_action f (po_runtime_rulepack opts),
             fi_severity f, sort (fi_sample_ids f))) fs"
proof -
  have *: "fi_finding_id f \<in> fi_finding_id ` {x \<in> set fs. evidence_blocks x} \<longleftrightarrow>
     (\<exists>f'\<in>set fs. evidence_blocks f' \<and> fi_finding_id f' = fi_finding_id f)" for f
    by (auto simp: image_iff)
  have "ga_work_orders g = fst (build_core_work_orders C fs ts (po_runtime_rulepack opts))"
    using apply_policy_Inr[OF assms] by metis
  then show ?thesis
    by (simp add: build_core_work_orders_def Let_def finding_work_order_def trace_work_order_def
        missing_trace_work_order_def * comp_def del: mem_Collect_eq)
qed

text \<open>C9: \<open>apply_policy\<close> raises exactly when the supplied rule-pack binding fails verification, \<open>tool_count\<close> is not
  readable as an integer, the input digest has not 64 characters, or a batch about to pass cannot be guarded: its
  digest is not lower-case hexadecimal, or canonicalization refuses the invariant context with the failed required
  checks of the batch, or the receipt over it.\<close>

theorem apply_policy_succeeds_iff:
  "(\<exists>g. apply_policy C manifest contract fs ts m opts = Inr g) \<longleftrightarrow>
     (case po_runtime_rulepack opts of None \<Rightarrow> True
      | Some b \<Rightarrow> verify_rule_pack_runtime_binding C b = Inr b)
   \<and> (\<exists>n. tool_count m = Inr n)
   \<and> length (policy_digest C manifest contract (po_input_sha256 opts) (po_runtime_rulepack opts)) = 64
   \<and> (core_decision C fs ts (po_runtime_rulepack opts) = GatePass \<longrightarrow>
        is_sha256 (trim (policy_digest C manifest contract (po_input_sha256 opts) (po_runtime_rulepack opts)))
      \<and> (\<forall>cs. build_rule_checks C fs ts m GatePass (po_scenario_profile opts) (po_runtime_rulepack opts) = Inr cs \<longrightarrow>
           guard_accepted C (gate_pass_context (po_scenario_profile opts)
             (trim (policy_digest C manifest contract (po_input_sha256 opts) (po_runtime_rulepack opts)))
             (normalize_string_set (failed_required_checks (po_scenario_profile opts) cs)))))"
proof -
  have v: "verify_rule_pack_runtime_binding C b = Inr x \<Longrightarrow> x = b" for b x
    by (auto simp: verify_rule_pack_runtime_binding_def dest: validate_runtime_binding_Inr)
  obtain orders inc block where w: "build_core_work_orders C fs ts (po_runtime_rulepack opts) = (orders, inc, block)"
    by (metis prod_cases3)
  obtain d r where d: "derive_gate_decision orders block = (d, r)" by (metis surj_pair)
  note cd = core_decision_derive[OF w d]
  note rt = build_rule_checks_total
  have pack: "failed_required_checks sp (rulepack_check b # cs) = failed_required_checks sp cs" for sp b cs
    by (simp add: failed_required_checks_def rulepack_check_passes)
  show ?thesis
  proof (cases "po_runtime_rulepack opts")
    case None
    then show ?thesis using w d cd rt[of C fs ts m d "po_scenario_profile opts" None]
      by (cases "d = GatePass"; simp add: apply_policy_def Let_def case_prod_beta ex_rbind guard_pass_total
          del: rbind_eq_Inr split_paired_Ex; auto simp del: split_paired_Ex)
  next
    case (Some b)
    show ?thesis
    proof (cases "verify_rule_pack_runtime_binding C b")
      case (Inl e)
      then show ?thesis using Some by (simp add: apply_policy_def Let_def)
    next
      case (Inr x)
      then have "verify_rule_pack_runtime_binding C b = Inr b" using v by blast
      then show ?thesis using Some w d cd rt[of C fs ts m d "po_scenario_profile opts" "Some b"]
        by (cases "d = GatePass"; simp add: apply_policy_def Let_def case_prod_beta ex_rbind guard_pass_total pack
            del: rbind_eq_Inr split_paired_Ex; auto simp del: split_paired_Ex)
    qed
  qed
qed

theorem apply_policy_succeeds_iff_witness:
  "\<exists>g. apply_policy toy_crypto demo_manifest default_batch_contract [] [demo_trace]
       [(''tool_count'', JStr '' 5 '')] (demo_options Industrial) = Inr g"
proof -
  have a: "guard_accepted toy_crypto c" for c by (simp add: guard_accepted_def jcs_sha_def toy_crypto_def)
  have n: "tool_count [(''tool_count'', JStr '' 5 '')] = Inr 5" by code_simp
  have l: "length (policy_digest toy_crypto demo_manifest default_batch_contract None None) = 64"
    "is_sha256 (trim (policy_digest toy_crypto demo_manifest default_batch_contract None None))"
    by code_simp+
  show ?thesis
    using apply_policy_succeeds_iff[of toy_crypto demo_manifest default_batch_contract
      "[]" "[demo_trace]" "[(''tool_count'', JStr '' 5 '')]" "demo_options Industrial"] n l a
    by (simp add: demo_options_def)
qed

text \<open>For every scenario but the generic one, the checks a batch without findings really gets are the ones
  the scenario snapshot announces, plus the rule-pack binding check when a pack is used.\<close>

theorem snapshot_lists_executed_checks:
  assumes "apply_policy C manifest contract [] ts m opts = Inr g" and "po_scenario_profile opts \<noteq> Generic"
    and "core_decision C [] ts None = GatePass"
  shows "set (map rc_check_id (ga_rule_checks g)) = set (enabled_checks (po_scenario_profile opts))
      \<union> (if po_runtime_rulepack opts = None then {} else {''RC-RULEPACK-RUNTIME-BINDING''})"
proof -
  let ?sp = "po_scenario_profile opts"
  obtain checks0 pack checks where pack: "pack = po_runtime_rulepack opts"
    and cs: "build_rule_checks C [] ts m (core_decision C [] ts pack) ?sp pack = Inr checks0"
    and checks: "checks = opt_list (map_option rulepack_check pack) @ checks0"
    and res: "if core_decision C [] ts pack = GatePass
     then guard_pass C ?sp (ga_input_sha256 g) checks
       = Inr (ga_decision g, ga_decision_reason g, ga_rule_checks g)
     else ga_decision g = core_decision C [] ts pack \<and> ga_rule_checks g = checks"
    using apply_policy_Inr[OF assms(1)] by metis
  have "core_decision C [] ts pack = GatePass" using assms(3) by (simp add: core_decision_pass_iff)
  with res have gp: "guard_pass C ?sp (ga_input_sha256 g) checks
       = Inr (ga_decision g, ga_decision_reason g, ga_rule_checks g)" by simp
  then obtain k where k: "ga_rule_checks g = checks @ [k]" "rc_check_id k = ''RC-RUNTIME-INVARIANT-GUARD''"
    using guard_pass_decision(3)[OF gp] by blast
  obtain core st where core: "build_core_rule_checks [] ts m ?sp = Inr core"
    and st: "build_counterfactual_rule_stability_check C core [] ts m ?sp = Inr st"
    and c0: "checks0 = core @ [build_counterfactual_rule_checks C (core_decision C [] ts pack) [] ts ?sp pack,
       build_counterfactual_tool_checks C (core_decision C [] ts pack) [] ts ?sp pack, st]"
    using cs assms(2) by (auto simp: build_rule_checks_def Let_def packages)
  have ids: "set (map rc_check_id core) = {''RC-TOOL-COUNT'', ''RC-SCENARIO-TOOLS'', ''RC-TRACE-OK'',
      ''RC-EVIDENCE-QUALITY'', ''RC-GOVERNANCE-SCOPE''}"
    unfolding core_check_ids[OF core] governed_check_ids[OF assms(2)] by simp
  have "set (map rc_check_id (ga_rule_checks g)) = set (map rc_check_id core) \<union>
      {''RC-COUNTERFACTUAL-REMOVE-1'', ''RC-COUNTERFACTUAL-TOOL-REMOVE-1'',
       ''RC-COUNTERFACTUAL-RULE-STABILITY-1'', ''RC-RUNTIME-INVARIANT-GUARD''}
      \<union> (if po_runtime_rulepack opts = None then {} else {''RC-RULEPACK-RUNTIME-BINDING''})"
    using stability_check_id[OF st] k no_findings_counterfactuals
    by (cases pack) (auto simp: checks c0 opt_list_def rulepack_check_def pack[symmetric])
  moreover have "enabled_checks ?sp =
     [''RC-TOOL-COUNT'', ''RC-SCENARIO-TOOLS'', ''RC-TRACE-OK'', ''RC-EVIDENCE-QUALITY'',
      ''RC-RUNTIME-INVARIANT-GUARD'', ''RC-GOVERNANCE-SCOPE'', ''RC-COUNTERFACTUAL-REMOVE-1'',
      ''RC-COUNTERFACTUAL-TOOL-REMOVE-1'', ''RC-COUNTERFACTUAL-RULE-STABILITY-1'']"
    using assms(2) by (simp add: enabled_checks_def Let_def required_governance packages)
  ultimately show ?thesis unfolding ids by auto
qed

end
