(* ===== verification/Worker_Selection.thy ===== *)
theory Worker_Selection
  imports Gate_Prelude "HOL-Library.Multiset"
begin

text \<open>
  \<open>worker_selection.py\<close>: validated worker candidates, the lexicographic priority after the eligibility guard,
  the sealed selection receipt with its replay, and the behaviour receipt projected from a verified selection
  and digested in a length-prefixed domain frame.
\<close>

section \<open>Candidates\<close>

datatype blocking_severity = BlockNone | BlockWarning | Blocking

datatype cost_bucket = CostLow | CostMedium | CostHigh | CostUnknown

fun blocking_str :: "blocking_severity \<Rightarrow> string" where
  "blocking_str BlockNone = ''NONE''"
| "blocking_str BlockWarning = ''WARNING''"
| "blocking_str Blocking = ''BLOCKING''"

fun cost_str :: "cost_bucket \<Rightarrow> string" where
  "cost_str CostLow = ''LOW''"
| "cost_str CostMedium = ''MEDIUM''"
| "cost_str CostHigh = ''HIGH''"
| "cost_str CostUnknown = ''UNKNOWN''"

fun SEVERITY_RANK :: "blocking_severity \<Rightarrow> int" where
  "SEVERITY_RANK BlockNone = 0"
| "SEVERITY_RANK BlockWarning = 1"
| "SEVERITY_RANK Blocking = 2"

fun COST_RANK :: "cost_bucket \<Rightarrow> int" where
  "COST_RANK CostLow = 0"
| "COST_RANK CostMedium = 1"
| "COST_RANK CostHigh = 2"
| "COST_RANK CostUnknown = 3"

datatype selection_error =
    CandidateConstraint            \<comment> \<open>the identifier pattern\<close>
  | EligibleWithReasons | IneligibleWithoutReason
  | BadBudget | DuplicateWorkers
  | SelectionNotCanonical
  | InputDigestMismatch | RankingMismatch | SelectionMismatch | SelectionDigestMismatch
  | UnknownWorker string           \<comment> \<open>\<open>KeyError\<close>\<close>
  | FrameOverflow                  \<comment> \<open>\<open>OverflowError\<close> of \<open>to_bytes\<close>\<close>
  | UsedBudgetMismatch | BudgetExceeded | UnusedBudgetMismatch | SelectedExceedEligible
  | SelectedIdsMismatch | RejectedIdsMismatch | DuplicateDecisions | IneligibleSelected
  | EligibleCountMismatch | EvidenceCountMismatch | BadSelectedDisposition | BadRejectedDisposition
  | BehaviorReplayMismatch | BehaviorDigestMismatch

record worker_candidate =
  wc_worker_id :: string
  wc_eligible :: bool
  wc_ineligibility_reasons :: "string list"
  wc_blocking_severity :: blocking_severity
  wc_discriminated_hypothesis_ids :: "string list"
  wc_unresolved_evidence_refs :: "string list"
  wc_measured_cost_bucket :: cost_bucket

text \<open>\<open>WORKER_ID_PATTERN\<close>: \<open>^[A-Za-z0-9][A-Za-z0-9_.:-]{0,119}$\<close>.\<close>

definition worker_id_ok :: "string \<Rightarrow> bool" where
  "worker_id_ok s \<longleftrightarrow> s \<noteq> [] \<and> length s \<le> 120 \<and> alnum_char (hd s)
     \<and> list_all (\<lambda>c. alnum_char c \<or> c \<in> set ''_.:-'') (tl s)"

definition normalize_strings :: "string list \<Rightarrow> string list" where
  "normalize_strings value = sorted_set (filter (\<lambda>s. s \<noteq> []) (map strip value))"

definition validate_candidate :: "worker_candidate \<Rightarrow> selection_error + worker_candidate" where
  "validate_candidate raw =
     (let c = raw\<lparr>wc_worker_id := trim (wc_worker_id raw),
                  wc_ineligibility_reasons := normalize_strings (wc_ineligibility_reasons raw),
                  wc_discriminated_hypothesis_ids :=
                    normalize_strings (wc_discriminated_hypothesis_ids raw),
                  wc_unresolved_evidence_refs :=
                    normalize_strings (wc_unresolved_evidence_refs raw)\<rparr> in
      rbind (require (worker_id_ok (wc_worker_id c)) CandidateConstraint) (\<lambda>_.
      rbind (require (\<not> (wc_eligible c \<and> wc_ineligibility_reasons c \<noteq> [])) EligibleWithReasons) (\<lambda>_.
      rbind (require (wc_eligible c \<or> wc_ineligibility_reasons c \<noteq> []) IneligibleWithoutReason) (\<lambda>_.
      Inr c))))"

section \<open>Selection receipts\<close>

record ranking_entry =
  re_worker_id :: string
  re_eligible :: bool
  re_selected :: bool
  re_rank :: "int option"
  re_blocking_severity_rank :: int
  re_hypothesis_discrimination_count :: int
  re_unresolved_evidence_count :: int
  re_measured_cost_rank :: int
  re_exclusion_reasons :: "string list"

record selection_receipt =
  ws_worker_budget :: int
  ws_candidates :: "worker_candidate list"
  ws_input_sha256 :: string
  ws_ranking :: "ranking_entry list"
  ws_selected_worker_ids :: "string list"
  ws_receipt_sha256 :: string

definition dump_candidate :: "worker_candidate \<Rightarrow> json" where
  "dump_candidate c = JObj
     [(''worker_id'', JStr (wc_worker_id c)), (''eligible'', JBool (wc_eligible c)),
      (''ineligibility_reasons'', JStrs (wc_ineligibility_reasons c)),
      (''blocking_severity'', JStr (blocking_str (wc_blocking_severity c))),
      (''discriminated_hypothesis_ids'', JStrs (wc_discriminated_hypothesis_ids c)),
      (''unresolved_evidence_refs'', JStrs (wc_unresolved_evidence_refs c)),
      (''measured_cost_bucket'', JStr (cost_str (wc_measured_cost_bucket c)))]"

definition dump_ranking :: "ranking_entry \<Rightarrow> json" where
  "dump_ranking e = JObj
     [(''worker_id'', JStr (re_worker_id e)), (''eligible'', JBool (re_eligible e)),
      (''selected'', JBool (re_selected e)), (''rank'', JOpt JInt (re_rank e)),
      (''blocking_severity_rank'', JInt (re_blocking_severity_rank e)),
      (''hypothesis_discrimination_count'', JInt (re_hypothesis_discrimination_count e)),
      (''unresolved_evidence_count'', JInt (re_unresolved_evidence_count e)),
      (''measured_cost_rank'', JInt (re_measured_cost_rank e)),
      (''exclusion_reasons'', JStrs (re_exclusion_reasons e))]"

definition ordering_contract :: string where
  "ordering_contract = ''eligible > blocking_severity > hypothesis_discrimination_count > unresolved_evidence_count > measured_cost_bucket > stable_worker_id''"

definition selection_policy_id :: string where
  "selection_policy_id = ''deterministic-evidence-acquisition-priority.v1''"

definition selection_input_payload :: "int \<Rightarrow> worker_candidate list \<Rightarrow> json" where
  "selection_input_payload budget normalized = JObj
     [(''worker_budget'', JInt budget), (''candidates'', JArr (map dump_candidate normalized))]"

definition selection_receipt_payload :: "selection_receipt \<Rightarrow> json" where
  "selection_receipt_payload r = JObj
     [(''schema_version'', JStr ''visiondata-gate.worker-selection-receipt.v1''),
      (''policy_id'', JStr selection_policy_id), (''ordering_contract'', JStr ordering_contract),
      (''worker_budget'', JInt (ws_worker_budget r)),
      (''candidates'', JArr (map dump_candidate (ws_candidates r))),
      (''input_sha256'', JStr (ws_input_sha256 r)),
      (''ranking'', JArr (map dump_ranking (ws_ranking r))),
      (''selected_worker_ids'', JStrs (ws_selected_worker_ids r))]"

definition priority_key :: "worker_candidate \<Rightarrow> int \<times> int \<times> int \<times> int \<times> string" where
  "priority_key c =
     (- SEVERITY_RANK (wc_blocking_severity c), - int (length (wc_discriminated_hypothesis_ids c)),
      - int (length (wc_unresolved_evidence_refs c)), COST_RANK (wc_measured_cost_bucket c),
      wc_worker_id c)"

definition ranking_entry_of :: "worker_candidate \<Rightarrow> bool \<Rightarrow> int option \<Rightarrow> string list \<Rightarrow> ranking_entry" where
  "ranking_entry_of c selected rank reasons =
     \<lparr>re_worker_id = wc_worker_id c, re_eligible = wc_eligible c, re_selected = selected,
      re_rank = rank, re_blocking_severity_rank = SEVERITY_RANK (wc_blocking_severity c),
      re_hypothesis_discrimination_count = int (length (wc_discriminated_hypothesis_ids c)),
      re_unresolved_evidence_count = int (length (wc_unresolved_evidence_refs c)),
      re_measured_cost_rank = COST_RANK (wc_measured_cost_bucket c),
      re_exclusion_reasons = reasons\<rparr>"

text \<open>The entries of the eligible candidates, ranked from 1, and those of the ineligible ones.\<close>

definition ranked_entries :: "string list \<Rightarrow> worker_candidate list \<Rightarrow> ranking_entry list" where
  "ranked_entries selected_ids eligible =
     map (\<lambda>(i, c). let s = wc_worker_id c \<in> set selected_ids in
        ranking_entry_of c s (Some i) (if s then [] else [''WORKER_BUDGET_EXHAUSTED'']))
       (zip (map int [1..<Suc (length eligible)]) eligible)"

definition excluded_entries :: "worker_candidate list \<Rightarrow> ranking_entry list" where
  "excluded_entries normalized =
     map (\<lambda>c. ranking_entry_of c False None (wc_ineligibility_reasons c))
       (filter (\<lambda>c. \<not> wc_eligible c) normalized)"

definition build_worker_selection_receipt ::
    "crypto \<Rightarrow> worker_candidate list \<Rightarrow> int \<Rightarrow> selection_error + selection_receipt" where
  "build_worker_selection_receipt C candidates budget =
     rbind (require (0 \<le> budget) BadBudget) (\<lambda>_.
     (let normalized = sort_key wc_worker_id candidates in
      rbind (require (distinct (map wc_worker_id normalized)) DuplicateWorkers) (\<lambda>_.
      (let eligible = sort_key priority_key (filter wc_eligible normalized);
           selected_ids = map wc_worker_id (take (nat budget) eligible);
           ranking = ranked_entries selected_ids eligible @ excluded_entries normalized in
       rbind (of_opt SelectionNotCanonical (jcs_sha C (selection_input_payload budget normalized)))
         (\<lambda>input_sha.
       (let draft = \<lparr>ws_worker_budget = budget, ws_candidates = normalized,
              ws_input_sha256 = input_sha, ws_ranking = ranking,
              ws_selected_worker_ids = selected_ids, ws_receipt_sha256 = zero_sha\<rparr> in
        rbind (of_opt SelectionNotCanonical (jcs_sha C (selection_receipt_payload draft))) (\<lambda>d.
        Inr (draft\<lparr>ws_receipt_sha256 := d\<rparr>))))))))"

definition verify_worker_selection_receipt ::
    "crypto \<Rightarrow> selection_receipt \<Rightarrow> selection_error + unit" where
  "verify_worker_selection_receipt C r =
     rbind (build_worker_selection_receipt C (ws_candidates r) (ws_worker_budget r)) (\<lambda>expected.
     rbind (require (ws_input_sha256 r = ws_input_sha256 expected) InputDigestMismatch) (\<lambda>_.
     rbind (require (ws_ranking r = ws_ranking expected) RankingMismatch) (\<lambda>_.
     rbind (require (ws_selected_worker_ids r = ws_selected_worker_ids expected) SelectionMismatch) (\<lambda>_.
     require (ws_receipt_sha256 r = ws_receipt_sha256 expected) SelectionDigestMismatch))))"

section \<open>Behaviour receipts\<close>

datatype disposition = Selected | Rejected

fun disposition_str :: "disposition \<Rightarrow> string" where
  "disposition_str Selected = ''SELECTED''"
| "disposition_str Rejected = ''REJECTED''"

record behavior_decision =
  bd_worker_id :: string
  bd_disposition :: disposition
  bd_eligible :: bool
  bd_rank :: "int option"
  bd_reason_codes :: "string list"
  bd_evidence_refs :: "string list"
  bd_discriminated_hypothesis_ids :: "string list"

record behavior_receipt =
  br_selection_policy_id :: string
  br_source_selection_receipt_sha256 :: string
  br_worker_budget :: int
  br_used_worker_budget :: int
  br_unused_worker_budget :: int
  br_eligible_worker_count :: int
  br_selected_worker_ids :: "string list"
  br_rejected_worker_ids :: "string list"
  br_selected :: "behavior_decision list"
  br_rejected :: "behavior_decision list"
  br_evidence_ref_count :: int
  br_receipt_sha256 :: string

definition BEHAVIOR_FRAME_MAGIC :: string where
  "BEHAVIOR_FRAME_MAGIC = ''visiondata-gate.agent-behavior-receipt.v1'' @ [CHR 0x00]"

text \<open>\<open>v.to_bytes(n, "big")\<close>.\<close>

fun to_bytes :: "nat \<Rightarrow> nat \<Rightarrow> string option" where
  "to_bytes 0 v = (if v = 0 then Some [] else None)"
| "to_bytes (Suc n) v = map_option (\<lambda>bs. bs @ [char_of (v mod 256)]) (to_bytes n (v div 256))"

definition domain_frame :: "string \<Rightarrow> string \<Rightarrow> string option" where
  "domain_frame domain payload =
     Option.bind (to_bytes 2 (length domain)) (\<lambda>d.
     Option.bind (to_bytes 8 (length payload)) (\<lambda>p.
     Some (BEHAVIOR_FRAME_MAGIC @ d @ domain @ p @ payload)))"

definition domain_sha256 :: "crypto \<Rightarrow> string \<Rightarrow> json \<Rightarrow> selection_error + string" where
  "domain_sha256 C domain v =
     rbind (of_opt SelectionNotCanonical (jcs C v)) (\<lambda>payload.
     rbind (of_opt FrameOverflow (domain_frame domain payload)) (\<lambda>frame.
     Inr (sha256 C frame)))"

definition dump_decision :: "behavior_decision \<Rightarrow> json" where
  "dump_decision d = JObj
     [(''worker_id'', JStr (bd_worker_id d)), (''disposition'', JStr (disposition_str (bd_disposition d))),
      (''eligible'', JBool (bd_eligible d)), (''rank'', JOpt JInt (bd_rank d)),
      (''reason_codes'', JStrs (bd_reason_codes d)), (''evidence_refs'', JStrs (bd_evidence_refs d)),
      (''discriminated_hypothesis_ids'', JStrs (bd_discriminated_hypothesis_ids d))]"

definition behavior_claim_boundary :: string where
  "behavior_claim_boundary = ''This receipt explains the deterministic Worker selection decision only. Selected does not mean executed, successful, root-cause proven, or authorized for production release.''"

text \<open>The dictionary \<open>stable\<close> of the builder.\<close>

definition behavior_payload :: "behavior_receipt \<Rightarrow> json" where
  "behavior_payload r = JObj
     [(''schema_version'', JStr ''visiondata-gate.agent-behavior-receipt.v1''),
      (''digest_contract'', JStr ''RFC8785_JCS_SHA256_LENGTH_PREFIX_DOMAIN_V1''),
      (''behavior_scope'', JStr ''WORKER_SELECTION_DECISION_ONLY''),
      (''selection_policy_id'', JStr (br_selection_policy_id r)),
      (''source_selection_receipt_sha256'', JStr (br_source_selection_receipt_sha256 r)),
      (''worker_budget'', JInt (br_worker_budget r)),
      (''used_worker_budget'', JInt (br_used_worker_budget r)),
      (''unused_worker_budget'', JInt (br_unused_worker_budget r)),
      (''eligible_worker_count'', JInt (br_eligible_worker_count r)),
      (''selected_worker_ids'', JStrs (br_selected_worker_ids r)),
      (''rejected_worker_ids'', JStrs (br_rejected_worker_ids r)),
      (''selected'', JArr (map dump_decision (br_selected r))),
      (''rejected'', JArr (map dump_decision (br_rejected r))),
      (''evidence_ref_count'', JInt (br_evidence_ref_count r)),
      (''execution_outcomes_included'', JBool False), (''model_decision_authority'', JBool False),
      (''production_release_allowed'', JBool False),
      (''claim_boundary'', JStr behavior_claim_boundary)]"

definition behavior_refs :: "behavior_receipt \<Rightarrow> string list" where
  "behavior_refs r = remdups (concat (map bd_evidence_refs (br_selected r @ br_rejected r)))"

definition validate_behavior_counts :: "behavior_receipt \<Rightarrow> selection_error + behavior_receipt" where
  "validate_behavior_counts r =
     (let decisions = br_selected r @ br_rejected r in
      rbind (require (br_used_worker_budget r = int (length (br_selected r))) UsedBudgetMismatch) (\<lambda>_.
      rbind (require (br_used_worker_budget r \<le> br_worker_budget r) BudgetExceeded) (\<lambda>_.
      rbind (require (br_unused_worker_budget r = br_worker_budget r - br_used_worker_budget r)
        UnusedBudgetMismatch) (\<lambda>_.
      rbind (require (int (length (br_selected r)) \<le> br_eligible_worker_count r)
        SelectedExceedEligible) (\<lambda>_.
      rbind (require (br_selected_worker_ids r = map bd_worker_id (br_selected r))
        SelectedIdsMismatch) (\<lambda>_.
      rbind (require (br_rejected_worker_ids r = map bd_worker_id (br_rejected r))
        RejectedIdsMismatch) (\<lambda>_.
      rbind (require (distinct (map bd_worker_id decisions)) DuplicateDecisions) (\<lambda>_.
      rbind (require (list_all bd_eligible (br_selected r)) IneligibleSelected) (\<lambda>_.
      rbind (require (br_eligible_worker_count r = int (length (filter bd_eligible decisions)))
        EligibleCountMismatch) (\<lambda>_.
      rbind (require (br_evidence_ref_count r = int (length (behavior_refs r)))
        EvidenceCountMismatch) (\<lambda>_.
      rbind (require (list_all (\<lambda>d. bd_disposition d = Selected) (br_selected r))
        BadSelectedDisposition) (\<lambda>_.
      rbind (require (list_all (\<lambda>d. bd_disposition d = Rejected) (br_rejected r))
        BadRejectedDisposition) (\<lambda>_. Inr r)))))))))))))"

definition by_worker :: "('a \<Rightarrow> string) \<Rightarrow> 'a list \<Rightarrow> string \<Rightarrow> selection_error + 'a" where
  "by_worker f xs w = of_opt (UnknownWorker w) (map_of (rev (map (\<lambda>x. (f x, x)) xs)) w)"

definition selected_decision :: "selection_receipt \<Rightarrow> string \<Rightarrow> selection_error + behavior_decision" where
  "selected_decision s w =
     rbind (by_worker wc_worker_id (ws_candidates s) w) (\<lambda>c.
     rbind (by_worker re_worker_id (ws_ranking s) w) (\<lambda>e.
     Inr \<lparr>bd_worker_id = w, bd_disposition = Selected, bd_eligible = True, bd_rank = re_rank e,
          bd_reason_codes = [''ELIGIBLE_BY_POLICY'', ''SELECTED_WITHIN_WORKER_BUDGET''],
          bd_evidence_refs = wc_unresolved_evidence_refs c,
          bd_discriminated_hypothesis_ids = wc_discriminated_hypothesis_ids c\<rparr>))"

definition rejected_decision ::
    "selection_receipt \<Rightarrow> ranking_entry \<Rightarrow> selection_error + behavior_decision" where
  "rejected_decision s e =
     rbind (by_worker wc_worker_id (ws_candidates s) (re_worker_id e)) (\<lambda>c.
     Inr \<lparr>bd_worker_id = re_worker_id e, bd_disposition = Rejected, bd_eligible = re_eligible e,
          bd_rank = re_rank e,
          bd_reason_codes = (if re_exclusion_reasons e = [] then [''NOT_SELECTED_BY_FROZEN_POLICY'']
                             else re_exclusion_reasons e),
          bd_evidence_refs = wc_unresolved_evidence_refs c,
          bd_discriminated_hypothesis_ids = wc_discriminated_hypothesis_ids c\<rparr>)"

definition build_agent_behavior_receipt ::
    "crypto \<Rightarrow> selection_receipt \<Rightarrow> selection_error + behavior_receipt" where
  "build_agent_behavior_receipt C s =
     rbind (verify_worker_selection_receipt C s) (\<lambda>_.
     rbind (rmap (selected_decision s) (ws_selected_worker_ids s)) (\<lambda>selected.
     rbind (rmap (rejected_decision s)
        (filter (\<lambda>e. re_worker_id e \<notin> set (ws_selected_worker_ids s)) (ws_ranking s))) (\<lambda>rejected.
     (let draft = \<lparr>br_selection_policy_id = selection_policy_id,
            br_source_selection_receipt_sha256 = ws_receipt_sha256 s,
            br_worker_budget = ws_worker_budget s,
            br_used_worker_budget = int (length selected),
            br_unused_worker_budget = ws_worker_budget s - int (length selected),
            br_eligible_worker_count = int (length (filter wc_eligible (ws_candidates s))),
            br_selected_worker_ids = map bd_worker_id selected,
            br_rejected_worker_ids = map bd_worker_id rejected,
            br_selected = selected, br_rejected = rejected,
            br_evidence_ref_count =
              int (length (remdups (concat (map bd_evidence_refs (selected @ rejected))))),
            br_receipt_sha256 = zero_sha\<rparr> in
      rbind (domain_sha256 C ''agent-behavior-receipt'' (behavior_payload draft)) (\<lambda>d.
      validate_behavior_counts (draft\<lparr>br_receipt_sha256 := d\<rparr>))))))"

definition verify_agent_behavior_receipt ::
    "crypto \<Rightarrow> behavior_receipt \<Rightarrow> selection_receipt \<Rightarrow> selection_error + unit" where
  "verify_agent_behavior_receipt C r s =
     rbind (build_agent_behavior_receipt C s) (\<lambda>expected.
     rbind (require (r = expected) BehaviorReplayMismatch) (\<lambda>_.
     require (br_receipt_sha256 r = br_receipt_sha256 expected) BehaviorDigestMismatch))"

section \<open>Lemmas\<close>

lemma sort_key_mset_cong:
  assumes "mset xs = mset ys" and "distinct (map f xs)"
  shows "sort_key f xs = sort_key f ys"
proof -
  have s: "set xs = set ys" using assms(1) by (metis set_mset_mset)
  have "mset (map f xs) = mset (map f ys)" using assms(1) by simp
  then have d: "distinct (map f ys)" using assms(2) by (metis distinct_count_atmost_1 set_mset_mset)
  have i: "inj_on f (set xs \<union> set ys)" using assms(2) s by (simp add: distinct_map)
  show ?thesis
    by (rule map_sorted_distinct_set_unique[of f]) (use assms(2) d i s in simp_all)
qed

lemma sort_key_take_drop:
  assumes "xs = sort_key f ys" and "x \<in> set (take n xs)" and "y \<in> set (drop n xs)"
  shows "f x \<le> f y"
proof -
  have "sorted (map f (take n xs @ drop n xs))" using assms(1) by (metis append_take_drop_id sorted_sort_key)
  then show ?thesis using assms(2,3) unfolding map_append sorted_append by auto
qed

text \<open>The two lists the builder derives from the candidates.\<close>

definition normalized_candidates :: "worker_candidate list \<Rightarrow> worker_candidate list" where
  "normalized_candidates cs = sort_key wc_worker_id cs"

definition eligible_by_priority :: "worker_candidate list \<Rightarrow> worker_candidate list" where
  "eligible_by_priority cs = sort_key priority_key (filter wc_eligible (normalized_candidates cs))"

lemma normalized_props [simp]:
  "set (normalized_candidates cs) = set cs" "length (normalized_candidates cs) = length cs"
  "distinct (map wc_worker_id (normalized_candidates cs)) \<longleftrightarrow> distinct (map wc_worker_id cs)"
  "normalized_candidates (normalized_candidates cs) = normalized_candidates cs"
  by (simp_all add: normalized_candidates_def sort_key_fixpoint)

lemma set_eligible [simp]: "set (eligible_by_priority cs) = {c \<in> set cs. wc_eligible c}"
  by (simp add: eligible_by_priority_def)

lemma length_eligible: "length (eligible_by_priority cs) = length (filter wc_eligible (normalized_candidates cs))"
  by (simp add: eligible_by_priority_def)

lemma distinct_eligible: "distinct (map wc_worker_id cs) \<Longrightarrow> distinct (map wc_worker_id (eligible_by_priority cs))"
proof -
  assume "distinct (map wc_worker_id cs)"
  then have "distinct (map wc_worker_id (filter wc_eligible (normalized_candidates cs)))"
    using distinct_map_filter normalized_props(3) by blast
  then show ?thesis by (simp add: eligible_by_priority_def distinct_map)
qed

lemma build_selection_Inr:
  "build_worker_selection_receipt C cs b = Inr r \<longleftrightarrow>
     0 \<le> b \<and> distinct (map wc_worker_id cs)
   \<and> ws_worker_budget r = b \<and> ws_candidates r = normalized_candidates cs
   \<and> jcs_sha C (selection_input_payload b (normalized_candidates cs)) = Some (ws_input_sha256 r)
   \<and> ws_selected_worker_ids r = map wc_worker_id (take (nat b) (eligible_by_priority cs))
   \<and> ws_ranking r = ranked_entries (ws_selected_worker_ids r) (eligible_by_priority cs)
       @ excluded_entries (normalized_candidates cs)
   \<and> jcs_sha C (selection_receipt_payload r) = Some (ws_receipt_sha256 r)"
  by (cases r) (auto simp: build_worker_selection_receipt_def Let_def eligible_by_priority_def
      normalized_candidates_def selection_receipt_payload_def)

lemma build_selection_normalized:
  "build_worker_selection_receipt C (normalized_candidates cs) b = build_worker_selection_receipt C cs b"
  by (simp add: build_worker_selection_receipt_def normalized_candidates_def sort_key_fixpoint)

interpretation wsr: replayed_receipt "\<lambda>(cs, b). build_worker_selection_receipt C cs b"
  "verify_worker_selection_receipt C" "\<lambda>r. (ws_candidates r, ws_worker_budget r)"
  "\<lambda>r. normalized_candidates (ws_candidates r) = ws_candidates r" for C
proof
  fix r :: selection_receipt
  assume a: "normalized_candidates (ws_candidates r) = ws_candidates r"
  show "verify_worker_selection_receipt C r = Inr () \<longleftrightarrow>
      (case (ws_candidates r, ws_worker_budget r) of (cs, b) \<Rightarrow> build_worker_selection_receipt C cs b) = Inr r"
  proof
    assume "verify_worker_selection_receipt C r = Inr ()"
    then obtain e where e: "build_worker_selection_receipt C (ws_candidates r) (ws_worker_budget r) = Inr e"
      "ws_input_sha256 r = ws_input_sha256 e" "ws_ranking r = ws_ranking e"
      "ws_selected_worker_ids r = ws_selected_worker_ids e" "ws_receipt_sha256 r = ws_receipt_sha256 e"
      by (auto simp: verify_worker_selection_receipt_def)
    moreover from this(1) have "ws_candidates e = ws_candidates r" "ws_worker_budget e = ws_worker_budget r"
      by (simp_all add: build_selection_Inr a)
    ultimately have "e = r" by (auto intro: selection_receipt.equality)
    then show "(case (ws_candidates r, ws_worker_budget r) of (cs, b) \<Rightarrow>
        build_worker_selection_receipt C cs b) = Inr r" using e(1) by simp
  qed (simp add: verify_worker_selection_receipt_def)
next
  fix i and r :: selection_receipt
  assume "(case i of (cs, b) \<Rightarrow> build_worker_selection_receipt C cs b) = Inr r"
  then show "normalized_candidates (ws_candidates r) = ws_candidates r"
    by (cases i) (simp add: build_selection_Inr)
next
  fix i and r :: selection_receipt
  assume a: "(case i of (cs, b) \<Rightarrow> build_worker_selection_receipt C cs b) = Inr r"
  obtain cs b where i: "i = (cs, b)" by (metis surj_pair)
  have "ws_candidates r = normalized_candidates cs" "ws_worker_budget r = b"
    using a i by (simp_all add: build_selection_Inr)
  then show "(case (ws_candidates r, ws_worker_budget r) of (cs, b) \<Rightarrow> build_worker_selection_receipt C cs b)
      = (case i of (cs, b) \<Rightarrow> build_worker_selection_receipt C cs b)"
    by (simp add: i build_selection_normalized)
qed

lemma ranked_entries_ids [simp]: "map re_worker_id (ranked_entries ids xs) = map wc_worker_id xs"
proof -
  let ?z = "zip (map int [1..<Suc (length xs)]) xs"
  have z: "map snd ?z = xs" by (rule map_snd_zip) (simp del: upt_Suc)
  have "map re_worker_id (ranked_entries ids xs) = map (wc_worker_id \<circ> snd) ?z"
    by (simp add: ranked_entries_def comp_def case_prod_beta ranking_entry_of_def Let_def del: upt_Suc)
  then show ?thesis by (simp only: map_map[symmetric] z)
qed

lemma excluded_entries_ids [simp]:
  "map re_worker_id (excluded_entries xs) = map wc_worker_id (filter (\<lambda>c. \<not> wc_eligible c) xs)"
  by (simp add: excluded_entries_def ranking_entry_of_def)

lemma to_bytes_length: "to_bytes n v = Some bs \<Longrightarrow> length bs = n"
  by (induction n v arbitrary: bs rule: to_bytes.induct) (auto split: if_splits)

lemma to_bytes_inj: "to_bytes n v = Some bs \<Longrightarrow> to_bytes n w = Some bs \<Longrightarrow> v = w"
proof (induction n v arbitrary: bs w rule: to_bytes.induct)
  case (1 v)
  then show ?case by (auto split: if_splits)
next
  case (2 n v)
  then obtain cs where c: "to_bytes n (v div 256) = Some cs" "bs = cs @ [char_of (v mod 256)]" by auto
  from 2(3) obtain ds where d: "to_bytes n (w div 256) = Some ds" "bs = ds @ [char_of (w mod 256)]"
    by auto
  have "char_of (v mod 256) = (char_of (w mod 256) :: char)" using c(2) d(2) by simp
  then have "of_char (char_of (v mod 256) :: char) = (of_char (char_of (w mod 256) :: char) :: nat)"
    by (rule arg_cong)
  then have m: "v mod 256 = w mod 256" by (simp only: of_char_of mod_mod_trivial)
  have q: "v div 256 = w div 256" using 2(1)[OF c(1)] d(1) c(2) d(2) by simp
  have "v = v div 256 * 256 + v mod 256" by (simp only: div_mult_mod_eq)
  also have "\<dots> = w" unfolding q m by (simp only: div_mult_mod_eq)
  finally show ?case .
qed

lemma to_bytes_total: "v < 256 ^ n \<Longrightarrow> \<exists>bs. to_bytes n v = Some bs"
proof (induction n v rule: to_bytes.induct)
  case (2 n v)
  then have "v div 256 < 256 ^ n" by (simp add: div_less_iff_less_mult mult.commute)
  then show ?case using 2 by auto
qed simp

lemma by_worker_Inr:
  "distinct (map f xs) \<Longrightarrow> x \<in> set xs \<Longrightarrow> by_worker f xs (f x) = Inr x"
proof -
  assume d: "distinct (map f xs)" and x: "x \<in> set xs"
  have "distinct (map fst (rev (map (\<lambda>x. (f x, x)) xs)))"
    using d by (simp add: rev_map[symmetric] comp_def)
  moreover have "(f x, x) \<in> set (rev (map (\<lambda>x. (f x, x)) xs))" using x by simp
  ultimately have "map_of (rev (map (\<lambda>x. (f x, x)) xs)) (f x) = Some x" by (rule map_of_is_SomeI)
  then show ?thesis by (simp add: by_worker_def)
qed

lemma rmap_projection:
  assumes "\<And>x. x \<in> set xs \<Longrightarrow> \<exists>y. f x = Inr y \<and> g y = h x"
  shows "\<exists>ys. rmap f xs = Inr ys \<and> map g ys = map h xs"
  using assms
proof (induction xs)
  case Nil
  then show ?case by simp
next
  case (Cons x xs)
  obtain y where "f x = Inr y" "g y = h x" using Cons.prems by auto
  moreover obtain ys where "rmap f xs = Inr ys" "map g ys = map h xs" using Cons by auto
  ultimately show ?case by simp
qed

text \<open>What the selected and rejected decisions expose to the count validation.\<close>

lemma behavior_decisions:
  assumes "build_worker_selection_receipt C cs b = Inr s"
  shows "\<exists>sel. rmap (selected_decision s) (ws_selected_worker_ids s) = Inr sel
      \<and> map (\<lambda>d. (bd_worker_id d, bd_disposition d, bd_eligible d)) sel
        = map (\<lambda>w. (w, Selected, True)) (ws_selected_worker_ids s)"
    and "\<exists>rej. rmap (rejected_decision s) (filter (\<lambda>e. re_worker_id e \<notin> set (ws_selected_worker_ids s)) (ws_ranking s)) = Inr rej
      \<and> map (\<lambda>d. (bd_worker_id d, bd_disposition d, bd_eligible d)) rej
        = map (\<lambda>e. (re_worker_id e, Rejected, re_eligible e))
            (filter (\<lambda>e. re_worker_id e \<notin> set (ws_selected_worker_ids s)) (ws_ranking s))"
proof -
  let ?E = "eligible_by_priority cs" and ?N = "normalized_candidates cs"
  have d: "distinct (map wc_worker_id cs)" and c: "ws_candidates s = ?N"
    and sel: "ws_selected_worker_ids s = map wc_worker_id (take (nat b) ?E)"
    and rk: "ws_ranking s = ranked_entries (ws_selected_worker_ids s) ?E @ excluded_entries ?N"
    using assms by (auto simp: build_selection_Inr)
  have ids: "map re_worker_id (ws_ranking s) = map wc_worker_id ?E @ map wc_worker_id (filter (\<lambda>c. \<not> wc_eligible c) ?N)"
    by (simp add: rk)
  have cand: "\<exists>c. by_worker wc_worker_id (ws_candidates s) w = Inr c" if "w \<in> wc_worker_id ` set cs" for w
    using that d c by_worker_Inr[of wc_worker_id ?N] by force
  have dr: "distinct (map re_worker_id (ws_ranking s))"
    unfolding ids using distinct_eligible[OF d] d
    by (auto simp: distinct_map inj_on_def)
      (auto simp: normalized_candidates_def distinct_map)
  have ent: "\<exists>e. by_worker re_worker_id (ws_ranking s) w = Inr e" if "w \<in> wc_worker_id ` set ?E" for w
  proof -
    from that have "w \<in> set (map re_worker_id (ws_ranking s))" unfolding ids by auto
    then obtain e where "e \<in> set (ws_ranking s)" "w = re_worker_id e" by auto
    then show ?thesis using by_worker_Inr[OF dr] by blast
  qed
  show "\<exists>sel. rmap (selected_decision s) (ws_selected_worker_ids s) = Inr sel
      \<and> map (\<lambda>d. (bd_worker_id d, bd_disposition d, bd_eligible d)) sel
        = map (\<lambda>w. (w, Selected, True)) (ws_selected_worker_ids s)"
  proof (rule rmap_projection)
    fix w assume "w \<in> set (ws_selected_worker_ids s)"
    then have "w \<in> wc_worker_id ` set ?E" unfolding sel using set_take_subset by fastforce
    moreover from this have "w \<in> wc_worker_id ` set cs" by auto
    ultimately show "\<exists>y. selected_decision s w = Inr y \<and>
        (bd_worker_id y, bd_disposition y, bd_eligible y) = (w, Selected, True)"
      using cand ent by (fastforce simp: selected_decision_def)
  qed
  show "\<exists>rej. rmap (rejected_decision s) (filter (\<lambda>e. re_worker_id e \<notin> set (ws_selected_worker_ids s)) (ws_ranking s)) = Inr rej
      \<and> map (\<lambda>d. (bd_worker_id d, bd_disposition d, bd_eligible d)) rej
        = map (\<lambda>e. (re_worker_id e, Rejected, re_eligible e))
            (filter (\<lambda>e. re_worker_id e \<notin> set (ws_selected_worker_ids s)) (ws_ranking s))"
  proof (rule rmap_projection)
    fix e assume "e \<in> set (filter (\<lambda>e. re_worker_id e \<notin> set (ws_selected_worker_ids s)) (ws_ranking s))"
    then have "re_worker_id e \<in> set (map re_worker_id (ws_ranking s))" by simp
    then have "re_worker_id e \<in> wc_worker_id ` set cs" unfolding ids by auto
    then show "\<exists>y. rejected_decision s e = Inr y \<and>
        (bd_worker_id y, bd_disposition y, bd_eligible y) = (re_worker_id e, Rejected, re_eligible e)"
      using cand by (fastforce simp: rejected_decision_def)
  qed
qed

lemma filter_not_taken:
  assumes "distinct (map f xs)"
  shows "filter (\<lambda>x. f x \<notin> set (map f (take n xs))) xs = drop n xs"
proof -
  have d: "distinct (map f (take n xs) @ map f (drop n xs))"
    using assms by (metis append_take_drop_id map_append)
  let ?P = "\<lambda>x. f x \<notin> set (map f (take n xs))"
  have "filter ?P (take n xs) = []" by (simp add: filter_empty_conv)
  moreover have "filter ?P (drop n xs) = drop n xs"
    using d by (intro filter_True) auto
  moreover have "filter ?P xs = filter ?P (take n xs) @ filter ?P (drop n xs)"
    by (metis append_take_drop_id filter_append)
  ultimately show ?thesis by simp
qed

lemma ranked_entries_eligible:
  "\<forall>c\<in>set xs. wc_eligible c \<Longrightarrow> e \<in> set (ranked_entries ids xs) \<Longrightarrow> re_eligible e"
  by (auto simp: ranked_entries_def Let_def ranking_entry_of_def dest: set_zip_rightD)

lemma excluded_entries_ineligible: "e \<in> set (excluded_entries xs) \<Longrightarrow> \<not> re_eligible e"
  by (auto simp: excluded_entries_def ranking_entry_of_def)

lemma length_filter_map: "length (filter (P \<circ> f) xs) = length (filter P (map f xs))"
  by (induction xs) simp_all

lemma eligible_rejected_count:
  assumes "build_worker_selection_receipt C cs b = Inr s"
  shows "length (filter re_eligible (filter (\<lambda>e. re_worker_id e \<notin> set (ws_selected_worker_ids s)) (ws_ranking s)))
    + length (ws_selected_worker_ids s) = length (filter wc_eligible (ws_candidates s))"
proof -
  let ?E = "eligible_by_priority cs" and ?N = "normalized_candidates cs" and ?S = "set (ws_selected_worker_ids s)"
  have d: "distinct (map wc_worker_id cs)" and c: "ws_candidates s = ?N"
    and sel: "ws_selected_worker_ids s = map wc_worker_id (take (nat b) ?E)"
    and rk: "ws_ranking s = ranked_entries (ws_selected_worker_ids s) ?E @ excluded_entries ?N"
    using assms by (auto simp: build_selection_Inr)
  have r: "filter re_eligible (filter (\<lambda>e. re_worker_id e \<notin> ?S) (ranked_entries (ws_selected_worker_ids s) ?E))
      = filter (\<lambda>e. re_worker_id e \<notin> ?S) (ranked_entries (ws_selected_worker_ids s) ?E)"
    by (rule filter_True) (use ranked_entries_eligible[of ?E] in auto)
  have x: "filter re_eligible (filter (\<lambda>e. re_worker_id e \<notin> ?S) (excluded_entries ?N)) = []"
    using excluded_entries_ineligible by (auto simp: filter_empty_conv)
  have "length (filter (\<lambda>e. re_worker_id e \<notin> ?S) (ranked_entries (ws_selected_worker_ids s) ?E))
      = length (filter (\<lambda>w. w \<notin> ?S) (map re_worker_id (ranked_entries (ws_selected_worker_ids s) ?E)))"
    by (simp only: length_filter_map[symmetric] comp_def)
  also have "\<dots> = length (filter (\<lambda>c. wc_worker_id c \<notin> ?S) ?E)"
    by (simp only: ranked_entries_ids length_filter_map[symmetric] comp_def)
  also have "\<dots> = length (drop (nat b) ?E)"
    using filter_not_taken[OF distinct_eligible[OF d], of "nat b"] by (simp add: sel)
  finally show ?thesis
    by (simp only: rk filter_append r x length_append) (simp add: sel c length_eligible[symmetric])
qed

lemma decision_ids_distinct:
  assumes "build_worker_selection_receipt C cs b = Inr s"
  shows "distinct (ws_selected_worker_ids s @ map re_worker_id
      (filter (\<lambda>e. re_worker_id e \<notin> set (ws_selected_worker_ids s)) (ws_ranking s)))"
    and "set (ws_selected_worker_ids s) \<union> re_worker_id `
      {e \<in> set (ws_ranking s). re_worker_id e \<notin> set (ws_selected_worker_ids s)} = wc_worker_id ` set cs"
proof -
  let ?E = "eligible_by_priority cs" and ?N = "normalized_candidates cs"
  have d: "distinct (map wc_worker_id cs)"
    and sel: "ws_selected_worker_ids s = map wc_worker_id (take (nat b) ?E)"
    and rk: "ws_ranking s = ranked_entries (ws_selected_worker_ids s) ?E @ excluded_entries ?N"
    using assms by (auto simp: build_selection_Inr)
  have ids: "map re_worker_id (ws_ranking s) = map wc_worker_id ?E @ map wc_worker_id (filter (\<lambda>c. \<not> wc_eligible c) ?N)"
    by (simp add: rk)
  have "distinct (map re_worker_id (ws_ranking s))"
    unfolding ids using distinct_eligible[OF d] d
    by (auto simp: distinct_map inj_on_def) (auto simp: normalized_candidates_def distinct_map)
  then have "distinct (map re_worker_id
      (filter (\<lambda>e. re_worker_id e \<notin> set (ws_selected_worker_ids s)) (ws_ranking s)))"
    by (rule distinct_map_filter)
  moreover have "distinct (ws_selected_worker_ids s)"
    using distinct_eligible[OF d] by (simp add: sel take_map[symmetric])
  ultimately show "distinct (ws_selected_worker_ids s @ map re_worker_id
      (filter (\<lambda>e. re_worker_id e \<notin> set (ws_selected_worker_ids s)) (ws_ranking s)))"
    by auto
  have "re_worker_id ` set (ws_ranking s) = wc_worker_id ` set cs"
  proof -
    have "set (map re_worker_id (ws_ranking s)) = wc_worker_id ` set cs" unfolding ids by auto
    then show ?thesis by simp
  qed
  moreover have "set (ws_selected_worker_ids s) \<subseteq> wc_worker_id ` set cs"
    unfolding sel using set_take_subset[of "nat b" ?E] by auto
  moreover have "re_worker_id ` {e \<in> set (ws_ranking s). re_worker_id e \<notin> set (ws_selected_worker_ids s)}
      = re_worker_id ` set (ws_ranking s) - set (ws_selected_worker_ids s)" by auto
  ultimately show "set (ws_selected_worker_ids s) \<union> re_worker_id `
      {e \<in> set (ws_ranking s). re_worker_id e \<notin> set (ws_selected_worker_ids s)} = wc_worker_id ` set cs"
    by blast
qed

definition demo_worker :: "string \<Rightarrow> blocking_severity \<Rightarrow> worker_candidate" where
  "demo_worker i s = \<lparr>wc_worker_id = i, wc_eligible = True, wc_ineligibility_reasons = [],
     wc_blocking_severity = s, wc_discriminated_hypothesis_ids = [''h1''],
     wc_unresolved_evidence_refs = [''e1''], wc_measured_cost_bucket = CostLow\<rparr>"

definition demo_workers :: "worker_candidate list" where
  "demo_workers = [demo_worker ''w1'' BlockWarning, demo_worker ''w2'' Blocking]"

lemma demo_selection:
  "\<exists>r. build_worker_selection_receipt toy_crypto demo_workers 1 = Inr r \<and> ws_selected_worker_ids r = [''w2'']"
proof -
  have "(case build_worker_selection_receipt toy_crypto demo_workers 1 of
      Inr r \<Rightarrow> ws_selected_worker_ids r = [''w2''] | Inl _ \<Rightarrow> False)"
    by code_simp
  then show ?thesis by (auto split: sum.splits)
qed

section \<open>Properties\<close>

text \<open>C15: exactly the best eligible candidates within the budget are selected: as many as the budget and the
  eligible candidates allow, each one strictly before every eligible candidate left out in the order severity,
  hypothesis count, unresolved evidence, cost, identifier.\<close>

theorem selection_is_optimal:
  assumes "build_worker_selection_receipt C candidates budget = Inr r"
  shows "length (ws_selected_worker_ids r) = min (nat budget) (length (filter wc_eligible candidates))
    \<and> distinct (ws_selected_worker_ids r)
    \<and> set (ws_selected_worker_ids r) \<subseteq> wc_worker_id ` {c \<in> set candidates. wc_eligible c}
    \<and> (\<forall>c\<in>set candidates. \<forall>d\<in>set candidates.
         wc_worker_id c \<in> set (ws_selected_worker_ids r) \<longrightarrow> wc_eligible d \<longrightarrow>
         wc_worker_id d \<notin> set (ws_selected_worker_ids r) \<longrightarrow> priority_key c < priority_key d)"
proof -
  let ?E = "eligible_by_priority candidates" and ?n = "nat budget"
  have sel: "ws_selected_worker_ids r = map wc_worker_id (take ?n ?E)"
    and d: "distinct (map wc_worker_id candidates)"
    using assms by (simp_all add: build_selection_Inr)
  note de = distinct_eligible[OF d]
  have len: "length ?E = length (filter wc_eligible candidates)"
  proof -
    have "mset (filter wc_eligible (normalized_candidates candidates)) = mset (filter wc_eligible candidates)"
      by (simp add: normalized_candidates_def)
    then show ?thesis by (metis length_eligible size_mset)
  qed
  have opt: "priority_key c < priority_key e" if c: "c \<in> set candidates" "wc_worker_id c \<in> set (ws_selected_worker_ids r)"
    and e: "e \<in> set candidates" "wc_eligible e" "wc_worker_id e \<notin> set (ws_selected_worker_ids r)" for c e
  proof -
    obtain c' where c': "c' \<in> set (take ?n ?E)" "wc_worker_id c' = wc_worker_id c"
      using c(2) sel by auto
    then have "c' \<in> set candidates" using in_set_takeD by fastforce
    then have ceq: "c' = c" using c(1) c'(2) d by (simp add: distinct_map inj_on_def)
    have "e \<in> set ?E" using e by simp
    then have "e \<in> set (take ?n ?E) \<union> set (drop ?n ?E)" by (metis append_take_drop_id set_append)
    then have "e \<in> set (drop ?n ?E)" using e(3) by (auto simp: sel)
    then have "priority_key c \<le> priority_key e"
      using sort_key_take_drop[of ?E priority_key "filter wc_eligible (normalized_candidates candidates)"] c'(1) ceq
      by (simp add: eligible_by_priority_def)
    moreover have "priority_key c \<noteq> priority_key e" using c(2) e(3) by (auto simp: priority_key_def)
    ultimately show ?thesis by simp
  qed
  have sub: "set (take ?n ?E) \<subseteq> {c \<in> set candidates. wc_eligible c}"
    using set_take_subset[of ?n ?E] by simp
  have "length (ws_selected_worker_ids r) = min (nat budget) (length (filter wc_eligible candidates))"
    by (simp add: sel len min.commute)
  moreover have "distinct (ws_selected_worker_ids r)"
    using de by (simp add: sel take_map[symmetric])
  moreover have "set (ws_selected_worker_ids r) \<subseteq> wc_worker_id ` {c \<in> set candidates. wc_eligible c}"
    using sub by (auto simp: sel)
  ultimately show ?thesis using opt by blast
qed

theorem selection_is_optimal_witness:
  "\<exists>r. build_worker_selection_receipt toy_crypto demo_workers 1 = Inr r
     \<and> length (ws_selected_worker_ids r) = 1"
proof -
  obtain r where r: "build_worker_selection_receipt toy_crypto demo_workers 1 = Inr r"
    using demo_selection by blast
  then show ?thesis using selection_is_optimal[OF r] by (simp add: demo_workers_def demo_worker_def)
qed

text \<open>The order in which candidates are supplied never changes the receipt or the error.\<close>

theorem selection_ignores_input_order:
  assumes "mset candidates = mset candidates'"
  shows "build_worker_selection_receipt C candidates budget = build_worker_selection_receipt C candidates' budget"
proof (cases "distinct (map wc_worker_id candidates)")
  case True
  then show ?thesis
    by (simp add: build_worker_selection_receipt_def sort_key_mset_cong[OF assms True])
next
  case False
  have "mset (map wc_worker_id candidates) = mset (map wc_worker_id candidates')" using assms by simp
  then have "\<not> distinct (map wc_worker_id candidates')"
    using False by (metis distinct_count_atmost_1 set_mset_mset)
  then show ?thesis using False
    by (simp add: build_worker_selection_receipt_def Let_def)
qed

text \<open>A built selection receipt verifies, and no other receipt with the same candidates and budget does.\<close>

theorem selection_receipt_replays:
  assumes "build_worker_selection_receipt C candidates budget = Inr r"
  shows "verify_worker_selection_receipt C r = Inr ()
    \<and> (verify_worker_selection_receipt C s = Inr () \<and> ws_candidates s = ws_candidates r
        \<and> ws_worker_budget s = ws_worker_budget r \<longleftrightarrow> s = r)"
proof -
  have b: "(case (candidates, budget) of (cs, b) \<Rightarrow> build_worker_selection_receipt C cs b) = Inr r"
    using assms by simp
  note v = wsr.build_verifies[OF b]
  have n: "normalized_candidates (ws_candidates r) = ws_candidates r"
    using assms by (simp add: build_selection_Inr)
  have "s = r" if "verify_worker_selection_receipt C s = Inr ()" "ws_candidates s = ws_candidates r"
    "ws_worker_budget s = ws_worker_budget r"
    by (rule wsr.verified_determined[of s r C]) (use that n v in simp_all)
  then show ?thesis using v by blast
qed

text \<open>The length-prefixed frame is injective: two different pairs of domain and payload are never digested
  as the same bytes.\<close>

theorem domain_frame_injective:
  assumes "domain_frame d p = Some x" and "domain_frame d' p' = Some x"
  shows "d = d' \<and> p = p'"
proof -
  obtain a b a' b' where f: "to_bytes 2 (length d) = Some a" "to_bytes 8 (length p) = Some b"
    "to_bytes 2 (length d') = Some a'" "to_bytes 8 (length p') = Some b'"
    "a @ d @ b @ p = a' @ d' @ b' @ p'"
    using assms by (auto simp: domain_frame_def bind_eq_Some_conv)
  note l = f(1-4)[THEN to_bytes_length]
  have a: "a = a'" "d @ b @ p = d' @ b' @ p'" using f(5) l by (simp_all add: append_eq_append_conv)
  have "length d = length d'" using to_bytes_inj f(1,3) a(1) by blast
  then show ?thesis using a(2) l by (simp add: append_eq_append_conv)
qed

text \<open>For every built selection, unless the digest of its payload is refused, the behaviour receipt is built, passes its own
  reconciliation checks and its replay, and mentions each candidate exactly once, as selected or as rejected; used and unused
  budget sum up.\<close>

theorem behavior_receipt_explains_selection:
  assumes s: "build_worker_selection_receipt C candidates budget = Inr s"
  shows "(\<exists>e v. build_agent_behavior_receipt C s = Inl e \<and> domain_sha256 C ''agent-behavior-receipt'' v = Inl e)
    \<or> (\<exists>r. build_agent_behavior_receipt C s = Inr r
    \<and> verify_agent_behavior_receipt C r s = Inr ()
    \<and> distinct (br_selected_worker_ids r @ br_rejected_worker_ids r)
    \<and> set (br_selected_worker_ids r @ br_rejected_worker_ids r) = wc_worker_id ` set candidates
    \<and> br_used_worker_budget r + br_unused_worker_budget r = budget)"
proof -
  let ?rk = "filter (\<lambda>e. re_worker_id e \<notin> set (ws_selected_worker_ids s)) (ws_ranking s)"
  obtain sel where sel: "rmap (selected_decision s) (ws_selected_worker_ids s) = Inr sel"
    and selp: "map (\<lambda>d. (bd_worker_id d, bd_disposition d, bd_eligible d)) sel
        = map (\<lambda>w. (w, Selected, True)) (ws_selected_worker_ids s)"
    using behavior_decisions(1)[OF s] by blast
  obtain rej where rej: "rmap (rejected_decision s) ?rk = Inr rej"
    and rejp: "map (\<lambda>d. (bd_worker_id d, bd_disposition d, bd_eligible d)) rej
        = map (\<lambda>e. (re_worker_id e, Rejected, re_eligible e)) ?rk"
    using behavior_decisions(2)[OF s] by blast
  have si: "map bd_worker_id sel = ws_selected_worker_ids s" "list_all bd_eligible sel"
    "list_all (\<lambda>d. bd_disposition d = Selected) sel" "length sel = length (ws_selected_worker_ids s)"
    using arg_cong[OF selp, of "map fst"] arg_cong[OF selp, of "list_all (\<lambda>x. snd (snd x))"]
      arg_cong[OF selp, of "list_all (\<lambda>x. fst (snd x) = Selected)"] arg_cong[OF selp, of length]
    by (simp_all add: comp_def list_all_iff)
  have ri: "map bd_worker_id rej = map re_worker_id ?rk" "list_all (\<lambda>d. bd_disposition d = Rejected) rej"
    "map bd_eligible rej = map re_eligible ?rk"
    using arg_cong[OF rejp, of "map fst"] arg_cong[OF rejp, of "list_all (\<lambda>x. fst (snd x) = Rejected)"]
      arg_cong[OF rejp, of "map (\<lambda>x. snd (snd x))"]
    by (simp_all add: comp_def list_all_iff)
  have re: "length (filter bd_eligible rej) = length (filter re_eligible ?rk)"
    using length_filter_map[of id bd_eligible rej] length_filter_map[of id re_eligible ?rk]
    by (simp only: ri(3) id_comp)
  have se: "filter bd_eligible sel = sel" using si(2) by (simp add: list_all_iff)
  have cnt: "length (filter wc_eligible (ws_candidates s)) = length sel + length (filter bd_eligible rej)"
    using eligible_rejected_count[OF s] by (simp add: re si(4))
  have bud: "ws_worker_budget s = budget" "0 \<le> budget" "int (length sel) \<le> budget"
    using s by (auto simp: build_selection_Inr si(4))
  have vs: "verify_worker_selection_receipt C s = Inr ()"
    using wsr.build_verifies[where i = "(candidates, budget)" and C = C and r = s] s by simp
  let ?draft = "\<lparr>br_selection_policy_id = selection_policy_id,
            br_source_selection_receipt_sha256 = ws_receipt_sha256 s,
            br_worker_budget = ws_worker_budget s,
            br_used_worker_budget = int (length sel),
            br_unused_worker_budget = ws_worker_budget s - int (length sel),
            br_eligible_worker_count = int (length (filter wc_eligible (ws_candidates s))),
            br_selected_worker_ids = map bd_worker_id sel,
            br_rejected_worker_ids = map bd_worker_id rej,
            br_selected = sel, br_rejected = rej,
            br_evidence_ref_count =
              int (length (remdups (concat (map bd_evidence_refs (sel @ rej))))),
            br_receipt_sha256 = zero_sha\<rparr>"
  show ?thesis
  proof (cases "domain_sha256 C ''agent-behavior-receipt'' (behavior_payload ?draft)")
    case (Inl e)
    have "build_agent_behavior_receipt C s = Inl e"
      unfolding build_agent_behavior_receipt_def vs rbind_Inr sel rej Let_def Inl by simp
    then show ?thesis using Inl by blast
  next
  case d: (Inr d)
  let ?r = "?draft\<lparr>br_receipt_sha256 := d\<rparr>"
  have di: "distinct (map bd_worker_id (sel @ rej))"
    using decision_ids_distinct(1)[OF s] by (simp add: si(1) ri(1))
  have v: "validate_behavior_counts ?r = Inr ?r"
    using bud cnt si ri di by (simp add: validate_behavior_counts_def Let_def behavior_refs_def se)
  have b: "build_agent_behavior_receipt C s = Inr ?r"
    unfolding build_agent_behavior_receipt_def vs rbind_Inr sel rej Let_def d v ..
  moreover have "verify_agent_behavior_receipt C ?r s = Inr ()"
    by (simp only: verify_agent_behavior_receipt_def b rbind_Inr require_True simp_thms)
  moreover have "set (map bd_worker_id sel @ map bd_worker_id rej) = wc_worker_id ` set candidates"
    using decision_ids_distinct(2)[OF s] by (simp add: si(1) ri(1))
  ultimately show ?thesis using di bud by (intro disjI2 exI[of _ ?r]) auto
  qed
qed

text \<open>The verification does not seal the order of the stored candidates: a verified receipt still
  verifies after its candidate list has been permuted.\<close>

theorem verification_ignores_candidate_order:
  assumes "verify_worker_selection_receipt C r = Inr ()" and "mset cs = mset (ws_candidates r)"
  shows "verify_worker_selection_receipt C (r\<lparr>ws_candidates := cs\<rparr>) = Inr ()"
proof -
  obtain e where e: "build_worker_selection_receipt C (ws_candidates r) (ws_worker_budget r) = Inr e"
    using assms(1) by (auto simp: verify_worker_selection_receipt_def)
  then have "distinct (map wc_worker_id (ws_candidates r))" by (simp add: build_selection_Inr)
  then have "sort_key wc_worker_id cs = sort_key wc_worker_id (ws_candidates r)"
    using sort_key_mset_cong[OF assms(2)[symmetric], of wc_worker_id] by metis
  then have "build_worker_selection_receipt C cs (ws_worker_budget r) = Inr e"
    using e by (simp add: build_worker_selection_receipt_def)
  then show ?thesis using assms(1) e by (simp add: verify_worker_selection_receipt_def)
qed

end
