(* ===== verification/Command_Store.thy ===== *)
theory Command_Store
  imports Gate_Prelude
begin

text \<open>
  \<open>task_store.py\<close>, the incident command table: admission of a command with its idempotency and effect-scope
  guards, the terminal transitions, and the checked reads. The table is the list of its rows in insertion order; its
  UNIQUE constraints and the partial unique index are checked by \<open>insert_row\<close> and \<open>update_row\<close>. A raising operation
  rolls its transaction back, so it returns no table. The other tables the operations read (tasks, memberships,
  credentials) are the record \<open>tenancy\<close>; the clock reading is an argument.
\<close>

section \<open>Tenancy\<close>

record tenancy =
  tn_task_workspace :: "(string \<times> string) list"
  tn_members :: "(string \<times> string) list"
  tn_identity_enabled :: bool
  tn_credential_status :: "(string \<times> string) list"

section \<open>Rows\<close>

datatype command_operation = CreateCase | RecordDecision | ResumeCase

datatype command_status = CmdExecuting | CmdCompleted | CmdRejected | CmdUncertain

fun operation_str :: "command_operation \<Rightarrow> string" where
  "operation_str CreateCase = ''CREATE_CASE''"
| "operation_str RecordDecision = ''RECORD_DECISION''"
| "operation_str ResumeCase = ''RESUME_CASE''"

datatype command_error =
    BadCommandId | BadTaskOrScope | NotSha256 string
  | CreateBindsDigest | DigestRequired command_operation
  | TaskNotFound | AuthFailed | WorkspaceNotFound | CommandNotFound
  | CommandIdBound | IdempotencyKeyBound | ScopeOccupied
  | AdmissionIntegrity | ExecutingHasTerminal | CompletedMissingResource | FailedInvalidOutcome
  | BadFinishStatus | CompletedFields | RejectedFields
  | OtherTerminalOutcome | UncertainNeedsCode | NotUncertain
  | ResourceDigestsDisagree
  | SqlIntegrityError          \<comment> \<open>\<open>sqlite3.IntegrityError\<close>\<close>

record command_record =
  cr_command_id :: string
  cr_task_id :: string
  cr_scope_key :: string
  cr_operation :: command_operation
  cr_actor_user_id :: string
  cr_idempotency_key_sha256 :: string
  cr_request_sha256 :: string
  cr_expected_case_sha256 :: "string option"
  cr_admission_sha256 :: string
  cr_status :: command_status
  cr_resource_type :: "string option"
  cr_resource_id :: "string option"
  cr_resource_sha256 :: "string option"
  cr_error_code :: "string option"
  cr_error_message :: "string option"
  cr_created_at :: string
  cr_updated_at :: string
  cr_completed_at :: "string option"

type_synonym command_table = "command_record list"

text \<open>The arguments of an admission.\<close>

record command_claim =
  cl_actor_user_id :: string
  cl_command_id :: string
  cl_task_id :: string
  cl_scope_key :: string
  cl_operation :: command_operation
  cl_idempotency_key_sha256 :: string
  cl_request_sha256 :: string
  cl_expected_case_sha256 :: "string option"

definition incident_command_admission_sha256 :: "crypto \<Rightarrow> command_claim \<Rightarrow> string" where
  "incident_command_admission_sha256 C a = dumps_sha C (JObj
     [(''command_id'', JStr (cl_command_id a)), (''task_id'', JStr (cl_task_id a)),
      (''scope_key'', JStr (cl_scope_key a)), (''operation'', JStr (operation_str (cl_operation a))),
      (''actor_user_id'', JStr (cl_actor_user_id a)),
      (''idempotency_key_sha256'', JStr (cl_idempotency_key_sha256 a)),
      (''request_sha256'', JStr (cl_request_sha256 a)),
      (''expected_case_sha256'', JOpt JStr (cl_expected_case_sha256 a))])"

definition claim_of :: "command_record \<Rightarrow> command_claim" where
  "claim_of r = \<lparr>cl_actor_user_id = cr_actor_user_id r, cl_command_id = cr_command_id r,
     cl_task_id = cr_task_id r, cl_scope_key = cr_scope_key r, cl_operation = cr_operation r,
     cl_idempotency_key_sha256 = cr_idempotency_key_sha256 r, cl_request_sha256 = cr_request_sha256 r,
     cl_expected_case_sha256 = cr_expected_case_sha256 r\<rparr>"

text \<open>\<open>_incident_command\<close>: the checks every read makes on a stored row.\<close>

definition incident_command :: "crypto \<Rightarrow> command_record \<Rightarrow> command_error + command_record" where
  "incident_command C r =
     (let resources = [cr_resource_type r, cr_resource_id r, cr_resource_sha256 r] in
      rbind (require (cr_admission_sha256 r = incident_command_admission_sha256 C (claim_of r))
        AdmissionIntegrity) (\<lambda>_.
      rbind (case cr_status r of
          CmdExecuting \<Rightarrow> require (list_all (\<lambda>v. v = None) resources \<and> cr_error_code r = None
             \<and> cr_error_message r = None \<and> cr_completed_at r = None) ExecutingHasTerminal
        | CmdCompleted \<Rightarrow> require (list_all opt_truthy resources \<and> cr_error_code r = None
             \<and> cr_error_message r = None \<and> cr_completed_at r \<noteq> None) CompletedMissingResource
        | _ \<Rightarrow> require (list_all (\<lambda>v. v = None) resources \<and> opt_truthy (cr_error_code r)
             \<and> cr_completed_at r \<noteq> None) FailedInvalidOutcome) (\<lambda>_. Inr r)))"

section \<open>Membership\<close>

definition assert_active :: "tenancy \<Rightarrow> string \<Rightarrow> command_error + unit" where
  "assert_active tn actor = require (\<not> tn_identity_enabled tn
     \<or> map_of (tn_credential_status tn) actor = Some ''ACTIVE'') AuthFailed"

definition require_membership :: "tenancy \<Rightarrow> string \<Rightarrow> string \<Rightarrow> command_error + unit" where
  "require_membership tn workspace actor =
     rbind (assert_active tn actor) (\<lambda>_.
     require ((workspace, actor) \<in> set (tn_members tn)) WorkspaceNotFound)"

text \<open>The task look-up and membership check that opens every operation.\<close>

definition enter_task :: "tenancy \<Rightarrow> string \<Rightarrow> string \<Rightarrow> command_error + unit" where
  "enter_task tn task actor =
     rbind (of_opt TaskNotFound (map_of (tn_task_workspace tn) task)) (\<lambda>ws.
     require_membership tn ws actor)"

section \<open>Constraints of the table\<close>

definition idempotency_key ::
    "command_record \<Rightarrow> string \<times> string \<times> command_operation \<times> string \<times> string" where
  "idempotency_key r = (cr_task_id r, cr_scope_key r, cr_operation r, cr_actor_user_id r,
     cr_idempotency_key_sha256 r)"

definition owns_scope :: "command_record \<Rightarrow> bool" where
  "owns_scope r \<longleftrightarrow> cr_operation r \<in> {RecordDecision, ResumeCase}
     \<and> cr_status r \<in> {CmdExecuting, CmdCompleted, CmdUncertain}"

definition effect_scope ::
    "command_record \<Rightarrow> string \<times> string \<times> command_operation \<times> string option" where
  "effect_scope r = (cr_task_id r, cr_scope_key r, cr_operation r, cr_expected_case_sha256 r)"

text \<open>
  PRIMARY KEY, UNIQUE and the partial index \<open>idx_incident_commands_effect_scope\<close>; SQLite does not compare
  NULL index entries.
\<close>

definition table_constraints :: "command_table \<Rightarrow> bool" where
  "table_constraints t \<longleftrightarrow> distinct (map cr_command_id t) \<and> distinct (map idempotency_key t)
     \<and> distinct (map effect_scope (filter (\<lambda>r. owns_scope r \<and> cr_expected_case_sha256 r \<noteq> None) t))"

definition insert_row :: "command_record \<Rightarrow> command_table \<Rightarrow> command_error + command_table" where
  "insert_row r t = rbind (require (table_constraints (t @ [r])) SqlIntegrityError) (\<lambda>_. Inr (t @ [r]))"

text \<open>\<open>UPDATE ... WHERE task_id = ? AND command_id = ? AND status = 'EXECUTING'\<close>.\<close>

definition update_rows ::
    "string \<Rightarrow> string \<Rightarrow> (command_record \<Rightarrow> command_record) \<Rightarrow> command_table
       \<Rightarrow> command_error + command_table" where
  "update_rows task cid f t =
     (let t' = map (\<lambda>r. if cr_task_id r = task \<and> cr_command_id r = cid \<and> cr_status r = CmdExecuting
                       then f r else r) t in
      rbind (require (table_constraints t') SqlIntegrityError) (\<lambda>_. Inr t'))"

definition stored_command :: "crypto \<Rightarrow> command_table \<Rightarrow> string \<Rightarrow> command_error + command_record" where
  "stored_command C t cid =
     rbind (of_opt CommandNotFound (find (\<lambda>r. cr_command_id r = cid) t)) (incident_command C)"

section \<open>Operations\<close>

definition validate_claim :: "command_claim \<Rightarrow> command_error + unit" where
  "validate_claim a =
     rbind (require (strip (cl_command_id a) \<noteq> [] \<and> length (cl_command_id a) \<le> 160) BadCommandId) (\<lambda>_.
     rbind (require (strip (cl_task_id a) \<noteq> [] \<and> strip (cl_scope_key a) \<noteq> []
        \<and> length (cl_scope_key a) \<le> 240) BadTaskOrScope) (\<lambda>_.
     rbind (require (is_sha256 (cl_idempotency_key_sha256 a)) (NotSha256 ''idempotency_key_sha256'')) (\<lambda>_.
     rbind (require (is_sha256 (cl_request_sha256 a)) (NotSha256 ''request_sha256'')) (\<lambda>_.
     rbind (case cl_expected_case_sha256 a of None \<Rightarrow> Inr ()
            | Some d \<Rightarrow> require (is_sha256 d) (NotSha256 ''expected_case_sha256'')) (\<lambda>_.
     if cl_operation a = CreateCase
     then require (cl_expected_case_sha256 a = None) CreateBindsDigest
     else require (cl_expected_case_sha256 a \<noteq> None) (DigestRequired (cl_operation a)))))))"

definition new_row :: "crypto \<Rightarrow> string \<Rightarrow> command_claim \<Rightarrow> command_record" where
  "new_row C now a =
     \<lparr>cr_command_id = cl_command_id a, cr_task_id = cl_task_id a, cr_scope_key = cl_scope_key a,
      cr_operation = cl_operation a, cr_actor_user_id = cl_actor_user_id a,
      cr_idempotency_key_sha256 = cl_idempotency_key_sha256 a, cr_request_sha256 = cl_request_sha256 a,
      cr_expected_case_sha256 = cl_expected_case_sha256 a,
      cr_admission_sha256 = incident_command_admission_sha256 C a, cr_status = CmdExecuting,
      cr_resource_type = None, cr_resource_id = None, cr_resource_sha256 = None,
      cr_error_code = None, cr_error_message = None, cr_created_at = now, cr_updated_at = now,
      cr_completed_at = None\<rparr>"

definition claim_incident_command ::
    "crypto \<Rightarrow> tenancy \<Rightarrow> string \<Rightarrow> command_claim \<Rightarrow> command_table
       \<Rightarrow> command_error + (command_record \<times> bool) \<times> command_table" where
  "claim_incident_command C tn now a t =
     rbind (validate_claim a) (\<lambda>_.
     rbind (enter_task tn (cl_task_id a) (cl_actor_user_id a)) (\<lambda>_.
     (case find (\<lambda>r. cr_command_id r = cl_command_id a) t of
        Some r \<Rightarrow>
          rbind (incident_command C r) (\<lambda>existing.
          if cr_admission_sha256 existing = incident_command_admission_sha256 C a
          then Inr ((existing, False), t) else Inl CommandIdBound)
      | None \<Rightarrow>
          rbind (require (find (\<lambda>r. idempotency_key r = (cl_task_id a, cl_scope_key a, cl_operation a,
              cl_actor_user_id a, cl_idempotency_key_sha256 a)) t = None) IdempotencyKeyBound) (\<lambda>_.
          rbind (require (cl_operation a = CreateCase
             \<or> find (\<lambda>r. cr_task_id r = cl_task_id a \<and> cr_scope_key r = cl_scope_key a
                  \<and> cr_operation r = cl_operation a
                  \<and> cr_expected_case_sha256 r = cl_expected_case_sha256 a
                  \<and> cr_status r \<in> {CmdExecuting, CmdCompleted, CmdUncertain}) t = None)
             ScopeOccupied) (\<lambda>_.
          rbind (insert_row (new_row C now a) t) (\<lambda>t'.
          rbind (stored_command C t' (cl_command_id a)) (\<lambda>stored.
          Inr ((stored, True), t'))))))))"

definition find_command :: "command_table \<Rightarrow> string \<Rightarrow> string \<Rightarrow> command_error + command_record" where
  "find_command t task cid =
     of_opt CommandNotFound (find (\<lambda>r. cr_task_id r = task \<and> cr_command_id r = cid) t)"

definition get_incident_command ::
    "crypto \<Rightarrow> tenancy \<Rightarrow> string \<Rightarrow> string \<Rightarrow> string \<Rightarrow> command_table
       \<Rightarrow> command_error + command_record" where
  "get_incident_command C tn actor task cid t =
     rbind (enter_task tn task actor) (\<lambda>_.
     rbind (find_command t task cid) (incident_command C))"

text \<open>
  The first completed command bound to a case, in the order \<open>completed_at, command_id\<close>, provided all agree
  on the digest.
\<close>

definition get_completed_incident_case_binding ::
    "crypto \<Rightarrow> tenancy \<Rightarrow> string \<Rightarrow> string \<Rightarrow> string \<Rightarrow> command_table
       \<Rightarrow> command_error + command_record option" where
  "get_completed_incident_case_binding C tn actor task case_id t =
     rbind (enter_task tn task actor) (\<lambda>_.
     (let rows = sort_key (\<lambda>r. (case cr_completed_at r of None \<Rightarrow> [] | Some d \<Rightarrow> d, cr_command_id r))
          (filter (\<lambda>r. cr_task_id r = task \<and> cr_status r = CmdCompleted
             \<and> cr_resource_type r = Some ''incident_case'' \<and> cr_resource_id r = Some case_id) t) in
      if rows = [] then Inr None
      else rbind (rmap (incident_command C) rows) (\<lambda>records.
        rbind (require (length (remdups (map cr_resource_sha256 records)) = 1)
          ResourceDigestsDisagree) (\<lambda>_. Inr (Some (hd records))))))"

record command_outcome =
  oc_status :: command_status
  oc_resource_type :: "string option"
  oc_resource_id :: "string option"
  oc_resource_sha256 :: "string option"
  oc_error_code :: "string option"
  oc_error_message :: "string option"

definition outcome_of :: "command_record \<Rightarrow> command_outcome" where
  "outcome_of r = \<lparr>oc_status = cr_status r, oc_resource_type = cr_resource_type r,
     oc_resource_id = cr_resource_id r, oc_resource_sha256 = cr_resource_sha256 r,
     oc_error_code = cr_error_code r, oc_error_message = cr_error_message r\<rparr>"

definition validate_outcome :: "command_outcome \<Rightarrow> command_error + unit" where
  "validate_outcome oc =
     (let resources = [oc_resource_type oc, oc_resource_id oc, oc_resource_sha256 oc] in
      rbind (require (oc_status oc \<in> {CmdCompleted, CmdRejected}) BadFinishStatus) (\<lambda>_.
      if oc_status oc = CmdCompleted
      then rbind (require (list_all opt_truthy resources \<and> oc_error_code oc = None
             \<and> oc_error_message oc = None) CompletedFields) (\<lambda>_.
           require (case oc_resource_sha256 oc of None \<Rightarrow> False | Some d \<Rightarrow> is_sha256 d)
             (NotSha256 ''resource_sha256''))
      else require (list_all (\<lambda>v. v = None) resources \<and> opt_truthy (oc_error_code oc)) RejectedFields))"

definition set_outcome :: "string \<Rightarrow> command_outcome \<Rightarrow> command_record \<Rightarrow> command_record" where
  "set_outcome now oc r = r\<lparr>cr_status := oc_status oc, cr_resource_type := oc_resource_type oc,
     cr_resource_id := oc_resource_id oc, cr_resource_sha256 := oc_resource_sha256 oc,
     cr_error_code := oc_error_code oc, cr_error_message := oc_error_message oc,
     cr_updated_at := now, cr_completed_at := Some now\<rparr>"

definition finish_incident_command ::
    "crypto \<Rightarrow> tenancy \<Rightarrow> string \<Rightarrow> string \<Rightarrow> string \<Rightarrow> string \<Rightarrow> command_outcome \<Rightarrow> command_table
       \<Rightarrow> command_error + command_record \<times> command_table" where
  "finish_incident_command C tn now actor task cid oc t =
     rbind (validate_outcome oc) (\<lambda>_.
     rbind (enter_task tn task actor) (\<lambda>_.
     rbind (find_command t task cid) (\<lambda>row.
     rbind (incident_command C row) (\<lambda>existing.
     if cr_status existing \<noteq> CmdExecuting
     then (if outcome_of existing = oc then Inr (existing, t) else Inl OtherTerminalOutcome)
     else rbind (update_rows task cid (set_outcome now oc) t) (\<lambda>t'.
       rbind (stored_command C t' cid) (\<lambda>stored. Inr (stored, t')))))))"

definition mark_incident_command_uncertain ::
    "crypto \<Rightarrow> tenancy \<Rightarrow> string \<Rightarrow> string \<Rightarrow> string \<Rightarrow> string \<Rightarrow> string \<Rightarrow> string option \<Rightarrow> command_table
       \<Rightarrow> command_error + command_record \<times> command_table" where
  "mark_incident_command_uncertain C tn now actor task cid code message t =
     rbind (require (strip code \<noteq> []) UncertainNeedsCode) (\<lambda>_.
     rbind (enter_task tn task actor) (\<lambda>_.
     rbind (find_command t task cid) (\<lambda>row.
     rbind (incident_command C row) (\<lambda>existing.
     if cr_status existing \<noteq> CmdExecuting
     then (if cr_status existing = CmdUncertain \<and> cr_error_code existing = Some code
              \<and> cr_error_message existing = message
           then Inr (existing, t) else Inl NotUncertain)
     else rbind (update_rows task cid (\<lambda>r. r\<lparr>cr_status := CmdUncertain, cr_error_code := Some code,
              cr_error_message := message, cr_updated_at := now, cr_completed_at := Some now\<rparr>) t) (\<lambda>t'.
       rbind (stored_command C t' cid) (\<lambda>stored. Inr (stored, t')))))))"

text \<open>The operations as commands of one store.\<close>

datatype command_op =
    ClaimOp string command_claim
  | FinishOp string string string string command_outcome
  | UncertainOp string string string string string "string option"

fun exec_command ::
    "crypto \<Rightarrow> tenancy \<Rightarrow> command_op \<Rightarrow> command_table
       \<Rightarrow> command_error + (command_record \<times> bool) \<times> command_table" where
  "exec_command C tn (ClaimOp now a) t = claim_incident_command C tn now a t"
| "exec_command C tn (FinishOp now actor task cid oc) t =
     rbind (finish_incident_command C tn now actor task cid oc t) (\<lambda>(r, t'). Inr ((r, False), t'))"
| "exec_command C tn (UncertainOp now actor task cid code message) t =
     rbind (mark_incident_command_uncertain C tn now actor task cid code message t)
       (\<lambda>(r, t'). Inr ((r, False), t'))"

section \<open>Invariant\<close>

definition command_table_ok :: "crypto \<Rightarrow> command_table \<Rightarrow> bool" where
  "command_table_ok C t \<longleftrightarrow> table_constraints t
     \<and> (\<forall>r\<in>set t. incident_command C r = Inr r
          \<and> (cr_operation r = CreateCase \<longleftrightarrow> cr_expected_case_sha256 r = None))"

lemma incident_command_Inr: "incident_command C r = Inr r' \<Longrightarrow> r' = r"
  by (auto simp: incident_command_def Let_def)

lemma new_row_ok: "incident_command C (new_row C now a) = Inr (new_row C now a)"
proof -
  have "claim_of (new_row C now a) = a" by (cases a) (simp add: claim_of_def new_row_def)
  then show ?thesis by (simp add: incident_command_def Let_def) (simp add: new_row_def)
qed

lemma set_outcome_ok:
  assumes "validate_outcome oc = Inr ()" and "incident_command C r = Inr r"
  shows "incident_command C (set_outcome now oc r) = Inr (set_outcome now oc r)"
proof -
  have "claim_of (set_outcome now oc r) = claim_of r" by (simp add: claim_of_def set_outcome_def)
  then show ?thesis using assms
    by (cases "oc_status oc")
       (auto simp: incident_command_def validate_outcome_def Let_def set_outcome_def split: if_splits)
qed

definition uncertain_row :: "string \<Rightarrow> string \<Rightarrow> string option \<Rightarrow> command_record \<Rightarrow> command_record" where
  "uncertain_row now code message r = r\<lparr>cr_status := CmdUncertain, cr_error_code := Some code,
     cr_error_message := message, cr_updated_at := now, cr_completed_at := Some now\<rparr>"

lemma uncertain_row_ok:
  assumes "strip code \<noteq> []" and "incident_command C r = Inr r" and "cr_status r = CmdExecuting"
  shows "incident_command C (uncertain_row now code message r) = Inr (uncertain_row now code message r)"
proof -
  have "claim_of (uncertain_row now code message r) = claim_of r" by (simp add: claim_of_def uncertain_row_def)
  moreover have "code \<noteq> []" using assms(1) by (auto simp: strip_def)
  ultimately show ?thesis using assms(2,3)
    by (auto simp: incident_command_def Let_def uncertain_row_def opt_truthy_def)
qed

lemma update_rows_Inr:
  assumes "update_rows task cid f t = Inr t'"
  shows "table_constraints t'" and "t' = map (\<lambda>r. if cr_task_id r = task \<and> cr_command_id r = cid
      \<and> cr_status r = CmdExecuting then f r else r) t"
  using assms by (auto simp: update_rows_def Let_def)

lemma update_rows_ok:
  assumes "update_rows task cid f t = Inr t'" and "command_table_ok C t"
    and "\<And>r. r \<in> set t \<Longrightarrow> cr_status r = CmdExecuting \<Longrightarrow> incident_command C r = Inr r \<Longrightarrow>
           incident_command C (f r) = Inr (f r)"
    and "\<And>r. claim_of (f r) = claim_of r"
  shows "command_table_ok C t'"
proof -
  have "cr_operation (f r) = cr_operation r" "cr_expected_case_sha256 (f r) = cr_expected_case_sha256 r" for r
    using assms(4)[of r] by (simp_all add: claim_of_def)
  then show ?thesis using assms(2,3) update_rows_Inr[OF assms(1)] by (auto simp: command_table_ok_def)
qed

lemma settled_claims:
  "claim_of (set_outcome now oc r) = claim_of r" "claim_of (uncertain_row now code message r) = claim_of r"
  by (simp_all add: claim_of_def set_outcome_def uncertain_row_def)

lemma new_row_scope:
  "validate_claim a = Inr () \<Longrightarrow>
     cr_operation (new_row C now a) = CreateCase \<longleftrightarrow> cr_expected_case_sha256 (new_row C now a) = None"
  by (auto simp: validate_claim_def new_row_def split: if_splits)

lemma exec_command_keeps_ok:
  assumes "command_table_ok C t" and "exec_command C tn op1 t = Inr (x, t')"
  shows "command_table_ok C t'"
proof (cases op1)
  case (ClaimOp now a)
  then show ?thesis using assms new_row_ok[of C now a] new_row_scope[of a C now]
    by (auto simp: claim_incident_command_def insert_row_def command_table_ok_def split: option.splits if_splits)
next
  case (FinishOp now actor task cid oc)
  then have f: "finish_incident_command C tn now actor task cid oc t = Inr (fst x, t')"
    using assms(2) by (auto split: prod.splits)
  show ?thesis
  proof (cases "t' = t")
    case False
    then have "validate_outcome oc = Inr ()" "update_rows task cid (set_outcome now oc) t = Inr t'"
      using f by (auto simp: finish_incident_command_def split: if_splits)
    from update_rows_ok[OF this(2) assms(1)] this(1) show ?thesis
      using set_outcome_ok settled_claims(1) by blast
  qed (use assms(1) in simp)
next
  case (UncertainOp now actor task cid code message)
  then have f: "mark_incident_command_uncertain C tn now actor task cid code message t = Inr (fst x, t')"
    using assms(2) by (auto split: prod.splits)
  show ?thesis
  proof (cases "t' = t")
    case False
    then have "strip code \<noteq> []" "update_rows task cid (uncertain_row now code message) t = Inr t'"
      using f by (auto simp: mark_incident_command_uncertain_def uncertain_row_def[abs_def] split: if_splits)
    from update_rows_ok[OF this(2) assms(1)] this(1) show ?thesis
      using uncertain_row_ok settled_claims(2) by blast
  qed (use assms(1) in simp)
qed

interpretation cst: guarded_store "exec_command C tn" "command_table_ok C" for C tn
proof
  fix t and c :: command_op and r :: "command_record \<times> bool" and t'
  assume "command_table_ok C t" "exec_command C tn c t = Inr (r, t')"
  then show "command_table_ok C t'" by (rule exec_command_keeps_ok)
qed

text \<open>The history of a store: a list of operations applied in order, refused ones having no effect.\<close>

abbreviation run_commands :: "crypto \<Rightarrow> tenancy \<Rightarrow> command_op list \<Rightarrow> command_table \<Rightarrow> command_table" where
  "run_commands C tn ops t \<equiv> guarded_store.run (exec_command C tn) ops t"

lemma empty_table_ok: "command_table_ok C []"
  by (simp add: command_table_ok_def table_constraints_def)

section \<open>Effects of one operation\<close>

text \<open>Every successful operation returns, appends one row, or rewrites one executing row.\<close>

definition settles :: "command_record \<Rightarrow> command_record \<Rightarrow> bool" where
  "settles r r' \<longleftrightarrow> cr_status r = CmdExecuting \<and> cr_status r' \<noteq> CmdExecuting \<and> claim_of r' = claim_of r
     \<and> cr_admission_sha256 r' = cr_admission_sha256 r \<and> cr_created_at r' = cr_created_at r"

lemma update_rows_evolves:
  assumes "update_rows task cid f t = Inr t'"
    and "\<And>r. cr_status r = CmdExecuting \<Longrightarrow> settles r (f r)"
  shows "list_all2 (\<lambda>r r'. r' = r \<or> settles r r') t t'"
  using update_rows_Inr(2)[OF assms(1)] assms(2) by (auto simp: list_all2_map2 list_all2_same)

lemma exec_command_evolves:
  assumes "exec_command C tn op1 t = Inr (x, t')"
  shows "(\<exists>now a. op1 = ClaimOp now a \<and> t' = t @ [new_row C now a])
      \<or> list_all2 (\<lambda>r r'. r' = r \<or> settles r r') t t'"
proof (cases op1)
  case (ClaimOp now a)
  then show ?thesis using assms
    by (auto simp: claim_incident_command_def insert_row_def list_all2_same split: option.splits if_splits)
next
  case (FinishOp now actor task cid oc)
  then have f: "finish_incident_command C tn now actor task cid oc t = Inr (fst x, t')"
    using assms by (auto split: prod.splits)
  show ?thesis
  proof (cases "t' = t")
    case False
    then have v: "validate_outcome oc = Inr ()" and u: "update_rows task cid (set_outcome now oc) t = Inr t'"
      using f by (auto simp: finish_incident_command_def split: if_splits)
    have "oc_status oc \<noteq> CmdExecuting" using v by (auto simp: validate_outcome_def Let_def)
    then have "settles r (set_outcome now oc r)" if "cr_status r = CmdExecuting" for r
      using that by (simp add: settles_def set_outcome_def claim_of_def)
    then show ?thesis using update_rows_evolves[OF u] by blast
  qed (simp add: list_all2_same)
next
  case (UncertainOp now actor task cid code message)
  then have f: "mark_incident_command_uncertain C tn now actor task cid code message t = Inr (fst x, t')"
    using assms by (auto split: prod.splits)
  show ?thesis
  proof (cases "t' = t")
    case False
    then have u: "update_rows task cid (uncertain_row now code message) t = Inr t'"
      using f by (auto simp: mark_incident_command_uncertain_def uncertain_row_def[abs_def] split: if_splits)
    have "settles r (uncertain_row now code message r)" if "cr_status r = CmdExecuting" for r
      using that by (simp add: settles_def uncertain_row_def claim_of_def)
    then show ?thesis using update_rows_evolves[OF u] by blast
  qed (simp add: list_all2_same)
qed

lemma exec_keeps_terminal:
  assumes "exec_command C tn op1 t = Inr (x, t')" and "r \<in> set t" and "cr_status r \<noteq> CmdExecuting"
  shows "r \<in> set t'"
  using exec_command_evolves[OF assms(1)]
proof
  assume "list_all2 (\<lambda>r r'. r' = r \<or> settles r r') t t'"
  then show ?thesis using assms(2,3)
    by (auto simp: list_all2_conv_all_nth in_set_conv_nth settles_def)
qed (use assms(2) in auto)

lemma exec_keeps_claim:
  assumes "exec_command C tn op1 t = Inr (x, t')" and "r \<in> set t"
  shows "\<exists>r'\<in>set t'. claim_of r' = claim_of r \<and> cr_admission_sha256 r' = cr_admission_sha256 r"
  using exec_command_evolves[OF assms(1)]
proof
  assume "list_all2 (\<lambda>r r'. r' = r \<or> settles r r') t t'"
  then obtain r' where "r' \<in> set t'" "r' = r \<or> settles r r'"
    using assms(2) by (auto simp: list_all2_conv_all_nth in_set_conv_nth) metis
  then show ?thesis by (auto simp: settles_def)
qed (use assms(2) in auto)

section \<open>The constraints are never hit\<close>

lemma distinct_map_filter_weaken:
  assumes "\<And>x. x \<in> set xs \<Longrightarrow> P (f x) \<Longrightarrow> P x" and "\<And>x. x \<in> set xs \<Longrightarrow> g (f x) = g x"
    and "distinct (map g (filter P xs))"
  shows "distinct (map g (filter P (map f xs)))"
  using assms
proof (induction xs)
  case (Cons x xs)
  have sub: "g ` {y \<in> set (map f xs). P y} \<subseteq> g ` {y \<in> set xs. P y}"
    using Cons.prems(1,2) by (auto simp: image_iff)
  have IH: "distinct (map g (filter P (map f xs)))"
    by (rule Cons.IH) (use Cons.prems in \<open>auto split: if_splits\<close>)
  show ?case
  proof (cases "P (f x)")
    case True
    then have "P x" "g (f x) = g x" using Cons.prems(1,2) by auto
    moreover from this(1) have "g x \<notin> g ` {y \<in> set xs. P y}" using Cons.prems(3) by auto
    ultimately have "g (f x) \<notin> g ` {y \<in> set (map f xs). P y}" using sub by auto
    then show ?thesis using IH True by simp
  next
    case False
    then show ?thesis using IH by simp
  qed
qed simp

lemma claim_of_keys:
  "claim_of r' = claim_of r \<Longrightarrow> cr_command_id r' = cr_command_id r \<and> idempotency_key r' = idempotency_key r
     \<and> effect_scope r' = effect_scope r \<and> cr_operation r' = cr_operation r
     \<and> cr_expected_case_sha256 r' = cr_expected_case_sha256 r"
  by (simp add: claim_of_def idempotency_key_def effect_scope_def)

lemma update_rows_never_conflicts:
  assumes "table_constraints t" and "\<And>r. claim_of (f r) = claim_of r"
  shows "update_rows task cid f t \<noteq> Inl e"
proof -
  let ?f = "\<lambda>r. if cr_task_id r = task \<and> cr_command_id r = cid \<and> cr_status r = CmdExecuting then f r else r"
  have c: "claim_of (?f r) = claim_of r" for r using assms(2) by simp
  note k = claim_of_keys[OF c]
  have own: "owns_scope r \<and> cr_expected_case_sha256 r \<noteq> None"
    if "owns_scope (?f r) \<and> cr_expected_case_sha256 (?f r) \<noteq> None" for r
    using that k[of r] by (auto simp: owns_scope_def split: if_splits)
  have "table_constraints (map ?f t)"
    unfolding table_constraints_def
  proof (intro conjI)
    show "distinct (map cr_command_id (map ?f t))" "distinct (map idempotency_key (map ?f t))"
      using assms(1) k by (simp_all add: table_constraints_def comp_def)
    show "distinct (map effect_scope (filter (\<lambda>r. owns_scope r \<and> cr_expected_case_sha256 r \<noteq> None) (map ?f t)))"
    proof (rule distinct_map_filter_weaken)
      show "distinct (map effect_scope (filter (\<lambda>r. owns_scope r \<and> cr_expected_case_sha256 r \<noteq> None) t))"
        using assms(1) by (simp add: table_constraints_def)
    qed (use own k in blast)+
  qed
  then show ?thesis by (simp add: update_rows_def Let_def)
qed

lemma insert_row_never_conflicts:
  assumes ok: "table_constraints t" and v: "validate_claim a = Inr ()"
    and i: "find (\<lambda>r. cr_command_id r = cl_command_id a) t = None"
    and k: "find (\<lambda>r. idempotency_key r = (cl_task_id a, cl_scope_key a, cl_operation a,
              cl_actor_user_id a, cl_idempotency_key_sha256 a)) t = None"
    and s: "cl_operation a = CreateCase
             \<or> find (\<lambda>r. cr_task_id r = cl_task_id a \<and> cr_scope_key r = cl_scope_key a
                  \<and> cr_operation r = cl_operation a
                  \<and> cr_expected_case_sha256 r = cl_expected_case_sha256 a
                  \<and> cr_status r \<in> {CmdExecuting, CmdCompleted, CmdUncertain}) t = None"
  shows "table_constraints (t @ [new_row C now a])"
proof -
  let ?n = "new_row C now a"
  have n: "cr_command_id ?n = cl_command_id a" "idempotency_key ?n = (cl_task_id a, cl_scope_key a, cl_operation a,
      cl_actor_user_id a, cl_idempotency_key_sha256 a)"
    "effect_scope ?n = (cl_task_id a, cl_scope_key a, cl_operation a, cl_expected_case_sha256 a)"
    "owns_scope ?n \<longleftrightarrow> cl_operation a \<noteq> CreateCase"
    by (cases "cl_operation a"; simp add: new_row_def idempotency_key_def effect_scope_def owns_scope_def)+
  have "effect_scope ?n \<notin> effect_scope ` {r \<in> set t. owns_scope r \<and> cr_expected_case_sha256 r \<noteq> None}"
    if "cl_operation a \<noteq> CreateCase"
    using s that by (auto simp: n(3) find_None_iff effect_scope_def owns_scope_def new_row_def)
  then show ?thesis
    using ok i k by (auto simp: table_constraints_def n(1,2,4) find_None_iff)
qed

lemma find_append_new:
  "find (\<lambda>r. cr_command_id r = cl_command_id a) t = None \<Longrightarrow>
   find (\<lambda>r. cr_command_id r = cl_command_id a) (t @ [new_row C now a]) = Some (new_row C now a)"
  by (induction t) (auto simp: new_row_def split: if_splits)

lemma distinct_map_filter_eq:
  "distinct (map g (filter P xs)) \<Longrightarrow> x \<in> set xs \<Longrightarrow> y \<in> set xs \<Longrightarrow> P x \<Longrightarrow> P y \<Longrightarrow> g x = g y \<Longrightarrow> x = y"
  by (auto simp: distinct_map inj_on_def)

lemma find_distinct:
  "distinct (map f xs) \<Longrightarrow> x \<in> set xs \<Longrightarrow> find (\<lambda>r. f r = f x) xs = Some x"
  by (induction xs) (auto simp: image_iff)

text \<open>A small store for evaluated examples.\<close>

definition demo_tenancy :: tenancy where
  "demo_tenancy = \<lparr>tn_task_workspace = [(''task1'', ''ws1'')], tn_members = [(''ws1'', ''ana'')],
     tn_identity_enabled = True, tn_credential_status = [(''ana'', ''ACTIVE'')]\<rparr>"

definition demo_claim :: "string \<Rightarrow> command_claim" where
  "demo_claim cid = \<lparr>cl_actor_user_id = ''ana'', cl_command_id = cid, cl_task_id = ''task1'',
     cl_scope_key = ''case1'', cl_operation = RecordDecision, cl_idempotency_key_sha256 = zero_sha,
     cl_request_sha256 = zero_sha, cl_expected_case_sha256 = Some zero_sha\<rparr>"

definition demo_rejection :: command_outcome where
  "demo_rejection = \<lparr>oc_status = CmdRejected, oc_resource_type = None, oc_resource_id = None,
     oc_resource_sha256 = None, oc_error_code = Some ''stale'', oc_error_message = None\<rparr>"

definition demo_rejected :: command_record where
  "demo_rejected = set_outcome ''t1'' demo_rejection (new_row toy_crypto ''t0'' (demo_claim ''c1''))"

lemma demo_claims:
  "claim_incident_command toy_crypto demo_tenancy ''t0'' (demo_claim ''c1'') []
     = Inr ((new_row toy_crypto ''t0'' (demo_claim ''c1''), True), [new_row toy_crypto ''t0'' (demo_claim ''c1'')])"
  "claim_incident_command toy_crypto demo_tenancy ''t0'' (demo_claim ''c2'')
     [new_row toy_crypto ''t0'' (demo_claim ''c1'')] = Inl IdempotencyKeyBound"
  by code_simp+

lemma demo_rejected_ok: "command_table_ok toy_crypto [demo_rejected]"
proof -
  have "incident_command toy_crypto demo_rejected = Inr demo_rejected" by code_simp
  moreover have "cr_operation demo_rejected = RecordDecision" "cr_expected_case_sha256 demo_rejected = Some zero_sha"
    by code_simp+
  ultimately show ?thesis by (simp add: command_table_ok_def table_constraints_def)
qed

section \<open>Properties\<close>

text \<open>On a table that satisfies the invariant no operation ever runs into a UNIQUE constraint: the guards made
  inside the transaction are as strong as the primary key, the idempotency key and the effect-scope index.\<close>

theorem admission_never_hits_constraint:
  assumes "command_table_ok C t"
  shows "claim_incident_command C tn now a t \<noteq> Inl SqlIntegrityError
    \<and> finish_incident_command C tn now actor task cid oc t \<noteq> Inl SqlIntegrityError
    \<and> mark_incident_command_uncertain C tn now actor task cid code message t \<noteq> Inl SqlIntegrityError"
proof (intro conjI)
  have ok: "table_constraints t"
    using assms by (simp add: command_table_ok_def)
  have e: "validate_claim a \<noteq> Inl SqlIntegrityError" "enter_task tn x y \<noteq> Inl SqlIntegrityError"
    "incident_command C r \<noteq> Inl SqlIntegrityError" "find_command t task cid \<noteq> Inl SqlIntegrityError"
    "validate_outcome oc \<noteq> Inl SqlIntegrityError" "stored_command C t' cid' \<noteq> Inl SqlIntegrityError" for x y r t' cid'
    by (auto simp: validate_claim_def enter_task_def require_membership_def assert_active_def rbind_eq_Inl
        incident_command_def Let_def find_command_def validate_outcome_def stored_command_def
        split: option.splits if_splits command_status.splits)
  show "claim_incident_command C tn now a t \<noteq> Inl SqlIntegrityError"
  proof
    assume c: "claim_incident_command C tn now a t = Inl SqlIntegrityError"
    then have "validate_claim a = Inr ()" "find (\<lambda>r. cr_command_id r = cl_command_id a) t = None"
      and "find (\<lambda>r. idempotency_key r = (cl_task_id a, cl_scope_key a, cl_operation a,
              cl_actor_user_id a, cl_idempotency_key_sha256 a)) t = None"
      and "cl_operation a = CreateCase
             \<or> find (\<lambda>r. cr_task_id r = cl_task_id a \<and> cr_scope_key r = cl_scope_key a
                  \<and> cr_operation r = cl_operation a
                  \<and> cr_expected_case_sha256 r = cl_expected_case_sha256 a
                  \<and> cr_status r \<in> {CmdExecuting, CmdCompleted, CmdUncertain}) t = None"
      and i: "insert_row (new_row C now a) t = Inl SqlIntegrityError"
      using e by (auto simp: claim_incident_command_def rbind_eq_Inl split: option.splits if_splits)
    from insert_row_never_conflicts[OF ok this(1-4)] i show False
      by (simp add: insert_row_def)
  qed
  show "finish_incident_command C tn now actor task cid oc t \<noteq> Inl SqlIntegrityError"
    using update_rows_never_conflicts[OF ok, of "set_outcome now oc", OF settled_claims(1)] e
    by (auto simp: finish_incident_command_def rbind_eq_Inl split: if_splits)
  show "mark_incident_command_uncertain C tn now actor task cid code message t \<noteq> Inl SqlIntegrityError"
    using update_rows_never_conflicts[OF ok, of "uncertain_row now code message", OF settled_claims(2)] e
    by (auto simp: mark_incident_command_uncertain_def uncertain_row_def[abs_def] rbind_eq_Inl split: if_splits)
qed

text \<open>C11: after any history of operations, at most one command that was not rejected owns a decision or resume scope
  (task, scope, operation, expected case digest).\<close>

theorem one_writer_per_scope:
  assumes "t = run_commands C tn ops []" and "r \<in> set t" and "s \<in> set t"
    and "cr_operation r \<noteq> CreateCase" and "cr_status r \<noteq> CmdRejected" and "cr_status s \<noteq> CmdRejected"
    and "effect_scope r = effect_scope s"
  shows "r = s"
proof -
  have ok: "command_table_ok C t"
    unfolding assms(1) by (rule cst.run_inv[OF empty_table_ok])
  have op: "cr_operation s = cr_operation r" "cr_expected_case_sha256 s = cr_expected_case_sha256 r"
    using assms(7) by (simp_all add: effect_scope_def)
  have "owns_scope r \<and> cr_expected_case_sha256 r \<noteq> None" "owns_scope s \<and> cr_expected_case_sha256 s \<noteq> None"
    using ok assms(2-6) op unfolding owns_scope_def command_table_ok_def
    by (cases "cr_operation r"; cases "cr_status r"; cases "cr_status s"; auto)+
  then show ?thesis
    using distinct_map_filter_eq[of effect_scope _ t r s] ok assms(2,3,7)
    by (auto simp: command_table_ok_def table_constraints_def)
qed

text \<open>A completed, rejected or uncertain command is never changed again, whatever operations follow.\<close>

theorem terminal_outcomes_are_final:
  assumes "command_table_ok C t" and "r \<in> set t" and "cr_status r \<noteq> CmdExecuting"
  shows "r \<in> set (run_commands C tn ops t)"
  by (rule cst.run_preserves[where P = "\<lambda>t. r \<in> set t"])
     (use assms exec_keeps_terminal in auto)

text \<open>C35: once an admission has been accepted, repeating it after any further history returns the same admission as not fresh
  and changes nothing.\<close>

theorem admission_replay_is_idempotent:
  assumes ok: "command_table_ok C t" and c: "claim_incident_command C tn now a t = Inr ((r, fresh), t1)"
  shows "\<exists>r'. claim_incident_command C tn now' a (run_commands C tn ops t1)
      = Inr ((r', False), run_commands C tn ops t1)
    \<and> claim_of r' = claim_of r \<and> cr_admission_sha256 r' = incident_command_admission_sha256 C a"
proof -
  have v: "validate_claim a = Inr ()" "enter_task tn (cl_task_id a) (cl_actor_user_id a) = Inr ()"
    using c by (auto simp: claim_incident_command_def)
  have ok1: "command_table_ok C t1"
    using exec_command_keeps_ok[of C t tn "ClaimOp now a"] ok c by simp
  have r: "r \<in> set t1" "cr_command_id r = cl_command_id a"
    "cr_admission_sha256 r = incident_command_admission_sha256 C a"
  proof -
    consider (old) x where "find (\<lambda>r. cr_command_id r = cl_command_id a) t = Some x" "incident_command C x = Inr r"
        "cr_admission_sha256 r = incident_command_admission_sha256 C a" "t1 = t"
      | (new) "find (\<lambda>r. cr_command_id r = cl_command_id a) t = None" "t1 = t @ [new_row C now a]"
        "stored_command C t1 (cl_command_id a) = Inr r"
      using c by (auto simp: claim_incident_command_def insert_row_def split: option.splits if_splits)
    then have "r \<in> set t1 \<and> cr_command_id r = cl_command_id a
        \<and> cr_admission_sha256 r = incident_command_admission_sha256 C a"
    proof cases
      case old
      then show ?thesis using incident_command_Inr[OF old(2)] by (auto simp: find_Some_iff)
    next
      case new
      then show ?thesis using find_append_new[OF new(1)]
        by (auto simp: stored_command_def new_row_def dest: incident_command_Inr)
    qed
    then show "r \<in> set t1" "cr_command_id r = cl_command_id a"
      "cr_admission_sha256 r = incident_command_admission_sha256 C a" by auto
  qed
  let ?t = "run_commands C tn ops t1"
  have okt: "command_table_ok C ?t" by (rule cst.run_inv[OF ok1])
  have "\<exists>r'\<in>set ?t. claim_of r' = claim_of r \<and> cr_admission_sha256 r' = cr_admission_sha256 r"
  proof (rule cst.run_preserves[where P = "\<lambda>t. \<exists>r'\<in>set t. claim_of r' = claim_of r
      \<and> cr_admission_sha256 r' = cr_admission_sha256 r"])
    fix u and op1 x u'
    assume "\<exists>r'\<in>set u. claim_of r' = claim_of r \<and> cr_admission_sha256 r' = cr_admission_sha256 r"
      and e: "exec_command C tn op1 u = Inr (x, u')"
    then show "\<exists>r'\<in>set u'. claim_of r' = claim_of r \<and> cr_admission_sha256 r' = cr_admission_sha256 r"
      using exec_keeps_claim[OF e] by metis
  qed (use ok1 r(1) in auto)
  then obtain r' where r': "r' \<in> set ?t" "claim_of r' = claim_of r" "cr_admission_sha256 r' = cr_admission_sha256 r"
    by blast
  have id: "cr_command_id r' = cl_command_id a" using claim_of_keys[OF r'(2)] r(2) by simp
  have "find (\<lambda>x. cr_command_id x = cl_command_id a) ?t = Some r'"
    using find_distinct[of cr_command_id ?t r'] r'(1) okt id
    by (simp add: command_table_ok_def table_constraints_def)
  moreover have "incident_command C r' = Inr r'" using okt r'(1) by (simp add: command_table_ok_def)
  ultimately show ?thesis using v r'(2,3) r(3) by (simp add: claim_incident_command_def)
qed

definition demo_rival :: command_claim where
  "demo_rival = (demo_claim ''c2'')\<lparr>cl_idempotency_key_sha256 := replicate 64 (CHR ''1'')\<rparr>"

theorem one_writer_per_scope_witness:
  "\<exists>r. r \<in> set (run_commands toy_crypto demo_tenancy [ClaimOp ''t0'' (demo_claim ''c1''), ClaimOp ''t1'' demo_rival] [])
     \<and> r = new_row toy_crypto ''t0'' (demo_claim ''c1'')
     \<and> claim_incident_command toy_crypto demo_tenancy ''t1'' demo_rival [r] = Inl ScopeOccupied"
proof -
  let ?row = "new_row toy_crypto ''t0'' (demo_claim ''c1'')"
  have c: "claim_incident_command toy_crypto demo_tenancy ''t1'' demo_rival [?row] = Inl ScopeOccupied"
    by code_simp
  have t: "run_commands toy_crypto demo_tenancy [ClaimOp ''t0'' (demo_claim ''c1''), ClaimOp ''t1'' demo_rival] [] = [?row]"
    using c demo_claims(1) by (simp add: cst.run.simps)
  have "?row = ?row"
    by (rule one_writer_per_scope[OF t[symmetric]]) (simp_all add: new_row_def demo_claim_def)
  then show ?thesis using t c by auto
qed

theorem admission_replay_is_idempotent_witness:
  "\<exists>r' t. t = run_commands toy_crypto demo_tenancy
       [FinishOp ''t1'' ''ana'' ''task1'' ''c1'' demo_rejection] [new_row toy_crypto ''t0'' (demo_claim ''c1'')]
     \<and> claim_incident_command toy_crypto demo_tenancy ''t9'' (demo_claim ''c1'') t = Inr ((r', False), t)"
  using admission_replay_is_idempotent[OF empty_table_ok demo_claims(1)] by metis

end
