(* ===== verification/Command_Journal.thy ===== *)
theory Command_Journal
  imports Gate_Prelude
begin

text \<open>
  \<open>incident_commands.py\<close>: the durable admission and terminal receipts of an incident command and the receipt
  derived from them. The builders digest the values they were given; the models store them after
  stripping surrounding white space and render the time stamp as pydantic does. A time stamp is therefore
  kept as its UTC second and its microsecond.
\<close>

section \<open>Time stamps\<close>

record instant =
  in_second :: string
  in_micro :: nat

definition six_digits :: "nat \<Rightarrow> string" where
  "six_digits n = (let s = nat_str n in replicate (6 - length s) (CHR ''0'') @ s)"

text \<open>\<open>_normalize_json\<close>: \<open>isoformat(timespec="microseconds")\<close> with \<open>Z\<close>.\<close>

definition canonical_instant :: "instant \<Rightarrow> string" where
  "canonical_instant i = in_second i @ ''.'' @ six_digits (in_micro i) @ ''Z''"

text \<open>\<open>model_dump(mode="json")\<close>: the fraction is left out when it is zero.\<close>

definition dumped_instant :: "instant \<Rightarrow> string" where
  "dumped_instant i = (if in_micro i = 0 then in_second i @ ''Z'' else canonical_instant i)"

section \<open>Models\<close>

datatype command_kind = KindCreateCase | KindRecordDecision | KindResumeCase

datatype receipt_status = ReceiptCompleted | ReceiptRejected | ReceiptUncertain

datatype resource_kind = IncidentCase | IncidentDecision

fun command_kind_str :: "command_kind \<Rightarrow> string" where
  "command_kind_str KindCreateCase = ''CREATE_CASE''"
| "command_kind_str KindRecordDecision = ''RECORD_DECISION''"
| "command_kind_str KindResumeCase = ''RESUME_CASE''"

fun receipt_status_str :: "receipt_status \<Rightarrow> string" where
  "receipt_status_str ReceiptCompleted = ''COMPLETED''"
| "receipt_status_str ReceiptRejected = ''REJECTED''"
| "receipt_status_str ReceiptUncertain = ''UNCERTAIN''"

fun resource_kind_str :: "resource_kind \<Rightarrow> string" where
  "resource_kind_str IncidentCase = ''incident_case''"
| "resource_kind_str IncidentDecision = ''incident_decision''"

datatype journal_error =
    BlankKey | LongKey
  | JournalConstraint                \<comment> \<open>pydantic validation of a receipt\<close>
  | AdmissionSeal | TerminalSeal | TerminalBinding
  | CompletedNeedsResource | CompletedHasError | RejectedHasResource | RejectedNeedsError

record admission =
  ad_command_id :: string
  ad_operation :: command_kind
  ad_task_id :: string
  ad_target_case_id :: "string option"
  ad_actor_user_id :: string
  ad_idempotency_key_sha256 :: string
  ad_request_sha256 :: string
  ad_expected_case_sha256 :: "string option"
  ad_admitted_at :: instant
  ad_admission_sha256 :: string

record terminal =
  te_command_id :: string
  te_admission_sha256 :: string
  te_status :: receipt_status
  te_resource_kind :: "resource_kind option"
  te_resource_id :: "string option"
  te_resource_sha256 :: "string option"
  te_error_code :: "string option"
  te_error_message :: "string option"
  te_terminal_at :: instant
  te_terminal_sha256 :: string

record command_receipt =
  rc_command_id :: string
  rc_operation :: command_kind
  rc_task_id :: string
  rc_target_case_id :: "string option"
  rc_actor_user_id :: string
  rc_idempotency_key_sha256 :: string
  rc_request_sha256 :: string
  rc_expected_case_sha256 :: "string option"
  rc_receipt_status :: receipt_status
  rc_admission_sha256 :: string
  rc_terminal_sha256 :: "string option"
  rc_resource_kind :: "resource_kind option"
  rc_resource_id :: "string option"
  rc_resource_sha256 :: "string option"
  rc_error_code :: "string option"
  rc_error_message :: "string option"
  rc_admitted_at :: instant
  rc_terminal_at :: "instant option"

definition hex_suffix :: "string \<Rightarrow> nat \<Rightarrow> string \<Rightarrow> bool" where
  "hex_suffix pre n s \<longleftrightarrow> take (length pre) s = pre \<and> length s = length pre + n
     \<and> list_all is_hex (drop (length pre) s)"

definition bounded :: "nat \<Rightarrow> string \<Rightarrow> bool" where
  "bounded n s \<longleftrightarrow> 1 \<le> length s \<and> length s \<le> n"

definition opt_ok :: "('a \<Rightarrow> bool) \<Rightarrow> 'a option \<Rightarrow> bool" where
  "opt_ok P m = (case m of None \<Rightarrow> True | Some x \<Rightarrow> P x)"

text \<open>\<open>IncidentCommandAdmission(...)\<close>: strip, then check the field constraints.\<close>

definition make_admission :: "admission \<Rightarrow> journal_error + admission" where
  "make_admission raw =
     (let a = raw\<lparr>ad_command_id := trim (ad_command_id raw), ad_task_id := trim (ad_task_id raw),
            ad_target_case_id := map_option trim (ad_target_case_id raw),
            ad_actor_user_id := trim (ad_actor_user_id raw),
            ad_idempotency_key_sha256 := trim (ad_idempotency_key_sha256 raw),
            ad_request_sha256 := trim (ad_request_sha256 raw),
            ad_expected_case_sha256 := map_option trim (ad_expected_case_sha256 raw),
            ad_admission_sha256 := trim (ad_admission_sha256 raw)\<rparr> in
      rbind (require (hex_suffix ''incident_command_'' 24 (ad_command_id a) \<and> bounded 160 (ad_task_id a)
         \<and> opt_ok (hex_suffix ''incident_'' 20) (ad_target_case_id a) \<and> bounded 160 (ad_actor_user_id a)
         \<and> is_sha256 (ad_idempotency_key_sha256 a) \<and> is_sha256 (ad_request_sha256 a)
         \<and> opt_ok is_sha256 (ad_expected_case_sha256 a) \<and> is_sha256 (ad_admission_sha256 a))
         JournalConstraint) (\<lambda>_. Inr a))"

definition make_terminal :: "terminal \<Rightarrow> journal_error + terminal" where
  "make_terminal raw =
     (let t = raw\<lparr>te_command_id := trim (te_command_id raw),
            te_admission_sha256 := trim (te_admission_sha256 raw),
            te_resource_id := map_option trim (te_resource_id raw),
            te_resource_sha256 := map_option trim (te_resource_sha256 raw),
            te_error_code := map_option trim (te_error_code raw),
            te_error_message := map_option trim (te_error_message raw),
            te_terminal_sha256 := trim (te_terminal_sha256 raw)\<rparr> in
      rbind (require (hex_suffix ''incident_command_'' 24 (te_command_id t)
         \<and> is_sha256 (te_admission_sha256 t) \<and> is_sha256 (te_terminal_sha256 t)
         \<and> opt_ok (bounded 160) (te_resource_id t) \<and> opt_ok is_sha256 (te_resource_sha256 t)
         \<and> opt_ok (bounded 120) (te_error_code t) \<and> opt_ok (bounded 500) (te_error_message t))
         JournalConstraint) (\<lambda>_. Inr t))"

text \<open>The digested dictionaries; \<open>time\<close> is the rendering of the time stamp.\<close>

definition admission_payload :: "(instant \<Rightarrow> string) \<Rightarrow> admission \<Rightarrow> json" where
  "admission_payload time a = JObj
     [(''schema_version'', JStr ''visiondata-gate.incident-command-admission.v1''),
      (''command_id'', JStr (ad_command_id a)),
      (''operation'', JStr (command_kind_str (ad_operation a))),
      (''task_id'', JStr (ad_task_id a)), (''target_case_id'', JOpt JStr (ad_target_case_id a)),
      (''actor_user_id'', JStr (ad_actor_user_id a)),
      (''idempotency_key_sha256'', JStr (ad_idempotency_key_sha256 a)),
      (''request_sha256'', JStr (ad_request_sha256 a)),
      (''expected_case_sha256'', JOpt JStr (ad_expected_case_sha256 a)),
      (''admitted_at'', JStr (time (ad_admitted_at a)))]"

definition terminal_payload :: "(instant \<Rightarrow> string) \<Rightarrow> terminal \<Rightarrow> json" where
  "terminal_payload time t = JObj
     [(''schema_version'', JStr ''visiondata-gate.incident-command-terminal.v1''),
      (''command_id'', JStr (te_command_id t)), (''admission_sha256'', JStr (te_admission_sha256 t)),
      (''status'', JStr (receipt_status_str (te_status t))),
      (''resource_kind'', JOpt (\<lambda>k. JStr (resource_kind_str k)) (te_resource_kind t)),
      (''resource_id'', JOpt JStr (te_resource_id t)),
      (''resource_sha256'', JOpt JStr (te_resource_sha256 t)),
      (''error_code'', JOpt JStr (te_error_code t)),
      (''error_message'', JOpt JStr (te_error_message t)),
      (''terminal_at'', JStr (time (te_terminal_at t)))]"

section \<open>Keys and identifiers\<close>

definition normalize_incident_idempotency_key :: "string \<Rightarrow> journal_error + string" where
  "normalize_incident_idempotency_key value =
     (let normalized = strip value in
      rbind (require (normalized \<noteq> []) BlankKey) (\<lambda>_.
      rbind (require (length normalized \<le> 120) LongKey) (\<lambda>_. Inr normalized)))"

definition resolve_incident_idempotency_key ::
    "crypto \<Rightarrow> string option \<Rightarrow> json \<Rightarrow> journal_error + string" where
  "resolve_incident_idempotency_key C value request =
     (case value of Some v \<Rightarrow> normalize_incident_idempotency_key v
      | None \<Rightarrow> Inr (''auto:'' @ canonical_json_sha C request))"

definition incident_command_id ::
    "crypto \<Rightarrow> string \<Rightarrow> command_kind \<Rightarrow> string option \<Rightarrow> string \<Rightarrow> journal_error + string" where
  "incident_command_id C task op target key =
     rbind (normalize_incident_idempotency_key key) (\<lambda>normalized.
     Inr (''incident_command_'' @ take 24 (canonical_json_sha C (JObj
       [(''task_id'', JStr task), (''operation'', JStr (command_kind_str op)),
        (''target_case_id'', JOpt JStr target), (''idempotency_key'', JStr normalized)]))))"

section \<open>Admission and terminal receipts\<close>

definition build_incident_command_admission ::
    "crypto \<Rightarrow> instant \<Rightarrow> string \<Rightarrow> command_kind \<Rightarrow> string \<Rightarrow> string option \<Rightarrow> string \<Rightarrow> string
       \<Rightarrow> json \<Rightarrow> string option \<Rightarrow> journal_error + admission" where
  "build_incident_command_admission C now cid op task target actor key request expected =
     rbind (normalize_incident_idempotency_key key) (\<lambda>normalized.
     (let stable = \<lparr>ad_command_id = cid, ad_operation = op, ad_task_id = task,
            ad_target_case_id = target, ad_actor_user_id = actor,
            ad_idempotency_key_sha256 = canonical_json_sha C (JStr normalized),
            ad_request_sha256 = canonical_json_sha C request,
            ad_expected_case_sha256 = expected, ad_admitted_at = now,
            ad_admission_sha256 = zero_sha\<rparr> in
      make_admission (stable\<lparr>ad_admission_sha256 :=
        canonical_json_sha C (admission_payload canonical_instant stable)\<rparr>)))"

definition verify_incident_command_admission :: "crypto \<Rightarrow> admission \<Rightarrow> journal_error + unit" where
  "verify_incident_command_admission C a =
     require (canonical_json_sha C (admission_payload dumped_instant a) = ad_admission_sha256 a) AdmissionSeal"

definition build_incident_command_terminal ::
    "crypto \<Rightarrow> instant \<Rightarrow> admission \<Rightarrow> bool \<Rightarrow> resource_kind option \<Rightarrow> string option \<Rightarrow> string option
       \<Rightarrow> string option \<Rightarrow> string option \<Rightarrow> journal_error + terminal" where
  "build_incident_command_terminal C now a completed kind rid rsha code message =
     rbind (if completed
        then rbind (require (kind \<noteq> None \<and> opt_truthy rid \<and> opt_truthy rsha) CompletedNeedsResource) (\<lambda>_.
             require (code = None \<and> message = None) CompletedHasError)
        else require (\<not> (kind \<noteq> None \<or> rid \<noteq> None \<or> opt_truthy rsha)) RejectedHasResource) (\<lambda>_.
     rbind (require (completed \<or> opt_truthy code \<and> opt_truthy message) RejectedNeedsError) (\<lambda>_.
     (let stable = \<lparr>te_command_id = ad_command_id a, te_admission_sha256 = ad_admission_sha256 a,
            te_status = (if completed then ReceiptCompleted else ReceiptRejected),
            te_resource_kind = kind, te_resource_id = rid, te_resource_sha256 = rsha,
            te_error_code = code, te_error_message = message, te_terminal_at = now,
            te_terminal_sha256 = zero_sha\<rparr> in
      make_terminal (stable\<lparr>te_terminal_sha256 :=
        canonical_json_sha C (terminal_payload canonical_instant stable)\<rparr>))))"

definition verify_incident_command_terminal ::
    "crypto \<Rightarrow> terminal \<Rightarrow> admission \<Rightarrow> journal_error + unit" where
  "verify_incident_command_terminal C t a =
     rbind (verify_incident_command_admission C a) (\<lambda>_.
     rbind (require (canonical_json_sha C (terminal_payload dumped_instant t) = te_terminal_sha256 t)
        TerminalSeal) (\<lambda>_.
     require (te_command_id t = ad_command_id a \<and> te_admission_sha256 t = ad_admission_sha256 a)
        TerminalBinding))"

definition receipt_of_admission :: "admission \<Rightarrow> command_receipt" where
  "receipt_of_admission a =
     \<lparr>rc_command_id = ad_command_id a, rc_operation = ad_operation a, rc_task_id = ad_task_id a,
      rc_target_case_id = ad_target_case_id a, rc_actor_user_id = ad_actor_user_id a,
      rc_idempotency_key_sha256 = ad_idempotency_key_sha256 a,
      rc_request_sha256 = ad_request_sha256 a,
      rc_expected_case_sha256 = ad_expected_case_sha256 a, rc_receipt_status = ReceiptUncertain,
      rc_admission_sha256 = ad_admission_sha256 a, rc_terminal_sha256 = None,
      rc_resource_kind = None, rc_resource_id = None, rc_resource_sha256 = None,
      rc_error_code = Some ''TERMINAL_RECEIPT_MISSING'',
      rc_error_message =
        Some ''admission exists without a terminal receipt; automatic replay is prohibited'',
      rc_admitted_at = ad_admitted_at a, rc_terminal_at = None\<rparr>"

definition build_incident_command_receipt ::
    "crypto \<Rightarrow> admission \<Rightarrow> terminal option \<Rightarrow> journal_error + command_receipt" where
  "build_incident_command_receipt C a m =
     rbind (verify_incident_command_admission C a) (\<lambda>_.
     case m of None \<Rightarrow> Inr (receipt_of_admission a)
     | Some t \<Rightarrow>
         rbind (verify_incident_command_terminal C t a) (\<lambda>_.
         Inr ((receipt_of_admission a)\<lparr>rc_receipt_status := te_status t,
           rc_terminal_sha256 := Some (te_terminal_sha256 t), rc_resource_kind := te_resource_kind t,
           rc_resource_id := te_resource_id t, rc_resource_sha256 := te_resource_sha256 t,
           rc_error_code := te_error_code t, rc_error_message := te_error_message t,
           rc_terminal_at := Some (te_terminal_at t)\<rparr>)))"

section \<open>Lemmas\<close>

lemma dumped_canonical: "in_micro i \<noteq> 0 \<Longrightarrow> dumped_instant i = canonical_instant i"
  by (simp add: dumped_instant_def)

text \<open>A digest that depends on the last character of the error message, for evaluated examples.\<close>

definition message_crypto :: crypto where
  "message_crypto = toy_crypto
     \<lparr>dumps := (\<lambda>v. case v of JObj kvs \<Rightarrow> (case map_of kvs ''error_message'' of Some (JStr s) \<Rightarrow> s | _ \<Rightarrow> ''x'') | _ \<Rightarrow> ''x''),
      sha256 := (\<lambda>s. if last (butlast s) = CHR '' '' then replicate 64 (CHR ''1'') else zero_sha)\<rparr>"

definition demo_instant :: instant where
  "demo_instant = \<lparr>in_second = ''2026-01-02T03:04:05'', in_micro = 250000\<rparr>"

definition demo_cid :: string where
  "demo_cid = ''incident_command_aaaaaaaaaaaaaaaaaaaaaaaa''"

definition demo_admission :: admission where
  "demo_admission = \<lparr>ad_command_id = demo_cid, ad_operation = KindResumeCase, ad_task_id = ''task1'',
     ad_target_case_id = None, ad_actor_user_id = ''ana'', ad_idempotency_key_sha256 = zero_sha,
     ad_request_sha256 = zero_sha, ad_expected_case_sha256 = None, ad_admitted_at = demo_instant,
     ad_admission_sha256 = zero_sha\<rparr>"

definition demo_message :: string where
  "demo_message = take 7 ''cannot finish''"

lemma demo_texts:
  "trim demo_cid = demo_cid" "hex_suffix ''incident_command_'' 24 demo_cid"
  "trim zero_sha = zero_sha" "is_sha256 zero_sha" "trim ''task1'' = ''task1''" "trim ''ana'' = ''ana''"
  "strip ''key-1'' = ''key-1''" "trim ''store_error'' = ''store_error''" "trim ''cannot '' = ''cannot''" "trim ''cannot'' = ''cannot''"
  "demo_message = ''cannot ''" "is_sha256 (replicate 64 (CHR ''1''))"
  "trim (replicate 64 (CHR ''1'')) = replicate 64 (CHR ''1'')"
  by code_simp+

lemma demo_digest: "canonical_json_sha message_crypto (admission_payload time a) = zero_sha"
  "canonical_json_sha message_crypto (JStr s) = zero_sha" "canonical_json_sha message_crypto JNull = zero_sha"
  "canonical_json_sha message_crypto (terminal_payload time t) =
     (case te_error_message t of None \<Rightarrow> zero_sha | Some m \<Rightarrow>
        if last m = CHR '' '' then replicate 64 (CHR ''1'') else zero_sha)"
  by (simp_all add: canonical_json_sha_def message_crypto_def admission_payload_def terminal_payload_def toy_crypto_def JOpt_def
      split: option.splits)

lemma demo_build: "build_incident_command_admission message_crypto demo_instant demo_cid KindResumeCase
   ''task1'' None ''ana'' ''key-1'' JNull None = Inr demo_admission"
  by (simp add: build_incident_command_admission_def normalize_incident_idempotency_key_def Let_def make_admission_def
     demo_digest demo_texts opt_ok_def bounded_def demo_admission_def)

lemma demo_verify: "verify_incident_command_admission message_crypto demo_admission = Inr ()"
  by (simp add: verify_incident_command_admission_def demo_digest demo_admission_def)

lemma demo_fields: "trim (ad_command_id demo_admission) = ad_command_id demo_admission"
  "trim (ad_admission_sha256 demo_admission) = ad_admission_sha256 demo_admission"
  "in_micro demo_instant \<noteq> 0"
  by (simp_all add: demo_admission_def demo_texts demo_instant_def)

definition demo_terminal :: "string option \<Rightarrow> string \<Rightarrow> terminal" where
  "demo_terminal m d = \<lparr>te_command_id = demo_cid, te_admission_sha256 = zero_sha, te_status = ReceiptRejected,
     te_resource_kind = None, te_resource_id = None, te_resource_sha256 = None,
     te_error_code = Some ''store_error'', te_error_message = m, te_terminal_at = demo_instant,
     te_terminal_sha256 = d\<rparr>"

lemma demo_build_terminal:
  "build_incident_command_terminal message_crypto demo_instant demo_admission False None None None
     (Some ''store_error'') (Some demo_message)
   = Inr (demo_terminal (Some (trim demo_message)) (replicate 64 (CHR ''1'')))"
  "build_incident_command_terminal message_crypto demo_instant demo_admission False None None None
     (Some ''store_error'') (Some (trim demo_message))
   = Inr (demo_terminal (Some (trim demo_message)) zero_sha)"
  "trim (trim demo_message) = trim demo_message"
  by (simp_all add: build_incident_command_terminal_def make_terminal_def Let_def demo_digest demo_texts
     opt_truthy_def opt_ok_def bounded_def demo_admission_def demo_terminal_def)

lemma demo_trim_sha: "trim (canonical_json_sha message_crypto v) = canonical_json_sha message_crypto v"
  by (simp add: canonical_json_sha_def message_crypto_def demo_texts)

section \<open>Properties\<close>

text \<open>A built admission verifies whenever its texts carry no surrounding white space and its time stamp is not on a
  full second.\<close>

theorem admission_seal_verifies:
  assumes "build_incident_command_admission C now cid op task target actor key request expected = Inr a"
    and "in_micro now \<noteq> 0" and "trim cid = cid" "trim task = task" "map_option trim target = target"
      "trim actor = actor" "map_option trim expected = expected"
    and "\<And>v. trim (canonical_json_sha C v) = canonical_json_sha C v"
  shows "verify_incident_command_admission C a = Inr () \<and> ad_command_id a = cid \<and> ad_task_id a = task
    \<and> ad_actor_user_id a = actor \<and> ad_expected_case_sha256 a = expected"
  using assms
  by (auto simp: build_incident_command_admission_def make_admission_def Let_def
      verify_incident_command_admission_def admission_payload_def dumped_canonical)

text \<open>Under the same conditions a built terminal receipt verifies against its admission, and the command receipt
  derived from both has its status; without a terminal receipt the status is UNCERTAIN.\<close>

theorem terminal_receipt_verifies:
  assumes "build_incident_command_terminal C now a completed kind rid rsha code message = Inr t"
    and "verify_incident_command_admission C a = Inr ()"
    and "in_micro now \<noteq> 0" and "trim (ad_command_id a) = ad_command_id a"
    and "trim (ad_admission_sha256 a) = ad_admission_sha256 a"
    and "map_option trim rid = rid" "map_option trim rsha = rsha"
      "map_option trim code = code" "map_option trim message = message"
    and "\<And>v. trim (canonical_json_sha C v) = canonical_json_sha C v"
  shows "verify_incident_command_terminal C t a = Inr ()
    \<and> map_sum id rc_receipt_status (build_incident_command_receipt C a (Some t))
        = Inr (if completed then ReceiptCompleted else ReceiptRejected)
    \<and> map_sum id rc_receipt_status (build_incident_command_receipt C a None) = Inr ReceiptUncertain
    \<and> (te_resource_sha256 t = None \<longleftrightarrow> \<not> completed)"
  using assms
  by (auto simp: build_incident_command_terminal_def make_terminal_def Let_def dumped_canonical
      verify_incident_command_terminal_def terminal_payload_def build_incident_command_receipt_def
      receipt_of_admission_def opt_truthy_def opt_ok_def is_sha256_def split: if_splits option.splits)

text \<open>C38: the seal is taken before the texts are stripped: a rejection whose message carries white space at an end, as a
  message cut to 500 characters may, gives a terminal receipt that fails its own verification (unless the
  digests of both messages collide).\<close>

theorem seal_precedes_stripping:
  assumes "build_incident_command_terminal C now a False None None None (Some code) (Some message) = Inr t"
    and "verify_incident_command_admission C a = Inr ()"
    and "trim (ad_command_id a) = ad_command_id a" "trim (ad_admission_sha256 a) = ad_admission_sha256 a"
      "trim code = code" "in_micro now \<noteq> 0" "\<And>v. trim (canonical_json_sha C v) = canonical_json_sha C v"
    and "canonical_json_sha C (terminal_payload canonical_instant (t\<lparr>te_error_message := Some (trim message)\<rparr>)) \<noteq>
         canonical_json_sha C (terminal_payload canonical_instant (t\<lparr>te_error_message := Some message\<rparr>))"
  shows "verify_incident_command_terminal C t a = Inl TerminalSeal"
  using assms
  by (auto simp: build_incident_command_terminal_def make_terminal_def Let_def dumped_canonical
      verify_incident_command_terminal_def terminal_payload_def)

theorem seal_precedes_stripping_witness:
  "verify_incident_command_terminal message_crypto
     (demo_terminal (Some (trim demo_message)) (replicate 64 (CHR ''1''))) demo_admission = Inl TerminalSeal"
proof -
  have "zero_sha \<noteq> replicate 64 (CHR ''1'')" by code_simp
  then show ?thesis
    by (intro seal_precedes_stripping [OF demo_build_terminal(1) demo_verify])
      (simp_all add: demo_fields demo_texts demo_digest demo_terminal_def demo_trim_sha)
qed

end
