(* ===== verification/Truth_Matching.thy ===== *)
theory Truth_Matching
  imports Gate_Prelude
begin

text \<open>
  The assignment of \<open>evaluation._one_to_one_matches\<close>: truth issues are processed in turn, and \<open>assign\<close> looks for a
  finding by augmenting paths. Indices are natural numbers; \<open>cands\<close> lists the compatible findings of every truth
  issue in the order of preference, and the dictionary \<open>finding_to_truth\<close> is an association list. The set
  \<open>visited_findings\<close> is shared by all recursive calls, so it is threaded through them.
\<close>

section \<open>The search\<close>

definition candidates_of :: "nat list list \<Rightarrow> nat \<Rightarrow> nat list" where
  "candidates_of cands t = (if t < length cands then cands ! t else [])"

text \<open>
  \<open>assign_from cands t fs visited m\<close> is the loop of \<open>assign(t, visited)\<close> over the remaining candidates \<open>fs\<close>.
\<close>

function (sequential) assign_from ::
    "nat list list \<Rightarrow> nat \<Rightarrow> nat list \<Rightarrow> nat list \<Rightarrow> (nat \<times> nat) list \<Rightarrow> bool \<times> nat list \<times> (nat \<times> nat) list" where
  "assign_from cands t [] visited m = (False, visited, m)"
| "assign_from cands t (f # fs) visited m =
     (if f \<in> set visited then assign_from cands t fs visited m
      else case map_of m f of
        None \<Rightarrow> (True, f # visited, dict_set f t m)
      | Some previous \<Rightarrow>
          (case assign_from cands previous (candidates_of cands previous) (f # visited) m of
             (True, visited', m') \<Rightarrow> (True, visited', dict_set f t m')
           | (False, visited', m') \<Rightarrow> assign_from cands t fs visited' m'))"
  by pat_completeness auto

text \<open>The findings that can still be visited.\<close>

definition unvisited :: "nat list list \<Rightarrow> nat list \<Rightarrow> nat list \<Rightarrow> nat set" where
  "unvisited cands fs visited = (set (concat cands) \<union> set fs) - set visited"

lemma assign_from_visited:
  "assign_from_dom (cands, t, fs, visited, m) \<Longrightarrow>
     set visited \<subseteq> set (fst (snd (assign_from cands t fs visited m)))"
  by (induction rule: assign_from.pinduct)
    (force simp: assign_from.psimps split: option.splits prod.splits bool.splits)+

lemma candidates_universe: "set (candidates_of cands t) \<subseteq> set (concat cands)"
  by (auto simp: candidates_of_def intro: nth_mem)

lemma unvisited_finite: "finite (unvisited cands fs visited)"
  by (simp add: unvisited_def)

termination assign_from
proof (relation "inv_image (finite_psubset <*lex*> less_than)
    (\<lambda>(cands, t, fs, visited, m). (unvisited cands fs visited, length fs))", goal_cases)
  case 1
  then show ?case by auto
next
  case (2 cands t f fs visited m)
  then have "unvisited cands fs visited = unvisited cands (f # fs) visited
      \<or> unvisited cands fs visited \<subset> unvisited cands (f # fs) visited"
    by (auto simp: unvisited_def)
  then show ?case by (auto simp: finite_psubset_def unvisited_finite)
next
  case (3 cands t f fs visited m previous)
  have "unvisited cands (candidates_of cands previous) (f # visited) \<subset> unvisited cands (f # fs) visited"
    using 3 candidates_universe[of cands previous] by (auto simp: unvisited_def)
  then show ?case by (simp add: finite_psubset_def unvisited_finite)
next
  case (4 cands t f fs visited m previous b rest visited' m')
  have "set (f # visited) \<subseteq> set visited'"
    using assign_from_visited[OF 4(6)] 4(3)[symmetric] 4(5)[symmetric] by auto
  then have "unvisited cands fs visited' \<subset> unvisited cands (f # fs) visited"
    using 4(1) by (auto simp: unvisited_def)
  then show ?case by (simp add: finite_psubset_def unvisited_finite)
qed

definition assign :: "nat list list \<Rightarrow> (nat \<times> nat) list \<Rightarrow> nat \<Rightarrow> (nat \<times> nat) list" where
  "assign cands m t = snd (snd (assign_from cands t (candidates_of cands t) [] m))"

definition assign_all :: "nat list list \<Rightarrow> nat list \<Rightarrow> (nat \<times> nat) list" where
  "assign_all cands order = foldl (assign cands) [] order"

section \<open>Induction over a search\<close>

text \<open>
  The five ways a step of the search goes: no candidate is left, the candidate was visited, it is free, its truth
  moves to another finding, or its truth cannot move.
\<close>

lemma assign_from_run [consumes 1, case_names stop skip free moved blocked]:
  assumes run: "assign_from cands t fs visited m = (b, v, m')"
    and stop: "\<And>t visited m. P t [] visited m False visited m"
    and skip: "\<And>t f fs visited m b v m'. f \<in> set visited \<Longrightarrow> P t fs visited m b v m' \<Longrightarrow>
      P t (f # fs) visited m b v m'"
    and free: "\<And>t f fs visited m. f \<notin> set visited \<Longrightarrow> map_of m f = None \<Longrightarrow>
      P t (f # fs) visited m True (f # visited) (dict_set f t m)"
    and moved: "\<And>t f fs visited m p v m1. f \<notin> set visited \<Longrightarrow> map_of m f = Some p \<Longrightarrow>
      P p (candidates_of cands p) (f # visited) m True v m1 \<Longrightarrow>
      P t (f # fs) visited m True v (dict_set f t m1)"
    and blocked: "\<And>t f fs visited m p v m1 b v' m'. f \<notin> set visited \<Longrightarrow> map_of m f = Some p \<Longrightarrow>
      P p (candidates_of cands p) (f # visited) m False v m1 \<Longrightarrow> P t fs v m1 b v' m' \<Longrightarrow>
      P t (f # fs) visited m b v' m'"
  shows "P t fs visited m b v m'"
  using assms
proof (induction cands t fs visited m arbitrary: b v m' rule: assign_from.induct)
  case (1 cands t visited m)
  then show ?case by simp
next
  case (2 cands t f fs visited m)
  note run = "2.prems"(1) and skip = "2.prems"(3) and free = "2.prems"(4) and moved = "2.prems"(5)
    and blocked = "2.prems"(6)
  show ?case
  proof (cases "f \<in> set visited")
    case True
    then have r: "assign_from cands t fs visited m = (b, v, m')" using run by simp
    show ?thesis by (rule skip[OF True "2.IH"(1)[OF True r "2.prems"(2-6)]])
  next
    case False
    show ?thesis
    proof (cases "map_of m f")
      case None
      then show ?thesis using free[OF False None] run False by auto
    next
      case (Some p)
      obtain b1 v1 m1 where inner: "assign_from cands p (candidates_of cands p) (f # visited) m = (b1, v1, m1)"
        by (cases "assign_from cands p (candidates_of cands p) (f # visited) m") auto
      have P1: "P p (candidates_of cands p) (f # visited) m b1 v1 m1"
        by (rule "2.IH"(2)[OF False Some inner "2.prems"(2-6)])
      show ?thesis
      proof (cases b1)
        case True
        then show ?thesis using moved[OF False Some, of v1 m1 t fs] P1 run False Some inner by simp
      next
        case no: False
        then have r: "assign_from cands t fs v1 m1 = (b, v, m')" using run False Some inner by simp
        have "b1 = False" using no by simp
        from "2.IH"(3)[OF False Some inner[symmetric] this refl r "2.prems"(2-6)]
        show ?thesis using blocked[OF False Some _, of v1 m1 t fs b v m'] P1 no by simp
      qed
    qed
  qed
qed

section \<open>A failed search\<close>

text \<open>Failure changes nothing and leaves a set of matched findings that is closed under the candidates of their truths.\<close>

definition blocked_at :: "nat list list \<Rightarrow> (nat \<times> nat) list \<Rightarrow> nat set \<Rightarrow> nat \<Rightarrow> bool" where
  "blocked_at cands m V f \<longleftrightarrow> (\<exists>p. map_of m f = Some p \<and> set (candidates_of cands p) \<subseteq> V)"

lemma blocked_at_mono: "blocked_at cands m V f \<Longrightarrow> V \<subseteq> W \<Longrightarrow> blocked_at cands m W f"
  by (auto simp: blocked_at_def)

lemma assign_from_False:
  assumes "assign_from cands t fs visited m = (b, v, m')" and "\<not> b"
  shows "m' = m \<and> set visited \<subseteq> set v \<and> set fs \<subseteq> set v
     \<and> (\<forall>f\<in>set v - set visited. blocked_at cands m (set v) f)"
  using assms
proof (induction rule: assign_from_run)
  case (blocked t f fs visited m p v m1 b v' m')
  then have "blocked_at cands m (set v') f" by (auto simp: blocked_at_def)
  then show ?case using blocked by (auto intro: blocked_at_mono)
qed auto

section \<open>A successful search\<close>

text \<open>
  While a search is under way the findings on its path are visited and still carry their old truth, so the
  assignment is one-to-one only outside the visited findings.
\<close>

definition one_to_one_off :: "nat set \<Rightarrow> (nat \<Rightarrow> nat option) \<Rightarrow> bool" where
  "one_to_one_off V M \<longleftrightarrow>
     (\<forall>g h p. g \<notin> V \<longrightarrow> h \<notin> V \<longrightarrow> M g = Some p \<longrightarrow> M h = Some p \<longrightarrow> g = h)"

definition truths_off :: "nat set \<Rightarrow> (nat \<Rightarrow> nat option) \<Rightarrow> nat set" where
  "truths_off V M = {p. \<exists>g. g \<notin> V \<and> M g = Some p}"

lemma one_to_one_offD:
  "one_to_one_off V M \<Longrightarrow> g \<notin> V \<Longrightarrow> h \<notin> V \<Longrightarrow> M g = Some p \<Longrightarrow> M h = Some p \<Longrightarrow> g = h"
  by (auto simp: one_to_one_off_def)

lemma one_to_one_off_mono: "one_to_one_off V M \<Longrightarrow> V \<subseteq> W \<Longrightarrow> one_to_one_off W M"
  unfolding one_to_one_off_def by blast

lemma truths_off_mono: "V \<subseteq> W \<Longrightarrow> truths_off W M \<subseteq> truths_off V M"
  by (auto simp: truths_off_def)

definition augments :: "nat \<Rightarrow> nat set \<Rightarrow> (nat \<Rightarrow> nat option) \<Rightarrow> (nat \<Rightarrow> nat option) \<Rightarrow> bool" where
  "augments t V M M' \<longleftrightarrow> (\<forall>g\<in>V. M' g = M g) \<and> one_to_one_off V M' \<and> truths_off V M' = insert t (truths_off V M)"

lemma augments_free:
  assumes "one_to_one_off V M" "t \<notin> truths_off V M" "f \<notin> V" "M f = None"
  shows "augments t V M (M(f \<mapsto> t))"
  using assms by (fastforce simp: augments_def one_to_one_off_def truths_off_def)

text \<open>A later success past visited findings is a success past fewer visited findings.\<close>

lemma augments_weaken:
  assumes a: "augments t W M M'" and VW: "V \<subseteq> W" and o: "one_to_one_off V M" and t: "t \<notin> truths_off V M"
  shows "augments t V M M'"
proof -
  have on: "M' g = M g" if "g \<in> W" for g using a that by (simp add: augments_def)
  have off: "p = t \<or> p \<in> truths_off W M" if "g \<notin> W" "M' g = Some p" for g p
    using a that unfolding augments_def truths_off_def by blast
  have "g = h" if gh: "g \<notin> V" "h \<notin> V" "M' g = Some p" "M' h = Some p" for g h p
  proof -
    have mixed: False if "x \<in> W" "x \<notin> V" "y \<notin> W" "M' x = Some p" "M' y = Some p" for x y
    proof -
      have x: "M x = Some p" using on that by simp
      then have "p \<noteq> t" using t \<open>x \<notin> V\<close> by (auto simp: truths_off_def)
      then have "p \<in> truths_off W M" using off that by blast
      then obtain z where "z \<notin> W" "M z = Some p" by (auto simp: truths_off_def)
      then have "z = x" using one_to_one_offD[OF o] x \<open>x \<notin> V\<close> VW by blast
      then show False using \<open>z \<notin> W\<close> \<open>x \<in> W\<close> by simp
    qed
    consider "g \<in> W" "h \<in> W" | "g \<notin> W" "h \<notin> W" | "g \<in> W" "h \<notin> W" | "g \<notin> W" "h \<in> W" by blast
    then show ?thesis
    proof cases
      case 1
      then show ?thesis using one_to_one_offD[OF o] gh on by metis
    next
      case 2
      then show ?thesis using a gh by (auto simp: augments_def dest: one_to_one_offD)
    next
      case 3
      then show ?thesis using mixed gh by blast
    next
      case 4
      then show ?thesis using mixed gh by blast
    qed
  qed
  then have oto: "one_to_one_off V M'" by (auto simp: one_to_one_off_def)
  have img: "truths_off W M' = insert t (truths_off W M)" using a by (simp add: augments_def)
  have split: "truths_off V N = truths_off W N \<union> {p. \<exists>g\<in>W - V. N g = Some p}" for N
    using VW by (auto simp: truths_off_def)
  have "truths_off V M' = insert t (truths_off V M)"
    unfolding split[of M'] split[of M] img using on by auto
  then show ?thesis using oto on VW by (auto simp: augments_def)
qed

text \<open>Moving \<open>f\<close> from its truth \<open>p\<close> to \<open>t\<close> once \<open>p\<close> has found another finding.\<close>

lemma augments_step:
  assumes a: "augments p (insert f V) M M'" and f: "f \<notin> V" "M f = Some p"
    and o: "one_to_one_off V M" and t: "t \<notin> truths_off V M"
  shows "augments t V M (M'(f \<mapsto> t))"
proof -
  have p: "p \<in> truths_off V M" using f by (auto simp: truths_off_def)
  then have tp: "t \<noteq> p" using t by auto
  have img: "truths_off (insert f V) M' = insert p (truths_off (insert f V) M)"
    using a by (simp add: augments_def)
  have "\<exists>g. g \<notin> insert f V \<and> M g = Some x" if "x \<noteq> p" "g \<notin> V" "M g = Some x" for x g
    using that f by (intro exI[of _ g]) auto
  then have vm: "truths_off V M = insert p (truths_off (insert f V) M)"
    using f by (auto simp: truths_off_def)
  have "truths_off V (M'(f \<mapsto> t)) = insert t (truths_off (insert f V) M')"
    using f by (auto simp: truths_off_def)
  then have tr: "truths_off V (M'(f \<mapsto> t)) = insert t (truths_off V M)" using img vm by simp
  have t': "t \<notin> truths_off (insert f V) M'" using t img vm by simp
  have ot: "one_to_one_off (insert f V) M'" using a by (simp add: augments_def)
  have nt: "M' g \<noteq> Some t" if "g \<notin> insert f V" for g using t' that by (auto simp: truths_off_def)
  have "g = h" if "g \<notin> V" "h \<notin> V" "(M'(f \<mapsto> t)) g = Some q" "(M'(f \<mapsto> t)) h = Some q" for g h q
    using that nt[of g] nt[of h] one_to_one_offD[OF ot, of g h q] by (cases "g = f"; cases "h = f") simp_all
  then have "one_to_one_off V (M'(f \<mapsto> t))" by (auto simp: one_to_one_off_def)
  then show ?thesis using a f tr by (auto simp: augments_def)
qed

lemmas augments_free_dict = augments_free[of _ "map_of m" for m, folded map_of_dict_set]

lemmas augments_step_dict = augments_step[of _ _ _ "map_of m" "map_of m1" for m m1, folded map_of_dict_set]

lemma assign_from_True:
  assumes "assign_from cands t fs visited m = (b, v, m')" and "b"
    and "one_to_one_off (set visited) (map_of m)" and "t \<notin> truths_off (set visited) (map_of m)"
  shows "augments t (set visited) (map_of m) (map_of m')"
proof -
  have "(b \<longrightarrow> one_to_one_off (set visited) (map_of m) \<longrightarrow> t \<notin> truths_off (set visited) (map_of m) \<longrightarrow>
      augments t (set visited) (map_of m) (map_of m')) \<and> set visited \<subseteq> set v \<and> (\<not> b \<longrightarrow> m' = m)"
    using assms(1)
  proof (induction rule: assign_from_run)
    case (free t f fs visited m)
    then show ?case by (auto simp del: map_of_dict_set intro: augments_free_dict)
  next
    case (moved t f fs visited m p v m1)
    have "augments t (set visited) (map_of m) (map_of (dict_set f t m1))"
      if o: "one_to_one_off (set visited) (map_of m)" "t \<notin> truths_off (set visited) (map_of m)"
    proof (rule augments_step_dict[OF _ moved(1,2) o])
      have "one_to_one_off (insert f (set visited)) (map_of m)" by (rule one_to_one_off_mono[OF o(1)]) auto
      moreover have "p \<notin> truths_off (insert f (set visited)) (map_of m)"
        using one_to_one_offD[OF o(1)] moved(1,2) by (auto simp: truths_off_def)
      ultimately show "augments p (insert f (set visited)) (map_of m) (map_of m1)" using moved by simp
    qed
    then show ?case using moved by (auto simp del: map_of_dict_set)
  next
    case (blocked t f fs visited m p v m1 b v' m')
    then have sub: "set visited \<subseteq> set v" and m1: "m1 = m" by auto
    show ?case using blocked sub m1 one_to_one_off_mono[OF _ sub] truths_off_mono[OF sub, of "map_of m"]
      augments_weaken[OF _ sub] by blast
  qed auto
  then show ?thesis using assms by blast
qed

section \<open>Edges and closed regions\<close>

definition edges_ok :: "nat list list \<Rightarrow> (nat \<Rightarrow> nat option) \<Rightarrow> bool" where
  "edges_ok cands M \<longleftrightarrow> (\<forall>f p. M f = Some p \<longrightarrow> f \<in> set (candidates_of cands p))"

lemma edges_ok_upd:
  "edges_ok cands (map_of m) \<Longrightarrow> f \<in> set (candidates_of cands t) \<Longrightarrow> edges_ok cands (map_of (dict_set f t m))"
  by (auto simp: edges_ok_def)

lemma assign_from_edges:
  assumes "assign_from cands t fs visited m = (b, v, m')"
    and "edges_ok cands (map_of m)" and "set fs \<subseteq> set (candidates_of cands t)"
  shows "edges_ok cands (map_of m')"
  using assms by (induction rule: assign_from_run) (simp_all del: map_of_dict_set add: edges_ok_upd)

text \<open>
  A region of matched findings whose truths have all their candidates inside: a search that enters it fails.
\<close>

definition closed_region :: "nat list list \<Rightarrow> (nat \<Rightarrow> nat option) \<Rightarrow> nat set \<Rightarrow> bool" where
  "closed_region cands M B \<longleftrightarrow> (\<forall>f\<in>B. \<exists>p. M f = Some p \<and> set (candidates_of cands p) \<subseteq> B)"

lemma assign_from_region:
  assumes "assign_from cands t fs visited m = (b, v, m')" and "closed_region cands (map_of m) B"
  shows "(set fs \<subseteq> B \<longrightarrow> \<not> b) \<and> (\<forall>f\<in>B. map_of m' f = map_of m f) \<and> (\<not> b \<longrightarrow> m' = m)"
  using assms
proof (induction rule: assign_from_run)
  case (free t f fs visited m)
  then have "f \<notin> B" by (auto simp: closed_region_def)
  then show ?case by auto
next
  case (moved t f fs visited m p v m1)
  have "f \<notin> B"
  proof
    assume "f \<in> B"
    then have "set (candidates_of cands p) \<subseteq> B" using moved(2,4) unfolding closed_region_def by fastforce
    then show False using moved by blast
  qed
  then show ?case using moved by auto
qed auto

section \<open>Maximum cardinality\<close>

text \<open>A one-to-one assignment of findings to the truths of \<open>P\<close>, from a finding to its truth.\<close>

definition matching :: "nat list list \<Rightarrow> nat set \<Rightarrow> (nat \<Rightarrow> nat option) \<Rightarrow> bool" where
  "matching cands P N \<longleftrightarrow> edges_ok cands N \<and> one_to_one_off {} N \<and> ran N \<subseteq> P"

text \<open>
  What the loop keeps: a matching of the processed truths, with a region \<open>B\<close> of matched findings that contains
  the candidates of every truth of \<open>A\<close>; all unmatched truths are in \<open>A\<close>.
\<close>

definition saturated :: "nat list list \<Rightarrow> nat set \<Rightarrow> (nat \<Rightarrow> nat option) \<Rightarrow> nat set \<Rightarrow> nat set \<Rightarrow> bool" where
  "saturated cands P M A B \<longleftrightarrow> matching cands P M \<and> A \<subseteq> P \<and> P - ran M \<subseteq> A
     \<and> (\<forall>t\<in>A. set (candidates_of cands t) \<subseteq> B) \<and> (\<forall>f\<in>B. \<exists>p\<in>A. M f = Some p)"

lemma saturated_closed: "saturated cands P M A B \<Longrightarrow> closed_region cands M B"
  by (fastforce simp: saturated_def closed_region_def)

lemma ran_truths_off: "truths_off {} M = ran M"
  by (auto simp: truths_off_def ran_def)

lemma saturated_maximal:
  assumes s: "saturated cands P M A B" and N: "matching cands P N" and fin: "finite P" "finite (dom M)"
  shows "card (ran N) \<le> card (ran M)"
proof -
  have ranN: "ran N \<subseteq> P" "finite (ran N)" using N fin(1) finite_subset by (auto simp: matching_def)
  have ranM: "ran M \<subseteq> P" "finite (ran M)" using s fin(1) finite_subset by (auto simp: saturated_def matching_def)
  have "B \<subseteq> dom M" using s by (fastforce simp: saturated_def)
  then have finB: "finite B" using fin(2) finite_subset by blast
  have MB: "(\<lambda>f. the (M f)) ` B \<subseteq> ran M \<inter> A"
    using s by (fastforce simp: saturated_def intro: ranI)
  have "inj_on (\<lambda>f. the (M f)) B"
  proof (rule inj_onI)
    fix f g assume "f \<in> B" "g \<in> B" and eq: "the (M f) = the (M g)"
    then obtain p q where "M f = Some p" "M g = Some q" using s unfolding saturated_def by blast
    then show "f = g" using s eq one_to_one_offD[of "{}" M f g p] by (auto simp: saturated_def matching_def)
  qed
  then have cardB: "card B \<le> card (ran M \<inter> A)"
    using card_mono[OF _ MB] ranM(2) by (simp add: card_image)
  have "p \<in> (\<lambda>f. the (N f)) ` B" if p: "p \<in> ran N \<inter> A" for p
  proof -
    obtain f where f: "N f = Some p" using p by (auto simp: ran_def)
    then have "f \<in> B" using N s p by (fastforce simp: matching_def edges_ok_def saturated_def)
    then show ?thesis using f by force
  qed
  then have "card (ran N \<inter> A) \<le> card B"
    using surj_card_le[OF finB, of "ran N \<inter> A" "\<lambda>f. the (N f)"] by blast
  moreover have "ran N - A \<subseteq> ran M - A" using s ranN(1) by (auto simp: saturated_def)
  then have "card (ran N - A) \<le> card (ran M - A)" using ranM(2) card_mono by blast
  moreover have "card (ran N) = card (ran N \<inter> A) + card (ran N - A)"
    by (rule card_Int_Diff[OF ranN(2)])
  moreover have "card (ran M) = card (ran M \<inter> A) + card (ran M - A)"
    by (rule card_Int_Diff[OF ranM(2)])
  ultimately show ?thesis using cardB by linarith
qed

lemma saturated_step:
  assumes s: "saturated cands P (map_of m) A B" and t: "t \<notin> P"
  shows "\<exists>A' B'. saturated cands (insert t P) (map_of (assign cands m t)) A' B'"
    and "ran (map_of m) \<subseteq> ran (map_of (assign cands m t))"
    and "ran (map_of (assign cands m t)) \<subseteq> insert t (ran (map_of m))"
proof -
  obtain b v m' where r: "assign_from cands t (candidates_of cands t) [] m = (b, v, m')"
    by (cases "assign_from cands t (candidates_of cands t) [] m") auto
  then have m': "assign cands m t = m'" by (simp add: assign_def)
  have mm: "edges_ok cands (map_of m)" "one_to_one_off {} (map_of m)" "ran (map_of m) \<subseteq> P"
    using s by (auto simp: saturated_def matching_def)
  have e': "edges_ok cands (map_of m')"
    using assign_from_edges[OF r mm(1)] by simp
  have "(\<exists>A' B'. saturated cands (insert t P) (map_of m') A' B') \<and> ran (map_of m) \<subseteq> ran (map_of m')
      \<and> ran (map_of m') \<subseteq> insert t (ran (map_of m))"
  proof (cases b)
    case True
    have "augments t {} (map_of m) (map_of m')"
      using assign_from_True[OF r True] mm t by (auto simp: ran_truths_off)
    then have a: "one_to_one_off {} (map_of m')" "ran (map_of m') = insert t (ran (map_of m))"
      by (auto simp: augments_def ran_truths_off)
    have "map_of m' f = map_of m f" if "f \<in> B" for f
      using assign_from_region[OF r saturated_closed[OF s]] that by blast
    then have "saturated cands (insert t P) (map_of m') A B"
      using s a e' mm(3) by (auto simp: saturated_def matching_def)
    then show ?thesis using a(2) by auto
  next
    case False
    then have f: "m' = m" "set (candidates_of cands t) \<subseteq> set v"
      "\<forall>f\<in>set v. \<exists>p. map_of m f = Some p \<and> set (candidates_of cands p) \<subseteq> set v"
      using assign_from_False[OF r False] by (auto simp: blocked_at_def)
    let ?T = "{p. \<exists>f\<in>set v. map_of m f = Some p}"
    have T: "?T \<subseteq> P" using mm(3) by (auto intro: ranI)
    let ?A = "insert t A \<union> ?T" and ?B = "B \<union> set v"
    have "set (candidates_of cands p) \<subseteq> set v" if "p \<in> ?T" for p using f(3) that by force
    then have cl: "\<forall>p\<in>?A. set (candidates_of cands p) \<subseteq> ?B" using s f(2) by (auto simp: saturated_def)
    have "\<exists>p\<in>?A. map_of m g = Some p" if g: "g \<in> ?B" for g
    proof (cases "g \<in> B")
      case True
      then show ?thesis using s by (auto simp: saturated_def)
    next
      case False
      then obtain p where "map_of m g = Some p" using f(3) g by blast
      then show ?thesis using False g by blast
    qed
    moreover have "matching cands (insert t P) (map_of m)" using mm by (auto simp: matching_def)
    moreover have "?A \<subseteq> insert t P" "insert t P - ran (map_of m) \<subseteq> ?A" using s T by (auto simp: saturated_def)
    ultimately have "saturated cands (insert t P) (map_of m) ?A ?B" using cl by (simp only: saturated_def) blast
    then show ?thesis using f(1) by blast
  qed
  then show "\<exists>A' B'. saturated cands (insert t P) (map_of (assign cands m t)) A' B'"
    and "ran (map_of m) \<subseteq> ran (map_of (assign cands m t))"
    and "ran (map_of (assign cands m t)) \<subseteq> insert t (ran (map_of m))"
    by (auto simp: m')
qed

lemma foldl_saturated:
  assumes "distinct order" "saturated cands P (map_of m) A B" "set order \<inter> P = {}"
  shows "(\<exists>A' B'. saturated cands (P \<union> set order) (map_of (foldl (assign cands) m order)) A' B')
    \<and> ran (map_of m) \<subseteq> ran (map_of (foldl (assign cands) m order))
    \<and> ran (map_of (foldl (assign cands) m order)) \<subseteq> ran (map_of m) \<union> set order"
  using assms
proof (induction order arbitrary: m P A B)
  case Nil
  then show ?case by auto
next
  case (Cons t order)
  have t: "t \<notin> P" using Cons.prems(3) by simp
  note step = saturated_step[OF Cons.prems(2) t]
  obtain A' B' where "saturated cands (insert t P) (map_of (assign cands m t)) A' B'" using step(1) by blast
  from Cons.IH[OF _ this] Cons.prems have
    "(\<exists>A' B'. saturated cands (insert t P \<union> set order) (map_of (foldl (assign cands) (assign cands m t) order)) A' B')
     \<and> ran (map_of (assign cands m t)) \<subseteq> ran (map_of (foldl (assign cands) (assign cands m t) order))
     \<and> ran (map_of (foldl (assign cands) (assign cands m t) order)) \<subseteq> ran (map_of (assign cands m t)) \<union> set order"
    by auto
  then show ?case using step(2,3) by auto
qed

lemma saturated_empty: "saturated cands {} (map_of []) {} {}"
  by (auto simp: saturated_def matching_def edges_ok_def one_to_one_off_def)

text \<open>
  The assignment is a matching, and for every first part of the order it matches as many truths of that part as
  any matching of them can.
\<close>

lemma assign_all_matching:
  "distinct order \<Longrightarrow> matching cands (set order) (map_of (assign_all cands order))"
  using foldl_saturated[OF _ saturated_empty, of order cands]
  by (auto simp: assign_all_def saturated_def)

lemma assign_all_prefix_maximal:
  assumes d: "distinct (ps @ qs)" and N: "matching cands (set ps) N"
  shows "card (ran N) \<le> card (ran (map_of (assign_all cands (ps @ qs))) \<inter> set ps)"
proof -
  let ?m = "assign_all cands ps"
  have s: "\<exists>A B. saturated cands (set ps) (map_of ?m) A B" and r: "ran (map_of ?m) \<subseteq> set ps"
    using foldl_saturated[OF _ saturated_empty, of ps cands] d by (auto simp: assign_all_def)
  then obtain A B where sp: "saturated cands (set ps) (map_of ?m) A B" by blast
  have le: "card (ran N) \<le> card (ran (map_of ?m))"
    by (rule saturated_maximal[OF sp N]) (simp_all add: finite_dom_map_of)
  have "ran (map_of ?m) \<subseteq> ran (map_of (assign_all cands (ps @ qs)))"
    using foldl_saturated[OF _ sp, of qs] d by (auto simp: assign_all_def)
  then have "card (ran (map_of ?m)) \<le> card (ran (map_of (assign_all cands (ps @ qs))) \<inter> set ps)"
    using r by (intro card_mono) auto
  then show ?thesis using le by simp
qed

lemma matching_mono: "matching cands P N \<Longrightarrow> P \<subseteq> Q \<Longrightarrow> matching cands Q N"
  by (auto simp: matching_def)

lemma one_to_one_card:
  assumes "one_to_one_off {} M" "finite (dom M)"
  shows "card (dom M) = card (ran M)"
proof -
  have "inj_on (\<lambda>f. the (M f)) (dom M)"
    using assms(1) by (intro inj_onI) (auto dest: one_to_one_offD[of "{}" M])
  moreover have "(\<lambda>f. the (M f)) ` dom M = ran M" by (force simp: ran_def image_iff)
  ultimately show ?thesis using card_image by fastforce
qed

section \<open>The dictionary and the visited findings\<close>

lemma assign_from_distinct:
  assumes "assign_from cands t fs visited m = (b, v, m')" and "distinct (map fst m)"
  shows "distinct (map fst m')"
  using assms by (induction rule: assign_from_run) (simp_all add: distinct_dict_set)

lemma assign_all_distinct: "distinct (map fst (assign_all cands order))"
proof -
  have "distinct (map fst m) \<Longrightarrow> distinct (map fst (foldl (assign cands) m order))" for m
  proof (induction order arbitrary: m)
    case (Cons t order)
    obtain b v m' where r: "assign_from cands t (candidates_of cands t) [] m = (b, v, m')"
      by (cases "assign_from cands t (candidates_of cands t) [] m") auto
    then show ?case using Cons assign_from_distinct[OF r] by (simp add: assign_def)
  qed simp
  then show ?thesis by (simp add: assign_all_def)
qed

lemma assign_from_visited_once:
  assumes "assign_from cands t fs visited m = (b, v, m')" and "distinct visited"
  shows "distinct v \<and> set v \<subseteq> set visited \<union> set fs \<union> set (concat cands)"
  using assms
proof (induction rule: assign_from_run)
  case (moved t f fs visited m p v m1)
  then show ?case using candidates_universe[of cands p] by auto
next
  case (blocked t f fs visited m p v m1 b v' m')
  then show ?case using candidates_universe[of cands p] by auto
qed auto

section \<open>Properties\<close>

text \<open>The search for one truth issue ends having visited every finding at most once, all of them candidates of some
  truth issue, so it makes no more recursive calls than there are findings.\<close>

theorem search_visits_findings_once:
  "\<exists>b visited m'. assign_from cands t (candidates_of cands t) [] m = (b, visited, m')
     \<and> distinct visited \<and> set visited \<subseteq> set (concat cands)
     \<and> length visited \<le> card (set (concat cands))"
proof -
  obtain b v m' where r: "assign_from cands t (candidates_of cands t) [] m = (b, v, m')"
    by (cases "assign_from cands t (candidates_of cands t) [] m") auto
  then have v: "distinct v" "set v \<subseteq> set (concat cands)"
    using assign_from_visited_once[OF r] candidates_universe[of cands t] by auto
  then have "length v \<le> card (set (concat cands))" by (metis card_mono distinct_card List.finite_set)
  then show ?thesis using r v by blast
qed

end
