(* ===== verification/Hidden_Truth.thy ===== *)
theory Hidden_Truth
  imports Gate_Apply Truth_Matching
begin

text \<open>
  \<open>evaluation.py\<close>: the evaluation of a gate result against the hidden truth. Ratios are exact rationals (the
  code uses floats); the notes are constructors with \<open>note_text\<close>. Reading the truth from a file is left out:
  \<open>evaluate_gate\<close> takes the parsed manifest.
\<close>

section \<open>Truth and results\<close>

record truth_issue =
  ti_issue_id :: string
  ti_code :: string
  ti_severity :: severity
  ti_sample_ids :: "string list"
  ti_detectable_by :: "string list"

record corruption_manifest =
  cm_seed :: int
  cm_batch_id :: string
  cm_issues :: "truth_issue list"
  cm_reserve_manifest :: string

datatype evaluation_note =
    NoteMatching | NoteCouncil | NotePostRepair | NoteMissed int | NoteUnmatched int

fun note_text :: "evaluation_note \<Rightarrow> string" where
  "note_text NoteMatching = ''Issue matching is one-to-one by exact code and exact/intersecting sample IDs.''"
| "note_text NoteCouncil = ''Council agreement is not used as detection evidence.''"
| "note_text NotePostRepair = ''A post-repair PASS is accepted only after successful tool traces and full work-order coverage.''"
| "note_text (NoteMissed n) = int_str n @ '' hidden truth issue(s) were not detected.''"
| "note_text (NoteUnmatched n) = int_str n @ '' finding(s) did not match hidden truth.''"

record evaluation_result =
  ev_batch_id :: string
  ev_truth_issue_count :: int
  ev_predicted_issue_count :: int
  ev_true_positive_count :: int
  ev_false_positive_count :: int
  ev_false_negative_count :: int
  ev_precision :: rat
  ev_recall :: rat
  ev_f1 :: rat
  ev_critical_bad_release_rate :: rat
  ev_false_quarantine_rate :: rat
  ev_work_order_recall :: rat
  ev_irrelevant_work_order_rate :: rat
  ev_post_repair_correct_pass :: bool
  ev_notes :: "evaluation_note list"

datatype evaluation_error = GateBatchMismatch | PostRepairBatchMismatch

section \<open>Matching findings with truth issues\<close>

fun SEVERITY_ORDER :: "severity \<Rightarrow> int" where
  "SEVERITY_ORDER SevCritical = 0"
| "SEVERITY_ORDER SevHigh = 1"
| "SEVERITY_ORDER SevMedium = 2"
| "SEVERITY_ORDER SevLow = 3"

definition sample_ids_match :: "string list \<Rightarrow> string list \<Rightarrow> bool" where
  "sample_ids_match left right =
     (if left = [] \<or> right = [] then left = [] \<and> right = []
      else set left \<inter> set right \<noteq> {})"

definition finding_matches :: "truth_issue \<Rightarrow> finding \<Rightarrow> bool" where
  "finding_matches issue f \<longleftrightarrow> upper (ti_code issue) = upper (fi_code f)
     \<and> sample_ids_match (ti_sample_ids issue) (fi_sample_ids f)"

definition candidate_rank :: "truth_issue \<Rightarrow> finding \<Rightarrow> int \<times> int \<times> string" where
  "candidate_rank issue f =
     (if set (ti_sample_ids issue) = set (fi_sample_ids f) then 0 else 1,
      - int (card (set (ti_sample_ids issue) \<inter> set (fi_sample_ids f))), fi_finding_id f)"

definition candidates :: "truth_issue list \<Rightarrow> finding list \<Rightarrow> nat list list" where
  "candidates issues fs =
     map (\<lambda>issue. sort_key (\<lambda>j. candidate_rank issue (fs ! j))
       (filter (\<lambda>j. finding_matches issue (fs ! j)) [0..<length fs])) issues"

definition truth_order :: "truth_issue list \<Rightarrow> nat list" where
  "truth_order issues =
     sort_key (\<lambda>i. (SEVERITY_ORDER (ti_severity (issues ! i)), ti_issue_id (issues ! i), i)) [0..<length issues]"

definition one_to_one_matches :: "truth_issue list \<Rightarrow> finding list \<Rightarrow> nat set \<times> nat set" where
  "one_to_one_matches issues fs =
     (let finding_to_truth = assign_all (candidates issues fs) (truth_order issues) in
      (snd ` set finding_to_truth, fst ` set finding_to_truth))"

definition work_order_covers :: "truth_issue \<Rightarrow> work_order \<Rightarrow> bool" where
  "work_order_covers issue wo \<longleftrightarrow> upper (ti_code issue) \<in> set (map upper (wo_reason_codes wo))
     \<and> sample_ids_match (ti_sample_ids issue) (wo_sample_ids wo)"

definition safe_ratio :: "int \<Rightarrow> int \<Rightarrow> rat \<Rightarrow> rat" where
  "safe_ratio numerator denominator fallback =
     (if denominator \<noteq> 0 then of_int numerator / of_int denominator else fallback)"

section \<open>Evaluation\<close>

definition critical_indices :: "truth_issue list \<Rightarrow> nat set" where
  "critical_indices issues = {i \<in> {0..<length issues}. ti_severity (issues ! i) = SevCritical}"

definition evaluate_gate ::
    "corruption_manifest \<Rightarrow> gate_result \<Rightarrow> gate_result option \<Rightarrow> evaluation_error + evaluation_result" where
  "evaluate_gate truth g post =
     rbind (require (ga_batch_id g = cm_batch_id truth) GateBatchMismatch) (\<lambda>_.
     rbind (require (case post of None \<Rightarrow> True | Some p \<Rightarrow> ga_batch_id p = cm_batch_id truth)
       PostRepairBatchMismatch) (\<lambda>_.
     (let issues = cm_issues truth; fs = ga_findings g;
          (matched_truth, matched_findings) = one_to_one_matches issues fs;
          true_positives = int (card matched_truth);
          false_positives = int (length fs) - int (card matched_findings);
          false_negatives = int (length issues) - int (card matched_truth);
          precision = safe_ratio true_positives (true_positives + false_positives)
            (if issues = [] then 1 else 0);
          recall = safe_ratio true_positives (int (length issues)) 1;
          f1 = (if precision + recall \<noteq> 0 then 2 * precision * recall / (precision + recall) else 0);
          critical = critical_indices issues;
          missed_critical = int (card (critical - matched_truth));
          covered_truth = {i \<in> {0..<length issues}. \<exists>wo\<in>set (ga_work_orders g). work_order_covers (issues ! i) wo};
          relevant_orders = {j \<in> {0..<length (ga_work_orders g)}.
            \<exists>issue\<in>set issues. work_order_covers issue (ga_work_orders g ! j)};
          post_trace_is_complete = (case post of None \<Rightarrow> False | Some p \<Rightarrow>
            ga_tool_trace p \<noteq> [] \<and> list_all (\<lambda>t. tt_status t = TraceOk) (ga_tool_trace p)) in
      Inr \<lparr>ev_batch_id = cm_batch_id truth,
        ev_truth_issue_count = int (length issues), ev_predicted_issue_count = int (length fs),
        ev_true_positive_count = true_positives, ev_false_positive_count = false_positives,
        ev_false_negative_count = false_negatives,
        ev_precision = precision, ev_recall = recall, ev_f1 = f1,
        ev_critical_bad_release_rate =
          (if ga_decision g = GatePass \<and> critical \<noteq> {} then of_int missed_critical / of_int (int (card critical)) else 0),
        ev_false_quarantine_rate =
          (if issues = [] \<and> ga_decision g \<in> {GateQuarantine, GateRecapture} then 1 else 0),
        ev_work_order_recall = safe_ratio (int (card covered_truth)) (int (length issues)) 1,
        ev_irrelevant_work_order_rate =
          safe_ratio (int (length (ga_work_orders g)) - int (card relevant_orders)) (int (length (ga_work_orders g))) 0,
        ev_post_repair_correct_pass =
          (case post of None \<Rightarrow> False | Some p \<Rightarrow> ga_decision p = GatePass)
          \<and> post_trace_is_complete \<and> card covered_truth = length issues,
        ev_notes = [NoteMatching, NoteCouncil, NotePostRepair]
          @ (if false_negatives \<noteq> 0 then [NoteMissed false_negatives] else [])
          @ (if false_positives \<noteq> 0 then [NoteUnmatched false_positives] else [])\<rparr>)))"

section \<open>Assignments\<close>

text \<open>A one-to-one assignment of truth issues to findings that match them, from finding index to truth index.\<close>

definition compatible_assignment :: "truth_issue list \<Rightarrow> finding list \<Rightarrow> (nat \<Rightarrow> nat option) \<Rightarrow> bool" where
  "compatible_assignment issues fs N \<longleftrightarrow>
     (\<forall>j i. N j = Some i \<longrightarrow> j < length fs \<and> i < length issues \<and> finding_matches (issues ! i) (fs ! j))
     \<and> (\<forall>j k i. N j = Some i \<longrightarrow> N k = Some i \<longrightarrow> j = k)"

lemma set_candidates_of:
  "set (candidates_of (candidates issues fs) i) =
     (if i < length issues then {j. j < length fs \<and> finding_matches (issues ! i) (fs ! j)} else {})"
  by (auto simp: candidates_of_def candidates_def)

lemma compatible_matching:
  "compatible_assignment issues fs N \<longleftrightarrow> matching (candidates issues fs) {0..<length issues} N"
  by (fastforce simp: compatible_assignment_def matching_def edges_ok_def one_to_one_off_def set_candidates_of ran_def
      split: if_splits)

lemma truth_order_perm: "set (truth_order issues) = {0..<length issues}" "distinct (truth_order issues)"
  by (simp_all add: truth_order_def)

lemma sorted_takeWhile:
  assumes "sorted (map k xs)" and "\<And>x y. k x \<le> k y \<Longrightarrow> Q y \<Longrightarrow> Q x"
  shows "set (takeWhile Q xs) = {x \<in> set xs. Q x}"
  using assms(1)
proof (induction xs)
  case (Cons x xs)
  have "Q x" if "y \<in> set xs" "Q y" for y using Cons.prems assms(2)[of x y] that by auto
  then show ?case using Cons by auto
qed simp

lemma truth_order_critical:
  obtains ps qs where "truth_order issues = ps @ qs" "set ps = critical_indices issues"
proof
  let ?Q = "\<lambda>i. ti_severity (issues ! i) = SevCritical" and ?L = "truth_order issues"
  let ?k = "\<lambda>i. (SEVERITY_ORDER (ti_severity (issues ! i)), ti_issue_id (issues ! i), i)"
  show "?L = takeWhile ?Q ?L @ dropWhile ?Q ?L" by simp
  have s: "sorted (map ?k ?L)" by (simp add: truth_order_def)
  have q: "?Q x" if "?k x \<le> ?k y" "?Q y" for x y
    using that by (cases "ti_severity (issues ! x)") (auto simp: less_eq_prod_def)
  have "set (takeWhile ?Q ?L) = {i \<in> set ?L. ?Q i}" by (rule sorted_takeWhile[of ?k, OF s q])
  then show "set (takeWhile ?Q ?L) = critical_indices issues"
    by (simp add: truth_order_perm critical_indices_def)
qed

definition gate_matching :: "truth_issue list \<Rightarrow> finding list \<Rightarrow> nat \<Rightarrow> nat option" where
  "gate_matching issues fs = map_of (assign_all (candidates issues fs) (truth_order issues))"

lemma one_to_one_matches_gate:
  "one_to_one_matches issues fs = (ran (gate_matching issues fs), dom (gate_matching issues fs))"
  by (simp add: one_to_one_matches_def gate_matching_def Let_def ran_distinct assign_all_distinct dom_map_of_conv_image_fst)

lemma gate_matching_compatible: "compatible_assignment issues fs (gate_matching issues fs)"
  using assign_all_matching[OF truth_order_perm(2)[of issues], of "candidates issues fs"]
  by (simp add: compatible_matching gate_matching_def truth_order_perm)

lemma compatible_facts:
  assumes "compatible_assignment issues fs N"
  shows "finite (dom N)" "finite (ran N)" "card (dom N) = card (ran N)"
    "ran N \<subseteq> {0..<length issues}" "dom N \<subseteq> {0..<length fs}"
proof -
  show d: "dom N \<subseteq> {0..<length fs}" and r: "ran N \<subseteq> {0..<length issues}"
    using assms by (auto simp: compatible_assignment_def ran_def)
  then show f: "finite (dom N)" "finite (ran N)" using finite_subset by blast+
  show "card (dom N) = card (ran N)"
    using assms by (intro one_to_one_card f) (auto simp: compatible_matching matching_def)
qed

lemma gate_matching_maximal:
  assumes "compatible_assignment issues fs N"
  shows "card (ran N) \<le> card (ran (gate_matching issues fs))"
proof -
  have "card (ran N) \<le> card (ran (gate_matching issues fs) \<inter> {0..<length issues})"
    using assign_all_prefix_maximal[of "truth_order issues" "[]" "candidates issues fs" N] assms
    by (simp add: compatible_matching truth_order_perm gate_matching_def)
  moreover have "ran (gate_matching issues fs) \<inter> {0..<length issues} = ran (gate_matching issues fs)"
    using compatible_facts(4)[OF gate_matching_compatible] by blast
  ultimately show ?thesis by simp
qed

lemma matching_restrict_ran:
  assumes "matching cands P N"
  shows "matching cands (P \<inter> Q) (\<lambda>j. case N j of None \<Rightarrow> None | Some i \<Rightarrow> if i \<in> Q then Some i else None)"
    and "ran (\<lambda>j. case N j of None \<Rightarrow> None | Some i \<Rightarrow> if i \<in> Q then Some i else None) = ran N \<inter> Q"
  using assms
  by (auto simp: matching_def edges_ok_def one_to_one_off_def ran_def split: option.splits if_splits)

text \<open>No assignment finds more of the critical issues.\<close>

lemma critical_matching_maximal:
  assumes N: "compatible_assignment issues fs N"
  shows "card (ran N \<inter> critical_indices issues) \<le> card (ran (gate_matching issues fs) \<inter> critical_indices issues)"
proof -
  obtain ps qs where o: "truth_order issues = ps @ qs" and ps: "set ps = critical_indices issues"
    by (rule truth_order_critical)
  have sub: "{0..<length issues} \<inter> critical_indices issues = critical_indices issues"
    by (auto simp: critical_indices_def)
  note r = matching_restrict_ran[OF N[unfolded compatible_matching], of "critical_indices issues", unfolded sub]
  have d: "distinct (ps @ qs)" using truth_order_perm(2)[of issues] by (simp only: o)
  show ?thesis
    using assign_all_prefix_maximal[OF d, unfolded ps, OF r(1)] by (simp only: r(2) o gate_matching_def)
qed

section \<open>Counts and rates\<close>

lemma evaluate_fields:
  assumes "evaluate_gate truth g post = Inr r"
  defines "M \<equiv> gate_matching (cm_issues truth) (ga_findings g)"
  shows "ev_truth_issue_count r = int (length (cm_issues truth))"
    "ev_predicted_issue_count r = int (length (ga_findings g))"
    "ev_true_positive_count r = int (card (ran M))"
    "ev_false_positive_count r = int (length (ga_findings g)) - int (card (dom M))"
    "ev_false_negative_count r = int (length (cm_issues truth)) - int (card (ran M))"
    "ev_precision r = safe_ratio (ev_true_positive_count r)
        (ev_true_positive_count r + ev_false_positive_count r) (if cm_issues truth = [] then 1 else 0)"
    "ev_recall r = safe_ratio (ev_true_positive_count r) (int (length (cm_issues truth))) 1"
    "ev_f1 r = (if ev_precision r + ev_recall r \<noteq> 0
        then 2 * ev_precision r * ev_recall r / (ev_precision r + ev_recall r) else 0)"
    "ev_critical_bad_release_rate r =
       (if ga_decision g = GatePass \<and> critical_indices (cm_issues truth) \<noteq> {}
        then of_int (int (card (critical_indices (cm_issues truth) - ran M)))
             / of_int (int (card (critical_indices (cm_issues truth)))) else 0)"
    "ev_false_quarantine_rate r =
       (if cm_issues truth = [] \<and> ga_decision g \<in> {GateQuarantine, GateRecapture} then 1 else 0)"
proof -
  note r = assms(1)[unfolded evaluate_gate_def Let_def one_to_one_matches_gate prod.case, folded M_def, simplified]
  show "ev_truth_issue_count r = int (length (cm_issues truth))"
    "ev_predicted_issue_count r = int (length (ga_findings g))"
    "ev_true_positive_count r = int (card (ran M))"
    "ev_false_positive_count r = int (length (ga_findings g)) - int (card (dom M))"
    "ev_false_negative_count r = int (length (cm_issues truth)) - int (card (ran M))"
    "ev_precision r = safe_ratio (ev_true_positive_count r)
        (ev_true_positive_count r + ev_false_positive_count r) (if cm_issues truth = [] then 1 else 0)"
    "ev_recall r = safe_ratio (ev_true_positive_count r) (int (length (cm_issues truth))) 1"
    "ev_f1 r = (if ev_precision r + ev_recall r \<noteq> 0
        then 2 * ev_precision r * ev_recall r / (ev_precision r + ev_recall r) else 0)"
    "ev_critical_bad_release_rate r =
       (if ga_decision g = GatePass \<and> critical_indices (cm_issues truth) \<noteq> {}
        then of_int (int (card (critical_indices (cm_issues truth) - ran M)))
             / of_int (int (card (critical_indices (cm_issues truth)))) else 0)"
    "ev_false_quarantine_rate r =
       (if cm_issues truth = [] \<and> ga_decision g \<in> {GateQuarantine, GateRecapture} then 1 else 0)"
    unfolding r[THEN conjunct2, THEN conjunct2, symmetric] by simp_all
qed

lemma safe_ratio_bounds:
  "0 \<le> n \<Longrightarrow> n \<le> d \<Longrightarrow> 0 \<le> e \<Longrightarrow> e \<le> 1 \<Longrightarrow> 0 \<le> safe_ratio n d e \<and> safe_ratio n d e \<le> 1"
  by (auto simp: safe_ratio_def divide_le_eq_1 zero_le_divide_iff)

lemma f1_bounds:
  fixes p q :: rat
  assumes "0 \<le> p" "p \<le> 1" "0 \<le> q" "q \<le> 1" "p + q \<noteq> 0"
  shows "0 \<le> 2 * p * q / (p + q)" "2 * p * q / (p + q) \<le> 1"
proof -
  have pos: "0 < p + q" using assms by linarith
  show "0 \<le> 2 * p * q / (p + q)" using assms pos by simp
  have "p * q \<le> p" "p * q \<le> q" using assms mult_left_le mult_right_le_one_le by (auto simp: mult_left_le mult_left_le_one_le)
  then show "2 * p * q / (p + q) \<le> 1" using pos by (simp add: divide_le_eq_1)
qed

lemma card_filter_le: "card {j \<in> {0..<n}. Q j} \<le> n"
proof -
  have "card {j \<in> {0..<n}. Q j} \<le> card {0..<n}" by (rule card_mono) auto
  then show ?thesis by simp
qed

lemma evaluate_counts:
  assumes "evaluate_gate truth g post = Inr r"
  shows "0 \<le> ev_true_positive_count r" "0 \<le> ev_false_positive_count r" "0 \<le> ev_false_negative_count r"
    "ev_true_positive_count r + ev_false_negative_count r = ev_truth_issue_count r"
    "ev_true_positive_count r + ev_false_positive_count r = ev_predicted_issue_count r"
proof -
  note f = evaluate_fields[OF assms]
  note c = compatible_facts[OF gate_matching_compatible, of "cm_issues truth" "ga_findings g"]
  have "card (ran (gate_matching (cm_issues truth) (ga_findings g))) \<le> length (cm_issues truth)"
    "card (dom (gate_matching (cm_issues truth) (ga_findings g))) \<le> length (ga_findings g)"
    using card_mono[OF _ c(4)] card_mono[OF _ c(5)] by simp_all
  then show "0 \<le> ev_true_positive_count r" "0 \<le> ev_false_positive_count r" "0 \<le> ev_false_negative_count r"
    "ev_true_positive_count r + ev_false_negative_count r = ev_truth_issue_count r"
    "ev_true_positive_count r + ev_false_positive_count r = ev_predicted_issue_count r"
    using c(3) by (simp_all add: f)
qed

section \<open>An evaluated example\<close>

text \<open>The critical issue is matched first and must give its preferred finding up to the other issue.\<close>

definition demo_issue :: "string \<Rightarrow> severity \<Rightarrow> string list \<Rightarrow> truth_issue" where
  "demo_issue i sev ids = \<lparr>ti_issue_id = i, ti_code = ''low_sharpness'', ti_severity = sev,
     ti_sample_ids = ids, ti_detectable_by = []\<rparr>"

definition demo_truth :: corruption_manifest where
  "demo_truth = \<lparr>cm_seed = 7, cm_batch_id = ''b1'',
     cm_issues = [demo_issue ''t2'' SevHigh [''s1''], demo_issue ''t1'' SevCritical [''s1'', ''s2'']],
     cm_reserve_manifest = ''reserve''\<rparr>"

definition demo_gate_result :: gate_result where
  "demo_gate_result = \<lparr>ga_run_id = ''r1'', ga_batch_id = ''b1'', ga_contract_id = ''c1'',
     ga_input_sha256 = zero_sha, ga_policy_version = ''v1'', ga_decision = GatePass,
     ga_decision_reason = ReasonPass, ga_metrics = [],
     ga_findings = [demo_finding, demo_finding\<lparr>fi_finding_id := ''f2'', fi_sample_ids := [''s2'']\<rparr>],
     ga_tool_trace = [demo_trace],
     ga_council_trace = \<lparr>ct_backend = ''rules'', ct_shared_model_disclosure = [], ct_independent_opinions = [],
       ct_cross_examination = [], ct_unresolved_objections = []\<rparr>,
     ga_rule_checks = [], ga_work_orders = []\<rparr>"

lemma demo_evaluation: "\<exists>r. evaluate_gate demo_truth demo_gate_result None = Inr r"
  by (simp add: evaluate_gate_def Let_def one_to_one_matches_gate demo_truth_def demo_gate_result_def)

lemma demo_matches: "one_to_one_matches (cm_issues demo_truth) (ga_findings demo_gate_result) = ({0, 1}, {0, 1})"
  by code_simp

lemma demo_matched: "ran (gate_matching (cm_issues demo_truth) (ga_findings demo_gate_result)) = {0, 1}"
  using demo_matches by (simp add: one_to_one_matches_gate)

section \<open>Properties\<close>

text \<open>C12: the true positives are the most findings that can be assigned one-to-one to matching truth issues: some
  assignment reaches the count and none exceeds it.\<close>

theorem true_positives_are_maximal:
  assumes "evaluate_gate truth g post = Inr r"
  shows "(\<exists>N. compatible_assignment (cm_issues truth) (ga_findings g) N \<and> ev_true_positive_count r = int (card (dom N)))
    \<and> (\<forall>N. compatible_assignment (cm_issues truth) (ga_findings g) N \<longrightarrow> int (card (dom N)) \<le> ev_true_positive_count r)"
proof -
  let ?M = "gate_matching (cm_issues truth) (ga_findings g)"
  have tp: "ev_true_positive_count r = int (card (ran ?M))" by (rule evaluate_fields(3)[OF assms])
  have "card (dom N) \<le> card (ran ?M)" if "compatible_assignment (cm_issues truth) (ga_findings g) N" for N
    using gate_matching_maximal[OF that] compatible_facts(3)[OF that] by simp
  then show ?thesis
    using gate_matching_compatible[of "cm_issues truth" "ga_findings g"] compatible_facts(3) tp by force
qed

theorem true_positives_are_maximal_witness:
  "\<exists>r. evaluate_gate demo_truth demo_gate_result None = Inr r \<and> ev_true_positive_count r = 2
     \<and> (\<forall>N. compatible_assignment (cm_issues demo_truth) (ga_findings demo_gate_result) N \<longrightarrow> card (dom N) \<le> 2)"
proof -
  obtain r where r: "evaluate_gate demo_truth demo_gate_result None = Inr r" using demo_evaluation by blast
  have "ev_true_positive_count r = 2" by (simp add: evaluate_fields(3)[OF r] demo_matched)
  then show ?thesis using r true_positives_are_maximal[OF r] by auto
qed

text \<open>A PASS is charged with missed critical issues only when no assignment of the findings finds them all, and
  the rate is the least any assignment allows.\<close>

theorem critical_miss_rate_is_minimal:
  assumes "evaluate_gate truth g post = Inr r"
  shows "(\<forall>N. compatible_assignment (cm_issues truth) (ga_findings g) N \<longrightarrow>
        ev_critical_bad_release_rate r * of_int (int (card (critical_indices (cm_issues truth))))
          \<le> of_int (int (card (critical_indices (cm_issues truth) - ran N))))
    \<and> (ev_critical_bad_release_rate r \<noteq> 0 \<longrightarrow> ga_decision g = GatePass
        \<and> (\<forall>N. compatible_assignment (cm_issues truth) (ga_findings g) N \<longrightarrow>
             \<not> critical_indices (cm_issues truth) \<subseteq> ran N))"
proof -
  let ?C = "critical_indices (cm_issues truth)" and ?M = "gate_matching (cm_issues truth) (ga_findings g)"
  have fin: "finite ?C" by (simp add: critical_indices_def)
  note rate = evaluate_fields(9)[OF assms]
  have le: "card (?C - ran ?M) \<le> card (?C - ran N)"
    if N: "compatible_assignment (cm_issues truth) (ga_findings g) N" for N
  proof -
    have "card ?C = card (?C \<inter> ran X) + card (?C - ran X)" for X :: "nat \<Rightarrow> nat option"
      by (rule card_Int_Diff[OF fin])
    from this[of N] this[of ?M] critical_matching_maximal[OF N] show ?thesis
      by (simp only: Int_commute[of ?C])
  qed
  have 1: "ev_critical_bad_release_rate r * of_int (int (card ?C)) \<le> of_int (int (card (?C - ran N)))"
    if N: "compatible_assignment (cm_issues truth) (ga_findings g) N" for N
    using le[OF N] fin by (auto simp: rate card_eq_0_iff)
  have "card (?C - ran ?M) = 0" if "compatible_assignment (cm_issues truth) (ga_findings g) N" "?C \<subseteq> ran N" for N
    using le[OF that(1)] that(2) by (simp add: Diff_eq_empty_iff[THEN iffD2])
  then show ?thesis using 1 by (auto simp: rate split: if_splits)
qed

text \<open>The counts reconcile, every rate lies between 0 and 1 (so the result model accepts them), and precision and
  recall are both 1 exactly when every finding is matched and every truth issue is found.\<close>

theorem evaluation_rates_bounded:
  assumes "evaluate_gate truth g post = Inr r"
  shows "ev_true_positive_count r + ev_false_negative_count r = ev_truth_issue_count r
    \<and> ev_true_positive_count r + ev_false_positive_count r = ev_predicted_issue_count r
    \<and> 0 \<le> ev_true_positive_count r \<and> 0 \<le> ev_false_positive_count r \<and> 0 \<le> ev_false_negative_count r
    \<and> {ev_precision r, ev_recall r, ev_f1 r, ev_critical_bad_release_rate r, ev_false_quarantine_rate r,
        ev_work_order_recall r, ev_irrelevant_work_order_rate r} \<subseteq> {0..1}
    \<and> (ev_precision r = 1 \<and> ev_recall r = 1 \<longleftrightarrow> ev_false_positive_count r = 0 \<and> ev_false_negative_count r = 0)"
proof -
  note f = evaluate_fields[OF assms] and c = evaluate_counts[OF assms]
  have p: "0 \<le> ev_precision r \<and> ev_precision r \<le> 1"
    unfolding f(6) using c by (intro safe_ratio_bounds) auto
  have q: "0 \<le> ev_recall r \<and> ev_recall r \<le> 1"
    unfolding f(7) using c f(1) by (intro safe_ratio_bounds) auto
  have f1: "0 \<le> ev_f1 r \<and> ev_f1 r \<le> 1" unfolding f(8) using f1_bounds p q by auto
  let ?C = "critical_indices (cm_issues truth)"
  have cc: "card (?C - X) \<le> card ?C" for X by (intro card_mono) (auto simp: critical_indices_def)
  have cr: "0 \<le> ev_critical_bad_release_rate r \<and> ev_critical_bad_release_rate r \<le> 1"
    unfolding f(9) using cc by (auto simp: divide_le_eq_1)
  have fq: "0 \<le> ev_false_quarantine_rate r \<and> ev_false_quarantine_rate r \<le> 1" unfolding f(10) by simp
  have wo: "0 \<le> ev_work_order_recall r \<and> ev_work_order_recall r \<le> 1"
    "0 \<le> ev_irrelevant_work_order_rate r \<and> ev_irrelevant_work_order_rate r \<le> 1"
    using assms card_filter_le
    by (auto simp: evaluate_gate_def Let_def one_to_one_matches_gate intro!: safe_ratio_bounds[THEN conjunct1] safe_ratio_bounds[THEN conjunct2])
  have one: "safe_ratio a b e = 1 \<longleftrightarrow> (if b = 0 then e = 1 else a = b)" for a b and e :: rat
    by (auto simp: safe_ratio_def)
  have eq: "ev_precision r = 1 \<and> ev_recall r = 1 \<longleftrightarrow> ev_false_positive_count r = 0 \<and> ev_false_negative_count r = 0"
    unfolding f(6,7) one using c f(1) by (cases "cm_issues truth") (auto split: if_splits)
  show ?thesis using c p q f1 cr fq wo eq by auto
qed

end
