(* ===== verification/Reserve_Repair.thy ===== *)
theory Reserve_Repair
  imports Gate_Checks
begin

text \<open>
  \<open>repair.py\<close>: the non-destructive repair of a batch from reserve samples. Work orders are turned into targets and
  coverage cells, reserves are chosen, and a copy plan with the repaired manifest is published. The file system is
  the record \<open>filesystem\<close> of the observations the code makes of it; a path is the list of its components.
  A \<open>RepairError\<close> is one constructor per raise site, and \<open>ManifestRejected\<close> is the validation error of the final manifest.
\<close>

section \<open>Files\<close>

type_synonym path = "string list"

record filesystem =
  fs_is_symlink :: "path \<Rightarrow> bool"
  fs_exists :: "path \<Rightarrow> bool"
  fs_resolve :: "path \<Rightarrow> path option"        \<comment> \<open>\<open>resolve(strict=True)\<close>\<close>
  fs_resolve_lax :: "path \<Rightarrow> path"             \<comment> \<open>\<open>resolve(strict=False)\<close>\<close>
  fs_is_dir :: "path \<Rightarrow> bool"
  fs_is_file :: "path \<Rightarrow> bool"
  fs_manifest :: "path \<Rightarrow> batch_manifest option" \<comment> \<open>the parsed text, before validation\<close>

datatype repair_error =
    DirectorySymlink | DirectoryMissing | NotADirectory
  | UnsafeManifestPath | SourceSymlink | SourceMissing | SourceEscapes | SourceNotAFile
  | ReserveSymlink | ReserveMissing | ReserveNotAFile | ReserveInvalid
  | AmbiguousReplacement string | NoMatchingReserve string | NoCoverageReserve
  | NoTargetSamples | NoMissingCells | InvalidCell | IncompleteCell | InvalidCellLabels
  | InvalidCellCounts | NoAdditions
  | OutputExists | OutputParentMissing | OutputParentNotADirectory | OutputParentSymlink | OutputInside
  | InvestigationOrder string | UnknownTarget string | NoReserveTarget string
  | DuplicateOutput string | ReserveWithoutAnnotation string | CoverageReserveWithoutAnnotation
  | ManifestRejected contract_error
  | PublishUnavailable | PublishOSError

definition existing_directory :: "filesystem \<Rightarrow> path \<Rightarrow> repair_error + path" where
  "existing_directory fs candidate =
     rbind (require (\<not> fs_is_symlink fs candidate) DirectorySymlink) (\<lambda>_.
     rbind (of_opt DirectoryMissing (fs_resolve fs candidate)) (\<lambda>resolved.
     rbind (require (fs_is_dir fs resolved) NotADirectory) (\<lambda>_. Inr resolved)))"

text \<open>\<open>PurePosixPath\<close> drops empty and \<open>.\<close> components.\<close>

definition relative_parts :: "string \<Rightarrow> repair_error + path" where
  "relative_parts value =
     (let posix = to_posix value;
          parts = filter (\<lambda>p. p \<noteq> [] \<and> p \<noteq> ''.'') (split_on (CHR ''/'') posix) in
      rbind (require (\<not> (take 1 posix = ''/'' \<or> parts = [] \<or> ''..'' \<in> set parts)) UnsafeManifestPath)
        (\<lambda>_. Inr parts))"

fun walk_parts :: "filesystem \<Rightarrow> path \<Rightarrow> path \<Rightarrow> repair_error + path" where
  "walk_parts fs current [] = Inr current"
| "walk_parts fs current (part # parts) =
     rbind (require (\<not> fs_is_symlink fs (current @ [part])) SourceSymlink) (\<lambda>_.
     walk_parts fs (current @ [part]) parts)"

definition safe_source_file :: "filesystem \<Rightarrow> path \<Rightarrow> string \<Rightarrow> repair_error + path" where
  "safe_source_file fs base rel =
     rbind (relative_parts rel) (\<lambda>parts.
     rbind (walk_parts fs base parts) (\<lambda>current.
     rbind (of_opt SourceMissing (fs_resolve fs current)) (\<lambda>resolved.
     rbind (require (take (length base) resolved = base) SourceEscapes) (\<lambda>_.
     rbind (require (fs_is_file fs resolved) SourceNotAFile) (\<lambda>_. Inr resolved)))))"

definition load_reserve_manifest :: "filesystem \<Rightarrow> path \<Rightarrow> repair_error + path \<times> batch_manifest" where
  "load_reserve_manifest fs p =
     rbind (require (\<not> fs_is_symlink fs p) ReserveSymlink) (\<lambda>_.
     rbind (of_opt ReserveMissing (fs_resolve fs p)) (\<lambda>resolved.
     rbind (require (fs_is_file fs resolved) ReserveNotAFile) (\<lambda>_.
     rbind (existing_directory fs (butlast resolved)) (\<lambda>base.
     rbind (of_opt ReserveInvalid (fs_manifest fs resolved)) (\<lambda>raw.
     rbind (lift_err (\<lambda>_. ReserveInvalid) (validate_manifest raw)) (\<lambda>reserve.
     Inr (base, reserve)))))))"

definition resolved_new_output ::
    "filesystem \<Rightarrow> path \<Rightarrow> path \<Rightarrow> path \<Rightarrow> repair_error + path \<times> path" where
  "resolved_new_output fs requested batch_root reserve_root =
     rbind (require (\<not> (fs_exists fs requested \<or> fs_is_symlink fs requested)) OutputExists) (\<lambda>_.
     rbind (of_opt OutputParentMissing (fs_resolve fs (butlast requested))) (\<lambda>parent.
     rbind (require (fs_is_dir fs parent) OutputParentNotADirectory) (\<lambda>_.
     rbind (require (\<not> fs_is_symlink fs (butlast requested)) OutputParentSymlink) (\<lambda>_.
     (let output = fs_resolve_lax fs (parent @ [last requested]) in
      rbind (require (\<not> (take (length batch_root) output = batch_root
          \<or> take (length reserve_root) output = reserve_root)) OutputInside) (\<lambda>_.
      Inr (parent, output)))))))"

section \<open>Choosing reserves\<close>

definition compatible_unlinked_reserve :: "sample_record \<Rightarrow> sample_record \<Rightarrow> bool" where
  "compatible_unlinked_reserve reserve target \<longleftrightarrow>
     sr_source_sample_id reserve = None \<and> sr_split reserve = sr_split target
     \<and> sr_category reserve = sr_category target \<and> sr_view reserve = sr_view target
     \<and> sr_condition reserve = sr_condition target"

definition select_reserve ::
    "sample_record \<Rightarrow> sample_record list \<Rightarrow> string list \<Rightarrow> repair_error + sample_record" where
  "select_reserve target reserve_samples used =
     (let available = filter (\<lambda>s. sr_sample_id s \<notin> set used) reserve_samples;
          linked = sort_key sr_sample_id
            (filter (\<lambda>s. sr_source_sample_id s = Some (sr_sample_id target)) available) in
      if 1 < length linked then Inl (AmbiguousReplacement (sr_sample_id target))
      else if linked \<noteq> [] then Inr (hd linked)
      else (let same_id = filter (\<lambda>s. sr_source_sample_id s = None \<and> sr_sample_id s = sr_sample_id target)
              available in
        if same_id \<noteq> [] then Inr (hd same_id)
        else (let compatible = sort_key sr_sample_id
                (filter (\<lambda>s. compatible_unlinked_reserve s target) available) in
          if compatible \<noteq> [] then Inr (hd compatible)
          else Inl (NoMatchingReserve (sr_sample_id target)))))"

record coverage_cell =
  cv_split :: string
  cv_category :: string
  cv_view :: string
  cv_condition :: string
  cv_observed_count :: int
  cv_required_count :: int

definition select_coverage_reserve ::
    "coverage_cell \<Rightarrow> sample_record list \<Rightarrow> string list \<Rightarrow> repair_error + sample_record" where
  "select_coverage_reserve cell reserve_samples used =
     (let compatible = sort_key sr_sample_id (filter (\<lambda>s. sr_sample_id s \<notin> set used
            \<and> sr_source_sample_id s = None \<and> split_str (sr_split s) = cv_split cell
            \<and> sr_category s = cv_category cell \<and> sr_view s = cv_view cell
            \<and> sr_condition s = cv_condition cell) reserve_samples) in
      if compatible = [] then Inl NoCoverageReserve else Inr (hd compatible))"

section \<open>Coverage cells of a work order\<close>

definition label_of :: "json \<Rightarrow> string option" where
  "label_of v = (case v of JStr s \<Rightarrow> if s \<noteq> [] then Some s else None | _ \<Rightarrow> None)"

definition count_of :: "int \<Rightarrow> json \<Rightarrow> int option" where
  "count_of least v = (case v of JInt n \<Rightarrow> if least \<le> n then Some n else None | _ \<Rightarrow> None)"

definition parse_cell :: "json \<Rightarrow> repair_error + coverage_cell" where
  "parse_cell raw =
     (case raw of JObj kvs \<Rightarrow>
        rbind (rmap (\<lambda>k. of_opt IncompleteCell (map_of kvs k))
          [''split'', ''category'', ''view'', ''condition'', ''observed_count'', ''required_count'']) (\<lambda>vs.
        rbind (rmap (\<lambda>v. of_opt InvalidCellLabels (label_of v)) (take 4 vs)) (\<lambda>ls.
        rbind (of_opt InvalidCellCounts (count_of 0 (vs ! 4))) (\<lambda>observed.
        rbind (of_opt InvalidCellCounts (count_of 1 (vs ! 5))) (\<lambda>required.
        Inr \<lparr>cv_split = ls ! 0, cv_category = ls ! 1, cv_view = ls ! 2, cv_condition = ls ! 3,
             cv_observed_count = observed, cv_required_count = required\<rparr>))))
      | _ \<Rightarrow> Inl InvalidCell)"

definition coverage_cells :: "work_order \<Rightarrow> repair_error + coverage_cell list" where
  "coverage_cells wo =
     rbind (require (\<exists>c\<in>set (wo_reason_codes wo). upper c \<in> {''COVERAGE_GAP'', ''GOVERNANCE_SCOPE_GAP''})
       NoTargetSamples) (\<lambda>_.
     rbind (of_opt NoMissingCells (case map_of (wo_replacement_requirements wo) ''missing_cells'' of
         Some (JArr xs) \<Rightarrow> if xs \<noteq> [] then Some xs else None | _ \<Rightarrow> None)) (\<lambda>raw_cells.
     rbind (rmap parse_cell raw_cells) (\<lambda>cells.
     (let additions = concat (map (\<lambda>c. replicate (nat (cv_required_count c - cv_observed_count c)) c) cells) in
      rbind (require (additions \<noteq> []) NoAdditions) (\<lambda>_. Inr additions)))))"

section \<open>Targets\<close>

fun add_new :: "'a list \<Rightarrow> 'a list \<Rightarrow> 'a list" where
  "add_new ids [] = ids"
| "add_new ids (x # xs) = add_new (if x \<in> set ids then ids else ids @ [x]) xs"

text \<open>The loop over the work orders; it carries \<open>target_ids\<close> and \<open>coverage_cells\<close>.\<close>

fun gather_orders ::
    "sample_record list \<Rightarrow> sample_record list \<Rightarrow> work_order list \<Rightarrow> string list \<Rightarrow> coverage_cell list
       \<Rightarrow> repair_error + string list \<times> coverage_cell list" where
  "gather_orders samples reserves [] target_ids cells = Inr (target_ids, cells)"
| "gather_orders samples reserves (wo # orders) target_ids cells =
     rbind (require (wo_action wo \<noteq> Investigate) (InvestigationOrder (wo_work_order_id wo))) (\<lambda>_.
     if wo_sample_ids wo = []
     then rbind (coverage_cells wo) (\<lambda>cs. gather_orders samples reserves orders target_ids (cells @ cs))
     else
       rbind (reach_all (\<lambda>i. require (i \<in> sr_sample_id ` set samples) (UnknownTarget i)) (wo_sample_ids wo)) (\<lambda>_.
       (let linked = filter (\<lambda>i. \<exists>r\<in>set reserves. sr_source_sample_id r = Some i) (wo_sample_ids wo);
            already = list_ex (\<lambda>i. i \<in> set target_ids) (wo_sample_ids wo);
            actionable = (if 1 < length (wo_sample_ids wo) \<and> (linked \<noteq> [] \<or> already) then linked
                          else wo_sample_ids wo) in
        rbind (require (actionable \<noteq> [] \<or> already) (NoReserveTarget (wo_work_order_id wo))) (\<lambda>_.
        gather_orders samples reserves orders (add_new target_ids actionable) cells))))"

type_synonym cell_key = "string \<times> string \<times> string \<times> string"

definition cell_key_of :: "coverage_cell \<Rightarrow> cell_key" where
  "cell_key_of c = (cv_split c, cv_category c, cv_view c, cv_condition c)"

definition merge_cell :: "(cell_key \<times> coverage_cell) list \<Rightarrow> coverage_cell \<Rightarrow> (cell_key \<times> coverage_cell) list" where
  "merge_cell acc c =
     (case map_of acc (cell_key_of c) of
        None \<Rightarrow> dict_set (cell_key_of c) c acc
      | Some existing \<Rightarrow> dict_set (cell_key_of c)
          (existing\<lparr>cv_observed_count := min (cv_observed_count existing) (cv_observed_count c),
                    cv_required_count := max (cv_required_count existing) (cv_required_count c)\<rparr>) acc)"

definition deduped_cells :: "coverage_cell list \<Rightarrow> coverage_cell list" where
  "deduped_cells cells =
     (let deduped = foldl merge_cell [] cells in map (\<lambda>k. the (map_of deduped k)) (sort (map fst deduped)))"

section \<open>Replacements and the repaired samples\<close>

text \<open>The loop over \<open>target_ids\<close>: a reserve is used at most once.\<close>

fun choose_replacements ::
    "sample_record list \<Rightarrow> sample_record list \<Rightarrow> string list \<Rightarrow> string list \<Rightarrow> (string \<times> sample_record) list
       \<Rightarrow> repair_error + string list \<times> (string \<times> sample_record) list" where
  "choose_replacements samples reserves [] used replacements = Inr (used, replacements)"
| "choose_replacements samples reserves (i # ids) used replacements =
     rbind (of_opt (UnknownTarget i) (find (\<lambda>s. sr_sample_id s = i) samples)) (\<lambda>target.
     rbind (select_reserve target reserves used) (\<lambda>reserve.
     choose_replacements samples reserves ids (sr_sample_id reserve # used)
       (dict_set i reserve replacements)))"

type_synonym copy_plan = "(path \<times> string) list"

definition plan_copy ::
    "path \<Rightarrow> string \<Rightarrow> copy_plan \<Rightarrow> repair_error + copy_plan" where
  "plan_copy source rel plan =
     rbind (require (rel \<notin> set (map snd plan)) (DuplicateOutput rel)) (\<lambda>_. Inr (plan @ [(source, rel)]))"

text \<open>One step of the loop over \<open>manifest.samples\<close>. The set \<open>destinations\<close> is the second column of the copy plan.\<close>

definition repair_sample ::
    "filesystem \<Rightarrow> path \<Rightarrow> path \<Rightarrow> (string \<times> sample_record) list \<Rightarrow> sample_record \<Rightarrow> copy_plan
       \<Rightarrow> repair_error + sample_record \<times> copy_plan" where
  "repair_sample fs source_root reserve_root replacements target plan =
     (let replacement = map_of replacements (sr_sample_id target);
          source_record = (case replacement of None \<Rightarrow> target | Some r \<Rightarrow> r);
          payload_root = (case replacement of None \<Rightarrow> source_root | Some _ \<Rightarrow> reserve_root) in
      rbind (safe_source_file fs payload_root (sr_relative_path source_record)) (\<lambda>image.
      rbind (plan_copy image (sr_relative_path target) plan) (\<lambda>plan1.
      rbind (case sr_annotation_path target of None \<Rightarrow> Inr plan1
             | Some annotation \<Rightarrow>
                 rbind (of_opt (ReserveWithoutAnnotation (sr_sample_id source_record))
                   (sr_annotation_path source_record)) (\<lambda>source_annotation.
                 rbind (safe_source_file fs payload_root source_annotation) (\<lambda>mask.
                 plan_copy mask annotation plan1))) (\<lambda>plan2.
      Inr (case replacement of None \<Rightarrow> target
           | Some r \<Rightarrow> target\<lparr>sr_source_sample_id := Some (sr_sample_id r)\<rparr>, plan2)))))"

fun repair_samples ::
    "filesystem \<Rightarrow> path \<Rightarrow> path \<Rightarrow> (string \<times> sample_record) list \<Rightarrow> sample_record list \<Rightarrow> copy_plan
       \<Rightarrow> repair_error + sample_record list \<times> copy_plan" where
  "repair_samples fs source_root reserve_root replacements [] plan = Inr ([], plan)"
| "repair_samples fs source_root reserve_root replacements (target # rest_samples) plan =
     rbind (repair_sample fs source_root reserve_root replacements target plan) (\<lambda>(repaired, plan1).
     rbind (repair_samples fs source_root reserve_root replacements rest_samples plan1) (\<lambda>(rest, plan2).
     Inr (repaired # rest, plan2)))"

section \<open>Added coverage samples\<close>

text \<open>\<open>f"coverage-add-{index:03d}"\<close>\<close>

definition coverage_id :: "nat \<Rightarrow> string" where
  "coverage_id k = (let s = nat_str k in ''coverage-add-'' @ replicate (3 - length s) (CHR ''0'') @ s)"

lemma digits_val_zeros: "digits_val (replicate n (CHR ''0'') @ ds) = digits_val ds"
  by (induction n) (simp_all add: digits_val_def)

lemma coverage_id_inject: "coverage_id j = coverage_id k \<Longrightarrow> j = k"
proof -
  assume "coverage_id j = coverage_id k"
  then have "digits_val (drop 13 (coverage_id j)) = digits_val (drop 13 (coverage_id k))" by simp
  then show "j = k" by (simp add: coverage_id_def Let_def digits_val_zeros digits_val_nat_str)
qed

text \<open>The \<open>while True\<close> loop that skips identifiers in use; it ends since only finitely many are.\<close>

function next_coverage :: "string list \<Rightarrow> nat \<Rightarrow> string \<times> nat" where
  "next_coverage existing k =
     (if coverage_id k \<in> set existing then next_coverage existing (k + 1) else (coverage_id k, k + 1))"
  by pat_completeness auto

lemma finite_taken: "finite {j. k \<le> j \<and> coverage_id j \<in> set existing}"
proof -
  have "inj_on coverage_id {j. k \<le> j \<and> coverage_id j \<in> set existing}"
    by (auto intro: inj_onI dest: coverage_id_inject)
  then show ?thesis by (rule inj_on_finite[where B = "set existing"]) auto
qed

termination next_coverage
proof (relation "measure (\<lambda>(existing, k). card {j. k \<le> j \<and> coverage_id j \<in> set existing})", goal_cases)
  case (2 existing k)
  have "{j. k + 1 \<le> j \<and> coverage_id j \<in> set existing} \<subset> {j. k \<le> j \<and> coverage_id j \<in> set existing}"
    using 2 by (auto simp: Suc_le_eq)
  then show ?case by (simp add: psubset_card_mono finite_taken)
qed simp

declare next_coverage.simps [simp del]

definition split_of_str :: "string \<Rightarrow> split option" where
  "split_of_str s = find (\<lambda>sp. split_str sp = s) [Train, Val, Test]"

definition coverage_image :: "string \<Rightarrow> string" where
  "coverage_image new_id = ''images/'' @ new_id @ ''.png''"

definition coverage_mask :: "string \<Rightarrow> string" where
  "coverage_mask new_id = ''masks/'' @ new_id @ ''.png''"

text \<open>One step of the loop over \<open>coverage_cells\<close>: the added sample, the reserve it uses, the next index and the plan.\<close>

definition add_coverage_sample ::
    "filesystem \<Rightarrow> path \<Rightarrow> sample_record list \<Rightarrow> coverage_cell \<Rightarrow> string list \<Rightarrow> string list \<Rightarrow> nat \<Rightarrow> copy_plan
       \<Rightarrow> repair_error + sample_record \<times> sample_record \<times> nat \<times> copy_plan" where
  "add_coverage_sample fs reserve_root reserves cell used existing k plan =
     rbind (select_coverage_reserve cell reserves used) (\<lambda>reserve.
     (let (new_id, k') = next_coverage existing k;
          image_rel = coverage_image new_id; mask_rel = coverage_mask new_id in
      rbind (of_opt CoverageReserveWithoutAnnotation (sr_annotation_path reserve)) (\<lambda>annotation.
      rbind (of_opt (ManifestRejected FieldConstraint) (split_of_str (cv_split cell))) (\<lambda>sp.
      rbind (lift_err ManifestRejected (validate_sample
        \<lparr>sr_sample_id = new_id, sr_relative_path = image_rel, sr_split = sp, sr_category = cv_category cell,
         sr_view = cv_view cell, sr_condition = cv_condition cell, sr_annotation_path = Some mask_rel,
         sr_source_sample_id = Some (sr_sample_id reserve)\<rparr>)) (\<lambda>added.
      rbind (safe_source_file fs reserve_root (sr_relative_path reserve)) (\<lambda>image.
      rbind (safe_source_file fs reserve_root annotation) (\<lambda>mask.
      rbind (plan_copy image image_rel plan) (\<lambda>plan1.
      rbind (plan_copy mask mask_rel plan1) (\<lambda>plan2.
      Inr (added, reserve, k', plan2))))))))))"

fun add_coverage_samples ::
    "filesystem \<Rightarrow> path \<Rightarrow> sample_record list \<Rightarrow> coverage_cell list \<Rightarrow> string list \<Rightarrow> string list \<Rightarrow> nat \<Rightarrow> copy_plan
       \<Rightarrow> repair_error + (sample_record \<times> sample_record) list \<times> copy_plan" where
  "add_coverage_samples fs reserve_root reserves [] used existing k plan = Inr ([], plan)"
| "add_coverage_samples fs reserve_root reserves (cell # cells) used existing k plan =
     rbind (add_coverage_sample fs reserve_root reserves cell used existing k plan) (\<lambda>(added, reserve, k', plan1).
     rbind (add_coverage_samples fs reserve_root reserves cells (sr_sample_id reserve # used)
       (sr_sample_id added # existing) k' plan1) (\<lambda>(rest, plan2).
     Inr ((added, reserve) # rest, plan2)))"

section \<open>The repair\<close>

record repair_result =
  rr_output_root :: path
  rr_manifest :: batch_manifest
  rr_completed_work_orders :: "work_order list"
  rr_replacement_map :: "(string \<times> string) list"
  rr_copy_plan :: copy_plan

datatype rename_outcome = Renamed | AccessDenied | OtherOSError

text \<open>
  \<open>_publish_staging_directory\<close>: \<open>taken n\<close> and \<open>rename n\<close> are what attempt \<open>n\<close> observes; \<open>windows\<close> allows five attempts
  instead of one. The result is the number of attempts made.
\<close>

fun publish_attempts ::
    "bool \<Rightarrow> (nat \<Rightarrow> bool) \<Rightarrow> (nat \<Rightarrow> rename_outcome) \<Rightarrow> nat \<Rightarrow> nat list \<Rightarrow> repair_error + nat" where
  "publish_attempts windows taken rename attempts [] = Inl PublishUnavailable"
| "publish_attempts windows taken rename attempts (n # ns) =
     rbind (require (\<not> taken n) OutputExists) (\<lambda>_.
     case rename n of
       Renamed \<Rightarrow> Inr (n + 1)
     | OtherOSError \<Rightarrow> Inl PublishOSError
     | AccessDenied \<Rightarrow>
         if \<not> windows then Inl PublishOSError
         else if n + 1 = attempts then Inl PublishUnavailable
         else publish_attempts windows taken rename attempts ns)"

definition publish_staging_directory ::
    "bool \<Rightarrow> (nat \<Rightarrow> bool) \<Rightarrow> (nat \<Rightarrow> rename_outcome) \<Rightarrow> repair_error + nat" where
  "publish_staging_directory windows taken rename =
     (let attempts = (if windows then 5 else 1) in
      publish_attempts windows taken rename attempts [0..<attempts])"

definition destination_paths :: "copy_plan \<Rightarrow> repair_error + path list" where
  "destination_paths plan = rmap (\<lambda>(_, rel). relative_parts rel) plan"

definition simulate_repair ::
    "filesystem \<Rightarrow> bool \<Rightarrow> (nat \<Rightarrow> bool) \<Rightarrow> (nat \<Rightarrow> rename_outcome) \<Rightarrow> path \<Rightarrow> batch_manifest \<Rightarrow> path
       \<Rightarrow> work_order list \<Rightarrow> path \<Rightarrow> repair_error + repair_result" where
  "simulate_repair fs windows taken rename batch_root manifest reserve_manifest orders output_root =
     rbind (existing_directory fs batch_root) (\<lambda>source_root.
     rbind (load_reserve_manifest fs reserve_manifest) (\<lambda>(reserve_root, reserve).
     rbind (resolved_new_output fs output_root source_root reserve_root) (\<lambda>(_, output).
     rbind (gather_orders (bm_samples manifest) (bm_samples reserve) orders [] []) (\<lambda>(target_ids, raw_cells).
     rbind (choose_replacements (bm_samples manifest) (bm_samples reserve) target_ids [] [])
       (\<lambda>(used, replacements).
     rbind (repair_samples fs source_root reserve_root replacements (bm_samples manifest) [])
       (\<lambda>(repaired, plan1).
     rbind (add_coverage_samples fs reserve_root (bm_samples reserve) (deduped_cells raw_cells) used
       (map sr_sample_id repaired) 1 plan1) (\<lambda>(added, plan2).
     rbind (lift_err ManifestRejected (validate_manifest (manifest\<lparr>bm_samples := repaired @ map fst added\<rparr>)))
       (\<lambda>repaired_manifest.
     rbind (destination_paths plan2) (\<lambda>_.
     rbind (publish_staging_directory windows taken rename) (\<lambda>_.
     Inr \<lparr>rr_output_root = output, rr_manifest = repaired_manifest,
          rr_completed_work_orders = map (\<lambda>wo. wo\<lparr>wo_status := OrderSimulatedComplete\<rparr>) orders,
          rr_replacement_map = map (\<lambda>(i, r). (i, sr_sample_id r)) replacements
            @ map (\<lambda>(a, r). (sr_sample_id a, sr_sample_id r)) added,
          rr_copy_plan = plan2\<rparr>))))))))))"

section \<open>Lemmas\<close>

lemma hd_sort_key_in: "sort_key f xs \<noteq> [] \<Longrightarrow> hd (sort_key f xs) \<in> set xs"
  by (metis hd_in_set set_sort)

lemma hd_sort_filter: "sort_key f (filter P xs) \<noteq> [] \<Longrightarrow> hd (sort_key f (filter P xs)) \<in> {x \<in> set xs. P x}"
  using hd_sort_key_in[of f "filter P xs"] by simp

lemma hd_filter: "filter P xs \<noteq> [] \<Longrightarrow> hd (filter P xs) \<in> {x \<in> set xs. P x}"
  using hd_in_set[of "filter P xs"] by simp

text \<open>What a chosen reserve has to do with its target.\<close>

definition serves :: "sample_record \<Rightarrow> sample_record \<Rightarrow> bool" where
  "serves reserve target \<longleftrightarrow> sr_source_sample_id reserve = Some (sr_sample_id target)
     \<or> sr_source_sample_id reserve = None
       \<and> (sr_sample_id reserve = sr_sample_id target \<or> compatible_unlinked_reserve reserve target)"

lemma select_reserve_Inr:
  assumes "select_reserve target reserves used = Inr r"
  shows "r \<in> set reserves \<and> sr_sample_id r \<notin> set used \<and> serves r target"
proof -
  define available where "available = filter (\<lambda>s. sr_sample_id s \<notin> set used) reserves"
  define linked where "linked = sort_key sr_sample_id
    (filter (\<lambda>s. sr_source_sample_id s = Some (sr_sample_id target)) available)"
  define same where "same = filter (\<lambda>s. sr_source_sample_id s = None \<and> sr_sample_id s = sr_sample_id target) available"
  define compat where "compat = sort_key sr_sample_id (filter (\<lambda>s. compatible_unlinked_reserve s target) available)"
  have r: "(if 1 < length linked then Inl (AmbiguousReplacement (sr_sample_id target))
      else if linked \<noteq> [] then Inr (hd linked) else if same \<noteq> [] then Inr (hd same)
      else if compat \<noteq> [] then Inr (hd compat) else Inl (NoMatchingReserve (sr_sample_id target))) = Inr r"
    using assms unfolding select_reserve_def Let_def available_def linked_def same_def compat_def .
  have av: "x \<in> set reserves \<and> sr_sample_id x \<notin> set used" if "x \<in> set available" for x
    using that by (simp add: available_def)
  consider "linked \<noteq> []" "r = hd linked" | "same \<noteq> []" "r = hd same" | "compat \<noteq> []" "r = hd compat"
    using r by (auto split: if_splits)
  then show ?thesis
  proof cases
    case 1
    then show ?thesis using hd_sort_filter[of sr_sample_id _ available] av by (fastforce simp: linked_def serves_def)
  next
    case 2
    then show ?thesis using hd_filter[of _ available] av by (fastforce simp: same_def serves_def)
  next
    case 3
    then show ?thesis using hd_sort_filter[of sr_sample_id _ available] av
      by (fastforce simp: compat_def serves_def compatible_unlinked_reserve_def)
  qed
qed

definition fills :: "sample_record \<Rightarrow> coverage_cell \<Rightarrow> bool" where
  "fills s cell \<longleftrightarrow> split_str (sr_split s) = cv_split cell \<and> sr_category s = cv_category cell
     \<and> sr_view s = cv_view cell \<and> sr_condition s = cv_condition cell"

lemma select_coverage_Inr:
  assumes "select_coverage_reserve cell reserves used = Inr r"
  shows "r \<in> set reserves \<and> sr_sample_id r \<notin> set used \<and> sr_source_sample_id r = None \<and> fills r cell"
  using assms hd_sort_filter[of sr_sample_id _ reserves]
  by (fastforce simp: select_coverage_reserve_def Let_def fills_def split: if_splits)

lemma choose_replacements_Inr:
  assumes "choose_replacements samples reserves ids used repl = Inr (used', repl')"
    and "distinct ids" and "set ids \<inter> fst ` set repl = {}" and "distinct used"
  shows "\<exists>rs. length rs = length ids \<and> repl' = repl @ zip ids rs \<and> used' = rev (map sr_sample_id rs) @ used
    \<and> distinct used'
    \<and> (\<forall>(i, r)\<in>set (zip ids rs). r \<in> set reserves \<and> (\<exists>t\<in>set samples. sr_sample_id t = i \<and> serves r t))"
  using assms
proof (induction ids arbitrary: used repl)
  case Nil
  then show ?case by simp
next
  case (Cons i ids)
  from Cons.prems(1) obtain t r where t: "find (\<lambda>s. sr_sample_id s = i) samples = Some t"
    and r: "select_reserve t reserves used = Inr r"
    and rest: "choose_replacements samples reserves ids (sr_sample_id r # used) (dict_set i r repl) = Inr (used', repl')"
    by auto
  note sr = select_reserve_Inr[OF r]
  have t': "t \<in> set samples" "sr_sample_id t = i" using t by (auto simp: find_Some_iff)
  have new: "dict_set i r repl = repl @ [(i, r)]" using Cons.prems(3) by (intro dict_set_new) auto
  obtain rs where rs: "length rs = length ids" "repl' = (repl @ [(i, r)]) @ zip ids rs"
    "used' = rev (map sr_sample_id rs) @ sr_sample_id r # used" "distinct used'"
    "\<forall>(i, r)\<in>set (zip ids rs). r \<in> set reserves \<and> (\<exists>t\<in>set samples. sr_sample_id t = i \<and> serves r t)"
    using Cons.IH[OF rest[unfolded new]] Cons.prems sr by auto
  show ?case
    by (intro exI[of _ "r # rs"]) (use rs sr t' in auto)
qed

lemma add_new_props: "distinct ids \<Longrightarrow> distinct (add_new ids xs) \<and> set (add_new ids xs) = set ids \<union> set xs"
  by (induction xs arbitrary: ids) auto

lemma gather_orders_Inr:
  assumes "gather_orders samples reserves orders ids cells = Inr (ids', cells')"
    and "distinct ids" and "set ids \<subseteq> sr_sample_id ` set samples"
  shows "distinct ids' \<and> set ids \<subseteq> set ids' \<and> set ids' \<subseteq> sr_sample_id ` set samples
    \<and> (\<forall>wo\<in>set orders. wo_action wo \<noteq> Investigate \<and> set (wo_sample_ids wo) \<subseteq> sr_sample_id ` set samples
        \<and> (wo_sample_ids wo \<noteq> [] \<longrightarrow> set (wo_sample_ids wo) \<inter> set ids' \<noteq> {}))"
  using assms
proof (induction orders arbitrary: ids cells)
  case Nil
  then show ?case by simp
next
  case (Cons wo orders)
  show ?case
  proof (cases "wo_sample_ids wo = []")
    case True
    then obtain cs where "wo_action wo \<noteq> Investigate"
      and g: "gather_orders samples reserves orders ids (cells @ cs) = Inr (ids', cells')"
      using Cons.prems(1) by auto
    then show ?thesis using Cons.IH[OF g Cons.prems(2,3)] True by simp
  next
    case False
    let ?linked = "filter (\<lambda>i. \<exists>r\<in>set reserves. sr_source_sample_id r = Some i) (wo_sample_ids wo)"
    let ?already = "list_ex (\<lambda>i. i \<in> set ids) (wo_sample_ids wo)"
    define act where "act = (if 1 < length (wo_sample_ids wo) \<and> (?linked \<noteq> [] \<or> ?already) then ?linked else wo_sample_ids wo)"
    have g: "wo_action wo \<noteq> Investigate" "\<forall>i\<in>set (wo_sample_ids wo). i \<in> sr_sample_id ` set samples"
      "act \<noteq> [] \<or> ?already" "gather_orders samples reserves orders (add_new ids act) cells = Inr (ids', cells')"
      using Cons.prems(1) False by (auto simp: Let_def act_def)
    have sub: "set act \<subseteq> set (wo_sample_ids wo)" by (auto simp: act_def)
    have an: "distinct (add_new ids act)" "set (add_new ids act) = set ids \<union> set act"
      using add_new_props[OF Cons.prems(2)] by auto
    have ih: "distinct ids' \<and> set (add_new ids act) \<subseteq> set ids' \<and> set ids' \<subseteq> sr_sample_id ` set samples
      \<and> (\<forall>wo\<in>set orders. wo_action wo \<noteq> Investigate \<and> set (wo_sample_ids wo) \<subseteq> sr_sample_id ` set samples
        \<and> (wo_sample_ids wo \<noteq> [] \<longrightarrow> set (wo_sample_ids wo) \<inter> set ids' \<noteq> {}))"
      by (rule Cons.IH[OF g(4) an(1)]) (use an sub g(2) Cons.prems(3) in auto)
    have "set (wo_sample_ids wo) \<inter> set ids' \<noteq> {}"
    proof (cases "act = []")
      case True
      then show ?thesis using g(3) ih an(2) by (auto simp: list_ex_iff)
    next
      case False
      then obtain i where "i \<in> set act" by (cases act) auto
      then show ?thesis using sub ih an(2) by auto
    qed
    then show ?thesis using ih g(1,2) an(2) by auto
  qed
qed

lemma plan_copy_Inr [simp]:
  "plan_copy src rel plan = Inr plan' \<longleftrightarrow> rel \<notin> set (map snd plan) \<and> plan' = plan @ [(src, rel)]"
  by (auto simp: plan_copy_def)

text \<open>The files of a sample: its image and, if it has one, its annotation.\<close>

definition sample_files :: "sample_record \<Rightarrow> string list" where
  "sample_files s = sr_relative_path s # (case sr_annotation_path s of None \<Rightarrow> [] | Some a \<Rightarrow> [a])"

definition repaired_record :: "(string \<times> sample_record) list \<Rightarrow> sample_record \<Rightarrow> sample_record" where
  "repaired_record repl t = (case map_of repl (sr_sample_id t) of None \<Rightarrow> t
     | Some r \<Rightarrow> t\<lparr>sr_source_sample_id := Some (sr_sample_id r)\<rparr>)"

lemma repair_sample_Inr:
  "repair_sample fs src res repl t plan = Inr (s, plan') \<Longrightarrow> distinct (map snd plan) \<Longrightarrow>
     s = repaired_record repl t \<and> map snd plan' = map snd plan @ sample_files t \<and> distinct (map snd plan')"
  by (auto simp: repair_sample_def Let_def repaired_record_def sample_files_def split: option.splits)

lemma repair_samples_Inr:
  "repair_samples fs src res repl ts plan = Inr (ss, plan') \<Longrightarrow> distinct (map snd plan) \<Longrightarrow>
     ss = map (repaired_record repl) ts \<and> map snd plan' = map snd plan @ concat (map sample_files ts)
     \<and> distinct (map snd plan')"
proof (induction ts arbitrary: plan ss)
  case (Cons t ts)
  from Cons.prems(1) obtain s plan1 rest where 1: "repair_sample fs src res repl t plan = Inr (s, plan1)"
    and 2: "repair_samples fs src res repl ts plan1 = Inr (rest, plan')" "ss = s # rest" by auto
  note one = repair_sample_Inr[OF 1 Cons.prems(2)]
  have "distinct (map snd plan1)" using one by blast
  note rest = Cons.IH[OF 2(1) this]
  show ?case using rest one 2(2) by (intro conjI) (simp, simp, blast)
qed simp

lemma next_coverage_props:
  "next_coverage existing k = (i, k') \<Longrightarrow> i \<notin> set existing \<and> (\<exists>j. k \<le> j \<and> i = coverage_id j \<and> k' = j + 1)"
proof (induction existing k rule: next_coverage.induct)
  case (1 existing k)
  show ?case
  proof (cases "coverage_id k \<in> set existing")
    case True
    then have "next_coverage existing (k + 1) = (i, k')" using "1.prems" by (simp add: next_coverage.simps[of _ k])
    from "1.IH"[OF True this] show ?thesis by fastforce
  next
    case False
    then show ?thesis using "1.prems" by (auto simp: next_coverage.simps[of _ k])
  qed
qed

lemma validate_sample_keeps:
  "validate_sample s = Inr s' \<Longrightarrow> sr_sample_id s' = sr_sample_id s \<and> sr_split s' = sr_split s
     \<and> sr_category s' = sr_category s \<and> sr_view s' = sr_view s \<and> sr_condition s' = sr_condition s
     \<and> sr_source_sample_id s' = sr_source_sample_id s"
  by (auto simp: validate_sample_def)

fun added_for :: "sample_record list \<Rightarrow> coverage_cell \<Rightarrow> sample_record \<times> sample_record \<Rightarrow> bool" where
  "added_for reserves cell (a, r) \<longleftrightarrow> fills a cell \<and> fills r cell \<and> r \<in> set reserves
     \<and> sr_source_sample_id r = None \<and> sr_source_sample_id a = Some (sr_sample_id r) \<and> validate_sample a = Inr a"

lemma add_coverage_sample_Inr:
  assumes "add_coverage_sample fs res reserves cell used existing k plan = Inr (a, r, k', plan')"
  shows "added_for reserves cell (a, r) \<and> sr_sample_id r \<notin> set used \<and> sr_sample_id a \<notin> set existing
    \<and> (distinct (map snd plan) \<longrightarrow> distinct (map snd plan'))"
proof -
  obtain i k0 where n0: "next_coverage existing k = (i, k0)" by (cases "next_coverage existing k")
  from assms obtain an sp image mask plan1 where *: "select_coverage_reserve cell reserves used = Inr r"
    and sp: "split_of_str (cv_split cell) = Some sp"
    and v: "validate_sample \<lparr>sr_sample_id = i, sr_relative_path = coverage_image i, sr_split = sp,
         sr_category = cv_category cell, sr_view = cv_view cell, sr_condition = cv_condition cell,
         sr_annotation_path = Some (coverage_mask i), sr_source_sample_id = Some (sr_sample_id r)\<rparr> = Inr a"
    and d: "plan_copy image (coverage_image i) plan = Inr plan1" "plan_copy mask (coverage_mask i) plan1 = Inr plan'"
    and k: "k' = k0"
    unfolding add_coverage_sample_def Let_def n0 prod.case rbind_eq_Inr of_opt_Inr lift_err_Inr by blast
  have n: "next_coverage existing k = (i, k')" using n0 k by simp
  have "split_str sp = cv_split cell" using sp by (auto simp: split_of_str_def split: if_splits)
  then have "fills a cell" "sr_source_sample_id a = Some (sr_sample_id r)" "sr_sample_id a = i"
    using validate_sample_keeps[OF v] by (simp_all add: fills_def)
  moreover have "distinct (map snd plan) \<longrightarrow> distinct (map snd plan')" using d by auto
  ultimately show ?thesis using select_coverage_Inr[OF *] next_coverage_props[OF n] validate_sample_idem[OF v] by simp
qed

lemma add_coverage_samples_Inr:
  assumes "add_coverage_samples fs res reserves cells used existing k plan = Inr (added, plan')"
    and "distinct (map snd plan)" and "distinct used" and "distinct existing"
  shows "list_all2 (added_for reserves) cells added
    \<and> distinct (map snd plan') \<and> distinct (map (\<lambda>(a, r). sr_sample_id r) added @ used)
    \<and> distinct (map (\<lambda>(a, r). sr_sample_id a) added @ existing)"
  using assms
proof (induction cells arbitrary: used existing k plan added)
  case (Cons cell cells)
  from Cons.prems(1) obtain a r k' plan1 rest where
    1: "add_coverage_sample fs res reserves cell used existing k plan = Inr (a, r, k', plan1)"
    and 2: "add_coverage_samples fs res reserves cells (sr_sample_id r # used) (sr_sample_id a # existing) k' plan1 = Inr (rest, plan')"
    and 3: "added = (a, r) # rest" by auto
  note one = add_coverage_sample_Inr[OF 1]
  have "distinct (map snd plan1)" "distinct (sr_sample_id r # used)" "distinct (sr_sample_id a # existing)"
    using one Cons.prems(2-4) by simp_all
  note rest = Cons.IH[OF 2 this]
  show ?case using rest one by (simp add: 3)
qed simp

text \<open>Deduplication keeps one cell per key.\<close>

lemma foldl_merge_keys:
  "distinct (map fst acc) \<Longrightarrow> distinct (map fst (foldl merge_cell acc cs))
     \<and> set (map fst (foldl merge_cell acc cs)) = set (map fst acc) \<union> cell_key_of ` set cs"
proof (induction cs arbitrary: acc)
  case (Cons c cs)
  have "distinct (map fst (merge_cell acc c))"
    "set (map fst (merge_cell acc c)) = insert (cell_key_of c) (set (map fst acc))"
    using Cons.prems by (auto simp: merge_cell_def distinct_dict_set split: option.splits)
  then show ?case using Cons.IH by auto
qed simp

lemma deduped_cells_length: "length (deduped_cells cs) = card (cell_key_of ` set cs)"
proof -
  have 1: "distinct (map fst (foldl merge_cell [] cs))" "set (map fst (foldl merge_cell [] cs)) = cell_key_of ` set cs"
    using foldl_merge_keys[of "[]" cs] by simp_all
  have "length (deduped_cells cs) = length (map fst (foldl merge_cell [] cs))"
    by (simp add: deduped_cells_def Let_def)
  also have "\<dots> = card (cell_key_of ` set cs)"
    using distinct_card[OF 1(1)] by (simp only: 1(2))
  finally show ?thesis .
qed

text \<open>The stages of a successful repair.\<close>

lemma simulate_repair_stages:
  assumes "simulate_repair fs windows taken rename batch_root manifest reserve_manifest orders output_root = Inr res"
  obtains source_root reserve_root reserve ids cells used repl repaired plan1 added where
    "load_reserve_manifest fs reserve_manifest = Inr (reserve_root, reserve)"
    "gather_orders (bm_samples manifest) (bm_samples reserve) orders [] [] = Inr (ids, cells)"
    "choose_replacements (bm_samples manifest) (bm_samples reserve) ids [] [] = Inr (used, repl)"
    "repair_samples fs source_root reserve_root repl (bm_samples manifest) [] = Inr (repaired, plan1)"
    "add_coverage_samples fs reserve_root (bm_samples reserve) (deduped_cells cells) used
       (map sr_sample_id repaired) 1 plan1 = Inr (added, rr_copy_plan res)"
    "validate_manifest (manifest\<lparr>bm_samples := repaired @ map fst added\<rparr>) = Inr (rr_manifest res)"
    "rr_replacement_map res = map (\<lambda>(i, r). (i, sr_sample_id r)) repl @ map (\<lambda>(a, r). (sr_sample_id a, sr_sample_id r)) added"
    "rr_completed_work_orders res = map (\<lambda>wo. wo\<lparr>wo_status := OrderSimulatedComplete\<rparr>) orders"
  using assms unfolding simulate_repair_def rbind_eq_Inr by (auto split: prod.splits)

lemma validate_manifest_rmap:
  "validate_manifest m = Inr m' \<Longrightarrow> rmap validate_sample (bm_samples m) = Inr (bm_samples m')"
  by (auto simp: validate_manifest_def unique_sample_ids_def split: if_splits)

lemma validate_manifest_samples:
  assumes "validate_manifest m = Inr m'" and "\<forall>s\<in>set (bm_samples m). validate_sample s = Inr s"
  shows "bm_samples m' = bm_samples m"
proof -
  have "rmap validate_sample xs = Inr ys \<Longrightarrow> \<forall>s\<in>set xs. validate_sample s = Inr s \<Longrightarrow> ys = xs" for xs ys
    by (induction xs arbitrary: ys) auto
  then show ?thesis using assms by (auto simp: validate_manifest_def unique_sample_ids_def split: if_splits)
qed

lemma repaired_record_keeps:
  "sr_sample_id (repaired_record repl t) = sr_sample_id t"
  "validate_sample t = Inr t \<Longrightarrow> validate_sample (repaired_record repl t) = Inr (repaired_record repl t)"
  by (cases t; auto simp: repaired_record_def validate_sample_def split: option.splits)+

lemma validate_manifest_distinct:
  "validate_manifest m = Inr m' \<Longrightarrow> distinct (map sr_sample_id (bm_samples m))"
proof -
  assume v: "validate_manifest m = Inr m'"
  then obtain ss where ss: "rmap validate_sample (bm_samples m) = Inr ss" "distinct (map sr_sample_id ss)"
    by (auto simp: validate_manifest_def unique_sample_ids_def split: if_splits)
  have "map sr_sample_id ss = map sr_sample_id (bm_samples m)"
    by (rule rmap_map[OF ss(1)]) (simp add: validate_sample_keeps)
  then show ?thesis using ss(2) by simp
qed

text \<open>What the stages say together.\<close>

lemma simulate_repair_facts:
  assumes "simulate_repair fs windows taken rename batch_root manifest reserve_manifest orders output_root = Inr res"
  obtains reserve_root reserve ids cells rs added plan1 where
    "load_reserve_manifest fs reserve_manifest = Inr (reserve_root, reserve)"
    "gather_orders (bm_samples manifest) (bm_samples reserve) orders [] [] = Inr (ids, cells)"
    "distinct ids" "set ids \<subseteq> sr_sample_id ` set (bm_samples manifest)" "length rs = length ids"
    "\<forall>(i, r)\<in>set (zip ids rs). r \<in> set (bm_samples reserve)
       \<and> (\<exists>t\<in>set (bm_samples manifest). sr_sample_id t = i \<and> serves r t)"
    "list_all2 (added_for (bm_samples reserve)) (deduped_cells cells) added"
    "distinct (map sr_sample_id rs @ map (\<lambda>(a, r). sr_sample_id r) added)"
    "distinct (map sr_sample_id (bm_samples manifest) @ map (\<lambda>(a, r). sr_sample_id a) added)"
    "validate_manifest (manifest\<lparr>bm_samples := map (repaired_record (zip ids rs)) (bm_samples manifest) @ map fst added\<rparr>)
       = Inr (rr_manifest res)"
    "rr_replacement_map res = zip ids (map sr_sample_id rs) @ map (\<lambda>(a, r). (sr_sample_id a, sr_sample_id r)) added"
    "distinct (map snd (rr_copy_plan res))"
proof -
  from assms obtain source_root reserve_root reserve ids cells used repl repaired plan1 added where
    1: "load_reserve_manifest fs reserve_manifest = Inr (reserve_root, reserve)"
    and 2: "gather_orders (bm_samples manifest) (bm_samples reserve) orders [] [] = Inr (ids, cells)"
    and 3: "choose_replacements (bm_samples manifest) (bm_samples reserve) ids [] [] = Inr (used, repl)"
    and 4: "repair_samples fs source_root reserve_root repl (bm_samples manifest) [] = Inr (repaired, plan1)"
    and 5: "add_coverage_samples fs reserve_root (bm_samples reserve) (deduped_cells cells) used
       (map sr_sample_id repaired) 1 plan1 = Inr (added, rr_copy_plan res)"
    and 6: "validate_manifest (manifest\<lparr>bm_samples := repaired @ map fst added\<rparr>) = Inr (rr_manifest res)"
    and 7: "rr_replacement_map res = map (\<lambda>(i, r). (i, sr_sample_id r)) repl @ map (\<lambda>(a, r). (sr_sample_id a, sr_sample_id r)) added"
    by (rule simulate_repair_stages)
  have g: "distinct ids" "set ids \<subseteq> sr_sample_id ` set (bm_samples manifest)"
    using gather_orders_Inr[OF 2] by simp_all
  obtain rs where rs: "length rs = length ids" "repl = zip ids rs" "used = rev (map sr_sample_id rs)" "distinct used"
    "\<forall>(i, r)\<in>set (zip ids rs). r \<in> set (bm_samples reserve)
       \<and> (\<exists>t\<in>set (bm_samples manifest). sr_sample_id t = i \<and> serves r t)"
    using choose_replacements_Inr[OF 3 g(1)] by auto
  have rep: "repaired = map (repaired_record repl) (bm_samples manifest)" "distinct (map snd plan1)"
    using repair_samples_Inr[OF 4] by auto
  have ids: "map sr_sample_id repaired = map sr_sample_id (bm_samples manifest)"
    by (simp add: rep(1) repaired_record_keeps)
  have "distinct (map sr_sample_id repaired)" using validate_manifest_distinct[OF 6] by simp
  note ad = add_coverage_samples_Inr[OF 5 rep(2) rs(4) this]
  show ?thesis
  proof (rule that[OF 1 2 g rs(1,5)])
    show "distinct (map sr_sample_id rs @ map (\<lambda>(a, r). sr_sample_id r) added)"
      using ad rs(3) by (simp add: Int_commute)
    show "distinct (map sr_sample_id (bm_samples manifest) @ map (\<lambda>(a, r). sr_sample_id a) added)"
      using ad by (simp add: Int_commute ids[symmetric])
    show "rr_replacement_map res = zip ids (map sr_sample_id rs) @ map (\<lambda>(a, r). (sr_sample_id a, sr_sample_id r)) added"
      by (simp add: 7 rs(2) zip_map2)
  qed (use ad 6 rep(1) rs(2) in auto)
qed

section \<open>An evaluated example\<close>

text \<open>One sample to replace and a coverage cell that lacks three samples.\<close>

definition demo_reserve :: batch_manifest where
  "demo_reserve = \<lparr>bm_batch_id = ''reserve'', bm_seed = 1, bm_samples =
     [demo_sample\<lparr>sr_sample_id := ''r1'', sr_source_sample_id := Some ''s1''\<rparr>,
      demo_sample\<lparr>sr_sample_id := ''r2'', sr_view := ''side'', sr_annotation_path := Some ''m/r2.png''\<rparr>]\<rparr>"

definition demo_fs :: filesystem where
  "demo_fs = \<lparr>fs_is_symlink = (\<lambda>_. False), fs_exists = (\<lambda>_. False), fs_resolve = Some, fs_resolve_lax = (\<lambda>p. p),
     fs_is_dir = (\<lambda>_. True), fs_is_file = (\<lambda>_. True), fs_manifest = (\<lambda>_. Some demo_reserve)\<rparr>"

definition demo_orders :: "work_order list" where
  "demo_orders =
     [\<lparr>wo_work_order_id = ''w1'', wo_action = Recapture, wo_priority = SevHigh, wo_reason_codes = [''LOW_SHARPNESS''],
       wo_sample_ids = [''s1''], wo_replacement_requirements = [], wo_status = OrderOpen\<rparr>,
      \<lparr>wo_work_order_id = ''w2'', wo_action = Recapture, wo_priority = SevHigh, wo_reason_codes = [''coverage_gap''],
       wo_sample_ids = [], wo_replacement_requirements = [(''missing_cells'', JArr [JObj
         [(''split'', JStr ''train''), (''category'', JStr ''gear''), (''view'', JStr ''side''), (''condition'', JStr ''dim''),
          (''observed_count'', JInt 0), (''required_count'', JInt 3)]])], wo_status = OrderOpen\<rparr>]"

definition demo_repair :: "repair_error + repair_result" where
  "demo_repair = simulate_repair demo_fs False (\<lambda>_. False) (\<lambda>_. Renamed) [''batch''] demo_manifest
     [''pool'', ''manifest.json''] demo_orders [''out'', ''batch'']"

definition demo_cell :: coverage_cell where
  "demo_cell = \<lparr>cv_split = ''train'', cv_category = ''gear'', cv_view = ''side'', cv_condition = ''dim'',
     cv_observed_count = 0, cv_required_count = 3\<rparr>"

definition demo_added :: sample_record where
  "demo_added = \<lparr>sr_sample_id = ''coverage-add-001'', sr_relative_path = ''images/coverage-add-001.png'',
     sr_split = Train, sr_category = ''gear'', sr_view = ''side'', sr_condition = ''dim'',
     sr_annotation_path = Some ''masks/coverage-add-001.png'', sr_source_sample_id = Some ''r2''\<rparr>"

abbreviation "demo_r1 \<equiv> demo_sample\<lparr>sr_sample_id := ''r1'', sr_source_sample_id := Some ''s1''\<rparr>"
abbreviation "demo_r2 \<equiv> demo_sample\<lparr>sr_sample_id := ''r2'', sr_view := ''side'', sr_annotation_path := Some ''m/r2.png''\<rparr>"
abbreviation "demo_s1 \<equiv> demo_sample\<lparr>sr_source_sample_id := Some ''r1''\<rparr>"
abbreviation "demo_plan \<equiv> [([''pool'', ''a'', ''s1.png''], ''a/s1.png'')]"
abbreviation "demo_plan2 \<equiv> demo_plan @ [([''pool'', ''a'', ''s1.png''], ''images/coverage-add-001.png''), ([''pool'', ''m'', ''r2.png''], ''masks/coverage-add-001.png'')]"

lemma demo_directories: "existing_directory demo_fs [''batch''] = Inr [''batch'']"
  "resolved_new_output demo_fs [''out'', ''batch''] [''batch''] [''pool''] = Inr ([''out''], [''out'', ''batch''])"
  by (simp_all add: existing_directory_def resolved_new_output_def demo_fs_def)
lemma demo_load: "load_reserve_manifest demo_fs [''pool'', ''manifest.json''] = Inr ([''pool''], demo_reserve)"
  by code_simp
lemma demo_gather: "gather_orders (bm_samples demo_manifest) (bm_samples demo_reserve) demo_orders [] [] =
     Inr ([''s1''], [demo_cell, demo_cell, demo_cell])"
  by code_simp
lemma demo_select: "select_reserve demo_sample (bm_samples demo_reserve) [] = Inr demo_r1" by code_simp
lemma demo_target: "find (\<lambda>s. sr_sample_id s = ''s1'') (bm_samples demo_manifest) = Some demo_sample" by code_simp
lemma demo_choose: "choose_replacements (bm_samples demo_manifest) (bm_samples demo_reserve) [''s1''] [] [] = Inr ([''r1''], [(''s1'', demo_r1)])"
  by (simp add: demo_select demo_target)
lemma demo_dedup:
  "deduped_cells [demo_cell, demo_cell, demo_cell] = [demo_cell]"
  by (simp add: deduped_cells_def merge_cell_def cell_key_of_def demo_cell_def)
lemma demo_validate:
  "validate_manifest (demo_manifest\<lparr>bm_samples := [demo_s1, demo_added]\<rparr>) = Inr (demo_manifest\<lparr>bm_samples := [demo_s1, demo_added]\<rparr>)"
  by code_simp
lemma demo_publish:
  "publish_staging_directory False (\<lambda>_. False) (\<lambda>_. Renamed) = Inr 1"
  by (simp add: publish_staging_directory_def)
lemma demo_destinations: "destination_paths demo_plan2 = Inr [[''a'', ''s1.png''], [''images'', ''coverage-add-001.png''], [''masks'', ''coverage-add-001.png'']]"
  by code_simp

lemma demo_files:
  "safe_source_file demo_fs [''pool''] ''a/s1.png'' = Inr [''pool'', ''a'', ''s1.png'']"
  "safe_source_file demo_fs [''pool''] ''m/r2.png'' = Inr [''pool'', ''m'', ''r2.png'']"
  by code_simp+

lemma demo_added_parts:
  "select_coverage_reserve demo_cell (bm_samples demo_reserve) [''r1''] = Inr demo_r2"
  "next_coverage [''s1''] (Suc 0) = (''coverage-add-001'', 2)"
  "split_of_str (cv_split demo_cell) = Some Train"
  "validate_sample demo_added = Inr demo_added"
  by code_simp+

lemma demo_repair_samples:
  "repair_samples demo_fs [''batch''] [''pool''] [(''s1'', demo_r1)] (bm_samples demo_manifest) [] = Inr ([demo_s1], demo_plan)"
  by (simp add: demo_manifest_def repair_sample_def demo_sample_def demo_files plan_copy_def cong: rbind_weak_cong)

lemma demo_record_fields:
  "of_opt e (sr_annotation_path demo_r2) = Inr ''m/r2.png''" "sr_relative_path demo_r2 = ''a/s1.png''" "sr_sample_id demo_r2 = ''r2''"
  "cv_category demo_cell = ''gear''" "cv_view demo_cell = ''side''" "cv_condition demo_cell = ''dim''"
  "coverage_image ''coverage-add-001'' = ''images/coverage-add-001.png''"
  "coverage_mask ''coverage-add-001'' = ''masks/coverage-add-001.png''"
  "sr_sample_id demo_added = ''coverage-add-001''"
  "plan_copy [''pool'', ''a'', ''s1.png''] ''images/coverage-add-001.png'' demo_plan =
     Inr (demo_plan @ [([''pool'', ''a'', ''s1.png''], ''images/coverage-add-001.png'')])"
  "plan_copy [''pool'', ''m'', ''r2.png''] ''masks/coverage-add-001.png''
     (demo_plan @ [([''pool'', ''a'', ''s1.png''], ''images/coverage-add-001.png'')]) = Inr demo_plan2"
  by (simp_all add: demo_sample_def demo_cell_def coverage_image_def coverage_mask_def demo_added_def)

lemma demo_add_one:
  "add_coverage_sample demo_fs [''pool''] (bm_samples demo_reserve) demo_cell [''r1''] [''s1''] (Suc 0) demo_plan =
     Inr (demo_added, demo_r2, 2, demo_plan2)"
  unfolding add_coverage_sample_def demo_added_parts rbind_Inr Let_def prod.case demo_record_fields of_opt_simps
    demo_added_def[symmetric] demo_files lift_err_simps ..

lemma demo_add:
  "add_coverage_samples demo_fs [''pool''] (bm_samples demo_reserve) [demo_cell] [''r1''] [''s1''] (Suc 0) demo_plan =
    Inr ([(demo_added, demo_r2)], demo_plan2)"
  unfolding add_coverage_samples.simps demo_add_one rbind_Inr prod.case ..

lemma demo_lists: "map sr_sample_id [demo_s1] = [''s1'']" "[demo_s1] @ map fst [(demo_added, demo_r2)] = [demo_s1, demo_added]"
  by (simp_all add: demo_sample_def)

lemma demo_repair_Inr: "\<exists>r. demo_repair = Inr r \<and> bm_samples (rr_manifest r) = [demo_s1, demo_added]
    \<and> rr_replacement_map r = [(''s1'', ''r1''), (''coverage-add-001'', ''r2'')]"
  unfolding demo_repair_def simulate_repair_def demo_directories demo_load rbind_Inr prod.case demo_gather demo_choose demo_dedup demo_repair_samples demo_lists One_nat_def
    demo_add demo_validate lift_err_simps demo_destinations demo_publish
  by (auto simp: demo_sample_def demo_added_def)
section \<open>Properties\<close>

text \<open>C14: a repair uses every reserve at most once, and uses a reserve that is linked to a sample only for that sample.\<close>

theorem repair_uses_reserves_once:
  assumes "simulate_repair fs windows taken rename batch_root manifest reserve_manifest orders output_root = Inr res"
  shows "distinct (map fst (rr_replacement_map res)) \<and> distinct (map snd (rr_replacement_map res))
    \<and> (\<exists>reserve_root reserve. load_reserve_manifest fs reserve_manifest = Inr (reserve_root, reserve)
        \<and> (\<forall>(i, rid)\<in>set (rr_replacement_map res). \<exists>r\<in>set (bm_samples reserve). sr_sample_id r = rid
              \<and> (sr_source_sample_id r = None \<or> sr_source_sample_id r = Some i)))"
  using assms
proof (rule simulate_repair_facts)
  fix reserve_root reserve ids cells rs added
  assume load: "load_reserve_manifest fs reserve_manifest = Inr (reserve_root, reserve)"
    and ids: "distinct ids" "set ids \<subseteq> sr_sample_id ` set (bm_samples manifest)" "length rs = length ids"
    and rs: "\<forall>(i, r)\<in>set (zip ids rs). r \<in> set (bm_samples reserve)
       \<and> (\<exists>t\<in>set (bm_samples manifest). sr_sample_id t = i \<and> serves r t)"
    and ad: "list_all2 (added_for (bm_samples reserve)) (deduped_cells cells) added"
    and d: "distinct (map sr_sample_id rs @ map (\<lambda>(a, r). sr_sample_id r) added)"
      "distinct (map sr_sample_id (bm_samples manifest) @ map (\<lambda>(a, r). sr_sample_id a) added)"
    and m: "rr_replacement_map res = zip ids (map sr_sample_id rs) @ map (\<lambda>(a, r). (sr_sample_id a, sr_sample_id r)) added"
  have f: "map fst (rr_replacement_map res) = ids @ map (\<lambda>(a, r). sr_sample_id a) added"
    and s: "map snd (rr_replacement_map res) = map sr_sample_id rs @ map (\<lambda>(a, r). sr_sample_id r) added"
    by (simp_all add: m ids(3) case_prod_beta comp_def)
  have "distinct (map fst (rr_replacement_map res))" using f d(2) ids(1,2) by auto
  moreover have "\<exists>r\<in>set (bm_samples reserve). sr_sample_id r = rid
      \<and> (sr_source_sample_id r = None \<or> sr_source_sample_id r = Some i)"
    if "(i, rid) \<in> set (rr_replacement_map res)" for i rid
  proof -
    have "(\<exists>r. (i, r) \<in> set (zip ids rs) \<and> rid = sr_sample_id r) \<or> (\<exists>a r. (a, r) \<in> set added \<and> rid = sr_sample_id r)"
      using that by (auto simp: m zip_map2)
    then show ?thesis
    proof (elim disjE exE conjE)
      fix r assume "(i, r) \<in> set (zip ids rs)" "rid = sr_sample_id r"
      then show ?thesis using rs by (fastforce simp: serves_def)
    next
      fix a r assume "(a, r) \<in> set added" "rid = sr_sample_id r"
      then show ?thesis using ad by (fastforce simp: list_all2_conv_all_nth in_set_conv_nth)
    qed
  qed
  ultimately show ?thesis using s d(1) load by auto
qed

theorem repair_uses_reserves_once_witness:
  "\<exists>r. demo_repair = Inr r \<and> distinct (map snd (rr_replacement_map r)) \<and> length (rr_replacement_map r) = 2"
proof -
  obtain r where r: "demo_repair = Inr r"
    "rr_replacement_map r = [(''s1'', ''r1''), (''coverage-add-001'', ''r2'')]" using demo_repair_Inr by blast
  have "distinct (map snd (rr_replacement_map r))"
    using repair_uses_reserves_once[OF r(1)[unfolded demo_repair_def]] by blast
  then show ?thesis using r by (intro exI[of _ r]) simp
qed

text \<open>The repaired manifest lists the original samples in order, changed at most in the reserve they come from, then
  the added ones; no output file is written twice, and every order that names samples has a repaired one among them.\<close>

theorem repair_preserves_samples:
  assumes "simulate_repair fs windows taken rename batch_root manifest reserve_manifest orders output_root = Inr res"
    and "validate_manifest manifest = Inr manifest"
  shows "\<exists>added. bm_samples (rr_manifest res) =
        map (\<lambda>t. t\<lparr>sr_source_sample_id := (case map_of (rr_replacement_map res) (sr_sample_id t) of
             None \<Rightarrow> sr_source_sample_id t | Some rid \<Rightarrow> Some rid)\<rparr>) (bm_samples manifest) @ added
      \<and> distinct (map sr_sample_id (bm_samples (rr_manifest res)))
      \<and> distinct (map snd (rr_copy_plan res))
      \<and> (\<forall>wo\<in>set orders. wo_action wo \<noteq> Investigate
          \<and> (wo_sample_ids wo \<noteq> [] \<longrightarrow> set (wo_sample_ids wo) \<inter> fst ` set (rr_replacement_map res) \<noteq> {}))"
  using assms(1)
proof (rule simulate_repair_facts)
  fix reserve_root reserve ids cells rs added
  assume g: "gather_orders (bm_samples manifest) (bm_samples reserve) orders [] [] = Inr (ids, cells)"
    and ids: "length rs = length ids"
    and ad: "list_all2 (added_for (bm_samples reserve)) (deduped_cells cells) added"
    and d: "distinct (map sr_sample_id (bm_samples manifest) @ map (\<lambda>(a, r). sr_sample_id a) added)"
    and v: "validate_manifest (manifest\<lparr>bm_samples := map (repaired_record (zip ids rs)) (bm_samples manifest) @ map fst added\<rparr>)
       = Inr (rr_manifest res)"
    and m: "rr_replacement_map res = zip ids (map sr_sample_id rs) @ map (\<lambda>(a, r). (sr_sample_id a, sr_sample_id r)) added"
    and plan: "distinct (map snd (rr_copy_plan res))"
  have valid: "\<forall>t\<in>set (bm_samples manifest). validate_sample t = Inr t"
  proof -
    have "rmap validate_sample (bm_samples manifest) = Inr (bm_samples manifest)"
      by (rule validate_manifest_rmap[OF assms(2)])
    then show ?thesis using rmap_set_iff[of validate_sample] validate_sample_idem by blast
  qed
  have fixed: "bm_samples (rr_manifest res) = map (repaired_record (zip ids rs)) (bm_samples manifest) @ map fst added"
  proof -
    have "validate_sample a = Inr a" if "(a, r) \<in> set added" for a r
      using ad that by (auto simp: list_all2_conv_all_nth in_set_conv_nth)
    then have "\<forall>s\<in>set (map (repaired_record (zip ids rs)) (bm_samples manifest) @ map fst added). validate_sample s = Inr s"
      using valid repaired_record_keeps(2) by force
    then show ?thesis using validate_manifest_samples[OF v] by simp
  qed
  have look: "map_of (rr_replacement_map res) (sr_sample_id t) = map_option sr_sample_id (map_of (zip ids rs) (sr_sample_id t))"
    if "t \<in> set (bm_samples manifest)" for t
  proof -
    have "sr_sample_id t \<in> set (map sr_sample_id (bm_samples manifest))" using that by simp
    then have "sr_sample_id t \<notin> set (map (\<lambda>(a, r). sr_sample_id a) added)"
      using d unfolding distinct_append by blast
    then have "map_of (map (\<lambda>(a, r). (sr_sample_id a, sr_sample_id r)) added) (sr_sample_id t) = None"
      by (force simp: map_of_eq_None_iff)
    then show ?thesis by (simp add: m map_add_def zip_map2 map_of_map split: option.split)
  qed
  have "bm_samples (rr_manifest res) =
        map (\<lambda>t. t\<lparr>sr_source_sample_id := (case map_of (rr_replacement_map res) (sr_sample_id t) of
             None \<Rightarrow> sr_source_sample_id t | Some rid \<Rightarrow> Some rid)\<rparr>) (bm_samples manifest) @ map fst added"
    unfolding fixed by (auto simp: look repaired_record_def split: option.split)
  moreover have "distinct (map sr_sample_id (bm_samples (rr_manifest res)))"
    using validate_manifest_distinct[OF v] by (simp add: fixed)
  moreover have "\<forall>wo\<in>set orders. wo_action wo \<noteq> Investigate
      \<and> (wo_sample_ids wo \<noteq> [] \<longrightarrow> set (wo_sample_ids wo) \<inter> fst ` set (rr_replacement_map res) \<noteq> {})"
  proof -
    have "set ids \<subseteq> fst ` set (rr_replacement_map res)"
      using ids set_map[of fst "zip ids (map sr_sample_id rs)"] by (auto simp: m image_Un)
    then show ?thesis using gather_orders_Inr[OF g] by fastforce
  qed
  ultimately show ?thesis using plan by blast
qed

text \<open>C39: one sample is added for every distinct coverage cell the orders name, however many samples the cell lacks.\<close>

theorem repair_adds_one_sample_per_cell:
  assumes "simulate_repair fs windows taken rename batch_root manifest reserve_manifest orders output_root = Inr res"
  shows "\<exists>reserve_root reserve ids cells. load_reserve_manifest fs reserve_manifest = Inr (reserve_root, reserve)
    \<and> gather_orders (bm_samples manifest) (bm_samples reserve) orders [] [] = Inr (ids, cells)
    \<and> length (bm_samples (rr_manifest res)) = length (bm_samples manifest) + card (cell_key_of ` set cells)"
  using assms
proof (rule simulate_repair_facts)
  fix reserve_root reserve ids cells rs added
  assume l: "load_reserve_manifest fs reserve_manifest = Inr (reserve_root, reserve)"
    and g: "gather_orders (bm_samples manifest) (bm_samples reserve) orders [] [] = Inr (ids, cells)"
    and ad: "list_all2 (added_for (bm_samples reserve)) (deduped_cells cells) added"
    and v: "validate_manifest (manifest\<lparr>bm_samples := map (repaired_record (zip ids rs)) (bm_samples manifest) @ map fst added\<rparr>)
       = Inr (rr_manifest res)"
  have "length (bm_samples (rr_manifest res)) = length (bm_samples manifest) + length added"
    using rmap_length[OF validate_manifest_rmap[OF v]] by simp
  then show ?thesis using l g list_all2_lengthD[OF ad] by (auto simp: deduped_cells_length)
qed

theorem repair_adds_one_sample_per_cell_witness:
  "\<exists>r. demo_repair = Inr r \<and> length (bm_samples (rr_manifest r)) = 2
     \<and> cv_required_count demo_cell - cv_observed_count demo_cell = 3"
proof -
  obtain r where r: "demo_repair = Inr r" using demo_repair_Inr by blast
  have c: "card (cell_key_of ` set [demo_cell, demo_cell, demo_cell]) = 1" by simp
  have "length (bm_samples (rr_manifest r)) = length (bm_samples demo_manifest) + 1"
    using repair_adds_one_sample_per_cell[OF r[unfolded demo_repair_def]] c
    by (auto simp: demo_load demo_gather)
  then show ?thesis using r by (intro exI[of _ r]) (simp add: demo_manifest_def demo_cell_def)
qed

end
