(* ===== verification/Resilient_Client.thy ===== *)
theory Resilient_Client
  imports Gate_Prelude
begin

text \<open>
  \<open>network_resilience.py\<close>: the outbound policy, the circuit breaker as a state machine, and \<open>request_json\<close> with its
  bounded retries. The network is an argument: \<open>attempt_io\<close> is what one attempt observes (the addresses the host resolves
  to, and how the exchange ends), a URL is given in its parsed form and an address by its \<open>ipaddress\<close> classes. The monotonic clock is a
  function from the number of the reading to its value; times are rationals.
\<close>

section \<open>Policy\<close>

record client_policy =
  hp_allowed_hosts :: "string list"
  hp_allow_local :: bool
  hp_timeout_seconds :: rat
  hp_max_retries :: nat
  hp_backoff_seconds :: rat
  hp_circuit_failure_threshold :: nat
  hp_circuit_recovery_seconds :: rat
  hp_max_response_bytes :: nat

datatype network_error =
    BlankHost | DuplicateHosts | PolicyConstraint
  | NotAbsoluteUrl | UrlCredentials | UrlQuery | HostNotAllowed
  | LoopbackDisabled | RemoteNeedsHttps | ForbiddenAddress
  | DnsFailure | BreakerAssertion
  | ForeignOsError        \<comment> \<open>an \<open>OSError\<close> that nothing wraps\<close>
  | RecursionExhausted    \<comment> \<open>\<open>RecursionError\<close> of \<open>json.loads\<close>\<close>

definition rstrip_dots :: "string \<Rightarrow> string" where
  "rstrip_dots s = rev (dropWhile (\<lambda>c. c = CHR ''.'') (rev s))"

definition normalize_hosts :: "string list \<Rightarrow> network_error + string list" where
  "normalize_hosts values =
     (let normalized = map (\<lambda>v. rstrip_dots (lower (strip v))) values in
      rbind (require ([] \<notin> set normalized) BlankHost) (\<lambda>_.
      rbind (require (distinct normalized) DuplicateHosts) (\<lambda>_. Inr normalized)))"

definition validate_policy :: "client_policy \<Rightarrow> network_error + client_policy" where
  "validate_policy p =
     rbind (require (hp_allowed_hosts p \<noteq> []) PolicyConstraint) (\<lambda>_.
     rbind (normalize_hosts (hp_allowed_hosts p)) (\<lambda>hosts.
     rbind (require (1 / 100 \<le> hp_timeout_seconds p \<and> hp_timeout_seconds p \<le> 120 \<and> hp_max_retries p \<le> 3
        \<and> 0 \<le> hp_backoff_seconds p \<and> hp_backoff_seconds p \<le> 10
        \<and> 1 \<le> hp_circuit_failure_threshold p \<and> hp_circuit_failure_threshold p \<le> 10
        \<and> 1 / 100 \<le> hp_circuit_recovery_seconds p \<and> hp_circuit_recovery_seconds p \<le> 300
        \<and> 1 \<le> hp_max_response_bytes p \<and> hp_max_response_bytes p \<le> 20000000) PolicyConstraint) (\<lambda>_.
     Inr (p\<lparr>hp_allowed_hosts := hosts\<rparr>))))"

section \<open>Circuit breaker\<close>

datatype circuit_state = Closed | Open | HalfOpen

record circuit_breaker =
  cb_state :: circuit_state
  cb_failures :: nat
  cb_opened_at :: "rat option"

definition new_breaker :: circuit_breaker where
  "new_breaker = \<lparr>cb_state = Closed, cb_failures = 0, cb_opened_at = None\<rparr>"

text \<open>
  \<open>allow\<close>; its \<open>assert\<close> that an open circuit has an opening time is the \<open>None\<close> branch, which gives no value.
\<close>

definition breaker_allow ::
    "client_policy \<Rightarrow> rat \<Rightarrow> circuit_breaker \<Rightarrow> (bool \<times> circuit_breaker) option" where
  "breaker_allow p now b =
     (if cb_state b = Open
      then (case cb_opened_at b of None \<Rightarrow> None
            | Some t \<Rightarrow>
                if hp_circuit_recovery_seconds p \<le> now - t then Some (True, b\<lparr>cb_state := HalfOpen\<rparr>)
                else Some (False, b))
      else Some (True, b))"

definition breaker_success :: "circuit_breaker \<Rightarrow> circuit_breaker" where
  "breaker_success b = b\<lparr>cb_state := Closed, cb_failures := 0, cb_opened_at := None\<rparr>"

definition breaker_failure :: "client_policy \<Rightarrow> rat \<Rightarrow> circuit_breaker \<Rightarrow> circuit_breaker" where
  "breaker_failure p now b =
     (if cb_state b = HalfOpen then b\<lparr>cb_state := Open, cb_opened_at := Some now\<rparr>
      else let b' = b\<lparr>cb_failures := cb_failures b + 1\<rparr> in
        if hp_circuit_failure_threshold p \<le> cb_failures b'
        then b'\<lparr>cb_state := Open, cb_opened_at := Some now\<rparr> else b')"

section \<open>Endpoints\<close>

record parsed_url =
  ur_scheme :: string
  ur_netloc :: string
  ur_username :: "string option"
  ur_password :: "string option"
  ur_query :: string
  ur_fragment :: string
  ur_hostname :: "string option"
  ur_port :: "int option"
  ur_path :: string

record ip_address =
  ip_is_loopback :: bool
  ip_is_private :: bool
  ip_is_link_local :: bool
  ip_is_multicast :: bool
  ip_is_reserved :: bool
  ip_is_unspecified :: bool

datatype scope = Local | Remote

fun scope_str :: "scope \<Rightarrow> string" where
  "scope_str Local = ''local''"
| "scope_str Remote = ''remote''"

definition is_forbidden_remote_ip :: "ip_address \<Rightarrow> bool" where
  "is_forbidden_remote_ip a \<longleftrightarrow> ip_is_private a \<or> ip_is_loopback a \<or> ip_is_link_local a
     \<or> ip_is_multicast a \<or> ip_is_reserved a \<or> ip_is_unspecified a"

text \<open>The endpoint identifier, the host, the port, the scheme and the origin.\<close>

definition endpoint_metadata ::
    "parsed_url \<Rightarrow> client_policy \<Rightarrow> network_error + string \<times> string \<times> int \<times> string \<times> string" where
  "endpoint_metadata u p =
     rbind (require (ur_scheme u \<in> {''http'', ''https''} \<and> ur_netloc u \<noteq> []) NotAbsoluteUrl) (\<lambda>_.
     rbind (require (\<not> (opt_truthy (ur_username u) \<or> opt_truthy (ur_password u))) UrlCredentials) (\<lambda>_.
     rbind (require (ur_query u = [] \<and> ur_fragment u = []) UrlQuery) (\<lambda>_.
     (let host = rstrip_dots (lower (case ur_hostname u of None \<Rightarrow> [] | Some h \<Rightarrow> h)) in
      rbind (require (host \<in> set (hp_allowed_hosts p)) HostNotAllowed) (\<lambda>_.
      (let port = (case ur_port u of None \<Rightarrow> [] | Some n \<Rightarrow> '':'' @ int_str n);
           origin = ur_scheme u @ ''://'' @ host @ port;
           endpoint_id = origin @ (if ur_path u = [] then ''/'' else ur_path u) in
       Inr (endpoint_id, host,
         (case ur_port u of Some n \<Rightarrow> n | None \<Rightarrow> if ur_scheme u = ''https'' then 443 else 80),
         ur_scheme u, origin)))))))"

definition validate_addresses :: "ip_address list \<Rightarrow> string \<Rightarrow> client_policy \<Rightarrow> network_error + scope" where
  "validate_addresses addresses scheme p =
     (if addresses \<noteq> [] \<and> list_all ip_is_loopback addresses
      then rbind (require (hp_allow_local p) LoopbackDisabled) (\<lambda>_. Inr Local)
      else rbind (require (scheme = ''https'') RemoteNeedsHttps) (\<lambda>_.
        rbind (require (\<not> list_ex is_forbidden_remote_ip addresses) ForbiddenAddress) (\<lambda>_. Inr Remote)))"

section \<open>Attempts\<close>

datatype http_method = GET | POST | PUT

fun method_str :: "http_method \<Rightarrow> string" where
  "method_str GET = ''GET''" | "method_str POST = ''POST''" | "method_str PUT = ''PUT''"

datatype attempt_status =
    AtSuccess | AtHttpError | AtTimeout | AtTransportError | AtRedirectBlocked | AtInvalidResponse

datatype exchange_status =
    ExSuccess | ExRecovered | ExTimeout | ExHttpError | ExTransportError | ExRedirectBlocked
  | ExInvalidResponse | ExCircuitOpen

record attempt_receipt =
  ar_attempt :: nat
  ar_status :: attempt_status
  ar_duration_ms :: rat
  ar_retryable :: bool
  ar_http_status :: "int option"
  ar_error_type :: "string option"
  ar_backoff_ms :: rat

record exchange_receipt =
  xr_request_id :: string
  xr_endpoint_id :: string
  xr_endpoint_scope :: scope
  xr_method :: http_method
  xr_status :: exchange_status
  xr_request_sha256 :: string
  xr_response_sha256 :: "string option"
  xr_attempts :: "attempt_receipt list"
  xr_attempt_count :: nat
  xr_retry_count :: nat
  xr_circuit_before :: circuit_state
  xr_circuit_after :: circuit_state

text \<open>
  How an exchange with the resolved addresses ends: an expired deadline, a status outside 200-299, an I/O error wrapped in \<open>URLError\<close>
  (with the type of its reason and whether that is a timeout), or a response with its status, its bytes (at most one more than the
  limit is read), its content type and the JSON value its bytes decode to, or the name of the decoding error. Two ends reach no
  handler: an \<open>OSError\<close> outside the wrapping (the TLS context cannot be created), and an acceptable body whose nesting exhausts the
  recursion limit of \<open>json.loads\<close>.
\<close>

datatype exchange_end =
    DeadlineExpired string
  | HttpStatusError int
  | WrappedError bool string
  | Response int string string "string + json"
  | UnwrappedOsError
  | DecodingRecursion

text \<open>
  \<open>resolve_addresses\<close> times out, fails (\<open>ConnectionError\<close> for a \<open>gaierror\<close> or no address), raises again what else the platform's
  resolver raised (an \<open>OSError\<close>, or a \<open>ValueError\<close> of the given name for a host it cannot encode), or returns addresses.
\<close>

datatype resolution = ResolveTimeout | ResolveFailure | ResolveOsError | ResolveValueError string | Resolved "ip_address list"

record attempt_io =
  io_resolution :: resolution
  io_end :: exchange_end

datatype attempt_result =
    Answered int json string
  | HttpErr int | Deadline string | UrlErr bool string
  | Invalid int string | InvalidHost string

text \<open>
  The body of the \<open>try\<close> statement: the result its handlers distinguish, or the exception that no handler catches, with
  the scope that was recorded before.
\<close>

definition run_attempt ::
    "client_policy \<Rightarrow> string \<Rightarrow> attempt_io \<Rightarrow> scope option \<times> (network_error + attempt_result)" where
  "run_attempt p scheme io =
     (case io_resolution io of
        ResolveTimeout \<Rightarrow> (None, Inr (Deadline ''TimeoutError''))
      | ResolveFailure \<Rightarrow> (None, Inl DnsFailure)
      | ResolveOsError \<Rightarrow> (None, Inl ForeignOsError)
      | ResolveValueError name \<Rightarrow> (None, Inr (InvalidHost name))
      | Resolved addresses \<Rightarrow>
          (case validate_addresses addresses scheme p of
             Inl e \<Rightarrow> (None, Inl e)
           | Inr sc \<Rightarrow> (Some sc, case io_end io of
               DeadlineExpired name \<Rightarrow> Inr (Deadline name)
             | HttpStatusError code \<Rightarrow> Inr (HttpErr code)
             | WrappedError timeout name \<Rightarrow> Inr (UrlErr timeout name)
             | UnwrappedOsError \<Rightarrow> Inl ForeignOsError
             | DecodingRecursion \<Rightarrow> Inl RecursionExhausted
             | Response status raw content_type decoded \<Rightarrow> Inr (
                 if hp_max_response_bytes p < length raw then Invalid status ''ValueError''
                 else if content_type \<noteq> ''application/json'' then Invalid status ''ValueError''
                 else (case decoded of
                     Inl name \<Rightarrow> Invalid status name
                   | Inr (JObj kvs) \<Rightarrow> Answered status (JObj kvs) raw
                   | Inr _ \<Rightarrow> Invalid status ''ValueError'')))))"

definition RETRYABLE_STATUS :: "int list" where
  "RETRYABLE_STATUS = [408, 425, 429, 500, 502, 503, 504]"

text \<open>
  The exception handlers: attempt status, final status, retryable, HTTP status, error type. \<open>None\<close> is success.
\<close>

fun handle_result ::
    "attempt_result \<Rightarrow> (attempt_status \<times> exchange_status \<times> bool \<times> int option \<times> string) option" where
  "handle_result (Answered status payload raw) = None"
| "handle_result (HttpErr code) =
     (let redirect = 300 \<le> code \<and> code < 400 in
      Some (if redirect then AtRedirectBlocked else AtHttpError,
        if redirect then ExRedirectBlocked else ExHttpError,
        code \<in> set RETRYABLE_STATUS, Some code, ''HTTPError''))"
| "handle_result (Deadline name) = Some (AtTimeout, ExTimeout, True, None, name)"
| "handle_result (UrlErr timeout name) =
     Some (if timeout then AtTimeout else AtTransportError,
       if timeout then ExTimeout else ExTransportError, True, None, name)"
| "handle_result (Invalid status name) = Some (AtInvalidResponse, ExInvalidResponse, False, Some status, name)"
| "handle_result (InvalidHost name) = Some (AtInvalidResponse, ExInvalidResponse, False, None, name)"

fun last_error :: "exchange_status \<Rightarrow> string" where
  "last_error ExRedirectBlocked = ''redirect blocked''"
| "last_error ExHttpError = ''HTTP status failure''"
| "last_error ExTimeout = ''request deadline exceeded''"
| "last_error ExTransportError = ''transport failure''"
| "last_error ExInvalidResponse = ''invalid JSON response''"
| "last_error _ = ''request failed''"

section \<open>The retry loop\<close>

datatype loop_end =
    LoopAnswer nat json string          \<comment> \<open>the index of the successful attempt\<close>
  | LoopFailed exchange_status
  | LoopRaised network_error

text \<open>What the loop reads and leaves: attempts, verified scope, number of clock readings, sleeps.\<close>

record loop_state =
  ls_attempts :: "attempt_receipt list"
  ls_scope :: "scope option"
  ls_ticks :: nat
  ls_sleeps :: "rat list"

definition attempt_receipt_of ::
    "nat \<Rightarrow> attempt_status \<Rightarrow> rat \<Rightarrow> bool \<Rightarrow> int option \<Rightarrow> string option \<Rightarrow> rat \<Rightarrow> attempt_receipt" where
  "attempt_receipt_of index status duration retryable code error_type backoff =
     \<lparr>ar_attempt = index + 1, ar_status = status, ar_duration_ms = max (duration * 1000) 0,
      ar_retryable = retryable, ar_http_status = code, ar_error_type = error_type, ar_backoff_ms = backoff * 1000\<rparr>"

text \<open>\<open>for index in range(max_retries + 1)\<close> over the remaining indices; attempt \<open>index\<close> observes \<open>ios index\<close>.\<close>

fun attempt_loop ::
    "client_policy \<Rightarrow> (nat \<Rightarrow> rat) \<Rightarrow> (nat \<Rightarrow> attempt_io) \<Rightarrow> string \<Rightarrow> nat list \<Rightarrow> loop_state \<Rightarrow> loop_end \<times> loop_state" where
  "attempt_loop p clock ios scheme [] st = (LoopFailed ExTransportError, st)"
| "attempt_loop p clock ios scheme (index # rest) st =
     (let started = clock (ls_ticks st);
          (sc, result) = run_attempt p scheme (ios index);
          st1 = st\<lparr>ls_ticks := ls_ticks st + 1,
            ls_scope := (case sc of None \<Rightarrow> ls_scope st | Some x \<Rightarrow> Some x)\<rparr>;
          duration = clock (ls_ticks st1) - started in
      case result of
        Inl e \<Rightarrow> (LoopRaised e, st1)
      | Inr r \<Rightarrow>
          (case handle_result r of
             None \<Rightarrow> (case r of
                 Answered status payload raw \<Rightarrow>
                   (LoopAnswer index payload raw,
                    st1\<lparr>ls_ticks := ls_ticks st1 + 1, ls_attempts := ls_attempts st1 @
                      [attempt_receipt_of index AtSuccess duration False (Some status) None 0]\<rparr>)
               | _ \<Rightarrow> (LoopFailed ExTransportError, st1))
           | Some (status, final, retryable, code, name) \<Rightarrow>
               (let should_retry = retryable \<and> index < hp_max_retries p;
                    backoff = (if should_retry then hp_backoff_seconds p * 2 ^ index else 0);
                    st2 = st1\<lparr>ls_ticks := ls_ticks st1 + 1, ls_attempts := ls_attempts st1 @
                      [attempt_receipt_of index status duration retryable code (Some name) backoff]\<rparr> in
                if should_retry
                then attempt_loop p clock ios scheme rest (st2\<lparr>ls_sleeps := ls_sleeps st2 @ [backoff]\<rparr>)
                else (LoopFailed final, st2))))"

section \<open>Requests\<close>

record http_client =
  hc_breakers :: "(string \<times> circuit_breaker) list"
  hc_scopes :: "(string \<times> scope) list"
  hc_ticks :: nat
  hc_sleeps :: "rat list"

datatype request_outcome =
    JsonResult json exchange_receipt string
  | TransportError string exchange_receipt
  | Raised network_error

definition request_digest :: "crypto \<Rightarrow> http_method \<Rightarrow> string \<Rightarrow> string \<Rightarrow> string" where
  "request_digest C method endpoint_id body = canonical_json_sha C (JObj
     [(''method'', JStr (method_str method)), (''endpoint_id'', JStr endpoint_id),
      (''body_sha256'', JStr (sha256 C body))])"

definition breaker_for :: "http_client \<Rightarrow> string \<Rightarrow> circuit_breaker" where
  "breaker_for c origin = (case map_of (hc_breakers c) origin of None \<Rightarrow> new_breaker | Some b \<Rightarrow> b)"

definition set_breaker :: "string \<Rightarrow> circuit_breaker \<Rightarrow> http_client \<Rightarrow> http_client" where
  "set_breaker origin b c = c\<lparr>hc_breakers := dict_set origin b (hc_breakers c)\<rparr>"

text \<open>\<open>allow\<close> reads the clock only when the circuit is open, \<open>failure\<close> only when it opens it.\<close>

definition failure_reads_clock :: "client_policy \<Rightarrow> circuit_breaker \<Rightarrow> bool" where
  "failure_reads_clock p b \<longleftrightarrow> cb_state b = HalfOpen \<or> hp_circuit_failure_threshold p \<le> cb_failures b + 1"

definition request_json ::
    "crypto \<Rightarrow> client_policy \<Rightarrow> (nat \<Rightarrow> rat) \<Rightarrow> (nat \<Rightarrow> attempt_io) \<Rightarrow> parsed_url \<Rightarrow> http_method \<Rightarrow> json option
       \<Rightarrow> http_client \<Rightarrow> request_outcome \<times> http_client" where
  "request_json C p clock ios url method payload client =
     (case endpoint_metadata url p of
        Inl e \<Rightarrow> (Raised e, client)
      | Inr (endpoint_id, host, port, scheme, origin) \<Rightarrow>
        (let scope0 = (case map_of (hc_scopes client) origin of Some sc \<Rightarrow> sc
               | None \<Rightarrow> if host \<in> {''localhost'', ''127.0.0.1'', ''::1''} then Local else Remote);
             body = (case payload of None \<Rightarrow> [] | Some v \<Rightarrow> dumps C v @ [CHR 0x0A]);
             digest = request_digest C method endpoint_id body;
             breaker = breaker_for client origin;
             ticks = (if cb_state breaker = Open then hc_ticks client + 1 else hc_ticks client);
             receipt = (\<lambda>sc status response attempts retries after.
               \<lparr>xr_request_id = take 32 digest, xr_endpoint_id = endpoint_id, xr_endpoint_scope = sc,
                xr_method = method, xr_status = status, xr_request_sha256 = digest,
                xr_response_sha256 = response, xr_attempts = attempts, xr_attempt_count = length attempts,
                xr_retry_count = retries, xr_circuit_before = cb_state breaker, xr_circuit_after = after\<rparr>) in
         case breaker_allow p (clock (hc_ticks client)) breaker of
           None \<Rightarrow> (Raised BreakerAssertion, client)
         | Some (allowed, b1) \<Rightarrow>
           (let client1 = (set_breaker origin b1 client)\<lparr>hc_ticks := ticks\<rparr> in
            if \<not> allowed
            then (TransportError ''circuit breaker is open''
                    (receipt scope0 ExCircuitOpen None [] 0 (cb_state b1)), client1)
            else
              (let (loop, st) = attempt_loop p clock ios scheme [0..<hp_max_retries p + 1]
                     \<lparr>ls_attempts = [], ls_scope = None, ls_ticks = ticks, ls_sleeps = []\<rparr>;
                   sc = (case ls_scope st of None \<Rightarrow> scope0 | Some x \<Rightarrow> x);
                   client2 = client1\<lparr>hc_ticks := ls_ticks st, hc_sleeps := hc_sleeps client1 @ ls_sleeps st,
                     hc_scopes := (case ls_scope st of None \<Rightarrow> hc_scopes client1
                       | Some x \<Rightarrow> dict_set origin x (hc_scopes client1))\<rparr> in
               case loop of
                 LoopRaised e \<Rightarrow> (Raised e, client2)
               | LoopAnswer index value raw \<Rightarrow>
                   (let b2 = breaker_success b1 in
                    (JsonResult value
                      (receipt sc (if index = 0 then ExSuccess else ExRecovered) (Some (sha256 C raw))
                        (ls_attempts st) index (cb_state b2)) raw,
                     set_breaker origin b2 client2))
               | LoopFailed final \<Rightarrow>
                   (let b2 = breaker_failure p (clock (ls_ticks st)) b1 in
                    (TransportError (last_error final)
                      (receipt sc final None (ls_attempts st) (length (ls_attempts st) - 1) (cb_state b2)),
                     (set_breaker origin b2 client2)\<lparr>hc_ticks :=
                        (if failure_reads_clock p b1 then ls_ticks st + 1 else ls_ticks st)\<rparr>))))))"

section \<open>The circuit as a state machine\<close>

text \<open>
  The operations of a breaker are atomic (they hold its lock), so the threads that share it produce some sequence of
  operations at non-decreasing times.
\<close>

datatype circuit_op = OpAllow | OpSuccess | OpFailure

inductive circuit_step ::
    "client_policy \<Rightarrow> rat \<times> circuit_breaker \<Rightarrow> circuit_op \<Rightarrow> rat \<times> circuit_breaker \<Rightarrow> bool" where
  step_allow: "t \<le> u \<Longrightarrow> breaker_allow p u b = Some (ok, b') \<Longrightarrow> circuit_step p (t, b) OpAllow (u, b')"
| step_success: "t \<le> u \<Longrightarrow> circuit_step p (t, b) OpSuccess (u, breaker_success b)"
| step_failure: "t \<le> u \<Longrightarrow> circuit_step p (t, b) OpFailure (u, breaker_failure p u b)"

inductive_cases circuit_stepE: "circuit_step p (t, b) c (u, b')"

lemmas circuit_step_cases [consumes 1, case_names allow success failure] = circuit_stepE

inductive circuit_run ::
    "client_policy \<Rightarrow> rat \<times> circuit_breaker \<Rightarrow> circuit_op list \<Rightarrow> rat \<times> circuit_breaker \<Rightarrow> bool" where
  run_done: "circuit_run p s [] s"
| run_step: "circuit_run p s cs s' \<Longrightarrow> circuit_step p s' c s'' \<Longrightarrow> circuit_run p s (cs @ [c]) s''"

definition circuit_inv :: "client_policy \<Rightarrow> rat \<Rightarrow> circuit_breaker \<Rightarrow> bool" where
  "circuit_inv p now b \<longleftrightarrow> (cb_state b = Closed \<longleftrightarrow> cb_failures b < hp_circuit_failure_threshold p)
     \<and> (cb_state b = Closed \<longleftrightarrow> cb_opened_at b = None) \<and> (\<forall>t. cb_opened_at b = Some t \<longrightarrow> t \<le> now)"

lemma circuit_inv_new: "1 \<le> hp_circuit_failure_threshold p \<Longrightarrow> circuit_inv p t new_breaker"
  by (simp add: circuit_inv_def new_breaker_def)

lemma circuit_step_inv:
  assumes "circuit_step p (t, b) c (u, b')" and "circuit_inv p t b" and "1 \<le> hp_circuit_failure_threshold p"
  shows "circuit_inv p u b' \<and> t \<le> u"
  using assms(1)
proof (cases rule: circuit_step_cases)
  case (allow ok)
  then show ?thesis using assms(2)
    by (auto simp: breaker_allow_def circuit_inv_def split: if_splits option.splits)
next
  case success
  then show ?thesis using assms(3) by (simp add: breaker_success_def circuit_inv_def)
next
  case failure
  then show ?thesis using assms(2)
    by (cases "cb_state b") (auto simp: breaker_failure_def circuit_inv_def Let_def)
qed

lemma circuit_run_inv:
  assumes "circuit_run p s cs s'" and "circuit_inv p (fst s) (snd s)" and "1 \<le> hp_circuit_failure_threshold p"
  shows "circuit_inv p (fst s') (snd s') \<and> fst s \<le> fst s'"
  using assms
proof (induction rule: circuit_run.induct)
  case (run_step p s cs s' c s'')
  obtain t b u b' where s: "s' = (t, b)" "s'' = (u, b')" by (cases s'; cases s'') auto
  then show ?case using circuit_step_inv[of p t b c u b'] run_step by auto
qed simp

lemma circuit_inv_allow:
  assumes "circuit_inv p t b"
  shows "\<exists>r. breaker_allow p u b = Some r"
  using assms by (cases "cb_state b"; cases "cb_opened_at b") (auto simp: breaker_allow_def circuit_inv_def)

text \<open>While the recovery time has not passed, an open circuit stays open unless a request succeeds.\<close>

lemma circuit_run_open:
  assumes "circuit_run p s cs s'" and "cb_state (snd s) = Open" and "cb_opened_at (snd s) = Some t"
    and "OpSuccess \<notin> set cs" and "fst s' < t + hp_circuit_recovery_seconds p" and "t \<le> fst s"
  shows "cb_state (snd s') = Open \<and> (\<exists>t'. cb_opened_at (snd s') = Some t' \<and> t \<le> t') \<and> t \<le> fst s'"
  using assms
proof (induction rule: circuit_run.induct)
  case (run_step p s cs s' c s'')
  obtain v b u b' where s: "s' = (v, b)" "s'' = (u, b')" by (cases s'; cases s'') auto
  have vu: "v \<le> u" using run_step.hyps(2) unfolding s by (cases rule: circuit_step_cases) auto
  then have b: "cb_state b = Open" "\<exists>t'. cb_opened_at b = Some t' \<and> t \<le> t'" "t \<le> v"
    using run_step.IH run_step.prems by (auto simp: s)
  have step: "circuit_step p (v, b) c (u, b')" using run_step.hyps(2) by (simp only: s)
  have "cb_state b' = Open \<and> (\<exists>t'. cb_opened_at b' = Some t' \<and> t \<le> t')" using step
  proof (cases rule: circuit_step_cases)
    case (allow ok)
    then show ?thesis using b vu run_step.prems(4)
      by (auto simp: s breaker_allow_def split: if_splits)
  next
    case success
    then show ?thesis using run_step.prems(3) by simp
  next
    case failure
    then show ?thesis using b vu by (auto simp: s breaker_failure_def Let_def)
  qed
  then show ?case using b(3) vu by (simp add: s)
qed auto

section \<open>The retry loop\<close>

text \<open>Attempts numbered from \<open>i + 1\<close>, all but the last retryable failures.\<close>

definition retried :: "nat \<Rightarrow> attempt_receipt list \<Rightarrow> bool" where
  "retried i as \<longleftrightarrow> (\<forall>k<length as. ar_attempt (as ! k) = i + k + 1)
     \<and> (\<forall>k. k + 1 < length as \<longrightarrow> ar_retryable (as ! k) \<and> ar_status (as ! k) \<noteq> AtSuccess)"

lemma retried_Nil [simp]: "retried i []"
  by (simp add: retried_def)

lemma retried_Cons:
  "retried i (a # as) \<longleftrightarrow> ar_attempt a = i + 1 \<and> (as \<noteq> [] \<longrightarrow> ar_retryable a \<and> ar_status a \<noteq> AtSuccess) \<and> retried (Suc i) as"
  by (auto simp: retried_def nth_Cons less_Suc_eq_0_disj split: nat.splits)

lemma handle_result_None: "handle_result r = None \<Longrightarrow> \<exists>status payload raw. r = Answered status payload raw"
  by (cases r) (auto simp: Let_def)

lemma handle_result_Some: "handle_result r = Some (status, final, x) \<Longrightarrow> status \<noteq> AtSuccess \<and> final \<notin> {ExSuccess, ExRecovered, ExCircuitOpen}"
  by (cases r) (auto simp: Let_def split: if_splits)

definition loop_ok :: "client_policy \<Rightarrow> nat \<Rightarrow> loop_end \<Rightarrow> attempt_receipt list \<Rightarrow> rat list \<Rightarrow> bool" where
  "loop_ok p i e as sleeps \<longleftrightarrow> retried i as \<and> length as \<le> Suc (hp_max_retries p) - i
     \<and> length sleeps \<le> hp_max_retries p - i
     \<and> sum_list sleeps \<le> hp_backoff_seconds p * (2 ^ hp_max_retries p - 2 ^ i)
     \<and> (case e of
          LoopAnswer index _ _ \<Rightarrow> as \<noteq> [] \<and> index = i + length as - 1 \<and> ar_status (last as) = AtSuccess
        | LoopFailed final \<Rightarrow> as \<noteq> [] \<and> ar_status (last as) \<noteq> AtSuccess \<and> final \<notin> {ExSuccess, ExRecovered, ExCircuitOpen}
            \<and> (ar_retryable (last as) \<longrightarrow> length as = Suc (hp_max_retries p) - i)
        | LoopRaised _ \<Rightarrow> (\<forall>a\<in>set as. ar_status a \<noteq> AtSuccess))"

lemma attempt_loop_ok:
  assumes "attempt_loop p clock ios scheme [i..<Suc (hp_max_retries p)] st = (e, st')"
    and "i \<le> hp_max_retries p" and "0 \<le> hp_backoff_seconds p"
  shows "\<exists>as sleeps. ls_attempts st' = ls_attempts st @ as \<and> ls_sleeps st' = ls_sleeps st @ sleeps \<and> loop_ok p i e as sleeps"
  using assms
proof (induction "hp_max_retries p - i" arbitrary: i st rule: less_induct)
  case less
  let ?max = "hp_max_retries p" and ?b = "hp_backoff_seconds p"
  have upt: "[i..<Suc ?max] = i # [Suc i..<Suc ?max]" using less.prems(2) by (simp add: upt_rec)
  have "(2::rat) ^ i \<le> 2 ^ ?max" using less.prems(2) by (intro power_increasing) auto
  then have nonneg: "0 \<le> ?b * (2 ^ ?max - 2 ^ i)" using less.prems(3) by simp
  define started where "started = clock (ls_ticks st)"
  obtain sc result where run: "run_attempt p scheme (ios i) = (sc, result)" by fastforce
  define st1 where "st1 = st\<lparr>ls_ticks := ls_ticks st + 1,
    ls_scope := (case sc of None \<Rightarrow> ls_scope st | Some x \<Rightarrow> Some x)\<rparr>"
  have keep: "ls_attempts st1 = ls_attempts st" "ls_sleeps st1 = ls_sleeps st" by (simp_all add: st1_def)
  note loop = less.prems(1)[unfolded upt attempt_loop.simps run prod.case Let_def, folded started_def st1_def]
  show ?case
  proof (cases result)
    case (Inl x)
    then have "e = LoopRaised x" "st' = st1" using loop by simp_all
    then show ?thesis using keep nonneg less.prems(2) by (intro exI[of _ "[]"]) (simp add: loop_ok_def)
  next
    case (Inr r)
    show ?thesis
    proof (cases "handle_result r")
      case None
      then obtain status payload raw where "r = Answered status payload raw" using handle_result_None by blast
      then show ?thesis using loop Inr keep nonneg less.prems(2)
        by (auto simp: loop_ok_def retried_Cons attempt_receipt_of_def)
    next
      case (Some h)
      obtain status final retryable code name where h: "h = (status, final, retryable, code, name)" by (cases h) auto
      note fail = handle_result_Some[OF Some[unfolded h]]
      define a where "a = attempt_receipt_of i status (clock (ls_ticks st1) - started) retryable code (Some name)
        (if retryable \<and> i < ?max then ?b * 2 ^ i else 0)"
      have a: "ar_attempt a = i + 1" "ar_status a = status" "ar_retryable a = retryable"
        by (simp_all add: a_def attempt_receipt_of_def)
      define st2 where "st2 = st1\<lparr>ls_ticks := ls_ticks st1 + 1, ls_attempts := ls_attempts st1 @ [a]\<rparr>"
      show ?thesis
      proof (cases "retryable \<and> i < ?max")
        case False
        then have "e = LoopFailed final" "st' = st2"
          using loop Inr Some h by (auto simp: st2_def a_def)
        then show ?thesis using fail False keep nonneg less.prems(2) a
          by (auto simp: loop_ok_def st2_def retried_Cons)
      next
        case True
        let ?st3 = "st2\<lparr>ls_sleeps := ls_sleeps st2 @ [?b * 2 ^ i]\<rparr>"
        have "attempt_loop p clock ios scheme [Suc i..<Suc ?max] ?st3 = (e, st')"
          using loop Inr Some h True by (simp add: st2_def a_def)
        moreover have "?max - Suc i < ?max - i" "Suc i \<le> ?max" using True by auto
        ultimately have "\<exists>as sleeps. ls_attempts st' = ls_attempts ?st3 @ as \<and> ls_sleeps st' = ls_sleeps ?st3 @ sleeps
            \<and> loop_ok p (Suc i) e as sleeps" using less.hyps less.prems(3) by blast
        then obtain as sleeps where
          r: "ls_attempts st' = ls_attempts ?st3 @ as" "ls_sleeps st' = ls_sleeps ?st3 @ sleeps"
            "loop_ok p (Suc i) e as sleeps" by blast
        have "loop_ok p i e (a # as) (?b * 2 ^ i # sleeps)"
          using r(3) True a fail
          by (auto simp: loop_ok_def retried_Cons algebra_simps split: loop_end.splits)
        then show ?thesis using r(1,2) keep
          by (intro exI[of _ "a # as"] exI[of _ "?b * 2 ^ i # sleeps"]) (simp add: st2_def)
      qed
    qed
  qed
qed

section \<open>Requests\<close>

lemma breaker_for_set [simp]:
  "breaker_for (set_breaker o1 b c) o2 = (if o1 = o2 then b else breaker_for c o2)"
  "breaker_for (c\<lparr>hc_ticks := n\<rparr>) o2 = breaker_for c o2"
  "breaker_for (c\<lparr>hc_sleeps := ss\<rparr>) o2 = breaker_for c o2"
  "breaker_for (c\<lparr>hc_scopes := sc\<rparr>) o2 = breaker_for c o2"
  "hc_sleeps (set_breaker o1 b c) = hc_sleeps c" "hc_scopes (set_breaker o1 b c) = hc_scopes c"
  by (auto simp: breaker_for_def set_breaker_def)

lemma breaker_allow_keeps:
  "breaker_allow p t b = Some (ok, b') \<Longrightarrow> cb_failures b' = cb_failures b \<and> cb_opened_at b' = cb_opened_at b
     \<and> (cb_state b \<noteq> Open \<longrightarrow> ok \<and> b' = b) \<and> (\<not> ok \<longrightarrow> cb_state b' = Open \<and> b' = b)"
  by (auto simp: breaker_allow_def split: if_splits option.splits)

text \<open>The ways a request ends.\<close>

lemma request_json_cases [consumes 1, case_names endpoint assertion refused raised answered failed]:
  assumes r: "request_json C p clock ios url method payload client = (out, client')"
    and endpoint: "\<And>e. endpoint_metadata url p = Inl e \<Longrightarrow> out = Raised e \<Longrightarrow> client' = client \<Longrightarrow> P"
    and assertion: "\<And>eid host port scheme origin. endpoint_metadata url p = Inr (eid, host, port, scheme, origin) \<Longrightarrow>
      breaker_allow p (clock (hc_ticks client)) (breaker_for client origin) = None \<Longrightarrow>
      out = Raised BreakerAssertion \<Longrightarrow> client' = client \<Longrightarrow> P"
    and refused: "\<And>eid host port scheme origin b1 x. endpoint_metadata url p = Inr (eid, host, port, scheme, origin) \<Longrightarrow>
      breaker_allow p (clock (hc_ticks client)) (breaker_for client origin) = Some (False, b1) \<Longrightarrow>
      out = TransportError ''circuit breaker is open'' x \<Longrightarrow> xr_status x = ExCircuitOpen \<Longrightarrow> xr_attempts x = [] \<Longrightarrow>
      xr_attempt_count x = 0 \<Longrightarrow> hc_sleeps client' = hc_sleeps client \<Longrightarrow>
      (\<And>o2. breaker_for client' o2 = (if o2 = origin then b1 else breaker_for client o2)) \<Longrightarrow> P"
    and raised: "\<And>eid host port scheme origin b1 ticks st e.
      endpoint_metadata url p = Inr (eid, host, port, scheme, origin) \<Longrightarrow>
      breaker_allow p (clock (hc_ticks client)) (breaker_for client origin) = Some (True, b1) \<Longrightarrow>
      attempt_loop p clock ios scheme [0..<Suc (hp_max_retries p)]
        \<lparr>ls_attempts = [], ls_scope = None, ls_ticks = ticks, ls_sleeps = []\<rparr> = (LoopRaised e, st) \<Longrightarrow>
      out = Raised e \<Longrightarrow> hc_sleeps client' = hc_sleeps client @ ls_sleeps st \<Longrightarrow>
      (\<And>o2. breaker_for client' o2 = (if o2 = origin then b1 else breaker_for client o2)) \<Longrightarrow> P"
    and answered: "\<And>eid host port scheme origin b1 ticks st index v raw x.
      endpoint_metadata url p = Inr (eid, host, port, scheme, origin) \<Longrightarrow>
      breaker_allow p (clock (hc_ticks client)) (breaker_for client origin) = Some (True, b1) \<Longrightarrow>
      attempt_loop p clock ios scheme [0..<Suc (hp_max_retries p)]
        \<lparr>ls_attempts = [], ls_scope = None, ls_ticks = ticks, ls_sleeps = []\<rparr> = (LoopAnswer index v raw, st) \<Longrightarrow>
      out = JsonResult v x raw \<Longrightarrow> xr_status x = (if index = 0 then ExSuccess else ExRecovered) \<Longrightarrow>
      xr_attempts x = ls_attempts st \<Longrightarrow> xr_attempt_count x = length (ls_attempts st) \<Longrightarrow> xr_retry_count x = index \<Longrightarrow>
      xr_circuit_after x = Closed \<Longrightarrow> hc_sleeps client' = hc_sleeps client @ ls_sleeps st \<Longrightarrow>
      (\<And>o2. breaker_for client' o2 = (if o2 = origin then breaker_success b1 else breaker_for client o2)) \<Longrightarrow> P"
    and failed: "\<And>eid host port scheme origin b1 ticks st final x u.
      endpoint_metadata url p = Inr (eid, host, port, scheme, origin) \<Longrightarrow>
      breaker_allow p (clock (hc_ticks client)) (breaker_for client origin) = Some (True, b1) \<Longrightarrow>
      attempt_loop p clock ios scheme [0..<Suc (hp_max_retries p)]
        \<lparr>ls_attempts = [], ls_scope = None, ls_ticks = ticks, ls_sleeps = []\<rparr> = (LoopFailed final, st) \<Longrightarrow>
      out = TransportError (last_error final) x \<Longrightarrow> xr_status x = final \<Longrightarrow>
      xr_attempts x = ls_attempts st \<Longrightarrow> xr_attempt_count x = length (ls_attempts st) \<Longrightarrow>
      xr_retry_count x = length (ls_attempts st) - 1 \<Longrightarrow> hc_sleeps client' = hc_sleeps client @ ls_sleeps st \<Longrightarrow>
      (\<And>o2. breaker_for client' o2 = (if o2 = origin then breaker_failure p u b1 else breaker_for client o2)) \<Longrightarrow> P"
  shows P
proof (cases "endpoint_metadata url p")
  case (Inl e)
  then show P using endpoint r by (simp add: request_json_def)
next
  case (Inr meta)
  obtain eid host port scheme origin where meta: "meta = (eid, host, port, scheme, origin)" by (cases meta) auto
  note ep = Inr[unfolded meta]
  note r1 = r[unfolded request_json_def ep sum.case prod.case]
  show P
  proof (cases "breaker_allow p (clock (hc_ticks client)) (breaker_for client origin)")
    case None
    then show P using assertion[OF ep None] r1 by (simp add: Let_def)
  next
    case (Some ok)
    obtain allowed b1 where ok: "ok = (allowed, b1)" by (cases ok)
    show P
    proof (cases allowed)
      case False
      have s: "breaker_allow p (clock (hc_ticks client)) (breaker_for client origin) = Some (False, b1)"
        using Some ok False by simp
      show P by (rule refused[OF ep s]) (use r1 s in \<open>auto simp: Let_def\<close>)
    next
      case True
      have s: "breaker_allow p (clock (hc_ticks client)) (breaker_for client origin) = Some (True, b1)"
        using Some ok True by simp
      define ticks where "ticks = (if cb_state (breaker_for client origin) = Open then hc_ticks client + 1 else hc_ticks client)"
      obtain loop st where l: "attempt_loop p clock ios scheme [0..<Suc (hp_max_retries p)]
        \<lparr>ls_attempts = [], ls_scope = None, ls_ticks = ticks, ls_sleeps = []\<rparr> = (loop, st)" by fastforce
      note r2 = r1[unfolded s option.case prod.case Let_def, folded ticks_def, unfolded Suc_eq_plus1[symmetric] l prod.case]
      show P
      proof (cases loop)
        case (LoopRaised e)
        note l' = l[unfolded LoopRaised]
        show P by (rule raised[OF ep s l']) (use r2 LoopRaised in auto)
      next
        case (LoopAnswer index v raw)
        note l' = l[unfolded LoopAnswer]
        show P by (rule answered[OF ep s l']) (use r2 LoopAnswer in \<open>auto simp: breaker_success_def\<close>)
      next
        case (LoopFailed final)
        note l' = l[unfolded LoopFailed]
        show P by (rule failed[OF ep s l']) (use r2 LoopFailed in auto)
      qed
    qed
  qed
qed

lemma request_json_loop_ok:
  assumes "attempt_loop p clock ios scheme [0..<Suc (hp_max_retries p)]
      \<lparr>ls_attempts = [], ls_scope = None, ls_ticks = ticks, ls_sleeps = []\<rparr> = (e, st)"
    and "0 \<le> hp_backoff_seconds p"
  shows "loop_ok p 0 e (ls_attempts st) (ls_sleeps st)"
  using attempt_loop_ok[OF assms(1) _ assms(2)] by auto

lemma retried_failures:
  assumes "retried i as" and "as \<noteq> []" and "ar_status (last as) \<noteq> AtSuccess"
  shows "\<forall>a\<in>set as. ar_status a \<noteq> AtSuccess"
proof
  fix a assume "a \<in> set as"
  then obtain k where k: "k < length as" "a = as ! k" by (auto simp: in_set_conv_nth)
  show "ar_status a \<noteq> AtSuccess"
  proof (cases "k + 1 < length as")
    case True
    then show ?thesis using assms(1) k by (auto simp: retried_def)
  next
    case False
    then have "k = length as - 1" using k(1) by linarith
    then have "a = last as" using k(2) assms(2) by (simp add: last_conv_nth)
    then show ?thesis using assms(3) by simp
  qed
qed

section \<open>An evaluated example\<close>

definition demo_policy :: client_policy where
  "demo_policy = \<lparr>hp_allowed_hosts = [''api.test''], hp_allow_local = False, hp_timeout_seconds = 10, hp_max_retries = 1,
     hp_backoff_seconds = 1 / 2, hp_circuit_failure_threshold = 2, hp_circuit_recovery_seconds = 5,
     hp_max_response_bytes = 100\<rparr>"

definition demo_url :: parsed_url where
  "demo_url = \<lparr>ur_scheme = ''https'', ur_netloc = ''api.test'', ur_username = None, ur_password = None, ur_query = [],
     ur_fragment = [], ur_hostname = Some ''API.test.'', ur_port = None, ur_path = ''/v1''\<rparr>"

definition demo_address :: ip_address where
  "demo_address = \<lparr>ip_is_loopback = False, ip_is_private = False, ip_is_link_local = False, ip_is_multicast = False,
     ip_is_reserved = False, ip_is_unspecified = False\<rparr>"

definition demo_ios :: "nat \<Rightarrow> attempt_io" where
  "demo_ios n = \<lparr>io_resolution = Resolved [demo_address],
     io_end = (if n = 0 then HttpStatusError 503 else Response 200 ''{}'' ''application/json'' (Inr (JObj [])))\<rparr>"

definition demo_client :: http_client where
  "demo_client = \<lparr>hc_breakers = [], hc_scopes = [], hc_ticks = 0, hc_sleeps = []\<rparr>"

lemma demo_host: "rstrip_dots (lower ''API.test.'') = ''api.test''"
  by code_simp

lemma demo_endpoint:
  "endpoint_metadata demo_url demo_policy = Inr (''https://api.test/v1'', ''api.test'', 443, ''https'', ''https://api.test'')"
  by (simp add: endpoint_metadata_def demo_url_def demo_policy_def demo_host opt_truthy_def Let_def)

section \<open>Properties\<close>

text \<open>C13: whatever order its operations come in, the breaker is closed exactly while it has fewer failures than the threshold
  and exactly while it has no opening time, so the assertion in allow never fails.\<close>

theorem circuit_invariant:
  assumes "circuit_run p (t0, new_breaker) cs (t, b)" and "1 \<le> hp_circuit_failure_threshold p"
  shows "(cb_state b = Closed \<longleftrightarrow> cb_failures b < hp_circuit_failure_threshold p)
    \<and> (cb_state b = Closed \<longleftrightarrow> cb_opened_at b = None) \<and> (\<forall>u. breaker_allow p u b \<noteq> None)"
proof -
  have "circuit_inv p t b" using circuit_run_inv[OF assms(1) _ assms(2)] circuit_inv_new[OF assms(2)] by simp
  then show ?thesis using circuit_inv_allow[of p t b] by (force simp: circuit_inv_def)
qed

theorem circuit_invariant_witness:
  "cb_state (breaker_failure demo_policy 2 (breaker_failure demo_policy 1 new_breaker)) = Open
   \<and> (\<forall>u. breaker_allow demo_policy u (breaker_failure demo_policy 2 (breaker_failure demo_policy 1 new_breaker)) \<noteq> None)"
proof -
  let ?b1 = "breaker_failure demo_policy 1 new_breaker" and ?b2 = "breaker_failure demo_policy 2 (breaker_failure demo_policy 1 new_breaker)"
  have 1: "circuit_run demo_policy (0, new_breaker) ([] @ [OpFailure]) (1, ?b1)"
    by (rule run_step[OF run_done]) (rule step_failure, simp)
  have "circuit_run demo_policy (0, new_breaker) (([] @ [OpFailure]) @ [OpFailure]) (2, ?b2)"
    by (rule run_step[OF 1]) (rule step_failure, simp)
  then show ?thesis using circuit_invariant[of demo_policy 0 _ 2 ?b2]
    by (simp add: demo_policy_def breaker_failure_def new_breaker_def)
qed

text \<open>Once a circuit has opened at time t, every request before t plus the recovery time is refused, whatever the
  threads that share it do, as long as none of their requests still succeeds.\<close>

theorem open_circuit_refuses:
  assumes "circuit_run p (t, b) cs (u, b')" and "cb_state b = Open" and "cb_opened_at b = Some t"
    and "OpSuccess \<notin> set cs" and "u < t + hp_circuit_recovery_seconds p"
  shows "breaker_allow p u b' = Some (False, b')"
proof -
  have "cb_state b' = Open \<and> (\<exists>t'. cb_opened_at b' = Some t' \<and> t \<le> t')"
    using circuit_run_open[OF assms(1)] assms(2-5) by auto
  then show ?thesis using assms(5) by (auto simp: breaker_allow_def)
qed

text \<open>A request ends after at most max_retries + 1 attempts and max_retries sleeps, whose sum is bounded by the exponential
  back-off. Its receipt numbers the attempts from 1, only retryable failures precede the last one, and success and RECOVERED are
  reported exactly for an answered first and later attempt; a failed request reports no successful attempt.\<close>

theorem request_attempts_bounded:
  assumes "request_json C p clock ios url method payload client = (out, client')" and "0 \<le> hp_backoff_seconds p"
  shows "(\<exists>sleeps. hc_sleeps client' = hc_sleeps client @ sleeps \<and> length sleeps \<le> hp_max_retries p
        \<and> sum_list sleeps \<le> hp_backoff_seconds p * (2 ^ hp_max_retries p - 1))
    \<and> (case out of
         JsonResult v r raw \<Rightarrow> retried 0 (xr_attempts r) \<and> xr_attempt_count r = length (xr_attempts r)
           \<and> xr_attempt_count r \<le> hp_max_retries p + 1 \<and> xr_retry_count r = xr_attempt_count r - 1
           \<and> ar_status (last (xr_attempts r)) = AtSuccess
           \<and> xr_status r = (if xr_attempt_count r = 1 then ExSuccess else ExRecovered) \<and> xr_circuit_after r = Closed
       | TransportError m r \<Rightarrow> retried 0 (xr_attempts r) \<and> xr_attempt_count r = length (xr_attempts r)
           \<and> xr_attempt_count r \<le> hp_max_retries p + 1
           \<and> (\<forall>a\<in>set (xr_attempts r). ar_status a \<noteq> AtSuccess) \<and> xr_status r \<notin> {ExSuccess, ExRecovered}
           \<and> (xr_status r = ExCircuitOpen \<longleftrightarrow> xr_attempts r = [])
       | Raised e \<Rightarrow> True)"
  using assms(1)
proof (cases rule: request_json_cases)
  case (raised eid host port scheme origin b1 ticks st e)
  then show ?thesis using request_json_loop_ok[OF raised(3) assms(2)] by (auto simp: loop_ok_def)
next
  case (answered eid host port scheme origin b1 ticks st index v raw x)
  note ok = request_json_loop_ok[OF answered(3) assms(2)]
  then have "ls_attempts st \<noteq> []" by (simp add: loop_ok_def)
  then show ?thesis using ok answered by (cases "ls_attempts st") (auto simp: loop_ok_def)
next
  case (failed eid host port scheme origin b1 ticks st final x u)
  note ok = request_json_loop_ok[OF failed(3) assms(2)]
  then have "\<forall>a\<in>set (ls_attempts st). ar_status a \<noteq> AtSuccess"
    using retried_failures by (auto simp: loop_ok_def)
  then show ?thesis using ok failed by (auto simp: loop_ok_def)
qed (use assms(2) in auto)

text \<open>C40: a host that does not resolve ends the request with the bare exception of the resolver: no receipt is returned, no retry
  is made, and the failure is not counted, so the circuit of the origin never opens on it.\<close>

theorem dns_failure_bypasses_breaker:
  assumes "endpoint_metadata url p = Inr (eid, host, port, scheme, origin)"
    and "io_resolution (ios 0) = ResolveFailure" and "cb_state (breaker_for client origin) \<noteq> Open"
  shows "\<exists>client'. request_json C p clock ios url method payload client = (Raised DnsFailure, client')
    \<and> (\<forall>o2. breaker_for client' o2 = breaker_for client o2) \<and> hc_sleeps client' = hc_sleeps client"
proof -
  obtain out client' where r: "request_json C p clock ios url method payload client = (out, client')" by fastforce
  have run: "run_attempt p scheme (ios 0) = (None, Inl DnsFailure)" using assms(2) by (simp add: run_attempt_def)
  have loop: "attempt_loop p clock ios scheme [0..<Suc (hp_max_retries p)] st = (LoopRaised DnsFailure,
      st\<lparr>ls_ticks := ls_ticks st + 1, ls_scope := ls_scope st\<rparr>)" for st
    by (simp add: upt_rec[of 0] run Let_def del: upt_Suc)
  show ?thesis using r
  proof (cases rule: request_json_cases)
    case (raised eid' host' port' scheme' origin' b1 ticks st e)
    then show ?thesis
      using assms loop breaker_allow_keeps[OF raised(2)] r by (auto simp: assms(1))
  qed (use assms loop in \<open>auto simp: breaker_allow_def\<close>)
qed

theorem dns_failure_bypasses_breaker_witness:
  "\<exists>client'. request_json toy_crypto demo_policy (\<lambda>n. of_nat n)
      (\<lambda>_. \<lparr>io_resolution = ResolveFailure, io_end = DeadlineExpired ''TimeoutError''\<rparr>) demo_url GET None demo_client
      = (Raised DnsFailure, client') \<and> breaker_for client' ''https://api.test'' = new_breaker"
  using dns_failure_bypasses_breaker[OF demo_endpoint, of "\<lambda>_. \<lparr>io_resolution = ResolveFailure, io_end = DeadlineExpired ''TimeoutError''\<rparr>"
      demo_client toy_crypto "\<lambda>n. of_nat n" GET None]
  by (auto simp: demo_client_def breaker_for_def new_breaker_def)

end
