(* ===== verification/Task_Tables.thy ===== *)
theory Task_Tables
  imports Runtime_Safety
begin

text \<open>
  The tables of the task store (\<open>task_store.py\<close>, \<open>product_models.py\<close>) and its tenant operations: users, workspaces,
  members and projects. A table is the list of its rows in insertion order; an operation takes the store and returns
  the new one, or an error, in which case its transaction is rolled back. Primary keys, UNIQUE columns and foreign
  keys are checked where a row is inserted (\<open>IntegrityFailure\<close> is \<open>sqlite3.IntegrityError\<close>). Fresh identifiers (\<open>uuid4\<close>)
  and clock readings are arguments. Texts kept as JSON in a column (tool lists, receipts) are kept as the value they
  encode. The incident command table is modelled in \<open>Command_Store\<close>.
\<close>

section \<open>Enumerations\<close>

datatype task_status =
    TaskCreated | TaskPlanned | TaskRunning | TaskVerifying | TaskCompleted | TaskFailed | TaskCancelled | TaskArchived

fun task_status_str :: "task_status \<Rightarrow> string" where
  "task_status_str TaskCreated = ''CREATED''"
| "task_status_str TaskPlanned = ''PLANNED''"
| "task_status_str TaskRunning = ''RUNNING''"
| "task_status_str TaskVerifying = ''VERIFYING''"
| "task_status_str TaskCompleted = ''COMPLETED''"
| "task_status_str TaskFailed = ''FAILED''"
| "task_status_str TaskCancelled = ''CANCELLED''"
| "task_status_str TaskArchived = ''ARCHIVED''"

datatype intervention_action = ApprovePlan | CancelPlan | AcknowledgeResult | RequestChanges

datatype data_source_kind = SyntheticDemo | LocalAuthorizedDirectory | ExternalResidencyReference

fun data_source_kind_str :: "data_source_kind \<Rightarrow> string" where
  "data_source_kind_str SyntheticDemo = ''synthetic_demo''"
| "data_source_kind_str LocalAuthorizedDirectory = ''local_authorized_directory''"
| "data_source_kind_str ExternalResidencyReference = ''external_residency_reference''"

datatype source_event_type = SourceGranted | SourceRevoked | SourceExpired

fun source_event_type_str :: "source_event_type \<Rightarrow> string" where
  "source_event_type_str SourceGranted = ''GRANTED''"
| "source_event_type_str SourceRevoked = ''REVOKED''"
| "source_event_type_str SourceExpired = ''EXPIRED''"

text \<open>Errors carry the message of their raise site.\<close>

datatype store_error =
    NotFound string
  | Conflict string
  | InvalidTransition task_status task_status
  | ValueFailure string                         \<comment> \<open>\<open>ValueError\<close>, pydantic's included\<close>
  | AuthenticationFailed
  | IntegrityFailure

section \<open>Rows\<close>

record user_row =
  us_user_id :: string
  us_display_name :: string
  us_email :: "string option"
  us_created_at :: string

record workspace_row =
  wk_workspace_id :: string
  wk_name :: string
  wk_owner_user_id :: string
  wk_created_at :: string

record member_row =
  mb_workspace_id :: string
  mb_user_id :: string
  mb_role :: string
  mb_created_at :: string

record project_row =
  pj_project_id :: string
  pj_workspace_id :: string
  pj_name :: string
  pj_description :: string
  pj_scenario_profile :: scenario_profile
  pj_source_kind :: data_source_kind
  pj_created_at :: string
  pj_updated_at :: string

text \<open>\<open>TaskRecord\<close> and the row it is read from.\<close>

record task =
  tk_task_id :: string
  tk_workspace_id :: string
  tk_project_id :: string
  tk_created_by :: string
  tk_goal :: string
  tk_seed :: int
  tk_scenario_profile :: scenario_profile
  tk_source_kind :: data_source_kind
  tk_source_id :: "string option"
  tk_plan_approval_required :: bool
  tk_allowed_tools :: "string list"
  tk_request_sha256 :: string
  tk_idempotency_key :: "string option"
  tk_execution_status :: task_status
  tk_current_phase :: string
  tk_initial_decision :: "string option"
  tk_final_decision :: "string option"
  tk_runtime_status :: "string option"
  tk_artifact_root_rel :: "string option"
  tk_trace_rel :: "string option"
  tk_trace_sha256 :: "string option"
  tk_evidence_zip_rel :: "string option"
  tk_evidence_sha256 :: "string option"
  tk_error_code :: "string option"
  tk_error_message :: "string option"
  tk_created_at :: string
  tk_updated_at :: string
  tk_started_at :: "string option"
  tk_completed_at :: "string option"

record execution_owner =
  ow_task_id :: string
  ow_workspace_id :: string
  ow_project_id :: string
  ow_request_sha256 :: string
  ow_execution_id :: string
  ow_process_id :: int
  ow_started_at :: string
  ow_receipt_sha256 :: string

record recovery_receipt =
  rv_task_id :: string
  rv_workspace_id :: string
  rv_project_id :: string
  rv_replacement_task_id :: string
  rv_original_snapshot_sha256 :: string
  rv_failed_task_snapshot_sha256 :: string
  rv_replacement_task_snapshot_sha256 :: string
  rv_reviewer_identity :: string
  rv_note :: string
  rv_recovered_by :: string
  rv_recovered_at :: string
  rv_receipt_sha256 :: string

record approval_binding =
  ab_request_sha256 :: string
  ab_before_snapshot_sha256 :: string
  ab_plan_sha256 :: string
  ab_contract_sha256 :: string
  ab_source_profile_matched :: bool
  ab_source_profile_sha256 :: "string option"
  ab_source_authorization_event_sha256 :: "string option"
  ab_binding_sha256 :: string

record intervention =
  iv_intervention_id :: string
  iv_task_id :: string
  iv_sequence :: nat
  iv_actor_user_id :: string
  iv_action :: intervention_action
  iv_note :: string
  iv_before_status :: task_status
  iv_before_phase :: string
  iv_before_snapshot_sha256 :: string
  iv_plan_sha256 :: string
  iv_approval_binding :: "approval_binding option"
  iv_created_at :: string

record lineage_edge =
  le_child_task_id :: string
  le_parent_task_id :: string
  le_root_task_id :: string
  le_depth :: nat
  le_parent_request_sha256 :: string
  le_parent_evidence_sha256 :: string
  le_contract_sha256 :: string
  le_created_by :: string
  le_note :: string
  le_created_at :: string
  le_edge_sha256 :: string

text \<open>The event row; \<open>tv_payload_json\<close> is the stored text.\<close>

record task_event_row =
  tv_task_id :: string
  tv_sequence :: int
  tv_phase :: string
  tv_stage :: string
  tv_status :: string
  tv_summary :: string
  tv_payload_json :: string
  tv_created_at :: string

text \<open>
  A row of \<open>local_source_authorizations\<close>. The constant columns (attestation, read-only, redistribution and the
  retention policies, whose models admit one value each) are left out.
\<close>

record source_row =
  so_source_id :: string
  so_workspace_id :: string
  so_adapter_kind :: string
  so_display_name :: string
  so_root_path :: string
  so_root_path_sha256 :: string
  so_source_archive_sha256 :: string
  so_purpose :: string
  so_rights_basis :: string
  so_residency :: string
  so_authorization_valid_until :: "string option"
  so_redacted_receipt_retention_days :: int
  so_derived_artifact_retention_days :: int
  so_data_profile :: json
  so_status :: string
  so_created_at :: string

record source_event =
  se_event_id :: string
  se_source_id :: string
  se_workspace_id :: string
  se_sequence :: nat
  se_event_type :: source_event_type
  se_actor_kind :: string
  se_actor_id :: string
  se_reason :: string
  se_effective_at :: string
  se_created_at :: string
  se_previous_event_sha256 :: "string option"
  se_fail_closed_task_ids :: "string list"
  se_event_sha256 :: string

record store =
  st_users :: "user_row list"
  st_workspaces :: "workspace_row list"
  st_members :: "member_row list"
  st_projects :: "project_row list"
  st_tasks :: "task list"
  st_owners :: "(string \<times> execution_owner) list"
  st_recoveries :: "(string \<times> recovery_receipt) list"
  st_interventions :: "intervention list"
  st_lineage :: "lineage_edge list"
  st_events :: "task_event_row list"
  st_sources :: "source_row list"
  st_source_events :: "source_event list"

definition empty_store :: store where
  "empty_store = \<lparr>st_users = [], st_workspaces = [], st_members = [], st_projects = [], st_tasks = [], st_owners = [],
     st_recoveries = [], st_interventions = [], st_lineage = [], st_events = [], st_sources = [], st_source_events = []\<rparr>"

text \<open>The identity tables an operation reads in its transaction (\<open>identity_service.py\<close>).\<close>

record identity =
  id_enabled :: bool
  id_credential_status :: "(string \<times> string) list"

section \<open>Membership\<close>

definition assert_active_in_connection :: "identity \<Rightarrow> string \<Rightarrow> store_error + unit" where
  "assert_active_in_connection idn actor =
     require (\<not> id_enabled idn \<or> map_of (id_credential_status idn) actor = Some ''ACTIVE'') AuthenticationFailed"

definition is_member :: "store \<Rightarrow> string \<Rightarrow> string \<Rightarrow> bool" where
  "is_member s workspace actor \<longleftrightarrow>
     list_ex (\<lambda>m. mb_workspace_id m = workspace \<and> mb_user_id m = actor) (st_members s)"

definition require_member :: "identity \<Rightarrow> store \<Rightarrow> string \<Rightarrow> string \<Rightarrow> store_error + unit" where
  "require_member idn s workspace actor =
     rbind (assert_active_in_connection idn actor) (\<lambda>_.
     require (is_member s workspace actor) (NotFound ''workspace not found''))"

lemma require_member_Inr [simp]:
  "require_member idn s w a = Inr u \<longleftrightarrow> assert_active_in_connection idn a = Inr () \<and> is_member s w a"
  by (auto simp: require_member_def)

definition user_exists :: "store \<Rightarrow> string \<Rightarrow> bool" where
  "user_exists s u \<longleftrightarrow> list_ex (\<lambda>r. us_user_id r = u) (st_users s)"

definition workspace_exists :: "store \<Rightarrow> string \<Rightarrow> bool" where
  "workspace_exists s w \<longleftrightarrow> list_ex (\<lambda>r. wk_workspace_id r = w) (st_workspaces s)"

definition find_project :: "store \<Rightarrow> string \<Rightarrow> project_row option" where
  "find_project s p = find (\<lambda>r. pj_project_id r = p) (st_projects s)"

definition find_task :: "store \<Rightarrow> string \<Rightarrow> task option" where
  "find_task s i = find (\<lambda>t. tk_task_id t = i) (st_tasks s)"

section \<open>Users, workspaces, projects\<close>

text \<open>\<open>CreateUserRequest.normalize_email\<close> on the stripped field.\<close>

definition normalize_email :: "string option \<Rightarrow> store_error + string option" where
  "normalize_email value =
     (if \<not> opt_truthy value then Inr None
      else let normalized = lower (case value of None \<Rightarrow> [] | Some v \<Rightarrow> v) in
        if CHR ''@'' \<notin> set normalized \<or> hd normalized = CHR ''@''
        then Inl (ValueFailure ''email must contain a local part and @'') else Inr (Some normalized))"

definition create_user ::
    "string \<Rightarrow> string \<Rightarrow> string \<Rightarrow> string option \<Rightarrow> store \<Rightarrow> store_error + user_row \<times> store" where
  "create_user new_id now display_name email s =
     rbind (require (\<not> user_exists s new_id
         \<and> (email = None \<or> list_all (\<lambda>r. us_email r \<noteq> email) (st_users s)))
       (Conflict ''a user with this email already exists'')) (\<lambda>_.
     (let row = \<lparr>us_user_id = new_id, us_display_name = display_name, us_email = email, us_created_at = now\<rparr> in
      Inr (row, s\<lparr>st_users := st_users s @ [row]\<rparr>)))"

definition create_workspace ::
    "identity \<Rightarrow> string \<Rightarrow> string \<Rightarrow> string \<Rightarrow> string \<Rightarrow> store \<Rightarrow> store_error + workspace_row \<times> store" where
  "create_workspace idn new_id now name owner s =
     rbind (assert_active_in_connection idn owner) (\<lambda>_.
     rbind (require (\<not> workspace_exists s new_id \<and> user_exists s owner \<and> \<not> is_member s new_id owner)
       (NotFound ''workspace owner does not exist'')) (\<lambda>_.
     (let row = \<lparr>wk_workspace_id = new_id, wk_name = name, wk_owner_user_id = owner, wk_created_at = now\<rparr> in
      Inr (row, s\<lparr>st_workspaces := st_workspaces s @ [row],
        st_members := st_members s @ [\<lparr>mb_workspace_id = new_id, mb_user_id = owner, mb_role = ''owner'',
          mb_created_at = now\<rparr>]\<rparr>))))"

definition create_project ::
    "identity \<Rightarrow> string \<Rightarrow> string \<Rightarrow> string \<Rightarrow> string \<Rightarrow> string \<Rightarrow> string \<Rightarrow> scenario_profile \<Rightarrow> data_source_kind
       \<Rightarrow> store \<Rightarrow> store_error + project_row \<times> store" where
  "create_project idn new_id now actor workspace name description profile kind s =
     rbind (require_member idn s workspace actor) (\<lambda>_.
     rbind (require (find_project s new_id = None \<and> workspace_exists s workspace) IntegrityFailure) (\<lambda>_.
     (let row = \<lparr>pj_project_id = new_id, pj_workspace_id = workspace, pj_name = name, pj_description = description,
         pj_scenario_profile = profile, pj_source_kind = kind, pj_created_at = now, pj_updated_at = now\<rparr> in
      Inr (row, s\<lparr>st_projects := st_projects s @ [row]\<rparr>))))"

text \<open>
  \<open>ensure_default_tenant\<close>: four \<open>INSERT OR IGNORE\<close> statements. A primary-key clash skips the insertion, while a
  missing foreign key would still fail; the reads at the end fail their assertion when the rows are not those of the tenant.
  The Chinese texts are their UTF-8 bytes.
\<close>

definition default_user_name :: string where
  "default_user_name = [CHR 0xE6, CHR 0x9C, CHR 0xAC, CHR 0xE5, CHR 0x9C, CHR 0xB0, CHR 0xE6, CHR 0xBC, CHR 0x94,
     CHR 0xE7, CHR 0xA4, CHR 0xBA, CHR 0xE7, CHR 0x94, CHR 0xA8, CHR 0xE6, CHR 0x88, CHR 0xB7]"

definition default_project_name :: string where
  "default_project_name = [CHR 0xE5, CHR 0xB7, CHR 0xA5, CHR 0xE4, CHR 0xB8, CHR 0x9A, CHR 0xE8, CHR 0xA7,
     CHR 0x86, CHR 0xE8, CHR 0xA7, CHR 0x89, CHR 0xE6, CHR 0x95, CHR 0xB0, CHR 0xE6, CHR 0x8D, CHR 0xAE,
     CHR 0xE9, CHR 0x97, CHR 0xA8, CHR 0xE7, CHR 0xA6, CHR 0x81]"

definition default_project_description :: string where
  "default_project_description = [CHR 0xE5, CHR 0xAE, CHR 0xA1, CHR 0xE6, CHR 0xA0, CHR 0xB8, CHR 0xE8, CHR 0xBF,
     CHR 0x9B, CHR 0xE5, CHR 0x85, CHR 0xA5, CHR 0xE5, CHR 0xAE, CHR 0x9E, CHR 0xE9, CHR 0xAA, CHR 0x8C,
     CHR 0xE8, CHR 0xAE, CHR 0xAD, CHR 0xE7, CHR 0xBB, CHR 0x83, CHR 0xE6, CHR 0xB1, CHR 0xA0, CHR 0xE5,
     CHR 0x89, CHR 0x8D, CHR 0xE7, CHR 0x9A, CHR 0x84, CHR 0xE5, CHR 0x9B, CHR 0xBE, CHR 0xE5, CHR 0x83,
     CHR 0x8F, CHR 0xE3, CHR 0x80, CHR 0x81, CHR 0xE6, CHR 0xA0, CHR 0x87, CHR 0xE6, CHR 0xB3, CHR 0xA8,
     CHR 0xE3, CHR 0x80, CHR 0x81, CHR 0xE9, CHR 0x87, CHR 0x8D, CHR 0xE5, CHR 0xA4, CHR 0x8D, CHR 0xE6,
     CHR 0xB3, CHR 0x84, CHR 0xE6, CHR 0xBC, CHR 0x8F, CHR 0xE4, CHR 0xB8, CHR 0x8E, CHR 0xE8, CHR 0xA6,
     CHR 0x86, CHR 0xE7, CHR 0x9B, CHR 0x96, CHR 0xE5, CHR 0xAE, CHR 0x8C, CHR 0xE6, CHR 0x95, CHR 0xB4,
     CHR 0xE6, CHR 0x80, CHR 0xA7, CHR 0xE3, CHR 0x80, CHR 0x82]"

definition ensure_default_tenant :: "string \<Rightarrow> store \<Rightarrow> store_error + (user_row \<times> workspace_row \<times> project_row) \<times> store" where
  "ensure_default_tenant now s =
     (let u = ''usr_local_demo''; w = ''wsp_local_demo''; p = ''prj_industrial_vision'';
          s1 = (if user_exists s u then s
                else s\<lparr>st_users := st_users s @ [\<lparr>us_user_id = u, us_display_name = default_user_name, us_email = None,
                       us_created_at = now\<rparr>]\<rparr>);
          s2 = (if workspace_exists s1 w then s1
                else s1\<lparr>st_workspaces := st_workspaces s1 @ [\<lparr>wk_workspace_id = w, wk_name = ''Vision Lab'',
                       wk_owner_user_id = u, wk_created_at = now\<rparr>]\<rparr>);
          s3 = (if is_member s2 w u then s2
                else s2\<lparr>st_members := st_members s2 @ [\<lparr>mb_workspace_id = w, mb_user_id = u, mb_role = ''owner'',
                       mb_created_at = now\<rparr>]\<rparr>);
          s4 = (if find_project s3 p \<noteq> None then s3
                else s3\<lparr>st_projects := st_projects s3 @ [\<lparr>pj_project_id = p, pj_workspace_id = w,
                       pj_name = default_project_name, pj_description = default_project_description,
                       pj_scenario_profile = Industrial, pj_source_kind = SyntheticDemo,
                       pj_created_at = now, pj_updated_at = now\<rparr>]\<rparr>) in
      (case (find (\<lambda>r. us_user_id r = u) (st_users s4), find (\<lambda>r. wk_workspace_id r = w) (st_workspaces s4),
             find_project s4 p) of
         (Some ur, Some wr, Some pr) \<Rightarrow> Inr ((ur, wr, pr), s4)
       | _ \<Rightarrow> Inl (ValueFailure ''assert'')))"

definition list_users :: "store \<Rightarrow> user_row list" where
  "list_users s = sort_key (\<lambda>r. (us_created_at r, us_user_id r)) (st_users s)"

definition get_user :: "string \<Rightarrow> store \<Rightarrow> store_error + user_row" where
  "get_user u s = of_opt (NotFound ''user not found'') (find (\<lambda>r. us_user_id r = u) (st_users s))"

text \<open>The workspaces of an actor, with the actor's role in each.\<close>

definition list_workspaces :: "identity \<Rightarrow> string \<Rightarrow> store \<Rightarrow> store_error + (workspace_row \<times> string) list" where
  "list_workspaces idn actor s =
     rbind (assert_active_in_connection idn actor) (\<lambda>_.
     Inr (sort_key (\<lambda>(w, _). (wk_created_at w, wk_workspace_id w))
       [(w, mb_role m). w \<leftarrow> st_workspaces s, m \<leftarrow> st_members s,
          mb_workspace_id m = wk_workspace_id w \<and> mb_user_id m = actor]))"

definition list_projects :: "identity \<Rightarrow> string \<Rightarrow> string \<Rightarrow> store \<Rightarrow> store_error + project_row list" where
  "list_projects idn actor workspace s =
     rbind (require_member idn s workspace actor) (\<lambda>_.
     Inr (rev (sort_key pj_created_at (rev (filter (\<lambda>p. pj_workspace_id p = workspace) (st_projects s))))))"

definition get_project :: "identity \<Rightarrow> string \<Rightarrow> string \<Rightarrow> store \<Rightarrow> store_error + project_row" where
  "get_project idn actor project s =
     rbind (of_opt (NotFound ''project not found'') (find_project s project)) (\<lambda>p.
     rbind (require_member idn s (pj_workspace_id p) actor) (\<lambda>_. Inr p))"

end
