(* ===== verification/Task_Lineage.thy ===== *)
theory Task_Lineage
  imports Task_Tables
begin

text \<open>
  \<open>lineage.py\<close> and the seals of \<open>execution_recovery.py\<close>: the execution contract a re-verification inherits, the sealed edge
  from a task to its parent, the report over a family of tasks, and the receipts of execution ownership and recovery.
  Constructing one of these models strips its texts and checks its constraints (\<open>make_*\<close>); the digest of an edge
  is taken over the texts as given, that of an execution receipt over the stripped ones.
\<close>

section \<open>Tasks as they are read\<close>

text \<open>\<open>TaskStore._task\<close>: a task record strips the texts of its row.\<close>

definition task_of_row :: "task \<Rightarrow> task" where
  "task_of_row r =
     \<lparr>tk_task_id = trim (tk_task_id r), tk_workspace_id = trim (tk_workspace_id r),
      tk_project_id = trim (tk_project_id r), tk_created_by = trim (tk_created_by r), tk_goal = trim (tk_goal r),
      tk_seed = tk_seed r, tk_scenario_profile = tk_scenario_profile r, tk_source_kind = tk_source_kind r,
      tk_source_id = map_option trim (tk_source_id r), tk_plan_approval_required = tk_plan_approval_required r,
      tk_allowed_tools = map trim (tk_allowed_tools r), tk_request_sha256 = trim (tk_request_sha256 r),
      tk_idempotency_key = map_option trim (tk_idempotency_key r), tk_execution_status = tk_execution_status r,
      tk_current_phase = trim (tk_current_phase r), tk_initial_decision = map_option trim (tk_initial_decision r),
      tk_final_decision = map_option trim (tk_final_decision r),
      tk_runtime_status = map_option trim (tk_runtime_status r),
      tk_artifact_root_rel = map_option trim (tk_artifact_root_rel r), tk_trace_rel = map_option trim (tk_trace_rel r),
      tk_trace_sha256 = map_option trim (tk_trace_sha256 r),
      tk_evidence_zip_rel = map_option trim (tk_evidence_zip_rel r),
      tk_evidence_sha256 = map_option trim (tk_evidence_sha256 r), tk_error_code = map_option trim (tk_error_code r),
      tk_error_message = map_option trim (tk_error_message r), tk_created_at = trim (tk_created_at r),
      tk_updated_at = trim (tk_updated_at r), tk_started_at = map_option trim (tk_started_at r),
      tk_completed_at = map_option trim (tk_completed_at r)\<rparr>"

definition task_json :: "task \<Rightarrow> json" where
  "task_json t = JObj
     [(''task_id'', JStr (tk_task_id t)), (''workspace_id'', JStr (tk_workspace_id t)),
      (''project_id'', JStr (tk_project_id t)), (''created_by'', JStr (tk_created_by t)),
      (''goal'', JStr (tk_goal t)), (''seed'', JInt (tk_seed t)),
      (''scenario_profile'', JStr (scenario_str (tk_scenario_profile t))),
      (''source_kind'', JStr (data_source_kind_str (tk_source_kind t))),
      (''source_id'', JOpt JStr (tk_source_id t)),
      (''plan_approval_required'', JBool (tk_plan_approval_required t)),
      (''allowed_tools'', JStrs (tk_allowed_tools t)), (''request_sha256'', JStr (tk_request_sha256 t)),
      (''idempotency_key'', JOpt JStr (tk_idempotency_key t)),
      (''execution_status'', JStr (task_status_str (tk_execution_status t))),
      (''current_phase'', JStr (tk_current_phase t)), (''initial_decision'', JOpt JStr (tk_initial_decision t)),
      (''final_decision'', JOpt JStr (tk_final_decision t)), (''runtime_status'', JOpt JStr (tk_runtime_status t)),
      (''artifact_root_rel'', JOpt JStr (tk_artifact_root_rel t)), (''trace_rel'', JOpt JStr (tk_trace_rel t)),
      (''trace_sha256'', JOpt JStr (tk_trace_sha256 t)), (''evidence_zip_rel'', JOpt JStr (tk_evidence_zip_rel t)),
      (''evidence_sha256'', JOpt JStr (tk_evidence_sha256 t)), (''error_code'', JOpt JStr (tk_error_code t)),
      (''error_message'', JOpt JStr (tk_error_message t)), (''created_at'', JStr (tk_created_at t)),
      (''updated_at'', JStr (tk_updated_at t)), (''started_at'', JOpt JStr (tk_started_at t)),
      (''completed_at'', JOpt JStr (tk_completed_at t))]"

definition task_snapshot_sha256 :: "crypto \<Rightarrow> task \<Rightarrow> string" where
  "task_snapshot_sha256 C t = dumps_sha C (task_json t)"

section \<open>The inherited contract\<close>

definition task_contract_sha256_from_values ::
    "crypto \<Rightarrow> string \<Rightarrow> scenario_profile \<Rightarrow> data_source_kind \<Rightarrow> string list \<Rightarrow> int \<Rightarrow> string" where
  "task_contract_sha256_from_values C project profile kind tools seed = canonical_json_sha C (JObj
     [(''schema_version'', JStr ''visiondata-gate.reverification-contract.v1''), (''project_id'', JStr project),
      (''scenario_profile'', JStr (scenario_str profile)), (''source_kind'', JStr (data_source_kind_str kind)),
      (''allowed_tools'', JStrs tools), (''seed'', JInt seed), (''runtime_backend'', JStr ''deterministic''),
      (''policy_authority'', JStr ''frozen_policy_judge''), (''production_authority'', JStr ''human_only'')])"

definition task_contract_sha256 :: "crypto \<Rightarrow> task \<Rightarrow> string" where
  "task_contract_sha256 C t = task_contract_sha256_from_values C (tk_project_id t) (tk_scenario_profile t)
     (tk_source_kind t) (tk_allowed_tools t) (tk_seed t)"

section \<open>Lineage edges\<close>

definition lineage_payload :: "lineage_edge \<Rightarrow> json" where
  "lineage_payload e = JObj
     [(''schema_version'', JStr ''visiondata-gate.task-lineage-edge.v1''),
      (''child_task_id'', JStr (le_child_task_id e)), (''parent_task_id'', JStr (le_parent_task_id e)),
      (''root_task_id'', JStr (le_root_task_id e)), (''relation'', JStr ''reverification''),
      (''depth'', JInt (int (le_depth e))), (''parent_request_sha256'', JStr (le_parent_request_sha256 e)),
      (''parent_evidence_sha256'', JStr (le_parent_evidence_sha256 e)),
      (''contract_sha256'', JStr (le_contract_sha256 e)), (''created_by'', JStr (le_created_by e)),
      (''note'', JStr (le_note e)), (''created_at'', JStr (le_created_at e))]"

text \<open>\<open>TaskLineageEdge(...)\<close>.\<close>

definition strip_edge :: "lineage_edge \<Rightarrow> lineage_edge" where
  "strip_edge e =
     \<lparr>le_child_task_id = trim (le_child_task_id e), le_parent_task_id = trim (le_parent_task_id e),
      le_root_task_id = trim (le_root_task_id e), le_depth = le_depth e,
      le_parent_request_sha256 = trim (le_parent_request_sha256 e),
      le_parent_evidence_sha256 = trim (le_parent_evidence_sha256 e),
      le_contract_sha256 = trim (le_contract_sha256 e), le_created_by = trim (le_created_by e),
      le_note = trim (le_note e), le_created_at = trim (le_created_at e), le_edge_sha256 = trim (le_edge_sha256 e)\<rparr>"

definition make_edge :: "lineage_edge \<Rightarrow> store_error + lineage_edge" where
  "make_edge raw =
     (let e = strip_edge raw in
      rbind (require (1 \<le> le_depth e \<and> length (le_parent_request_sha256 e) = 64
         \<and> length (le_parent_evidence_sha256 e) = 64 \<and> length (le_contract_sha256 e) = 64
         \<and> 4 \<le> length (le_note e) \<and> length (le_note e) \<le> 1000 \<and> length (le_edge_sha256 e) = 64)
         (ValueFailure ''TaskLineageEdge'')) (\<lambda>_. Inr e))"

definition seal_task_lineage_edge :: "crypto \<Rightarrow> lineage_edge \<Rightarrow> store_error + lineage_edge" where
  "seal_task_lineage_edge C e =
     make_edge (e\<lparr>le_edge_sha256 := canonical_json_sha C (lineage_payload e)\<rparr>)"

definition verify_task_lineage_edge :: "crypto \<Rightarrow> lineage_edge \<Rightarrow> bool" where
  "verify_task_lineage_edge C e \<longleftrightarrow> canonical_json_sha C (lineage_payload e) = le_edge_sha256 e"

text \<open>\<open>TaskStore._lineage_edge\<close>.\<close>

definition lineage_edge_of_row :: "crypto \<Rightarrow> lineage_edge \<Rightarrow> store_error + lineage_edge" where
  "lineage_edge_of_row C row =
     rbind (make_edge row) (\<lambda>e.
     rbind (require (verify_task_lineage_edge C e) (Conflict ''task lineage edge integrity check failed'')) (\<lambda>_.
     Inr e))"

section \<open>The lineage report\<close>

record lineage_node =
  ln_task :: task
  ln_parent_task_id :: "string option"
  ln_depth :: nat
  ln_source_binding_sha256 :: "string option"
  ln_is_focus :: bool

text \<open>
  The fields a node copies from its task (status, final decision, request and evidence digest, source, times) are those of
  \<open>ln_task\<close>, whose texts a task record has stripped; its relation is \<open>reverification\<close> exactly when it has a parent.
  \<open>TaskLineageNode(...)\<close> strips the source binding and checks the request digest and that binding, the report checks the
  contract digest. The report's own digest is left out.
\<close>

record lineage_report =
  lr_root_task_id :: string
  lr_focus_task_id :: string
  lr_latest_task_id :: string
  lr_contract_sha256 :: string
  lr_nodes :: "lineage_node list"
  lr_edges :: "lineage_edge list"

datatype lineage_error =
    EmptyLineage | NotOneRoot | ContractDrift | UnknownTask | RequestBinding | EvidenceBinding
  | EdgeContractBinding | EdgeDigest | DepthInconsistent | NodeConstraint | ReportConstraint

text \<open>Dictionaries built by comprehension: the last entry of a key wins.\<close>

definition task_by_id :: "task list \<Rightarrow> string \<Rightarrow> task option" where
  "task_by_id ts i = find (\<lambda>t. tk_task_id t = i) (rev ts)"

definition edge_by_child :: "lineage_edge list \<Rightarrow> string \<Rightarrow> lineage_edge option" where
  "edge_by_child es i = find (\<lambda>e. le_child_task_id e = i) (rev es)"

definition check_edge ::
    "crypto \<Rightarrow> task list \<Rightarrow> lineage_edge list \<Rightarrow> string \<Rightarrow> string \<Rightarrow> lineage_edge \<Rightarrow> lineage_error + unit" where
  "check_edge C ts es origin contract e =
     (case task_by_id ts (le_parent_task_id e) of
        None \<Rightarrow> Inl UnknownTask
      | Some parent \<Rightarrow>
          rbind (require (le_root_task_id e = origin) UnknownTask) (\<lambda>_.
          rbind (require (le_parent_request_sha256 e = tk_request_sha256 parent) RequestBinding) (\<lambda>_.
          rbind (require (Some (le_parent_evidence_sha256 e) = tk_evidence_sha256 parent) EvidenceBinding) (\<lambda>_.
          rbind (require (le_contract_sha256 e = contract) EdgeContractBinding) (\<lambda>_.
          rbind (require (verify_task_lineage_edge C e) EdgeDigest) (\<lambda>_.
          require (le_depth e = (case edge_by_child es (tk_task_id parent) of None \<Rightarrow> 1 | Some p \<Rightarrow> le_depth p + 1))
            DepthInconsistent))))))"

text \<open>\<open>TaskLineageNode(...)\<close> for a task, its edge and its source binding.\<close>

definition make_lineage_node ::
    "string \<Rightarrow> task \<Rightarrow> lineage_edge option \<Rightarrow> string option \<Rightarrow> lineage_error + lineage_node" where
  "make_lineage_node focus t edge raw =
     (let binding = map_option trim raw in
      rbind (require (length (tk_request_sha256 t) = 64 \<and> pred_option is_sha256 binding) NodeConstraint) (\<lambda>_.
      Inr \<lparr>ln_task = t, ln_parent_task_id = map_option le_parent_task_id edge,
           ln_depth = (case edge of None \<Rightarrow> 0 | Some e \<Rightarrow> le_depth e),
           ln_source_binding_sha256 = binding, ln_is_focus = (tk_task_id t = focus)\<rparr>))"

text \<open>\<open>source_bindings.get(task.source_id) if task.source_id else None\<close>.\<close>

definition source_binding :: "(string \<times> string) list \<Rightarrow> task \<Rightarrow> string option" where
  "source_binding bindings t =
     (if opt_truthy (tk_source_id t) then map_of bindings (the (tk_source_id t)) else None)"

definition lineage_node_of ::
    "crypto \<Rightarrow> (string \<times> string) list \<Rightarrow> string \<Rightarrow> task list \<Rightarrow> lineage_edge list \<Rightarrow> string \<Rightarrow> string \<Rightarrow> task
       \<Rightarrow> lineage_error + lineage_node" where
  "lineage_node_of C bindings focus ts es origin contract t =
     rbind (require (task_contract_sha256 C t = contract) ContractDrift) (\<lambda>_.
     (let edge = edge_by_child es (tk_task_id t) in
      rbind (case edge of None \<Rightarrow> Inr () | Some e \<Rightarrow> check_edge C ts es origin contract e) (\<lambda>_.
      make_lineage_node focus t edge (source_binding bindings t))))"

definition build_task_lineage_report ::
    "crypto \<Rightarrow> (string \<times> string) list \<Rightarrow> string \<Rightarrow> task list \<Rightarrow> lineage_edge list \<Rightarrow> lineage_error + lineage_report" where
  "build_task_lineage_report C bindings focus ts es =
     (if ts = [] then Inl EmptyLineage
      else case filter (\<lambda>t. edge_by_child es (tk_task_id t) = None) ts of
        [first] \<Rightarrow>
          rbind (rmap (lineage_node_of C bindings focus ts es (tk_task_id first) (task_contract_sha256 C first)) ts) (\<lambda>nodes.
          (let ordered = sort_key (\<lambda>n. (ln_depth n, tk_created_at (ln_task n), tk_task_id (ln_task n))) nodes;
               latest = Max ((\<lambda>n. (tk_created_at (ln_task n), tk_task_id (ln_task n))) ` set ordered) in
           rbind (require (length (task_contract_sha256 C first) = 64) ReportConstraint) (\<lambda>_.
           Inr \<lparr>lr_root_task_id = tk_task_id first, lr_focus_task_id = trim focus, lr_latest_task_id = snd latest,
                lr_contract_sha256 = task_contract_sha256 C first, lr_nodes = ordered,
                lr_edges = sort_key (\<lambda>e. (le_depth e, le_created_at e)) es\<rparr>)))
      | _ \<Rightarrow> Inl NotOneRoot)"

section \<open>Execution receipts\<close>

definition owner_payload :: "execution_owner \<Rightarrow> json" where
  "owner_payload w = JObj
     [(''schema_version'', JStr ''visiondata-gate.execution-owner.v1''), (''task_id'', JStr (ow_task_id w)),
      (''workspace_id'', JStr (ow_workspace_id w)), (''project_id'', JStr (ow_project_id w)),
      (''request_sha256'', JStr (ow_request_sha256 w)), (''execution_id'', JStr (ow_execution_id w)),
      (''process_id'', JInt (ow_process_id w)), (''started_at'', JStr (ow_started_at w))]"

definition recovery_payload :: "recovery_receipt \<Rightarrow> json" where
  "recovery_payload r = JObj
     [(''schema_version'', JStr ''visiondata-gate.task-execution-recovery-receipt.v1''),
      (''task_id'', JStr (rv_task_id r)), (''workspace_id'', JStr (rv_workspace_id r)),
      (''project_id'', JStr (rv_project_id r)), (''replacement_task_id'', JStr (rv_replacement_task_id r)),
      (''original_snapshot_sha256'', JStr (rv_original_snapshot_sha256 r)),
      (''failed_task_snapshot_sha256'', JStr (rv_failed_task_snapshot_sha256 r)),
      (''replacement_task_snapshot_sha256'', JStr (rv_replacement_task_snapshot_sha256 r)),
      (''reviewer_identity'', JStr (rv_reviewer_identity r)), (''note'', JStr (rv_note r)),
      (''recovered_by'', JStr (rv_recovered_by r)), (''recovered_at'', JStr (rv_recovered_at r)),
      (''requires_new_plan_approval'', JBool True), (''auto_started'', JBool False)]"

definition verify_execution_owner :: "crypto \<Rightarrow> execution_owner \<Rightarrow> store_error + unit" where
  "verify_execution_owner C w = require (canonical_json_sha C (owner_payload w) = ow_receipt_sha256 w)
     (ValueFailure ''task execution receipt digest mismatch'')"

definition verify_recovery_receipt :: "crypto \<Rightarrow> recovery_receipt \<Rightarrow> store_error + unit" where
  "verify_recovery_receipt C r = require (canonical_json_sha C (recovery_payload r) = rv_receipt_sha256 r)
     (ValueFailure ''task execution receipt digest mismatch'')"

text \<open>\<open>seal_execution_model\<close> for the two models: construct, digest what was constructed, construct again.\<close>

definition make_owner :: "execution_owner \<Rightarrow> store_error + execution_owner" where
  "make_owner raw =
     (let w = \<lparr>ow_task_id = trim (ow_task_id raw), ow_workspace_id = trim (ow_workspace_id raw),
            ow_project_id = trim (ow_project_id raw), ow_request_sha256 = trim (ow_request_sha256 raw),
            ow_execution_id = trim (ow_execution_id raw), ow_process_id = ow_process_id raw,
            ow_started_at = trim (ow_started_at raw), ow_receipt_sha256 = trim (ow_receipt_sha256 raw)\<rparr> in
      rbind (require (is_sha256 (ow_request_sha256 w) \<and> 1 \<le> ow_process_id w \<and> is_sha256 (ow_receipt_sha256 w))
        (ValueFailure ''ManagedExecutionOwner'')) (\<lambda>_. Inr w))"

definition seal_execution_owner :: "crypto \<Rightarrow> execution_owner \<Rightarrow> store_error + execution_owner" where
  "seal_execution_owner C w =
     rbind (make_owner (w\<lparr>ow_receipt_sha256 := zero_sha\<rparr>)) (\<lambda>provisional.
     make_owner (provisional\<lparr>ow_receipt_sha256 := canonical_json_sha C (owner_payload provisional)\<rparr>))"

definition new_execution_owner ::
    "crypto \<Rightarrow> string \<Rightarrow> int \<Rightarrow> string \<Rightarrow> task \<Rightarrow> store_error + execution_owner" where
  "new_execution_owner C execution_id pid now t = seal_execution_owner C
     \<lparr>ow_task_id = tk_task_id t, ow_workspace_id = tk_workspace_id t, ow_project_id = tk_project_id t,
      ow_request_sha256 = tk_request_sha256 t, ow_execution_id = execution_id, ow_process_id = pid,
      ow_started_at = now, ow_receipt_sha256 = []\<rparr>"

definition make_recovery :: "recovery_receipt \<Rightarrow> store_error + recovery_receipt" where
  "make_recovery raw =
     (let r = \<lparr>rv_task_id = trim (rv_task_id raw), rv_workspace_id = trim (rv_workspace_id raw),
            rv_project_id = trim (rv_project_id raw), rv_replacement_task_id = trim (rv_replacement_task_id raw),
            rv_original_snapshot_sha256 = trim (rv_original_snapshot_sha256 raw),
            rv_failed_task_snapshot_sha256 = trim (rv_failed_task_snapshot_sha256 raw),
            rv_replacement_task_snapshot_sha256 = trim (rv_replacement_task_snapshot_sha256 raw),
            rv_reviewer_identity = trim (rv_reviewer_identity raw), rv_note = trim (rv_note raw),
            rv_recovered_by = trim (rv_recovered_by raw), rv_recovered_at = trim (rv_recovered_at raw),
            rv_receipt_sha256 = trim (rv_receipt_sha256 raw)\<rparr> in
      rbind (require (is_sha256 (rv_original_snapshot_sha256 r) \<and> is_sha256 (rv_failed_task_snapshot_sha256 r)
         \<and> is_sha256 (rv_replacement_task_snapshot_sha256 r) \<and> is_sha256 (rv_receipt_sha256 r))
        (ValueFailure ''TaskExecutionRecoveryReceipt'')) (\<lambda>_. Inr r))"

definition seal_recovery_receipt :: "crypto \<Rightarrow> recovery_receipt \<Rightarrow> store_error + recovery_receipt" where
  "seal_recovery_receipt C r =
     rbind (make_recovery (r\<lparr>rv_receipt_sha256 := zero_sha\<rparr>)) (\<lambda>provisional.
     make_recovery (provisional\<lparr>rv_receipt_sha256 := canonical_json_sha C (recovery_payload provisional)\<rparr>))"

end
