(* ===== verification/Source_Ledger.thy ===== *)
theory Source_Ledger
  imports Task_Tables
begin

text \<open>
  Source authorizations of \<open>task_store.py\<close>: a grant opens a hash-chained ledger of events for a source, a revocation or
  expiry closes it and fails the pending tasks bound to the source in the same transaction. Every read of a source first
  expires it when its validity has passed, so the reads return a store too. The status of a source is that of its
  last event. A clock reading is taken per source; time stamps have the form that \<open>isoformat(timespec="milliseconds")\<close>
  gives, which is how \<open>_now\<close> and the validator of the deadline write them.
\<close>

section \<open>Time stamps\<close>

definition decimal :: "string \<Rightarrow> int option" where
  "decimal s = (if s \<noteq> [] \<and> list_all is_digit s
     then Some (foldl (\<lambda>a c. 10 * a + (int (of_char c) - 48)) 0 s) else None)"

text \<open>Days since 1970-01-01 in the Gregorian calendar.\<close>

definition days_from_civil :: "int \<Rightarrow> int \<Rightarrow> int \<Rightarrow> int" where
  "days_from_civil y m d =
     (let y' = (if m \<le> 2 then y - 1 else y); era = y' div 400; yoe = y' mod 400;
          doy = (153 * (if 2 < m then m - 3 else m + 9) + 2) div 5 + d - 1;
          doe = yoe * 365 + yoe div 4 - yoe div 100 + doy in
      era * 146097 + doe - 719468)"

definition leap_year :: "int \<Rightarrow> bool" where
  "leap_year y \<longleftrightarrow> y mod 4 = 0 \<and> (y mod 100 \<noteq> 0 \<or> y mod 400 = 0)"

definition days_in_month :: "int \<Rightarrow> int \<Rightarrow> int" where
  "days_in_month y m = (if m = 2 then (if leap_year y then 29 else 28) else if m \<in> {4, 6, 9, 11} then 30 else 31)"

text \<open>
  \<open>datetime.fromisoformat(s.replace("Z", "+00:00"))\<close> on a stamp with milliseconds and an offset, as milliseconds since
  1970-01-01 in UTC; \<open>None\<close> where it raises.
\<close>

definition replace_zulu :: "string \<Rightarrow> string" where
  "replace_zulu s = concat (map (\<lambda>c. if c = CHR ''Z'' then ''+00:00'' else [c]) s)"

definition fromisoformat :: "string \<Rightarrow> int option" where
  "fromisoformat s =
     (let part = (\<lambda>i n. take n (drop i s)) in
      if length s = 29 \<and> part 4 1 = ''-'' \<and> part 7 1 = ''-'' \<and> part 10 1 = ''T'' \<and> part 13 1 = '':''
         \<and> part 16 1 = '':'' \<and> part 19 1 = ''.'' \<and> part 26 1 = '':'' \<and> (part 23 1 = ''+'' \<or> part 23 1 = ''-'')
      then case (decimal (part 0 4), decimal (part 5 2), decimal (part 8 2), decimal (part 11 2), decimal (part 14 2),
                 decimal (part 17 2), decimal (part 20 3), decimal (part 24 2), decimal (part 27 2)) of
          (Some y, Some m, Some d, Some h, Some mi, Some sec, Some ms, Some oh, Some om) \<Rightarrow>
            if 1 \<le> y \<and> 1 \<le> m \<and> m \<le> 12 \<and> 1 \<le> d \<and> d \<le> days_in_month y m \<and> h < 24 \<and> mi < 60 \<and> sec < 60
               \<and> oh < 24 \<and> om < 60
            then let offset = (if part 23 1 = ''-'' then - (oh * 60 + om) else oh * 60 + om) in
              Some ((((days_from_civil y m d * 24 + h) * 60 + mi - offset) * 60 + sec) * 1000 + ms)
            else None
        | _ \<Rightarrow> None
      else None)"

section \<open>Sealed events\<close>

definition claim_boundary :: string where
  "claim_boundary = ''This event records control-plane authorization state. Revocation or expiry blocks future source reads but does not assert deletion of operator-managed bytes, legal ownership, or production approval.''"

definition source_event_payload :: "source_event \<Rightarrow> json" where
  "source_event_payload e = JObj
     [(''schema_version'', JStr ''visiondata-gate.source-authorization-event.v1''),
      (''event_id'', JStr (se_event_id e)), (''source_id'', JStr (se_source_id e)),
      (''workspace_id'', JStr (se_workspace_id e)), (''sequence'', JInt (int (se_sequence e))),
      (''event_type'', JStr (source_event_type_str (se_event_type e))), (''actor_kind'', JStr (se_actor_kind e)),
      (''actor_id'', JStr (se_actor_id e)), (''reason'', JStr (se_reason e)),
      (''effective_at'', JStr (se_effective_at e)), (''created_at'', JStr (se_created_at e)),
      (''previous_event_sha256'', JOpt JStr (se_previous_event_sha256 e)),
      (''fail_closed_task_ids'', JStrs (se_fail_closed_task_ids e)), (''claim_boundary'', JStr claim_boundary)]"

definition strip_source_event :: "source_event \<Rightarrow> source_event" where
  "strip_source_event e =
     \<lparr>se_event_id = trim (se_event_id e), se_source_id = trim (se_source_id e),
      se_workspace_id = trim (se_workspace_id e), se_sequence = se_sequence e, se_event_type = se_event_type e,
      se_actor_kind = se_actor_kind e, se_actor_id = trim (se_actor_id e), se_reason = trim (se_reason e),
      se_effective_at = trim (se_effective_at e), se_created_at = trim (se_created_at e),
      se_previous_event_sha256 = map_option trim (se_previous_event_sha256 e),
      se_fail_closed_task_ids = map trim (se_fail_closed_task_ids e), se_event_sha256 = trim (se_event_sha256 e)\<rparr>"

text \<open>\<open>SourceAuthorizationEventReceipt(...)\<close>.\<close>

definition make_source_event :: "source_event \<Rightarrow> store_error + source_event" where
  "make_source_event raw =
     (let e = strip_source_event raw in
      rbind (require (1 \<le> se_sequence e \<and> se_actor_kind e \<in> {''operator'', ''system''}
         \<and> (case se_previous_event_sha256 e of None \<Rightarrow> True | Some d \<Rightarrow> is_sha256 d) \<and> is_sha256 (se_event_sha256 e))
        (ValueFailure ''SourceAuthorizationEventReceipt'')) (\<lambda>_. Inr e))"

definition seal_source_authorization_event :: "crypto \<Rightarrow> source_event \<Rightarrow> store_error + source_event" where
  "seal_source_authorization_event C raw =
     (let e = raw\<lparr>se_fail_closed_task_ids := sort (se_fail_closed_task_ids raw)\<rparr> in
      make_source_event (e\<lparr>se_event_sha256 := dumps_sha C (source_event_payload e)\<rparr>))"

definition verify_source_authorization_event :: "crypto \<Rightarrow> source_event \<Rightarrow> bool" where
  "verify_source_authorization_event C e \<longleftrightarrow> dumps_sha C (source_event_payload e) = se_event_sha256 e"

definition source_authorization_event :: "crypto \<Rightarrow> source_event \<Rightarrow> store_error + source_event" where
  "source_authorization_event C row =
     rbind (make_source_event row) (\<lambda>e.
     rbind (require (verify_source_authorization_event C e)
       (Conflict ''source authorization event integrity check failed'')) (\<lambda>_. Inr e))"

section \<open>The chain of a source\<close>

fun chained :: "nat \<Rightarrow> string option \<Rightarrow> source_event list \<Rightarrow> bool" where
  "chained n previous [] \<longleftrightarrow> True"
| "chained n previous (e # es) \<longleftrightarrow>
     se_sequence e = n \<and> se_previous_event_sha256 e = previous \<and> chained (Suc n) (Some (se_event_sha256 e)) es"

definition event_rows :: "store \<Rightarrow> string \<Rightarrow> source_event list" where
  "event_rows s source = sort_key se_sequence (filter (\<lambda>e. se_source_id e = source) (st_source_events s))"

definition source_authorization_events :: "crypto \<Rightarrow> store \<Rightarrow> string \<Rightarrow> store_error + source_event list" where
  "source_authorization_events C s source =
     rbind (rmap (source_authorization_event C) (event_rows s source)) (\<lambda>events.
     rbind (require (chained 1 None events) (Conflict ''source authorization event chain is incomplete'')) (\<lambda>_.
     rbind (require (events \<noteq> [] \<and> se_event_type (hd events) = SourceGranted)
       (Conflict ''source authorization grant event is missing'')) (\<lambda>_. Inr events)))"

text \<open>The primary key, the two UNIQUE constraints and the foreign keys.\<close>

definition insert_source_authorization_event :: "source_event \<Rightarrow> store \<Rightarrow> store_error + store" where
  "insert_source_authorization_event e s =
     rbind (require (list_all (\<lambda>r. se_event_id r \<noteq> se_event_id e \<and> (se_source_id r = se_source_id e \<longrightarrow>
           se_sequence r \<noteq> se_sequence e \<and> se_event_sha256 r \<noteq> se_event_sha256 e)) (st_source_events s)
         \<and> list_ex (\<lambda>r. so_source_id r = se_source_id e) (st_sources s) \<and> workspace_exists s (se_workspace_id e))
       IntegrityFailure) (\<lambda>_.
     Inr (s\<lparr>st_source_events := st_source_events s @ [e]\<rparr>))"

text \<open>The receipt of a source: its row (without the private path) and what its ledger says.\<close>

record source_receipt =
  sc_source :: source_row
  sc_status :: string
  sc_event_count :: nat
  sc_latest_event_type :: source_event_type
  sc_latest_event_sha256 :: string

fun status_by_event :: "source_event_type \<Rightarrow> string" where
  "status_by_event SourceGranted = ''active''"
| "status_by_event SourceRevoked = ''revoked''"
| "status_by_event SourceExpired = ''expired''"

definition strip_source_row :: "source_row \<Rightarrow> source_row" where
  "strip_source_row r = r\<lparr>so_source_id := trim (so_source_id r), so_workspace_id := trim (so_workspace_id r),
     so_display_name := trim (so_display_name r), so_root_path_sha256 := trim (so_root_path_sha256 r),
     so_source_archive_sha256 := trim (so_source_archive_sha256 r), so_purpose := trim (so_purpose r),
     so_rights_basis := trim (so_rights_basis r), so_residency := trim (so_residency r),
     so_authorization_valid_until := map_option trim (so_authorization_valid_until r), so_created_at := trim (so_created_at r)\<rparr>"

text \<open>\<open>LocalSourceAuthorizationReceipt(...)\<close>: its strings are stripped and its fields checked.\<close>

definition local_source_receipt :: "source_row \<Rightarrow> source_event list \<Rightarrow> store_error + source_receipt" where
  "local_source_receipt row events =
     (let r = strip_source_row row; latest = last events; d = trim (se_event_sha256 latest) in
      rbind (require (so_adapter_kind r \<in> {''omni_ad_30_release'', ''operator_project_snapshot''}
         \<and> length (so_root_path_sha256 r) = 64 \<and> length (so_source_archive_sha256 r) = 64
         \<and> 30 \<le> so_redacted_receipt_retention_days r \<and> so_redacted_receipt_retention_days r \<le> 36500
         \<and> 1 \<le> so_derived_artifact_retention_days r \<and> so_derived_artifact_retention_days r \<le> 3650
         \<and> 1 \<le> length events \<and> is_sha256 d) (ValueFailure ''LocalSourceAuthorizationReceipt'')) (\<lambda>_.
      Inr \<lparr>sc_source = r, sc_status = status_by_event (se_event_type latest), sc_event_count = length events,
        sc_latest_event_type = se_event_type latest, sc_latest_event_sha256 = d\<rparr>))"

section \<open>Closing a ledger\<close>

definition pending_for :: "string \<Rightarrow> task \<Rightarrow> bool" where
  "pending_for source t \<longleftrightarrow> tk_source_id t = Some source \<and> tk_execution_status t \<in> {TaskCreated, TaskPlanned}"

definition fail_pending_tasks_for_source ::
    "string \<Rightarrow> string \<Rightarrow> string \<Rightarrow> string \<Rightarrow> store \<Rightarrow> string list \<times> store" where
  "fail_pending_tasks_for_source source code message now s =
     (let ids = map tk_task_id (sort_key (\<lambda>t. (tk_created_at t, tk_task_id t))
            (filter (pending_for source) (st_tasks s))) in
      (ids, s\<lparr>st_tasks := map (\<lambda>t. if tk_task_id t \<in> set ids
         then t\<lparr>tk_execution_status := TaskFailed, tk_current_phase := ''failed_authorization'',
                tk_error_code := Some code, tk_error_message := Some (take 500 message),
                tk_updated_at := now, tk_completed_at := Some now\<rparr>
         else t) (st_tasks s)\<rparr>))"

definition terminal_code :: "source_event_type \<Rightarrow> string" where
  "terminal_code k = (if k = SourceRevoked then ''SOURCE_AUTHORIZATION_REVOKED'' else ''SOURCE_AUTHORIZATION_EXPIRED'')"

definition terminal_message :: string where
  "terminal_message = ''The bound source authorization became terminal before execution; the pending task was failed closed without reading source bytes.''"

definition append_terminal_source_authorization_event ::
    "crypto \<Rightarrow> string \<Rightarrow> source_row \<Rightarrow> source_event_type \<Rightarrow> string \<Rightarrow> string \<Rightarrow> string \<Rightarrow> string option \<Rightarrow> string
       \<Rightarrow> store \<Rightarrow> store_error + source_event \<times> store" where
  "append_terminal_source_authorization_event C new_id row kind actor_kind actor reason expected now s =
     rbind (source_authorization_events C s (so_source_id row)) (\<lambda>events.
     (let latest = last events in
      rbind (require (se_event_type latest = SourceGranted) (Conflict ''source authorization is already terminal'')) (\<lambda>_.
      rbind (require (expected = None \<or> expected = Some (se_event_sha256 latest))
        (Conflict ''source authorization changed; refresh the event chain before retrying'')) (\<lambda>_.
      (let (failed, s1) = fail_pending_tasks_for_source (so_source_id row) (terminal_code kind) terminal_message now s in
       rbind (seal_source_authorization_event C
          \<lparr>se_event_id = new_id, se_source_id = so_source_id row, se_workspace_id = so_workspace_id row,
           se_sequence = se_sequence latest + 1, se_event_type = kind, se_actor_kind = actor_kind, se_actor_id = actor,
           se_reason = reason, se_effective_at = now, se_created_at = now,
           se_previous_event_sha256 = Some (se_event_sha256 latest), se_fail_closed_task_ids = failed,
           se_event_sha256 = []\<rparr>) (\<lambda>event.
       rbind (insert_source_authorization_event event s1) (\<lambda>s2. Inr (event, s2))))))))"

definition expire_source_if_due ::
    "crypto \<Rightarrow> string \<Rightarrow> string \<Rightarrow> source_row \<Rightarrow> store \<Rightarrow> store_error + source_event option \<times> store" where
  "expire_source_if_due C new_id now row s =
     (case so_authorization_valid_until row of
        None \<Rightarrow> Inr (None, s)
      | Some valid_until \<Rightarrow>
          rbind (source_authorization_events C s (so_source_id row)) (\<lambda>events.
          if se_event_type (last events) \<noteq> SourceGranted then Inr (None, s)
          else rbind (of_opt (ValueFailure ''fromisoformat'') (fromisoformat (replace_zulu valid_until))) (\<lambda>deadline.
            rbind (of_opt (ValueFailure ''fromisoformat'') (fromisoformat (replace_zulu now))) (\<lambda>observed.
            if observed < deadline then Inr (None, s)
            else rbind (append_terminal_source_authorization_event C new_id row SourceExpired ''system''
                ''system:authorization-expiry'' ''The declared authorization validity window expired.''
                (Some (se_event_sha256 (last events))) now s) (\<lambda>(e, s'). Inr (Some e, s'))))))"

text \<open>The loop of \<open>expire_due_local_source_authorizations\<close> and of the listing; \<open>tick\<close> gives the fresh event
  identifier and the clock reading for a source.\<close>

fun expire_all ::
    "crypto \<Rightarrow> (string \<Rightarrow> string \<times> string) \<Rightarrow> source_row list \<Rightarrow> store \<Rightarrow> store_error + source_event list \<times> store" where
  "expire_all C tick [] s = Inr ([], s)"
| "expire_all C tick (r # rs) s =
     (let (new_id, now) = tick (so_source_id r) in
      rbind (expire_source_if_due C new_id now r s) (\<lambda>(e, s').
      rbind (expire_all C tick rs s') (\<lambda>(es, s''). Inr ((case e of None \<Rightarrow> es | Some x \<Rightarrow> x # es), s''))))"

section \<open>Operations\<close>

definition find_source :: "store \<Rightarrow> string \<Rightarrow> source_row option" where
  "find_source s i = find (\<lambda>r. so_source_id r = i) (st_sources s)"

definition expire_due_local_source_authorizations ::
    "crypto \<Rightarrow> (string \<Rightarrow> string \<times> string) \<Rightarrow> store \<Rightarrow> store_error + source_event list \<times> store" where
  "expire_due_local_source_authorizations C tick s =
     expire_all C tick (sort_key (\<lambda>r. (so_created_at r, so_source_id r))
       (filter (\<lambda>r. so_authorization_valid_until r \<noteq> None) (st_sources s))) s"

definition grant_reason :: string where
  "grant_reason = ''Operator granted bounded read-only use for the declared purpose, rights basis, residency, retention, and no-redistribution policy.''"

text \<open>
  \<open>request\<close> is the row to insert, whose identifier, status and creation time are filled in; \<open>ids\<close> are the fresh
  source and event identifiers.
\<close>

definition create_local_source_authorization ::
    "crypto \<Rightarrow> identity \<Rightarrow> string \<times> string \<Rightarrow> string \<Rightarrow> (string \<Rightarrow> string \<times> string) \<Rightarrow> string \<Rightarrow> source_row \<Rightarrow> store
       \<Rightarrow> store_error + source_receipt \<times> store" where
  "create_local_source_authorization C idn ids now tick actor request s =
     rbind (require_member idn s (so_workspace_id request) actor) (\<lambda>_.
     (case find (\<lambda>r. so_workspace_id r = so_workspace_id request \<and> so_root_path_sha256 r = so_root_path_sha256 request
             \<and> so_source_archive_sha256 r = so_source_archive_sha256 request) (st_sources s) of
        Some existing \<Rightarrow>
          rbind (expire_source_if_due C (fst (tick (so_source_id existing))) (snd (tick (so_source_id existing)))
            existing s) (\<lambda>(_, s1).
          rbind (source_authorization_events C s1 (so_source_id existing)) (\<lambda>events.
          rbind (local_source_receipt existing events) (\<lambda>receipt. Inr (receipt, s1))))
      | None \<Rightarrow>
          (let row = request\<lparr>so_source_id := fst ids, so_status := ''active'', so_created_at := now\<rparr> in
           rbind (require (find_source s (fst ids) = None \<and> workspace_exists s (so_workspace_id request))
             IntegrityFailure) (\<lambda>_.
           rbind (seal_source_authorization_event C
              \<lparr>se_event_id = snd ids, se_source_id = fst ids, se_workspace_id = so_workspace_id request,
               se_sequence = 1, se_event_type = SourceGranted, se_actor_kind = ''operator'', se_actor_id = actor,
               se_reason = grant_reason, se_effective_at = now, se_created_at = now, se_previous_event_sha256 = None,
               se_fail_closed_task_ids = [], se_event_sha256 = []\<rparr>) (\<lambda>granted.
           rbind (insert_source_authorization_event granted (s\<lparr>st_sources := st_sources s @ [row]\<rparr>)) (\<lambda>s2.
           rbind (local_source_receipt row [granted]) (\<lambda>receipt. Inr (receipt, s2))))))))"

text \<open>The source row an actor may see, in the store in which it has been expired when due.\<close>

definition enter_source ::
    "crypto \<Rightarrow> identity \<Rightarrow> (string \<Rightarrow> string \<times> string) \<Rightarrow> string option \<Rightarrow> string \<Rightarrow> store
       \<Rightarrow> store_error + source_row \<times> store" where
  "enter_source C idn tick actor source s =
     rbind (of_opt (NotFound ''data source not found'') (find_source s source)) (\<lambda>row.
     rbind (case actor of None \<Rightarrow> Inr () | Some a \<Rightarrow> require_member idn s (so_workspace_id row) a) (\<lambda>_.
     rbind (expire_source_if_due C (fst (tick (so_source_id row))) (snd (tick (so_source_id row))) row s) (\<lambda>(_, s').
     Inr (row, s'))))"

definition revoke_local_source_authorization ::
    "crypto \<Rightarrow> identity \<Rightarrow> (string \<Rightarrow> string \<times> string) \<Rightarrow> string \<Rightarrow> string \<Rightarrow> string \<Rightarrow> string \<Rightarrow> string \<Rightarrow> string \<Rightarrow> store
       \<Rightarrow> store_error + source_event \<times> store" where
  "revoke_local_source_authorization C idn tick new_id now actor source reason expected s =
     rbind (enter_source C idn tick (Some actor) source s) (\<lambda>(row, s1).
     append_terminal_source_authorization_event C new_id row SourceRevoked ''operator'' actor reason (Some expected) now s1)"

definition list_source_authorization_events ::
    "crypto \<Rightarrow> identity \<Rightarrow> (string \<Rightarrow> string \<times> string) \<Rightarrow> string \<Rightarrow> string \<Rightarrow> store
       \<Rightarrow> store_error + source_event list \<times> store" where
  "list_source_authorization_events C idn tick actor source s =
     rbind (enter_source C idn tick (Some actor) source s) (\<lambda>(row, s1).
     rbind (source_authorization_events C s1 source) (\<lambda>events. Inr (events, s1)))"

text \<open>With an actor \<open>get_local_source_authorization\<close>, without one \<open>get_local_source_binding_unscoped\<close>.\<close>

definition get_local_source ::
    "crypto \<Rightarrow> identity \<Rightarrow> (string \<Rightarrow> string \<times> string) \<Rightarrow> string option \<Rightarrow> string \<Rightarrow> store
       \<Rightarrow> store_error + source_receipt \<times> store" where
  "get_local_source C idn tick actor source s =
     rbind (enter_source C idn tick actor source s) (\<lambda>(row, s1).
     rbind (source_authorization_events C s1 source) (\<lambda>events.
     rbind (local_source_receipt row events) (\<lambda>receipt. Inr (receipt, s1))))"

definition list_local_source_authorizations ::
    "crypto \<Rightarrow> identity \<Rightarrow> (string \<Rightarrow> string \<times> string) \<Rightarrow> string \<Rightarrow> string \<Rightarrow> store
       \<Rightarrow> store_error + source_receipt list \<times> store" where
  "list_local_source_authorizations C idn tick actor workspace s =
     rbind (require_member idn s workspace actor) (\<lambda>_.
     (let rows = rev (sort_key (\<lambda>r. (so_created_at r, so_source_id r))
            (filter (\<lambda>r. so_workspace_id r = workspace) (st_sources s))) in
      rbind (expire_all C tick rows s) (\<lambda>(_, s1).
      rbind (rmap (\<lambda>r. rbind (source_authorization_events C s1 (so_source_id r)) (\<lambda>events.
          local_source_receipt r events)) rows) (\<lambda>receipts.
      Inr (receipts, s1)))))"

text \<open>
  \<open>_seed_legacy_authorization_events\<close>, run when the database is opened: a source without events gets a grant, and a
  revocation when its stored status says so. \<open>fresh\<close> gives the two event identifiers for a source.
\<close>

definition seed_source ::
    "crypto \<Rightarrow> (string \<Rightarrow> string \<times> string) \<Rightarrow> source_row \<Rightarrow> store \<Rightarrow> store_error + store" where
  "seed_source C fresh row s =
     (let legacy = \<lparr>se_event_id = fst (fresh (so_source_id row)), se_source_id = so_source_id row,
            se_workspace_id = so_workspace_id row, se_sequence = 1, se_event_type = SourceGranted,
            se_actor_kind = ''system'', se_actor_id = ''system:migration-v6'',
            se_reason = ''Migrated pre-v6 authorization into the append-only lifecycle ledger.'',
            se_effective_at = so_created_at row, se_created_at = so_created_at row, se_previous_event_sha256 = None,
            se_fail_closed_task_ids = [], se_event_sha256 = []\<rparr> in
      rbind (seal_source_authorization_event C legacy) (\<lambda>granted.
      rbind (insert_source_authorization_event granted s) (\<lambda>s1.
      if lower (so_status row) = ''revoked''
      then rbind (seal_source_authorization_event C (legacy\<lparr>se_event_id := snd (fresh (so_source_id row)),
             se_sequence := 2, se_event_type := SourceRevoked,
             se_reason := ''Migrated legacy revoked state without reopening source access.'',
             se_previous_event_sha256 := Some (se_event_sha256 granted)\<rparr>)) (\<lambda>revoked.
           insert_source_authorization_event revoked s1)
      else Inr s1)))"

fun seed_all ::
    "crypto \<Rightarrow> (string \<Rightarrow> string \<times> string) \<Rightarrow> source_row list \<Rightarrow> store \<Rightarrow> store_error + store" where
  "seed_all C fresh [] s = Inr s"
| "seed_all C fresh (r # rs) s = rbind (seed_source C fresh r s) (seed_all C fresh rs)"

definition seed_legacy_authorization_events ::
    "crypto \<Rightarrow> (string \<Rightarrow> string \<times> string) \<Rightarrow> store \<Rightarrow> store_error + store" where
  "seed_legacy_authorization_events C fresh s =
     seed_all C fresh (sort_key (\<lambda>r. (so_created_at r, so_source_id r))
       (filter (\<lambda>r. workspace_exists s (so_workspace_id r)
          \<and> \<not> list_ex (\<lambda>e. se_source_id e = so_source_id r) (st_source_events s)) (st_sources s))) s"

end
