(* ===== verification/Task_Lifecycle.thy ===== *)
theory Task_Lifecycle
  imports Task_Lineage Source_Ledger
begin

text \<open>
  The life of a task in \<open>task_store.py\<close>: creation (with idempotency key and re-verification lineage), claim by an
  executor, status transitions, human interventions, recovery of an orphaned execution, and the event log. \<open>store_op\<close>
  collects every operation of the store that changes it, and \<open>exec_store\<close> runs one as a transaction.
\<close>

section \<open>Transitions\<close>

fun TRANSITIONS :: "task_status \<Rightarrow> task_status list" where
  "TRANSITIONS TaskCreated = [TaskPlanned, TaskFailed]"
| "TRANSITIONS TaskPlanned = [TaskRunning, TaskFailed, TaskCancelled]"
| "TRANSITIONS TaskRunning = [TaskVerifying, TaskCompleted, TaskFailed]"
| "TRANSITIONS TaskVerifying = [TaskCompleted, TaskFailed]"
| "TRANSITIONS TaskCompleted = [TaskArchived]"
| "TRANSITIONS TaskFailed = [TaskArchived]"
| "TRANSITIONS TaskCancelled = [TaskArchived]"
| "TRANSITIONS TaskArchived = []"

text \<open>\<open>UPDATE agent_tasks SET ... WHERE\<close>.\<close>

definition update_tasks :: "(task \<Rightarrow> bool) \<Rightarrow> (task \<Rightarrow> task) \<Rightarrow> store \<Rightarrow> store" where
  "update_tasks P f s = s\<lparr>st_tasks := map (\<lambda>t. if P t then f t else t) (st_tasks s)\<rparr>"

text \<open>The columns \<open>transition_task\<close> may set.\<close>

definition field_updates :: "(string \<times> (string option \<Rightarrow> task \<Rightarrow> task)) list" where
  "field_updates =
     [(''initial_decision'', \<lambda>v. tk_initial_decision_update (\<lambda>_. v)),
      (''final_decision'', \<lambda>v. tk_final_decision_update (\<lambda>_. v)),
      (''runtime_status'', \<lambda>v. tk_runtime_status_update (\<lambda>_. v)),
      (''artifact_root_rel'', \<lambda>v. tk_artifact_root_rel_update (\<lambda>_. v)),
      (''trace_rel'', \<lambda>v. tk_trace_rel_update (\<lambda>_. v)),
      (''trace_sha256'', \<lambda>v. tk_trace_sha256_update (\<lambda>_. v)),
      (''evidence_zip_rel'', \<lambda>v. tk_evidence_zip_rel_update (\<lambda>_. v)),
      (''evidence_sha256'', \<lambda>v. tk_evidence_sha256_update (\<lambda>_. v)),
      (''error_code'', \<lambda>v. tk_error_code_update (\<lambda>_. v)),
      (''error_message'', \<lambda>v. tk_error_message_update (\<lambda>_. v)),
      (''started_at'', \<lambda>v. tk_started_at_update (\<lambda>_. v)),
      (''completed_at'', \<lambda>v. tk_completed_at_update (\<lambda>_. v))]"

definition set_fields :: "(string \<times> string option) list \<Rightarrow> task \<Rightarrow> task" where
  "set_fields updates t = foldl (\<lambda>t (k, v). case map_of field_updates k of None \<Rightarrow> t | Some f \<Rightarrow> f v t) t updates"

definition transition_task ::
    "identity \<Rightarrow> string \<Rightarrow> string \<Rightarrow> task_status \<Rightarrow> string \<Rightarrow> (string \<times> string option) list \<Rightarrow> store
       \<Rightarrow> store_error + task \<times> store" where
  "transition_task idn now task_id target phase updates s =
     rbind (require (set (map fst updates) \<subseteq> set (map fst field_updates)) (ValueFailure ''unsupported task update field'')) (\<lambda>_.
     rbind (of_opt (NotFound ''task not found'') (find_task s task_id)) (\<lambda>row.
     rbind (require (target \<in> set (TRANSITIONS (tk_execution_status row)))
       (InvalidTransition (tk_execution_status row) target)) (\<lambda>_.
     rbind (if target = TaskCompleted then assert_active_in_connection idn (tk_created_by row) else Inr ()) (\<lambda>_.
     (let f = (\<lambda>t. set_fields updates (t\<lparr>tk_execution_status := target, tk_current_phase := phase, tk_updated_at := now\<rparr>)) in
      Inr (task_of_row (f row), update_tasks (\<lambda>t. tk_task_id t = task_id) f s))))))"

section \<open>Creation\<close>

record task_request =
  rq_project_id :: string
  rq_goal :: string
  rq_seed :: int
  rq_source_kind :: data_source_kind
  rq_source_id :: "string option"
  rq_plan_approval_required :: bool
  rq_allowed_tools :: "string list"

text \<open>
  The lineage arguments: the parent, the contract and the note. \<open>lineage_parent\<close> checks them and gives the parent as read
  and its own edge.
\<close>

definition lineage_parent ::
    "crypto \<Rightarrow> task_request \<Rightarrow> scenario_profile \<Rightarrow> string \<Rightarrow> string option \<Rightarrow> string option \<Rightarrow> string option \<Rightarrow> store
       \<Rightarrow> store_error + (task \<times> lineage_edge option) option" where
  "lineage_parent C rq profile workspace parent_id contract note s =
     (case parent_id of
        None \<Rightarrow> rbind (require (contract = None \<and> note = None) (ValueFailure ''lineage parent is required'')) (\<lambda>_. Inr None)
      | Some i \<Rightarrow>
          rbind (require (opt_truthy contract \<and> opt_truthy note) (ValueFailure ''lineage contract and note are required'')) (\<lambda>_.
          rbind (of_opt (NotFound ''parent task not found'') (find_task s i)) (\<lambda>row.
          (let parent = task_of_row row in
           rbind (require (tk_workspace_id parent = workspace \<and> tk_project_id parent = rq_project_id rq)
             (Conflict ''re-verification parent must belong to the same project'')) (\<lambda>_.
           rbind (require (tk_execution_status parent = TaskCompleted)
             (Conflict ''re-verification parent must be a completed task'')) (\<lambda>_.
           rbind (require (opt_truthy (tk_evidence_sha256 parent))
             (Conflict ''re-verification parent has no immutable evidence digest'')) (\<lambda>_.
           rbind (require (rq_plan_approval_required rq)
             (Conflict ''re-verification requires explicit human plan approval'')) (\<lambda>_.
           rbind (require (Some (task_contract_sha256 C parent) = contract
               \<and> Some (task_contract_sha256_from_values C (rq_project_id rq) profile (rq_source_kind rq)
                    (rq_allowed_tools rq) (rq_seed rq)) = contract)
             (Conflict ''re-verification task changed the inherited execution contract'')) (\<lambda>_.
           rbind (case find (\<lambda>e. le_child_task_id e = tk_task_id parent) (st_lineage s) of
               None \<Rightarrow> Inr None | Some r \<Rightarrow> rbind (lineage_edge_of_row C r) (\<lambda>e. Inr (Some e))) (\<lambda>edge.
           Inr (Some (parent, edge))))))))))))"

text \<open>The task an idempotency key already names: \<open>None\<close> when there is none.\<close>

definition idempotent_task ::
    "crypto \<Rightarrow> task_request \<Rightarrow> string \<Rightarrow> string option \<Rightarrow> string option \<Rightarrow> string option \<Rightarrow> store
       \<Rightarrow> store_error + task option" where
  "idempotent_task C rq request_sha key parent_id contract s =
     (if \<not> opt_truthy key then Inr None
      else case find (\<lambda>t. tk_project_id t = rq_project_id rq \<and> tk_idempotency_key t = key) (st_tasks s) of
        None \<Rightarrow> Inr None
      | Some existing \<Rightarrow>
          rbind (require (tk_request_sha256 existing = request_sha)
            (Conflict ''idempotency key was already used with a different request'')) (\<lambda>_.
          rbind (case (parent_id, find (\<lambda>e. le_child_task_id e = tk_task_id existing) (st_lineage s)) of
              (Some p, None) \<Rightarrow> Inl (Conflict ''idempotent re-verification task lost its lineage edge'')
            | (Some p, Some r) \<Rightarrow>
                rbind (lineage_edge_of_row C r) (\<lambda>e.
                require (le_parent_task_id e = p \<and> Some (le_contract_sha256 e) = contract)
                  (Conflict ''idempotency key was already used for another lineage''))
            | (None, Some r) \<Rightarrow> Inl (Conflict ''idempotency key resolves to a re-verification task'')
            | (None, None) \<Rightarrow> Inr ()) (\<lambda>_.
          Inr (Some (task_of_row existing)))))"

definition new_task ::
    "string \<Rightarrow> string \<Rightarrow> string \<Rightarrow> string \<Rightarrow> task_request \<Rightarrow> scenario_profile \<Rightarrow> string \<Rightarrow> string option \<Rightarrow> task" where
  "new_task new_id now actor workspace rq profile request_sha key =
     \<lparr>tk_task_id = new_id, tk_workspace_id = workspace, tk_project_id = rq_project_id rq, tk_created_by = actor,
      tk_goal = rq_goal rq, tk_seed = rq_seed rq, tk_scenario_profile = profile, tk_source_kind = rq_source_kind rq,
      tk_source_id = rq_source_id rq, tk_plan_approval_required = rq_plan_approval_required rq,
      tk_allowed_tools = rq_allowed_tools rq, tk_request_sha256 = request_sha, tk_idempotency_key = key,
      tk_execution_status = TaskPlanned, tk_current_phase = ''planned'', tk_initial_decision = None,
      tk_final_decision = None, tk_runtime_status = None, tk_artifact_root_rel = None, tk_trace_rel = None,
      tk_trace_sha256 = None, tk_evidence_zip_rel = None, tk_evidence_sha256 = None, tk_error_code = None,
      tk_error_message = None, tk_created_at = now, tk_updated_at = now, tk_started_at = None, tk_completed_at = None\<rparr>"

text \<open>Primary key, \<open>UNIQUE(project_id, idempotency_key)\<close> and foreign keys of \<open>agent_tasks\<close>.\<close>

definition insert_task :: "task \<Rightarrow> store \<Rightarrow> store_error + store" where
  "insert_task t s =
     rbind (require (find_task s (tk_task_id t) = None
         \<and> (tk_idempotency_key t = None \<or> list_all (\<lambda>r. \<not> (tk_project_id r = tk_project_id t
              \<and> tk_idempotency_key r = tk_idempotency_key t)) (st_tasks s))
         \<and> workspace_exists s (tk_workspace_id t) \<and> find_project s (tk_project_id t) \<noteq> None
         \<and> user_exists s (tk_created_by t)) IntegrityFailure) (\<lambda>_.
     Inr (s\<lparr>st_tasks := st_tasks s @ [t]\<rparr>))"

definition insert_lineage :: "lineage_edge \<Rightarrow> store \<Rightarrow> store_error + store" where
  "insert_lineage e s =
     rbind (require (list_all (\<lambda>r. le_child_task_id r \<noteq> le_child_task_id e) (st_lineage s)
         \<and> find_task s (le_child_task_id e) \<noteq> None \<and> find_task s (le_parent_task_id e) \<noteq> None
         \<and> find_task s (le_root_task_id e) \<noteq> None \<and> user_exists s (le_created_by e)) IntegrityFailure) (\<lambda>_.
     Inr (s\<lparr>st_lineage := st_lineage s @ [e]\<rparr>))"

definition child_edge ::
    "string \<Rightarrow> string \<Rightarrow> string \<Rightarrow> task \<Rightarrow> lineage_edge option \<Rightarrow> string \<Rightarrow> string \<Rightarrow> lineage_edge" where
  "child_edge new_id now actor parent edge contract note =
     \<lparr>le_child_task_id = new_id, le_parent_task_id = tk_task_id parent,
      le_root_task_id = (case edge of None \<Rightarrow> tk_task_id parent | Some e \<Rightarrow> le_root_task_id e),
      le_depth = (case edge of None \<Rightarrow> 1 | Some e \<Rightarrow> le_depth e + 1),
      le_parent_request_sha256 = tk_request_sha256 parent,
      le_parent_evidence_sha256 = (case tk_evidence_sha256 parent of None \<Rightarrow> [] | Some d \<Rightarrow> d),
      le_contract_sha256 = contract, le_created_by = actor, le_note = note, le_created_at = now, le_edge_sha256 = []\<rparr>"

definition create_task ::
    "crypto \<Rightarrow> identity \<Rightarrow> string \<Rightarrow> string \<Rightarrow> string \<Rightarrow> task_request \<Rightarrow> scenario_profile \<Rightarrow> string \<Rightarrow> string option
       \<Rightarrow> string option \<Rightarrow> string option \<Rightarrow> string option \<Rightarrow> store \<Rightarrow> store_error + (task \<times> bool) \<times> store" where
  "create_task C idn new_id now actor rq profile request_sha key parent_id contract note s =
     rbind (of_opt (NotFound ''project not found'') (find_project s (rq_project_id rq))) (\<lambda>project.
     (let workspace = pj_workspace_id project; row = new_task new_id now actor workspace rq profile request_sha key in
      rbind (require_member idn s workspace actor) (\<lambda>_.
      rbind (lineage_parent C rq profile workspace parent_id contract note s) (\<lambda>lineage.
      rbind (idempotent_task C rq request_sha key parent_id contract s) (\<lambda>existing.
      (case existing of
         Some t \<Rightarrow> Inr ((t, False), s)
       | None \<Rightarrow>
           rbind (insert_task row s) (\<lambda>s1.
           rbind (case lineage of
               None \<Rightarrow> Inr s1
             | Some (parent, edge) \<Rightarrow>
                 rbind (seal_task_lineage_edge C (child_edge new_id now actor parent edge
                    (case contract of None \<Rightarrow> [] | Some c \<Rightarrow> c) (case note of None \<Rightarrow> [] | Some n \<Rightarrow> n))) (\<lambda>e.
                 insert_lineage e s1)) (\<lambda>s2.
           Inr ((task_of_row row, True), s2)))))))))"

section \<open>Reading tasks\<close>

definition get_task :: "identity \<Rightarrow> string \<Rightarrow> string \<Rightarrow> store \<Rightarrow> store_error + task" where
  "get_task idn actor task_id s =
     rbind (of_opt (NotFound ''task not found'') (find_task s task_id)) (\<lambda>row.
     rbind (require_member idn s (tk_workspace_id row) actor) (\<lambda>_. Inr (task_of_row row)))"

definition get_task_unscoped :: "string \<Rightarrow> store \<Rightarrow> store_error + task" where
  "get_task_unscoped task_id s =
     rbind (of_opt (NotFound ''task not found'') (find_task s task_id)) (\<lambda>row. Inr (task_of_row row))"

definition list_tasks :: "string \<Rightarrow> string option \<Rightarrow> string option \<Rightarrow> int \<Rightarrow> store \<Rightarrow> task list" where
  "list_tasks actor workspace project limit s =
     map task_of_row (take (nat (max 1 (min limit 200)))
       (rev (sort_key (\<lambda>t. (tk_created_at t, tk_task_id t))
         (filter (\<lambda>t. is_member s (tk_workspace_id t) actor
            \<and> (case workspace of None \<Rightarrow> True | Some w \<Rightarrow> tk_workspace_id t = w)
            \<and> (case project of None \<Rightarrow> True | Some p \<Rightarrow> tk_project_id t = p)) (st_tasks s)))))"

definition get_task_lineage ::
    "crypto \<Rightarrow> identity \<Rightarrow> string \<Rightarrow> string \<Rightarrow> store \<Rightarrow> store_error + task list \<times> lineage_edge list" where
  "get_task_lineage C idn actor task_id s =
     rbind (of_opt (NotFound ''task not found'') (find_task s task_id)) (\<lambda>focus.
     rbind (require_member idn s (tk_workspace_id focus) actor) (\<lambda>_.
     (let origin = (case find (\<lambda>e. le_child_task_id e = task_id) (st_lineage s) of
            None \<Rightarrow> task_id | Some e \<Rightarrow> le_root_task_id e);
          task_rows = sort_key (\<lambda>t. (tk_created_at t, tk_task_id t)) (filter (\<lambda>t. tk_task_id t = origin
            \<or> list_ex (\<lambda>e. le_root_task_id e = origin \<and> le_child_task_id e = tk_task_id t) (st_lineage s)) (st_tasks s));
          edge_rows = sort_key (\<lambda>e. (le_depth e, le_created_at e, le_child_task_id e))
            (filter (\<lambda>e. le_root_task_id e = origin) (st_lineage s)) in
      rbind (rmap (lineage_edge_of_row C) edge_rows) (\<lambda>edges.
      rbind (require (task_id \<in> set (map (tk_task_id \<circ> task_of_row) task_rows))
        (Conflict ''task lineage projection lost the focus task'')) (\<lambda>_.
      Inr (map task_of_row task_rows, edges))))))"

section \<open>Execution\<close>

definition plan_approved :: "store \<Rightarrow> string \<Rightarrow> bool" where
  "plan_approved s task_id \<longleftrightarrow> list_ex (\<lambda>i. iv_task_id i = task_id \<and> iv_action i = ApprovePlan
     \<and> iv_approval_binding i \<noteq> None) (st_interventions s)"

definition claimable :: "store \<Rightarrow> string \<Rightarrow> task \<Rightarrow> bool" where
  "claimable s task_id t \<longleftrightarrow> tk_task_id t = task_id \<and> tk_execution_status t = TaskPlanned
     \<and> (\<not> tk_plan_approval_required t \<or> plan_approved s task_id)"

definition owner_binds :: "crypto \<Rightarrow> execution_owner \<Rightarrow> string \<Rightarrow> store \<Rightarrow> store_error + unit" where
  "owner_binds C w task_id s =
     rbind (verify_execution_owner C w) (\<lambda>_.
     rbind (of_opt (NotFound ''task not found'') (find_task s task_id)) (\<lambda>row.
     require (ow_task_id w = task_id \<and> ow_workspace_id w = tk_workspace_id row
        \<and> ow_project_id w = tk_project_id row \<and> ow_request_sha256 w = tk_request_sha256 row)
       (Conflict ''execution ownership does not bind the task'')))"

definition claim_task ::
    "crypto \<Rightarrow> string \<Rightarrow> string \<Rightarrow> execution_owner option \<Rightarrow> store \<Rightarrow> store_error + bool \<times> store" where
  "claim_task C now task_id owner s =
     rbind (case owner of None \<Rightarrow> Inr () | Some w \<Rightarrow> owner_binds C w task_id s) (\<lambda>_.
     (let claimed = list_ex (claimable s task_id) (st_tasks s);
          s1 = update_tasks (claimable s task_id) (\<lambda>t. t\<lparr>tk_execution_status := TaskRunning,
             tk_current_phase := ''running'', tk_started_at := Some now, tk_updated_at := now\<rparr>) s in
      (case owner of
         None \<Rightarrow> Inr (claimed, s1)
       | Some w \<Rightarrow>
           if \<not> claimed then Inr (False, s1)
           else rbind (require (task_id \<notin> fst ` set (st_owners s1)) IntegrityFailure) (\<lambda>_.
             Inr (True, s1\<lparr>st_owners := st_owners s1 @ [(task_id, w)]\<rparr>)))))"

definition task_execution_owner :: "crypto \<Rightarrow> string \<Rightarrow> store \<Rightarrow> store_error + execution_owner option" where
  "task_execution_owner C task_id s =
     (case map_of (st_owners s) task_id of
        None \<Rightarrow> Inr None
      | Some w \<Rightarrow> rbind (verify_execution_owner C w) (\<lambda>_. Inr (Some w)))"

definition set_verifying_if_running :: "string \<Rightarrow> string \<Rightarrow> store \<Rightarrow> store" where
  "set_verifying_if_running now task_id s =
     update_tasks (\<lambda>t. tk_task_id t = task_id \<and> tk_execution_status t = TaskRunning)
       (\<lambda>t. t\<lparr>tk_execution_status := TaskVerifying, tk_current_phase := ''verification'', tk_updated_at := now\<rparr>) s"

section \<open>Recovery\<close>

definition task_execution_recovery_receipt ::
    "crypto \<Rightarrow> identity \<Rightarrow> string \<Rightarrow> string \<Rightarrow> store \<Rightarrow> store_error + recovery_receipt option" where
  "task_execution_recovery_receipt C idn actor task_id s =
     rbind (get_task idn actor task_id s) (\<lambda>t.
     (case map_of (st_recoveries s) task_id of
        None \<Rightarrow> Inr None
      | Some r \<Rightarrow>
          rbind (verify_recovery_receipt C r) (\<lambda>_.
          rbind (get_task idn actor (rv_replacement_task_id r) s) (\<lambda>replacement.
          rbind (require (rv_task_id r = task_id \<and> rv_workspace_id r = tk_workspace_id t
              \<and> tk_workspace_id t = tk_workspace_id replacement \<and> rv_project_id r = tk_project_id t
              \<and> tk_project_id t = tk_project_id replacement \<and> rv_replacement_task_id r \<noteq> task_id)
            (ValueFailure ''task execution recovery receipt scope mismatch'')) (\<lambda>_.
          Inr (Some r))))))"

record recovery_request =
  rr_expected_snapshot_sha256 :: string
  rr_reviewer_identity :: string
  rr_note :: string

definition interrupted :: "string \<Rightarrow> task \<Rightarrow> task" where
  "interrupted now t = t\<lparr>tk_execution_status := TaskFailed, tk_current_phase := ''interrupted'',
     tk_error_code := Some ''interrupted_confirmed'',
     tk_error_message := Some ''Named operator confirmed the execution owner is absent.'',
     tk_completed_at := Some now, tk_updated_at := now\<rparr>"

text \<open>The replacement repeats the request; it has no idempotency key and always requires approval.\<close>

definition replacement_task :: "string \<Rightarrow> string \<Rightarrow> string \<Rightarrow> string \<Rightarrow> task \<Rightarrow> task" where
  "replacement_task new_id now actor request_sha t = new_task new_id now actor (tk_workspace_id t)
     \<lparr>rq_project_id = tk_project_id t, rq_goal = tk_goal t, rq_seed = tk_seed t, rq_source_kind = tk_source_kind t,
      rq_source_id = tk_source_id t, rq_plan_approval_required = True, rq_allowed_tools = tk_allowed_tools t\<rparr>
     (tk_scenario_profile t) request_sha None"

definition recover_owned_task_execution ::
    "crypto \<Rightarrow> identity \<Rightarrow> string \<Rightarrow> string \<Rightarrow> string \<Rightarrow> string \<Rightarrow> recovery_request \<Rightarrow> string \<Rightarrow> string \<Rightarrow> store
       \<Rightarrow> store_error + recovery_receipt \<times> store" where
  "recover_owned_task_execution C idn new_id now actor task_id rq owner_sha request_sha s =
     rbind (of_opt (NotFound ''task not found'') (find_task s task_id)) (\<lambda>row.
     rbind (require_member idn s (tk_workspace_id row) actor) (\<lambda>_.
     (let t = task_of_row row in
      case map_of (st_recoveries s) task_id of
        Some receipt \<Rightarrow>
          rbind (verify_recovery_receipt C receipt) (\<lambda>_.
          rbind (require (rv_original_snapshot_sha256 receipt = rr_expected_snapshot_sha256 rq
              \<and> rv_recovered_by receipt = actor \<and> rv_reviewer_identity receipt = rr_reviewer_identity rq
              \<and> rv_note receipt = rr_note rq) (Conflict ''task already has a different recovery receipt'')) (\<lambda>_.
          Inr (receipt, s)))
      | None \<Rightarrow>
          rbind (require (tk_execution_status t \<in> {TaskRunning, TaskVerifying}
              \<and> task_snapshot_sha256 C t = rr_expected_snapshot_sha256 rq)
            (Conflict ''task changed before explicit recovery'')) (\<lambda>_.
          rbind (of_opt (Conflict ''legacy execution ownership is unknown'') (map_of (st_owners s) task_id)) (\<lambda>w.
          rbind (verify_execution_owner C w) (\<lambda>_.
          rbind (require (ow_receipt_sha256 w = owner_sha \<and> ow_request_sha256 w = tk_request_sha256 t
              \<and> ow_task_id w = task_id) (Conflict ''execution ownership binding changed'')) (\<lambda>_.
          (let s1 = update_tasks (\<lambda>r. tk_task_id r = task_id) (interrupted now) s;
               fresh = replacement_task new_id now actor request_sha t in
           rbind (insert_task fresh s1) (\<lambda>s2.
           rbind (seal_recovery_receipt C
              \<lparr>rv_task_id = task_id, rv_workspace_id = tk_workspace_id t, rv_project_id = tk_project_id t,
               rv_replacement_task_id = new_id, rv_original_snapshot_sha256 = rr_expected_snapshot_sha256 rq,
               rv_failed_task_snapshot_sha256 = task_snapshot_sha256 C (task_of_row (interrupted now row)),
               rv_replacement_task_snapshot_sha256 = task_snapshot_sha256 C (task_of_row fresh),
               rv_reviewer_identity = rr_reviewer_identity rq, rv_note = rr_note rq, rv_recovered_by = actor,
               rv_recovered_at = now, rv_receipt_sha256 = []\<rparr>) (\<lambda>receipt.
           rbind (require (task_id \<notin> fst ` set (st_recoveries s2)
               \<and> list_all (\<lambda>(_, r). rv_replacement_task_id r \<noteq> new_id) (st_recoveries s2)) IntegrityFailure) (\<lambda>_.
           Inr (receipt, s2\<lparr>st_recoveries := st_recoveries s2 @ [(task_id, receipt)]\<rparr>))))))))))))"

section \<open>Interventions\<close>

definition intervention_allowed :: "store \<Rightarrow> task \<Rightarrow> intervention_action \<Rightarrow> store_error + unit" where
  "intervention_allowed s t action =
     (if action \<in> {ApprovePlan, CancelPlan}
      then rbind (require (tk_execution_status t = TaskPlanned) (Conflict ''plan intervention requires a planned task'')) (\<lambda>_.
        rbind (require (\<not> list_ex (\<lambda>i. iv_task_id i = tk_task_id t \<and> iv_action i \<in> {ApprovePlan, CancelPlan})
            (st_interventions s)) (Conflict ''the plan already has a terminal intervention'')) (\<lambda>_.
        require (action = ApprovePlan \<longrightarrow> tk_plan_approval_required t)
          (Conflict ''this task does not require plan approval'')))
      else if action = RequestChanges
      then require (tk_execution_status t \<in> {TaskCompleted, TaskFailed})
        (Conflict ''change request requires a completed or failed task'')
      else require (tk_execution_status t = TaskCompleted)
        (Conflict ''result acknowledgement requires a completed task''))"

definition binding_fits :: "intervention_action \<Rightarrow> approval_binding option \<Rightarrow> string \<Rightarrow> string \<Rightarrow> task \<Rightarrow> store_error + unit" where
  "binding_fits action binding plan_sha expected t =
     (if action = ApprovePlan
      then case binding of
          None \<Rightarrow> Inl (Conflict ''plan approval requires a sealed approval binding'')
        | Some b \<Rightarrow> require (ab_plan_sha256 b = plan_sha \<and> ab_before_snapshot_sha256 b = expected
             \<and> ab_request_sha256 b = tk_request_sha256 t) (Conflict ''plan approval binding does not match the task'')
      else require (binding = None) (Conflict ''only plan approval may carry an approval binding''))"

definition next_sequence :: "store \<Rightarrow> string \<Rightarrow> nat" where
  "next_sequence s task_id = Max (insert 0 (set (map iv_sequence
     (filter (\<lambda>i. iv_task_id i = task_id) (st_interventions s))))) + 1"

definition insert_intervention :: "intervention \<Rightarrow> store \<Rightarrow> store_error + store" where
  "insert_intervention i s =
     rbind (require (list_all (\<lambda>r. iv_intervention_id r \<noteq> iv_intervention_id i
         \<and> \<not> (iv_task_id r = iv_task_id i \<and> iv_sequence r = iv_sequence i)) (st_interventions s)
         \<and> find_task s (iv_task_id i) \<noteq> None \<and> user_exists s (iv_actor_user_id i)) IntegrityFailure) (\<lambda>_.
     Inr (s\<lparr>st_interventions := st_interventions s @ [i]\<rparr>))"

definition record_intervention ::
    "crypto \<Rightarrow> identity \<Rightarrow> string \<Rightarrow> string \<Rightarrow> string \<Rightarrow> string \<Rightarrow> intervention_action \<Rightarrow> string \<Rightarrow> string \<Rightarrow> string
       \<Rightarrow> approval_binding option \<Rightarrow> store \<Rightarrow> store_error + intervention \<times> store" where
  "record_intervention C idn new_id now actor task_id action note plan_sha expected binding s =
     rbind (of_opt (NotFound ''task not found'') (find_task s task_id)) (\<lambda>row.
     rbind (require_member idn s (tk_workspace_id row) actor) (\<lambda>_.
     (let t = task_of_row row;
          i = \<lparr>iv_intervention_id = new_id, iv_task_id = task_id, iv_sequence = next_sequence s task_id,
               iv_actor_user_id = actor, iv_action = action, iv_note = note,
               iv_before_status = tk_execution_status t, iv_before_phase = tk_current_phase t,
               iv_before_snapshot_sha256 = task_snapshot_sha256 C t, iv_plan_sha256 = plan_sha,
               iv_approval_binding = binding, iv_created_at = now\<rparr> in
      rbind (binding_fits action binding plan_sha expected t) (\<lambda>_.
      rbind (intervention_allowed s (t\<lparr>tk_task_id := task_id\<rparr>) action) (\<lambda>_.
      rbind (require (task_snapshot_sha256 C t = expected)
        (Conflict ''task state changed before intervention was recorded'')) (\<lambda>_.
      rbind (insert_intervention i s) (\<lambda>s1.
      Inr (i, if action = CancelPlan
        then update_tasks (\<lambda>r. tk_task_id r = task_id \<and> tk_execution_status r = TaskPlanned)
          (\<lambda>r. r\<lparr>tk_execution_status := TaskCancelled, tk_current_phase := ''cancelled'',
             tk_completed_at := Some now, tk_updated_at := now\<rparr>) s1
        else s1))))))))"

definition list_interventions :: "identity \<Rightarrow> string \<Rightarrow> string \<Rightarrow> store \<Rightarrow> store_error + intervention list" where
  "list_interventions idn actor task_id s =
     rbind (get_task idn actor task_id s) (\<lambda>_.
     Inr (sort_key iv_sequence (filter (\<lambda>i. iv_task_id i = task_id) (st_interventions s))))"

section \<open>Events\<close>

text \<open>
  A runtime event as \<open>model_dump(mode="json")\<close> gives it, with the fields the store projects. \<open>json_codec\<close> is the rest of
  the \<open>json\<close> module the log uses: \<open>json.dumps\<close> with sorted keys, and \<open>json.loads\<close> with hooks that refuse duplicate
  keys and non-finite numbers (\<open>None\<close> where it raises).
\<close>

record runtime_event =
  re_sequence :: int
  re_phase :: string
  re_stage :: string
  re_status :: string
  re_summary :: string
  re_payload :: json

record json_codec =
  jc_dumps :: "json \<Rightarrow> string"
  jc_strict_loads :: "string \<Rightarrow> json option"

definition event_row :: "json_codec \<Rightarrow> string \<Rightarrow> string \<Rightarrow> runtime_event \<Rightarrow> task_event_row" where
  "event_row J now task_id e =
     \<lparr>tv_task_id = task_id, tv_sequence = re_sequence e, tv_phase = re_phase e, tv_stage = re_stage e,
      tv_status = re_status e, tv_summary = re_summary e, tv_payload_json = jc_dumps J (re_payload e),
      tv_created_at = now\<rparr>"

definition insert_event :: "task_event_row \<Rightarrow> store \<Rightarrow> store_error + store" where
  "insert_event r s =
     rbind (require (list_all (\<lambda>x. \<not> (tv_task_id x = tv_task_id r \<and> tv_sequence x = tv_sequence r)) (st_events s)
         \<and> find_task s (tv_task_id r) \<noteq> None) IntegrityFailure) (\<lambda>_.
     Inr (s\<lparr>st_events := st_events s @ [r]\<rparr>))"

fun insert_events :: "task_event_row list \<Rightarrow> store \<Rightarrow> store_error + store" where
  "insert_events [] s = Inr s"
| "insert_events (r # rs) s = rbind (insert_event r s) (insert_events rs)"

definition append_event :: "json_codec \<Rightarrow> string \<Rightarrow> string \<Rightarrow> runtime_event \<Rightarrow> store \<Rightarrow> store_error + store" where
  "append_event J now task_id e s = insert_event (event_row J now task_id e) s"

definition task_event_rows :: "store \<Rightarrow> string \<Rightarrow> task_event_row list" where
  "task_event_rows s task_id = sort_key tv_sequence (filter (\<lambda>r. tv_task_id r = task_id) (st_events s))"

definition strict_canonical_json :: "crypto \<Rightarrow> json_codec \<Rightarrow> string \<Rightarrow> string option" where
  "strict_canonical_json C J text = map_option (dumps C) (jc_strict_loads J text)"

fun check_stored_events ::
    "crypto \<Rightarrow> json_codec \<Rightarrow> int \<Rightarrow> task_event_row list \<Rightarrow> runtime_event list \<Rightarrow> store_error + unit" where
  "check_stored_events C J n [] events = Inr ()"
| "check_stored_events C J n (r # rs) [] = Inl (Conflict ''canonical task events cannot remove existing events'')"
| "check_stored_events C J n (r # rs) (e # es) =
     rbind (require (tv_sequence r = n) (Conflict ''stored task events are not contiguous and ordered'')) (\<lambda>_.
     rbind (of_opt (Conflict ''stored task event payload is invalid'') (strict_canonical_json C J (tv_payload_json r))) (\<lambda>stored.
     rbind (require ((tv_sequence r, tv_phase r, tv_stage r, tv_status r, tv_summary r)
           = (re_sequence e, re_phase e, re_stage e, re_status e, re_summary e) \<and> stored = dumps C (re_payload e))
       (Conflict ''canonical task event conflicts with stored event'')) (\<lambda>_.
     check_stored_events C J (n + 1) rs es)))"

fun contiguous :: "int \<Rightarrow> runtime_event list \<Rightarrow> bool" where
  "contiguous n [] \<longleftrightarrow> True"
| "contiguous n (e # es) \<longleftrightarrow> re_sequence e = n \<and> contiguous (n + 1) es"

definition reconcile_events ::
    "crypto \<Rightarrow> json_codec \<Rightarrow> string \<Rightarrow> string \<Rightarrow> runtime_event list \<Rightarrow> store \<Rightarrow> store_error + store" where
  "reconcile_events C J now task_id events s =
     rbind (require (contiguous 1 events) (Conflict ''canonical task events must be contiguous and ordered'')) (\<lambda>_.
     (let existing = task_event_rows s task_id in
      rbind (require (length existing \<le> length events) (Conflict ''canonical task events cannot remove existing events'')) (\<lambda>_.
      rbind (check_stored_events C J 1 existing events) (\<lambda>_.
      insert_events (map (event_row J now task_id) (drop (length existing) events)) s))))"

definition list_events :: "identity \<Rightarrow> string \<Rightarrow> string \<Rightarrow> store \<Rightarrow> store_error + task_event_row list" where
  "list_events idn actor task_id s = rbind (get_task idn actor task_id s) (\<lambda>_. Inr (task_event_rows s task_id))"

end
