(* ===== verification/Task_History.thy ===== *)
theory Task_History
  imports Task_Lifecycle
begin

text \<open>
  Histories of the task store: every operation that changes the store as one \<open>store_op\<close>, its effect on the tables,
  the invariant all of them keep, and the properties of reachable stores.
\<close>

section \<open>Operations\<close>

datatype (discs_sels) store_op =
    CreateUser string string string "string option"
  | CreateWorkspace identity string string string string
  | CreateProject identity string string string string string string scenario_profile data_source_kind
  | DefaultTenant string
  | AuthorizeSource identity "string \<times> string" string "string \<Rightarrow> string \<times> string" string source_row
  | ExpireDue "string \<Rightarrow> string \<times> string"
  | RevokeSource identity "string \<Rightarrow> string \<times> string" string string string string string string
  | ReadSource identity "string \<Rightarrow> string \<times> string" "string option" string
  | ListSources identity "string \<Rightarrow> string \<times> string" string string
  | SeedLegacy "string \<Rightarrow> string \<times> string"
  | CreateTask identity string string string task_request scenario_profile string "string option"
      "string option" "string option" "string option"
  | ClaimTask string string "execution_owner option"
  | TransitionTask identity string string task_status string "(string \<times> string option) list"
  | SetVerifying string string
  | RecoverTask identity string string string string recovery_request string string
  | RecordIntervention identity string string string string intervention_action string string string
      "approval_binding option"
  | AppendEvent string string runtime_event
  | ReconcileEvents string string "runtime_event list"

definition only_store :: "store_error + 'a \<times> store \<Rightarrow> store_error + unit \<times> store" where
  "only_store r = rbind r (\<lambda>(_, s). Inr ((), s))"

fun exec_store :: "crypto \<Rightarrow> json_codec \<Rightarrow> store_op \<Rightarrow> store \<Rightarrow> store_error + unit \<times> store" where
  "exec_store C J (CreateUser i now name email) s = only_store (create_user i now name email s)"
| "exec_store C J (CreateWorkspace idn i now name owner) s = only_store (create_workspace idn i now name owner s)"
| "exec_store C J (CreateProject idn i now actor w name text profile kind) s =
     only_store (create_project idn i now actor w name text profile kind s)"
| "exec_store C J (DefaultTenant now) s = only_store (ensure_default_tenant now s)"
| "exec_store C J (AuthorizeSource idn ids now tick actor request) s =
     only_store (create_local_source_authorization C idn ids now tick actor request s)"
| "exec_store C J (ExpireDue tick) s = only_store (expire_due_local_source_authorizations C tick s)"
| "exec_store C J (RevokeSource idn tick i now actor source reason expected) s =
     only_store (revoke_local_source_authorization C idn tick i now actor source reason expected s)"
| "exec_store C J (ReadSource idn tick actor source) s = only_store (get_local_source C idn tick actor source s)"
| "exec_store C J (ListSources idn tick actor w) s = only_store (list_local_source_authorizations C idn tick actor w s)"
| "exec_store C J (SeedLegacy fresh) s =
     rbind (seed_legacy_authorization_events C fresh s) (\<lambda>s'. Inr ((), s'))"
| "exec_store C J (CreateTask idn i now actor rq profile sha key parent contract note) s =
     only_store (create_task C idn i now actor rq profile sha key parent contract note s)"
| "exec_store C J (ClaimTask now i owner) s = only_store (claim_task C now i owner s)"
| "exec_store C J (TransitionTask idn now i target phase updates) s =
     only_store (transition_task idn now i target phase updates s)"
| "exec_store C J (SetVerifying now i) s = Inr ((), set_verifying_if_running now i s)"
| "exec_store C J (RecoverTask idn new_id now actor i rq owner_sha sha) s =
     only_store (recover_owned_task_execution C idn new_id now actor i rq owner_sha sha s)"
| "exec_store C J (RecordIntervention idn new_id now actor i action note plan expected binding) s =
     only_store (record_intervention C idn new_id now actor i action note plan expected binding s)"
| "exec_store C J (AppendEvent now i e) s = rbind (append_event J now i e s) (\<lambda>s'. Inr ((), s'))"
| "exec_store C J (ReconcileEvents now i es) s = rbind (reconcile_events C J now i es s) (\<lambda>s'. Inr ((), s'))"

lemma only_store_Inr [simp]: "only_store r = Inr (u, s') \<longleftrightarrow> (\<exists>x. r = Inr (x, s'))"
  by (auto simp: only_store_def)

section \<open>Frames of the tenancy operations\<close>

text \<open>Users, workspaces, members and projects are written by four operations that leave the other tables alone.\<close>

definition tenancy_frame :: "store \<Rightarrow> store \<Rightarrow> bool" where
  "tenancy_frame s s' \<longleftrightarrow> (\<exists>us ws ms ps. s' = s\<lparr>st_users := us, st_workspaces := ws, st_members := st_members s @ ms, st_projects := ps\<rparr>)"

lemma tenancy_frame_refl: "tenancy_frame s s"
  unfolding tenancy_frame_def
  by (intro exI[of _ "st_users s"] exI[of _ "st_workspaces s"] exI[of _ "[]"] exI[of _ "st_projects s"]) simp

lemma tenancy_frame_steps:
  assumes "tenancy_frame s t"
  shows "tenancy_frame s (if b then t else t\<lparr>st_users := us\<rparr>)" "tenancy_frame s (if b then t else t\<lparr>st_workspaces := ws\<rparr>)"
    "tenancy_frame s (if b then t else t\<lparr>st_members := st_members t @ ms\<rparr>)" "tenancy_frame s (if b then t else t\<lparr>st_projects := ps\<rparr>)"
proof -
  obtain us0 ws0 ms0 ps0 where t: "t = s\<lparr>st_users := us0, st_workspaces := ws0, st_members := st_members s @ ms0, st_projects := ps0\<rparr>"
    using assms by (auto simp: tenancy_frame_def)
  show "tenancy_frame s (if b then t else t\<lparr>st_users := us\<rparr>)"
    unfolding tenancy_frame_def by (intro exI[of _ "if b then us0 else us"] exI[of _ ws0] exI[of _ ms0] exI[of _ ps0]) (simp add: t)
  show "tenancy_frame s (if b then t else t\<lparr>st_workspaces := ws\<rparr>)"
    unfolding tenancy_frame_def by (intro exI[of _ us0] exI[of _ "if b then ws0 else ws"] exI[of _ ms0] exI[of _ ps0]) (simp add: t)
  show "tenancy_frame s (if b then t else t\<lparr>st_members := st_members t @ ms\<rparr>)"
    unfolding tenancy_frame_def by (intro exI[of _ us0] exI[of _ ws0] exI[of _ "if b then ms0 else ms0 @ ms"] exI[of _ ps0]) (simp add: t)
  show "tenancy_frame s (if b then t else t\<lparr>st_projects := ps\<rparr>)"
    unfolding tenancy_frame_def by (intro exI[of _ us0] exI[of _ ws0] exI[of _ ms0] exI[of _ "if b then ps0 else ps"]) (simp add: t)
qed

lemma Let_chain:
  assumes "Let a f = y" and "P a" and "\<And>x. P x \<Longrightarrow> f x = y \<Longrightarrow> Q"
  shows Q
  using assms by (simp add: Let_def)

lemma default_tenant_frame:
  assumes "ensure_default_tenant now s = Inr (x, s')"
  shows "tenancy_frame s s'"
  using assms unfolding ensure_default_tenant_def
  apply -
  apply (erule Let_chain[where P = "\<lambda>_. True", OF _ TrueI])
  apply (erule Let_chain[where P = "\<lambda>_. True", OF _ TrueI])
  apply (erule Let_chain[where P = "\<lambda>_. True", OF _ TrueI])
  apply (erule Let_chain[where P = "tenancy_frame s"], rule tenancy_frame_steps(1)[OF tenancy_frame_refl])
  apply (erule Let_chain[where P = "tenancy_frame s"], erule tenancy_frame_steps(2))
  apply (erule Let_chain[where P = "tenancy_frame s"], erule tenancy_frame_steps(3))
  apply (erule Let_chain[where P = "tenancy_frame s"], erule tenancy_frame_steps(4))
  apply (simp split: option.splits)
  done

lemma create_workspace_frame: "create_workspace idn i now name owner s = Inr (x, s') \<Longrightarrow> tenancy_frame s s'"
  using tenancy_frame_steps(3)[OF tenancy_frame_steps(2)[OF tenancy_frame_refl, where b = False], where b = False]
  by (auto simp: create_workspace_def Let_def)

section \<open>Evolution of tasks\<close>

text \<open>The columns no operation writes after the insertion.\<close>

definition request_of :: "task \<Rightarrow> task" where
  "request_of t = t\<lparr>tk_execution_status := TaskCreated, tk_current_phase := [], tk_initial_decision := None,
     tk_final_decision := None, tk_runtime_status := None, tk_artifact_root_rel := None, tk_trace_rel := None,
     tk_trace_sha256 := None, tk_evidence_zip_rel := None, tk_evidence_sha256 := None, tk_error_code := None,
     tk_error_message := None, tk_updated_at := [], tk_started_at := None, tk_completed_at := None\<rparr>"

lemma request_of_eqD:
  assumes "request_of t' = request_of t"
  shows "tk_task_id t' = tk_task_id t" "tk_workspace_id t' = tk_workspace_id t" "tk_project_id t' = tk_project_id t"
    "tk_created_by t' = tk_created_by t" "tk_request_sha256 t' = tk_request_sha256 t"
    "tk_plan_approval_required t' = tk_plan_approval_required t" "tk_source_id t' = tk_source_id t"
    "tk_allowed_tools t' = tk_allowed_tools t" "tk_seed t' = tk_seed t" "tk_source_kind t' = tk_source_kind t"
    "tk_scenario_profile t' = tk_scenario_profile t" "tk_idempotency_key t' = tk_idempotency_key t"
    "tk_created_at t' = tk_created_at t" "tk_goal t' = tk_goal t"
  using arg_cong[OF assms, of tk_task_id] arg_cong[OF assms, of tk_workspace_id] arg_cong[OF assms, of tk_project_id]
    arg_cong[OF assms, of tk_created_by] arg_cong[OF assms, of tk_request_sha256]
    arg_cong[OF assms, of tk_plan_approval_required] arg_cong[OF assms, of tk_source_id]
    arg_cong[OF assms, of tk_allowed_tools] arg_cong[OF assms, of tk_seed] arg_cong[OF assms, of tk_source_kind]
    arg_cong[OF assms, of tk_scenario_profile] arg_cong[OF assms, of tk_idempotency_key]
    arg_cong[OF assms, of tk_created_at] arg_cong[OF assms, of tk_goal]
  by (simp_all add: request_of_def)

text \<open>One operation leaves a row alone, or makes one transition on the same request.\<close>

definition evolves :: "task \<Rightarrow> task \<Rightarrow> bool" where
  "evolves t t' \<longleftrightarrow> t' = t \<or> request_of t' = request_of t
     \<and> tk_execution_status t' \<in> set (TRANSITIONS (tk_execution_status t))"

text \<open>What closing a source does to a task.\<close>

definition closes :: "task \<Rightarrow> task \<Rightarrow> bool" where
  "closes t t' \<longleftrightarrow> t' = t \<or> request_of t' = request_of t \<and> tk_execution_status t \<in> {TaskCreated, TaskPlanned}
     \<and> tk_execution_status t' = TaskFailed"

lemma evolves_refl [simp]: "evolves t t"
  by (simp add: evolves_def)

lemma closes_evolves: "closes t t' \<Longrightarrow> evolves t t'"
  by (auto simp: closes_def evolves_def)

lemma closes_trans: "closes t u \<Longrightarrow> closes u v \<Longrightarrow> closes t v"
  by (auto simp: closes_def)

lemma set_field_request: "(k, f) \<in> set field_updates \<Longrightarrow> request_of (f v t) = request_of t
    \<and> tk_execution_status (f v t) = tk_execution_status t"
  by (auto simp: field_updates_def request_of_def)

lemma set_fields_request:
  "request_of (set_fields updates t) = request_of t
   \<and> tk_execution_status (set_fields updates t) = tk_execution_status t"
proof (induction updates arbitrary: t)
  case (Cons u us)
  obtain k v where u: "u = (k, v)" by fastforce
  show ?case
  proof (cases "map_of field_updates k")
    case None
    then show ?thesis using Cons by (simp add: set_fields_def u)
  next
    case (Some f)
    then show ?thesis using Cons set_field_request[OF map_of_SomeD[OF Some]]
      by (simp add: set_fields_def u)
  qed
qed (simp add: set_fields_def)

lemma set_fields_id [simp]: "tk_task_id (set_fields updates t) = tk_task_id t"
  using request_of_eqD(1)[OF set_fields_request[THEN conjunct1]] .

abbreviation task_ids :: "store \<Rightarrow> string list" where
  "task_ids s \<equiv> map tk_task_id (st_tasks s)"

lemma find_task_iff:
  "distinct (task_ids s) \<Longrightarrow> find_task s i = Some t \<longleftrightarrow> t \<in> set (st_tasks s) \<and> tk_task_id t = i"
  unfolding find_task_def
  by (auto simp: find_Some_iff in_set_conv_nth nth_eq_iff_index_eq distinct_conv_nth)

lemma find_task_unique:
  assumes "distinct (task_ids s)" and "find_task s i = Some row" and "t \<in> set (st_tasks s)" and "tk_task_id t = i"
  shows "t = row"
proof -
  have "find_task s i = Some t" using assms(1,3,4) find_task_iff by blast
  then show ?thesis using assms(2) by simp
qed

lemma find_task_None: "find_task s i = None \<longleftrightarrow> i \<notin> set (task_ids s)"
  by (auto simp: find_task_def find_None_iff)

lemma find_task_SomeD: "find_task s i = Some t \<Longrightarrow> t \<in> set (st_tasks s) \<and> tk_task_id t = i"
  by (auto simp: find_task_def find_Some_iff)

lemma list_all2_map_refl: "(\<And>x. x \<in> set xs \<Longrightarrow> P x (f x)) \<Longrightarrow> list_all2 P xs (map f xs)"
  by (simp add: list_all2_map2 list_all2_same)

text \<open>The effect of an operation on the task table: old rows evolve in place, and at most one planned row is appended.\<close>

definition tasks_evolve :: "store \<Rightarrow> store \<Rightarrow> bool" where
  "tasks_evolve s s' \<longleftrightarrow> (\<exists>us ns. st_tasks s' = us @ ns \<and> list_all2 evolves (st_tasks s) us
     \<and> (ns = [] \<or> (\<exists>n. ns = [n] \<and> tk_execution_status n = TaskPlanned \<and> find_task s (tk_task_id n) = None)))"

lemma tasks_evolve_same: "st_tasks s' = st_tasks s \<Longrightarrow> tasks_evolve s s'"
  unfolding tasks_evolve_def by (intro exI[of _ "st_tasks s"] exI[of _ "[]"]) (simp add: list_all2_same)

lemma tasks_evolve_closes: "list_all2 closes (st_tasks s) (st_tasks s') \<Longrightarrow> tasks_evolve s s'"
  unfolding tasks_evolve_def
  by (intro exI[of _ "st_tasks s'"] exI[of _ "[]"]) (simp add: list_all2_mono closes_evolves)

lemma tasks_evolve_update:
  "(\<And>t. t \<in> set (st_tasks s) \<Longrightarrow> P t \<Longrightarrow> evolves t (f t)) \<Longrightarrow> tasks_evolve s (update_tasks P f s)"
  unfolding tasks_evolve_def update_tasks_def
  by (intro exI[of _ "map (\<lambda>t. if P t then f t else t) (st_tasks s)"] exI[of _ "[]"]) (auto intro: list_all2_map_refl)

lemma evolves_ids: "list_all2 evolves ts us \<Longrightarrow> map tk_task_id us = map tk_task_id ts"
  by (induction rule: list_all2_induct) (auto simp: evolves_def dest: request_of_eqD(1))

lemma tasks_evolve_distinct: "tasks_evolve s s' \<Longrightarrow> distinct (task_ids s) \<Longrightarrow> distinct (task_ids s')"
  by (auto simp: tasks_evolve_def find_task_None dest: evolves_ids)

section \<open>Effects of the source operations\<close>

text \<open>
  Closing the ledger of a source; \<open>P\<close> restricts the texts that enter the event. Reading a source closes its ledger or does
  nothing.
\<close>

inductive closing :: "crypto \<Rightarrow> (string \<Rightarrow> bool) \<Rightarrow> store \<Rightarrow> store \<Rightarrow> bool" for C P where
  close_source: "row \<in> set (st_sources s) \<Longrightarrow> kind \<noteq> SourceGranted \<Longrightarrow> list_all P [new_id, actor, reason, now] \<Longrightarrow>
     append_terminal_source_authorization_event C new_id row kind actor_kind actor reason expected now s = Inr (e, s') \<Longrightarrow>
     closing C P s s'"

definition admits_expiry :: "(string \<Rightarrow> bool) \<Rightarrow> bool" where
  "admits_expiry P \<longleftrightarrow> P ''system:authorization-expiry'' \<and> P ''The declared authorization validity window expired.''"

abbreviation closings :: "crypto \<Rightarrow> (string \<Rightarrow> bool) \<Rightarrow> store \<Rightarrow> store \<Rightarrow> bool" where
  "closings C P \<equiv> (closing C P)\<^sup>*\<^sup>*"

lemma append_terminal_Inr:
  assumes "append_terminal_source_authorization_event C new_id row kind actor_kind actor reason expected now s = Inr (e, s')"
  obtains events where "source_authorization_events C s (so_source_id row) = Inr events"
    "se_event_type (last events) = SourceGranted" "expected = None \<or> expected = Some (se_event_sha256 (last events))"
    "seal_source_authorization_event C
          \<lparr>se_event_id = new_id, se_source_id = so_source_id row, se_workspace_id = so_workspace_id row,
           se_sequence = se_sequence (last events) + 1, se_event_type = kind, se_actor_kind = actor_kind,
           se_actor_id = actor, se_reason = reason, se_effective_at = now, se_created_at = now,
           se_previous_event_sha256 = Some (se_event_sha256 (last events)),
           se_fail_closed_task_ids = fst (fail_pending_tasks_for_source (so_source_id row) (terminal_code kind)
             terminal_message now s), se_event_sha256 = []\<rparr> = Inr e"
    "s' = (snd (fail_pending_tasks_for_source (so_source_id row) (terminal_code kind) terminal_message now s))
       \<lparr>st_source_events := st_source_events s @ [e]\<rparr>"
    "\<forall>r\<in>set (st_source_events s). se_event_id r \<noteq> se_event_id e"
  using assms
  by (auto simp: append_terminal_source_authorization_event_def Let_def fail_pending_tasks_for_source_def
      insert_source_authorization_event_def list_all_iff)

lemma fail_pending_store:
  "snd (fail_pending_tasks_for_source i code message now s)
     = s\<lparr>st_tasks := st_tasks (snd (fail_pending_tasks_for_source i code message now s))\<rparr>"
  by (simp add: fail_pending_tasks_for_source_def Let_def)

lemma set_pending_ids:
  "set (fst (fail_pending_tasks_for_source i code message now s)) = tk_task_id ` {t \<in> set (st_tasks s). pending_for i t}"
  by (simp add: fail_pending_tasks_for_source_def Let_def)

text \<open>As identifiers are unique, exactly the pending tasks of the source are failed.\<close>

lemma fail_pending_tasks:
  assumes "distinct (task_ids s)"
  shows "st_tasks (snd (fail_pending_tasks_for_source i code message now s)) = map (\<lambda>t. if pending_for i t
      then t\<lparr>tk_execution_status := TaskFailed, tk_current_phase := ''failed_authorization'', tk_error_code := Some code,
             tk_error_message := Some (take 500 message), tk_updated_at := now, tk_completed_at := Some now\<rparr>
      else t) (st_tasks s)"
proof -
  have "tk_task_id t \<in> tk_task_id ` {t \<in> set (st_tasks s). pending_for i t} \<longleftrightarrow> pending_for i t"
    if "t \<in> set (st_tasks s)" for t
    using that assms by (auto simp: distinct_map inj_on_def)
  then show ?thesis using set_pending_ids[of i code message now s]
    by (simp add: fail_pending_tasks_for_source_def Let_def)
qed

lemma fail_pending_closes:
  assumes "distinct (task_ids s)"
  shows "list_all2 closes (st_tasks s) (st_tasks (snd (fail_pending_tasks_for_source i code message now s)))"
  unfolding fail_pending_tasks[OF assms]
  by (intro list_all2_map_refl) (auto simp: closes_def pending_for_def request_of_def)

lemma expire_source_closings:
  assumes "expire_source_if_due C new_id now row s = Inr (x, s')" and "row \<in> set (st_sources s)"
    and "P new_id" "P now" "admits_expiry P"
  shows "closings C P s s'"
proof (cases "s' = s")
  case False
  then show ?thesis using assms
    by (auto simp: expire_source_if_due_def admits_expiry_def split: option.splits if_splits intro!: close_source)
qed simp

lemma closings_frame: "closings C P s s' \<Longrightarrow> \<exists>ts es. s' = s\<lparr>st_tasks := ts, st_source_events := es\<rparr>"
proof (induction rule: rtranclp_induct)
  case base
  have "s = s\<lparr>st_tasks := st_tasks s, st_source_events := st_source_events s\<rparr>" by simp
  then show ?case by blast
next
  case (step y z)
  from step(2) obtain ts es where "z = y\<lparr>st_tasks := ts, st_source_events := es\<rparr>"
    by (cases rule: closing.cases) (auto elim!: append_terminal_Inr simp: fail_pending_tasks_for_source_def Let_def)
  moreover obtain ts' es' where "y = s\<lparr>st_tasks := ts', st_source_events := es'\<rparr>" using step(3) by blast
  ultimately have "z = s\<lparr>st_tasks := ts, st_source_events := es\<rparr>" by simp
  then show ?case by blast
qed

lemma closings_sources: "closings C P s s' \<Longrightarrow> st_sources s' = st_sources s"
  by (drule closings_frame) auto

lemma expire_all_closings:
  assumes "expire_all C tick rows s = Inr (es, s')" and "set rows \<subseteq> set (st_sources s)"
    and "\<And>i. P (fst (tick i)) \<and> P (snd (tick i))" and "admits_expiry P"
  shows "closings C P s s'"
  using assms(1,2)
proof (induction rows arbitrary: s es)
  case (Cons r rs)
  then obtain x s1 es1 where
      first: "expire_source_if_due C (fst (tick (so_source_id r))) (snd (tick (so_source_id r))) r s = Inr (x, s1)"
    and rest: "expire_all C tick rs s1 = Inr (es1, s')"
    by (auto simp: case_prod_beta)
  have 1: "closings C P s s1" using expire_source_closings[OF first] Cons.prems(2) assms(3,4) by auto
  have "set rs \<subseteq> set (st_sources s1)" using Cons.prems(2) closings_sources[OF 1] by simp
  from Cons.IH[OF rest this] 1 show ?case by (rule rtranclp_trans[rotated])
qed simp

lemma enter_source_closings:
  assumes "enter_source C idn tick actor source s = Inr (row, s')"
    and "\<And>i. P (fst (tick i)) \<and> P (snd (tick i))" and "admits_expiry P"
  shows "closings C P s s'" and "row \<in> set (st_sources s)" and "so_source_id row = source"
proof -
  obtain x where r: "find_source s source = Some row"
    and e: "expire_source_if_due C (fst (tick (so_source_id row))) (snd (tick (so_source_id row))) row s = Inr (x, s')"
    using assms(1) by (auto simp: enter_source_def split: option.splits)
  show m: "row \<in> set (st_sources s)" "so_source_id row = source"
    using r by (auto simp: find_source_def find_Some_iff)
  show "closings C P s s'" using expire_source_closings[OF e m(1)] assms(2,3) by auto
qed

lemma revoke_closings:
  assumes "revoke_local_source_authorization C idn tick new_id now actor source reason expected s = Inr (e, s')"
    and "\<And>i. P (fst (tick i)) \<and> P (snd (tick i))" and "admits_expiry P" and "list_all P [new_id, actor, reason, now]"
  shows "closings C P s s'"
proof -
  obtain row s1 where 1: "enter_source C idn tick (Some actor) source s = Inr (row, s1)"
    and 2: "append_terminal_source_authorization_event C new_id row SourceRevoked ''operator'' actor reason
        (Some expected) now s1 = Inr (e, s')"
    using assms(1) by (auto simp: revoke_local_source_authorization_def)
  note c = enter_source_closings[OF 1 assms(2,3)]
  have "row \<in> set (st_sources s1)" using c closings_sources by fastforce
  then have "closing C P s1 s'" using 2 assms(4) by (intro close_source) auto
  then show ?thesis using c(1) by (rule rtranclp.rtrancl_into_rtrancl[rotated])
qed

text \<open>A new grant: a row and its first event.\<close>

inductive granting :: "crypto \<Rightarrow> (string \<Rightarrow> bool) \<Rightarrow> store \<Rightarrow> store \<Rightarrow> bool" for C P where
  grant_source: "find_source s (so_source_id row) = None \<Longrightarrow> list_all P [so_source_id row, so_workspace_id row, event_id, actor, now] \<Longrightarrow>
     seal_source_authorization_event C
       \<lparr>se_event_id = event_id, se_source_id = so_source_id row, se_workspace_id = so_workspace_id row, se_sequence = 1,
        se_event_type = SourceGranted, se_actor_kind = ''operator'', se_actor_id = actor, se_reason = grant_reason,
        se_effective_at = now, se_created_at = now, se_previous_event_sha256 = None, se_fail_closed_task_ids = [],
        se_event_sha256 = []\<rparr> = Inr e \<Longrightarrow>
     \<forall>r\<in>set (st_source_events s). se_event_id r \<noteq> se_event_id e \<Longrightarrow>
     granting C P s (s\<lparr>st_sources := st_sources s @ [row], st_source_events := st_source_events s @ [e]\<rparr>)"

lemma create_source_effect:
  assumes "create_local_source_authorization C idn ids now tick actor request s = Inr (r, s')"
    and "\<And>i. P (fst (tick i)) \<and> P (snd (tick i))" and "admits_expiry P"
    and "list_all P [fst ids, so_workspace_id request, snd ids, actor, now]"
  shows "closings C P s s' \<or> granting C P s s'"
proof (cases "find (\<lambda>r. so_workspace_id r = so_workspace_id request \<and> so_root_path_sha256 r = so_root_path_sha256 request
             \<and> so_source_archive_sha256 r = so_source_archive_sha256 request) (st_sources s)")
  case None
  let ?row = "request\<lparr>so_source_id := fst ids, so_status := ''active'', so_created_at := now\<rparr>"
  have "granting C P s s'" if "find_source s (so_source_id ?row) = None" "s' = s\<lparr>st_sources := st_sources s @ [?row],
      st_source_events := st_source_events s @ [e]\<rparr>" "\<forall>r\<in>set (st_source_events s). se_event_id r \<noteq> se_event_id e"
    "seal_source_authorization_event C
       \<lparr>se_event_id = snd ids, se_source_id = so_source_id ?row, se_workspace_id = so_workspace_id ?row, se_sequence = 1,
        se_event_type = SourceGranted, se_actor_kind = ''operator'', se_actor_id = actor, se_reason = grant_reason,
        se_effective_at = now, se_created_at = now, se_previous_event_sha256 = None, se_fail_closed_task_ids = [],
        se_event_sha256 = []\<rparr> = Inr e" for e
    unfolding that(2) using that(1,3,4) assms(4) by (intro grant_source) auto
  then show ?thesis using None assms(1)
    by (auto simp: create_local_source_authorization_def Let_def insert_source_authorization_event_def list_all_iff)
next
  case (Some row)
  then have "row \<in> set (st_sources s)" by (auto simp: find_Some_iff)
  then show ?thesis using Some assms(1-3) expire_source_closings
    by (fastforce simp: create_local_source_authorization_def)
qed

lemma list_sources_closings:
  assumes "list_local_source_authorizations C idn tick actor w s = Inr (rs, s')"
    and "\<And>i. P (fst (tick i)) \<and> P (snd (tick i))" and "admits_expiry P"
  shows "closings C P s s'"
proof -
  obtain es where "expire_all C tick (rev (sort_key (\<lambda>r. (so_created_at r, so_source_id r))
            (filter (\<lambda>r. so_workspace_id r = w) (st_sources s)))) s = Inr (es, s')"
    using assms(1) by (auto simp: list_local_source_authorizations_def Let_def)
  then show ?thesis by (rule expire_all_closings[OF _ _ assms(2,3)]) auto
qed

lemma expire_due_closings:
  assumes "expire_due_local_source_authorizations C tick s = Inr (es, s')"
    and "\<And>i. P (fst (tick i)) \<and> P (snd (tick i))" and "admits_expiry P"
  shows "closings C P s s'"
  using assms(1) unfolding expire_due_local_source_authorizations_def
  by (rule expire_all_closings[OF _ _ assms(2,3)]) auto

lemma closing_tasks:
  assumes "closing C P s s'" and "distinct (task_ids s)"
  shows "list_all2 closes (st_tasks s) (st_tasks s')"
  using assms by cases (auto elim!: append_terminal_Inr intro: fail_pending_closes)

lemma closes_ids: "list_all2 closes ts us \<Longrightarrow> map tk_task_id us = map tk_task_id ts"
  by (rule evolves_ids) (auto elim: list_all2_mono intro: closes_evolves)

lemma closings_tasks:
  "closings C P s s' \<Longrightarrow> distinct (task_ids s) \<Longrightarrow> list_all2 closes (st_tasks s) (st_tasks s')"
proof (induction rule: rtranclp_induct)
  case (step y z)
  have "distinct (task_ids y)" using closes_ids[OF step.IH] step.prems by simp
  from step.IH closing_tasks[OF step.hyps(2) this] step.prems show ?case
    by (auto intro: list_all2_trans closes_trans)
qed (simp add: list_all2_same closes_def)

text \<open>The migration only adds events.\<close>

lemma seed_source_frame: "seed_source C fresh r s = Inr s' \<Longrightarrow> \<exists>es. s' = s\<lparr>st_source_events := es\<rparr>"
  by (auto simp: seed_source_def Let_def insert_source_authorization_event_def split: if_splits)

lemma seed_all_frame: "seed_all C fresh rs s = Inr s' \<Longrightarrow> \<exists>es. s' = s\<lparr>st_source_events := es\<rparr>"
proof (induction rs arbitrary: s)
  case Nil
  then show ?case by (intro exI[of _ "st_source_events s"]) simp
next
  case (Cons r rs)
  then obtain s1 es1 es2 where "s1 = s\<lparr>st_source_events := es1\<rparr>" "s' = s1\<lparr>st_source_events := es2\<rparr>"
    using seed_source_frame by (fastforce simp del: seed_all.simps simp: seed_all.simps(2))
  then have "s' = s\<lparr>st_source_events := es2\<rparr>" by simp
  then show ?case by blast
qed

section \<open>Effects of the task operations\<close>

lemma insert_task_Inr:
  "insert_task t s = Inr s' \<longleftrightarrow> s' = s\<lparr>st_tasks := st_tasks s @ [t]\<rparr> \<and> find_task s (tk_task_id t) = None
     \<and> (tk_idempotency_key t = None \<or> (\<forall>r\<in>set (st_tasks s). \<not> (tk_project_id r = tk_project_id t
              \<and> tk_idempotency_key r = tk_idempotency_key t)))
     \<and> workspace_exists s (tk_workspace_id t) \<and> find_project s (tk_project_id t) \<noteq> None
     \<and> user_exists s (tk_created_by t)"
  by (auto simp: insert_task_def list_all_iff)

lemma insert_lineage_Inr:
  "insert_lineage e s = Inr s' \<longleftrightarrow> s' = s\<lparr>st_lineage := st_lineage s @ [e]\<rparr>
     \<and> (\<forall>r\<in>set (st_lineage s). le_child_task_id r \<noteq> le_child_task_id e)
     \<and> find_task s (le_child_task_id e) \<noteq> None \<and> find_task s (le_parent_task_id e) \<noteq> None
     \<and> find_task s (le_root_task_id e) \<noteq> None \<and> user_exists s (le_created_by e)"
  by (auto simp: insert_lineage_def list_all_iff)

lemma create_task_effect:
  assumes "create_task C idn i now actor rq profile sha key parent contract note s = Inr (r, s')"
  obtains "s' = s" "\<not> snd r"
  | project where "find_project s (rq_project_id rq) = Some project"
      "insert_task (new_task i now actor (pj_workspace_id project) rq profile sha key) s = Inr s'"
      "parent = None" "st_lineage s' = st_lineage s"
      "r = (task_of_row (new_task i now actor (pj_workspace_id project) rq profile sha key), True)"
  | project s1 p edge e where "find_project s (rq_project_id rq) = Some project"
      "lineage_parent C rq profile (pj_workspace_id project) parent contract note s = Inr (Some (p, edge))"
      "insert_task (new_task i now actor (pj_workspace_id project) rq profile sha key) s = Inr s1"
      "seal_task_lineage_edge C (child_edge i now actor p edge (case contract of None \<Rightarrow> [] | Some c \<Rightarrow> c)
         (case note of None \<Rightarrow> [] | Some n \<Rightarrow> n)) = Inr e"
      "insert_lineage e s1 = Inr s'"
      "r = (task_of_row (new_task i now actor (pj_workspace_id project) rq profile sha key), True)"
proof -
  obtain project lineage existing where p: "find_project s (rq_project_id rq) = Some project"
    and l: "lineage_parent C rq profile (pj_workspace_id project) parent contract note s = Inr lineage"
    and e: "idempotent_task C rq sha key parent contract s = Inr existing"
    using assms by (auto simp: create_task_def Let_def)
  show ?thesis
  proof (cases existing)
    case (Some t)
    then show ?thesis using assms p l e by (auto simp: create_task_def Let_def intro: that(1))
  next
    case None
    then show ?thesis
    proof (cases lineage)
      case None
      then have "parent = None" using l by (auto simp: lineage_parent_def Let_def split: option.splits)
      then show ?thesis using assms p l e None \<open>existing = None\<close> that(2)[OF p]
        by (auto simp: create_task_def Let_def insert_task_Inr)
    next
      case (Some pe)
      then show ?thesis using assms p l e \<open>existing = None\<close> that(3)[OF p]
        by (cases pe) (auto simp: create_task_def Let_def simp del: insert_task_Inr)
    qed
  qed
qed

lemma claim_task_effect:
  assumes "claim_task C now i owner s = Inr (r, s')"
  obtains owners where "s' = (update_tasks (claimable s i) (\<lambda>t. t\<lparr>tk_execution_status := TaskRunning,
     tk_current_phase := ''running'', tk_started_at := Some now, tk_updated_at := now\<rparr>) s)\<lparr>st_owners := owners\<rparr>"
    "r \<longleftrightarrow> (\<exists>t\<in>set (st_tasks s). claimable s i t)"
proof -
  let ?u = "update_tasks (claimable s i) (\<lambda>t. t\<lparr>tk_execution_status := TaskRunning,
     tk_current_phase := ''running'', tk_started_at := Some now, tk_updated_at := now\<rparr>) s"
  have "?u = ?u\<lparr>st_owners := st_owners ?u\<rparr>" by simp
  then show ?thesis using assms that[of "st_owners ?u"] that
    by (auto simp: claim_task_def Let_def list_ex_iff split: option.splits if_splits)
qed

lemma recover_effect:
  assumes "recover_owned_task_execution C idn new_id now actor i rq owner_sha sha s = Inr (receipt, s')"
  obtains "s' = s" "map_of (st_recoveries s) i = Some receipt"
  | row w where "find_task s i = Some row" "map_of (st_recoveries s) i = None"
      "tk_execution_status row \<in> {TaskRunning, TaskVerifying}"
      "task_snapshot_sha256 C (task_of_row row) = rr_expected_snapshot_sha256 rq"
      "map_of (st_owners s) i = Some w"
      "insert_task (replacement_task new_id now actor sha (task_of_row row))
         (update_tasks (\<lambda>r. tk_task_id r = i) (interrupted now) s) = Inr (s'\<lparr>st_recoveries := st_recoveries s\<rparr>)"
      "st_recoveries s' = st_recoveries s @ [(i, receipt)]"
      "seal_recovery_receipt C
              \<lparr>rv_task_id = i, rv_workspace_id = tk_workspace_id (task_of_row row),
               rv_project_id = tk_project_id (task_of_row row),
               rv_replacement_task_id = new_id, rv_original_snapshot_sha256 = rr_expected_snapshot_sha256 rq,
               rv_failed_task_snapshot_sha256 = task_snapshot_sha256 C (task_of_row (interrupted now row)),
               rv_replacement_task_snapshot_sha256 = task_snapshot_sha256 C
                 (task_of_row (replacement_task new_id now actor sha (task_of_row row))),
               rv_reviewer_identity = rr_reviewer_identity rq, rv_note = rr_note rq, rv_recovered_by = actor,
               rv_recovered_at = now, rv_receipt_sha256 = []\<rparr> = Inr receipt"
proof -
  obtain row where row: "find_task s i = Some row"
    using assms by (auto simp: recover_owned_task_execution_def)
  have st: "tk_execution_status (task_of_row row) = tk_execution_status row" by (simp add: task_of_row_def)
  show ?thesis
  proof (cases "map_of (st_recoveries s) i")
    case (Some r)
    then show ?thesis using assms row that(1) by (auto simp: recover_owned_task_execution_def Let_def)
  next
    case None
    let ?s1 = "update_tasks (\<lambda>r. tk_task_id r = i) (interrupted now) s"
    have rec: "st_recoveries ?s1 = st_recoveries s" by (simp add: update_tasks_def)
    obtain w where w: "map_of (st_owners s) i = Some w"
      and a: "tk_execution_status row \<in> {TaskRunning, TaskVerifying}"
        "task_snapshot_sha256 C (task_of_row row) = rr_expected_snapshot_sha256 rq"
      using assms row None st by (auto simp: recover_owned_task_execution_def Let_def)
    obtain s2 where 2: "insert_task (replacement_task new_id now actor sha (task_of_row row)) ?s1 = Inr s2"
      and s': "s' = s2\<lparr>st_recoveries := st_recoveries s2 @ [(i, receipt)]\<rparr>"
      and seal: "seal_recovery_receipt C
              \<lparr>rv_task_id = i, rv_workspace_id = tk_workspace_id (task_of_row row),
               rv_project_id = tk_project_id (task_of_row row),
               rv_replacement_task_id = new_id, rv_original_snapshot_sha256 = rr_expected_snapshot_sha256 rq,
               rv_failed_task_snapshot_sha256 = task_snapshot_sha256 C (task_of_row (interrupted now row)),
               rv_replacement_task_snapshot_sha256 = task_snapshot_sha256 C
                 (task_of_row (replacement_task new_id now actor sha (task_of_row row))),
               rv_reviewer_identity = rr_reviewer_identity rq, rv_note = rr_note rq, rv_recovered_by = actor,
               rv_recovered_at = now, rv_receipt_sha256 = []\<rparr> = Inr receipt"
      using assms row None by (auto simp: recover_owned_task_execution_def Let_def)
    have r2: "st_recoveries s2 = st_recoveries s" using 2 rec by (simp add: insert_task_Inr)
    then have "s'\<lparr>st_recoveries := st_recoveries s\<rparr> = s2" by (simp add: s')
    then show ?thesis using that(2)[OF row None a w _ _ seal] 2 r2 s' by simp
  qed
qed

lemma record_intervention_effect:
  assumes "record_intervention C idn new_id now actor i action note plan expected binding s = Inr (v, s')"
  obtains row where "find_task s i = Some row" "is_member s (tk_workspace_id row) actor"
    "v = \<lparr>iv_intervention_id = new_id, iv_task_id = i, iv_sequence = next_sequence s i,
               iv_actor_user_id = actor, iv_action = action, iv_note = note,
               iv_before_status = tk_execution_status row, iv_before_phase = trim (tk_current_phase row),
               iv_before_snapshot_sha256 = expected, iv_plan_sha256 = plan,
               iv_approval_binding = binding, iv_created_at = now\<rparr>"
    "task_snapshot_sha256 C (task_of_row row) = expected"
    "binding_fits action binding plan expected (task_of_row row) = Inr ()"
    "intervention_allowed s (row\<lparr>tk_task_id := i\<rparr>) action = Inr ()"
    "s' = (if action = CancelPlan
        then update_tasks (\<lambda>r. tk_task_id r = i \<and> tk_execution_status r = TaskPlanned)
          (\<lambda>r. r\<lparr>tk_execution_status := TaskCancelled, tk_current_phase := ''cancelled'',
             tk_completed_at := Some now, tk_updated_at := now\<rparr>) (s\<lparr>st_interventions := st_interventions s @ [v]\<rparr>)
        else s\<lparr>st_interventions := st_interventions s @ [v]\<rparr>)"
proof -
  obtain row where row: "find_task s i = Some row" and m: "is_member s (tk_workspace_id row) actor"
    using assms by (auto simp: record_intervention_def)
  have allowed: "intervention_allowed s (task_of_row row\<lparr>tk_task_id := i\<rparr>) action
      = intervention_allowed s (row\<lparr>tk_task_id := i\<rparr>) action"
    by (simp add: intervention_allowed_def task_of_row_def)
  show ?thesis
    by (rule that[OF row m])
       (use assms row allowed in \<open>auto simp: record_intervention_def Let_def insert_intervention_def task_of_row_def\<close>)
qed

text \<open>The operations that touch no task.\<close>

lemma insert_events_frame: "insert_events rs s = Inr s' \<Longrightarrow> s' = s\<lparr>st_events := st_events s @ rs\<rparr>"
proof (induction rs arbitrary: s)
  case (Cons r rs)
  then have "insert_events rs (s\<lparr>st_events := st_events s @ [r]\<rparr>) = Inr s'" by (auto simp: insert_event_def)
  from Cons.IH[OF this] show ?case by simp
qed simp

abbreviation anything :: "string \<Rightarrow> bool" where
  "anything \<equiv> (\<lambda>_. True)"

lemma admits_anything: "admits_expiry anything"
  by (simp add: admits_expiry_def)

lemma granting_tasks: "granting C P s s' \<Longrightarrow> st_tasks s' = st_tasks s"
  by (induction rule: granting.induct) simp

lemma only_Inr [elim!]: "only_store r = Inr (u, s') \<Longrightarrow> (\<And>x. r = Inr (x, s') \<Longrightarrow> Q) \<Longrightarrow> Q"
  by auto

definition source_op :: "store_op \<Rightarrow> bool" where
  "source_op c \<longleftrightarrow> is_AuthorizeSource c \<or> is_ExpireDue c \<or> is_RevokeSource c \<or> is_ReadSource c \<or> is_ListSources c"

text \<open>The clock and the texts an operation on sources is given; \<open>P\<close> is a condition on them.\<close>

fun source_texts :: "(string \<Rightarrow> bool) \<Rightarrow> store_op \<Rightarrow> bool" where
  "source_texts P (AuthorizeSource idn ids now tick actor request) \<longleftrightarrow>
     list_all P [fst ids, so_workspace_id request, snd ids, actor, now] \<and> (\<forall>i. P (fst (tick i)) \<and> P (snd (tick i)))"
| "source_texts P (ExpireDue tick) \<longleftrightarrow> (\<forall>i. P (fst (tick i)) \<and> P (snd (tick i)))"
| "source_texts P (RevokeSource idn tick i now actor source reason expected) \<longleftrightarrow>
     list_all P [i, actor, reason, now] \<and> (\<forall>i. P (fst (tick i)) \<and> P (snd (tick i)))"
| "source_texts P (ReadSource idn tick actor source) \<longleftrightarrow> (\<forall>i. P (fst (tick i)) \<and> P (snd (tick i)))"
| "source_texts P (ListSources idn tick actor w) \<longleftrightarrow> (\<forall>i. P (fst (tick i)) \<and> P (snd (tick i)))"
| "source_texts P _ \<longleftrightarrow> True"

lemma source_op_effect:
  assumes "exec_store C J c s = Inr (u, s')" and "source_op c" and "source_texts P c" and "admits_expiry P"
  shows "closings C P s s' \<or> granting C P s s'"
proof (cases c)
  case (AuthorizeSource idn ids now tick actor rq)
  then show ?thesis using assms create_source_effect[of C idn ids now tick actor rq s _ s' P] by auto
next
  case (ExpireDue tick)
  then show ?thesis using assms expire_due_closings[of C tick s _ s' P] by auto
next
  case (RevokeSource idn tick i now actor source reason expected)
  then show ?thesis using assms revoke_closings[of C idn tick i now actor source reason expected s _ s' P] by auto
next
  case (ReadSource idn tick actor source)
  then show ?thesis using assms enter_source_closings(1)[of C idn tick actor source s _ s' P]
    by (auto simp: get_local_source_def)
next
  case (ListSources idn tick actor w)
  then show ?thesis using assms list_sources_closings[of C idn tick actor w s _ s' P] by auto
qed (use assms(2) in \<open>auto simp: source_op_def\<close>)

lemma source_ops_tasks:
  assumes "exec_store C J c s = Inr (u, s')" and "distinct (task_ids s)" and "source_op c"
  shows "tasks_evolve s s'"
proof -
  have "source_texts anything c" by (cases c) auto
  from source_op_effect[OF assms(1,3) this admits_anything] show ?thesis
    using closings_tasks[OF _ assms(2)] tasks_evolve_closes granting_tasks tasks_evolve_same by blast
qed

lemma tasks_evolve_insert:
  assumes "insert_task t s = Inr s'" and "tk_execution_status t = TaskPlanned"
  shows "tasks_evolve s s'"
  using assms unfolding tasks_evolve_def insert_task_Inr
  by (intro exI[of _ "st_tasks s"] exI[of _ "[t]"]) (auto simp: list_all2_same)

lemma new_task_status: "tk_execution_status (new_task i now actor w rq profile sha key) = TaskPlanned"
  "tk_task_id (new_task i now actor w rq profile sha key) = i"
  by (simp_all add: new_task_def)

lemma create_task_evolve:
  assumes "create_task C idn i now actor rq profile sha key parent contract note s = Inr (r, s')"
  shows "tasks_evolve s s'"
  using assms
proof (cases rule: create_task_effect)
  case (3 project s1 p edge e)
  then show ?thesis using tasks_evolve_insert[OF 3(3)] new_task_status(1)
    by (simp add: insert_lineage_Inr tasks_evolve_def)
qed (use tasks_evolve_same tasks_evolve_insert new_task_status in auto)

lemma recover_evolve:
  assumes "recover_owned_task_execution C idn new_id now actor i rq owner_sha sha s = Inr (receipt, s')"
    and "distinct (task_ids s)"
  shows "tasks_evolve s s'"
  using assms(1)
proof (cases rule: recover_effect)
  case (2 row w)
  let ?f = "\<lambda>t. if tk_task_id t = i then interrupted now t else t"
  have "t = row" if "t \<in> set (st_tasks s)" "tk_task_id t = i" for t
    using that find_task_unique[OF assms(2) 2(1)] by simp
  then have ev: "list_all2 evolves (st_tasks s) (map ?f (st_tasks s))"
    using 2(3) by (intro list_all2_map_refl) (auto simp: evolves_def interrupted_def request_of_def)
  have "find_task s new_id = None"
    using 2(6) evolves_ids[OF ev] by (simp add: insert_task_Inr replacement_task_def new_task_status update_tasks_def find_task_None)
  then show ?thesis unfolding tasks_evolve_def using 2(6) ev
    by (intro exI[of _ "map ?f (st_tasks s)"] exI[of _ "[replacement_task new_id now actor sha (task_of_row row)]"])
       (auto simp: insert_task_Inr update_tasks_def replacement_task_def new_task_status dest!: arg_cong[of _ _ st_tasks])
qed (rule tasks_evolve_same, simp)

lemma exec_tasks_evolve:
  assumes "exec_store C J c s = Inr (u, s')" and "distinct (task_ids s)"
  shows "tasks_evolve s s'"
proof (cases c)
  case (TransitionTask idn now i target phase updates)
  then obtain x where "transition_task idn now i target phase updates s = Inr (x, s')" using assms by auto
  then obtain row where row: "find_task s i = Some row" "target \<in> set (TRANSITIONS (tk_execution_status row))"
    and s': "s' = update_tasks (\<lambda>t. tk_task_id t = i) (\<lambda>t. set_fields updates (t\<lparr>tk_execution_status := target,
        tk_current_phase := phase, tk_updated_at := now\<rparr>)) s"
    by (auto simp: transition_task_def Let_def)
  show ?thesis unfolding s'
  proof (rule tasks_evolve_update)
    fix t assume "t \<in> set (st_tasks s)" "tk_task_id t = i"
    then have "t = row" using find_task_unique[OF assms(2) row(1)] by simp
    then show "evolves t (set_fields updates (t\<lparr>tk_execution_status := target,
        tk_current_phase := phase, tk_updated_at := now\<rparr>))"
      using row(2) set_fields_request by (simp add: evolves_def request_of_def)
  qed
next
  case (ClaimTask now i owner)
  then obtain x where "claim_task C now i owner s = Inr (x, s')" using assms by auto
  then obtain owners where s': "s' = (update_tasks (claimable s i) (\<lambda>t. t\<lparr>tk_execution_status := TaskRunning,
     tk_current_phase := ''running'', tk_started_at := Some now, tk_updated_at := now\<rparr>) s)\<lparr>st_owners := owners\<rparr>"
    by (rule claim_task_effect)
  have "tasks_evolve s (update_tasks (claimable s i) (\<lambda>t. t\<lparr>tk_execution_status := TaskRunning,
     tk_current_phase := ''running'', tk_started_at := Some now, tk_updated_at := now\<rparr>) s)"
    by (rule tasks_evolve_update) (auto simp: claimable_def evolves_def request_of_def)
  then show ?thesis by (simp add: s' tasks_evolve_def)
next
  case (SetVerifying now i)
  then have "s' = set_verifying_if_running now i s" using assms by simp
  then show ?thesis unfolding set_verifying_if_running_def
    by (auto intro!: tasks_evolve_update simp: evolves_def request_of_def)
next
  case (RecordIntervention idn new_id now actor i action remark plan expected binding)
  then obtain x where "record_intervention C idn new_id now actor i action remark plan expected binding s = Inr (x, s')"
    using assms by auto
  then show ?thesis
  proof (rule record_intervention_effect)
    fix row
    assume s': "s' = (if action = CancelPlan
        then update_tasks (\<lambda>r. tk_task_id r = i \<and> tk_execution_status r = TaskPlanned)
          (\<lambda>r. r\<lparr>tk_execution_status := TaskCancelled, tk_current_phase := ''cancelled'',
             tk_completed_at := Some now, tk_updated_at := now\<rparr>) (s\<lparr>st_interventions := st_interventions s @ [x]\<rparr>)
        else s\<lparr>st_interventions := st_interventions s @ [x]\<rparr>)"
    have "tasks_evolve (s\<lparr>st_interventions := st_interventions s @ [x]\<rparr>) s'"
      unfolding s' by (cases "action = CancelPlan")
        (auto intro!: tasks_evolve_update simp: tasks_evolve_same evolves_def request_of_def)
    then show ?thesis by (simp add: tasks_evolve_def find_task_def)
  qed
next
  case (CreateTask idn i now actor rq profile sha key parent contract remark)
  then show ?thesis using assms create_task_evolve by auto
next
  case (RecoverTask idn new_id now actor i rq owner_sha sha)
  then show ?thesis using assms recover_evolve by auto
next
  case (SeedLegacy fresh)
  then obtain es where "s' = s\<lparr>st_source_events := es\<rparr>"
    using assms(1) seed_all_frame by (fastforce simp: seed_legacy_authorization_events_def)
  then show ?thesis by (simp add: tasks_evolve_same)
next
  case (AppendEvent now i e)
  then show ?thesis using assms(1) by (auto simp: append_event_def insert_event_def intro: tasks_evolve_same)
next
  case (ReconcileEvents now i es)
  then have "st_tasks s' = st_tasks s"
    using assms(1) by (auto simp: reconcile_events_def Let_def dest!: insert_events_frame)
  then show ?thesis by (rule tasks_evolve_same)
next
  case (CreateUser i now name email)
  then show ?thesis using assms(1) by (auto simp: create_user_def Let_def intro: tasks_evolve_same)
next
  case (CreateWorkspace idn i now name owner)
  then show ?thesis using assms(1) by (auto simp: create_workspace_def Let_def intro: tasks_evolve_same)
next
  case (CreateProject idn i now actor w name about profile kind)
  then show ?thesis using assms(1) by (auto simp: create_project_def Let_def intro: tasks_evolve_same)
next
  case (DefaultTenant now)
  then show ?thesis using assms(1)
    by (auto simp: tenancy_frame_def intro!: tasks_evolve_same dest!: default_tenant_frame)
qed (rule source_ops_tasks[OF assms], simp add: source_op_def)+

text \<open>Which tables an operation leaves alone, and which task it adds.\<close>

fun added_task :: "store_op \<Rightarrow> string option" where
  "added_task (CreateTask idn i now actor rq profile sha key parent contract remark) = Some i"
| "added_task (RecoverTask idn new_id now actor i rq owner_sha sha) = Some new_id"
| "added_task _ = None"

lemma closings_ids: "closings C P s s' \<Longrightarrow> task_ids s' = task_ids s"
proof (induction rule: rtranclp_induct)
  case (step y z)
  from step(2) have "task_ids z = task_ids y"
    by cases (auto elim!: append_terminal_Inr simp: fail_pending_tasks_for_source_def Let_def)
  then show ?case using step(3) by simp
qed simp

definition keeps :: "store_op \<Rightarrow> store \<Rightarrow> store \<Rightarrow> bool" where
  "keeps c s s' \<longleftrightarrow>
     (source_op c \<or> is_SeedLegacy c \<or> st_sources s' = st_sources s \<and> st_source_events s' = st_source_events s)
   \<and> (is_RecordIntervention c \<or> st_interventions s' = st_interventions s)
   \<and> (is_CreateTask c \<or> st_lineage s' = st_lineage s)
   \<and> (is_RecoverTask c \<or> st_recoveries s' = st_recoveries s)
   \<and> (is_AppendEvent c \<or> is_ReconcileEvents c \<or> st_events s' = st_events s)
   \<and> (is_CreateWorkspace c \<or> is_DefaultTenant c \<or> st_members s' = st_members s)
   \<and> (task_ids s' = task_ids s \<or> (\<exists>i. added_task c = Some i \<and> task_ids s' = task_ids s @ [i]))"

lemma exec_keeps:
  assumes "exec_store C J c s = Inr (u, s')"
  shows "keeps c s s'"
proof (cases "source_op c")
  case True
  have "source_texts anything c" by (cases c) auto
  from source_op_effect[OF assms True this admits_anything] show ?thesis
  proof
    assume cl: "closings C anything s s'"
    show ?thesis using True closings_ids[OF cl] closings_frame[OF cl] by (auto simp: keeps_def)
  qed (use True in \<open>auto simp: keeps_def elim!: granting.cases\<close>)
next
  case False
  show ?thesis
  proof (cases c)
    case (SeedLegacy fresh)
    then obtain es where "s' = s\<lparr>st_source_events := es\<rparr>"
      using assms(1) seed_all_frame by (fastforce simp: seed_legacy_authorization_events_def)
    then show ?thesis using SeedLegacy by (simp add: keeps_def)
  next
    case (CreateTask idn i now actor rq profile sha key parent contract remark)
    then obtain r where "create_task C idn i now actor rq profile sha key parent contract remark s = Inr (r, s')"
      using assms by auto
    then show ?thesis using CreateTask
      by (cases rule: create_task_effect) (auto simp: keeps_def insert_task_Inr insert_lineage_Inr new_task_status)
  next
    case (ClaimTask now i owner)
    then show ?thesis using assms by (auto elim!: claim_task_effect simp: keeps_def update_tasks_def comp_def if_distrib)
  next
    case (RecoverTask idn new_id now actor i rq owner_sha sha)
    then obtain r where "recover_owned_task_execution C idn new_id now actor i rq owner_sha sha s = Inr (r, s')"
      using assms by auto
    then show ?thesis
    proof (cases rule: recover_effect)
      case (2 row w)
      from 2(6) have e: "s'\<lparr>st_recoveries := st_recoveries s\<rparr> = s\<lparr>st_tasks := st_tasks s'\<rparr>"
        by (auto simp: insert_task_Inr update_tasks_def dest: arg_cong[of _ _ st_tasks])
      have "task_ids s' = task_ids s @ [new_id]" using 2(6)
        by (auto simp: insert_task_Inr update_tasks_def replacement_task_def new_task_status interrupted_def
            dest: arg_cong[of _ _ st_tasks])
      then show ?thesis using RecoverTask arg_cong[OF e, of st_sources] arg_cong[OF e, of st_source_events]
          arg_cong[OF e, of st_interventions] arg_cong[OF e, of st_lineage] arg_cong[OF e, of st_events]
          arg_cong[OF e, of st_members]
        by (simp add: keeps_def)
    qed (simp add: keeps_def)
  next
    case (RecordIntervention idn new_id now actor i action remark plan expected binding)
    then show ?thesis using assms by (auto elim!: record_intervention_effect simp: keeps_def update_tasks_def)
  next
    case (ReconcileEvents now i es)
    then show ?thesis using assms(1) by (auto simp: keeps_def reconcile_events_def Let_def dest!: insert_events_frame)
  next
    case (DefaultTenant now)
    then show ?thesis using assms by (auto simp: keeps_def tenancy_frame_def dest!: default_tenant_frame)
  qed (use assms False in \<open>auto simp: keeps_def source_op_def create_user_def create_workspace_def create_project_def
         transition_task_def set_verifying_if_running_def update_tasks_def append_event_def
         insert_event_def Let_def split: option.splits if_splits\<close>)
qed

end
