(* ===== verification/Clean_Texts.thy ===== *)
theory Clean_Texts
  imports Gate_Prelude
begin

text \<open>
  Texts without white space at an end, which stripping leaves alone: generated identifiers, hexadecimal digests and texts
  that come out of a stripping model. Several receipts are digested before or after stripping, so their verification rests
  on this.
\<close>

definition clean :: "string \<Rightarrow> bool" where
  "clean s \<longleftrightarrow> trim s = s"

lemma clean_plain: "list_all (\<lambda>c. \<not> trim_char c) s \<Longrightarrow> clean s"
proof -
  have id: "list_all (\<lambda>c. \<not> trim_char c) s \<Longrightarrow> dropWhile trim_char s = s" for s
    by (induction s) auto
  show "list_all (\<lambda>c. \<not> trim_char c) s \<Longrightarrow> clean s"
    using id[of s] id[of "rev s"] by (simp add: clean_def trim_def list_all_iff)
qed

lemma hex_not_trimmed: "is_hex c \<Longrightarrow> \<not> trim_char c"
  by (auto simp: is_hex_def is_digit_def trim_char_def less_eq_char_def)

lemma sha256_clean: "is_sha256 s \<Longrightarrow> clean s"
  by (rule clean_plain) (auto simp: is_sha256_def list_all_iff hex_not_trimmed)

lemma cleanD: "clean s \<Longrightarrow> trim s = s"
  by (simp add: clean_def)

text \<open>The documented behaviour of \<open>hexdigest\<close>.\<close>

definition hex_digests :: "crypto \<Rightarrow> bool" where
  "hex_digests C \<longleftrightarrow> (\<forall>b. is_sha256 (sha256 C b))"

lemma toy_hex_digests: "hex_digests toy_crypto"
proof -
  have "is_sha256 zero_sha" by code_simp
  then show ?thesis by (simp add: hex_digests_def toy_crypto_def)
qed

lemma clean_trim [simp]: "clean (trim s)"
proof -
  define a where "a = dropWhile trim_char s"
  define b where "b = dropWhile trim_char (rev a)"
  have keep: "dropWhile trim_char x = x" if "x = [] \<or> \<not> trim_char (hd x)" for x
    using that by (cases x) auto
  have b: "dropWhile trim_char b = b" by (rule keep) (use hd_dropWhile[of trim_char "rev a"] in \<open>auto simp: b_def\<close>)
  have "\<not> trim_char (hd (rev b))" if ne: "rev b \<noteq> []"
  proof -
    obtain ys where "rev a = ys @ b" unfolding b_def by (metis takeWhile_dropWhile_id)
    then have "a = rev b @ rev ys" by (metis rev_append rev_rev_ident)
    then have "hd (rev b) = hd a" "a \<noteq> []" using ne by (auto simp: hd_append)
    then show ?thesis using hd_dropWhile[of trim_char s] by (simp add: a_def)
  qed
  then have "dropWhile trim_char (rev b) = rev b" by (intro keep) auto
  then show ?thesis using b by (simp add: clean_def trim_def a_def b_def)
qed

lemma canonical_clean: "hex_digests C \<Longrightarrow> is_sha256 (canonical_json_sha C v) \<and> clean (canonical_json_sha C v)"
  by (simp add: hex_digests_def canonical_json_sha_def sha256_clean)

lemma clean_zero_sha: "clean zero_sha"
  by code_simp

lemma map_trim_clean: "list_all clean xs \<Longrightarrow> map trim xs = xs"
  by (auto simp: list_all_iff cleanD intro!: map_idI)

end
