(* ===== verification/Task_Safety.thy ===== *)
theory Task_Safety
  imports Task_History Clean_Texts
begin

text \<open>
  What holds in every store the service can reach: transitions, plan approval, the ledgers of sources and the
  lineage of re-verifications. The operations are restricted to the calls \<open>product_service.py\<close> makes: it moves tasks with
  \<open>transition_task\<close> only to FAILED and COMPLETED (starting goes through \<open>claim_task\<close>), and the identifiers and texts it
  passes carry no white space at an end, since they were generated or come out of stripping models. The digest of a
  request that it hands to \<open>create_task\<close> and to \<open>recover_owned_task_execution\<close> is one it has just computed.
\<close>

section \<open>Calls of the service\<close>

fun service_call :: "store_op \<Rightarrow> bool" where
  "service_call (TransitionTask idn now i target phase updates) \<longleftrightarrow> target \<in> {TaskFailed, TaskCompleted}"
| "service_call (CreateTask idn i now actor rq profile sha key parent contract remark) \<longleftrightarrow>
     list_all clean ([i, now, actor, rq_project_id rq, sha] @ rq_allowed_tools rq) \<and> pred_option clean parent
       \<and> pred_option clean remark \<and> is_sha256 sha"
| "service_call (RecoverTask idn new_id now actor i rq owner_sha sha) \<longleftrightarrow>
     list_all clean [new_id, now, actor, sha, rr_reviewer_identity rq, rr_note rq] \<and> is_sha256 sha"
| "service_call c \<longleftrightarrow> source_texts clean c"

definition exec_service :: "crypto \<Rightarrow> json_codec \<Rightarrow> store_op \<Rightarrow> store \<Rightarrow> store_error + unit \<times> store" where
  "exec_service C J c s =
     rbind (require (service_call c) (ValueFailure ''not a call of the service'')) (\<lambda>_. exec_store C J c s)"

lemma exec_service_Inr [simp]:
  "exec_service C J c s = Inr x \<longleftrightarrow> service_call c \<and> exec_store C J c s = Inr x"
  by (auto simp: exec_service_def)

section \<open>Interventions and starts\<close>

lemma exec_interventions:
  assumes "exec_store C J c s = Inr (u, s')"
  shows "st_interventions s' = st_interventions s
    \<or> (\<exists>idn new_id now actor i action text plan expected binding v.
         c = RecordIntervention idn new_id now actor i action text plan expected binding
         \<and> record_intervention C idn new_id now actor i action text plan expected binding s = Inr (v, s'))"
  using exec_keeps[OF assms] assms by (cases c) (auto simp: keeps_def)

text \<open>A row that an operation writes is not archived, and runs only if the task needs no approval or has one.\<close>

definition may_run :: "store \<Rightarrow> task \<Rightarrow> bool" where
  "may_run s t \<longleftrightarrow> \<not> tk_plan_approval_required t \<or> plan_approved s (tk_task_id t)"

lemma exec_started:
  assumes "exec_store C J c s = Inr (u, s')" and "service_call c" and "distinct (task_ids s)"
    and "t \<in> set (st_tasks s')"
  shows "t \<in> set (st_tasks s) \<or> tk_execution_status t \<noteq> TaskArchived \<and> (tk_execution_status t = TaskRunning \<longrightarrow> may_run s t)"
proof (cases "source_op c")
  case True
  have "source_texts anything c" by (cases c) auto
  from source_op_effect[OF assms(1) True this admits_anything] show ?thesis
  proof
    assume "closings C anything s s'"
    from list_all2_preimage[OF closings_tasks[OF this assms(3)] assms(4)]
    obtain t0 where "t0 \<in> set (st_tasks s)" "closes t0 t" by blast
    then show ?thesis by (auto simp: closes_def)
  next
    assume "granting C anything s s'"
    then show ?thesis using assms(4) by (auto dest: granting_tasks)
  qed
next
  case False
  show ?thesis
  proof (cases c)
    case (SeedLegacy fresh)
    then obtain es where "s' = s\<lparr>st_source_events := es\<rparr>"
      using assms(1) seed_all_frame by (fastforce simp: seed_legacy_authorization_events_def)
    then show ?thesis using assms(4) by simp
  next
    case (CreateTask idn i now actor rq profile sha key parent contract remark)
    then obtain r where "create_task C idn i now actor rq profile sha key parent contract remark s = Inr (r, s')"
      using assms by auto
    then show ?thesis using assms(4)
      by (cases rule: create_task_effect) (auto simp: insert_task_Inr insert_lineage_Inr new_task_status)
  next
    case (ClaimTask now i owner)
    then obtain x where "claim_task C now i owner s = Inr (x, s')" using assms by auto
    then show ?thesis using assms(4)
      by (auto elim!: claim_task_effect simp: update_tasks_def claimable_def may_run_def split: if_splits)
  next
    case (RecoverTask idn new_id now actor i rq owner_sha sha)
    then obtain r where "recover_owned_task_execution C idn new_id now actor i rq owner_sha sha s = Inr (r, s')"
      using assms by auto
    then show ?thesis
    proof (cases rule: recover_effect)
      case (2 row w)
      from 2(6) have "st_tasks (s'\<lparr>st_recoveries := st_recoveries s\<rparr>) = map (\<lambda>t. if tk_task_id t = i
          then interrupted now t else t) (st_tasks s) @ [replacement_task new_id now actor sha (task_of_row row)]"
        by (simp add: insert_task_Inr update_tasks_def)
      then show ?thesis using assms(4)
        by (auto simp: interrupted_def replacement_task_def new_task_status split: if_splits)
    qed (use assms(4) in simp)
  next
    case (TransitionTask idn now i target phase updates)
    then show ?thesis using assms set_fields_request
      by (auto simp: transition_task_def Let_def update_tasks_def split: if_splits)
  next
    case (RecordIntervention idn new_id now actor i action remark plan expected binding)
    then show ?thesis using assms by (auto elim!: record_intervention_effect simp: update_tasks_def split: if_splits)
  next
    case (ReconcileEvents now i es)
    then show ?thesis using assms(1,4) by (auto simp: reconcile_events_def Let_def dest!: insert_events_frame)
  next
    case (DefaultTenant now)
    then show ?thesis using assms by (auto simp: tenancy_frame_def dest!: default_tenant_frame)
  qed (use assms False in \<open>auto simp: create_user_def create_workspace_def create_project_def
         set_verifying_if_running_def update_tasks_def append_event_def insert_event_def Let_def source_op_def
         split: option.splits if_splits\<close>)
qed

section \<open>Plan decisions\<close>

definition decisions :: "store \<Rightarrow> string \<Rightarrow> intervention list" where
  "decisions s i = filter (\<lambda>v. iv_task_id v = i \<and> iv_action v \<in> {ApprovePlan, CancelPlan}) (st_interventions s)"

text \<open>An approval whose binding names the request, the plan and the snapshot it was given for.\<close>

definition approves :: "task \<Rightarrow> intervention \<Rightarrow> bool" where
  "approves t v \<longleftrightarrow> iv_action v = ApprovePlan \<and> (\<exists>b. iv_approval_binding v = Some b
     \<and> ab_request_sha256 b = trim (tk_request_sha256 t) \<and> ab_plan_sha256 b = iv_plan_sha256 v
     \<and> ab_before_snapshot_sha256 b = iv_before_snapshot_sha256 v)"

definition started :: "task_status \<Rightarrow> bool" where
  "started st \<longleftrightarrow> st \<in> {TaskRunning, TaskVerifying, TaskCompleted}"

definition plan_ok :: "store \<Rightarrow> task \<Rightarrow> bool" where
  "plan_ok s t \<longleftrightarrow> length (decisions s (tk_task_id t)) \<le> 1
     \<and> (\<forall>v\<in>set (decisions s (tk_task_id t)). approves t v
          \<or> iv_action v = CancelPlan \<and> tk_execution_status t \<in> {TaskCancelled, TaskArchived})
     \<and> (started (tk_execution_status t) \<and> tk_plan_approval_required t \<longrightarrow> decisions s (tk_task_id t) \<noteq> [])"

definition plans_ok :: "store \<Rightarrow> bool" where
  "plans_ok s \<longleftrightarrow> distinct (task_ids s) \<and> (\<forall>v\<in>set (st_interventions s). iv_task_id v \<in> set (task_ids s))
     \<and> (\<forall>t\<in>set (st_tasks s). plan_ok s t)"

lemma may_run_decisions: "may_run s t \<Longrightarrow> tk_plan_approval_required t \<Longrightarrow> decisions s (tk_task_id t) \<noteq> []"
  by (auto simp: may_run_def plan_approved_def decisions_def list_ex_iff filter_empty_conv)

lemma no_decisions: "\<forall>v\<in>set (st_interventions s). iv_task_id v \<in> S \<Longrightarrow> i \<notin> S \<Longrightarrow> decisions s i = []"
  unfolding decisions_def filter_empty_conv by blast

lemma tasks_evolve_origin:
  assumes "tasks_evolve s s'" and "t' \<in> set (st_tasks s')"
  obtains t where "t \<in> set (st_tasks s)" "evolves t t'"
  | "tk_execution_status t' = TaskPlanned" "tk_task_id t' \<notin> set (task_ids s)"
proof -
  obtain us ns where s': "st_tasks s' = us @ ns" and e: "list_all2 evolves (st_tasks s) us"
    and n: "ns = [] \<or> (\<exists>n. ns = [n] \<and> tk_execution_status n = TaskPlanned \<and> find_task s (tk_task_id n) = None)"
    using assms(1) by (auto simp: tasks_evolve_def)
  show ?thesis
  proof (cases "t' \<in> set us")
    case True
    from list_all2_preimage[OF e this] show ?thesis using that(1) by blast
  next
    case False
    then show ?thesis using assms(2) n that(2) by (auto simp: s' find_task_None)
  qed
qed

lemma tasks_evolve_ids: "tasks_evolve s s' \<Longrightarrow> set (task_ids s) \<subseteq> set (task_ids s')"
proof -
  assume "tasks_evolve s s'"
  then obtain us ns where "st_tasks s' = us @ ns" "list_all2 evolves (st_tasks s) us" by (auto simp: tasks_evolve_def)
  then show ?thesis using evolves_ids[of "st_tasks s" us] by simp
qed

lemma evolves_started:
  assumes "evolves t t'" and "started (tk_execution_status t')"
  shows "started (tk_execution_status t) \<or> tk_execution_status t' = TaskRunning"
  using assms by (cases "tk_execution_status t") (auto simp: evolves_def started_def)

lemma evolves_plan_ok:
  assumes "plan_ok s t" and "evolves t t'" and "decisions s' (tk_task_id t) = decisions s (tk_task_id t)"
    and "t' \<in> set (st_tasks s) \<or> tk_execution_status t' \<noteq> TaskArchived \<and> (tk_execution_status t' = TaskRunning \<longrightarrow> may_run s t')"
    and "\<forall>t\<in>set (st_tasks s). plan_ok s t"
  shows "plan_ok s' t'"
proof -
  note req = request_of_eqD(1,5,6)[of t' t]
  have r: "request_of t' = request_of t" using assms(2) by (auto simp: evolves_def)
  have "decisions s (tk_task_id t) \<noteq> []" if "started (tk_execution_status t')" "tk_plan_approval_required t'"
  proof (cases "started (tk_execution_status t)")
    case True
    then show ?thesis using assms(1) that(2) req(3)[OF r] by (simp add: plan_ok_def)
  next
    case False
    then have run: "tk_execution_status t' = TaskRunning" using evolves_started[OF assms(2) that(1)] by blast
    show ?thesis using assms(4) run assms(5) that may_run_decisions[of s t'] req(1)[OF r]
      by (auto simp: plan_ok_def)
  qed
  moreover have "approves t' v = approves t v" for v by (simp add: approves_def req(2)[OF r])
  moreover have "tk_execution_status t' \<in> {TaskCancelled, TaskArchived}"
    if "tk_execution_status t \<in> {TaskCancelled, TaskArchived}"
    using that assms(2) by (auto simp: evolves_def)
  ultimately show ?thesis using assms(1,3) req(1)[OF r] by (auto simp: plan_ok_def)
qed

lemma exec_plans_ok:
  assumes ex: "exec_store C J c s = Inr (u, s')" and call: "service_call c" and ok: "plans_ok s"
  shows "plans_ok s'"
proof -
  have dis: "distinct (task_ids s)" and pre: "\<forall>t\<in>set (st_tasks s). plan_ok s t"
    and ints: "\<forall>v\<in>set (st_interventions s). iv_task_id v \<in> set (task_ids s)"
    using ok by (auto simp: plans_ok_def)
  note ev = exec_tasks_evolve[OF ex dis]
  have ids: "set (task_ids s) \<subseteq> set (task_ids s')" by (rule tasks_evolve_ids[OF ev])
  have dis': "distinct (task_ids s')" by (rule tasks_evolve_distinct[OF ev dis])
  note start = exec_started[OF ex call dis]
  from exec_interventions[OF ex] show ?thesis
  proof (elim disjE exE conjE)
    assume same: "st_interventions s' = st_interventions s"
    have d: "decisions s' i = decisions s i" for i by (simp add: decisions_def same)
    have "plan_ok s' t'" if t': "t' \<in> set (st_tasks s')" for t'
      using tasks_evolve_origin[OF ev t']
    proof cases
      case (1 t)
      then show ?thesis using evolves_plan_ok[of s t t' s'] pre d start[OF t'] by blast
    next
      case 2
      then have "decisions s (tk_task_id t') = []" using no_decisions[OF ints] by blast
      then show ?thesis using 2(1) by (simp add: plan_ok_def d started_def)
    qed
    then show ?thesis using ints ids dis' same by (auto simp: plans_ok_def)
  next
    fix idn new_id now actor i action remark plan expected binding v
    assume c: "c = RecordIntervention idn new_id now actor i action remark plan expected binding"
      and r: "record_intervention C idn new_id now actor i action remark plan expected binding s = Inr (v, s')"
    from r show ?thesis
    proof (rule record_intervention_effect)
      fix row
      assume row: "find_task s i = Some row"
        and v: "v = \<lparr>iv_intervention_id = new_id, iv_task_id = i, iv_sequence = next_sequence s i,
               iv_actor_user_id = actor, iv_action = action, iv_note = remark,
               iv_before_status = tk_execution_status row, iv_before_phase = trim (tk_current_phase row),
               iv_before_snapshot_sha256 = expected, iv_plan_sha256 = plan,
               iv_approval_binding = binding, iv_created_at = now\<rparr>"
        and fits: "binding_fits action binding plan expected (task_of_row row) = Inr ()"
        and allowed: "intervention_allowed s (row\<lparr>tk_task_id := i\<rparr>) action = Inr ()"
        and s': "s' = (if action = CancelPlan
          then update_tasks (\<lambda>r. tk_task_id r = i \<and> tk_execution_status r = TaskPlanned)
            (\<lambda>r. r\<lparr>tk_execution_status := TaskCancelled, tk_current_phase := ''cancelled'',
               tk_completed_at := Some now, tk_updated_at := now\<rparr>) (s\<lparr>st_interventions := st_interventions s @ [v]\<rparr>)
          else s\<lparr>st_interventions := st_interventions s @ [v]\<rparr>)"
      have si: "st_interventions s' = st_interventions s @ [v]" by (simp add: s' update_tasks_def)
      have none: "decisions s i = []" "tk_execution_status row = TaskPlanned" if "action \<in> {ApprovePlan, CancelPlan}"
        using allowed that by (auto simp: intervention_allowed_def decisions_def filter_empty_conv list_ex_iff)
      have appr: "approves row v" if "action = ApprovePlan"
        using fits that by (auto simp: v approves_def binding_fits_def task_of_row_def split: option.splits)
      have "plan_ok s' t'" if t': "t' \<in> set (st_tasks s')" for t'
        using tasks_evolve_origin[OF ev t']
      proof cases
        case (1 t)
        have "request_of t' = request_of t" using 1(2) by (auto simp: evolves_def)
        note id = request_of_eqD(1)[OF this] this
        show ?thesis
        proof (cases "tk_task_id t = i \<and> action \<in> {ApprovePlan, CancelPlan}")
          case True
          then have t: "t = row" using find_task_unique[OF dis row 1(1)] by simp
          have d: "decisions s' (tk_task_id t') = [v]"
            using True none(1) id(1) by (auto simp: decisions_def si v)
          have "approves t' v" if "action = ApprovePlan"
            using appr[OF that] request_of_eqD(5)[OF id(2)] by (simp add: approves_def t)
          moreover have "tk_execution_status t' = TaskCancelled" if cancel: "action = CancelPlan"
          proof -
            obtain t0 where t0: "t0 \<in> set (st_tasks s)"
              and t'0: "t' = (if tk_task_id t0 = i \<and> tk_execution_status t0 = TaskPlanned
                then t0\<lparr>tk_execution_status := TaskCancelled, tk_current_phase := ''cancelled'',
                  tk_completed_at := Some now, tk_updated_at := now\<rparr> else t0)"
              using t' cancel by (auto simp: s' update_tasks_def)
            have "tk_task_id t0 = i" using t'0 True id(1) by (simp split: if_splits)
            then have "t0 = row" by (rule find_task_unique[OF dis row t0])
            then show ?thesis using t'0 none(2)[OF conjunct2[OF True]] \<open>tk_task_id t0 = i\<close> by simp
          qed
          ultimately show ?thesis using True by (auto simp: plan_ok_def d) (simp add: v)
        next
          case False
          then have "decisions s' (tk_task_id t) = decisions s (tk_task_id t)" by (auto simp: decisions_def si v)
          then show ?thesis using evolves_plan_ok[of s t t' s'] 1 pre start[OF t'] by blast
        qed
      next
        case 2
        then have "decisions s (tk_task_id t') = []" "tk_task_id t' \<noteq> i"
          using no_decisions[OF ints 2(2)] find_task_SomeD[OF row] by auto
        then show ?thesis using 2(1) by (simp add: plan_ok_def decisions_def si v started_def)
      qed
      moreover have "i \<in> set (task_ids s)" using row by (auto dest: find_task_SomeD)
      ultimately show ?thesis using ints ids dis' by (auto simp: plans_ok_def si v)
    qed
  qed
qed

section \<open>Histories\<close>

interpretation hst: guarded_store "exec_service C J" plans_ok for C J
proof
  fix s c and r :: unit and s'
  assume "plans_ok s" "exec_service C J c s = Inr (r, s')"
  then show "plans_ok s'" using exec_plans_ok by auto
qed

text \<open>The calls of a list one after another, each a transaction; a refused one changes nothing.\<close>

abbreviation run_service :: "crypto \<Rightarrow> json_codec \<Rightarrow> store_op list \<Rightarrow> store \<Rightarrow> store" where
  "run_service C J cs s \<equiv> guarded_store.run (exec_service C J) cs s"

lemma empty_plans_ok: "plans_ok empty_store"
  by (simp add: plans_ok_def empty_store_def)

lemma reachable_plans_ok: "plans_ok (run_service C J cs empty_store)"
  by (rule hst.run_inv[OF empty_plans_ok])

text \<open>Rows without an outgoing call: the service never archives a task.\<close>

definition settled :: "task_status \<Rightarrow> bool" where
  "settled st \<longleftrightarrow> st \<in> {TaskCompleted, TaskFailed, TaskCancelled, TaskArchived}"

lemma exec_task_step:
  assumes ex: "exec_store C J c s = Inr (u, s')" and call: "service_call c" and ok: "plans_ok s"
    and t: "find_task s i = Some t"
  shows "\<exists>t'. find_task s' i = Some t' \<and> evolves t t' \<and> (settled (tk_execution_status t) \<longrightarrow> t' = t)"
proof -
  have dis: "distinct (task_ids s)" using ok by (simp add: plans_ok_def)
  have ev: "tasks_evolve s s'" by (rule exec_tasks_evolve[OF ex dis])
  have dis': "distinct (task_ids s')" by (rule tasks_evolve_distinct[OF ev dis])
  obtain us ns where s': "st_tasks s' = us @ ns" and e: "list_all2 evolves (st_tasks s) us"
    using ev by (auto simp: tasks_evolve_def)
  have m: "t \<in> set (st_tasks s)" "tk_task_id t = i" using find_task_SomeD[OF t] by auto
  obtain t' where t': "t' \<in> set us" "evolves t t'"
    using list_all2_image[OF e m(1)] by blast
  then have "request_of t' = request_of t" by (auto simp: evolves_def)
  then have "tk_task_id t' = i" using request_of_eqD(1) m(2) by metis
  then have f: "find_task s' i = Some t'" using find_task_iff[OF dis'] t'(1) s' by simp
  moreover have "t' = t" if "settled (tk_execution_status t)"
  proof (rule ccontr)
    assume "t' \<noteq> t"
    then have arch: "tk_execution_status t' = TaskArchived" using t'(2) that by (auto simp: evolves_def settled_def)
    have "t' \<in> set (st_tasks s')" using t'(1) s' by simp
    from exec_started[OF ex call dis this] arch have "t' \<in> set (st_tasks s)" by simp
    then show False using find_task_unique[OF dis t] \<open>tk_task_id t' = i\<close> \<open>t' \<noteq> t\<close> by blast
  qed
  ultimately show ?thesis using t'(2) by blast
qed

lemma run_task_steps:
  assumes "plans_ok s" and "find_task s i = Some t"
  shows "\<exists>t'. find_task (run_service C J cs s) i = Some t' \<and> request_of t' = request_of t
    \<and> (tk_execution_status t, tk_execution_status t') \<in> {(a, b). b \<in> set (TRANSITIONS a)}\<^sup>*
    \<and> (settled (tk_execution_status t) \<longrightarrow> t' = t)" (is "\<exists>t'. ?Q (run_service C J cs s) t t'")
  using assms
proof (induction cs arbitrary: s t)
  case Nil
  then show ?case by simp
next
  case (Cons c cs)
  show ?case
  proof (cases "exec_service C J c s")
    case (Inl e)
    then show ?thesis using Cons.IH[OF Cons.prems] by simp
  next
    case (Inr x)
    obtain s1 where x: "x = ((), s1)" by (cases x) simp
    have ex: "exec_store C J c s = Inr ((), s1)" and call: "service_call c" using Inr by (simp_all add: x)
    obtain t1 where t1: "find_task s1 i = Some t1" "evolves t t1" "settled (tk_execution_status t) \<longrightarrow> t1 = t"
      using exec_task_step[OF ex call Cons.prems] by blast
    obtain t' where t': "?Q (run_service C J cs s1) t1 t'"
      using Cons.IH[OF exec_plans_ok[OF ex call Cons.prems(1)] t1(1)] by blast
    have "request_of t1 = request_of t" using t1(2) by (auto simp: evolves_def)
    moreover have "(tk_execution_status t, tk_execution_status t1) \<in> {(a, b). b \<in> set (TRANSITIONS a)}\<^sup>*"
      using t1(2) by (auto simp: evolves_def)
    moreover have "run_service C J (c # cs) s = run_service C J cs s1" using Inr by (simp add: x del: exec_service_Inr)
    ultimately show ?thesis using t' t1(3) by (auto simp del: guarded_store.run.simps intro: rtrancl_trans)
  qed
qed

text \<open>For evaluation, and a small history: a task whose plan is approved before it is claimed.\<close>

definition store_after :: "crypto \<Rightarrow> json_codec \<Rightarrow> store_op \<Rightarrow> store \<Rightarrow> store" where
  "store_after C J c s = (case exec_store C J c s of Inl _ \<Rightarrow> s | Inr (_, s') \<Rightarrow> s')"

lemma run_service_fold:
  "list_all service_call cs \<Longrightarrow> run_service C J cs s = fold (store_after C J) cs s"
proof (induction cs arbitrary: s)
  case (Cons c cs)
  then have "exec_service C J c s = exec_store C J c s" by (simp add: exec_service_def)
  then show ?case using Cons by (auto simp: store_after_def simp del: exec_service_Inr split: sum.split)
qed simp

definition toy_codec :: json_codec where
  "toy_codec = \<lparr>jc_dumps = (\<lambda>_. ''doc''), jc_strict_loads = (\<lambda>_. Some JNull)\<rparr>"

definition demo_identity :: identity where
  "demo_identity = \<lparr>id_enabled = False, id_credential_status = []\<rparr>"

definition demo_request :: task_request where
  "demo_request = \<lparr>rq_project_id = ''prj_industrial_vision'', rq_goal = ''inspect the batch'', rq_seed = 1,
     rq_source_kind = SyntheticDemo, rq_source_id = Some ''src1'', rq_plan_approval_required = True,
     rq_allowed_tools = [''coverage_matrix'']\<rparr>"

definition demo_binding :: approval_binding where
  "demo_binding = \<lparr>ab_request_sha256 = zero_sha, ab_before_snapshot_sha256 = zero_sha, ab_plan_sha256 = zero_sha,
     ab_contract_sha256 = zero_sha, ab_source_profile_matched = False, ab_source_profile_sha256 = None,
     ab_source_authorization_event_sha256 = None, ab_binding_sha256 = zero_sha\<rparr>"

definition demo_start :: "store_op list" where
  "demo_start =
     [DefaultTenant ''t0'',
      CreateTask demo_identity ''task1'' ''t1'' ''usr_local_demo'' demo_request Industrial zero_sha None None None None,
      RecordIntervention demo_identity ''int1'' ''t2'' ''usr_local_demo'' ''task1'' ApprovePlan ''ok'' zero_sha zero_sha
        (Some demo_binding),
      ClaimTask ''t3'' ''task1'' None]"

definition demo_done :: "store_op list" where
  "demo_done = [SetVerifying ''t4'' ''task1'',
     TransitionTask demo_identity ''t5'' ''task1'' TaskCompleted ''completed'' [(''evidence_sha256'', Some zero_sha)],
     TransitionTask demo_identity ''t6'' ''task1'' TaskFailed ''failed'' []]"

definition demo_store :: store where
  "demo_store = fold (store_after toy_crypto toy_codec) demo_start empty_store"

lemma demo_clean: "is_sha256 zero_sha" "clean zero_sha" "clean ''task1''" "clean ''t1''" "clean ''usr_local_demo''" "clean ''prj_industrial_vision''" "clean ''coverage_matrix''"
  by code_simp+

lemma demo_calls: "list_all service_call demo_start" "list_all service_call demo_done"
  by (simp_all add: demo_start_def demo_done_def demo_clean demo_request_def)

lemma demo_store_run: "demo_store = run_service toy_crypto toy_codec demo_start empty_store"
  by (simp add: demo_store_def run_service_fold demo_calls)

definition demo_task :: task where
  "demo_task = (new_task ''task1'' ''t1'' ''usr_local_demo'' ''wsp_local_demo'' demo_request Industrial zero_sha None)
     \<lparr>tk_execution_status := TaskRunning, tk_current_phase := ''running'', tk_started_at := Some ''t3'',
      tk_updated_at := ''t3''\<rparr>"

lemma demo_find: "find_task demo_store ''task1'' = Some demo_task"
  by code_simp

section \<open>Properties of the task life cycle\<close>

text \<open>C3: whatever calls the service makes, in any order, a task keeps its request, its status only moves along the
  transition table, and once it is completed, failed or cancelled its row never changes again.\<close>

theorem task_status_follows_transitions:
  assumes "s = run_service C J cs empty_store" and "find_task s i = Some t"
  shows "\<exists>t'. find_task (run_service C J cs' s) i = Some t' \<and> request_of t' = request_of t
    \<and> (tk_execution_status t, tk_execution_status t') \<in> {(a, b). b \<in> set (TRANSITIONS a)}\<^sup>*
    \<and> (tk_execution_status t \<in> {TaskCompleted, TaskFailed, TaskCancelled} \<longrightarrow> t' = t)"
  using run_task_steps[OF reachable_plans_ok[of C J cs, folded assms(1)] assms(2), of C J cs']
  by (auto simp: settled_def)

theorem task_status_follows_transitions_witness:
  "map_option tk_execution_status (find_task (fold (store_after toy_crypto toy_codec) demo_done demo_store) ''task1'')
     = Some TaskCompleted
   \<and> (TaskRunning, TaskCompleted) \<in> {(a, b). b \<in> set (TRANSITIONS a)}\<^sup>*"
proof -
  obtain t' where t': "find_task (fold (store_after toy_crypto toy_codec) demo_done demo_store) ''task1'' = Some t'"
    "(TaskRunning, tk_execution_status t') \<in> {(a, b). b \<in> set (TRANSITIONS a)}\<^sup>*"
    using task_status_follows_transitions[OF demo_store_run demo_find, of demo_done]
    by (auto simp: run_service_fold demo_calls demo_task_def)
  moreover have "map_option tk_execution_status (find_task (fold (store_after toy_crypto toy_codec) demo_done demo_store)
      ''task1'') = Some TaskCompleted" by code_simp
  ultimately show ?thesis by simp
qed

text \<open>C4: a task that requires plan approval and was started, verified or completed has exactly one decision on its plan: an
  approval whose binding names the request, the plan and the task snapshot it was given for. A cancelled plan never runs.\<close>

theorem plan_approved_before_start:
  assumes "s = run_service C J cs empty_store" and "find_task s i = Some t" and "tk_plan_approval_required t"
    and "started (tk_execution_status t)"
  shows "\<exists>v. decisions s i = [v] \<and> approves t v"
proof -
  have t: "t \<in> set (st_tasks s)" "tk_task_id t = i" using find_task_SomeD[OF assms(2)] by auto
  have "plan_ok s t" using reachable_plans_ok[of C J cs, folded assms(1)] t(1) by (simp add: plans_ok_def)
  moreover have "\<not> tk_execution_status t \<in> {TaskCancelled, TaskArchived}" using assms(4) by (auto simp: started_def)
  ultimately show ?thesis using assms(3,4) t(2)
    by (cases "decisions s i") (auto simp: plan_ok_def)
qed

theorem plan_approved_before_start_witness:
  "\<exists>v. decisions demo_store ''task1'' = [v] \<and> approves demo_task v"
  by (rule plan_approved_before_start[OF demo_store_run demo_find]) code_simp+

end
