(* ===== verification/Source_Safety.thy ===== *)
theory Source_Safety
  imports Task_Safety
begin

text \<open>
  The ledger of a source in every reachable store: a grant, possibly followed by one terminal event that is chained to it, and
  both still verify. Closing a ledger fails exactly the pending tasks of the source.
\<close>

section \<open>Clean texts\<close>

lemma fixed_texts_clean: "clean grant_reason" "admits_expiry clean"
  unfolding admits_expiry_def by code_simp+

section \<open>Sealed events verify\<close>

lemma sealed_event:
  assumes seal: "seal_source_authorization_event C raw = Inr e" and hex: "hex_digests C"
    and texts: "list_all clean ([se_event_id raw, se_source_id raw, se_workspace_id raw, se_actor_id raw, se_reason raw,
       se_effective_at raw, se_created_at raw] @ se_fail_closed_task_ids raw)"
    and prev: "pred_option is_sha256 (se_previous_event_sha256 raw)"
  defines "x \<equiv> raw\<lparr>se_fail_closed_task_ids := sort (se_fail_closed_task_ids raw)\<rparr>"
  shows "e = x\<lparr>se_event_sha256 := dumps_sha C (source_event_payload x)\<rparr>" and "source_authorization_event C e = Inr e"
proof -
  let ?e = "x\<lparr>se_event_sha256 := dumps_sha C (source_event_payload x)\<rparr>"
  have digest: "clean (se_event_sha256 ?e)"
    using hex by (auto simp: hex_digests_def dumps_sha_def intro!: sha256_clean)
  have "map trim (sort (se_fail_closed_task_ids raw)) = sort (se_fail_closed_task_ids raw)"
    using texts by (auto simp: list_all_iff cleanD intro!: map_idI)
  moreover have "map_option trim (se_previous_event_sha256 raw) = se_previous_event_sha256 raw"
    using prev sha256_clean cleanD by (cases "se_previous_event_sha256 raw") auto
  ultimately have strip: "strip_source_event ?e = ?e"
    using texts digest by (simp add: strip_source_event_def x_def cleanD)
  have "make_source_event ?e = Inr e" using seal by (simp add: seal_source_authorization_event_def Let_def x_def)
  then have e: "e = ?e" and make: "make_source_event ?e = Inr ?e"
    using strip by (auto simp: make_source_event_def Let_def split: option.splits)
  show "e = ?e" by (rule e)
  have "source_event_payload ?e = source_event_payload x" by (simp add: source_event_payload_def)
  then show "source_authorization_event C e = Inr e"
    using make by (simp add: e source_authorization_event_def verify_source_authorization_event_def)
qed

lemma event_digest: "source_authorization_event C e = Inr e \<Longrightarrow> is_sha256 (se_event_sha256 e)"
  by (auto simp: source_authorization_event_def make_source_event_def Let_def strip_source_event_def
      dest!: arg_cong[of _ _ se_event_sha256])

section \<open>The invariant\<close>

definition ledger :: "store \<Rightarrow> string \<Rightarrow> source_event list" where
  "ledger s i = filter (\<lambda>e. se_source_id e = i) (st_source_events s)"

definition opens :: "crypto \<Rightarrow> source_event \<Rightarrow> bool" where
  "opens C g \<longleftrightarrow> se_sequence g = 1 \<and> se_event_type g = SourceGranted \<and> se_previous_event_sha256 g = None
     \<and> source_authorization_event C g = Inr g"

definition ends :: "crypto \<Rightarrow> source_event \<Rightarrow> source_event \<Rightarrow> bool" where
  "ends C g t \<longleftrightarrow> se_sequence t = 2 \<and> se_event_type t \<noteq> SourceGranted
     \<and> se_previous_event_sha256 t = Some (se_event_sha256 g) \<and> source_authorization_event C t = Inr t"

definition ledger_ok :: "crypto \<Rightarrow> source_event list \<Rightarrow> bool" where
  "ledger_ok C es \<longleftrightarrow> (\<exists>g. opens C g \<and> (es = [g] \<or> (\<exists>t. ends C g t \<and> es = [g, t])))"

definition sources_ok :: "crypto \<Rightarrow> store \<Rightarrow> bool" where
  "sources_ok C s \<longleftrightarrow> list_all clean (task_ids s) \<and> distinct (map so_source_id (st_sources s))
     \<and> (\<forall>e\<in>set (st_source_events s). se_source_id e \<in> set (map so_source_id (st_sources s)))
     \<and> (\<forall>r\<in>set (st_sources s). clean (so_source_id r) \<and> clean (so_workspace_id r) \<and> ledger_ok C (ledger s (so_source_id r)))"

lemma ledger_read:
  assumes "ledger_ok C (ledger s i)"
  shows "source_authorization_events C s i = Inr (ledger s i)"
proof -
  have "event_rows s i = sort_key se_sequence (ledger s i)" by (simp add: event_rows_def ledger_def)
  then show ?thesis using assms
    by (auto simp: ledger_ok_def opens_def ends_def source_authorization_events_def)
qed

lemma ledger_last: "ledger_ok C es \<Longrightarrow> se_event_type (last es) = SourceGranted \<longleftrightarrow> (\<exists>g. opens C g \<and> es = [g])"
  by (auto simp: ledger_ok_def opens_def ends_def)

text \<open>Ledgers only grow, and a closed one stays as it is.\<close>

definition ledgers_grow :: "store \<Rightarrow> store \<Rightarrow> bool" where
  "ledgers_grow s s' \<longleftrightarrow> (\<forall>i. \<exists>more. ledger s' i = ledger s i @ more
    \<and> (ledger s i \<noteq> [] \<and> se_event_type (last (ledger s i)) \<noteq> SourceGranted \<longrightarrow> more = []))"

lemma ledgers_same: "st_source_events s' = st_source_events s \<Longrightarrow> ledgers_grow s s'"
  by (simp add: ledgers_grow_def ledger_def)

lemma ledgers_trans: "ledgers_grow s s1 \<Longrightarrow> ledgers_grow s1 s2 \<Longrightarrow> ledgers_grow s s2"
  unfolding ledgers_grow_def
proof
  fix i
  assume a: "\<forall>i. \<exists>more. ledger s1 i = ledger s i @ more
      \<and> (ledger s i \<noteq> [] \<and> se_event_type (last (ledger s i)) \<noteq> SourceGranted \<longrightarrow> more = [])"
    "\<forall>i. \<exists>more. ledger s2 i = ledger s1 i @ more
      \<and> (ledger s1 i \<noteq> [] \<and> se_event_type (last (ledger s1 i)) \<noteq> SourceGranted \<longrightarrow> more = [])"
  obtain m1 where m1: "ledger s1 i = ledger s i @ m1"
    "ledger s i \<noteq> [] \<and> se_event_type (last (ledger s i)) \<noteq> SourceGranted \<longrightarrow> m1 = []" using a(1) by blast
  obtain m2 where m2: "ledger s2 i = ledger s1 i @ m2"
    "ledger s1 i \<noteq> [] \<and> se_event_type (last (ledger s1 i)) \<noteq> SourceGranted \<longrightarrow> m2 = []" using a(2) by blast
  show "\<exists>more. ledger s2 i = ledger s i @ more
      \<and> (ledger s i \<noteq> [] \<and> se_event_type (last (ledger s i)) \<noteq> SourceGranted \<longrightarrow> more = [])"
    using m1 m2 by (intro exI[of _ "m1 @ m2"]) auto
qed

text \<open>What one terminal event does: it is chained to the grant of its source, it lists the pending tasks, and they fail.\<close>

definition closed_with :: "crypto \<Rightarrow> source_row \<Rightarrow> source_event_type \<Rightarrow> string \<Rightarrow> store \<Rightarrow> source_event \<Rightarrow> store \<Rightarrow> source_event \<Rightarrow> bool" where
  "closed_with C row kind now s e s' g \<longleftrightarrow> opens C g \<and> ends C g e \<and> ledger s (so_source_id row) = [g]
     \<and> (\<forall>i. ledger s' i = (if i = so_source_id row then [g, e] else ledger s i))
     \<and> st_sources s' = st_sources s \<and> st_source_events s' = st_source_events s @ [e] \<and> se_event_type e = kind
     \<and> se_source_id e = so_source_id row
     \<and> se_fail_closed_task_ids e = sort (map tk_task_id (sort_key (\<lambda>t. (tk_created_at t, tk_task_id t))
         (filter (pending_for (so_source_id row)) (st_tasks s))))
     \<and> st_tasks s' = st_tasks (snd (fail_pending_tasks_for_source (so_source_id row) (terminal_code kind) terminal_message now s))"

lemma append_terminal_ledger:
  assumes app: "append_terminal_source_authorization_event C new_id row kind actor_kind actor reason expected now s = Inr (e, s')"
    and row: "row \<in> set (st_sources s)" and kind: "kind \<noteq> SourceGranted" and texts: "list_all clean [new_id, actor, reason, now]"
    and ok: "sources_ok C s" and hex: "hex_digests C"
  shows "\<exists>g. closed_with C row kind now s e s' g"
  using app
proof (rule append_terminal_Inr)
  let ?i = "so_source_id row"
  have clean_row: "clean ?i" "clean (so_workspace_id row)" and led: "ledger_ok C (ledger s ?i)"
    using ok row by (auto simp: sources_ok_def)
  fix events
  assume ev: "source_authorization_events C s ?i = Inr events" "se_event_type (last events) = SourceGranted"
    and seal: "seal_source_authorization_event C
        \<lparr>se_event_id = new_id, se_source_id = ?i, se_workspace_id = so_workspace_id row,
         se_sequence = se_sequence (last events) + 1, se_event_type = kind, se_actor_kind = actor_kind,
         se_actor_id = actor, se_reason = reason, se_effective_at = now, se_created_at = now,
         se_previous_event_sha256 = Some (se_event_sha256 (last events)),
         se_fail_closed_task_ids = fst (fail_pending_tasks_for_source ?i (terminal_code kind)
           terminal_message now s), se_event_sha256 = []\<rparr> = Inr e"
    and s': "s' = (snd (fail_pending_tasks_for_source ?i (terminal_code kind) terminal_message now s))
       \<lparr>st_source_events := st_source_events s @ [e]\<rparr>"
  have "events = ledger s ?i" using ev(1) ledger_read[OF led] by simp
  then obtain g where g: "opens C g" "events = [g]" "ledger s ?i = [g]"
    using ledger_last[OF led] ev(2) by auto
  have "pred_option is_sha256 (Some (se_event_sha256 g))" using g(1) event_digest[of C g] by (simp add: opens_def)
  moreover have "list_all clean (fst (fail_pending_tasks_for_source ?i (terminal_code kind) terminal_message now s))"
    using ok by (auto simp: list_all_iff set_pending_ids sources_ok_def)
  ultimately have e: "se_sequence e = 2" "se_event_type e = kind" "se_source_id e = ?i"
    "se_previous_event_sha256 e = Some (se_event_sha256 g)" "source_authorization_event C e = Inr e"
    "se_fail_closed_task_ids e = sort (fst (fail_pending_tasks_for_source ?i (terminal_code kind) terminal_message now s))"
    using sealed_event[OF seal hex] clean_row texts g by (auto simp: opens_def)
  have src: "st_sources s' = st_sources s" and evs: "st_source_events s' = st_source_events s @ [e]"
    by (simp_all add: s' fail_pending_tasks_for_source_def Let_def)
  have "ends C g e" using e kind by (simp add: ends_def)
  moreover have "ledger s' i = (if i = ?i then [g, e] else ledger s i)" for i
    using g(3) by (simp add: ledger_def evs e(3))
  moreover have "se_fail_closed_task_ids e = sort (map tk_task_id (sort_key (\<lambda>t. (tk_created_at t, tk_task_id t))
        (filter (pending_for ?i) (st_tasks s))))" by (simp add: e(6) fail_pending_tasks_for_source_def Let_def)
  ultimately have "closed_with C row kind now s e s' g" using g src evs e(2,3) s' by (simp add: closed_with_def)
  then show ?thesis ..
qed

lemmas closed_withD = closed_with_def[THEN iffD1]

lemma closing_sources_ok:
  assumes "closing C clean s s'" and ok: "sources_ok C s" and hex: "hex_digests C"
  shows "sources_ok C s' \<and> ledgers_grow s s'"
  using assms(1)
proof cases
  case (close_source row kind new_id actor reason now actor_kind expected e)
  obtain g where cw: "closed_with C row kind now s e s' g"
    using append_terminal_ledger[OF close_source(4,1,2,3) ok hex] by blast
  note g = closed_withD[OF cw]
  have led: "ledger s' i = (if i = so_source_id row then [g, e] else ledger s i)" for i using g by blast
  have same: "st_sources s' = st_sources s" "st_source_events s' = st_source_events s @ [e]" "se_source_id e = so_source_id row"
    using g by simp_all
  have "ledger_ok C [g, e]" using g by (auto simp: ledger_ok_def)
  moreover have "task_ids s' = task_ids s" using closings_ids[OF r_into_rtranclp[of "closing C clean", OF assms(1)]] .
  ultimately have "sources_ok C s'" using ok close_source(1) by (auto simp: sources_ok_def same led)
  moreover have "ledgers_grow s s'" using g by (auto simp: ledgers_grow_def led opens_def)
  ultimately show ?thesis by blast
qed

lemma closings_sources_ok:
  assumes "closings C clean s s'" and "sources_ok C s" and "hex_digests C"
  shows "sources_ok C s' \<and> ledgers_grow s s'"
  using assms(1)
proof (induction rule: rtranclp_induct)
  case base
  then show ?case using assms(2) by (simp add: ledgers_same)
next
  case (step y z)
  then show ?case using closing_sources_ok[OF step(2) _ assms(3)] ledgers_trans by blast
qed

lemma granting_sources_ok:
  assumes "granting C clean s s'" and ok: "sources_ok C s" and hex: "hex_digests C"
  shows "sources_ok C s' \<and> ledgers_grow s s'"
  using assms(1)
proof cases
  case (grant_source row event_id actor now e)
  let ?i = "so_source_id row"
  have e: "se_sequence e = 1" "se_event_type e = SourceGranted" "se_source_id e = ?i"
      "se_previous_event_sha256 e = None" "source_authorization_event C e = Inr e"
    using sealed_event[OF grant_source(4) hex] grant_source(3) fixed_texts_clean(1) by auto
  have new: "?i \<notin> set (map so_source_id (st_sources s))"
    using grant_source(2) by (auto simp: find_source_def find_None_iff)
  have none: "ledger s ?i = []"
    unfolding ledger_def filter_empty_conv
  proof
    fix r assume "r \<in> set (st_source_events s)"
    then have "se_source_id r \<in> set (map so_source_id (st_sources s))" using ok by (simp add: sources_ok_def)
    then show "se_source_id r \<noteq> ?i" using new by metis
  qed
  have led: "ledger s' i = (if i = ?i then [e] else ledger s i)" for i
    using none by (simp add: grant_source(1) ledger_def e(3))
  have "ledger_ok C [e]" using e by (auto simp: ledger_ok_def opens_def)
  moreover have "ledgers_grow s s'" using none by (simp add: ledgers_grow_def led)
  ultimately show ?thesis using ok new grant_source(3) e(3)
    by (auto simp: sources_ok_def led) (auto simp: grant_source(1))
qed

text \<open>The migration finds nothing to do.\<close>

lemma seed_nothing:
  assumes "sources_ok C s" and "seed_legacy_authorization_events C fresh s = Inr s'"
  shows "s' = s"
proof -
  have "ledger s (so_source_id r) \<noteq> []" if "r \<in> set (st_sources s)" for r
    using assms(1) that by (auto simp: sources_ok_def ledger_ok_def)
  then have "list_ex (\<lambda>e. se_source_id e = so_source_id r) (st_source_events s)" if "r \<in> set (st_sources s)" for r
    using that by (auto simp: ledger_def filter_empty_conv list_ex_iff)
  then have "filter (\<lambda>r. workspace_exists s (so_workspace_id r)
      \<and> \<not> list_ex (\<lambda>e. se_source_id e = so_source_id r) (st_source_events s)) (st_sources s) = []"
    by (simp add: filter_empty_conv)
  then show ?thesis using assms(2) by (simp add: seed_legacy_authorization_events_def)
qed

text \<open>New tasks get the identifier the service passes.\<close>

lemma exec_new_ids:
  assumes "exec_store C J c s = Inr (u, s')" and "service_call c" and "list_all clean (task_ids s)"
  shows "list_all clean (task_ids s')"
  using exec_keeps[OF assms(1)] assms(2,3) by (cases c) (auto simp: keeps_def)

lemma exec_sources_ok:
  assumes ex: "exec_store C J c s = Inr (u, s')" and call: "service_call c" and ok: "sources_ok C s" and hex: "hex_digests C"
  shows "sources_ok C s' \<and> ledgers_grow s s'"
proof (cases "source_op c")
  case True
  then have "source_texts clean c" using call by (cases c) (auto simp: source_op_def)
  from source_op_effect[OF ex True this fixed_texts_clean(2)] show ?thesis
    using closings_sources_ok[OF _ ok hex] granting_sources_ok[OF _ ok hex] by blast
next
  case False
  show ?thesis
  proof (cases "is_SeedLegacy c")
    case True
    then have "s' = s" using ex seed_nothing[OF ok] by (cases c) auto
    then show ?thesis using ok by (simp add: ledgers_same)
  next
    case seed: False
    then have "st_sources s' = st_sources s" "st_source_events s' = st_source_events s"
      using exec_keeps[OF ex] False by (auto simp: keeps_def)
    then show ?thesis using ok exec_new_ids[OF ex call] by (auto simp: sources_ok_def ledger_def ledgers_same)
  qed
qed

lemma run_sources_ok:
  assumes "sources_ok C s" and "hex_digests C"
  shows "sources_ok C (run_service C J cs s) \<and> ledgers_grow s (run_service C J cs s)"
  using assms(1)
proof (induction cs arbitrary: s)
  case Nil
  then show ?case by (simp add: ledgers_same)
next
  case (Cons c cs)
  show ?case
  proof (cases "exec_service C J c s")
    case (Inl e)
    then show ?thesis using Cons by simp
  next
    case (Inr x)
    obtain s1 where x: "x = ((), s1)" by (cases x) simp
    then have "exec_store C J c s = Inr ((), s1)" "service_call c" using Inr by simp_all
    note s1 = exec_sources_ok[OF this Cons.prems assms(2)]
    then show ?thesis using Cons.IH[of s1] ledgers_trans[of s s1] Inr x by (simp del: exec_service_Inr)
  qed
qed

lemma empty_sources_ok: "sources_ok C empty_store"
  by (simp add: sources_ok_def empty_store_def)

lemmas reachable_sources_ok = run_sources_ok[OF empty_sources_ok, THEN conjunct1]

section \<open>Revocation\<close>

text \<open>Whether a source is overdue at a reading of the clock.\<close>

definition overdue :: "source_row \<Rightarrow> string \<Rightarrow> bool" where
  "overdue row now \<longleftrightarrow> (case so_authorization_valid_until row of None \<Rightarrow> False
     | Some v \<Rightarrow> (case (fromisoformat (replace_zulu v), fromisoformat (replace_zulu now)) of
         (Some deadline, Some observed) \<Rightarrow> deadline \<le> observed | _ \<Rightarrow> False))"

lemma expire_cases:
  assumes "expire_source_if_due C new_id now row s = Inr (x, s')"
  obtains "s' = s" "x = None" "overdue row now \<Longrightarrow>
      \<exists>es. source_authorization_events C s (so_source_id row) = Inr es \<and> se_event_type (last es) \<noteq> SourceGranted"
  | e events where "source_authorization_events C s (so_source_id row) = Inr events"
      "append_terminal_source_authorization_event C new_id row SourceExpired ''system'' ''system:authorization-expiry''
         ''The declared authorization validity window expired.'' (Some (se_event_sha256 (last events))) now s = Inr (e, s')"
  using assms by (auto simp: expire_source_if_due_def overdue_def split: option.splits if_splits)

lemma expiry_texts:
  assumes "clean (fst (tick i)) \<and> clean (snd (tick i))"
  shows "list_all clean [fst (tick i), ''system:authorization-expiry'',
    ''The declared authorization validity window expired.'', snd (tick i)]"
  using assms fixed_texts_clean(2) by (simp add: admits_expiry_def)

section \<open>A small history\<close>

text \<open>A store whose digests tell the first event of a ledger from the second.\<close>

definition ledger_crypto :: crypto where
  "ledger_crypto = toy_crypto\<lparr>
     dumps := (\<lambda>v. case v of JObj fs \<Rightarrow> (if map_of fs ''sequence'' = Some (JInt 1) then ''1'' else ''2'') | _ \<Rightarrow> ''doc''),
     sha256 := (\<lambda>b. if b = ''1'' then replicate 64 (CHR ''1'') else zero_sha)\<rparr>"

lemma ledger_hex_digests: "hex_digests ledger_crypto"
proof -
  have "is_sha256 zero_sha" "is_sha256 (replicate 64 (CHR ''1''))" by code_simp+
  then show ?thesis by (simp add: hex_digests_def ledger_crypto_def)
qed

definition demo_source :: "string option \<Rightarrow> source_row" where
  "demo_source valid_until = \<lparr>so_source_id = ''src1'', so_workspace_id = ''wsp_local_demo'', so_adapter_kind = ''omni_ad_30_release'',
     so_display_name = ''line 4'', so_root_path = ''/data'', so_root_path_sha256 = zero_sha, so_source_archive_sha256 = zero_sha,
     so_purpose = ''inspection'', so_rights_basis = ''owned'', so_residency = ''local'',
     so_authorization_valid_until = valid_until, so_redacted_receipt_retention_days = 30,
     so_derived_artifact_retention_days = 30, so_data_profile = JObj [], so_status = ''active'', so_created_at = ''t1''\<rparr>"

abbreviation demo_tick :: "string \<Rightarrow> string \<times> string" where
  "demo_tick \<equiv> \<lambda>_. (''evt_x'', ''2026-03-01T00:00:00.000Z'')"

definition demo_grant :: "string option \<Rightarrow> store_op list" where
  "demo_grant valid_until =
     [DefaultTenant ''t0'',
      AuthorizeSource demo_identity (''src1'', ''evt1'') ''t1'' demo_tick ''usr_local_demo'' (demo_source valid_until),
      CreateTask demo_identity ''task1'' ''t1'' ''usr_local_demo'' demo_request Industrial zero_sha None None None None]"

definition granted_store :: "string option \<Rightarrow> store" where
  "granted_store valid_until = fold (store_after ledger_crypto toy_codec) (demo_grant valid_until) empty_store"

abbreviation demo_revoke :: store_op where
  "demo_revoke \<equiv> RevokeSource demo_identity demo_tick ''evt2'' ''t2'' ''usr_local_demo'' ''src1'' ''withdrawn''
     (replicate 64 (CHR ''1''))"

definition revoked_store :: store where
  "revoked_store = store_after ledger_crypto toy_codec demo_revoke (granted_store None)"

definition expired_grant :: store where
  "expired_grant = granted_store (Some ''2026-02-01T00:00:00.000Z'')"

lemma demo_texts_clean: "clean ''src1''" "clean ''evt1''" "clean ''evt2''" "clean ''evt_x''" "clean ''t2''"
  "clean ''wsp_local_demo''" "clean ''withdrawn''" "clean ''2026-03-01T00:00:00.000Z''"
  by code_simp+

lemma demo_grant_calls: "list_all service_call (demo_grant v)"
  by (simp add: demo_grant_def demo_texts_clean demo_clean demo_request_def demo_source_def)

lemma granted_store_run: "granted_store v = run_service ledger_crypto toy_codec (demo_grant v) empty_store"
  by (simp add: granted_store_def run_service_fold demo_grant_calls)

lemmas expired_grant_run = granted_store_run[of "Some ''2026-02-01T00:00:00.000Z''", folded expired_grant_def]

lemma demo_revoke_call: "service_call demo_revoke"
  by (simp add: demo_texts_clean demo_clean)

section \<open>Properties\<close>

text \<open>C5: in every reachable store the ledger of a source verifies: it is a grant, or a grant and one terminal event chained to
  it. Later calls only append to it, and once it is closed nothing is ever appended, so a revoked or expired source
  never becomes active again. A receipt built over the ledger reports the status of its last event.\<close>

theorem source_ledger_is_final:
  assumes "hex_digests C" and "s = run_service C J cs empty_store" and "row \<in> set (st_sources s)"
  shows "\<exists>events. source_authorization_events C s (so_source_id row) = Inr events \<and> length events \<le> 2
    \<and> (\<exists>more. source_authorization_events C (run_service C J cs' s) (so_source_id row) = Inr (events @ more)
         \<and> (status_by_event (se_event_type (last events)) \<noteq> ''active'' \<longrightarrow> more = []))
    \<and> (\<forall>receipt. local_source_receipt row events = Inr receipt \<longrightarrow>
         sc_status receipt = status_by_event (se_event_type (last events)) \<and> sc_event_count receipt = length events)"
proof -
  let ?s' = "run_service C J cs' s" and ?i = "so_source_id row"
  have ok: "sources_ok C s" using reachable_sources_ok[OF assms(1)] by (simp add: assms(2))
  then have ok': "sources_ok C ?s'" and grow: "ledgers_grow s ?s'" using run_sources_ok[OF _ assms(1)] by auto
  have led: "ledger_ok C (ledger s ?i)" using ok assms(3) by (simp add: sources_ok_def)
  obtain more where more: "ledger ?s' ?i = ledger s ?i @ more"
    "ledger s ?i \<noteq> [] \<and> se_event_type (last (ledger s ?i)) \<noteq> SourceGranted \<longrightarrow> more = []"
    using grow by (auto simp: ledgers_grow_def)
  obtain e where e: "e \<in> set (st_source_events ?s')" "se_source_id e = ?i"
    using led more(1) by (auto simp: ledger_ok_def ledger_def filter_eq_Cons_iff) force+
  have "se_source_id e \<in> set (map so_source_id (st_sources ?s'))" using ok' e(1) unfolding sources_ok_def by blast
  then have "?i \<in> set (map so_source_id (st_sources ?s'))" by (simp only: e(2))
  then have led': "ledger_ok C (ledger ?s' ?i)" using ok' by (auto simp: sources_ok_def)
  have "length (ledger s ?i) \<le> 2" "ledger s ?i \<noteq> []" using led by (auto simp: ledger_ok_def)
  moreover have "status_by_event (se_event_type (last (ledger s ?i))) \<noteq> ''active'' \<longleftrightarrow>
      se_event_type (last (ledger s ?i)) \<noteq> SourceGranted"
    by (cases "se_event_type (last (ledger s ?i))") simp_all
  moreover have "\<forall>receipt. local_source_receipt row (ledger s ?i) = Inr receipt \<longrightarrow>
      sc_status receipt = status_by_event (se_event_type (last (ledger s ?i))) \<and> sc_event_count receipt = length (ledger s ?i)"
    by (auto simp: local_source_receipt_def Let_def)
  ultimately show ?thesis using ledger_read[OF led] ledger_read[OF led'] more by auto
qed

theorem source_ledger_is_final_witness:
  "\<exists>g. source_authorization_events ledger_crypto (granted_store None) ''src1'' = Inr [g]
     \<and> (\<exists>more. source_authorization_events ledger_crypto revoked_store ''src1'' = Inr (g # more))"
proof -
  have row: "(demo_source None)\<lparr>so_created_at := ''t1''\<rparr> \<in> set (st_sources (granted_store None))" by code_simp
  have run: "run_service ledger_crypto toy_codec [demo_revoke] (granted_store None) = revoked_store"
    using run_service_fold[of "[demo_revoke]"] demo_revoke_call by (simp add: revoked_store_def del: service_call.simps)
  have len: "length (case source_authorization_events ledger_crypto (granted_store None) ''src1'' of Inr es \<Rightarrow> es | Inl _ \<Rightarrow> []) = 1"
    by code_simp
  obtain es more where es: "source_authorization_events ledger_crypto (granted_store None) ''src1'' = Inr es"
      "source_authorization_events ledger_crypto revoked_store ''src1'' = Inr (es @ more)"
    using source_ledger_is_final[OF ledger_hex_digests granted_store_run row, where cs' = "[demo_revoke]", unfolded run]
    by (auto simp: demo_source_def)
  then show ?thesis using len by (auto simp: length_Suc_conv)
qed

text \<open>C6: a successful revocation fails exactly the pending tasks bound to the source, lists them in its event, and
  leaves the source revoked; no other task changes.\<close>

theorem revocation_closes_source:
  assumes "hex_digests C" and "s = run_service C J cs empty_store"
    and "service_call (RevokeSource idn tick new_id now actor source reason expected)"
    and "revoke_local_source_authorization C idn tick new_id now actor source reason expected s = Inr (e, s')"
  shows "list_all2 (\<lambda>t t'. if pending_for source t
        then tk_execution_status t' = TaskFailed \<and> tk_error_code t' = Some ''SOURCE_AUTHORIZATION_REVOKED''
          \<and> request_of t' = request_of t
        else t' = t) (st_tasks s) (st_tasks s')
    \<and> set (se_fail_closed_task_ids e) = {tk_task_id t | t. t \<in> set (st_tasks s) \<and> pending_for source t}
    \<and> (\<exists>g. source_authorization_events C s source = Inr [g] \<and> source_authorization_events C s' source = Inr [g, e])
    \<and> se_event_type e = SourceRevoked"
proof -
  have ok: "sources_ok C s" and plans: "plans_ok s"
    using reachable_sources_ok[OF assms(1)] reachable_plans_ok by (auto simp: assms(2))
  obtain row s1 where enter: "enter_source C idn tick (Some actor) source s = Inr (row, s1)"
    and app: "append_terminal_source_authorization_event C new_id row SourceRevoked ''operator'' actor reason
        (Some expected) now s1 = Inr (e, s')"
    using assms(4) by (auto simp: revoke_local_source_authorization_def)
  have tick: "\<And>i. clean (fst (tick i)) \<and> clean (snd (tick i))" and texts: "list_all clean [new_id, actor, reason, now]"
    using assms(3) by auto
  note c = enter_source_closings[OF enter tick fixed_texts_clean(2)]
  obtain x where ex: "expire_source_if_due C (fst (tick (so_source_id row))) (snd (tick (so_source_id row))) row s = Inr (x, s1)"
    using enter by (auto simp: enter_source_def)
  note ok1 = closings_sources_ok[OF c(1) ok assms(1)]
  have row1: "row \<in> set (st_sources s1)" using c(2) closings_sources[OF c(1)] by simp
  have src: "so_source_id row = source" by (rule c(3))
  obtain g where cw: "closed_with C row SourceRevoked now s1 e s' g"
    using append_terminal_ledger[OF app row1 _ texts conjunct1[OF ok1] assms(1)] by auto
  note d = closed_withD[OF cw]
  have g: "opens C g" "ends C g e" "ledger s1 source = [g]" "ledger s' source = [g, e]" "se_event_type e = SourceRevoked"
    and ids: "se_fail_closed_task_ids e = sort (map tk_task_id (sort_key (\<lambda>t. (tk_created_at t, tk_task_id t))
        (filter (pending_for source) (st_tasks s1))))"
    and tasks: "st_tasks s' = st_tasks (snd (fail_pending_tasks_for_source source (terminal_code SourceRevoked)
        terminal_message now s1))"
    using d by (simp_all add: src)
  have same: "s1 = s" using ex
  proof (cases rule: expire_cases)
    case (2 e2 events2)
    obtain g2 where "closed_with C row SourceExpired (snd (tick (so_source_id row))) s e2 s1 g2"
      using append_terminal_ledger[OF 2(2) c(2) _ expiry_texts[of tick, OF tick] ok assms(1)] by auto
    then have "ledger s1 source = [g2, e2]" using src by (simp add: closed_with_def)
    then show ?thesis using g(3) by simp
  qed simp
  have "ledger_ok C [g]" "ledger_ok C [g, e]" using g(1,2) by (auto simp: ledger_ok_def)
  then have reads: "source_authorization_events C s source = Inr [g]" "source_authorization_events C s' source = Inr [g, e]"
    using ledger_read g(3,4) by (auto simp: same)
  have dis: "distinct (task_ids s)" using plans by (simp add: plans_ok_def)
  have "list_all2 (\<lambda>t t'. if pending_for source t
        then tk_execution_status t' = TaskFailed \<and> tk_error_code t' = Some ''SOURCE_AUTHORIZATION_REVOKED''
          \<and> request_of t' = request_of t
        else t' = t) (st_tasks s) (st_tasks s')"
    unfolding tasks same fail_pending_tasks[OF dis]
    by (intro list_all2_map_refl) (simp add: request_of_def terminal_code_def)
  moreover have "set (se_fail_closed_task_ids e) = {tk_task_id t | t. t \<in> set (st_tasks s) \<and> pending_for source t}"
    by (auto simp: ids same)
  ultimately show ?thesis using reads g(5) by blast
qed

theorem revocation_closes_source_witness:
  "\<exists>e g. source_authorization_events ledger_crypto revoked_store ''src1'' = Inr [g, e]
     \<and> set (se_fail_closed_task_ids e) = {''task1''}"
proof -
  obtain e where e: "revoke_local_source_authorization ledger_crypto demo_identity demo_tick ''evt2'' ''t2'' ''usr_local_demo''
      ''src1'' ''withdrawn'' (replicate 64 (CHR ''1'')) (granted_store None) = Inr (e, revoked_store)"
  proof -
    have "case revoke_local_source_authorization ledger_crypto demo_identity demo_tick ''evt2'' ''t2'' ''usr_local_demo''
      ''src1'' ''withdrawn'' (replicate 64 (CHR ''1'')) (granted_store None) of Inr _ \<Rightarrow> True | Inl _ \<Rightarrow> False" by code_simp
    then show thesis using that by (auto simp: revoked_store_def store_after_def only_store_def split: sum.splits)
  qed
  have "{tk_task_id t | t. t \<in> set (st_tasks (granted_store None)) \<and> pending_for ''src1'' t}
      = set (map tk_task_id (filter (pending_for ''src1'') (st_tasks (granted_store None))))" by auto
  also have "map tk_task_id (filter (pending_for ''src1'') (st_tasks (granted_store None))) = [''task1'']" by code_simp
  finally show ?thesis
    using revocation_closes_source[OF ledger_hex_digests granted_store_run demo_revoke_call e] by auto
qed

text \<open>C37: the revocation of a source whose validity has passed is refused, and as its transaction is rolled back the
  expiry it had just recorded is lost with it: the store is as before and the pending tasks stay pending.\<close>

theorem overdue_revocation_is_lost:
  assumes "hex_digests C" and "s = run_service C J cs empty_store"
    and "service_call (RevokeSource idn tick new_id now actor source reason expected)"
    and "find_source s source = Some row" and "overdue row (snd (tick source))"
  shows "\<exists>m. exec_service C J (RevokeSource idn tick new_id now actor source reason expected) s = Inl m
    \<and> run_service C J [RevokeSource idn tick new_id now actor source reason expected] s = s"
proof -
  have ok: "sources_ok C s" using reachable_sources_ok[OF assms(1)] by (simp add: assms(2))
  have row: "row \<in> set (st_sources s)" "so_source_id row = source"
    using assms(4) by (auto simp: find_source_def find_Some_iff)
  have tick: "\<And>i. clean (fst (tick i)) \<and> clean (snd (tick i))" using assms(3) by auto
  have "append_terminal_source_authorization_event C new_id row SourceRevoked ''operator'' actor reason
      (Some expected) now s1 \<noteq> Inr y"
    if ex: "expire_source_if_due C (fst (tick source)) (snd (tick source)) row s = Inr (x, s1)" for x s1 y
  proof
    assume app: "append_terminal_source_authorization_event C new_id row SourceRevoked ''operator'' actor reason
      (Some expected) now s1 = Inr y"
    obtain es where es: "source_authorization_events C s1 source = Inr es" "se_event_type (last es) = SourceGranted"
      using app by (cases y) (auto simp: row(2) elim!: append_terminal_Inr)
    from ex show False
    proof (cases rule: expire_cases)
      case 1
      then show ?thesis using es assms(5) row(2) by auto
    next
      case (2 e events)
      obtain g where "closed_with C row SourceExpired (snd (tick source)) s e s1 g"
        using append_terminal_ledger[OF 2(2) row(1) _ expiry_texts[of tick, OF tick] ok assms(1)] by auto
      then have g: "opens C g" "ends C g e" "ledger s1 source = [g, e]" using row(2) by (simp_all add: closed_with_def)
      then have "ledger_ok C (ledger s1 source)" by (auto simp: ledger_ok_def)
      from ledger_read[OF this] g es show ?thesis by (simp add: ends_def)
    qed
  qed
  then have "exec_store C J (RevokeSource idn tick new_id now actor source reason expected) s \<noteq> Inr z" for z
    using row(2) by (cases z) (auto simp: revoke_local_source_authorization_def enter_source_def assms(4))
  then obtain m where "exec_service C J (RevokeSource idn tick new_id now actor source reason expected) s = Inl m"
    by (cases "exec_service C J (RevokeSource idn tick new_id now actor source reason expected) s") auto
  then show ?thesis by simp
qed

theorem overdue_revocation_is_lost_witness:
  "run_service ledger_crypto toy_codec [demo_revoke] expired_grant = expired_grant"
proof -
  have "find_source expired_grant ''src1'' = Some (demo_source (Some ''2026-02-01T00:00:00.000Z''))" by code_simp
  moreover have "overdue (demo_source (Some ''2026-02-01T00:00:00.000Z'')) (snd (demo_tick ''src1''))" by code_simp
  ultimately show ?thesis
    using overdue_revocation_is_lost[OF ledger_hex_digests expired_grant_run demo_revoke_call] by blast
qed

end
