(* ===== verification/Lineage_Safety.thy ===== *)
theory Lineage_Safety
  imports Source_Safety
begin

text \<open>
  Families of tasks in a reachable store: every edge is sealed over what its rows say, joins a child to a completed parent of
  the same contract, and points to the root of its family, and every row carries the digest of its request. So the lineage
  of every readable task can be projected, and the report over it never meets one of its integrity errors: it is refused
  only for a source binding that is no digest.
\<close>

section \<open>Rows as they are read\<close>

lemma task_of_row_texts:
  "tk_task_id (task_of_row r) = trim (tk_task_id r)" "tk_project_id (task_of_row r) = trim (tk_project_id r)"
  "tk_request_sha256 (task_of_row r) = trim (tk_request_sha256 r)"
  "tk_evidence_sha256 (task_of_row r) = map_option trim (tk_evidence_sha256 r)"
  "tk_execution_status (task_of_row r) = tk_execution_status r"
  "tk_scenario_profile (task_of_row r) = tk_scenario_profile r" "tk_source_kind (task_of_row r) = tk_source_kind r"
  "tk_allowed_tools (task_of_row r) = map trim (tk_allowed_tools r)" "tk_seed (task_of_row r) = tk_seed r"
  by (simp_all add: task_of_row_def)

text \<open>The contract of a row depends on its request only.\<close>

definition row_contract :: "crypto \<Rightarrow> task \<Rightarrow> string" where
  "row_contract C r = task_contract_sha256 C (task_of_row r)"

lemma row_contract_request: "request_of r' = request_of r \<Longrightarrow> row_contract C r' = row_contract C r"
  by (frule request_of_eqD(3), frule request_of_eqD(8), frule request_of_eqD(9), frule request_of_eqD(10),
      drule request_of_eqD(11)) (simp add: row_contract_def task_contract_sha256_def task_of_row_texts)

section \<open>The invariant\<close>

definition edge_of :: "lineage_edge list \<Rightarrow> string \<Rightarrow> lineage_edge option" where
  "edge_of es i = find (\<lambda>e. le_child_task_id e = i) es"

definition rows_ok :: "crypto \<Rightarrow> store \<Rightarrow> lineage_edge \<Rightarrow> bool" where
  "rows_ok C s e \<longleftrightarrow> (\<exists>child parent origin. find_task s (le_child_task_id e) = Some child
     \<and> find_task s (le_parent_task_id e) = Some parent \<and> find_task s (le_root_task_id e) = Some origin
     \<and> row_contract C child = le_contract_sha256 e \<and> row_contract C parent = le_contract_sha256 e
     \<and> row_contract C origin = le_contract_sha256 e \<and> tk_execution_status parent = TaskCompleted
     \<and> le_parent_request_sha256 e = tk_request_sha256 (task_of_row parent)
     \<and> Some (le_parent_evidence_sha256 e) = tk_evidence_sha256 (task_of_row parent))"

definition place_ok :: "lineage_edge list \<Rightarrow> lineage_edge \<Rightarrow> bool" where
  "place_ok es e \<longleftrightarrow> edge_of es (le_root_task_id e) = None
     \<and> (case edge_of es (le_parent_task_id e) of
          None \<Rightarrow> le_depth e = 1 \<and> le_root_task_id e = le_parent_task_id e
        | Some p \<Rightarrow> le_depth e = le_depth p + 1 \<and> le_root_task_id e = le_root_task_id p)"

definition lineage_ok :: "crypto \<Rightarrow> store \<Rightarrow> bool" where
  "lineage_ok C s \<longleftrightarrow> distinct (map le_child_task_id (st_lineage s))
     \<and> (\<forall>e\<in>set (st_lineage s). make_edge e = Inr e \<and> verify_task_lineage_edge C e \<and> rows_ok C s e \<and> place_ok (st_lineage s) e)"

lemma edge_of_Some: "distinct (map le_child_task_id es) \<Longrightarrow> edge_of es i = Some e \<longleftrightarrow> e \<in> set es \<and> le_child_task_id e = i"
  unfolding edge_of_def
  by (auto simp: find_Some_iff in_set_conv_nth nth_eq_iff_index_eq distinct_conv_nth)

lemma edge_of_None: "edge_of es i = None \<longleftrightarrow> i \<notin> set (map le_child_task_id es)"
  by (auto simp: edge_of_def find_None_iff)

lemma edge_of_append: "edge_of (es @ [e]) i
    = (case edge_of es i of Some p \<Rightarrow> Some p | None \<Rightarrow> if le_child_task_id e = i then Some e else None)"
  by (induction es) (auto simp: edge_of_def split: option.splits)

text \<open>Rows keep their request, and completed ones stay as they are.\<close>

definition rows_keep :: "store \<Rightarrow> store \<Rightarrow> bool" where
  "rows_keep s s' \<longleftrightarrow> (\<forall>i t. find_task s i = Some t \<longrightarrow> (\<exists>t'. find_task s' i = Some t' \<and> request_of t' = request_of t
     \<and> (tk_execution_status t = TaskCompleted \<longrightarrow> t' = t)))"

lemma rows_keepD:
  assumes "rows_keep s s'" and "find_task s i = Some t"
  obtains t' where "find_task s' i = Some t'" "row_contract C t' = row_contract C t"
    "tk_execution_status t = TaskCompleted \<Longrightarrow> t' = t"
  using assms row_contract_request unfolding rows_keep_def by blast

lemma rows_ok_keep:
  assumes "rows_ok C s e" and "rows_keep s s'"
  shows "rows_ok C s' e"
proof -
  obtain child parent origin where f: "find_task s (le_child_task_id e) = Some child"
    "find_task s (le_parent_task_id e) = Some parent" "find_task s (le_root_task_id e) = Some origin"
    and c: "row_contract C child = le_contract_sha256 e" "row_contract C parent = le_contract_sha256 e"
      "row_contract C origin = le_contract_sha256 e" "tk_execution_status parent = TaskCompleted"
      "le_parent_request_sha256 e = tk_request_sha256 (task_of_row parent)"
      "Some (le_parent_evidence_sha256 e) = tk_evidence_sha256 (task_of_row parent)"
    using assms(1) unfolding rows_ok_def by blast
  obtain child' where c': "find_task s' (le_child_task_id e) = Some child'" "row_contract C child' = row_contract C child"
    using rows_keepD[OF assms(2) f(1)] by metis
  obtain origin' where o': "find_task s' (le_root_task_id e) = Some origin'" "row_contract C origin' = row_contract C origin"
    using rows_keepD[OF assms(2) f(3)] by metis
  have "find_task s' (le_parent_task_id e) = Some parent" using rows_keepD[OF assms(2) f(2)] c(4) by metis
  then show ?thesis using c c' o' by (simp add: rows_ok_def)
qed

lemma exec_rows_keep:
  assumes "exec_store C J c s = Inr (u, s')" and "service_call c" and "plans_ok s"
  shows "rows_keep s s'"
  unfolding rows_keep_def
proof (intro allI impI)
  fix i t
  assume "find_task s i = Some t"
  from exec_task_step[OF assms this] obtain t' where t': "find_task s' i = Some t'" "evolves t t'"
    "settled (tk_execution_status t) \<longrightarrow> t' = t" by blast
  have "request_of t' = request_of t" using t'(2) by (auto simp: evolves_def)
  then show "\<exists>t'. find_task s' i = Some t' \<and> request_of t' = request_of t
     \<and> (tk_execution_status t = TaskCompleted \<longrightarrow> t' = t)" using t'(1,3) by (auto simp: settled_def)
qed

section \<open>A new edge\<close>

lemma make_edge_Inr: "make_edge raw = Inr e \<Longrightarrow> e = strip_edge raw"
  by (auto simp: make_edge_def Let_def)

lemma strip_edge_clean:
  "list_all clean [le_child_task_id e, le_parent_task_id e, le_root_task_id e, le_parent_request_sha256 e,
     le_parent_evidence_sha256 e, le_contract_sha256 e, le_created_by e, le_note e, le_created_at e, le_edge_sha256 e]
   \<Longrightarrow> strip_edge e = e"
  by (simp add: strip_edge_def clean_def)

lemma make_edge_texts:
  assumes "make_edge e = Inr e"
  shows "clean (le_child_task_id e)" "clean (le_parent_task_id e)" "clean (le_root_task_id e)"
proof -
  have "strip_edge e = e" using make_edge_Inr[OF assms] by simp
  then have "le_child_task_id e = trim (le_child_task_id e)" "le_parent_task_id e = trim (le_parent_task_id e)"
    "le_root_task_id e = trim (le_root_task_id e)"
    by (simp_all add: strip_edge_def) (metis lineage_edge.select_convs)+
  then show "clean (le_child_task_id e)" "clean (le_parent_task_id e)" "clean (le_root_task_id e)"
    by (simp_all add: clean_def)
qed

lemma lineage_parent_Inr:
  assumes "lineage_parent C rq profile w parent contract remark s = Inr (Some (p, edge))"
  obtains i row c n where "parent = Some i" "contract = Some c" "remark = Some n" "find_task s i = Some row"
    "p = task_of_row row" "tk_execution_status row = TaskCompleted" "opt_truthy (tk_evidence_sha256 p)"
    "task_contract_sha256 C p = c"
    "task_contract_sha256_from_values C (rq_project_id rq) profile (rq_source_kind rq) (rq_allowed_tools rq) (rq_seed rq) = c"
    "(case edge_of (st_lineage s) (tk_task_id p) of None \<Rightarrow> Inr None
       | Some r \<Rightarrow> rbind (lineage_edge_of_row C r) (\<lambda>e. Inr (Some e))) = Inr edge"
  using assms
  by (auto simp: lineage_parent_def Let_def edge_of_def task_of_row_texts opt_truthy_def split: option.splits)

lemma find_append: "find P (xs @ ys) = (case find P xs of None \<Rightarrow> find P ys | Some x \<Rightarrow> Some x)"
  by (induction xs) auto

text \<open>What the transaction of a re-verification leaves: a new planned row and its edge.\<close>

lemma new_edge_ok:
  assumes ok: "lineage_ok C s" and hex: "hex_digests C" and ids: "list_all clean (task_ids s)"
    and call: "service_call (CreateTask idn i now actor rq profile sha key parent contract remark)"
    and lp: "lineage_parent C rq profile w parent contract remark s = Inr (Some (p, edge))"
    and ins: "insert_task (new_task i now actor w rq profile sha key) s = Inr s1"
    and seal: "seal_task_lineage_edge C (child_edge i now actor p edge (case contract of None \<Rightarrow> [] | Some c \<Rightarrow> c)
         (case remark of None \<Rightarrow> [] | Some n \<Rightarrow> n)) = Inr e"
    and ins2: "insert_lineage e s1 = Inr s'"
  shows "make_edge e = Inr e \<and> verify_task_lineage_edge C e \<and> le_child_task_id e = i \<and> rows_ok C s' e
    \<and> place_ok (st_lineage s @ [e]) e"
proof -
  obtain pi row c n where par: "parent = Some pi" "contract = Some c" "remark = Some n" "find_task s pi = Some row"
    "p = task_of_row row" "tk_execution_status row = TaskCompleted" "opt_truthy (tk_evidence_sha256 p)"
    and con: "task_contract_sha256 C p = c"
      "task_contract_sha256_from_values C (rq_project_id rq) profile (rq_source_kind rq) (rq_allowed_tools rq) (rq_seed rq) = c"
    and edge: "(case edge_of (st_lineage s) (tk_task_id p) of None \<Rightarrow> Inr None
       | Some r \<Rightarrow> rbind (lineage_edge_of_row C r) (\<lambda>e. Inr (Some e))) = Inr edge"
    by (rule lineage_parent_Inr[OF lp]) (rule that; assumption)
  have row: "row \<in> set (st_tasks s)" "tk_task_id row = pi" using find_task_SomeD[OF par(4)] by auto
  then have pi: "clean pi" "tk_task_id p = pi" using ids par(5) by (auto simp: list_all_iff task_of_row_texts cleanD)
  have edge': "edge = edge_of (st_lineage s) pi"
    and old: "\<And>r. edge = Some r \<Longrightarrow> r \<in> set (st_lineage s) \<and> le_child_task_id r = pi"
  proof -
    have d: "distinct (map le_child_task_id (st_lineage s))" using ok by (simp add: lineage_ok_def)
    show e: "edge = edge_of (st_lineage s) pi"
    proof (cases "edge_of (st_lineage s) pi")
      case None
      then show ?thesis using edge pi(2) by simp
    next
      case (Some r)
      then have "make_edge r = Inr r" using ok by (simp add: edge_of_Some[OF d] lineage_ok_def)
      then show ?thesis using edge pi(2) Some by (auto simp: lineage_edge_of_row_def)
    qed
    show "edge = Some r \<Longrightarrow> r \<in> set (st_lineage s) \<and> le_child_task_id r = pi" for r
      using e edge_of_Some[OF d] by simp
  qed
  define raw where "raw = child_edge i now actor p edge c n"
  have root: "clean (le_root_task_id raw)"
    using pi old ok make_edge_texts(3) by (auto simp: raw_def child_edge_def lineage_ok_def split: option.split)
  have "clean c" using con(1) canonical_clean[OF hex] by (auto simp: task_contract_sha256_def task_contract_sha256_from_values_def)
  moreover have "clean (tk_request_sha256 p)" "\<And>d. tk_evidence_sha256 p = Some d \<Longrightarrow> clean d"
    by (auto simp: par(5) task_of_row_texts)
  ultimately have texts: "list_all clean [le_child_task_id raw, le_parent_task_id raw, le_root_task_id raw,
      le_parent_request_sha256 raw, le_parent_evidence_sha256 raw, le_contract_sha256 raw, le_created_by raw,
      le_note raw, le_created_at raw]"
    using root call par(3) pi
    by (auto simp: raw_def child_edge_def clean_def[of "[]"] trim_def split: option.split)
  let ?e = "raw\<lparr>le_edge_sha256 := canonical_json_sha C (lineage_payload raw)\<rparr>"
  have make: "make_edge ?e = Inr e" using seal by (simp add: seal_task_lineage_edge_def raw_def par)
  have "strip_edge ?e = ?e" by (rule strip_edge_clean) (use texts canonical_clean[OF hex] in simp)
  then have e: "e = ?e" using make_edge_Inr[OF make] by simp
  have me: "make_edge e = Inr e" using make e by simp
  have ver: "verify_task_lineage_edge C e" by (simp add: e verify_task_lineage_edge_def lineage_payload_def)
  have child: "le_child_task_id e = i" "le_parent_task_id e = pi" "le_contract_sha256 e = c"
    by (simp_all add: e raw_def child_edge_def pi(2))
  let ?new = "new_task i now actor w rq profile sha key"
  have fresh: "find_task s i = None" and tasks: "st_tasks s' = st_tasks s @ [?new]"
    and roots: "find_task s' (le_root_task_id e) \<noteq> None"
    using ins ins2 by (auto simp: insert_task_Inr insert_lineage_Inr new_task_def find_task_def)
  have keep: "find_task s' j = Some t" if "find_task s j = Some t" for j t
    using that by (auto simp: find_task_def tasks find_append)
  have new: "find_task s' i = Some ?new"
    using fresh by (simp add: find_task_def tasks find_append new_task_def)
  have newc: "row_contract C ?new = c"
  proof -
    have "map trim (rq_allowed_tools rq) = rq_allowed_tools rq"
      using call by (auto simp: list_all_iff cleanD intro!: map_idI)
    then show ?thesis using con(2) call
      by (simp add: row_contract_def task_contract_sha256_def task_of_row_texts new_task_def cleanD)
  qed
  have rowc: "row_contract C row = c" using con(1) by (simp add: row_contract_def par(5))
  have none: "le_child_task_id r \<noteq> i" if "r \<in> set (st_lineage s)" for r
    using ok that fresh by (auto simp: lineage_ok_def rows_ok_def)
  have origin: "\<exists>origin. find_task s (le_root_task_id e) = Some origin \<and> row_contract C origin = c
      \<and> edge_of (st_lineage s) (le_root_task_id e) = None"
  proof (cases edge)
    case None
    then show ?thesis using par(4) rowc edge' by (simp add: e raw_def child_edge_def pi(2))
  next
    case (Some r)
    then have r: "rows_ok C s r" "place_ok (st_lineage s) r" "le_child_task_id r = pi"
      using old ok by (auto simp: lineage_ok_def)
    then have "le_contract_sha256 r = c" using par(4) rowc by (auto simp: rows_ok_def)
    then show ?thesis using r(1,2) by (auto simp: rows_ok_def place_ok_def e raw_def child_edge_def Some)
  qed
  then have ne: "le_root_task_id e \<noteq> i" "pi \<noteq> i" using fresh par(4) by auto
  have "rows_ok C s' e"
    using origin keep new newc rowc keep[OF par(4)] par(5,6,7) child
    by (auto simp: rows_ok_def e raw_def child_edge_def opt_truthy_def task_of_row_texts split: option.splits)
  moreover have "place_ok (st_lineage s @ [e]) e"
    using origin ne edge' child
    by (auto simp: place_ok_def edge_of_append e raw_def child_edge_def pi(2) split: option.splits)
  ultimately show ?thesis using me ver child(1) by blast
qed

text \<open>Old edges stay in place.\<close>

lemma place_ok_append:
  assumes "place_ok es x" and "le_child_task_id e \<noteq> le_root_task_id x" and "le_child_task_id e \<noteq> le_parent_task_id x"
  shows "place_ok (es @ [e]) x"
  using assms by (auto simp: place_ok_def edge_of_append split: option.splits)

lemma exec_lineage_ok:
  assumes ex: "exec_store C J c s = Inr (u, s')" and call: "service_call c" and plans: "plans_ok s"
    and ids: "list_all clean (task_ids s)" and ok: "lineage_ok C s" and hex: "hex_digests C"
  shows "lineage_ok C s'"
proof -
  note keep = exec_rows_keep[OF ex call plans]
  have same: "lineage_ok C s'" if "st_lineage s' = st_lineage s"
    using ok rows_ok_keep[OF _ keep] by (auto simp: lineage_ok_def that)
  show ?thesis
  proof (cases "is_CreateTask c")
    case False
    then show ?thesis using exec_keeps[OF ex] by (intro same) (simp add: keeps_def)
  next
    case True
    then obtain idn i now actor rq profile sha key parent contract remark where
      c: "c = CreateTask idn i now actor rq profile sha key parent contract remark" by (cases c) auto
    obtain r where "create_task C idn i now actor rq profile sha key parent contract remark s = Inr (r, s')"
      using ex c by auto
    then show ?thesis
    proof (cases rule: create_task_effect)
      case (3 project s1 p edge e)
      note new = new_edge_ok[OF ok hex ids call[unfolded c] 3(2,3,4,5)]
      have fresh: "find_task s i = None" and lin: "st_lineage s' = st_lineage s @ [e]"
        using 3(3,5) by (auto simp: insert_task_Inr insert_lineage_Inr new_task_def)
      have other: "le_child_task_id x \<noteq> i \<and> le_root_task_id x \<noteq> i \<and> le_parent_task_id x \<noteq> i"
        if "x \<in> set (st_lineage s)" for x
        using ok that fresh by (auto simp: lineage_ok_def rows_ok_def)
      have "distinct (map le_child_task_id (st_lineage s'))" using ok new by (auto simp: lineage_ok_def lin) (metis other)
      moreover have "make_edge x = Inr x \<and> verify_task_lineage_edge C x \<and> rows_ok C s' x \<and> place_ok (st_lineage s') x"
        if x: "x \<in> set (st_lineage s')" for x
      proof (cases "x = e")
        case True
        then show ?thesis using new by (simp add: lin)
      next
        case False
        then have x: "x \<in> set (st_lineage s)" using x by (simp add: lin)
        then have "place_ok (st_lineage s @ [e]) x"
          using place_ok_append[of "st_lineage s" x e] ok other[OF x] new by (auto simp: lineage_ok_def)
        then show ?thesis using ok x rows_ok_keep[OF _ keep] by (simp add: lineage_ok_def lin)
      qed
      ultimately show ?thesis by (simp add: lineage_ok_def)
    qed (use ok same in auto)
  qed
qed

lemma run_lineage_ok:
  assumes "hex_digests C"
  shows "plans_ok s \<Longrightarrow> list_all clean (task_ids s) \<Longrightarrow> lineage_ok C s
    \<Longrightarrow> list_all clean (task_ids (run_service C J cs s)) \<and> lineage_ok C (run_service C J cs s)"
proof (induction cs arbitrary: s)
  case (Cons c cs)
  show ?case
  proof (cases "exec_service C J c s")
    case (Inr x)
    obtain s1 where x: "x = ((), s1)" by (cases x) simp
    then have ex: "exec_store C J c s = Inr ((), s1)" and call: "service_call c" using Inr by simp_all
    show ?thesis
      using Cons.IH[OF exec_plans_ok[OF ex call Cons.prems(1)] exec_new_ids[OF ex call Cons.prems(2)]
          exec_lineage_ok[OF ex call Cons.prems assms]] Inr
      by (simp add: x del: exec_service_Inr)
  qed (use Cons in simp)
qed simp

lemma reachable_lineage_ok:
  assumes "hex_digests C"
  shows "list_all clean (task_ids (run_service C J cs empty_store)) \<and> lineage_ok C (run_service C J cs empty_store)"
  by (rule run_lineage_ok[OF assms empty_plans_ok]) (simp_all add: empty_store_def lineage_ok_def)

section \<open>Digests of requests\<close>

definition requests_ok :: "store \<Rightarrow> bool" where
  "requests_ok s \<longleftrightarrow> list_all (\<lambda>t. is_sha256 (tk_request_sha256 t)) (st_tasks s)"

lemma exec_requests_ok:
  assumes ex: "exec_store C J c s = Inr (u, s')" and call: "service_call c" and plans: "plans_ok s" and ok: "requests_ok s"
  shows "requests_ok s'"
  unfolding requests_ok_def list_all_iff
proof
  fix t' assume t': "t' \<in> set (st_tasks s')"
  have ev: "tasks_evolve s s'" by (rule exec_tasks_evolve[OF ex]) (use plans in \<open>simp add: plans_ok_def\<close>)
  from ev t' show "is_sha256 (tk_request_sha256 t')"
  proof (cases rule: tasks_evolve_origin)
    case (1 t)
    then have "request_of t' = request_of t" by (auto simp: evolves_def)
    then show ?thesis using request_of_eqD(5)[of t' t] 1(1) ok by (simp add: requests_ok_def list_all_iff)
  next
    case 2
    then have "task_ids s' \<noteq> task_ids s" using t' by (metis imageI list.set_map)
    then obtain i where i: "added_task c = Some i" using exec_keeps[OF ex] by (auto simp: keeps_def)
    have old: "t' \<notin> set (st_tasks s)" using 2(2) by auto
    from i show ?thesis
    proof (cases c)
      case (CreateTask idn i now actor rq profile sha key parent contract remark)
      then obtain r where "create_task C idn i now actor rq profile sha key parent contract remark s = Inr (r, s')"
        using ex by auto
      then show ?thesis
      proof (cases rule: create_task_effect)
        case (2 project)
        then show ?thesis using t' old call CreateTask by (auto simp: insert_task_Inr new_task_def)
      next
        case (3 project s1 p edge e)
        then show ?thesis using t' old call CreateTask by (auto simp: insert_task_Inr insert_lineage_Inr new_task_def)
      qed (use t' old in simp)
    next
      case (RecoverTask idn new_id now actor i rq owner_sha sha)
      then obtain r where "recover_owned_task_execution C idn new_id now actor i rq owner_sha sha s = Inr (r, s')"
        using ex by auto
      then show ?thesis
      proof (cases rule: recover_effect)
        case (2 row w)
        from 2(6) have "st_tasks (s'\<lparr>st_recoveries := st_recoveries s\<rparr>) = map (\<lambda>t. if tk_task_id t = i
            then interrupted now t else t) (st_tasks s) @ [replacement_task new_id now actor sha (task_of_row row)]"
          by (simp add: insert_task_Inr update_tasks_def)
        then show ?thesis using t' call RecoverTask ok
          by (auto simp: interrupted_def replacement_task_def new_task_def requests_ok_def list_all_iff)
      qed (use t' old in simp)
    qed simp_all
  qed
qed

lemma reachable_requests_ok: "requests_ok (run_service C J cs empty_store)"
proof -
  have "plans_ok s \<Longrightarrow> requests_ok s \<Longrightarrow> requests_ok (run_service C J cs s)" for s
  proof (induction cs arbitrary: s)
    case (Cons c cs)
    show ?case
    proof (cases "exec_service C J c s")
      case (Inr x)
      obtain s1 where x: "x = ((), s1)" by (cases x) simp
      then have ex: "exec_store C J c s = Inr ((), s1)" and call: "service_call c" using Inr by simp_all
      show ?thesis
        using Cons.IH[OF exec_plans_ok[OF ex call Cons.prems(1)] exec_requests_ok[OF ex call Cons.prems]] Inr
        by (simp add: x del: exec_service_Inr)
    qed (use Cons in simp)
  qed simp
  from this[OF empty_plans_ok] show ?thesis by (simp add: requests_ok_def empty_store_def)
qed

section \<open>The projection\<close>

definition family_root :: "store \<Rightarrow> string \<Rightarrow> string" where
  "family_root s i = (case edge_of (st_lineage s) i of None \<Rightarrow> i | Some e \<Rightarrow> le_root_task_id e)"

definition family_rows :: "store \<Rightarrow> string \<Rightarrow> task list" where
  "family_rows s r = sort_key (\<lambda>t. (tk_created_at t, tk_task_id t)) (filter (\<lambda>t. tk_task_id t = r
     \<or> list_ex (\<lambda>e. le_root_task_id e = r \<and> le_child_task_id e = tk_task_id t) (st_lineage s)) (st_tasks s))"

definition family_edges :: "store \<Rightarrow> string \<Rightarrow> lineage_edge list" where
  "family_edges s r = sort_key (\<lambda>e. (le_depth e, le_created_at e, le_child_task_id e))
     (filter (\<lambda>e. le_root_task_id e = r) (st_lineage s))"

lemma get_task_lineage_total:
  assumes ok: "lineage_ok C s" and ids: "list_all clean (task_ids s)" and "get_task idn actor i s = Inr t"
  shows "get_task_lineage C idn actor i s
      = Inr (map task_of_row (family_rows s (family_root s i)), family_edges s (family_root s i))"
    and "t \<in> set (map task_of_row (family_rows s (family_root s i)))"
proof -
  obtain row where row: "find_task s i = Some row" "assert_active_in_connection idn actor = Inr ()"
    "is_member s (tk_workspace_id row) actor" "t = task_of_row row"
    using assms(3) by (auto simp: get_task_def)
  have r: "row \<in> set (st_tasks s)" "tk_task_id row = i" using find_task_SomeD[OF row(1)] by auto
  have d: "distinct (map le_child_task_id (st_lineage s))" using ok by (simp add: lineage_ok_def)
  have "tk_task_id row = family_root s i \<or> (\<exists>e\<in>set (st_lineage s). le_root_task_id e = family_root s i \<and> le_child_task_id e = i)"
  proof (cases "edge_of (st_lineage s) i")
    case (Some e)
    then show ?thesis using edge_of_Some[OF d, of i e] by (auto simp: family_root_def)
  qed (simp add: family_root_def r)
  then have mem: "row \<in> set (family_rows s (family_root s i))" using r by (auto simp: family_rows_def list_ex_iff)
  then show "t \<in> set (map task_of_row (family_rows s (family_root s i)))" using row(4) by simp
  have "tk_task_id (task_of_row row) = i" using ids r by (auto simp: list_all_iff task_of_row_texts cleanD)
  then have focus: "i \<in> set (map (tk_task_id \<circ> task_of_row) (family_rows s (family_root s i)))" using mem by force
  have edges: "rmap (lineage_edge_of_row C) (family_edges s (family_root s i)) = Inr (family_edges s (family_root s i))"
    using ok rmap_pure[of "family_edges s (family_root s i)" "lineage_edge_of_row C" id]
    by (simp add: family_edges_def lineage_ok_def lineage_edge_of_row_def)
  show "get_task_lineage C idn actor i s
      = Inr (map task_of_row (family_rows s (family_root s i)), family_edges s (family_root s i))"
    using row(1,2,3) edges focus
    by (simp add: get_task_lineage_def Let_def family_root_def[symmetric] family_rows_def[symmetric]
        family_edges_def[symmetric] edge_of_def[symmetric])
qed

section \<open>The report\<close>

lemma filter_single:
  assumes "distinct xs" and "x \<in> set xs" and "P x" and "\<And>y. y \<in> set xs \<Longrightarrow> P y \<Longrightarrow> y = x"
  shows "filter P xs = [x]"
proof -
  have "filter P xs = filter (\<lambda>y. y = x) xs" using assms(3,4) by (intro filter_cong) auto
  also have "\<dots> = [x]" using assms(1,2) by (induction xs) (auto simp: filter_empty_conv)
  finally show ?thesis .
qed

lemma edge_by_child_of: "distinct (map le_child_task_id es) \<Longrightarrow> edge_by_child es i = Some e \<longleftrightarrow> e \<in> set es \<and> le_child_task_id e = i"
  using edge_of_Some[of "rev es" i e] by (simp add: edge_by_child_def edge_of_def rev_map[symmetric])

lemma find_key: "distinct (map f xs) \<Longrightarrow> x \<in> set xs \<Longrightarrow> find (\<lambda>y. f y = f x) xs = Some x"
proof (induction xs)
  case (Cons a xs)
  show ?case
  proof (cases "x = a")
    case False
    then have "x \<in> set xs" using Cons.prems(2) by simp
    moreover from this have "f a \<noteq> f x" using Cons.prems(1) by auto
    ultimately show ?thesis using Cons by simp
  qed simp
qed simp

lemma task_by_id_of: "distinct (map tk_task_id ts) \<Longrightarrow> t \<in> set ts \<Longrightarrow> task_by_id ts (tk_task_id t) = Some t"
  unfolding task_by_id_def by (rule find_key) (simp_all add: rev_map[symmetric])

lemma family_rows_iff: "t \<in> set (family_rows s r) \<longleftrightarrow> t \<in> set (st_tasks s)
    \<and> (tk_task_id t = r \<or> (\<exists>e\<in>set (st_lineage s). le_root_task_id e = r \<and> le_child_task_id e = tk_task_id t))"
  by (auto simp: family_rows_def list_ex_iff)

lemma family_edges_iff: "e \<in> set (family_edges s r) \<longleftrightarrow> e \<in> set (st_lineage s) \<and> le_root_task_id e = r"
  by (auto simp: family_edges_def)

text \<open>A member of a family is its root, or has one edge, to a completed parent in the family.\<close>

lemma member_cases:
  assumes ok: "lineage_ok C s" and dis: "distinct (task_ids s)" and row: "row \<in> set (family_rows s r)"
  obtains "tk_task_id row = r" "edge_by_child (family_edges s r) (tk_task_id row) = None"
  | e parent where "edge_by_child (family_edges s r) (tk_task_id row) = Some e" "tk_task_id row \<noteq> r"
      "parent \<in> set (family_rows s r)" "tk_task_id parent = le_parent_task_id e" "tk_execution_status parent = TaskCompleted"
      "row_contract C row = le_contract_sha256 e" "row_contract C parent = le_contract_sha256 e" "le_root_task_id e = r"
      "le_parent_request_sha256 e = tk_request_sha256 (task_of_row parent)"
      "Some (le_parent_evidence_sha256 e) = tk_evidence_sha256 (task_of_row parent)" "verify_task_lineage_edge C e"
      "le_depth e = (case edge_by_child (family_edges s r) (tk_task_id parent) of None \<Rightarrow> 1 | Some p \<Rightarrow> le_depth p + 1)"
      "\<exists>origin. find_task s r = Some origin \<and> row_contract C origin = le_contract_sha256 e"
proof -
  let ?es = "family_edges s r"
  have d: "distinct (map le_child_task_id (st_lineage s))" using ok by (simp add: lineage_ok_def)
  then have de: "distinct (map le_child_task_id ?es)" by (simp add: family_edges_def distinct_map inj_on_def)
  note by_child = edge_by_child_of[OF de]
  show thesis
  proof (cases "edge_by_child ?es (tk_task_id row)")
    case None
    have "tk_task_id row = r"
    proof (rule ccontr)
      assume "tk_task_id row \<noteq> r"
      then obtain e where "e \<in> set ?es" "le_child_task_id e = tk_task_id row"
        using row by (auto simp: family_rows_iff family_edges_iff)
      then have "edge_by_child ?es (tk_task_id row) = Some e" by (simp add: by_child)
      then show False using None by simp
    qed
    then show thesis using None that(1) by blast
  next
    case (Some e)
    then have e: "e \<in> set (st_lineage s)" "le_root_task_id e = r" "le_child_task_id e = tk_task_id row"
      using by_child by (auto simp: family_edges_iff)
    have eo: "rows_ok C s e" "place_ok (st_lineage s) e" "verify_task_lineage_edge C e"
      using ok e(1) by (auto simp: lineage_ok_def)
    obtain child parent origin where f: "find_task s (tk_task_id row) = Some child"
      "find_task s (le_parent_task_id e) = Some parent" "find_task s r = Some origin"
      and c: "row_contract C child = le_contract_sha256 e" "row_contract C parent = le_contract_sha256 e"
        "row_contract C origin = le_contract_sha256 e" "tk_execution_status parent = TaskCompleted"
        "le_parent_request_sha256 e = tk_request_sha256 (task_of_row parent)"
        "Some (le_parent_evidence_sha256 e) = tk_evidence_sha256 (task_of_row parent)"
      using eo(1) unfolding rows_ok_def e(2,3) by blast
    have child: "child = row" using find_task_unique[OF dis f(1), of row] row by (simp add: family_rows_iff)
    have "edge_of (st_lineage s) r = None" using eo(2) by (simp add: place_ok_def e(2))
    then have ne: "tk_task_id row \<noteq> r" using e(1) by (auto simp: edge_of_None e(3)[symmetric])
    note p = find_task_SomeD[OF f(2)]
    have "parent \<in> set (family_rows s r) \<and> le_depth e
        = (case edge_by_child ?es (tk_task_id parent) of None \<Rightarrow> 1 | Some p \<Rightarrow> le_depth p + 1)"
    proof (cases "edge_of (st_lineage s) (le_parent_task_id e)")
      case None
      then have root: "r = le_parent_task_id e" "le_depth e = 1" using eo(2) e(2) by (auto simp: place_ok_def)
      have "edge_by_child ?es (le_parent_task_id e) \<noteq> Some x" for x
        using None edge_of_Some[OF d, of "le_parent_task_id e" x] by (auto simp: by_child family_edges_iff)
      then have "edge_by_child ?es (le_parent_task_id e) = None" by (meson not_None_eq)
      then show ?thesis using root p by (simp add: family_rows_iff)
    next
      case (Some pe)
      then have "le_root_task_id pe = r" "le_depth e = le_depth pe + 1" using eo(2) e(2) by (auto simp: place_ok_def)
      moreover have "pe \<in> set (st_lineage s)" "le_child_task_id pe = le_parent_task_id e" using Some edge_of_Some[OF d] by auto
      ultimately have "edge_by_child ?es (le_parent_task_id e) = Some pe" "le_depth e = le_depth pe + 1"
        "parent \<in> set (family_rows s r)" using p by (auto simp: by_child family_edges_iff family_rows_iff)
      then show ?thesis using p by simp
    qed
    then show thesis using that(2)[OF Some ne, of parent] c p e(2) eo(3) f(3) by (simp add: child)
  qed
qed

text \<open>So every node passes the checks on its edge, and is refused only for its source binding.\<close>

definition source_bound :: "(string \<times> string) list \<Rightarrow> task \<Rightarrow> bool" where
  "source_bound bindings t \<longleftrightarrow> (case source_binding bindings t of None \<Rightarrow> True | Some d \<Rightarrow> is_sha256 (trim d))"

lemma node_checks:
  assumes ok: "lineage_ok C s" and dis: "distinct (task_ids s)" and ids: "list_all clean (task_ids s)"
    and row: "row \<in> set (family_rows s r)" and origin: "find_task s r = Some origin" "origin \<in> set (family_rows s r)"
  shows "\<exists>edge. lineage_node_of C bindings focus (map task_of_row (family_rows s r)) (family_edges s r) r
      (row_contract C origin) (task_of_row row)
        = make_lineage_node focus (task_of_row row) edge (source_binding bindings (task_of_row row))
    \<and> edge = edge_by_child (family_edges s r) (tk_task_id row)
    \<and> (if tk_task_id row = r then edge = None
       else \<exists>e. \<exists>parent\<in>set (family_rows s r). edge = Some e \<and> le_parent_task_id e = tk_task_id parent
         \<and> tk_execution_status parent = TaskCompleted
         \<and> le_depth e = (case edge_by_child (family_edges s r) (tk_task_id parent) of None \<Rightarrow> 0 | Some p \<Rightarrow> le_depth p) + 1)"
proof -
  have id: "tk_task_id (task_of_row x) = tk_task_id x" if "x \<in> set (family_rows s r)" for x
    using that ids by (auto simp: family_rows_iff list_all_iff task_of_row_texts cleanD)
  have ts: "distinct (map tk_task_id (map task_of_row (family_rows s r)))"
  proof -
    have "map tk_task_id (map task_of_row (family_rows s r)) = map tk_task_id (family_rows s r)" using id by simp
    then show ?thesis using dis by (simp add: family_rows_def distinct_map_filter distinct_map inj_on_def)
  qed
  from ok dis row show ?thesis
  proof (cases rule: member_cases)
    case 1
    then have "row = origin" using find_task_unique[OF dis origin(1)] row by (simp add: family_rows_iff)
    then show ?thesis using 1 id[OF row] by (simp add: lineage_node_of_def row_contract_def Let_def)
  next
    case (2 e parent)
    have parent: "task_by_id (map task_of_row (family_rows s r)) (le_parent_task_id e) = Some (task_of_row parent)"
      using task_by_id_of[OF ts, of "task_of_row parent"] 2(3,4) id[OF 2(3)] by simp
    have "check_edge C (map task_of_row (family_rows s r)) (family_edges s r) r (row_contract C origin) e = Inr ()"
      using parent 2(8,9,11,12,13) 2(10)[symmetric] origin(1) id[OF 2(3)] by (simp add: check_edge_def)
    then show ?thesis using 2(1,2,3,5,6,12,13) 2(4)[symmetric] id[OF row] origin(1)
      by (auto simp: lineage_node_of_def row_contract_def Let_def split: option.split)
  qed
qed

lemma node_total:
  assumes ok: "lineage_ok C s" and dis: "distinct (task_ids s)" and ids: "list_all clean (task_ids s)"
    and req: "requests_ok s" and bound: "source_bound bindings (task_of_row row)"
    and row: "row \<in> set (family_rows s r)" and origin: "find_task s r = Some origin" "origin \<in> set (family_rows s r)"
  shows "\<exists>n. lineage_node_of C bindings focus (map task_of_row (family_rows s r)) (family_edges s r) r
      (row_contract C origin) (task_of_row row) = Inr n \<and> ln_task n = task_of_row row
    \<and> ln_source_binding_sha256 n = map_option trim (source_binding bindings (task_of_row row))
    \<and> ln_depth n = (case edge_by_child (family_edges s r) (tk_task_id row) of None \<Rightarrow> 0 | Some e \<Rightarrow> le_depth e)
    \<and> (if tk_task_id row = r then ln_parent_task_id n = None \<and> ln_depth n = 0
       else \<exists>parent\<in>set (family_rows s r). ln_parent_task_id n = Some (tk_task_id parent)
         \<and> tk_execution_status parent = TaskCompleted
         \<and> ln_depth n = (case edge_by_child (family_edges s r) (tk_task_id parent) of None \<Rightarrow> 0 | Some p \<Rightarrow> le_depth p) + 1)"
proof -
  have "row \<in> set (st_tasks s)" using row by (simp add: family_rows_iff)
  then have sha: "is_sha256 (tk_request_sha256 row)" using req by (simp add: requests_ok_def list_all_iff)
  have "length (tk_request_sha256 (task_of_row row)) = 64"
    using sha cleanD[OF sha256_clean[OF sha]] by (simp add: task_of_row_texts is_sha256_def)
  then have made: "make_lineage_node focus (task_of_row row) edge (source_binding bindings (task_of_row row))
      = Inr \<lparr>ln_task = task_of_row row, ln_parent_task_id = map_option le_parent_task_id edge,
           ln_depth = (case edge of None \<Rightarrow> 0 | Some e \<Rightarrow> le_depth e),
           ln_source_binding_sha256 = map_option trim (source_binding bindings (task_of_row row)),
           ln_is_focus = (tk_task_id (task_of_row row) = focus)\<rparr>" for edge
    using bound by (simp add: make_lineage_node_def source_bound_def Let_def split: option.splits)
  from node_checks[OF ok dis ids row origin, of bindings focus] obtain edge where
    edge: "edge = edge_by_child (family_edges s r) (tk_task_id row)"
    and node: "lineage_node_of C bindings focus (map task_of_row (family_rows s r)) (family_edges s r) r
      (row_contract C origin) (task_of_row row)
        = make_lineage_node focus (task_of_row row) edge (source_binding bindings (task_of_row row))"
    and place: "if tk_task_id row = r then edge = None
       else \<exists>e. \<exists>parent\<in>set (family_rows s r). edge = Some e \<and> le_parent_task_id e = tk_task_id parent
         \<and> tk_execution_status parent = TaskCompleted
         \<and> le_depth e = (case edge_by_child (family_edges s r) (tk_task_id parent) of None \<Rightarrow> 0 | Some p \<Rightarrow> le_depth p) + 1"
    by (elim exE conjE)
  show ?thesis
  proof (cases "tk_task_id row = r")
    case True
    then show ?thesis using place node made edge by simp
  next
    case False
    then obtain e parent where e: "edge = Some e" "parent \<in> set (family_rows s r)" "le_parent_task_id e = tk_task_id parent"
      "tk_execution_status parent = TaskCompleted"
      "le_depth e = (case edge_by_child (family_edges s r) (tk_task_id parent) of None \<Rightarrow> 0 | Some p \<Rightarrow> le_depth p) + 1"
      using place by auto
    then show ?thesis unfolding node made using False edge by (auto intro!: bexI[of _ parent])
  qed
qed

lemma node_refused:
  assumes "\<not> source_bound bindings t"
  shows "make_lineage_node focus t edge (source_binding bindings t) = Inl NodeConstraint"
  using assms by (simp add: make_lineage_node_def source_bound_def Let_def split: option.splits)

text \<open>The report starts from the one member without an edge.\<close>

lemma family_origin:
  assumes ok: "lineage_ok C s" and dis: "distinct (task_ids s)" and ids: "list_all clean (task_ids s)"
    and i: "find_task s i = Some row"
  defines "r \<equiv> family_root s i"
  obtains origin where "find_task s r = Some origin" "origin \<in> set (family_rows s r)" "tk_task_id (task_of_row origin) = r"
    "filter (\<lambda>t. edge_by_child (family_edges s r) (tk_task_id t) = None) (map task_of_row (family_rows s r))
       = [task_of_row origin]"
proof -
  let ?rows = "family_rows s r" and ?es = "family_edges s r"
  let ?ts = "map task_of_row ?rows"
  have d: "distinct (map le_child_task_id (st_lineage s))" using ok by (simp add: lineage_ok_def)
  have "\<exists>origin. find_task s r = Some origin \<and> edge_of (st_lineage s) r = None"
  proof (cases "edge_of (st_lineage s) i")
    case (Some e)
    then have "rows_ok C s e" "place_ok (st_lineage s) e" using ok by (auto simp: edge_of_Some[OF d] lineage_ok_def)
    then show ?thesis using Some by (auto simp: r_def family_root_def rows_ok_def place_ok_def)
  qed (use i in \<open>simp add: r_def family_root_def\<close>)
  then obtain origin where o: "find_task s r = Some origin" "edge_of (st_lineage s) r = None" by blast
  have om: "origin \<in> set ?rows" "tk_task_id origin = r" using find_task_SomeD[OF o(1)] by (auto simp: family_rows_iff)
  have id: "tk_task_id (task_of_row x) = tk_task_id x" if "x \<in> set ?rows" for x
    using that ids by (auto simp: family_rows_iff list_all_iff task_of_row_texts cleanD)
  have same: "x = y" if "x \<in> set ?rows" "y \<in> set ?rows" "tk_task_id x = tk_task_id y" for x y
    using that dis by (auto simp: family_rows_iff distinct_map inj_on_def)
  have none: "edge_by_child ?es r = None"
  proof (rule ccontr)
    assume "edge_by_child ?es r \<noteq> None"
    then obtain e where "e \<in> set ?es" "le_child_task_id e = r" by (auto simp: edge_by_child_def find_Some_iff)
      (metis nth_mem length_rev set_rev)
    then show False using o(2) by (auto simp: family_edges_iff edge_of_None)
  qed
  have "inj_on task_of_row (set ?rows)"
  proof (rule inj_onI)
    fix x y
    assume xy: "x \<in> set ?rows" "y \<in> set ?rows" "task_of_row x = task_of_row y"
    then have "tk_task_id x = tk_task_id y" using id[OF xy(1)] id[OF xy(2)] by simp
    then show "x = y" by (rule same[OF xy(1,2)])
  qed
  moreover have "distinct ?rows" using dis by (simp add: family_rows_def distinct_map)
  ultimately have dts: "distinct ?ts" by (simp add: distinct_map)
  have first: "filter (\<lambda>t. edge_by_child ?es (tk_task_id t) = None) ?ts = [task_of_row origin]"
  proof (rule filter_single[OF dts])
    show "task_of_row origin \<in> set ?ts" using om by simp
    show "edge_by_child ?es (tk_task_id (task_of_row origin)) = None" using none om id by simp
    fix t assume t: "t \<in> set ?ts" "edge_by_child ?es (tk_task_id t) = None"
    then obtain x where x: "x \<in> set ?rows" "t = task_of_row x" by auto
    from ok dis x(1) have "tk_task_id x = r" by (cases rule: member_cases) (use t(2) x id in auto)
    then show "t = task_of_row origin" using same[OF x(1) om(1)] om(2) x(2) by simp
  qed
  show thesis using that[OF o(1) om(1) _ first] id[OF om(1)] om(2) by simp
qed

lemma contract_length: "hex_digests C \<Longrightarrow> length (row_contract C r) = 64"
  using canonical_clean by (auto simp: row_contract_def task_contract_sha256_def task_contract_sha256_from_values_def is_sha256_def)

lemma rmap_refused: "(\<And>x. x \<in> set xs \<Longrightarrow> f x = Inl e \<or> (\<exists>y. f x = Inr y)) \<Longrightarrow> \<exists>x\<in>set xs. f x = Inl e \<Longrightarrow> rmap f xs = Inl e"
proof (induction xs)
  case (Cons x xs)
  show ?case
  proof (cases "f x = Inl e")
    case False
    then obtain y where "f x = Inr y" using Cons.prems(1)[of x] by auto
    moreover have "rmap f xs = Inl e" using Cons.IH Cons.prems False by auto
    ultimately show ?thesis by simp
  qed simp
qed simp

lemma report_refused:
  assumes ok: "lineage_ok C s" and dis: "distinct (task_ids s)" and ids: "list_all clean (task_ids s)"
    and req: "requests_ok s" and i: "find_task s i = Some row"
  defines "r \<equiv> family_root s i"
  assumes unbound: "t \<in> set (map task_of_row (family_rows s r))" "\<not> source_bound bindings t"
  shows "build_task_lineage_report C bindings i (map task_of_row (family_rows s r)) (family_edges s r) = Inl NodeConstraint"
proof -
  let ?ts = "map task_of_row (family_rows s r)"
  obtain origin where o: "find_task s r = Some origin" "origin \<in> set (family_rows s r)" "tk_task_id (task_of_row origin) = r"
    and first: "filter (\<lambda>t. edge_by_child (family_edges s r) (tk_task_id t) = None) ?ts = [task_of_row origin]"
    using family_origin[OF ok dis ids i] by (auto simp: r_def)
  let ?f = "lineage_node_of C bindings i ?ts (family_edges s r) r (row_contract C origin)"
  have f: "if source_bound bindings (task_of_row x) then \<exists>n. ?f (task_of_row x) = Inr n
      else ?f (task_of_row x) = Inl NodeConstraint"
    if "x \<in> set (family_rows s r)" for x
    using node_checks[OF ok dis ids that o(1,2), of bindings i] node_total[OF ok dis ids req _ that o(1,2), of bindings i]
      node_refused[of bindings "task_of_row x" i] by (cases "source_bound bindings (task_of_row x)") auto
  have "rmap ?f ?ts = Inl NodeConstraint"
  proof (rule rmap_refused)
    fix y assume "y \<in> set ?ts"
    then obtain x where "x \<in> set (family_rows s r)" "y = task_of_row x" by auto
    then show "?f y = Inl NodeConstraint \<or> (\<exists>n. ?f y = Inr n)" using f[of x] by (metis (lifting))
  next
    obtain x where "x \<in> set (family_rows s r)" "t = task_of_row x" using unbound(1) by auto
    then show "\<exists>x\<in>set ?ts. ?f x = Inl NodeConstraint" using f[of x] unbound by (intro bexI[of _ t]) simp_all
  qed
  moreover have "task_contract_sha256 C (task_of_row origin) = row_contract C origin" by (simp add: row_contract_def)
  moreover have "?ts \<noteq> []" using o(2) by auto
  ultimately show ?thesis using o(3) by (simp add: build_task_lineage_report_def first)
qed

lemma report_total:
  assumes ok: "lineage_ok C s" and dis: "distinct (task_ids s)" and ids: "list_all clean (task_ids s)"
    and req: "requests_ok s" and hex: "hex_digests C" and i: "find_task s i = Some row"
  defines "r \<equiv> family_root s i"
  assumes bound: "\<forall>t\<in>set (map task_of_row (family_rows s r)). source_bound bindings t"
  obtains rep where "build_task_lineage_report C bindings i (map task_of_row (family_rows s r)) (family_edges s r) = Inr rep"
    "lr_root_task_id rep = r" "set (map ln_task (lr_nodes rep)) = task_of_row ` set (family_rows s r)"
    "\<forall>n\<in>set (lr_nodes rep). ln_source_binding_sha256 n = map_option trim (source_binding bindings (ln_task n))"
    "\<forall>n\<in>set (lr_nodes rep). if tk_task_id (ln_task n) = r then ln_parent_task_id n = None \<and> ln_depth n = 0
       else \<exists>m\<in>set (lr_nodes rep). ln_parent_task_id n = Some (tk_task_id (ln_task m))
         \<and> tk_execution_status (ln_task m) = TaskCompleted \<and> ln_depth n = ln_depth m + 1"
proof -
  let ?rows = "family_rows s r" and ?es = "family_edges s r"
  let ?ts = "map task_of_row ?rows"
  obtain origin where o: "find_task s r = Some origin" "origin \<in> set ?rows" "tk_task_id (task_of_row origin) = r"
    and first: "filter (\<lambda>t. edge_by_child ?es (tk_task_id t) = None) ?ts = [task_of_row origin]"
    using family_origin[OF ok dis ids i] by (auto simp: r_def)
  have id: "tk_task_id (task_of_row x) = tk_task_id x" if "x \<in> set ?rows" for x
    using that ids by (auto simp: family_rows_iff list_all_iff task_of_row_texts cleanD)
  let ?f = "lineage_node_of C bindings i ?ts ?es r (row_contract C origin)"
  define g where "g x = projr (?f (task_of_row x))" for x
  have g: "?f (task_of_row x) = Inr (g x)" "ln_task (g x) = task_of_row x"
      "ln_source_binding_sha256 (g x) = map_option trim (source_binding bindings (task_of_row x))"
      "ln_depth (g x) = (case edge_by_child ?es (tk_task_id x) of None \<Rightarrow> 0 | Some e \<Rightarrow> le_depth e)"
      "if tk_task_id x = r then ln_parent_task_id (g x) = None \<and> ln_depth (g x) = 0
       else \<exists>parent\<in>set ?rows. ln_parent_task_id (g x) = Some (tk_task_id parent)
         \<and> tk_execution_status parent = TaskCompleted
         \<and> ln_depth (g x) = (case edge_by_child ?es (tk_task_id parent) of None \<Rightarrow> 0 | Some p \<Rightarrow> le_depth p) + 1"
    if "x \<in> set ?rows" for x
    using node_total[OF ok dis ids req _ that o(1,2), of bindings i] bound that by (auto simp: g_def)
  have nodes: "rmap ?f ?ts = Inr (map g ?rows)"
    using rmap_pure[of ?rows "\<lambda>x. ?f (task_of_row x)" g] g(1) by (simp add: rmap_Inr_conv list_all2_map1)
  obtain rep where rep: "build_task_lineage_report C bindings i ?ts ?es = Inr rep" "lr_root_task_id rep = r"
    "set (lr_nodes rep) = g ` set ?rows"
  proof -
    have "task_contract_sha256 C (task_of_row origin) = row_contract C origin" by (simp add: row_contract_def)
    moreover have "?ts \<noteq> []" using o(2) by auto
    ultimately show thesis using that contract_length[OF hex, of origin] o(3)
      by (simp add: build_task_lineage_report_def first nodes Let_def)
  qed
  show thesis
  proof (rule that[OF rep(1,2)])
    show "set (map ln_task (lr_nodes rep)) = task_of_row ` set ?rows" using g(2) rep(3) by (auto simp: image_iff)
    show "\<forall>n\<in>set (lr_nodes rep). ln_source_binding_sha256 n = map_option trim (source_binding bindings (ln_task n))"
      using g(2,3) rep(3) by auto
    show "\<forall>n\<in>set (lr_nodes rep). if tk_task_id (ln_task n) = r then ln_parent_task_id n = None \<and> ln_depth n = 0
       else \<exists>m\<in>set (lr_nodes rep). ln_parent_task_id n = Some (tk_task_id (ln_task m))
         \<and> tk_execution_status (ln_task m) = TaskCompleted \<and> ln_depth n = ln_depth m + 1"
    proof
      fix n assume "n \<in> set (lr_nodes rep)"
      then obtain x where x: "x \<in> set ?rows" "n = g x" using rep(3) by auto
      show "if tk_task_id (ln_task n) = r then ln_parent_task_id n = None \<and> ln_depth n = 0
         else \<exists>m\<in>set (lr_nodes rep). ln_parent_task_id n = Some (tk_task_id (ln_task m))
           \<and> tk_execution_status (ln_task m) = TaskCompleted \<and> ln_depth n = ln_depth m + 1"
      proof (cases "tk_task_id x = r")
        case True
        then show ?thesis using g(2,5)[OF x(1)] id[OF x(1)] x(2) by simp
      next
        case False
        then obtain parent where "parent \<in> set ?rows" "ln_parent_task_id n = Some (tk_task_id parent)"
          "tk_execution_status parent = TaskCompleted"
          "ln_depth n = (case edge_by_child ?es (tk_task_id parent) of None \<Rightarrow> 0 | Some p \<Rightarrow> le_depth p) + 1"
          using g(5)[OF x(1)] x(2) by auto
        then have "g parent \<in> set (lr_nodes rep)" "ln_parent_task_id n = Some (tk_task_id (ln_task (g parent)))"
          "tk_execution_status (ln_task (g parent)) = TaskCompleted" "ln_depth n = ln_depth (g parent) + 1"
          using rep(3) g(2,4)[of parent] id[of parent] by (auto simp: task_of_row_texts)
        then show ?thesis using False g(2)[OF x(1)] id[OF x(1)] x(2) by auto
      qed
    qed
  qed
qed

section \<open>Property\<close>

text \<open>C7: in every reachable store the lineage of a task an actor may read can be projected, and the report over it meets none of
  its integrity errors. If every source binding handed to it is a digest or absent, it is built: it lists the family once,
  its root has depth 0 and no parent, and every other node is one level below a completed parent in the report. Otherwise
  the node model refuses the binding, and nothing else is refused.\<close>

theorem lineage_report_is_total:
  assumes "hex_digests C" and "s = run_service C J cs empty_store" and "get_task idn actor i s = Inr t"
  shows "\<exists>ts es. get_task_lineage C idn actor i s = Inr (ts, es) \<and> t \<in> set ts
    \<and> (if \<forall>m\<in>set ts. source_bound bindings m
       then \<exists>rep. build_task_lineage_report C bindings i ts es = Inr rep \<and> set (map ln_task (lr_nodes rep)) = set ts
         \<and> (\<forall>n\<in>set (lr_nodes rep). ln_source_binding_sha256 n = map_option trim (source_binding bindings (ln_task n)))
         \<and> (\<forall>n\<in>set (lr_nodes rep). if tk_task_id (ln_task n) = lr_root_task_id rep
              then ln_parent_task_id n = None \<and> ln_depth n = 0
              else \<exists>m\<in>set (lr_nodes rep). ln_parent_task_id n = Some (tk_task_id (ln_task m))
                \<and> tk_execution_status (ln_task m) = TaskCompleted \<and> ln_depth n = ln_depth m + 1)
       else build_task_lineage_report C bindings i ts es = Inl NodeConstraint)"
proof -
  let ?ts = "map task_of_row (family_rows s (family_root s i))" and ?es = "family_edges s (family_root s i)"
  have ids: "list_all clean (task_ids s)" and ok: "lineage_ok C s" and dis: "distinct (task_ids s)" and req: "requests_ok s"
    using reachable_lineage_ok[OF assms(1)] reachable_plans_ok reachable_requests_ok by (auto simp: assms(2) plans_ok_def)
  obtain row where row: "find_task s i = Some row" using assms(3) by (auto simp: get_task_def)
  note lin = get_task_lineage_total[OF ok ids assms(3)]
  show ?thesis
  proof (cases "\<forall>m\<in>set ?ts. source_bound bindings m")
    case False
    then obtain m where "m \<in> set ?ts" "\<not> source_bound bindings m" by blast
    from report_refused[OF ok dis ids req row this]
    have "build_task_lineage_report C bindings i ?ts ?es = Inl NodeConstraint" .
    then show ?thesis using False lin by (intro exI[of _ ?ts] exI[of _ ?es]) (simp only: if_False simp_thms)
  next
    case True
    show ?thesis
    proof (rule report_total[OF ok dis ids req assms(1) row True])
      fix rep
      assume rep: "build_task_lineage_report C bindings i ?ts ?es = Inr rep" "lr_root_task_id rep = family_root s i"
        "set (map ln_task (lr_nodes rep)) = task_of_row ` set (family_rows s (family_root s i))"
        "\<forall>n\<in>set (lr_nodes rep). ln_source_binding_sha256 n = map_option trim (source_binding bindings (ln_task n))"
        and nodes: "\<forall>n\<in>set (lr_nodes rep). if tk_task_id (ln_task n) = family_root s i
          then ln_parent_task_id n = None \<and> ln_depth n = 0
          else \<exists>m\<in>set (lr_nodes rep). ln_parent_task_id n = Some (tk_task_id (ln_task m))
           \<and> tk_execution_status (ln_task m) = TaskCompleted \<and> ln_depth n = ln_depth m + 1"
      have all: "(\<forall>m\<in>set ?ts. source_bound bindings m) = True" using True by simp
      show ?thesis
        by (rule exI[of _ ?ts], rule exI[of _ ?es], unfold all if_True, intro conjI exI[of _ rep] lin rep(1,4) nodes[folded rep(2)])
          (use rep(3) in simp)
    qed
  qed
qed

definition demo_child :: store_op where
  "demo_child = CreateTask demo_identity ''task2'' ''t7'' ''usr_local_demo'' demo_request Industrial zero_sha None
     (Some ''task1'') (Some zero_sha) (Some ''recheck'')"

definition family_store :: store where
  "family_store = fold (store_after toy_crypto toy_codec) (demo_start @ demo_done @ [demo_child]) empty_store"

lemma family_store_run: "family_store = run_service toy_crypto toy_codec (demo_start @ demo_done @ [demo_child]) empty_store"
proof -
  have "clean ''task2''" "clean ''t7''" "clean ''recheck''" by code_simp+
  then have "service_call demo_child" by (simp add: demo_child_def demo_clean demo_request_def)
  then show ?thesis using demo_calls by (simp add: family_store_def run_service_fold del: service_call.simps)
qed

definition demo_bindings :: "string \<Rightarrow> (string \<times> string) list" where
  "demo_bindings digest = [(''src1'', digest)]"

theorem lineage_report_is_total_witness:
  "\<exists>ts es rep. get_task_lineage toy_crypto demo_identity ''usr_local_demo'' ''task2'' family_store = Inr (ts, es)
     \<and> map tk_task_id ts = [''task1'', ''task2''] \<and> map le_depth es = [1]
     \<and> build_task_lineage_report toy_crypto (demo_bindings zero_sha) ''task2'' ts es = Inr rep
     \<and> build_task_lineage_report toy_crypto (demo_bindings ''none'') ''task2'' ts es = Inl NodeConstraint"
proof -
  have "case get_task demo_identity ''usr_local_demo'' ''task2'' family_store of Inr _ \<Rightarrow> True | Inl _ \<Rightarrow> False" by code_simp
  then obtain t where t: "get_task demo_identity ''usr_local_demo'' ''task2'' family_store = Inr t" by (auto split: sum.splits)
  have "case get_task_lineage toy_crypto demo_identity ''usr_local_demo'' ''task2'' family_store of Inl _ \<Rightarrow> False
      | Inr (ts, es) \<Rightarrow> map tk_task_id ts = [''task1'', ''task2''] \<and> map le_depth es = [1]
          \<and> list_all (source_bound (demo_bindings zero_sha)) ts
          \<and> \<not> list_all (source_bound (demo_bindings ''none'')) ts" by code_simp
  then show ?thesis
    using lineage_report_is_total[OF toy_hex_digests family_store_run t, of "demo_bindings zero_sha"]
      lineage_report_is_total[OF toy_hex_digests family_store_run t, of "demo_bindings ''none''"]
    by (auto simp: list_all_iff)
qed

end
