(* ===== verification/Recovery_Safety.thy ===== *)
theory Recovery_Safety
  imports Lineage_Safety
begin

text \<open>
  Recovery of an interrupted execution and reconciliation of the event log: what one successful call does to every row, and
  that repeating it changes nothing.
\<close>

section \<open>What later calls keep\<close>

lemma run_service_rel:
  assumes refl: "\<And>s. R s s" and trans: "\<And>s s1 s2. R s s1 \<Longrightarrow> R s1 s2 \<Longrightarrow> R s s2"
    and step: "\<And>c s u s'. exec_store C J c s = Inr (u, s') \<Longrightarrow> service_call c \<Longrightarrow> plans_ok s \<Longrightarrow> R s s'"
  shows "plans_ok s \<Longrightarrow> R s (run_service C J cs s)"
proof (induction cs arbitrary: s)
  case (Cons c cs)
  show ?case
  proof (cases "exec_service C J c s")
    case (Inr x)
    obtain s1 where x: "x = ((), s1)" by (cases x) simp
    then have ex: "exec_store C J c s = Inr ((), s1)" and call: "service_call c" using Inr by simp_all
    have "R s1 (run_service C J cs s1)" by (rule Cons.IH[OF exec_plans_ok[OF ex call Cons.prems]])
    then have "R s (run_service C J cs s1)" by (rule trans[OF step[OF ex call Cons.prems]])
    then show ?thesis using Inr by (simp add: x del: exec_service_Inr)
  qed (use Cons in simp)
qed (simp add: refl)

definition receipts_keep :: "store \<Rightarrow> store \<Rightarrow> bool" where
  "receipts_keep s s' \<longleftrightarrow> (\<forall>w a. is_member s w a \<longrightarrow> is_member s' w a)
     \<and> (\<forall>i r. map_of (st_recoveries s) i = Some r \<longrightarrow> map_of (st_recoveries s') i = Some r) \<and> rows_keep s s'"

lemma exec_members:
  assumes "exec_store C J c s = Inr (u, s')"
  shows "\<exists>more. st_members s' = st_members s @ more"
proof (cases "is_CreateWorkspace c \<or> is_DefaultTenant c")
  case True
  then show ?thesis using assms
    by (cases c) (auto simp: tenancy_frame_def dest!: default_tenant_frame create_workspace_frame)
qed (use exec_keeps[OF assms] in \<open>simp add: keeps_def\<close>)

lemma exec_recoveries:
  assumes "exec_store C J c s = Inr (u, s')"
  shows "\<exists>more. st_recoveries s' = st_recoveries s @ more"
proof (cases "is_RecoverTask c")
  case True
  then obtain idn new_id now actor i rq owner_sha sha r where
    "recover_owned_task_execution C idn new_id now actor i rq owner_sha sha s = Inr (r, s')"
    using assms by (cases c) auto
  then show ?thesis by (cases rule: recover_effect) auto
qed (use exec_keeps[OF assms] in \<open>simp add: keeps_def\<close>)

lemma rows_keep_trans:
  assumes "rows_keep s s1" and "rows_keep s1 s2"
  shows "rows_keep s s2"
  unfolding rows_keep_def
proof (intro allI impI)
  fix i t
  assume "find_task s i = Some t"
  then obtain t1 where 1: "find_task s1 i = Some t1" "request_of t1 = request_of t" "tk_execution_status t = TaskCompleted \<longrightarrow> t1 = t"
    using assms(1) unfolding rows_keep_def by blast
  then obtain t2 where "find_task s2 i = Some t2" "request_of t2 = request_of t1" "tk_execution_status t1 = TaskCompleted \<longrightarrow> t2 = t1"
    using assms(2) unfolding rows_keep_def by blast
  then show "\<exists>t'. find_task s2 i = Some t' \<and> request_of t' = request_of t \<and> (tk_execution_status t = TaskCompleted \<longrightarrow> t' = t)"
    using 1 by (intro exI[of _ t2]) auto
qed

lemma run_receipts_keep:
  assumes "plans_ok s"
  shows "receipts_keep s (run_service C J cs s)"
  using assms
proof (rule run_service_rel[rotated 3])
  fix c s u s'
  assume ex: "exec_store C J c s = Inr (u, s')" and call: "service_call c" and ok: "plans_ok s"
  show "receipts_keep s s'"
    using exec_members[OF ex] exec_recoveries[OF ex] exec_rows_keep[OF ex call ok]
    by (auto simp: receipts_keep_def is_member_def map_of_append map_add_def split: option.split)
next
  show "receipts_keep s s" for s by (auto simp: receipts_keep_def rows_keep_def)
  show "receipts_keep s s1 \<Longrightarrow> receipts_keep s1 s2 \<Longrightarrow> receipts_keep s s2" for s s1 s2
    using rows_keep_trans by (auto simp: receipts_keep_def)
qed

section \<open>Sealed receipts\<close>

lemma sealed_receipt:
  assumes seal: "seal_recovery_receipt C raw = Inr r" and hex: "hex_digests C"
    and texts: "list_all clean [rv_task_id raw, rv_workspace_id raw, rv_project_id raw, rv_replacement_task_id raw,
       rv_original_snapshot_sha256 raw, rv_failed_task_snapshot_sha256 raw, rv_replacement_task_snapshot_sha256 raw,
       rv_reviewer_identity raw, rv_note raw, rv_recovered_by raw, rv_recovered_at raw]"
  shows "r = raw\<lparr>rv_receipt_sha256 := canonical_json_sha C (recovery_payload raw)\<rparr>" and "verify_recovery_receipt C r = Inr ()"
proof -
  have z: "clean zero_sha" by (rule demo_clean(2))
  have make: "x = y" if "make_recovery y = Inr x" and "rv_receipt_sha256 y = d" and "clean d"
     and "y = raw\<lparr>rv_receipt_sha256 := d\<rparr>" for x y d
    using that texts by (auto simp: make_recovery_def Let_def cleanD)
  obtain p where p: "make_recovery (raw\<lparr>rv_receipt_sha256 := zero_sha\<rparr>) = Inr p"
    and r: "make_recovery (p\<lparr>rv_receipt_sha256 := canonical_json_sha C (recovery_payload p)\<rparr>) = Inr r"
    using seal by (auto simp: seal_recovery_receipt_def)
  have pe: "p = raw\<lparr>rv_receipt_sha256 := zero_sha\<rparr>" using make[OF p _ z] by simp
  have pay: "recovery_payload (x\<lparr>rv_receipt_sha256 := d\<rparr>) = recovery_payload x" for x d
    by (simp add: recovery_payload_def)
  show re: "r = raw\<lparr>rv_receipt_sha256 := canonical_json_sha C (recovery_payload raw)\<rparr>"
    using make[OF r _ conjunct2[OF canonical_clean[OF hex]]] by (simp add: pe pay)
  show "verify_recovery_receipt C r = Inr ()" by (simp add: re verify_recovery_receipt_def pay)
qed

section \<open>Property\<close>

text \<open>C8: a first recovery fails exactly the interrupted task, adds one planned replacement of the same request that needs a
  new approval, and its receipt verifies; after any later history the same request returns this receipt again and changes
  nothing.\<close>

theorem recovery_replaces_once:
  assumes "hex_digests C" and "s = run_service C J cs empty_store"
    and "service_call (RecoverTask idn new_id now actor i rq owner_sha sha)"
    and "recover_owned_task_execution C idn new_id now actor i rq owner_sha sha s = Inr (receipt, s')"
    and "map_of (st_recoveries s) i = None"
  shows "\<exists>row failed fresh. find_task s i = Some row \<and> tk_execution_status row \<in> {TaskRunning, TaskVerifying}
    \<and> st_tasks s' = map (\<lambda>t. if tk_task_id t = i then failed else t) (st_tasks s) @ [fresh]
    \<and> request_of failed = request_of row \<and> tk_execution_status failed = TaskFailed
    \<and> tk_error_code failed = Some ''interrupted_confirmed''
    \<and> tk_task_id fresh = new_id \<and> tk_execution_status fresh = TaskPlanned \<and> tk_plan_approval_required fresh
    \<and> row_contract C fresh = row_contract C row \<and> tk_goal fresh = trim (tk_goal row)
    \<and> tk_source_id fresh = map_option trim (tk_source_id row)
    \<and> verify_recovery_receipt C receipt = Inr ()
    \<and> recover_owned_task_execution C idn new_id' now' actor i rq owner_sha' sha' (run_service C J cs' s')
        = Inr (receipt, run_service C J cs' s')"
  using assms(4)
proof (cases rule: recover_effect)
  case 1
  then show ?thesis using assms(5) by simp
next
  case (2 row w)
  let ?s2 = "run_service C J cs' s'"
  have plans: "plans_ok s" and ids: "list_all clean (task_ids s)"
    using reachable_plans_ok reachable_lineage_ok[OF assms(1)] by (auto simp: assms(2))
  have ex: "exec_store C J (RecoverTask idn new_id now actor i rq owner_sha sha) s = Inr ((), s')" using assms(4) by simp
  have member: "assert_active_in_connection idn actor = Inr ()" "is_member s (tk_workspace_id row) actor"
    using assms(4) 2(1) by (auto simp: recover_owned_task_execution_def)
  have mem: "row \<in> set (st_tasks s)" "tk_task_id row = i" using find_task_SomeD[OF 2(1)] by auto
  have snap: "clean (task_snapshot_sha256 C t)" for t
    using assms(1) by (simp add: task_snapshot_sha256_def dumps_sha_def hex_digests_def sha256_clean)
  have "clean i" using ids mem by (auto simp: list_all_iff)
  then have texts: "list_all clean [i, tk_workspace_id (task_of_row row), tk_project_id (task_of_row row), new_id,
      rr_expected_snapshot_sha256 rq, task_snapshot_sha256 C (task_of_row (interrupted now row)),
      task_snapshot_sha256 C (task_of_row (replacement_task new_id now actor sha (task_of_row row))),
      rr_reviewer_identity rq, rr_note rq, actor, now]"
    using assms(3) snap by (simp add: 2(4)[symmetric]) (simp add: task_of_row_def)
  note sealed = sealed_receipt[OF 2(8) assms(1)]
  have ver: "verify_recovery_receipt C receipt = Inr ()" by (rule sealed(2)) (use texts in simp)
  have same: "rv_original_snapshot_sha256 receipt = rr_expected_snapshot_sha256 rq" "rv_recovered_by receipt = actor"
    "rv_reviewer_identity receipt = rr_reviewer_identity rq" "rv_note receipt = rr_note rq"
    using sealed(1) texts by simp_all
  have tasks: "st_tasks s' = map (\<lambda>t. if tk_task_id t = i then interrupted now t else t) (st_tasks s)
        @ [replacement_task new_id now actor sha (task_of_row row)]"
    using 2(6) by (auto simp: insert_task_Inr update_tasks_def dest: arg_cong[of _ _ st_tasks])
  have first: "map_of (st_recoveries s') i = Some receipt" using assms(5) by (simp add: 2(7) map_add_def)
  have plans': "plans_ok s'" by (rule exec_plans_ok[OF ex assms(3) plans])
  note keep = run_receipts_keep[OF plans', of C J cs']
  obtain row1 where row1: "find_task s' i = Some row1" "request_of row1 = request_of row"
    using exec_rows_keep[OF ex assms(3) plans] 2(1) unfolding rows_keep_def by blast
  then obtain row2 where row2: "find_task ?s2 i = Some row2" "request_of row2 = request_of row1"
    using keep unfolding receipts_keep_def rows_keep_def by blast
  have "is_member s' (tk_workspace_id row) actor"
    using exec_members[OF ex] member(2) by (auto simp: is_member_def)
  then have "is_member ?s2 (tk_workspace_id row2) actor"
    using keep request_of_eqD(2)[OF row1(2)] request_of_eqD(2)[OF row2(2)] by (simp add: receipts_keep_def)
  moreover have "map_of (st_recoveries ?s2) i = Some receipt" using keep first by (simp add: receipts_keep_def)
  ultimately have "recover_owned_task_execution C idn new_id' now' actor i rq owner_sha' sha' ?s2 = Inr (receipt, ?s2)"
    using row2(1) member(1) ver same by (simp add: recover_owned_task_execution_def Let_def)
  moreover have "st_tasks s' = map (\<lambda>t. if tk_task_id t = i then interrupted now row else t) (st_tasks s)
        @ [replacement_task new_id now actor sha (task_of_row row)]"
    unfolding tasks using find_task_unique[OF _ 2(1)] plans by (auto simp: plans_ok_def)
  moreover have "row_contract C (replacement_task new_id now actor sha (task_of_row row)) = row_contract C row"
    by (simp add: row_contract_def task_contract_sha256_def task_of_row_texts replacement_task_def new_task_def
        cleanD[OF clean_trim] comp_def)
  ultimately show ?thesis using 2(1,3) ver
    by (intro exI[of _ row] exI[of _ "interrupted now row"]
          exI[of _ "replacement_task new_id now actor sha (task_of_row row)"] conjI)
       (simp_all add: interrupted_def request_of_def replacement_task_def new_task_def task_of_row_def)
qed

definition demo_owner :: execution_owner where
  "demo_owner = \<lparr>ow_task_id = ''task1'', ow_workspace_id = ''wsp_local_demo'', ow_project_id = ''prj_industrial_vision'',
     ow_request_sha256 = zero_sha, ow_execution_id = ''run1'', ow_process_id = 7, ow_started_at = ''t3'',
     ow_receipt_sha256 = zero_sha\<rparr>"

definition demo_recovery :: recovery_request where
  "demo_recovery = \<lparr>rr_expected_snapshot_sha256 = zero_sha, rr_reviewer_identity = ''operator'', rr_note = ''host lost''\<rparr>"

definition owned_start :: "store_op list" where
  "owned_start = take 3 demo_start @ [ClaimTask ''t3'' ''task1'' (Some demo_owner)]"

definition owned_store :: store where
  "owned_store = fold (store_after toy_crypto toy_codec) owned_start empty_store"

abbreviation demo_recover :: "store \<Rightarrow> store_error + recovery_receipt \<times> store" where
  "demo_recover \<equiv> recover_owned_task_execution toy_crypto demo_identity ''task2'' ''t4'' ''usr_local_demo'' ''task1''
     demo_recovery zero_sha zero_sha"

lemma owned_store_run: "owned_store = run_service toy_crypto toy_codec owned_start empty_store"
proof -
  have "list_all service_call owned_start" using demo_calls(1) by (simp add: owned_start_def demo_start_def)
  then show ?thesis by (simp add: owned_store_def run_service_fold)
qed

theorem recovery_replaces_once_witness:
  "\<exists>receipt s'. demo_recover owned_store = Inr (receipt, s') \<and> demo_recover s' = Inr (receipt, s')
     \<and> map tk_execution_status (st_tasks s') = [TaskFailed, TaskPlanned]"
proof -
  have "clean ''task2''" "clean ''t4''" "clean ''operator''" "clean ''host lost''" by code_simp+
  then have call: "service_call (RecoverTask demo_identity ''task2'' ''t4'' ''usr_local_demo'' ''task1'' demo_recovery
      zero_sha zero_sha)" by (simp add: demo_recovery_def demo_clean)
  have "case demo_recover owned_store of Inl _ \<Rightarrow> False
      | Inr (_, s') \<Rightarrow> map tk_execution_status (st_tasks s') = [TaskFailed, TaskPlanned]" by code_simp
  then obtain receipt s' where r: "demo_recover owned_store = Inr (receipt, s')"
    "map tk_execution_status (st_tasks s') = [TaskFailed, TaskPlanned]" by (auto split: sum.splits prod.splits)
  have "map_of (st_recoveries owned_store) ''task1'' = None" by code_simp
  from recovery_replaces_once[OF toy_hex_digests owned_store_run call r(1) this, where cs' = "[]"] r
  show ?thesis by auto
qed

end
