(* ===== verification/Event_Safety.thy ===== *)
theory Event_Safety
  imports Task_Safety "HOL-Library.Multiset"
begin

text \<open>
  The event log of a task: reconciling it with the canonical list of events appends what is missing, rewrites nothing and can
  be repeated.
\<close>

definition stored_as :: "crypto \<Rightarrow> json_codec \<Rightarrow> task_event_row \<Rightarrow> runtime_event \<Rightarrow> bool" where
  "stored_as C J r e \<longleftrightarrow> (tv_sequence r, tv_phase r, tv_stage r, tv_status r, tv_summary r)
       = (re_sequence e, re_phase e, re_stage e, re_status e, re_summary e)
     \<and> strict_canonical_json C J (tv_payload_json r) = Some (dumps C (re_payload e))"

lemma check_stored_iff:
  "contiguous n es \<Longrightarrow> check_stored_events C J n rs es = Inr ()
     \<longleftrightarrow> length rs \<le> length es \<and> list_all2 (stored_as C J) rs (take (length rs) es)"
  by (induction C J n rs es rule: check_stored_events.induct) (auto simp: stored_as_def)

lemma contiguous_sorted: "contiguous n es \<Longrightarrow> sorted (map re_sequence es) \<and> (\<forall>e\<in>set es. n \<le> re_sequence e)"
proof (induction n es rule: contiguous.induct)
  case (2 n e es)
  then have "sorted (map re_sequence es)" "\<forall>x\<in>set es. n + 1 \<le> re_sequence x" "re_sequence e = n" by auto
  then show ?case by fastforce
qed simp

lemma stored_sequences: "list_all2 (stored_as C J) rs es \<Longrightarrow> map tv_sequence rs = map re_sequence es"
  by (induction rule: list_all2_induct) (auto simp: stored_as_def)

lemma event_row_stored:
  "strict_canonical_json C J (jc_dumps J (re_payload e)) = Some (dumps C (re_payload e)) \<Longrightarrow> stored_as C J (event_row J now i e) e"
  by (simp add: stored_as_def event_row_def)

lemma reconcile_Inr:
  assumes "reconcile_events C J now i es s = Inr s'"
  obtains "contiguous 1 es" "length (task_event_rows s i) \<le> length es"
    "list_all2 (stored_as C J) (task_event_rows s i) (take (length (task_event_rows s i)) es)"
    "s' = s\<lparr>st_events := st_events s @ map (event_row J now i) (drop (length (task_event_rows s i)) es)\<rparr>"
proof -
  have c: "contiguous 1 es" "length (task_event_rows s i) \<le> length es"
    and k: "check_stored_events C J 1 (task_event_rows s i) es = Inr ()"
    and ins: "insert_events (map (event_row J now i) (drop (length (task_event_rows s i)) es)) s = Inr s'"
    using assms by (auto simp: reconcile_events_def Let_def)
  show thesis
    using that[OF c] k check_stored_iff[OF c(1)] insert_events_frame[OF ins] by simp
qed

lemma rows_append:
  assumes "sorted (map tv_sequence (task_event_rows s i @ new))" and "\<forall>r\<in>set new. tv_task_id r = i"
  shows "task_event_rows (s\<lparr>st_events := st_events s @ new\<rparr>) i = task_event_rows s i @ new"
proof -
  let ?old = "filter (\<lambda>r. tv_task_id r = i) (st_events s)"
  have "filter (\<lambda>r. tv_task_id r = i) new = new" using assms(2) by (simp add: filter_id_conv)
  moreover have "filter (\<lambda>x. k = tv_sequence x) (sort_key tv_sequence ?old) = filter (\<lambda>x. k = tv_sequence x) ?old" for k
    using sort_key_stable[of tv_sequence k ?old] by (simp only: eq_commute)
  then have "sort_key tv_sequence (?old @ new) = sort_key tv_sequence ?old @ new"
    using assms(1) by (intro properties_for_sort_key) (simp_all add: task_event_rows_def del: filter_filter)
  ultimately show ?thesis by (simp add: task_event_rows_def)
qed

text \<open>C36: a successful reconciliation leaves the old rows, appends the rows of the missing events, and the log then holds
  exactly the canonical list; it touches no other task, repeating it changes nothing, and no later reconciliation accepts a
  shorter list or one that differs in an event already stored. The hypothesis is the round trip of the \<open>json\<close> module.\<close>

theorem reconcile_completes_log:
  assumes "reconcile_events C J now i es s = Inr s'"
    and "list_all (\<lambda>e. strict_canonical_json C J (jc_dumps J (re_payload e)) = Some (dumps C (re_payload e))) es"
  shows "task_event_rows s' i = task_event_rows s i @ map (event_row J now i) (drop (length (task_event_rows s i)) es)
    \<and> list_all2 (stored_as C J) (task_event_rows s' i) es
    \<and> (\<forall>j. j \<noteq> i \<longrightarrow> task_event_rows s' j = task_event_rows s j)
    \<and> reconcile_events C J now' i es s' = Inr s'
    \<and> (\<forall>es' s''. reconcile_events C J now' i es' s' = Inr s'' \<longrightarrow>
         length es \<le> length es' \<and> list_all2 (stored_as C J) (task_event_rows s' i) (take (length es) es'))"
  using assms(1)
proof (rule reconcile_Inr)
  let ?k = "length (task_event_rows s i)"
  let ?new = "map (event_row J now i) (drop ?k es)"
  assume c: "contiguous 1 es" "?k \<le> length es" and old: "list_all2 (stored_as C J) (task_event_rows s i) (take ?k es)"
    and s': "s' = s\<lparr>st_events := st_events s @ ?new\<rparr>"
  have "list_all2 (stored_as C J) ?new (drop ?k es)"
    using assms(2) by (auto simp: list_all2_map1 list_all2_same list_all_iff dest!: in_set_dropD intro!: event_row_stored)
  then have all: "list_all2 (stored_as C J) (task_event_rows s i @ ?new) es"
    using list_all2_appendI[OF old, of ?new "drop ?k es"] by simp
  have "sorted (map tv_sequence (task_event_rows s i @ ?new))"
    unfolding stored_sequences[OF all] using contiguous_sorted[OF c(1)] by blast
  then have rows: "task_event_rows s' i = task_event_rows s i @ ?new"
    unfolding s' by (rule rows_append) (auto simp: event_row_def)
  have others: "task_event_rows s' j = task_event_rows s j" if "j \<noteq> i" for j
    using that by (simp add: task_event_rows_def s' filter_empty_conv event_row_def)
  have len: "length (task_event_rows s' i) = length es" using list_all2_lengthD[OF all] rows by simp
  have again: "reconcile_events C J now' i es s' = Inr s'"
    using c all len by (simp add: reconcile_events_def Let_def check_stored_iff rows)
  have later: "length es \<le> length es' \<and> list_all2 (stored_as C J) (task_event_rows s' i) (take (length es) es')"
    if "reconcile_events C J now' i es' s' = Inr s''" for es' s''
    using that by (rule reconcile_Inr) (simp add: len)
  show ?thesis using rows all others again later by (simp only: rows) blast
qed

definition demo_event :: "int \<Rightarrow> string \<Rightarrow> runtime_event" where
  "demo_event n stage = \<lparr>re_sequence = n, re_phase = ''initial'', re_stage = stage, re_status = ''completed'',
     re_summary = ''done'', re_payload = JObj [(''step'', JInt n)]\<rparr>"

abbreviation demo_events :: "runtime_event list" where
  "demo_events \<equiv> [demo_event 1 ''plan'', demo_event 2 ''tools'', demo_event 3 ''policy'']"

definition logged_store :: store where
  "logged_store = demo_store\<lparr>st_events := [event_row toy_codec ''t4'' ''task1'' (demo_event 1 ''plan'')]\<rparr>"

theorem reconcile_completes_log_witness:
  "\<exists>s'. reconcile_events toy_crypto toy_codec ''t5'' ''task1'' demo_events logged_store = Inr s'
     \<and> list_all2 (stored_as toy_crypto toy_codec) (task_event_rows s' ''task1'') demo_events
     \<and> reconcile_events toy_crypto toy_codec ''t6'' ''task1'' demo_events s' = Inr s'"
proof -
  have "case reconcile_events toy_crypto toy_codec ''t5'' ''task1'' demo_events logged_store of Inr _ \<Rightarrow> True | Inl _ \<Rightarrow> False"
    by code_simp
  then obtain s' where s': "reconcile_events toy_crypto toy_codec ''t5'' ''task1'' demo_events logged_store = Inr s'"
    by (auto split: sum.splits)
  have "list_all (\<lambda>e. strict_canonical_json toy_crypto toy_codec (jc_dumps toy_codec (re_payload e))
      = Some (dumps toy_crypto (re_payload e))) demo_events" by code_simp
  from reconcile_completes_log[OF s' this, of "''t6''"] s' show ?thesis by blast
qed

end
