(* ===== verification/Evidence_State.thy ===== *)
theory Evidence_State
  imports Clean_Texts
begin

text \<open>
  \<open>evidence_state_contracts.py\<close>: what the evidence of an incident says about each hypothesis (support) and whether the source it
  came from is still authorised (freshness), as a ledger of sealed snapshots that is verified without the enclosing case.
  A hypothesis and an evidence edge are given by the fields the protocols \<open>_HypothesisLike\<close> and \<open>_EvidenceEdgeLike\<close> name
  (of this module and of \<open>incident_agent_kernel.py\<close>), their \<open>model_dump\<close> as a JSON value.
\<close>

section \<open>Statuses\<close>

datatype support_status = Supported | Contradicted | UnresolvedSupport | NotSupported

datatype freshness_status = FreshCurrent | FreshStale | FreshRevoked | FreshUnknown

datatype authorization_status = AuthActive | AuthRevoked | AuthExpired | AuthUnavailable | AuthNotApplicable

fun support_str :: "support_status \<Rightarrow> string" where
  "support_str Supported = ''SUPPORTED''"
| "support_str Contradicted = ''CONTRADICTED''"
| "support_str UnresolvedSupport = ''UNRESOLVED''"
| "support_str NotSupported = ''NOT_SUPPORTED''"

fun freshness_str :: "freshness_status \<Rightarrow> string" where
  "freshness_str FreshCurrent = ''CURRENT''"
| "freshness_str FreshStale = ''STALE''"
| "freshness_str FreshRevoked = ''REVOKED''"
| "freshness_str FreshUnknown = ''UNKNOWN''"

fun authorization_str :: "authorization_status \<Rightarrow> string" where
  "authorization_str AuthActive = ''ACTIVE''"
| "authorization_str AuthRevoked = ''REVOKED''"
| "authorization_str AuthExpired = ''EXPIRED''"
| "authorization_str AuthUnavailable = ''UNAVAILABLE''"
| "authorization_str AuthNotApplicable = ''NOT_APPLICABLE''"

definition HYPOTHESIS_STATUSES :: "string list" where
  "HYPOTHESIS_STATUSES = [''SUPPORTED'', ''PLAUSIBLE'', ''UNRESOLVED'', ''REJECTED'']"

datatype belief_error =
    NotCanonical | BeliefConstraint
  | RevokedRefsUnsorted | FactsFreshnessMismatch | FactsDigestMismatch
  | DuplicateEdges | ForeignEdges "string list" | UnsupportedStatus string
  | FactsBindingMismatch | RefsUnsorted | UnresolvedCountMismatch | SupportMismatch | FreshnessMismatch
  | DerivedDigestMismatch | SnapshotDigestMismatch
  | NoHypothesis | DuplicateHypotheses | UnknownHypothesisEdges "string list"
  | HypothesisOrder | HypothesisCount | SnapshotCase | SnapshotBundle
  | HypothesisProjection | EdgeCount | EdgeProjection | LedgerDigest

record hypothesis =
  hy_hypothesis_id :: string
  hy_status :: string
  hy_supporting_issue_codes :: "string list"
  hy_contradicting_issue_codes :: "string list"
  hy_unresolved_evidence_refs :: "string list"
  hy_dump :: json

record evidence_edge =
  ee_edge_id :: string
  ee_hypothesis_id :: string
  ee_relation :: string
  ee_evidence_ref :: string
  ee_issue_code :: "string option"
  ee_dump :: json

section \<open>Models\<close>

record freshness_facts =
  ff_source_event_sha256 :: string
  ff_source_status :: authorization_status
  ff_current_event_sha256 :: string
  ff_current_status :: authorization_status
  ff_freshness_status :: freshness_status
  ff_revoked_evidence_refs :: "string list"
  ff_facts_sha256 :: string

record belief_snapshot =
  eb_case_id :: string
  eb_hypothesis_id :: string
  eb_hypothesis_status :: string
  eb_support_status :: support_status
  eb_freshness_status :: freshness_status
  eb_supporting_refs :: "string list"
  eb_contradicting_refs :: "string list"
  eb_unresolved_refs :: "string list"
  eb_unresolved_count :: nat
  eb_bundle_sha256 :: string
  eb_facts_sha256 :: string
  eb_hypothesis_sha256 :: string
  eb_edge_sha256s :: "string list"
  eb_derived_sha256 :: string
  eb_snapshot_sha256 :: string

record belief_ledger =
  el_case_id :: string
  el_bundle_sha256 :: string
  el_facts :: freshness_facts
  el_hypothesis_count :: nat
  el_edge_count :: nat
  el_hypothesis_projection_sha256 :: string
  el_edge_projection_sha256 :: string
  el_snapshots :: "belief_snapshot list"
  el_ledger_sha256 :: string

definition facts_fields :: "freshness_facts \<Rightarrow> (string \<times> json) list" where
  "facts_fields f =
     [(''schema_version'', JStr ''visiondata-gate.source-authorization-freshness-facts.v2''),
      (''source_authorization_event_sha256'', JStr (ff_source_event_sha256 f)),
      (''source_authorization_status'', JStr (authorization_str (ff_source_status f))),
      (''current_authorization_event_sha256'', JStr (ff_current_event_sha256 f)),
      (''current_authorization_status'', JStr (authorization_str (ff_current_status f))),
      (''freshness_status'', JStr (freshness_str (ff_freshness_status f))),
      (''revoked_evidence_refs'', JStrs (ff_revoked_evidence_refs f))]"

definition snapshot_fields :: "belief_snapshot \<Rightarrow> (string \<times> json) list" where
  "snapshot_fields b =
     [(''schema_version'', JStr ''visiondata-gate.evidence-belief-snapshot.v2''),
      (''case_id'', JStr (eb_case_id b)), (''hypothesis_id'', JStr (eb_hypothesis_id b)),
      (''source_hypothesis_status'', JStr (eb_hypothesis_status b)),
      (''support_status'', JStr (support_str (eb_support_status b))),
      (''freshness_status'', JStr (freshness_str (eb_freshness_status b))),
      (''supporting_evidence_refs'', JStrs (eb_supporting_refs b)),
      (''contradicting_evidence_refs'', JStrs (eb_contradicting_refs b)),
      (''unresolved_evidence_refs'', JStrs (eb_unresolved_refs b)),
      (''unresolved_evidence_count'', JInt (int (eb_unresolved_count b))),
      (''evidence_bundle_sha256'', JStr (eb_bundle_sha256 b)),
      (''source_authorization_freshness_sha256'', JStr (eb_facts_sha256 b)),
      (''source_hypothesis_sha256'', JStr (eb_hypothesis_sha256 b)),
      (''source_edge_sha256s'', JStrs (eb_edge_sha256s b)),
      (''derived_evidence_sha256'', JStr (eb_derived_sha256 b))]"

text \<open>The payload of the ledger's own digest; the nested models are dumped with their digests.\<close>

definition ledger_payload :: "belief_ledger \<Rightarrow> json" where
  "ledger_payload l = JObj
     [(''schema_version'', JStr ''visiondata-gate.evidence-belief-ledger.v2''), (''case_id'', JStr (el_case_id l)),
      (''evidence_bundle_sha256'', JStr (el_bundle_sha256 l)),
      (''source_authorization_freshness'', JObj (facts_fields (el_facts l)
         @ [(''facts_sha256'', JStr (ff_facts_sha256 (el_facts l)))])),
      (''hypothesis_count'', JInt (int (el_hypothesis_count l))),
      (''evidence_edge_count'', JInt (int (el_edge_count l))),
      (''hypothesis_projection_sha256'', JStr (el_hypothesis_projection_sha256 l)),
      (''evidence_edge_projection_sha256'', JStr (el_edge_projection_sha256 l)),
      (''snapshots'', JArr (map (\<lambda>b. JObj (snapshot_fields b
         @ [(''snapshot_sha256'', JStr (eb_snapshot_sha256 b))])) (el_snapshots l)))]"

text \<open>\<open>_digest\<close>.\<close>

definition belief_digest :: "crypto \<Rightarrow> string \<Rightarrow> json \<Rightarrow> belief_error + string" where
  "belief_digest C domain v =
     of_opt NotCanonical (jcs_sha C (JObj [(''domain'', JStr domain), (''payload'', v)]))"

text \<open>Construction strips every text, list elements included, and checks the constraints of the fields.\<close>

definition is_case_id :: "string \<Rightarrow> bool" where
  "is_case_id s \<longleftrightarrow> take 9 s = ''incident_'' \<and> length s = 29 \<and> list_all is_hex (drop 9 s)"

definition make_facts :: "freshness_facts \<Rightarrow> belief_error + freshness_facts" where
  "make_facts raw =
     (let f = raw\<lparr>ff_source_event_sha256 := trim (ff_source_event_sha256 raw),
                ff_current_event_sha256 := trim (ff_current_event_sha256 raw),
                ff_revoked_evidence_refs := map trim (ff_revoked_evidence_refs raw),
                ff_facts_sha256 := trim (ff_facts_sha256 raw)\<rparr> in
      rbind (require (is_sha256 (ff_source_event_sha256 f) \<and> is_sha256 (ff_current_event_sha256 f)
         \<and> is_sha256 (ff_facts_sha256 f)) BeliefConstraint) (\<lambda>_. Inr f))"

definition make_snapshot :: "belief_snapshot \<Rightarrow> belief_error + belief_snapshot" where
  "make_snapshot raw =
     (let b = raw\<lparr>eb_case_id := trim (eb_case_id raw), eb_hypothesis_id := trim (eb_hypothesis_id raw),
                eb_supporting_refs := map trim (eb_supporting_refs raw),
                eb_contradicting_refs := map trim (eb_contradicting_refs raw),
                eb_unresolved_refs := map trim (eb_unresolved_refs raw),
                eb_bundle_sha256 := trim (eb_bundle_sha256 raw), eb_facts_sha256 := trim (eb_facts_sha256 raw),
                eb_hypothesis_sha256 := trim (eb_hypothesis_sha256 raw),
                eb_edge_sha256s := map trim (eb_edge_sha256s raw), eb_derived_sha256 := trim (eb_derived_sha256 raw),
                eb_snapshot_sha256 := trim (eb_snapshot_sha256 raw)\<rparr> in
      rbind (require (is_case_id (eb_case_id b) \<and> eb_hypothesis_id b \<noteq> []
         \<and> eb_hypothesis_status b \<in> set HYPOTHESIS_STATUSES \<and> is_sha256 (eb_bundle_sha256 b)
         \<and> is_sha256 (eb_facts_sha256 b) \<and> is_sha256 (eb_hypothesis_sha256 b) \<and> is_sha256 (eb_derived_sha256 b)
         \<and> is_sha256 (eb_snapshot_sha256 b)) BeliefConstraint) (\<lambda>_. Inr b))"

definition make_ledger :: "belief_ledger \<Rightarrow> belief_error + belief_ledger" where
  "make_ledger raw =
     (let l = raw\<lparr>el_case_id := trim (el_case_id raw), el_bundle_sha256 := trim (el_bundle_sha256 raw),
                el_hypothesis_projection_sha256 := trim (el_hypothesis_projection_sha256 raw),
                el_edge_projection_sha256 := trim (el_edge_projection_sha256 raw),
                el_ledger_sha256 := trim (el_ledger_sha256 raw)\<rparr> in
      rbind (require (is_case_id (el_case_id l) \<and> is_sha256 (el_bundle_sha256 l) \<and> 1 \<le> el_hypothesis_count l
         \<and> is_sha256 (el_hypothesis_projection_sha256 l) \<and> is_sha256 (el_edge_projection_sha256 l)
         \<and> el_snapshots l \<noteq> [] \<and> is_sha256 (el_ledger_sha256 l)) BeliefConstraint) (\<lambda>_. Inr l))"

section \<open>Support and freshness\<close>

definition support_status_of :: "string \<Rightarrow> string list \<Rightarrow> string list \<Rightarrow> string list \<Rightarrow> support_status" where
  "support_status_of status supporting contradicting unresolved =
     (if supporting \<noteq> [] \<and> contradicting \<noteq> [] then UnresolvedSupport
      else if supporting \<noteq> [] then Supported
      else if contradicting \<noteq> [] then Contradicted
      else if unresolved \<noteq> [] \<or> status \<in> {''PLAUSIBLE'', ''UNRESOLVED''} then UnresolvedSupport
      else NotSupported)"

definition authorization_freshness ::
    "string \<Rightarrow> authorization_status \<Rightarrow> string \<Rightarrow> authorization_status \<Rightarrow> freshness_status" where
  "authorization_freshness source_event source_status current_event current_status =
     (if source_status = AuthRevoked \<or> current_status = AuthRevoked then FreshRevoked
      else if source_status \<in> {AuthUnavailable, AuthNotApplicable} \<or> current_status \<in> {AuthUnavailable, AuthNotApplicable}
      then FreshUnknown
      else if source_status = AuthExpired \<or> current_status = AuthExpired then FreshStale
      else if source_event \<noteq> current_event then FreshStale
      else if source_status = AuthActive \<and> current_status = AuthActive then FreshCurrent
      else FreshUnknown)"

definition build_freshness_facts ::
    "crypto \<Rightarrow> string \<Rightarrow> authorization_status \<Rightarrow> string option \<Rightarrow> authorization_status option \<Rightarrow> string list
       \<Rightarrow> belief_error + freshness_facts" where
  "build_freshness_facts C source_event source_status current_event_arg current_status_arg revoked =
     (let current_event = (if opt_truthy current_event_arg then the current_event_arg else source_event);
          current_status = (case current_status_arg of None \<Rightarrow> source_status | Some st \<Rightarrow> st) in
      rbind (make_facts \<lparr>ff_source_event_sha256 = source_event, ff_source_status = source_status,
           ff_current_event_sha256 = current_event, ff_current_status = current_status,
           ff_freshness_status = authorization_freshness source_event source_status current_event current_status,
           ff_revoked_evidence_refs = sorted_set revoked, ff_facts_sha256 = zero_sha\<rparr>) (\<lambda>draft.
      rbind (belief_digest C ''VDG_SOURCE_AUTHORIZATION_FRESHNESS_FACTS_V2'' (JObj (facts_fields draft))) (\<lambda>d.
      Inr (draft\<lparr>ff_facts_sha256 := d\<rparr>))))"

definition verify_freshness_facts :: "crypto \<Rightarrow> freshness_facts \<Rightarrow> belief_error + unit" where
  "verify_freshness_facts C f =
     rbind (require (ff_revoked_evidence_refs f = sorted_set (ff_revoked_evidence_refs f)) RevokedRefsUnsorted) (\<lambda>_.
     rbind (require (ff_freshness_status f = authorization_freshness (ff_source_event_sha256 f) (ff_source_status f)
         (ff_current_event_sha256 f) (ff_current_status f)) FactsFreshnessMismatch) (\<lambda>_.
     rbind (belief_digest C ''VDG_SOURCE_AUTHORIZATION_FRESHNESS_FACTS_V2'' (JObj (facts_fields f))) (\<lambda>d.
     require (ff_facts_sha256 f = d) FactsDigestMismatch)))"

section \<open>Snapshots\<close>

definition refs_of :: "string \<Rightarrow> evidence_edge list \<Rightarrow> string list" where
  "refs_of relation edges = map ee_evidence_ref (filter (\<lambda>e. ee_relation e = relation) edges)"

definition edge_key :: "evidence_edge \<Rightarrow> string \<times> string \<times> string \<times> string" where
  "edge_key e = (ee_relation e, ee_evidence_ref e, (case ee_issue_code e of None \<Rightarrow> [] | Some c \<Rightarrow> c), ee_edge_id e)"

definition snapshot_freshness :: "freshness_facts \<Rightarrow> string list \<Rightarrow> freshness_status" where
  "snapshot_freshness f refs =
     (if list_ex (\<lambda>r. r \<in> set (ff_revoked_evidence_refs f)) refs then FreshRevoked else ff_freshness_status f)"

definition derived_payload :: "string \<Rightarrow> string \<Rightarrow> string \<Rightarrow> string \<Rightarrow> string list \<Rightarrow> json" where
  "derived_payload case_id bundle facts_sha hypothesis_sha edge_shas = JObj
     [(''case_id'', JStr case_id), (''evidence_bundle_sha256'', JStr bundle),
      (''source_authorization_freshness_sha256'', JStr facts_sha), (''source_hypothesis_sha256'', JStr hypothesis_sha),
      (''source_edge_sha256s'', JStrs edge_shas)]"

definition build_belief_snapshot ::
    "crypto \<Rightarrow> string \<Rightarrow> hypothesis \<Rightarrow> evidence_edge list \<Rightarrow> string \<Rightarrow> freshness_facts \<Rightarrow> belief_error + belief_snapshot" where
  "build_belief_snapshot C case_id h evidence_edges bundle facts =
     rbind (verify_freshness_facts C facts) (\<lambda>_.
     (let edges = sort_key edge_key evidence_edges;
          foreign = map ee_edge_id (filter (\<lambda>e. ee_hypothesis_id e \<noteq> hy_hypothesis_id h) edges) in
      rbind (require (distinct (map ee_edge_id edges)) DuplicateEdges) (\<lambda>_.
      rbind (require (foreign = []) (ForeignEdges foreign)) (\<lambda>_.
      rbind (require (hy_status h \<in> set HYPOTHESIS_STATUSES) (UnsupportedStatus (hy_status h))) (\<lambda>_.
      (let supporting = sorted_set (refs_of ''SUPPORTS'' edges);
           contradicting = sorted_set (refs_of ''CONTRADICTS'' edges);
           unresolved = sorted_set (refs_of ''UNRESOLVED'' edges
             @ (if hy_status h \<noteq> ''REJECTED'' then hy_unresolved_evidence_refs h else [])) in
       rbind (belief_digest C ''VDG_INCIDENT_HYPOTHESIS_V2'' (hy_dump h)) (\<lambda>hypothesis_sha.
       rbind (rmap (\<lambda>e. belief_digest C ''VDG_INCIDENT_EVIDENCE_EDGE_V2'' (ee_dump e)) edges) (\<lambda>shas.
       rbind (belief_digest C ''VDG_DERIVED_EVIDENCE_V2''
           (derived_payload case_id bundle (ff_facts_sha256 facts) hypothesis_sha (sort shas))) (\<lambda>derived.
       rbind (make_snapshot \<lparr>eb_case_id = case_id, eb_hypothesis_id = hy_hypothesis_id h,
            eb_hypothesis_status = hy_status h,
            eb_support_status = support_status_of (hy_status h) supporting contradicting unresolved,
            eb_freshness_status = snapshot_freshness facts (supporting @ contradicting @ unresolved),
            eb_supporting_refs = supporting, eb_contradicting_refs = contradicting, eb_unresolved_refs = unresolved,
            eb_unresolved_count = length unresolved, eb_bundle_sha256 = bundle,
            eb_facts_sha256 = ff_facts_sha256 facts, eb_hypothesis_sha256 = hypothesis_sha,
            eb_edge_sha256s = sort shas, eb_derived_sha256 = derived, eb_snapshot_sha256 = zero_sha\<rparr>) (\<lambda>draft.
       rbind (belief_digest C ''VDG_EVIDENCE_BELIEF_SNAPSHOT_V2'' (JObj (snapshot_fields draft))) (\<lambda>d.
       Inr (draft\<lparr>eb_snapshot_sha256 := d\<rparr>))))))))))))"

definition verify_belief_snapshot :: "crypto \<Rightarrow> freshness_facts \<Rightarrow> belief_snapshot \<Rightarrow> belief_error + unit" where
  "verify_belief_snapshot C facts b =
     rbind (verify_freshness_facts C facts) (\<lambda>_.
     rbind (require (eb_facts_sha256 b = ff_facts_sha256 facts) FactsBindingMismatch) (\<lambda>_.
     rbind (require (list_all (\<lambda>refs. refs = sorted_set refs)
         [eb_supporting_refs b, eb_contradicting_refs b, eb_unresolved_refs b, eb_edge_sha256s b]) RefsUnsorted) (\<lambda>_.
     rbind (require (eb_unresolved_count b = length (eb_unresolved_refs b)) UnresolvedCountMismatch) (\<lambda>_.
     rbind (require (eb_support_status b = support_status_of (eb_hypothesis_status b) (eb_supporting_refs b)
         (eb_contradicting_refs b) (eb_unresolved_refs b)) SupportMismatch) (\<lambda>_.
     rbind (require (eb_freshness_status b = snapshot_freshness facts
         (eb_supporting_refs b @ eb_contradicting_refs b @ eb_unresolved_refs b)) FreshnessMismatch) (\<lambda>_.
     rbind (belief_digest C ''VDG_DERIVED_EVIDENCE_V2'' (derived_payload (eb_case_id b) (eb_bundle_sha256 b)
         (eb_facts_sha256 b) (eb_hypothesis_sha256 b) (eb_edge_sha256s b))) (\<lambda>derived.
     rbind (require (eb_derived_sha256 b = derived) DerivedDigestMismatch) (\<lambda>_.
     rbind (belief_digest C ''VDG_EVIDENCE_BELIEF_SNAPSHOT_V2'' (JObj (snapshot_fields b))) (\<lambda>d.
     require (eb_snapshot_sha256 b = d) SnapshotDigestMismatch)))))))))"

section \<open>The ledger\<close>

definition build_belief_ledger ::
    "crypto \<Rightarrow> string \<Rightarrow> string \<Rightarrow> hypothesis list \<Rightarrow> evidence_edge list \<Rightarrow> string \<Rightarrow> authorization_status
       \<Rightarrow> string option \<Rightarrow> authorization_status option \<Rightarrow> string list \<Rightarrow> belief_error + belief_ledger" where
  "build_belief_ledger C case_id bundle hypotheses edges source_event source_status current_event current_status revoked =
     (let hs = sort_key hy_hypothesis_id hypotheses; ids = map hy_hypothesis_id hs;
          foreign = sort (map ee_edge_id (filter (\<lambda>e. ee_hypothesis_id e \<notin> set ids) edges)) in
      rbind (require (ids \<noteq> []) NoHypothesis) (\<lambda>_.
      rbind (require (distinct ids) DuplicateHypotheses) (\<lambda>_.
      rbind (require (distinct (map ee_edge_id edges)) DuplicateEdges) (\<lambda>_.
      rbind (require (foreign = []) (UnknownHypothesisEdges foreign)) (\<lambda>_.
      rbind (build_freshness_facts C source_event source_status current_event current_status revoked) (\<lambda>facts.
      rbind (rmap (\<lambda>h. build_belief_snapshot C case_id h
          (filter (\<lambda>e. ee_hypothesis_id e = hy_hypothesis_id h) edges) bundle facts) hs) (\<lambda>snapshots.
      (let edge_shas = sort (concat (map eb_edge_sha256s snapshots)) in
       rbind (belief_digest C ''VDG_HYPOTHESIS_PROJECTION_V2'' (JStrs (map eb_hypothesis_sha256 snapshots))) (\<lambda>hp.
       rbind (belief_digest C ''VDG_EVIDENCE_EDGE_PROJECTION_V2'' (JStrs edge_shas)) (\<lambda>ep.
       rbind (make_ledger \<lparr>el_case_id = case_id, el_bundle_sha256 = bundle, el_facts = facts,
            el_hypothesis_count = length snapshots, el_edge_count = length edge_shas,
            el_hypothesis_projection_sha256 = hp, el_edge_projection_sha256 = ep, el_snapshots = snapshots,
            el_ledger_sha256 = zero_sha\<rparr>) (\<lambda>draft.
       rbind (belief_digest C ''VDG_EVIDENCE_BELIEF_LEDGER_V2'' (ledger_payload draft)) (\<lambda>d.
       Inr (draft\<lparr>el_ledger_sha256 := d\<rparr>)))))))))))))"

definition verify_belief_ledger :: "crypto \<Rightarrow> belief_ledger \<Rightarrow> belief_error + unit" where
  "verify_belief_ledger C l =
     rbind (verify_freshness_facts C (el_facts l)) (\<lambda>_.
     (let ids = map eb_hypothesis_id (el_snapshots l) in
      rbind (require (ids = sorted_set ids) HypothesisOrder) (\<lambda>_.
      rbind (require (el_hypothesis_count l = length (el_snapshots l)) HypothesisCount) (\<lambda>_.
      rbind (reach_all (\<lambda>b.
          rbind (verify_belief_snapshot C (el_facts l) b) (\<lambda>_.
          rbind (require (eb_case_id b = el_case_id l) SnapshotCase) (\<lambda>_.
          require (eb_bundle_sha256 b = el_bundle_sha256 l) SnapshotBundle))) (el_snapshots l)) (\<lambda>_.
      rbind (belief_digest C ''VDG_HYPOTHESIS_PROJECTION_V2'' (JStrs (map eb_hypothesis_sha256 (el_snapshots l)))) (\<lambda>hp.
      rbind (require (el_hypothesis_projection_sha256 l = hp) HypothesisProjection) (\<lambda>_.
      (let edge_shas = sort (concat (map eb_edge_sha256s (el_snapshots l))) in
       rbind (require (el_edge_count l = length edge_shas) EdgeCount) (\<lambda>_.
       rbind (belief_digest C ''VDG_EVIDENCE_EDGE_PROJECTION_V2'' (JStrs edge_shas)) (\<lambda>ep.
       rbind (require (el_edge_projection_sha256 l = ep) EdgeProjection) (\<lambda>_.
       rbind (belief_digest C ''VDG_EVIDENCE_BELIEF_LEDGER_V2'' (ledger_payload l)) (\<lambda>d.
       require (el_ledger_sha256 l = d) LedgerDigest))))))))))))"

section \<open>Lemmas\<close>

lemma belief_digest_hex: "hex_digests C \<Longrightarrow> belief_digest C domain v = Inr d \<Longrightarrow> is_sha256 d \<and> clean d"
  by (auto simp: belief_digest_def jcs_sha_def of_opt_def hex_digests_def sha256_clean split: option.splits)

lemma clean_sorted_set: "list_all clean xs \<Longrightarrow> map trim (sorted_set xs) = sorted_set xs"
  by (rule map_trim_clean) (simp add: list_all_iff)

lemma facts_fields_digest [simp]: "facts_fields (f\<lparr>ff_facts_sha256 := d\<rparr>) = facts_fields f"
  by (simp add: facts_fields_def)

lemma snapshot_fields_digest [simp]: "snapshot_fields (b\<lparr>eb_snapshot_sha256 := d\<rparr>) = snapshot_fields b"
  by (simp add: snapshot_fields_def)

lemma ledger_payload_digest [simp]: "ledger_payload (l\<lparr>el_ledger_sha256 := d\<rparr>) = ledger_payload l"
  by (simp add: ledger_payload_def)

lemma build_facts_verifies:
  assumes build: "build_freshness_facts C source_event source_status current_event current_status revoked = Inr f"
    and texts: "list_all clean (source_event # revoked)" "pred_option clean current_event"
  shows "verify_freshness_facts C f = Inr ()" and "ff_revoked_evidence_refs f = sorted_set revoked"
    and "ff_source_status f = source_status"
proof -
  let ?event = "if opt_truthy current_event then the current_event else source_event"
  let ?status = "case current_status of None \<Rightarrow> source_status | Some st \<Rightarrow> st"
  have "clean ?event" using texts by (cases current_event) (auto simp: opt_truthy_def)
  then have strip: "trim source_event = source_event" "trim ?event = ?event" "map trim (sorted_set revoked) = sorted_set revoked"
    using texts clean_sorted_set[of revoked] by (simp_all add: cleanD)
  obtain draft d where make: "make_facts \<lparr>ff_source_event_sha256 = source_event, ff_source_status = source_status,
           ff_current_event_sha256 = ?event, ff_current_status = ?status,
           ff_freshness_status = authorization_freshness source_event source_status ?event ?status,
           ff_revoked_evidence_refs = sorted_set revoked, ff_facts_sha256 = zero_sha\<rparr> = Inr draft"
    and d: "belief_digest C ''VDG_SOURCE_AUTHORIZATION_FRESHNESS_FACTS_V2'' (JObj (facts_fields draft)) = Inr d"
    and f: "f = draft\<lparr>ff_facts_sha256 := d\<rparr>"
    using build by (auto simp: build_freshness_facts_def Let_def)
  have draft: "draft = \<lparr>ff_source_event_sha256 = source_event, ff_source_status = source_status,
           ff_current_event_sha256 = ?event, ff_current_status = ?status,
           ff_freshness_status = authorization_freshness source_event source_status ?event ?status,
           ff_revoked_evidence_refs = sorted_set revoked, ff_facts_sha256 = zero_sha\<rparr>"
    using make strip cleanD[OF clean_zero_sha] by (simp add: make_facts_def Let_def)
  show "verify_freshness_facts C f = Inr ()" using d by (simp add: verify_freshness_facts_def f) (simp add: draft)
  show "ff_revoked_evidence_refs f = sorted_set revoked" "ff_source_status f = source_status"
    by (simp_all add: f draft)
qed

lemma facts_digest_clean: "hex_digests C \<Longrightarrow> verify_freshness_facts C f = Inr () \<Longrightarrow> clean (ff_facts_sha256 f)"
  by (auto simp: verify_freshness_facts_def dest: belief_digest_hex)

lemma set_refs_of: "set (refs_of r edges) \<subseteq> ee_evidence_ref ` set edges"
  by (auto simp: refs_of_def)

text \<open>The digests of the edges, in the order of the edges.\<close>

abbreviation edge_digest :: "crypto \<Rightarrow> evidence_edge \<Rightarrow> belief_error + string" where
  "edge_digest C e \<equiv> belief_digest C ''VDG_INCIDENT_EVIDENCE_EDGE_V2'' (ee_dump e)"

lemma build_snapshot_verifies:
  assumes build: "build_belief_snapshot C case_id h edges bundle facts = Inr b" and hex: "hex_digests C"
    and texts: "list_all clean ([case_id, bundle, hy_hypothesis_id h] @ hy_unresolved_evidence_refs h @ map ee_evidence_ref edges)"
    and dis: "distinct (map (edge_digest C) edges)"
  shows "verify_belief_snapshot C facts b = Inr ()" and "eb_hypothesis_id b = hy_hypothesis_id h"
    and "eb_case_id b = case_id" and "eb_bundle_sha256 b = bundle"
    and "set (eb_supporting_refs b) = set (refs_of ''SUPPORTS'' edges)"
    and "set (eb_contradicting_refs b) = set (refs_of ''CONTRADICTS'' edges)"
    and "set (eb_unresolved_refs b) = set (refs_of ''UNRESOLVED'' edges)
      \<union> (if hy_status h = ''REJECTED'' then {} else set (hy_unresolved_evidence_refs h))"
proof -
  let ?edges = "sort_key edge_key edges"
  let ?s = "sorted_set (refs_of ''SUPPORTS'' ?edges)" and ?c = "sorted_set (refs_of ''CONTRADICTS'' ?edges)"
  let ?u = "sorted_set (refs_of ''UNRESOLVED'' ?edges @ (if hy_status h \<noteq> ''REJECTED'' then hy_unresolved_evidence_refs h else []))"
  obtain hs shas derived draft d where facts: "verify_freshness_facts C facts = Inr ()"
    and hs: "belief_digest C ''VDG_INCIDENT_HYPOTHESIS_V2'' (hy_dump h) = Inr hs"
    and shas: "rmap (edge_digest C) ?edges = Inr shas"
    and der: "belief_digest C ''VDG_DERIVED_EVIDENCE_V2''
        (derived_payload case_id bundle (ff_facts_sha256 facts) hs (sort shas)) = Inr derived"
    and make: "make_snapshot \<lparr>eb_case_id = case_id, eb_hypothesis_id = hy_hypothesis_id h,
            eb_hypothesis_status = hy_status h, eb_support_status = support_status_of (hy_status h) ?s ?c ?u,
            eb_freshness_status = snapshot_freshness facts (?s @ ?c @ ?u),
            eb_supporting_refs = ?s, eb_contradicting_refs = ?c, eb_unresolved_refs = ?u,
            eb_unresolved_count = length ?u, eb_bundle_sha256 = bundle,
            eb_facts_sha256 = ff_facts_sha256 facts, eb_hypothesis_sha256 = hs,
            eb_edge_sha256s = sort shas, eb_derived_sha256 = derived, eb_snapshot_sha256 = zero_sha\<rparr> = Inr draft"
    and d: "belief_digest C ''VDG_EVIDENCE_BELIEF_SNAPSHOT_V2'' (JObj (snapshot_fields draft)) = Inr d"
    and b: "b = draft\<lparr>eb_snapshot_sha256 := d\<rparr>"
    using build by (auto simp: build_belief_snapshot_def Let_def)
  have refs: "list_all clean (refs_of r ?edges)" for r
    using texts set_refs_of[of r ?edges] by (auto simp: list_all_iff)
  have u: "list_all clean (refs_of ''UNRESOLVED'' ?edges @ (if hy_status h \<noteq> ''REJECTED'' then hy_unresolved_evidence_refs h else []))"
    using refs texts by simp
  have "list_all clean shas" using shas by (auto simp: list_all_iff rmap_set_iff dest: belief_digest_hex[OF hex])
  then have strip: "map trim ?s = ?s" "map trim ?c = ?c" "map trim ?u = ?u" "map trim (sort shas) = sort shas"
    using clean_sorted_set[OF refs] clean_sorted_set[OF u] map_trim_clean[of "sort shas"] by (simp_all add: list_all_iff)
  have sha: "distinct shas" using rmap_distinct[OF shas] dis by (simp add: distinct_map inj_on_def)
  have draft: "draft = \<lparr>eb_case_id = case_id, eb_hypothesis_id = hy_hypothesis_id h,
            eb_hypothesis_status = hy_status h, eb_support_status = support_status_of (hy_status h) ?s ?c ?u,
            eb_freshness_status = snapshot_freshness facts (?s @ ?c @ ?u),
            eb_supporting_refs = ?s, eb_contradicting_refs = ?c, eb_unresolved_refs = ?u,
            eb_unresolved_count = length ?u, eb_bundle_sha256 = bundle,
            eb_facts_sha256 = ff_facts_sha256 facts, eb_hypothesis_sha256 = hs,
            eb_edge_sha256s = sort shas, eb_derived_sha256 = derived, eb_snapshot_sha256 = zero_sha\<rparr>"
    using make strip texts facts_digest_clean[OF hex facts] belief_digest_hex[OF hex hs] belief_digest_hex[OF hex der] clean_zero_sha
    by (simp add: make_snapshot_def Let_def cleanD)
  show "verify_belief_snapshot C facts b = Inr ()"
    using facts der d sha by (simp add: verify_belief_snapshot_def b) (simp add: draft)
  show "eb_hypothesis_id b = hy_hypothesis_id h" "eb_case_id b = case_id" "eb_bundle_sha256 b = bundle"
    by (simp_all add: b draft)
  show "set (eb_supporting_refs b) = set (refs_of ''SUPPORTS'' edges)"
    "set (eb_contradicting_refs b) = set (refs_of ''CONTRADICTS'' edges)"
    "set (eb_unresolved_refs b) = set (refs_of ''UNRESOLVED'' edges)
      \<union> (if hy_status h = ''REJECTED'' then {} else set (hy_unresolved_evidence_refs h))"
    by (simp_all add: b draft refs_of_def)
qed

text \<open>Inputs out of stripping models.\<close>

definition clean_inputs ::
    "string \<Rightarrow> string \<Rightarrow> hypothesis list \<Rightarrow> evidence_edge list \<Rightarrow> string \<Rightarrow> string option \<Rightarrow> string list \<Rightarrow> bool" where
  "clean_inputs case_id bundle hs edges source_event current_event revoked \<longleftrightarrow>
     list_all clean ([case_id, bundle, source_event] @ revoked @ map ee_evidence_ref edges)
     \<and> list_all (\<lambda>h. clean (hy_hypothesis_id h) \<and> list_all clean (hy_unresolved_evidence_refs h)) hs
     \<and> pred_option clean current_event"

lemma freshness_current_iff:
  "authorization_freshness se ss ce cs = FreshCurrent \<longleftrightarrow> ss = AuthActive \<and> cs = AuthActive \<and> se = ce"
  by (cases ss; cases cs) (simp_all add: authorization_freshness_def)

section \<open>A small ledger\<close>

text \<open>Digests that tell one edge from the others.\<close>

definition belief_crypto :: crypto where
  "belief_crypto = toy_crypto\<lparr>
     jcs := (\<lambda>v. case v of JObj [_, (_, JStr p)] \<Rightarrow> Some p | _ \<Rightarrow> Some ''x''),
     sha256 := (\<lambda>b. if b = ''e1'' then replicate 64 (CHR ''1'') else zero_sha)\<rparr>"

lemma belief_hex_digests: "hex_digests belief_crypto"
proof -
  have "is_sha256 zero_sha" "is_sha256 (replicate 64 (CHR ''1''))" by code_simp+
  then show ?thesis by (simp add: hex_digests_def belief_crypto_def)
qed

definition demo_case_id :: string where
  "demo_case_id = ''incident_0123456789abcdef0123''"

definition demo_hypotheses :: "hypothesis list" where
  "demo_hypotheses =
     [\<lparr>hy_hypothesis_id = ''h2'', hy_status = ''PLAUSIBLE'', hy_supporting_issue_codes = [], hy_contradicting_issue_codes = [],
       hy_unresolved_evidence_refs = [''ev9''], hy_dump = JStr ''h2''\<rparr>,
      \<lparr>hy_hypothesis_id = ''h1'', hy_status = ''SUPPORTED'', hy_supporting_issue_codes = [''BLUR''],
       hy_contradicting_issue_codes = [], hy_unresolved_evidence_refs = [], hy_dump = JStr ''h1''\<rparr>]"

definition demo_edges :: "evidence_edge list" where
  "demo_edges =
     [\<lparr>ee_edge_id = ''e1'', ee_hypothesis_id = ''h1'', ee_relation = ''SUPPORTS'', ee_evidence_ref = ''ev1'',
       ee_issue_code = Some ''BLUR'', ee_dump = JStr ''e1''\<rparr>,
      \<lparr>ee_edge_id = ''e2'', ee_hypothesis_id = ''h2'', ee_relation = ''UNRESOLVED'', ee_evidence_ref = ''ev2'',
       ee_issue_code = None, ee_dump = JStr ''e2''\<rparr>]"

abbreviation demo_belief_ledger :: "belief_error + belief_ledger" where
  "demo_belief_ledger \<equiv> build_belief_ledger belief_crypto demo_case_id zero_sha demo_hypotheses demo_edges zero_sha AuthActive
     None None [''ev9'']"

lemma demo_ledger_ok:
  "\<exists>l. demo_belief_ledger = Inr l \<and> verify_belief_ledger belief_crypto l = Inr () \<and> el_snapshots l \<noteq> []
     \<and> ff_source_status (el_facts l) = AuthActive \<and> ff_current_status (el_facts l) = AuthActive
     \<and> ff_source_event_sha256 (el_facts l) = ff_current_event_sha256 (el_facts l)
     \<and> ff_revoked_evidence_refs (el_facts l) = [''ev9''] \<and> eb_supporting_refs (hd (el_snapshots l)) = [''ev1'']
     \<and> eb_contradicting_refs (hd (el_snapshots l)) = [] \<and> eb_unresolved_refs (hd (el_snapshots l)) = []"
proof -
  have "case demo_belief_ledger of Inl _ \<Rightarrow> False
      | Inr l \<Rightarrow> verify_belief_ledger belief_crypto l = Inr () \<and> el_snapshots l \<noteq> []
          \<and> ff_source_status (el_facts l) = AuthActive \<and> ff_current_status (el_facts l) = AuthActive
          \<and> ff_source_event_sha256 (el_facts l) = ff_current_event_sha256 (el_facts l)
          \<and> ff_revoked_evidence_refs (el_facts l) = [''ev9''] \<and> eb_supporting_refs (hd (el_snapshots l)) = [''ev1'']
          \<and> eb_contradicting_refs (hd (el_snapshots l)) = [] \<and> eb_unresolved_refs (hd (el_snapshots l)) = []" by code_simp
  then show ?thesis by (auto split: sum.splits)
qed

lemma demo_ledger_ids: "demo_belief_ledger = Inr l \<Longrightarrow> map eb_hypothesis_id (el_snapshots l) = [''h1'', ''h2'']"
proof -
  assume l: "demo_belief_ledger = Inr l"
  have "case demo_belief_ledger of Inl _ \<Rightarrow> False | Inr l \<Rightarrow> map eb_hypothesis_id (el_snapshots l) = [''h1'', ''h2'']"
    by code_simp
  then show ?thesis by (simp add: l)
qed

section \<open>Properties\<close>

text \<open>A ledger that was built verifies. It has one snapshot per hypothesis, in the order of their identifiers, whose
  references are exactly those of the edges of the hypothesis (and, unless it is rejected, its own open references).
  The inputs are stripped and no two edges have the same digest.\<close>

theorem belief_ledger_verifies:
  assumes "hex_digests C" and "clean_inputs case_id bundle hs edges source_event current_event revoked"
    and "distinct (map (edge_digest C) edges)"
    and "build_belief_ledger C case_id bundle hs edges source_event source_status current_event current_status revoked = Inr l"
  shows "verify_belief_ledger C l = Inr () \<and> map eb_hypothesis_id (el_snapshots l) = sort (map hy_hypothesis_id hs)
    \<and> (\<forall>h\<in>set hs. \<exists>b\<in>set (el_snapshots l). eb_hypothesis_id b = hy_hypothesis_id h
         \<and> (let own = filter (\<lambda>e. ee_hypothesis_id e = hy_hypothesis_id h) edges in
             set (eb_supporting_refs b) = set (refs_of ''SUPPORTS'' own)
           \<and> set (eb_contradicting_refs b) = set (refs_of ''CONTRADICTS'' own)
           \<and> set (eb_unresolved_refs b) = set (refs_of ''UNRESOLVED'' own)
               \<union> (if hy_status h = ''REJECTED'' then {} else set (hy_unresolved_evidence_refs h))))"
proof -
  let ?hs = "sort_key hy_hypothesis_id hs"
  let ?own = "\<lambda>h. filter (\<lambda>e. ee_hypothesis_id e = hy_hypothesis_id h) edges"
  obtain facts snaps hp ep draft d where ids: "distinct (map hy_hypothesis_id ?hs)"
    and facts: "build_freshness_facts C source_event source_status current_event current_status revoked = Inr facts"
    and snaps: "rmap (\<lambda>h. build_belief_snapshot C case_id h (?own h) bundle facts) ?hs = Inr snaps"
    and hp: "belief_digest C ''VDG_HYPOTHESIS_PROJECTION_V2'' (JStrs (map eb_hypothesis_sha256 snaps)) = Inr hp"
    and ep: "belief_digest C ''VDG_EVIDENCE_EDGE_PROJECTION_V2'' (JStrs (sort (concat (map eb_edge_sha256s snaps)))) = Inr ep"
    and make: "make_ledger \<lparr>el_case_id = case_id, el_bundle_sha256 = bundle, el_facts = facts,
            el_hypothesis_count = length snaps, el_edge_count = length (sort (concat (map eb_edge_sha256s snaps))),
            el_hypothesis_projection_sha256 = hp, el_edge_projection_sha256 = ep, el_snapshots = snaps,
            el_ledger_sha256 = zero_sha\<rparr> = Inr draft"
    and d: "belief_digest C ''VDG_EVIDENCE_BELIEF_LEDGER_V2'' (ledger_payload draft) = Inr d"
    and l: "l = draft\<lparr>el_ledger_sha256 := d\<rparr>"
    using assms(4) by (auto simp: build_belief_ledger_def Let_def)
  have draft: "draft = \<lparr>el_case_id = case_id, el_bundle_sha256 = bundle, el_facts = facts,
            el_hypothesis_count = length snaps, el_edge_count = length (sort (concat (map eb_edge_sha256s snaps))),
            el_hypothesis_projection_sha256 = hp, el_edge_projection_sha256 = ep, el_snapshots = snaps,
            el_ledger_sha256 = zero_sha\<rparr>"
    using make assms(2) belief_digest_hex[OF assms(1) hp] belief_digest_hex[OF assms(1) ep] clean_zero_sha
    by (simp add: make_ledger_def Let_def cleanD clean_inputs_def)
  have vf: "verify_freshness_facts C facts = Inr ()"
    using build_facts_verifies(1)[OF facts] assms(2) by (auto simp: clean_inputs_def list_all_iff)
  have each: "verify_belief_snapshot C facts b = Inr () \<and> eb_hypothesis_id b = hy_hypothesis_id h \<and> eb_case_id b = case_id
      \<and> eb_bundle_sha256 b = bundle \<and> set (eb_supporting_refs b) = set (refs_of ''SUPPORTS'' (?own h))
      \<and> set (eb_contradicting_refs b) = set (refs_of ''CONTRADICTS'' (?own h))
      \<and> set (eb_unresolved_refs b) = set (refs_of ''UNRESOLVED'' (?own h))
          \<union> (if hy_status h = ''REJECTED'' then {} else set (hy_unresolved_evidence_refs h))"
    if "h \<in> set hs" "build_belief_snapshot C case_id h (?own h) bundle facts = Inr b" for h b
  proof -
    have "list_all clean ([case_id, bundle, hy_hypothesis_id h] @ hy_unresolved_evidence_refs h @ map ee_evidence_ref (?own h))"
      using assms(2) that(1) by (auto simp: clean_inputs_def list_all_iff)
    moreover have "distinct (map (edge_digest C) (?own h))" using assms(3) by (simp add: distinct_map inj_on_def)
    ultimately show ?thesis using build_snapshot_verifies[OF that(2) assms(1)] by blast
  qed
  have la: "list_all2 (\<lambda>h b. build_belief_snapshot C case_id h (?own h) bundle facts = Inr b) ?hs snaps"
    using snaps by (simp add: rmap_Inr_conv)
  then have "list_all2 (\<lambda>h b. hy_hypothesis_id h = eb_hypothesis_id b) ?hs snaps"
    by (rule list.rel_mono_strong) (use each in auto)
  then have hids: "map eb_hypothesis_id snaps = map hy_hypothesis_id ?hs"
    by (simp add: list_all2_conv_all_nth list_eq_iff_nth_eq)
  have order: "sorted (map eb_hypothesis_id snaps)" "distinct (map eb_hypothesis_id snaps)"
    unfolding hids using ids by simp_all
  have good: "verify_belief_snapshot C facts b = Inr () \<and> eb_case_id b = case_id \<and> eb_bundle_sha256 b = bundle"
    if b: "b \<in> set snaps" for b
  proof -
    obtain h where "h \<in> set hs" "build_belief_snapshot C case_id h (?own h) bundle facts = Inr b"
      using b rmap_set_iff[OF snaps, of b] by auto
    from each[OF this] show ?thesis by blast
  qed
  have fields: "el_facts l = facts" "el_snapshots l = snaps" "el_case_id l = case_id" "el_bundle_sha256 l = bundle"
    "el_hypothesis_count l = length snaps" "el_edge_count l = length (sort (concat (map eb_edge_sha256s snaps)))"
    "el_hypothesis_projection_sha256 l = hp" "el_edge_projection_sha256 l = ep" "el_ledger_sha256 l = d"
    by (simp_all add: l draft)
  have "belief_digest C ''VDG_EVIDENCE_BELIEF_LEDGER_V2'' (ledger_payload l) = Inr d" using d by (simp add: l)
  then have "verify_belief_ledger C l = Inr ()"
    using vf hp ep order good by (simp add: verify_belief_ledger_def Let_def fields)
  moreover have "map eb_hypothesis_id (el_snapshots l) = sort (map hy_hypothesis_id hs)"
    using hids by (simp add: l draft map_sort_key)
  moreover have "\<exists>b\<in>set (el_snapshots l). eb_hypothesis_id b = hy_hypothesis_id h
         \<and> (let own = ?own h in set (eb_supporting_refs b) = set (refs_of ''SUPPORTS'' own)
           \<and> set (eb_contradicting_refs b) = set (refs_of ''CONTRADICTS'' own)
           \<and> set (eb_unresolved_refs b) = set (refs_of ''UNRESOLVED'' own)
               \<union> (if hy_status h = ''REJECTED'' then {} else set (hy_unresolved_evidence_refs h)))"
    if h: "h \<in> set hs" for h
  proof -
    obtain b where b: "b \<in> set (el_snapshots l)" "build_belief_snapshot C case_id h (?own h) bundle facts = Inr b"
      using list_all2_image[OF la, of h] h by (auto simp: fields)
    from each[OF h b(2)] show ?thesis using b(1) by (intro bexI[of _ b]) (simp_all add: Let_def)
  qed
  ultimately show ?thesis by (intro conjI ballI) simp_all
qed

text \<open>C26: in a ledger that verifies, whoever built it, evidence is current exactly when the authorization was and is active, its
  event did not change and no reference was revoked; after a revocation nothing is current. A hypothesis is supported
  exactly when something supports it and nothing contradicts it.\<close>

theorem verified_beliefs_are_justified:
  assumes "verify_belief_ledger C l = Inr ()" and "b \<in> set (el_snapshots l)"
  shows "(eb_freshness_status b = FreshCurrent \<longleftrightarrow>
        ff_source_status (el_facts l) = AuthActive \<and> ff_current_status (el_facts l) = AuthActive
        \<and> ff_source_event_sha256 (el_facts l) = ff_current_event_sha256 (el_facts l)
        \<and> set (eb_supporting_refs b @ eb_contradicting_refs b @ eb_unresolved_refs b)
            \<inter> set (ff_revoked_evidence_refs (el_facts l)) = {})
    \<and> (AuthRevoked \<in> {ff_source_status (el_facts l), ff_current_status (el_facts l)} \<longrightarrow>
        eb_freshness_status b = FreshRevoked)
    \<and> (eb_support_status b = Supported \<longleftrightarrow> eb_supporting_refs b \<noteq> [] \<and> eb_contradicting_refs b = [])
    \<and> (eb_support_status b = NotSupported \<longleftrightarrow> eb_supporting_refs b = [] \<and> eb_contradicting_refs b = []
        \<and> eb_unresolved_refs b = [] \<and> eb_hypothesis_status b \<notin> {''PLAUSIBLE'', ''UNRESOLVED''})"
proof -
  let ?f = "el_facts l"
  have f: "ff_freshness_status ?f = authorization_freshness (ff_source_event_sha256 ?f) (ff_source_status ?f)
      (ff_current_event_sha256 ?f) (ff_current_status ?f)"
    using assms(1) by (auto simp: verify_belief_ledger_def verify_freshness_facts_def)
  have v: "verify_belief_snapshot C ?f b = Inr ()" using assms by (auto simp: verify_belief_ledger_def Let_def)
  then have fresh: "eb_freshness_status b = snapshot_freshness ?f (eb_supporting_refs b @ eb_contradicting_refs b @ eb_unresolved_refs b)"
    and supp: "eb_support_status b = support_status_of (eb_hypothesis_status b) (eb_supporting_refs b)
         (eb_contradicting_refs b) (eb_unresolved_refs b)"
    by (simp_all add: verify_belief_snapshot_def)
  have cur: "ff_freshness_status ?f = FreshCurrent \<longleftrightarrow> ff_source_status ?f = AuthActive \<and> ff_current_status ?f = AuthActive
      \<and> ff_source_event_sha256 ?f = ff_current_event_sha256 ?f"
    unfolding f by (rule freshness_current_iff)
  have "eb_freshness_status b = FreshCurrent \<longleftrightarrow> ff_freshness_status ?f = FreshCurrent
      \<and> set (eb_supporting_refs b @ eb_contradicting_refs b @ eb_unresolved_refs b) \<inter> set (ff_revoked_evidence_refs ?f) = {}"
    unfolding fresh snapshot_freshness_def list_ex_iff by auto
  moreover have "eb_freshness_status b = FreshRevoked" if "AuthRevoked \<in> {ff_source_status ?f, ff_current_status ?f}"
    using that by (auto simp: fresh snapshot_freshness_def f authorization_freshness_def)
  moreover have "eb_support_status b = Supported \<longleftrightarrow> eb_supporting_refs b \<noteq> [] \<and> eb_contradicting_refs b = []"
    by (simp add: supp support_status_of_def)
  moreover have "eb_support_status b = NotSupported \<longleftrightarrow> eb_supporting_refs b = [] \<and> eb_contradicting_refs b = []
        \<and> eb_unresolved_refs b = [] \<and> eb_hypothesis_status b \<notin> {''PLAUSIBLE'', ''UNRESOLVED''}"
    by (simp add: supp support_status_of_def)
  ultimately show ?thesis unfolding cur by simp
qed

theorem verified_beliefs_are_justified_witness:
  "\<exists>l b. demo_belief_ledger = Inr l \<and> b \<in> set (el_snapshots l) \<and> eb_support_status b = Supported
     \<and> eb_freshness_status b = FreshCurrent"
proof -
  obtain l where l: "demo_belief_ledger = Inr l" "verify_belief_ledger belief_crypto l = Inr ()" "el_snapshots l \<noteq> []"
    "ff_source_status (el_facts l) = AuthActive" "ff_current_status (el_facts l) = AuthActive"
    "ff_source_event_sha256 (el_facts l) = ff_current_event_sha256 (el_facts l)"
    "ff_revoked_evidence_refs (el_facts l) = [''ev9'']" "eb_supporting_refs (hd (el_snapshots l)) = [''ev1'']"
    "eb_contradicting_refs (hd (el_snapshots l)) = []" "eb_unresolved_refs (hd (el_snapshots l)) = []"
    using demo_ledger_ok by blast
  have b: "hd (el_snapshots l) \<in> set (el_snapshots l)" using l(3) by simp
  show ?thesis
    using verified_beliefs_are_justified[OF l(2) b] l b
    by (intro exI[of _ l] exI[of _ "hd (el_snapshots l)"]) simp
qed

end
