(* ===== verification/Incident_Kernel.thy ===== *)
theory Incident_Kernel
  imports Evidence_State Worker_Selection
begin

text \<open>
  \<open>incident_agent_kernel.py\<close>: the receipts that bound an incident agent. A resumed case reassesses the freshness of its parent's
  beliefs, the selected workers are put in an order that respects their dependencies, and the council classifies the evidence
  before the judge. Digests are taken in a length-prefixed frame. A dependency map is the function of its \<open>get\<close> with default
  \<open>()\<close>. The guard of the optional planner is modelled in \<open>Incident_Wave\<close>.
\<close>

section \<open>Digests\<close>

datatype kernel_error =
    KernelNotCanonical | KernelOverflow | KernelConstraint
  | InLedger belief_error | InSelection selection_error
  | RevisionOrder | RevisionDisposition | RevisionDrift | RevisionDigest
  | DuplicatePriority | UnknownPriority "string list" | SelfDependency | UnknownDependency "string list"
  | DependencyCycle | MissingRank string
  | DuplicateNodes | PlanCoverage | MissingNode string | BarrierViolated | BarrierCount | PriorityEscaped | PlanDigest | PlanDiverged
  | DuplicateRoles | ExaminationOrder | ReceiptOrder | FailedOrder | ConflictCount | UnresolvedCount
  | MustFailClosed | CouncilDigest

definition KERNEL_MAGIC :: string where
  "KERNEL_MAGIC = ''VDG_AGENT_KERNEL_V1'' @ [CHR 0x00]"

definition kernel_frame :: "string \<Rightarrow> string \<Rightarrow> string option" where
  "kernel_frame domain payload =
     (case (to_bytes 2 (length domain) , to_bytes 8 (length payload)) of
        (Some d, Some p) \<Rightarrow> Some (KERNEL_MAGIC @ d @ domain @ p @ payload)
      | _ \<Rightarrow> None)"

definition kernel_digest :: "crypto \<Rightarrow> string \<Rightarrow> json \<Rightarrow> kernel_error + string" where
  "kernel_digest C domain v =
     rbind (of_opt KernelNotCanonical (jcs C v)) (\<lambda>payload.
     rbind (of_opt KernelOverflow (kernel_frame domain payload)) (\<lambda>framed. Inr (sha256 C framed)))"

section \<open>Belief revision\<close>

datatype revision_disposition = DispCurrent | StaleReplanRequired | RevokedFailClosed | UnknownFailClosed | DispNotApplicable

fun disposition_text :: "revision_disposition \<Rightarrow> string" where
  "disposition_text DispCurrent = ''CURRENT''"
| "disposition_text StaleReplanRequired = ''STALE_REPLAN_REQUIRED''"
| "disposition_text RevokedFailClosed = ''REVOKED_FAIL_CLOSED''"
| "disposition_text UnknownFailClosed = ''UNKNOWN_FAIL_CLOSED''"
| "disposition_text DispNotApplicable = ''NOT_APPLICABLE''"

record freshness_transition =
  ft_hypothesis_id :: string
  ft_previous_freshness :: freshness_status
  ft_effective_freshness :: freshness_status
  ft_reason_codes :: "string list"

record revision_receipt =
  rr_parent_case_id :: string
  rr_parent_case_sha256 :: string
  rr_source_ledger_sha256 :: string
  rr_observed_event_sha256 :: string
  rr_observed_status :: authorization_status
  rr_observed_bundle_sha256 :: string
  rr_event_changed :: bool
  rr_bundle_changed :: bool
  rr_transitions :: "freshness_transition list"
  rr_disposition :: revision_disposition
  rr_fresh_replan_required :: bool
  rr_fail_closed :: bool
  rr_receipt_sha256 :: string

definition revision_claim_boundary :: string where
  "revision_claim_boundary = ''This receipt revises only evidence freshness against the observed source epoch. It does not mutate the parent Case, establish root cause, or grant production authority.''"

definition transition_json :: "freshness_transition \<Rightarrow> json" where
  "transition_json t = JObj
     [(''hypothesis_id'', JStr (ft_hypothesis_id t)),
      (''previous_freshness'', JStr (freshness_str (ft_previous_freshness t))),
      (''effective_freshness'', JStr (freshness_str (ft_effective_freshness t))),
      (''reason_codes'', JStrs (ft_reason_codes t))]"

definition revision_payload :: "revision_receipt \<Rightarrow> json" where
  "revision_payload r = JObj
     [(''schema_version'', JStr ''visiondata-gate.evidence-belief-revision-receipt.v1''),
      (''parent_case_id'', JStr (rr_parent_case_id r)), (''parent_case_sha256'', JStr (rr_parent_case_sha256 r)),
      (''source_ledger_sha256'', JStr (rr_source_ledger_sha256 r)),
      (''observed_authorization_event_sha256'', JStr (rr_observed_event_sha256 r)),
      (''observed_authorization_status'', JStr (authorization_str (rr_observed_status r))),
      (''observed_evidence_bundle_sha256'', JStr (rr_observed_bundle_sha256 r)),
      (''authorization_event_changed'', JBool (rr_event_changed r)),
      (''evidence_bundle_changed'', JBool (rr_bundle_changed r)),
      (''transitions'', JArr (map transition_json (rr_transitions r))),
      (''disposition'', JStr (disposition_text (rr_disposition r))),
      (''fresh_replan_required'', JBool (rr_fresh_replan_required r)), (''fail_closed'', JBool (rr_fail_closed r)),
      (''claim_boundary'', JStr revision_claim_boundary)]"

definition make_revision :: "revision_receipt \<Rightarrow> kernel_error + revision_receipt" where
  "make_revision raw =
     (let r = raw\<lparr>rr_parent_case_id := trim (rr_parent_case_id raw),
                rr_parent_case_sha256 := trim (rr_parent_case_sha256 raw),
                rr_source_ledger_sha256 := trim (rr_source_ledger_sha256 raw),
                rr_observed_event_sha256 := trim (rr_observed_event_sha256 raw),
                rr_observed_bundle_sha256 := trim (rr_observed_bundle_sha256 raw),
                rr_receipt_sha256 := trim (rr_receipt_sha256 raw)\<rparr> in
      rbind (require (is_case_id (rr_parent_case_id r) \<and> is_sha256 (rr_parent_case_sha256 r)
         \<and> is_sha256 (rr_source_ledger_sha256 r) \<and> is_sha256 (rr_observed_event_sha256 r)
         \<and> is_sha256 (rr_observed_bundle_sha256 r) \<and> rr_transitions r \<noteq> [] \<and> is_sha256 (rr_receipt_sha256 r))
         KernelConstraint) (\<lambda>_. Inr r))"

definition make_transition :: "freshness_transition \<Rightarrow> kernel_error + freshness_transition" where
  "make_transition raw =
     (let t = raw\<lparr>ft_hypothesis_id := trim (ft_hypothesis_id raw), ft_reason_codes := map trim (ft_reason_codes raw)\<rparr> in
      rbind (require (ft_hypothesis_id t \<noteq> [] \<and> ft_reason_codes t \<noteq> []) KernelConstraint) (\<lambda>_. Inr t))"

text \<open>The verdict on the whole ledger: effective freshness, disposition and whether to fail closed.\<close>

definition revision_verdict :: "authorization_status \<Rightarrow> bool \<Rightarrow> freshness_status \<times> revision_disposition \<times> bool" where
  "revision_verdict status changed =
     (if status = AuthRevoked then (FreshRevoked, RevokedFailClosed, True)
      else if status \<in> {AuthExpired, AuthUnavailable}
      then (if status = AuthExpired then FreshStale else FreshUnknown, UnknownFailClosed, True)
      else if status = AuthNotApplicable then (FreshUnknown, DispNotApplicable, False)
      else if changed then (FreshStale, StaleReplanRequired, False)
      else (FreshCurrent, DispCurrent, False))"

definition revision_reasons :: "authorization_status \<Rightarrow> bool \<Rightarrow> bool \<Rightarrow> string list" where
  "revision_reasons status event_changed bundle_changed =
     (case status of AuthRevoked \<Rightarrow> [''AUTHORIZATION_REVOKED''] | AuthExpired \<Rightarrow> [''AUTHORIZATION_EXPIRED'']
        | AuthUnavailable \<Rightarrow> [''AUTHORIZATION_UNAVAILABLE''] | AuthNotApplicable \<Rightarrow> [''AUTHORIZATION_NOT_APPLICABLE'']
        | AuthActive \<Rightarrow> [])
     @ (if event_changed then [''AUTHORIZATION_EVENT_CHANGED''] else [])
     @ (if bundle_changed then [''EVIDENCE_BUNDLE_CHANGED''] else [])"

definition revise_snapshot ::
    "authorization_status \<Rightarrow> bool \<Rightarrow> bool \<Rightarrow> belief_snapshot \<Rightarrow> kernel_error + freshness_transition" where
  "revise_snapshot status event_changed bundle_changed b =
     (let reasons = revision_reasons status event_changed bundle_changed;
          effective = fst (revision_verdict status (event_changed \<or> bundle_changed)) in
      make_transition
        \<lparr>ft_hypothesis_id = eb_hypothesis_id b, ft_previous_freshness = eb_freshness_status b,
         ft_effective_freshness = (if reasons = [] then eb_freshness_status b else effective),
         ft_reason_codes = sorted_set (if reasons = [] then [''SOURCE_EPOCH_UNCHANGED''] else reasons)\<rparr>)"

definition build_belief_revision_receipt ::
    "crypto \<Rightarrow> string \<Rightarrow> string \<Rightarrow> belief_ledger \<Rightarrow> string \<Rightarrow> authorization_status \<Rightarrow> string
       \<Rightarrow> kernel_error + revision_receipt" where
  "build_belief_revision_receipt C case_id case_sha ledger event status bundle =
     rbind (lift_err InLedger (verify_belief_ledger C ledger)) (\<lambda>_.
     (let event_changed = ff_current_event_sha256 (el_facts ledger) \<noteq> event;
          bundle_changed = el_bundle_sha256 ledger \<noteq> bundle;
          (_, disposition, fail_closed) = revision_verdict status (event_changed \<or> bundle_changed) in
      rbind (rmap (revise_snapshot status event_changed bundle_changed) (el_snapshots ledger)) (\<lambda>transitions.
      (let draft = \<lparr>rr_parent_case_id = case_id, rr_parent_case_sha256 = case_sha,
             rr_source_ledger_sha256 = el_ledger_sha256 ledger, rr_observed_event_sha256 = event,
             rr_observed_status = status, rr_observed_bundle_sha256 = bundle, rr_event_changed = event_changed,
             rr_bundle_changed = bundle_changed, rr_transitions = transitions, rr_disposition = disposition,
             rr_fresh_replan_required = (event_changed \<or> bundle_changed \<or> fail_closed), rr_fail_closed = fail_closed,
             rr_receipt_sha256 = []\<rparr> in
       rbind (kernel_digest C ''VDG_BELIEF_REVISION_RECEIPT_V1'' (revision_payload draft)) (\<lambda>d.
       make_revision (draft\<lparr>rr_receipt_sha256 := d\<rparr>))))))"

definition verify_belief_revision_receipt :: "crypto \<Rightarrow> revision_receipt \<Rightarrow> kernel_error + unit" where
  "verify_belief_revision_receipt C r =
     (let ids = map ft_hypothesis_id (rr_transitions r) in
      rbind (require (ids = sorted_set ids) RevisionOrder) (\<lambda>_.
      rbind (require (suffix ''FAIL_CLOSED'' (disposition_text (rr_disposition r)) = rr_fail_closed r)
        RevisionDisposition) (\<lambda>_.
      rbind (require (\<not> (rr_event_changed r \<or> rr_bundle_changed r) \<or> rr_fresh_replan_required r) RevisionDrift) (\<lambda>_.
      rbind (kernel_digest C ''VDG_BELIEF_REVISION_RECEIPT_V1'' (revision_payload r)) (\<lambda>d.
      require (rr_receipt_sha256 r = d) RevisionDigest)))))"

section \<open>The execution plan\<close>

record plan_node =
  pn_worker_id :: string
  pn_selection_rank :: int
  pn_dependency_worker_ids :: "string list"

record plan_receipt =
  pl_selection_receipt_sha256 :: string
  pl_worker_budget :: int
  pl_requested_priority_order :: "string list"
  pl_nodes :: "plan_node list"
  pl_execution_order :: "string list"
  pl_dependency_barrier_count :: nat
  pl_receipt_sha256 :: string

definition plan_payload :: "plan_receipt \<Rightarrow> json" where
  "plan_payload r = JObj
     [(''schema_version'', JStr ''visiondata-gate.worker-execution-plan-receipt.v1''),
      (''selection_receipt_sha256'', JStr (pl_selection_receipt_sha256 r)),
      (''worker_budget'', JInt (pl_worker_budget r)),
      (''requested_priority_order'', JStrs (pl_requested_priority_order r)),
      (''nodes'', JArr (map (\<lambda>n. JObj
         [(''worker_id'', JStr (pn_worker_id n)), (''selection_rank'', JInt (pn_selection_rank n)),
          (''dependency_worker_ids'', JStrs (pn_dependency_worker_ids n)),
          (''requires_successful_dependencies'', JBool True)]) (pl_nodes r))),
      (''execution_order'', JStrs (pl_execution_order r)),
      (''dependency_barrier_count'', JInt (int (pl_dependency_barrier_count r)))]"

definition make_node :: "plan_node \<Rightarrow> kernel_error + plan_node" where
  "make_node raw =
     (let n = raw\<lparr>pn_worker_id := trim (pn_worker_id raw),
                pn_dependency_worker_ids := map trim (pn_dependency_worker_ids raw)\<rparr> in
      rbind (require (pn_worker_id n \<noteq> [] \<and> 1 \<le> pn_selection_rank n) KernelConstraint) (\<lambda>_. Inr n))"

definition make_plan :: "plan_receipt \<Rightarrow> kernel_error + plan_receipt" where
  "make_plan raw =
     (let r = raw\<lparr>pl_selection_receipt_sha256 := trim (pl_selection_receipt_sha256 raw),
                pl_requested_priority_order := map trim (pl_requested_priority_order raw),
                pl_execution_order := map trim (pl_execution_order raw),
                pl_receipt_sha256 := trim (pl_receipt_sha256 raw)\<rparr> in
      rbind (require (is_sha256 (pl_selection_receipt_sha256 r) \<and> 0 \<le> pl_worker_budget r
         \<and> is_sha256 (pl_receipt_sha256 r)) KernelConstraint) (\<lambda>_. Inr r))"

text \<open>The loop: the first worker in scheduling order that is not done and whose dependencies are.\<close>

definition ready :: "(string \<Rightarrow> string list) \<Rightarrow> string list \<Rightarrow> string list \<Rightarrow> string \<Rightarrow> bool" where
  "ready deps remaining completed w \<longleftrightarrow> w \<in> set remaining \<and> list_all (\<lambda>d. d \<in> set completed) (deps w)"

function schedule ::
    "string list \<Rightarrow> (string \<Rightarrow> string list) \<Rightarrow> string list \<Rightarrow> string list \<Rightarrow> kernel_error + string list" where
  "schedule order deps remaining completed =
     (if remaining = [] then Inr completed
      else case find (ready deps remaining completed) order of
        None \<Rightarrow> Inl DependencyCycle
      | Some w \<Rightarrow> schedule order deps (removeAll w remaining) (completed @ [w]))"
  by pat_completeness auto

termination
proof (relation "measure (\<lambda>(order, deps, remaining, completed). length remaining)")
  fix order deps remaining completed w
  assume "find (ready deps remaining completed) order = Some w"
  then have "w \<in> set remaining" by (auto simp: find_Some_iff ready_def)
  then show "((order, deps, removeAll w remaining, completed @ [w]), order, deps, remaining, completed)
      \<in> measure (\<lambda>(order, deps, remaining, completed). length remaining)"
    by (simp add: length_removeAll_less)
qed simp

declare schedule.simps [simp del]

lemma schedule_Nil [simp]: "schedule order deps [] completed = Inr completed"
  by (simp add: schedule.simps)

lemma schedule_step: "remaining \<noteq> [] \<Longrightarrow> schedule order deps remaining completed =
   (case find (ready deps remaining completed) order of None \<Rightarrow> Inl DependencyCycle
    | Some w \<Rightarrow> schedule order deps (removeAll w remaining) (completed @ [w]))"
  by (subst schedule.simps) simp

lemma schedule_code [code]:
  "schedule order deps [] completed = Inr completed"
  "schedule order deps (r # rs) completed =
     (case find (ready deps (r # rs) completed) order of None \<Rightarrow> Inl DependencyCycle
      | Some w \<Rightarrow> schedule order deps (removeAll w (r # rs)) (completed @ [w]))"
  by (simp_all add: schedule_step del: removeAll.simps)

definition check_dependencies :: "string list \<Rightarrow> (string \<Rightarrow> string list) \<Rightarrow> string \<Rightarrow> kernel_error + unit" where
  "check_dependencies selected deps w =
     rbind (require (w \<notin> set (deps w)) SelfDependency) (\<lambda>_.
     (let unknown = filter (\<lambda>d. d \<notin> set selected) (sorted_set (deps w)) in
      require (unknown = []) (UnknownDependency unknown)))"

definition plan_node_of :: "selection_receipt \<Rightarrow> (string \<Rightarrow> string list) \<Rightarrow> string \<Rightarrow> kernel_error + plan_node" where
  "plan_node_of selection deps w =
     rbind (of_opt (MissingRank w) (map_of (rev [(re_worker_id e, the (re_rank e)).
        e \<leftarrow> ws_ranking selection, re_selected e \<and> re_rank e \<noteq> None]) w)) (\<lambda>rank.
     make_node \<lparr>pn_worker_id = w, pn_selection_rank = rank, pn_dependency_worker_ids = sorted_set (deps w)\<rparr>)"

definition build_worker_execution_plan ::
    "crypto \<Rightarrow> selection_receipt \<Rightarrow> (string \<Rightarrow> string list) \<Rightarrow> string list \<Rightarrow> kernel_error + plan_receipt" where
  "build_worker_execution_plan C selection deps priority =
     rbind (lift_err InSelection (verify_worker_selection_receipt C selection)) (\<lambda>_.
     (let selected = ws_selected_worker_ids selection;
          unknown = filter (\<lambda>w. w \<notin> set selected) (sorted_set priority);
          order = priority @ filter (\<lambda>w. w \<notin> set priority) selected in
      rbind (require (distinct priority) DuplicatePriority) (\<lambda>_.
      rbind (require (unknown = []) (UnknownPriority unknown)) (\<lambda>_.
      rbind (reach_all (check_dependencies selected deps) selected) (\<lambda>_.
      rbind (schedule order deps selected []) (\<lambda>completed.
      rbind (rmap (plan_node_of selection deps) selected) (\<lambda>nodes.
      (let draft = \<lparr>pl_selection_receipt_sha256 = ws_receipt_sha256 selection,
             pl_worker_budget = ws_worker_budget selection, pl_requested_priority_order = priority, pl_nodes = nodes,
             pl_execution_order = completed,
             pl_dependency_barrier_count = sum_list (map (\<lambda>n. length (pn_dependency_worker_ids n)) nodes),
             pl_receipt_sha256 = []\<rparr> in
       rbind (kernel_digest C ''VDG_WORKER_EXECUTION_PLAN_RECEIPT_V1'' (plan_payload draft)) (\<lambda>d.
       make_plan (draft\<lparr>pl_receipt_sha256 := d\<rparr>))))))))))"

text \<open>The replay of the order over the nodes.\<close>

fun check_barriers :: "plan_node list \<Rightarrow> string list \<Rightarrow> string list \<Rightarrow> kernel_error + unit" where
  "check_barriers nodes observed [] = Inr ()"
| "check_barriers nodes observed (w # ws) =
     rbind (of_opt (MissingNode w) (find (\<lambda>n. pn_worker_id n = w) (rev nodes))) (\<lambda>n.
     rbind (require (list_all (\<lambda>d. d \<in> set observed) (pn_dependency_worker_ids n)) BarrierViolated) (\<lambda>_.
     check_barriers nodes (w # observed) ws))"

definition node_dependencies :: "plan_node list \<Rightarrow> string \<Rightarrow> string list" where
  "node_dependencies nodes w =
     (case find (\<lambda>n. pn_worker_id n = w) (rev nodes) of None \<Rightarrow> [] | Some n \<Rightarrow> pn_dependency_worker_ids n)"

definition verify_worker_execution_plan ::
    "crypto \<Rightarrow> plan_receipt \<Rightarrow> selection_receipt option \<Rightarrow> kernel_error + unit" where
  "verify_worker_execution_plan C r selection =
     (let ids = map pn_worker_id (pl_nodes r); priority = pl_requested_priority_order r in
      rbind (require (distinct ids) DuplicateNodes) (\<lambda>_.
      rbind (require (set (pl_execution_order r) = set ids \<and> length (pl_execution_order r) = length ids) PlanCoverage) (\<lambda>_.
      rbind (check_barriers (pl_nodes r) [] (pl_execution_order r)) (\<lambda>_.
      rbind (require (pl_dependency_barrier_count r = sum_list (map (\<lambda>n. length (pn_dependency_worker_ids n)) (pl_nodes r)))
        BarrierCount) (\<lambda>_.
      rbind (require (distinct priority \<and> set priority \<subseteq> set ids) PriorityEscaped) (\<lambda>_.
      rbind (kernel_digest C ''VDG_WORKER_EXECUTION_PLAN_RECEIPT_V1'' (plan_payload r)) (\<lambda>d.
      rbind (require (pl_receipt_sha256 r = d) PlanDigest) (\<lambda>_.
      (case selection of
         None \<Rightarrow> Inr ()
       | Some sel \<Rightarrow>
           rbind (build_worker_execution_plan C sel (node_dependencies (pl_nodes r)) priority) (\<lambda>expected.
           require (expected = r) PlanDiverged))))))))))"

section \<open>The council\<close>

datatype examination_status = Conflict | Unresolved | SupportedOnly | ContradictedOnly | NoQualifiedEvidence

fun examination_str :: "examination_status \<Rightarrow> string" where
  "examination_str Conflict = ''CONFLICT''"
| "examination_str Unresolved = ''UNRESOLVED''"
| "examination_str SupportedOnly = ''SUPPORTED_ONLY''"
| "examination_str ContradictedOnly = ''CONTRADICTED_ONLY''"
| "examination_str NoQualifiedEvidence = ''NO_QUALIFIED_EVIDENCE''"

datatype council_disposition = BlockedIncomplete | HumanInvestigation | OpenGaps | NoConflict

fun council_disposition_str :: "council_disposition \<Rightarrow> string" where
  "council_disposition_str BlockedIncomplete = ''BLOCKED_INCOMPLETE_EVIDENCE''"
| "council_disposition_str HumanInvestigation = ''HUMAN_INVESTIGATION_REQUIRED''"
| "council_disposition_str OpenGaps = ''PROCEED_WITH_OPEN_GAPS''"
| "council_disposition_str NoConflict = ''PROCEED_NO_CONFLICT''"

datatype directive = FailClosed | ContinueHold | AdvisoryOnly

fun directive_str :: "directive \<Rightarrow> string" where
  "directive_str FailClosed = ''FAIL_CLOSED''"
| "directive_str ContinueHold = ''CONTINUE_HOLD''"
| "directive_str AdvisoryOnly = ''ADVISORY_ONLY''"

record worker_receipt =
  wr_worker_role :: string
  wr_status :: string
  wr_receipt_sha256 :: string

record examination =
  ex_hypothesis_id :: string
  ex_supporting :: "string list"
  ex_contradicting :: "string list"
  ex_unresolved :: "string list"
  ex_status :: examination_status

record council_receipt =
  co_case_id :: string
  co_ledger_sha256 :: string
  co_plan_sha256 :: string
  co_worker_receipt_sha256s :: "string list"
  co_failed_worker_ids :: "string list"
  co_examinations :: "examination list"
  co_conflict_count :: nat
  co_unresolved_count :: nat
  co_disposition :: council_disposition
  co_directive :: directive
  co_receipt_sha256 :: string

definition council_claim_boundary :: string where
  "council_claim_boundary = ''The Council receipt classifies support, contradiction, and unresolved gaps from existing deterministic evidence. It does not infer physical causality, label a root cause, or override the frozen Policy Judge.''"

definition examination_json :: "examination \<Rightarrow> json" where
  "examination_json e = JObj
     [(''hypothesis_id'', JStr (ex_hypothesis_id e)), (''supporting_issue_codes'', JStrs (ex_supporting e)),
      (''contradicting_issue_codes'', JStrs (ex_contradicting e)), (''unresolved_evidence_refs'', JStrs (ex_unresolved e)),
      (''examination_status'', JStr (examination_str (ex_status e))), (''root_cause_established'', JBool False)]"

definition council_payload :: "council_receipt \<Rightarrow> json" where
  "council_payload r = JObj
     [(''schema_version'', JStr ''visiondata-gate.council-arbitration-receipt.v1''), (''case_id'', JStr (co_case_id r)),
      (''belief_ledger_sha256'', JStr (co_ledger_sha256 r)),
      (''worker_execution_plan_sha256'', JStr (co_plan_sha256 r)),
      (''worker_receipt_sha256s'', JStrs (co_worker_receipt_sha256s r)),
      (''failed_worker_ids'', JStrs (co_failed_worker_ids r)),
      (''examinations'', JArr (map examination_json (co_examinations r))),
      (''conflict_count'', JInt (int (co_conflict_count r))),
      (''unresolved_hypothesis_count'', JInt (int (co_unresolved_count r))),
      (''disposition'', JStr (council_disposition_str (co_disposition r))),
      (''policy_directive'', JStr (directive_str (co_directive r))),
      (''root_cause_status'', JStr ''NOT_ESTABLISHED''), (''claim_boundary'', JStr council_claim_boundary)]"

definition make_examination :: "examination \<Rightarrow> kernel_error + examination" where
  "make_examination raw =
     (let e = raw\<lparr>ex_hypothesis_id := trim (ex_hypothesis_id raw), ex_supporting := map trim (ex_supporting raw),
                ex_contradicting := map trim (ex_contradicting raw), ex_unresolved := map trim (ex_unresolved raw)\<rparr> in
      rbind (require (ex_hypothesis_id e \<noteq> []) KernelConstraint) (\<lambda>_. Inr e))"

definition make_council :: "council_receipt \<Rightarrow> kernel_error + council_receipt" where
  "make_council raw =
     (let r = raw\<lparr>co_case_id := trim (co_case_id raw), co_ledger_sha256 := trim (co_ledger_sha256 raw),
                co_plan_sha256 := trim (co_plan_sha256 raw),
                co_worker_receipt_sha256s := map trim (co_worker_receipt_sha256s raw),
                co_failed_worker_ids := map trim (co_failed_worker_ids raw),
                co_receipt_sha256 := trim (co_receipt_sha256 raw)\<rparr> in
      rbind (require (is_case_id (co_case_id r) \<and> is_sha256 (co_ledger_sha256 r) \<and> is_sha256 (co_plan_sha256 r)
         \<and> co_examinations r \<noteq> [] \<and> is_sha256 (co_receipt_sha256 r)) KernelConstraint) (\<lambda>_. Inr r))"

definition examine :: "hypothesis \<Rightarrow> kernel_error + examination" where
  "examine h =
     (let supports = sorted_set (hy_supporting_issue_codes h); contradicts = sorted_set (hy_contradicting_issue_codes h);
          unresolved = sorted_set (hy_unresolved_evidence_refs h) in
      make_examination \<lparr>ex_hypothesis_id = hy_hypothesis_id h, ex_supporting = supports, ex_contradicting = contradicts,
        ex_unresolved = unresolved,
        ex_status = (if supports \<noteq> [] \<and> contradicts \<noteq> [] then Conflict else if unresolved \<noteq> [] then Unresolved
          else if supports \<noteq> [] then SupportedOnly else if contradicts \<noteq> [] then ContradictedOnly
          else NoQualifiedEvidence)\<rparr>)"

definition freshness_blocks :: "freshness_facts \<Rightarrow> bool" where
  "freshness_blocks f \<longleftrightarrow> ff_current_status f \<noteq> AuthNotApplicable \<and> ff_freshness_status f \<noteq> FreshCurrent"

definition council_verdict :: "bool \<Rightarrow> nat \<Rightarrow> nat \<Rightarrow> council_disposition \<times> directive" where
  "council_verdict blocked conflicts open_gaps =
     (if blocked then (BlockedIncomplete, FailClosed)
      else if conflicts \<noteq> 0 then (HumanInvestigation, ContinueHold)
      else if open_gaps \<noteq> 0 then (OpenGaps, AdvisoryOnly)
      else (NoConflict, AdvisoryOnly))"

abbreviation conflicts_of :: "examination list \<Rightarrow> nat" where
  "conflicts_of es \<equiv> length (filter (\<lambda>e. ex_status e = Conflict) es)"

abbreviation gaps_of :: "examination list \<Rightarrow> nat" where
  "gaps_of es \<equiv> length (filter (\<lambda>e. ex_status e \<in> {Unresolved, NoQualifiedEvidence}) es)"

definition build_council_arbitration ::
    "crypto \<Rightarrow> string \<Rightarrow> belief_ledger \<Rightarrow> plan_receipt \<Rightarrow> worker_receipt list \<Rightarrow> hypothesis list
       \<Rightarrow> kernel_error + council_receipt" where
  "build_council_arbitration C case_id ledger plan worker_receipts hypotheses =
     rbind (lift_err InLedger (verify_belief_ledger C ledger)) (\<lambda>_.
     rbind (verify_worker_execution_plan C plan None) (\<lambda>_.
     (let receipts = sort_key wr_worker_role worker_receipts; roles = map wr_worker_role receipts;
          failed = sort (map wr_worker_role (filter (\<lambda>w. wr_status w \<noteq> ''SUCCEEDED'') receipts)) in
      rbind (require (roles = sorted_set roles) DuplicateRoles) (\<lambda>_.
      rbind (rmap examine (sort_key hy_hypothesis_id hypotheses)) (\<lambda>examinations.
      (let (disposition, directive) = council_verdict (failed \<noteq> [] \<or> freshness_blocks (el_facts ledger))
             (conflicts_of examinations) (gaps_of examinations);
           draft = \<lparr>co_case_id = case_id, co_ledger_sha256 = el_ledger_sha256 ledger,
             co_plan_sha256 = pl_receipt_sha256 plan,
             co_worker_receipt_sha256s = sort (map wr_receipt_sha256 receipts), co_failed_worker_ids = failed,
             co_examinations = examinations, co_conflict_count = conflicts_of examinations,
             co_unresolved_count = gaps_of examinations, co_disposition = disposition, co_directive = directive,
             co_receipt_sha256 = []\<rparr> in
       rbind (kernel_digest C ''VDG_COUNCIL_ARBITRATION_RECEIPT_V1'' (council_payload draft)) (\<lambda>d.
       make_council (draft\<lparr>co_receipt_sha256 := d\<rparr>))))))))"

definition verify_council_arbitration :: "crypto \<Rightarrow> council_receipt \<Rightarrow> kernel_error + unit" where
  "verify_council_arbitration C r =
     (let ids = map ex_hypothesis_id (co_examinations r) in
      rbind (require (ids = sorted_set ids) ExaminationOrder) (\<lambda>_.
      rbind (require (co_worker_receipt_sha256s r = sorted_set (co_worker_receipt_sha256s r)) ReceiptOrder) (\<lambda>_.
      rbind (require (co_failed_worker_ids r = sorted_set (co_failed_worker_ids r)) FailedOrder) (\<lambda>_.
      rbind (require (co_conflict_count r = conflicts_of (co_examinations r)) ConflictCount) (\<lambda>_.
      rbind (require (co_unresolved_count r = gaps_of (co_examinations r)) UnresolvedCount) (\<lambda>_.
      rbind (require (co_disposition r \<noteq> BlockedIncomplete \<or> co_directive r = FailClosed) MustFailClosed) (\<lambda>_.
      rbind (kernel_digest C ''VDG_COUNCIL_ARBITRATION_RECEIPT_V1'' (council_payload r)) (\<lambda>d.
      require (co_receipt_sha256 r = d) CouncilDigest))))))))"

end
