(* ===== verification/Kernel_Safety.thy ===== *)
theory Kernel_Safety
  imports Incident_Kernel
begin

text \<open>
  What the receipts of \<open>Incident_Kernel\<close> promise: the execution order is the greedy topological order of the dependencies and
  exists exactly for acyclic ones, the receipts a builder returns verify, and missing, stale or failed evidence always closes
  the case.
\<close>

section \<open>Frames and digests\<close>

lemma kernel_digest_hex: "hex_digests C \<Longrightarrow> kernel_digest C domain v = Inr d \<Longrightarrow> is_sha256 d \<and> clean d"
  by (auto simp: kernel_digest_def hex_digests_def sha256_clean)

text \<open>What a digest can be refused for, and that the toy oracles used in the witnesses always give one.\<close>

lemma kernel_digest_refused: "kernel_digest C domain v = Inl e \<Longrightarrow> e \<in> {KernelNotCanonical, KernelOverflow}"
  by (auto simp: kernel_digest_def of_opt_def split: option.splits)

lemma toy_digest:
  assumes "length domain < 256 ^ 2"
  shows "\<exists>d. kernel_digest toy_crypto domain v = Inr d"
proof -
  have j: "jcs toy_crypto v = Some ''doc''" by (simp add: toy_crypto_def)
  have l: "length ''doc'' < 256 ^ 8" by simp
  obtain a b where "to_bytes 2 (length domain) = Some a" "to_bytes 8 (length ''doc'') = Some b"
    using to_bytes_total[OF assms] to_bytes_total[OF l] by blast
  then show ?thesis by (simp add: kernel_digest_def kernel_frame_def j)
qed

text \<open>The frame is injective: different pairs of domain and payload are never digested as the same bytes.\<close>

lemma kernel_frame_injective:
  assumes "kernel_frame a p = Some x" and "kernel_frame b q = Some x"
  shows "a = b \<and> p = q"
proof -
  obtain da dp where x: "to_bytes 2 (length a) = Some da" "to_bytes 8 (length p) = Some dp"
    "x = KERNEL_MAGIC @ da @ a @ dp @ p"
    using assms(1) by (auto simp: kernel_frame_def split: option.splits)
  obtain ea ep where y: "to_bytes 2 (length b) = Some ea" "to_bytes 8 (length q) = Some ep"
    "x = KERNEL_MAGIC @ ea @ b @ ep @ q"
    using assms(2) by (auto simp: kernel_frame_def split: option.splits)
  have "da @ a @ dp @ p = ea @ b @ ep @ q" using x(3) y(3) by simp
  then have 1: "da = ea" "a @ dp @ p = b @ ep @ q"
    using to_bytes_length[OF x(1)] to_bytes_length[OF y(1)] by simp_all
  have la: "length a = length b" using to_bytes_inj[OF x(1)] y(1) 1(1) by simp
  then have 2: "a = b" "dp @ p = ep @ q" using 1(2) by simp_all
  then show ?thesis using to_bytes_length[OF x(2)] to_bytes_length[OF y(2)] by simp
qed

section \<open>Greedy topological order\<close>

text \<open>The graph of the dependencies of the workers: from a dependency to its worker.\<close>

definition dep_graph :: "string list \<Rightarrow> (string \<Rightarrow> string list) \<Rightarrow> (string \<times> string) set" where
  "dep_graph ws deps = {(d, w). w \<in> set ws \<and> d \<in> set (deps w)}"

lemma finite_dep_graph: "finite (dep_graph ws deps)"
proof (rule finite_subset)
  show "dep_graph ws deps \<subseteq> (\<Union>w\<in>set ws. set (deps w)) \<times> set ws" by (auto simp: dep_graph_def)
qed simp

lemma ready_iff: "ready deps remaining completed w \<longleftrightarrow> w \<in> set remaining \<and> set (deps w) \<subseteq> set completed"
  by (auto simp: ready_def list_all_iff)

lemma find_split:
  "find P xs = Some w \<Longrightarrow> P w \<and> (\<exists>ls rs. xs = ls @ w # rs \<and> (\<forall>x\<in>set ls. \<not> P x))"
proof (induction xs)
  case (Cons a xs)
  show ?case
  proof (cases "P a")
    case True
    then show ?thesis using Cons.prems by (intro conjI exI[of _ "[]"] exI[of _ xs]) auto
  next
    case False
    then obtain ls rs where "P w" "xs = ls @ w # rs" "\<forall>x\<in>set ls. \<not> P x" using Cons by auto
    then show ?thesis using False by (intro conjI exI[of _ "a # ls"] exI[of _ rs]) auto
  qed
qed simp

lemma schedule_result:
  assumes "schedule order deps remaining completed = Inr out"
  shows "\<exists>ys. out = completed @ ys \<and> set ys = set remaining \<and> distinct ys
    \<and> (\<forall>us w vs. ys = us @ w # vs \<longrightarrow>
         find (ready deps (filter (\<lambda>x. x \<notin> set us) remaining) (completed @ us)) order = Some w)"
  using assms
proof (induction order deps remaining completed rule: schedule.induct)
  case (1 order deps remaining completed)
  show ?case
  proof (cases "remaining = []")
    case True
    then show ?thesis using 1(2) by simp
  next
    case False
    then obtain w where w: "find (ready deps remaining completed) order = Some w"
      and rest: "schedule order deps (removeAll w remaining) (completed @ [w]) = Inr out"
      using 1(2) by (auto simp: schedule_step split: option.splits)
    have mem: "w \<in> set remaining" using w by (auto simp: find_Some_iff ready_def)
    obtain ys where ys: "out = (completed @ [w]) @ ys" "set ys = set (removeAll w remaining)" "distinct ys"
      and greedy: "\<And>us x vs. ys = us @ x # vs \<Longrightarrow>
         find (ready deps (filter (\<lambda>x. x \<notin> set us) (removeAll w remaining)) ((completed @ [w]) @ us)) order = Some x"
      using 1(1)[OF False w rest] by blast
    have "find (ready deps (filter (\<lambda>x. x \<notin> set us) remaining) (completed @ us)) order = Some x"
      if split: "w # ys = us @ x # vs" for us x vs
    proof (cases us)
      case Nil
      then show ?thesis using split w by simp
    next
      case (Cons u us')
      then have u: "u = w" "ys = us' @ x # vs" using split by simp_all
      have "filter (\<lambda>x. x \<notin> set us) remaining = filter (\<lambda>x. x \<notin> set us') (removeAll w remaining)"
        by (auto simp: Cons u(1) removeAll_filter_not_eq intro: filter_cong)
      then show ?thesis using greedy[OF u(2)] by (simp add: Cons u(1))
    qed
    then show ?thesis using ys mem by (intro exI[of _ "w # ys"]) auto
  qed
qed

lemma schedule_total:
  assumes "acyclic (dep_graph remaining deps)" and "set remaining \<subseteq> set order"
    and "\<And>w. w \<in> set remaining \<Longrightarrow> set (deps w) \<subseteq> set remaining \<union> set completed"
  shows "\<exists>out. schedule order deps remaining completed = Inr out"
  using assms
proof (induction order deps remaining completed rule: schedule.induct)
  case (1 order deps remaining completed)
  show ?case
  proof (cases "remaining = []")
    case True
    then show ?thesis by simp
  next
    case False
    have wf: "wf (dep_graph remaining deps)" using 1(2) finite_dep_graph by (rule finite_acyclic_wf[rotated])
    have "\<exists>m\<in>set remaining. \<forall>d. (d, m) \<in> dep_graph remaining deps \<longrightarrow> d \<notin> set remaining"
      using wf[unfolded wf_eq_minimal, rule_format, of "hd remaining" "set remaining"] False by simp
    then obtain m where m: "m \<in> set remaining" "\<And>d. (d, m) \<in> dep_graph remaining deps \<Longrightarrow> d \<notin> set remaining" by blast
    have "d \<notin> set remaining" if "d \<in> set (deps m)" for d
      by (rule m(2)) (use that m(1) in \<open>simp add: dep_graph_def\<close>)
    then have "ready deps remaining completed m" using 1(4)[OF m(1)] m(1) unfolding ready_iff by blast
    then obtain w where w: "find (ready deps remaining completed) order = Some w"
      using m(1) 1(3) by (cases "find (ready deps remaining completed) order") (auto simp: find_None_iff)
    then have mem: "w \<in> set remaining" by (auto simp: find_Some_iff ready_def)
    have "acyclic (dep_graph (removeAll w remaining) deps)"
      using 1(2) by (rule acyclic_subset) (auto simp: dep_graph_def)
    then have "\<exists>out. schedule order deps (removeAll w remaining) (completed @ [w]) = Inr out"
      using 1(3,4) by (intro 1(1)[OF False w]) auto
    then show ?thesis using False w by (simp add: schedule_step)
  qed
qed

lemma schedule_error: "schedule order deps remaining completed = Inl e \<Longrightarrow> e = DependencyCycle"
proof (induction order deps remaining completed rule: schedule.induct)
  case (1 order deps remaining completed)
  then show ?case by (cases "remaining = []") (auto simp: schedule_step split: option.splits)
qed

lemma schedule_cong:
  assumes "\<And>w. w \<in> set order \<Longrightarrow> set (deps w) = set (deps' w)"
  shows "schedule order deps remaining completed = schedule order deps' remaining completed"
  using assms
proof (induction order deps remaining completed rule: schedule.induct)
  case (1 order deps remaining completed)
  have f: "find (ready deps remaining completed) order = find (ready deps' remaining completed) order"
    using 1(2) by (intro find_cong refl) (auto simp: ready_iff)
  show ?case
    by (cases "remaining = []") (use 1 f in \<open>auto simp: schedule_step split: option.splits\<close>)
qed

text \<open>An order in which every worker comes after its dependencies.\<close>

definition topological :: "(string \<Rightarrow> string list) \<Rightarrow> string list \<Rightarrow> bool" where
  "topological deps ws \<longleftrightarrow> (\<forall>us w vs. ws = us @ w # vs \<longrightarrow> set (deps w) \<subseteq> set us)"

lemma topological_acyclic:
  assumes "topological deps out"
  shows "acyclic (dep_graph out deps)"
proof -
  let ?pos = "\<lambda>x. length (takeWhile (\<lambda>y. y \<noteq> x) out)"
  have "?pos d < ?pos w" if e: "(d, w) \<in> dep_graph out deps" for d w
  proof -
    have "w \<in> set out" using e by (simp add: dep_graph_def)
    then obtain us vs where s: "out = us @ w # vs" "w \<notin> set us" by (meson split_list_first)
    then have "d \<in> set us" using e assms by (auto simp: topological_def dep_graph_def)
    then obtain ls rs where u: "us = ls @ d # rs" "d \<notin> set ls" by (meson split_list_first)
    have w: "takeWhile (\<lambda>y. y \<noteq> w) out = us" unfolding s(1) using s(2) by (subst takeWhile_append2) auto
    have d: "takeWhile (\<lambda>y. y \<noteq> d) out = ls" unfolding s(1) u(1) append_assoc using u(2) by (subst takeWhile_append2) auto
    show ?thesis unfolding w d by (simp add: u(1))
  qed
  then have "dep_graph out deps \<subseteq> measure ?pos" by auto
  then show ?thesis by (meson wf_acyclic wf_measure wf_subset)
qed

lemma all_splits_Cons:
  "(\<forall>us w vs. x # xs = us @ w # vs \<longrightarrow> P us w) \<longleftrightarrow> P [] x \<and> (\<forall>us w vs. xs = us @ w # vs \<longrightarrow> P (x # us) w)"
  (is "?all \<longleftrightarrow> ?first \<and> ?rest")
proof
  assume a: ?all
  then have "P [] x" by simp
  moreover have "P (x # us) w" if "xs = us @ w # vs" for us w vs
    using a[rule_format, of "x # us" w vs] that by simp
  ultimately show "?first \<and> ?rest" by blast
next
  assume a: "?first \<and> ?rest"
  have "P us w" if "x # xs = us @ w # vs" for us w vs
    using that a by (cases us) auto
  then show ?all by blast
qed

lemma check_barriers_iff:
  "check_barriers nodes observed ws = Inr () \<longleftrightarrow>
     (\<forall>us w vs. ws = us @ w # vs \<longrightarrow> (\<exists>n. find (\<lambda>n. pn_worker_id n = w) (rev nodes) = Some n
        \<and> set (pn_dependency_worker_ids n) \<subseteq> set us \<union> set observed))"
proof (induction ws arbitrary: observed)
  case Nil
  then show ?case by simp
next
  case (Cons x xs)
  show ?case
    unfolding all_splits_Cons by (cases "find (\<lambda>n. pn_worker_id n = x) (rev nodes)") (simp_all add: Cons.IH list_all_iff subset_iff Ball_def)
qed

section \<open>The execution plan\<close>

text \<open>The pattern of the identifier of a \<open>WorkerCandidate\<close>, which its construction has checked.\<close>

definition candidates_ok :: "selection_receipt \<Rightarrow> bool" where
  "candidates_ok sel \<longleftrightarrow> list_all (\<lambda>c. worker_id_ok (wc_worker_id c)) (ws_candidates sel)"

lemma worker_id_clean: "worker_id_ok w \<Longrightarrow> clean w \<and> w \<noteq> []"
proof -
  assume a: "worker_id_ok w"
  have "list_all (\<lambda>c. \<not> alnum_char c \<and> c \<notin> set ''_.:-'')
      [CHR 0x09, CHR 0x0A, CHR 0x0B, CHR 0x0C, CHR 0x0D, CHR '' '']" by code_simp
  then have t: "\<not> trim_char c" if "alnum_char c \<or> c \<in> set ''_.:-''" for c
    using that unfolding trim_char_def list_all_iff by blast
  have "list_all (\<lambda>c. alnum_char c \<or> c \<in> set ''_.:-'') w"
    using a unfolding worker_id_ok_def by (cases w) simp_all
  then have "clean w" using t by (intro clean_plain) (auto simp: list_all_iff simp del: set_append)
  then show ?thesis using a by (simp add: worker_id_ok_def)
qed

lemma ranked_entry_rank:
  assumes "e \<in> set (ranked_entries ids xs)"
  shows "\<exists>i\<ge>1. re_rank e = Some i \<and> (re_selected e \<longleftrightarrow> re_worker_id e \<in> set ids)"
  using assms
  by (auto simp: ranked_entries_def ranking_entry_of_def Let_def dest!: set_zip_leftD simp del: upt_Suc)

lemma excluded_not_selected: "e \<in> set (excluded_entries xs) \<Longrightarrow> \<not> re_selected e"
  by (auto simp: excluded_entries_def ranking_entry_of_def)

lemma verified_selection:
  assumes "verify_worker_selection_receipt C sel = Inr ()"
  shows "0 \<le> ws_worker_budget sel" "distinct (ws_selected_worker_ids sel)"
    "set (ws_selected_worker_ids sel) \<subseteq> wc_worker_id ` set (ws_candidates sel)"
    "ws_ranking sel = ranked_entries (ws_selected_worker_ids sel) (eligible_by_priority (ws_candidates sel))
       @ excluded_entries (normalized_candidates (ws_candidates sel))"
    "set (ws_selected_worker_ids sel) \<subseteq> wc_worker_id ` set (eligible_by_priority (ws_candidates sel))"
    "hex_digests C \<Longrightarrow> is_sha256 (ws_receipt_sha256 sel)"
proof -
  obtain e where e: "build_worker_selection_receipt C (ws_candidates sel) (ws_worker_budget sel) = Inr e"
    and eq: "ws_ranking sel = ws_ranking e" "ws_selected_worker_ids sel = ws_selected_worker_ids e"
      "ws_receipt_sha256 sel = ws_receipt_sha256 e"
    using assms by (auto simp: verify_worker_selection_receipt_def)
  note b = e[unfolded build_selection_Inr]
  have ids: "ws_selected_worker_ids sel = map wc_worker_id (take (nat (ws_worker_budget sel)) (eligible_by_priority (ws_candidates sel)))"
    using b eq by simp
  show "0 \<le> ws_worker_budget sel" using b by simp
  have "distinct (map wc_worker_id (eligible_by_priority (ws_candidates sel)))"
    using distinct_eligible b by blast
  then show "distinct (ws_selected_worker_ids sel)" unfolding ids take_map[symmetric] by (rule distinct_take)
  show el: "set (ws_selected_worker_ids sel) \<subseteq> wc_worker_id ` set (eligible_by_priority (ws_candidates sel))"
    unfolding ids using set_take_subset[of "nat (ws_worker_budget sel)" "eligible_by_priority (ws_candidates sel)"] by auto
  then show "set (ws_selected_worker_ids sel) \<subseteq> wc_worker_id ` set (ws_candidates sel)" by auto
  show "ws_ranking sel = ranked_entries (ws_selected_worker_ids sel) (eligible_by_priority (ws_candidates sel))
       @ excluded_entries (normalized_candidates (ws_candidates sel))"
    using b eq by simp
  show "is_sha256 (ws_receipt_sha256 sel)" if "hex_digests C"
  proof -
    have "jcs_sha C (selection_receipt_payload e) = Some (ws_receipt_sha256 e)" using b by blast
    then have "\<exists>z. sha256 C z = ws_receipt_sha256 e" by (auto simp: jcs_sha_def)
    then show ?thesis using that unfolding eq hex_digests_def by metis
  qed
qed

lemma selected_rank:
  assumes "verify_worker_selection_receipt C sel = Inr ()" and "w \<in> set (ws_selected_worker_ids sel)"
  shows "\<exists>rank\<ge>1. map_of (rev [(re_worker_id e, the (re_rank e)). e \<leftarrow> ws_ranking sel,
      re_selected e \<and> re_rank e \<noteq> None]) w = Some rank"
proof -
  let ?R = "[(re_worker_id e, the (re_rank e)). e \<leftarrow> ws_ranking sel, re_selected e \<and> re_rank e \<noteq> None]"
  let ?S = "ranked_entries (ws_selected_worker_ids sel) (eligible_by_priority (ws_candidates sel))"
  note r = verified_selection[OF assms(1)]
  have "w \<in> set (map re_worker_id ?S)" unfolding ranked_entries_ids using r(5) assms(2) by auto
  then have "w \<in> re_worker_id ` set ?S" by (simp only: set_map)
  then obtain e where e: "e \<in> set ?S" "re_worker_id e = w" by blast
  then have "(w, the (re_rank e)) \<in> set (rev ?R)"
    using ranked_entry_rank[OF e(1)] assms(2) by (auto simp: r(4) intro!: bexI[of _ e])
  then obtain rank where rank: "map_of (rev ?R) w = Some rank" by (meson weak_map_of_SomeI)
  then have "(w, rank) \<in> set (rev ?R)" by (rule map_of_SomeD)
  then obtain x where "x \<in> set (ws_ranking sel)" "re_selected x" "re_rank x \<noteq> None" "rank = the (re_rank x)" by auto
  then have "1 \<le> rank" using ranked_entry_rank excluded_not_selected by (fastforce simp: r(4))
  then show ?thesis using rank by blast
qed

lemma plan_node_ok:
  assumes "verify_worker_selection_receipt C sel = Inr ()" and "candidates_ok sel"
    and "w \<in> set (ws_selected_worker_ids sel)" and "set (deps w) \<subseteq> set (ws_selected_worker_ids sel)"
  shows "\<exists>n. plan_node_of sel deps w = Inr n \<and> pn_worker_id n = w \<and> pn_dependency_worker_ids n = sorted_set (deps w)"
proof -
  have clean: "clean x \<and> x \<noteq> []" if "x \<in> set (ws_selected_worker_ids sel)" for x
  proof (rule worker_id_clean)
    show "worker_id_ok x" using that verified_selection(3)[OF assms(1)] assms(2) by (auto simp: candidates_ok_def list_all_iff)
  qed
  obtain rank where "1 \<le> rank" "map_of (rev [(re_worker_id e, the (re_rank e)). e \<leftarrow> ws_ranking sel,
      re_selected e \<and> re_rank e \<noteq> None]) w = Some rank"
    using selected_rank[OF assms(1,3)] by blast
  moreover have "map trim (sorted_set (deps w)) = sorted_set (deps w)"
    using clean assms(4) by (intro map_trim_clean) (auto simp: list_all_iff)
  ultimately show ?thesis using clean[OF assms(3)] by (simp add: plan_node_of_def make_node_def cleanD)
qed

abbreviation plan_order :: "selection_receipt \<Rightarrow> string list \<Rightarrow> string list" where
  "plan_order sel priority \<equiv> priority @ filter (\<lambda>w. w \<notin> set priority) (ws_selected_worker_ids sel)"

lemma check_dependencies_iff:
  "check_dependencies selected deps w = Inr () \<longleftrightarrow> w \<notin> set (deps w) \<and> set (deps w) \<subseteq> set selected"
  by (auto simp: check_dependencies_def Let_def filter_empty_conv)

lemma plan_payload_digest [simp]: "plan_payload (p\<lparr>pl_receipt_sha256 := d\<rparr>) = plan_payload p"
  by (simp add: plan_payload_def)

lemma selected_clean:
  assumes "verify_worker_selection_receipt C sel = Inr ()" and "candidates_ok sel"
    and "set ws \<subseteq> set (ws_selected_worker_ids sel)"
  shows "map trim ws = ws"
proof (rule map_trim_clean)
  have "clean w" if "w \<in> set ws" for w
  proof -
    have "w \<in> wc_worker_id ` set (ws_candidates sel)" using that assms(3) verified_selection(3)[OF assms(1)] by blast
    then show ?thesis using assms(2) worker_id_clean by (auto simp: candidates_ok_def list_all_iff)
  qed
  then show "list_all clean ws" by (simp add: list_all_iff)
qed

text \<open>What the builder returns, field by field: stripping on construction changes nothing.\<close>

lemma build_plan_Inr:
  assumes "candidates_ok sel" and "hex_digests C"
  shows "build_worker_execution_plan C sel deps priority = Inr p \<longleftrightarrow>
     verify_worker_selection_receipt C sel = Inr () \<and> distinct priority
   \<and> set priority \<subseteq> set (ws_selected_worker_ids sel)
   \<and> (\<forall>w\<in>set (ws_selected_worker_ids sel). w \<notin> set (deps w) \<and> set (deps w) \<subseteq> set (ws_selected_worker_ids sel))
   \<and> schedule (plan_order sel priority) deps (ws_selected_worker_ids sel) [] = Inr (pl_execution_order p)
   \<and> rmap (plan_node_of sel deps) (ws_selected_worker_ids sel) = Inr (pl_nodes p)
   \<and> pl_selection_receipt_sha256 p = ws_receipt_sha256 sel \<and> pl_worker_budget p = ws_worker_budget sel
   \<and> pl_requested_priority_order p = priority
   \<and> pl_dependency_barrier_count p = sum_list (map (\<lambda>n. length (pn_dependency_worker_ids n)) (pl_nodes p))
   \<and> kernel_digest C ''VDG_WORKER_EXECUTION_PLAN_RECEIPT_V1'' (plan_payload p) = Inr (pl_receipt_sha256 p)"
    (is "?build = Inr p \<longleftrightarrow> ?conds")
proof (cases "verify_worker_selection_receipt C sel = Inr () \<and> set priority \<subseteq> set (ws_selected_worker_ids sel)")
  case False
  then show ?thesis
    by (auto simp: build_worker_execution_plan_def Let_def filter_empty_conv)
next
  case True
  let ?sel = "ws_selected_worker_ids sel"
  note v = True[THEN conjunct1]
  let ?p = "\<lambda>ns out k d. \<lparr>pl_selection_receipt_sha256 = ws_receipt_sha256 sel, pl_worker_budget = ws_worker_budget sel,
        pl_requested_priority_order = priority, pl_nodes = ns, pl_execution_order = out,
        pl_dependency_barrier_count = k, pl_receipt_sha256 = d\<rparr>"
  have make: "make_plan (?p ns out k d) = Inr (?p ns out k d)"
    if d: "schedule (plan_order sel priority) deps ?sel [] = Inr out" "kernel_digest C dom v' = Inr d" for ns out k d dom v'
  proof -
    have "set out = set ?sel" using schedule_result[OF d(1)] by auto
    then have "map trim out = out" by (intro selected_clean[OF v assms(1)]) simp
    moreover have "map trim priority = priority" by (rule selected_clean[OF v assms(1)]) (use True in simp)
    ultimately show ?thesis
      using verified_selection(1,6)[OF v] kernel_digest_hex[OF assms(2) d(2)] assms(2)
      by (simp add: make_plan_def Let_def cleanD sha256_clean)
  qed
  have "?build = Inr p \<longleftrightarrow> distinct priority \<and> (\<forall>w\<in>set ?sel. check_dependencies ?sel deps w = Inr ())
     \<and> (\<exists>out ns d. let k = sum_list (map (\<lambda>n. length (pn_dependency_worker_ids n)) ns) in
           schedule (plan_order sel priority) deps ?sel [] = Inr out
         \<and> rmap (plan_node_of sel deps) ?sel = Inr ns
         \<and> kernel_digest C ''VDG_WORKER_EXECUTION_PLAN_RECEIPT_V1'' (plan_payload (?p ns out k [])) = Inr d
         \<and> p = ?p ns out k d)"
    using True by (auto simp: build_worker_execution_plan_def Let_def filter_empty_conv make)
  also have "\<dots> \<longleftrightarrow> ?conds"
  proof -
    have "kernel_digest C ''VDG_WORKER_EXECUTION_PLAN_RECEIPT_V1'' (plan_payload (p\<lparr>pl_receipt_sha256 := []\<rparr>))
      = kernel_digest C ''VDG_WORKER_EXECUTION_PLAN_RECEIPT_V1'' (plan_payload p)" by simp
    then show ?thesis using True unfolding check_dependencies_iff by (cases p) (auto simp: Let_def)
  qed
  finally show ?thesis .
qed

lemma plan_nodes:
  assumes "build_worker_execution_plan C sel deps priority = Inr p" and "candidates_ok sel" and "hex_digests C"
  shows "map pn_worker_id (pl_nodes p) = ws_selected_worker_ids sel"
    and "w \<in> set (ws_selected_worker_ids sel) \<Longrightarrow>
      \<exists>n. find (\<lambda>n. pn_worker_id n = w) (rev (pl_nodes p)) = Some n \<and> pn_dependency_worker_ids n = sorted_set (deps w)"
proof -
  note b = assms(1)[unfolded build_plan_Inr[OF assms(2,3)]]
  have node: "pn_worker_id n = w \<and> pn_dependency_worker_ids n = sorted_set (deps w)"
    if "w \<in> set (ws_selected_worker_ids sel)" "plan_node_of sel deps w = Inr n" for w n
    using plan_node_ok[of C sel w deps] b assms(2) that by auto
  have la: "list_all2 (\<lambda>w n. plan_node_of sel deps w = Inr n) (ws_selected_worker_ids sel) (pl_nodes p)"
    using b by (simp add: rmap_Inr_conv)
  then have "list_all2 (\<lambda>w n. w = pn_worker_id n) (ws_selected_worker_ids sel) (pl_nodes p)"
    by (rule list.rel_mono_strong) (use node in auto)
  then show "map pn_worker_id (pl_nodes p) = ws_selected_worker_ids sel"
    by (simp add: list_all2_conv_all_nth list_eq_iff_nth_eq)
  show "\<exists>n. find (\<lambda>n. pn_worker_id n = w) (rev (pl_nodes p)) = Some n \<and> pn_dependency_worker_ids n = sorted_set (deps w)"
    if w: "w \<in> set (ws_selected_worker_ids sel)"
  proof -
    obtain m where "m \<in> set (pl_nodes p)" "pn_worker_id m = w" using list_all2_image[OF la w] node[OF w] by blast
    then obtain n where n: "find (\<lambda>n. pn_worker_id n = w) (rev (pl_nodes p)) = Some n"
      by (cases "find (\<lambda>n. pn_worker_id n = w) (rev (pl_nodes p))") (auto simp: find_None_iff)
    have "n \<in> set (rev (pl_nodes p)) \<and> pn_worker_id n = w"
      using n by (auto simp: find_Some_iff set_conv_nth)
    then have "n \<in> set (pl_nodes p)" "pn_worker_id n = w" by simp_all
    moreover from this(1) obtain x where "x \<in> set (ws_selected_worker_ids sel)" "plan_node_of sel deps x = Inr n"
      using list_all2_preimage[OF la] by blast
    ultimately show ?thesis using node n by blast
  qed
qed

lemma schedule_set:
  assumes "schedule order deps ws [] = Inr out"
  shows "set out = set ws \<and> distinct out"
proof -
  obtain ys where "out = [] @ ys" "set ys = set ws" "distinct ys" using schedule_result[OF assms] by (elim exE conjE)
  then show ?thesis by simp
qed

lemma schedule_greedy:
  assumes "schedule order deps ws [] = Inr (us @ w # vs)"
  shows "find (ready deps (filter (\<lambda>x. x \<notin> set us) ws) us) order = Some w"
proof -
  obtain ys where ys: "us @ w # vs = [] @ ys" and g: "\<forall>us w vs. ys = us @ w # vs \<longrightarrow>
      find (ready deps (filter (\<lambda>x. x \<notin> set us) ws) ([] @ us)) order = Some w"
    using schedule_result[OF assms] by (elim exE conjE) (rule that)
  have "ys = us @ w # vs" using ys by simp
  from g[rule_format, OF this] show ?thesis by simp
qed

lemma schedule_topological:
  assumes "schedule order deps ws [] = Inr out"
  shows "topological deps out"
  unfolding topological_def
proof (intro allI impI)
  fix us w vs
  assume "out = us @ w # vs"
  then have "schedule order deps ws [] = Inr (us @ w # vs)" using assms by simp
  from find_split[OF schedule_greedy[OF this]] show "set (deps w) \<subseteq> set us" unfolding ready_iff by (elim conjE)
qed

text \<open>Once the workers are scheduled only the digest of the plan can be refused.\<close>

definition plan_digest :: "crypto \<Rightarrow> plan_receipt \<Rightarrow> kernel_error + string" where
  "plan_digest C p = kernel_digest C ''VDG_WORKER_EXECUTION_PLAN_RECEIPT_V1'' (plan_payload p)"

lemma plan_if_scheduled:
  assumes "hex_digests C" and "verify_worker_selection_receipt C sel = Inr ()" and "candidates_ok sel"
    and "distinct priority" and "set priority \<subseteq> set (ws_selected_worker_ids sel)"
    and out: "schedule (plan_order sel priority) deps (ws_selected_worker_ids sel) [] = Inr out"
    and deps: "\<And>w. w \<in> set (ws_selected_worker_ids sel) \<Longrightarrow>
      w \<notin> set (deps w) \<and> set (deps w) \<subseteq> set (ws_selected_worker_ids sel)"
  shows "\<exists>p. build_worker_execution_plan C sel deps priority
      = rbind (plan_digest C p) (\<lambda>d. Inr (p\<lparr>pl_receipt_sha256 := d\<rparr>))
    \<and> pl_execution_order p = out \<and> pl_requested_priority_order p = priority
    \<and> rmap (plan_node_of sel deps) (ws_selected_worker_ids sel) = Inr (pl_nodes p)"
proof -
  let ?p = "\<lambda>ns d. \<lparr>pl_selection_receipt_sha256 = ws_receipt_sha256 sel, pl_worker_budget = ws_worker_budget sel,
       pl_requested_priority_order = priority, pl_nodes = ns, pl_execution_order = out,
       pl_dependency_barrier_count = sum_list (map (\<lambda>n. length (pn_dependency_worker_ids n)) ns), pl_receipt_sha256 = d\<rparr>"
  obtain ns where ns: "rmap (plan_node_of sel deps) (ws_selected_worker_ids sel) = Inr ns"
    using rmap_total[of "ws_selected_worker_ids sel" "plan_node_of sel deps"] plan_node_ok[OF assms(2,3)] deps by metis
  have "build_worker_execution_plan C sel deps priority
      = rbind (plan_digest C (?p ns [])) (\<lambda>d. Inr ((?p ns [])\<lparr>pl_receipt_sha256 := d\<rparr>))"
  proof (cases "plan_digest C (?p ns [])")
    case (Inl e)
    have unknown: "filter (\<lambda>w. w \<notin> set (ws_selected_worker_ids sel)) (sorted_set priority) = []"
      using assms(5) by (auto simp: filter_empty_conv)
    have "check_dependencies (ws_selected_worker_ids sel) deps w = Inr ()" if "w \<in> set (ws_selected_worker_ids sel)" for w
      using deps[OF that] unfolding check_dependencies_iff by blast
    then have reach: "reach_all (check_dependencies (ws_selected_worker_ids sel) deps) (ws_selected_worker_ids sel) = Inr ()"
      by simp
    show ?thesis unfolding build_worker_execution_plan_def Let_def unknown assms(2) reach
        out ns
      using Inl assms(4) by (simp add: plan_digest_def lift_err_def)
  next
    case (Inr d)
    have "plan_payload (?p ns d) = plan_payload (?p ns [])" by (simp add: plan_payload_def)
    then have "kernel_digest C ''VDG_WORKER_EXECUTION_PLAN_RECEIPT_V1'' (plan_payload (?p ns d)) = Inr d"
      using Inr by (simp only: plan_digest_def)
    then have "build_worker_execution_plan C sel deps priority = Inr (?p ns d)"
      unfolding build_plan_Inr[OF assms(3,1)] using assms(2,4,5) out ns deps by simp
    then show ?thesis using Inr by simp
  qed
  then show ?thesis using ns by (intro exI[of _ "?p ns []"]) simp
qed

text \<open>Without a schedule the builder says why.\<close>

lemma unscheduled:
  assumes "verify_worker_selection_receipt C sel = Inr ()" and "distinct priority"
    and "set priority \<subseteq> set (ws_selected_worker_ids sel)"
    and deps: "\<And>w. w \<in> set (ws_selected_worker_ids sel) \<Longrightarrow> set (deps w) \<subseteq> set (ws_selected_worker_ids sel)"
    and out: "schedule (plan_order sel priority) deps (ws_selected_worker_ids sel) [] = Inl e"
  shows "build_worker_execution_plan C sel deps priority
     = Inl (if \<exists>w\<in>set (ws_selected_worker_ids sel). w \<in> set (deps w) then SelfDependency else DependencyCycle)"
proof -
  let ?ws = "ws_selected_worker_ids sel"
  have unknown: "filter (\<lambda>w. w \<notin> set ?ws) (sorted_set priority) = []" using assms(3) by (auto simp: filter_empty_conv)
  have check: "check_dependencies ?ws deps w = (if w \<in> set (deps w) then Inl SelfDependency else Inr ())" if "w \<in> set ?ws" for w
    using deps[OF that] by (auto simp: check_dependencies_def Let_def filter_empty_conv require_def)
  have "reach_all (check_dependencies ?ws deps) xs
      = (if \<exists>w\<in>set xs. w \<in> set (deps w) then Inl SelfDependency else Inr ())" if "set xs \<subseteq> set ?ws" for xs
    using that by (induction xs) (auto simp: check)
  then have reach: "reach_all (check_dependencies ?ws deps) ?ws
      = (if \<exists>w\<in>set ?ws. w \<in> set (deps w) then Inl SelfDependency else Inr ())" by simp
  show ?thesis unfolding build_worker_execution_plan_def Let_def unknown assms(1) reach out
    using schedule_error[OF out] assms(2) by (simp add: lift_err_def)
qed

definition demo_plan_selection :: "selection_error + selection_receipt" where
  "demo_plan_selection = build_worker_selection_receipt toy_crypto demo_workers 2"

definition demo_dependencies :: "string \<Rightarrow> string list" where
  "demo_dependencies w = (if w = ''w2'' then [''w1''] else [])"

lemma demo_plan_selection_ok:
  "\<exists>sel p. demo_plan_selection = Inr sel \<and> verify_worker_selection_receipt toy_crypto sel = Inr ()
     \<and> candidates_ok sel \<and> ws_selected_worker_ids sel = [''w2'', ''w1'']
     \<and> build_worker_execution_plan toy_crypto sel demo_dependencies [''w2''] = Inr p"
proof -
  have "case demo_plan_selection of Inl _ \<Rightarrow> False
     | Inr sel \<Rightarrow> verify_worker_selection_receipt toy_crypto sel = Inr () \<and> candidates_ok sel
         \<and> ws_selected_worker_ids sel = [''w2'', ''w1'']"
    by code_simp
  then obtain sel where sel: "demo_plan_selection = Inr sel" "verify_worker_selection_receipt toy_crypto sel = Inr ()"
    "candidates_ok sel" "ws_selected_worker_ids sel = [''w2'', ''w1'']"
    by (auto split: sum.splits)
  have "schedule [''w2'', ''w1''] demo_dependencies [''w2'', ''w1''] [] = Inr [''w1'', ''w2'']" by code_simp
  then have "schedule (plan_order sel [''w2'']) demo_dependencies (ws_selected_worker_ids sel) [] = Inr [''w1'', ''w2'']"
    by (simp add: sel(4))
  from plan_if_scheduled[OF toy_hex_digests sel(2,3) _ _ this] obtain p where
    p: "build_worker_execution_plan toy_crypto sel demo_dependencies [''w2'']
      = rbind (plan_digest toy_crypto p) (\<lambda>d. Inr (p\<lparr>pl_receipt_sha256 := d\<rparr>))"
    using sel by (auto simp: demo_dependencies_def)
  obtain d where "plan_digest toy_crypto p = Inr d" unfolding plan_digest_def using toy_digest by fastforce
  then show ?thesis using p sel by auto
qed

section \<open>Properties of the plan\<close>

text \<open>C17: for a verified selection, a priority among its workers and dependencies that stay inside it, the loop of the builder
  always ends. Without a cycle it has scheduled every selected worker once, and the builder then returns that plan with the
  digest of its payload as receipt, or the error of that digest, which alone can still be refused. With a cycle it
  raises, for a worker that depends on itself or for the cycle. So an execution plan is built exactly when the
  dependencies have no cycle and its payload has a digest.\<close>

theorem execution_plan_exists_iff_acyclic:
  assumes "hex_digests C" and "verify_worker_selection_receipt C sel = Inr ()" and "candidates_ok sel"
    and "distinct priority" and "set priority \<subseteq> set (ws_selected_worker_ids sel)"
    and "\<And>w. w \<in> set (ws_selected_worker_ids sel) \<Longrightarrow> set (deps w) \<subseteq> set (ws_selected_worker_ids sel)"
  shows "if acyclic (dep_graph (ws_selected_worker_ids sel) deps)
    then \<exists>p. build_worker_execution_plan C sel deps priority
          = rbind (plan_digest C p) (\<lambda>d. Inr (p\<lparr>pl_receipt_sha256 := d\<rparr>))
        \<and> distinct (pl_execution_order p) \<and> set (pl_execution_order p) = set (ws_selected_worker_ids sel)
        \<and> topological deps (pl_execution_order p) \<and> pl_requested_priority_order p = priority
    else build_worker_execution_plan C sel deps priority
      = Inl (if \<exists>w\<in>set (ws_selected_worker_ids sel). w \<in> set (deps w) then SelfDependency else DependencyCycle)"
proof (cases "schedule (plan_order sel priority) deps (ws_selected_worker_ids sel) []")
  let ?ws = "ws_selected_worker_ids sel"
  case (Inr out)
  have t: "topological deps out" "distinct out" "set out = set ?ws"
    using schedule_topological[OF Inr] schedule_set[OF Inr] by simp_all
  have "acyclic (dep_graph ?ws deps)" using topological_acyclic[OF t(1)] t(3) by (simp add: dep_graph_def)
  moreover from this have "w \<notin> set (deps w)" if "w \<in> set ?ws" for w
    using that by (auto simp: dep_graph_def acyclic_def)
  ultimately show ?thesis using plan_if_scheduled[OF assms(1-5) Inr] assms(6) t by auto
next
  let ?ws = "ws_selected_worker_ids sel"
  case (Inl e)
  have "\<not> acyclic (dep_graph ?ws deps)"
    using schedule_total[of ?ws deps "plan_order sel priority" "[]"] assms(6) Inl by auto
  then show ?thesis using unscheduled[OF assms(2,4,5) _ Inl] assms(6) by simp
qed

theorem execution_plan_exists_iff_acyclic_witness:
  "\<exists>sel p. demo_plan_selection = Inr sel
     \<and> build_worker_execution_plan toy_crypto sel demo_dependencies [''w2''] = Inr p
     \<and> \<not> acyclic (dep_graph (ws_selected_worker_ids sel) (\<lambda>_. [''w1'', ''w2'']))
     \<and> build_worker_execution_plan toy_crypto sel (\<lambda>_. [''w1'', ''w2'']) [''w2''] = Inl SelfDependency"
proof -
  obtain sel p where sel: "demo_plan_selection = Inr sel" "verify_worker_selection_receipt toy_crypto sel = Inr ()"
    "candidates_ok sel" "ws_selected_worker_ids sel = [''w2'', ''w1'']"
    and p: "build_worker_execution_plan toy_crypto sel demo_dependencies [''w2''] = Inr p"
    using demo_plan_selection_ok by blast
  have "(''w1'', ''w1'') \<in> dep_graph (ws_selected_worker_ids sel) (\<lambda>_. [''w1'', ''w2''])"
    by (simp add: dep_graph_def sel(4))
  then have "\<not> acyclic (dep_graph (ws_selected_worker_ids sel) (\<lambda>_. [''w1'', ''w2'']))"
    by (auto simp: acyclic_def)
  then show ?thesis
    using execution_plan_exists_iff_acyclic[OF toy_hex_digests sel(2,3), of "[''w2'']" "\<lambda>_. [''w1'', ''w2'']"] sel p
    by auto
qed

text \<open>C18: a built plan runs every selected worker once and each only after its dependencies, and at each step takes the first
  worker of the requested priority (then of the selection order) whose dependencies are done.\<close>

theorem execution_plan_is_greedy:
  assumes "build_worker_execution_plan C sel deps priority = Inr p" and "candidates_ok sel" and "hex_digests C"
  shows "distinct (pl_execution_order p) \<and> set (pl_execution_order p) = set (ws_selected_worker_ids sel)
    \<and> (\<forall>us w vs. pl_execution_order p = us @ w # vs \<longrightarrow> set (deps w) \<subseteq> set us
        \<and> (\<exists>xs ys. plan_order sel priority = xs @ w # ys \<and> (\<forall>x\<in>set xs. x \<in> set us \<or> \<not> set (deps x) \<subseteq> set us)))"
proof -
  let ?ws = "ws_selected_worker_ids sel"
  note b = assms(1)[unfolded build_plan_Inr[OF assms(2,3)]]
  have s: "schedule (plan_order sel priority) deps ?ws [] = Inr (pl_execution_order p)" using b by blast
  have "set (deps w) \<subseteq> set us \<and> (\<exists>xs ys. plan_order sel priority = xs @ w # ys
      \<and> (\<forall>x\<in>set xs. x \<in> set us \<or> \<not> set (deps x) \<subseteq> set us))"
    if split: "pl_execution_order p = us @ w # vs" for us w vs
  proof -
    obtain ls rs where f: "ready deps (filter (\<lambda>x. x \<notin> set us) ?ws) us w" "plan_order sel priority = ls @ w # rs"
      "\<forall>x\<in>set ls. \<not> ready deps (filter (\<lambda>x. x \<notin> set us) ?ws) us x"
      using find_split[OF schedule_greedy[OF s[unfolded split]]] by (elim conjE exE)
    have "x \<in> set us \<or> \<not> set (deps x) \<subseteq> set us" if x: "x \<in> set ls" for x
    proof -
      have "x \<in> set (plan_order sel priority)" unfolding f(2) using x by simp
      then have "x \<in> set ?ws" using b by auto
      then show ?thesis using f(3) x by (auto simp: ready_iff)
    qed
    then show ?thesis using f(1,2) unfolding ready_iff by blast
  qed
  then show ?thesis using schedule_set[OF s] by blast
qed

theorem execution_plan_is_greedy_witness:
  "\<exists>sel p. demo_plan_selection = Inr sel \<and> build_worker_execution_plan toy_crypto sel demo_dependencies [''w2''] = Inr p
     \<and> distinct (pl_execution_order p) \<and> set (pl_execution_order p) = {''w1'', ''w2''}"
proof -
  obtain sel p where sel: "demo_plan_selection = Inr sel" "candidates_ok sel" "ws_selected_worker_ids sel = [''w2'', ''w1'']"
    "build_worker_execution_plan toy_crypto sel demo_dependencies [''w2''] = Inr p"
    using demo_plan_selection_ok by blast
  then show ?thesis using execution_plan_is_greedy[OF sel(4,2) toy_hex_digests] by auto
qed

text \<open>The checker accepts what the builder returns.\<close>

lemma built_plan_verifies:
  assumes "candidates_ok sel" and "hex_digests C" and built: "build_worker_execution_plan C sel deps priority = Inr p"
  shows "verify_worker_execution_plan C p (Some sel) = Inr ()"
proof -
  let ?ws = "ws_selected_worker_ids sel" and ?deps = "node_dependencies (pl_nodes p)"
  note b = built[unfolded build_plan_Inr[OF assms(1,2)]]
  note nodes = plan_nodes[OF built assms(1,2)]
  have v: "verify_worker_selection_receipt C sel = Inr ()" using b by blast
  have s: "schedule (plan_order sel priority) deps ?ws [] = Inr (pl_execution_order p)" using b by blast
  have same: "set (?deps w) = set (deps w)" if "w \<in> set ?ws" for w
    using nodes(2)[OF that] by (auto simp: node_dependencies_def)
  have order: "set (plan_order sel priority) \<subseteq> set ?ws" using b by auto
  have ids: "distinct (map pn_worker_id (pl_nodes p))" unfolding nodes(1) by (rule verified_selection(2)[OF v])
  have out: "set (pl_execution_order p) = set (map pn_worker_id (pl_nodes p))"
    "length (pl_execution_order p) = length (map pn_worker_id (pl_nodes p))"
    using schedule_set[OF s] ids nodes(1) by (simp_all flip: distinct_card)
  have "\<exists>n. find (\<lambda>n. pn_worker_id n = w) (rev (pl_nodes p)) = Some n \<and> set (pn_dependency_worker_ids n) \<subseteq> set us \<union> set []"
    if split: "pl_execution_order p = us @ w # vs" for us w vs
  proof -
    have "w \<in> set ?ws" using schedule_set[OF s] split by auto
    moreover have "set (deps w) \<subseteq> set us" using schedule_topological[OF s] split by (auto simp: topological_def)
    ultimately show ?thesis using nodes(2) by fastforce
  qed
  then have barriers: "check_barriers (pl_nodes p) [] (pl_execution_order p) = Inr ()"
    unfolding check_barriers_iff by blast
  have "schedule (plan_order sel priority) ?deps ?ws [] = schedule (plan_order sel priority) deps ?ws []"
    by (rule schedule_cong) (rule same, use order in blast)
  then have s': "schedule (plan_order sel priority) ?deps ?ws [] = Inr (pl_execution_order p)" using s by simp
  have "plan_node_of sel ?deps w = plan_node_of sel deps w" if "w \<in> set ?ws" for w
    using sorted_set_cong[OF same[OF that]] by (simp add: plan_node_of_def)
  then have "list_all2 (\<lambda>w n. plan_node_of sel ?deps w = Inr n) ?ws (pl_nodes p)"
    using b unfolding rmap_Inr_conv by (elim conjE list.rel_mono_strong) simp
  then have "rmap (plan_node_of sel ?deps) ?ws = Inr (pl_nodes p)" by (simp add: rmap_Inr_conv)
  with s' have again: "build_worker_execution_plan C sel ?deps priority = Inr p"
    unfolding build_plan_Inr[OF assms(1,2)] using b same by simp
  have "set priority \<subseteq> set (map pn_worker_id (pl_nodes p))" unfolding nodes(1) using b by blast
  then show ?thesis
    using b ids out barriers again by (simp add: verify_worker_execution_plan_def Let_def)
qed

text \<open>C34: whatever receipt is accepted, its order runs every node once, no node before its dependencies, and its priority
  names nodes only; a plan that a builder returns is accepted together with its selection.\<close>

theorem execution_plan_verification_is_sound_and_complete:
  assumes "candidates_ok sel" and "hex_digests C"
  shows "(build_worker_execution_plan C sel deps priority = Inr p \<longrightarrow> verify_worker_execution_plan C p (Some sel) = Inr ())
    \<and> (verify_worker_execution_plan C q s = Inr () \<longrightarrow>
         distinct (pl_execution_order q) \<and> set (pl_execution_order q) = pn_worker_id ` set (pl_nodes q)
       \<and> set (pl_requested_priority_order q) \<subseteq> pn_worker_id ` set (pl_nodes q)
       \<and> (\<forall>us w vs. pl_execution_order q = us @ w # vs \<longrightarrow>
            (\<exists>n\<in>set (pl_nodes q). pn_worker_id n = w \<and> set (pn_dependency_worker_ids n) \<subseteq> set us)))"
proof (intro conjI impI)
  show "verify_worker_execution_plan C p (Some sel) = Inr ()" if "build_worker_execution_plan C sel deps priority = Inr p"
    by (rule built_plan_verifies[OF assms that])
next
  assume v: "verify_worker_execution_plan C q s = Inr ()"
  then have c: "distinct (map pn_worker_id (pl_nodes q))" "set (pl_execution_order q) = set (map pn_worker_id (pl_nodes q))"
    "length (pl_execution_order q) = length (map pn_worker_id (pl_nodes q))"
    "check_barriers (pl_nodes q) [] (pl_execution_order q) = Inr ()"
    "set (pl_requested_priority_order q) \<subseteq> set (map pn_worker_id (pl_nodes q))"
    by (auto simp: verify_worker_execution_plan_def Let_def)
  show "distinct (pl_execution_order q)" using c(1-3) by (metis card_distinct distinct_card)
  show "set (pl_execution_order q) = pn_worker_id ` set (pl_nodes q)"
    "set (pl_requested_priority_order q) \<subseteq> pn_worker_id ` set (pl_nodes q)" using c(2,5) by simp_all
  show "\<forall>us w vs. pl_execution_order q = us @ w # vs \<longrightarrow>
      (\<exists>n\<in>set (pl_nodes q). pn_worker_id n = w \<and> set (pn_dependency_worker_ids n) \<subseteq> set us)"
  proof (intro allI impI)
    fix us w vs
    assume split: "pl_execution_order q = us @ w # vs"
    from c(4)[unfolded check_barriers_iff, rule_format, OF split]
    obtain n where n: "find (\<lambda>n. pn_worker_id n = w) (rev (pl_nodes q)) = Some n"
      "set (pn_dependency_worker_ids n) \<subseteq> set us" by auto
    from find_split[OF n(1)] obtain ls rs where "pn_worker_id n = w" "rev (pl_nodes q) = ls @ n # rs" by blast
    moreover from this(2) have "n \<in> set (pl_nodes q)" by (metis in_set_conv_decomp set_rev)
    ultimately show "\<exists>n\<in>set (pl_nodes q). pn_worker_id n = w \<and> set (pn_dependency_worker_ids n) \<subseteq> set us"
      using n(2) by blast
  qed
qed

theorem execution_plan_verification_is_sound_and_complete_witness:
  "\<exists>sel p. demo_plan_selection = Inr sel \<and> build_worker_execution_plan toy_crypto sel demo_dependencies [''w2''] = Inr p
     \<and> verify_worker_execution_plan toy_crypto p (Some sel) = Inr () \<and> distinct (pl_execution_order p)"
proof -
  obtain sel p where sel: "demo_plan_selection = Inr sel" "candidates_ok sel"
    "build_worker_execution_plan toy_crypto sel demo_dependencies [''w2''] = Inr p"
    using demo_plan_selection_ok by blast
  then show ?thesis
    using execution_plan_verification_is_sound_and_complete[OF sel(2) toy_hex_digests, of demo_dependencies "[''w2'']" p p "Some sel"]
    by blast
qed

section \<open>The council\<close>

lemma council_payload_digest [simp]: "council_payload (r\<lparr>co_receipt_sha256 := d\<rparr>) = council_payload r"
  by (simp add: council_payload_def)

lemma ledger_digest_hex:
  "hex_digests C \<Longrightarrow> verify_belief_ledger C l = Inr () \<Longrightarrow> is_sha256 (el_ledger_sha256 l) \<and> clean (el_ledger_sha256 l)"
  by (auto simp: verify_belief_ledger_def Let_def dest: belief_digest_hex)

text \<open>Whether the codes of a hypothesis conflict, and whether it has an open gap.\<close>

definition in_conflict :: "hypothesis \<Rightarrow> bool" where
  "in_conflict h \<longleftrightarrow> hy_supporting_issue_codes h \<noteq> [] \<and> hy_contradicting_issue_codes h \<noteq> []"

definition has_gap :: "hypothesis \<Rightarrow> bool" where
  "has_gap h \<longleftrightarrow> \<not> in_conflict h \<and> (hy_unresolved_evidence_refs h \<noteq> []
     \<or> hy_supporting_issue_codes h = [] \<and> hy_contradicting_issue_codes h = [])"

lemma examine_Inr:
  assumes "examine h = Inr e"
  shows "ex_hypothesis_id e = trim (hy_hypothesis_id h)" "ex_status e = Conflict \<longleftrightarrow> in_conflict h"
    "ex_status e \<in> {Unresolved, NoQualifiedEvidence} \<longleftrightarrow> has_gap h"
  using assms by (auto simp: examine_def make_examination_def Let_def in_conflict_def has_gap_def split: if_splits)

lemma examined_counts:
  assumes "rmap examine hs = Inr es"
  shows "conflicts_of es = length (filter in_conflict hs) \<and> gaps_of es = length (filter has_gap hs)
    \<and> map ex_hypothesis_id es = map (trim \<circ> hy_hypothesis_id) hs"
  using assms
proof (induction hs arbitrary: es)
  case (Cons h hs)
  then obtain e fs where e: "examine h = Inr e" and fs: "rmap examine hs = Inr fs" "es = e # fs" by auto
  show ?case using Cons.IH[OF fs(1)] examine_Inr[OF e] by (auto simp: fs(2))
qed simp

text \<open>The fields of a council receipt, before stripping.\<close>

lemma built_council:
  assumes "build_council_arbitration C case_id ledger plan receipts hypotheses = Inr r"
  obtains es d where "verify_belief_ledger C ledger = Inr ()" and "verify_worker_execution_plan C plan None = Inr ()"
    and "distinct (map wr_worker_role receipts)"
    and "rmap examine (sort_key hy_hypothesis_id hypotheses) = Inr es"
    and "let failed = sort (map wr_worker_role (filter (\<lambda>w. wr_status w \<noteq> ''SUCCEEDED'') (sort_key wr_worker_role receipts)));
           verdict = council_verdict (failed \<noteq> [] \<or> freshness_blocks (el_facts ledger)) (conflicts_of es) (gaps_of es);
           draft = \<lparr>co_case_id = case_id, co_ledger_sha256 = el_ledger_sha256 ledger, co_plan_sha256 = pl_receipt_sha256 plan,
             co_worker_receipt_sha256s = sort (map wr_receipt_sha256 (sort_key wr_worker_role receipts)),
             co_failed_worker_ids = failed, co_examinations = es, co_conflict_count = conflicts_of es,
             co_unresolved_count = gaps_of es, co_disposition = fst verdict, co_directive = snd verdict, co_receipt_sha256 = []\<rparr>
         in kernel_digest C ''VDG_COUNCIL_ARBITRATION_RECEIPT_V1'' (council_payload draft) = Inr d
            \<and> make_council (draft\<lparr>co_receipt_sha256 := d\<rparr>) = Inr r"
proof -
  show thesis
    using assms unfolding build_council_arbitration_def Let_def
    by (auto simp: case_prod_beta Let_def intro!: that)
qed

text \<open>A worker did not succeed, or the authorization behind the evidence applies and is not active and unchanged.\<close>

definition evidence_blocked :: "freshness_facts \<Rightarrow> worker_receipt list \<Rightarrow> bool" where
  "evidence_blocked f receipts \<longleftrightarrow> (\<exists>w\<in>set receipts. wr_status w \<noteq> ''SUCCEEDED'') \<or> (ff_current_status f \<noteq> AuthNotApplicable \<and>
     \<not> (ff_source_status f = AuthActive \<and> ff_current_status f = AuthActive \<and> ff_source_event_sha256 f = ff_current_event_sha256 f))"

lemma freshness_blocks_iff:
  assumes "verify_freshness_facts C f = Inr ()"
  shows "freshness_blocks f \<longleftrightarrow> ff_current_status f \<noteq> AuthNotApplicable \<and>
    \<not> (ff_source_status f = AuthActive \<and> ff_current_status f = AuthActive \<and> ff_source_event_sha256 f = ff_current_event_sha256 f)"
proof -
  have "ff_freshness_status f = authorization_freshness (ff_source_event_sha256 f) (ff_source_status f)
      (ff_current_event_sha256 f) (ff_current_status f)"
    using assms by (simp add: verify_freshness_facts_def)
  then show ?thesis by (simp add: freshness_blocks_def freshness_current_iff)
qed

text \<open>C16: the council fails closed exactly when a worker did not succeed, or the current status of the authorization behind the
  evidence is not NOT_APPLICABLE (the status of a case without a governed source, which never closes it) and the
  authorization is not active and unchanged; short of that it holds the line exactly when the codes of some hypothesis conflict, and it reports no
  conflict only if every hypothesis has one-sided evidence without gaps.\<close>

theorem council_fails_closed:
  assumes "build_council_arbitration C case_id ledger plan receipts hypotheses = Inr r"
  shows "let blocked = evidence_blocked (el_facts ledger) receipts in
      (co_directive r = FailClosed \<longleftrightarrow> blocked) \<and> (co_disposition r = BlockedIncomplete \<longleftrightarrow> blocked)
    \<and> (co_directive r = ContinueHold \<longleftrightarrow> \<not> blocked \<and> (\<exists>h\<in>set hypotheses. in_conflict h))
    \<and> (co_disposition r = NoConflict \<longleftrightarrow> \<not> blocked \<and> (\<forall>h\<in>set hypotheses. \<not> in_conflict h \<and> \<not> has_gap h))"
proof -
  let ?f = "el_facts ledger"
  obtain es d where v: "verify_belief_ledger C ledger = Inr ()"
    and es: "rmap examine (sort_key hy_hypothesis_id hypotheses) = Inr es"
    and r: "let failed = sort (map wr_worker_role (filter (\<lambda>w. wr_status w \<noteq> ''SUCCEEDED'') (sort_key wr_worker_role receipts)));
           verdict = council_verdict (failed \<noteq> [] \<or> freshness_blocks (el_facts ledger)) (conflicts_of es) (gaps_of es);
           draft = \<lparr>co_case_id = case_id, co_ledger_sha256 = el_ledger_sha256 ledger, co_plan_sha256 = pl_receipt_sha256 plan,
             co_worker_receipt_sha256s = sort (map wr_receipt_sha256 (sort_key wr_worker_role receipts)),
             co_failed_worker_ids = failed, co_examinations = es, co_conflict_count = conflicts_of es,
             co_unresolved_count = gaps_of es, co_disposition = fst verdict, co_directive = snd verdict, co_receipt_sha256 = []\<rparr>
         in kernel_digest C ''VDG_COUNCIL_ARBITRATION_RECEIPT_V1'' (council_payload draft) = Inr d
            \<and> make_council (draft\<lparr>co_receipt_sha256 := d\<rparr>) = Inr r"
    using assms(1) by (rule built_council)
  define failed where "failed = sort (map wr_worker_role (filter (\<lambda>w. wr_status w \<noteq> ''SUCCEEDED'') (sort_key wr_worker_role receipts)))"
  have failed: "failed \<noteq> [] \<longleftrightarrow> (\<exists>w\<in>set receipts. wr_status w \<noteq> ''SUCCEEDED'')"
    by (auto simp: failed_def filter_empty_conv)
  have "verify_freshness_facts C ?f = Inr ()" using v by (auto simp: verify_belief_ledger_def)
  then have blocked: "failed \<noteq> [] \<or> freshness_blocks ?f \<longleftrightarrow> evidence_blocked ?f receipts"
    by (simp add: evidence_blocked_def freshness_blocks_iff failed)
  have verdict: "(co_disposition r, co_directive r) = council_verdict (failed \<noteq> [] \<or> freshness_blocks ?f) (conflicts_of es) (gaps_of es)"
    using r by (auto simp: make_council_def Let_def failed_def)
  have "conflicts_of es \<noteq> 0 \<longleftrightarrow> (\<exists>h\<in>set hypotheses. in_conflict h)" "gaps_of es \<noteq> 0 \<longleftrightarrow> (\<exists>h\<in>set hypotheses. has_gap h)"
    using examined_counts[OF es] by (auto simp: filter_empty_conv)
  then show ?thesis using verdict unfolding blocked council_verdict_def Let_def by (auto split: if_splits)
qed

definition demo_plan :: plan_receipt where
  "demo_plan = \<lparr>pl_selection_receipt_sha256 = zero_sha, pl_worker_budget = 1, pl_requested_priority_order = [],
     pl_nodes = [\<lparr>pn_worker_id = ''w1'', pn_selection_rank = 1, pn_dependency_worker_ids = []\<rparr>],
     pl_execution_order = [''w1''], pl_dependency_barrier_count = 0, pl_receipt_sha256 = zero_sha\<rparr>"

definition demo_receipts :: "string \<Rightarrow> worker_receipt list" where
  "demo_receipts st = [\<lparr>wr_worker_role = ''w1'', wr_status = st, wr_receipt_sha256 = zero_sha\<rparr>]"

abbreviation demo_council :: "string \<Rightarrow> belief_ledger \<Rightarrow> kernel_error + council_receipt" where
  "demo_council st l \<equiv> build_council_arbitration belief_crypto demo_case_id l demo_plan (demo_receipts st) demo_hypotheses"

lemma demo_plan_verifies: "verify_worker_execution_plan belief_crypto demo_plan None = Inr ()"
proof -
  have "jcs belief_crypto (plan_payload demo_plan) = Some ''x''" by (simp add: belief_crypto_def plan_payload_def)
  moreover have "case kernel_frame ''VDG_WORKER_EXECUTION_PLAN_RECEIPT_V1'' ''x'' of None \<Rightarrow> False
      | Some f \<Rightarrow> sha256 belief_crypto f = zero_sha" by code_simp
  ultimately have "kernel_digest belief_crypto ''VDG_WORKER_EXECUTION_PLAN_RECEIPT_V1'' (plan_payload demo_plan) = Inr zero_sha"
    by (auto simp: kernel_digest_def split: option.splits)
  then show ?thesis by (simp add: verify_worker_execution_plan_def demo_plan_def)
qed

lemma demo_council_digest:
  "kernel_digest belief_crypto ''VDG_COUNCIL_ARBITRATION_RECEIPT_V1'' (council_payload r) = Inr zero_sha"
proof -
  have "jcs belief_crypto (council_payload r) = Some ''x''" by (simp add: belief_crypto_def council_payload_def)
  moreover have "case kernel_frame ''VDG_COUNCIL_ARBITRATION_RECEIPT_V1'' ''x'' of None \<Rightarrow> False
      | Some f \<Rightarrow> sha256 belief_crypto f = zero_sha" by code_simp
  ultimately show ?thesis by (auto simp: kernel_digest_def split: option.splits)
qed

lemma demo_council_built:
  "\<exists>l r. demo_belief_ledger = Inr l \<and> demo_council st l = Inr r \<and> ff_current_status (el_facts l) = AuthActive
     \<and> ff_source_status (el_facts l) = AuthActive \<and> ff_source_event_sha256 (el_facts l) = ff_current_event_sha256 (el_facts l)"
proof -
  obtain l where l: "demo_belief_ledger = Inr l" "verify_belief_ledger belief_crypto l = Inr ()"
    "ff_current_status (el_facts l) = AuthActive"
    "ff_source_status (el_facts l) = AuthActive" "ff_source_event_sha256 (el_facts l) = ff_current_event_sha256 (el_facts l)"
    using demo_ledger_ok by blast
  have "case rmap examine (sort_key hy_hypothesis_id demo_hypotheses) of Inl _ \<Rightarrow> False | Inr es \<Rightarrow> es \<noteq> []" by code_simp
  then obtain es where "rmap examine (sort_key hy_hypothesis_id demo_hypotheses) = Inr es" "es \<noteq> []"
    by (auto split: sum.splits)
  moreover have "is_case_id (trim demo_case_id)" "is_sha256 (trim zero_sha)" "is_sha256 (trim (pl_receipt_sha256 demo_plan))"
    by code_simp+
  ultimately have "\<exists>r. demo_council st l = Inr r"
    using l(2) ledger_digest_hex[OF belief_hex_digests l(2)]
    by (simp add: build_council_arbitration_def demo_plan_verifies demo_council_digest demo_receipts_def
        make_council_def Let_def case_prod_beta cleanD)
  then show ?thesis using l by blast
qed

theorem council_fails_closed_witness:
  "\<exists>l r. demo_belief_ledger = Inr l \<and> demo_council ''FAILED'' l = Inr r \<and> co_directive r = FailClosed
     \<and> (\<exists>q. demo_council ''SUCCEEDED'' l = Inr q \<and> co_disposition q \<noteq> BlockedIncomplete \<and> co_disposition q \<noteq> NoConflict)"
proof -
  obtain l r where l: "demo_belief_ledger = Inr l" and r: "demo_council ''FAILED'' l = Inr r"
    using demo_council_built by blast
  have "evidence_blocked (el_facts l) (demo_receipts ''FAILED'')" by (simp add: evidence_blocked_def demo_receipts_def)
  then have r': "co_directive r = FailClosed" using council_fails_closed[OF r] by (simp add: Let_def)
  obtain q where q: "demo_council ''SUCCEEDED'' l = Inr q" and act: "ff_current_status (el_facts l) = AuthActive"
    "ff_source_status (el_facts l) = AuthActive" "ff_source_event_sha256 (el_facts l) = ff_current_event_sha256 (el_facts l)"
    using demo_council_built[of "''SUCCEEDED''"] l by auto
  have "\<not> evidence_blocked (el_facts l) (demo_receipts ''SUCCEEDED'')" using act by (simp add: evidence_blocked_def demo_receipts_def)
  moreover have "\<exists>h\<in>set demo_hypotheses. has_gap h" by (simp add: demo_hypotheses_def has_gap_def in_conflict_def)
  ultimately have "co_disposition q \<noteq> BlockedIncomplete \<and> co_disposition q \<noteq> NoConflict"
    using council_fails_closed[OF q] by (auto simp: Let_def)
  then show ?thesis using l r r' q by blast
qed

text \<open>The receipt of a council verifies, and stripping on construction changes nothing of it, exactly when no two workers
  reported the same receipt and no hypothesis was given twice (the builder itself checks the worker roles only).\<close>

theorem council_receipt_verifies:
  assumes "build_council_arbitration C case_id ledger plan receipts hypotheses = Inr r" and "hex_digests C"
    and "list_all clean (case_id # map wr_worker_role receipts @ map wr_receipt_sha256 receipts @ map hy_hypothesis_id hypotheses)"
  shows "verify_council_arbitration C r = Inr ()
    \<longleftrightarrow> distinct (map wr_receipt_sha256 receipts) \<and> distinct (map hy_hypothesis_id hypotheses)"
proof -
  define rs where "rs = sort_key wr_worker_role receipts"
  define failed where "failed = sort (map wr_worker_role (filter (\<lambda>w. wr_status w \<noteq> ''SUCCEEDED'') rs))"
  obtain es d where v: "verify_belief_ledger C ledger = Inr ()" and p: "verify_worker_execution_plan C plan None = Inr ()"
    and roles: "distinct (map wr_worker_role receipts)"
    and es: "rmap examine (sort_key hy_hypothesis_id hypotheses) = Inr es"
    and r: "let failed = sort (map wr_worker_role (filter (\<lambda>w. wr_status w \<noteq> ''SUCCEEDED'') (sort_key wr_worker_role receipts)));
           verdict = council_verdict (failed \<noteq> [] \<or> freshness_blocks (el_facts ledger)) (conflicts_of es) (gaps_of es);
           draft = \<lparr>co_case_id = case_id, co_ledger_sha256 = el_ledger_sha256 ledger, co_plan_sha256 = pl_receipt_sha256 plan,
             co_worker_receipt_sha256s = sort (map wr_receipt_sha256 (sort_key wr_worker_role receipts)),
             co_failed_worker_ids = failed, co_examinations = es, co_conflict_count = conflicts_of es,
             co_unresolved_count = gaps_of es, co_disposition = fst verdict, co_directive = snd verdict, co_receipt_sha256 = []\<rparr>
         in kernel_digest C ''VDG_COUNCIL_ARBITRATION_RECEIPT_V1'' (council_payload draft) = Inr d
            \<and> make_council (draft\<lparr>co_receipt_sha256 := d\<rparr>) = Inr r"
    using assms(1) by (rule built_council)
  define verdict where "verdict = council_verdict (failed \<noteq> [] \<or> freshness_blocks (el_facts ledger)) (conflicts_of es) (gaps_of es)"
  let ?draft = "\<lparr>co_case_id = case_id, co_ledger_sha256 = el_ledger_sha256 ledger, co_plan_sha256 = pl_receipt_sha256 plan,
             co_worker_receipt_sha256s = sort (map wr_receipt_sha256 rs),
             co_failed_worker_ids = failed, co_examinations = es, co_conflict_count = conflicts_of es,
             co_unresolved_count = gaps_of es, co_disposition = fst verdict, co_directive = snd verdict, co_receipt_sha256 = []\<rparr>"
  have d: "kernel_digest C ''VDG_COUNCIL_ARBITRATION_RECEIPT_V1'' (council_payload ?draft) = Inr d"
    and make: "make_council (?draft\<lparr>co_receipt_sha256 := d\<rparr>) = Inr r"
    using r unfolding Let_def rs_def[symmetric] failed_def[symmetric] verdict_def[symmetric] by blast+
  have "clean (pl_receipt_sha256 plan)"
    using p kernel_digest_hex[OF assms(2)] by (auto simp: verify_worker_execution_plan_def Let_def)
  moreover have "map trim (sort (map wr_receipt_sha256 rs)) = sort (map wr_receipt_sha256 rs)" "map trim failed = failed"
    using assms(3) by (auto intro!: map_trim_clean simp: list_all_iff rs_def failed_def)
  ultimately have r': "r = ?draft\<lparr>co_receipt_sha256 := d\<rparr>"
    using make assms(3) ledger_digest_hex[OF assms(2) v] kernel_digest_hex[OF assms(2) d]
    by (auto simp: make_council_def Let_def cleanD split: if_splits)
  have "map (trim \<circ> hy_hypothesis_id) (sort_key hy_hypothesis_id hypotheses) = sort (map hy_hypothesis_id hypotheses)"
    using assms(3) by (auto simp: list_all_iff cleanD map_sort_key[symmetric])
  then have ids: "map ex_hypothesis_id es = sort (map hy_hypothesis_id hypotheses)" using examined_counts[OF es] by simp
  have shas: "distinct (map wr_receipt_sha256 rs) \<longleftrightarrow> distinct (map wr_receipt_sha256 receipts)"
    by (metis mset_eq_imp_distinct_iff mset_map mset_sort rs_def)
  have f: "sorted failed" "distinct failed"
    using roles by (auto simp: failed_def rs_def intro!: distinct_map_filter)
  have "fst verdict = BlockedIncomplete \<Longrightarrow> snd verdict = FailClosed"
    by (auto simp: verdict_def council_verdict_def split: if_splits)
  moreover have "kernel_digest C ''VDG_COUNCIL_ARBITRATION_RECEIPT_V1'' (council_payload r) = Inr d"
    using d by (simp only: r' council_payload_digest)
  moreover have "co_examinations r = es" "co_worker_receipt_sha256s r = sort (map wr_receipt_sha256 rs)"
    "co_failed_worker_ids r = failed" "co_conflict_count r = conflicts_of es" "co_unresolved_count r = gaps_of es"
    "co_disposition r = fst verdict" "co_directive r = snd verdict" "co_receipt_sha256 r = d"
    by (simp_all add: r')
  ultimately show ?thesis using f by (auto simp: verify_council_arbitration_def ids shas)
qed

section \<open>Belief revision\<close>

lemma revision_payload_digest [simp]: "revision_payload (r\<lparr>rr_receipt_sha256 := d\<rparr>) = revision_payload r"
  by (simp add: revision_payload_def)

lemma revise_snapshot_Inr:
  assumes "revise_snapshot status event_changed bundle_changed b = Inr t"
  shows "ft_hypothesis_id t = trim (eb_hypothesis_id b) \<and> ft_previous_freshness t = eb_freshness_status b
    \<and> (ft_effective_freshness t = FreshCurrent \<longleftrightarrow> eb_freshness_status b = FreshCurrent \<and> status = AuthActive
         \<and> \<not> event_changed \<and> \<not> bundle_changed)
    \<and> (status = AuthRevoked \<longrightarrow> ft_effective_freshness t = FreshRevoked)"
  using assms
  by (cases status) (auto simp: revise_snapshot_def make_transition_def revision_reasons_def revision_verdict_def Let_def
      split: if_splits)

lemma snapshot_digest_trim:
  assumes "verify_belief_ledger C l = Inr ()"
  shows "sorted (map eb_hypothesis_id (el_snapshots l)) \<and> distinct (map eb_hypothesis_id (el_snapshots l))"
  using assms by (auto simp: verify_belief_ledger_def Let_def)

text \<open>C27: a resumed case never holds evidence as fresher than its parent did: it is current only if it was, the authorization is
  active, and neither the authorization event nor the evidence changed; after a revocation nothing is. The receipt fails closed exactly on a revoked, expired
  or unavailable authorization, asks for a new plan exactly on that or on a change, and verifies.\<close>

theorem belief_revision_never_refreshes:
  assumes "build_belief_revision_receipt C case_id case_sha ledger event status bundle = Inr r" and "hex_digests C"
    and "list_all clean (case_id # map eb_hypothesis_id (el_snapshots ledger))"
    and "list_all is_sha256 [case_sha, event, bundle]"
  shows "verify_belief_revision_receipt C r = Inr ()
    \<and> list_all2 (\<lambda>b t. ft_hypothesis_id t = eb_hypothesis_id b \<and> ft_previous_freshness t = eb_freshness_status b
        \<and> (ft_effective_freshness t = FreshCurrent \<longleftrightarrow> eb_freshness_status b = FreshCurrent \<and> status = AuthActive
            \<and> ff_current_event_sha256 (el_facts ledger) = event \<and> el_bundle_sha256 ledger = bundle)
        \<and> (status = AuthRevoked \<longrightarrow> ft_effective_freshness t = FreshRevoked))
      (el_snapshots ledger) (rr_transitions r)
    \<and> (rr_fail_closed r \<longleftrightarrow> status \<in> {AuthRevoked, AuthExpired, AuthUnavailable})
    \<and> (rr_fresh_replan_required r \<longleftrightarrow> rr_fail_closed r
        \<or> ff_current_event_sha256 (el_facts ledger) \<noteq> event \<or> el_bundle_sha256 ledger \<noteq> bundle)"
proof -
  define ec bc where "ec = (ff_current_event_sha256 (el_facts ledger) \<noteq> event)" and "bc = (el_bundle_sha256 ledger \<noteq> bundle)"
  let ?draft = "\<lambda>ts. \<lparr>rr_parent_case_id = case_id,
        rr_parent_case_sha256 = case_sha, rr_source_ledger_sha256 = el_ledger_sha256 ledger, rr_observed_event_sha256 = event,
        rr_observed_status = status, rr_observed_bundle_sha256 = bundle, rr_event_changed = ec, rr_bundle_changed = bc,
        rr_transitions = ts, rr_disposition = fst (snd (revision_verdict status (ec \<or> bc))),
        rr_fresh_replan_required = (ec \<or> bc \<or> snd (snd (revision_verdict status (ec \<or> bc)))),
        rr_fail_closed = snd (snd (revision_verdict status (ec \<or> bc))), rr_receipt_sha256 = []\<rparr>"
  obtain ts d where v: "verify_belief_ledger C ledger = Inr ()"
    and ts: "rmap (revise_snapshot status ec bc) (el_snapshots ledger) = Inr ts"
    and d: "kernel_digest C ''VDG_BELIEF_REVISION_RECEIPT_V1'' (revision_payload (?draft ts)) = Inr d"
    and make: "make_revision ((?draft ts)\<lparr>rr_receipt_sha256 := d\<rparr>) = Inr r"
    using assms(1) unfolding build_belief_revision_receipt_def Let_def ec_def[symmetric] bc_def[symmetric]
    by (auto simp: case_prod_beta)
  have r: "r = (?draft ts)\<lparr>rr_receipt_sha256 := d\<rparr>"
    using make assms(3,4) ledger_digest_hex[OF assms(2) v] kernel_digest_hex[OF assms(2) d]
    by (auto simp: make_revision_def Let_def cleanD sha256_clean split: if_splits)
  have "list_all2 (\<lambda>b t. revise_snapshot status ec bc b = Inr t) (el_snapshots ledger) ts" using ts by (simp add: rmap_Inr_conv)
  then have la: "list_all2 (\<lambda>b t. ft_hypothesis_id t = eb_hypothesis_id b \<and> ft_previous_freshness t = eb_freshness_status b
        \<and> (ft_effective_freshness t = FreshCurrent \<longleftrightarrow> eb_freshness_status b = FreshCurrent \<and> status = AuthActive \<and> \<not> ec \<and> \<not> bc)
        \<and> (status = AuthRevoked \<longrightarrow> ft_effective_freshness t = FreshRevoked)) (el_snapshots ledger) ts"
    by (rule list.rel_mono_strong) (use revise_snapshot_Inr assms(3) in \<open>fastforce simp: list_all_iff cleanD\<close>)
  then have "map ft_hypothesis_id ts = map eb_hypothesis_id (el_snapshots ledger)"
    by (auto simp: list_all2_conv_all_nth list_eq_iff_nth_eq)
  then have ids: "sorted (map ft_hypothesis_id ts)" "distinct (map ft_hypothesis_id ts)" using snapshot_digest_trim[OF v] by simp_all
  have closed: "snd (snd (revision_verdict status (ec \<or> bc))) \<longleftrightarrow> status \<in> {AuthRevoked, AuthExpired, AuthUnavailable}"
    by (cases status) (simp_all add: revision_verdict_def)
  have suffix: "suffix ''FAIL_CLOSED'' (disposition_text (fst (snd (revision_verdict status (ec \<or> bc)))))
      \<longleftrightarrow> snd (snd (revision_verdict status (ec \<or> bc)))"
    by (cases status) (simp_all add: revision_verdict_def suffix_def)
  have digest: "kernel_digest C ''VDG_BELIEF_REVISION_RECEIPT_V1'' (revision_payload r) = Inr d"
    using d by (simp only: r revision_payload_digest)
  have fields: "rr_transitions r = ts" "rr_disposition r = fst (snd (revision_verdict status (ec \<or> bc)))"
    "rr_fail_closed r = snd (snd (revision_verdict status (ec \<or> bc)))" "rr_event_changed r = ec" "rr_bundle_changed r = bc"
    "rr_fresh_replan_required r = (ec \<or> bc \<or> rr_fail_closed r)" "rr_receipt_sha256 r = d"
    by (simp_all add: r)
  have "verify_belief_revision_receipt C r = Inr ()"
    using digest fields ids suffix by (auto simp: verify_belief_revision_receipt_def)
  moreover note la[unfolded ec_def bc_def not_not, folded fields(1)]
  moreover have "rr_fail_closed r \<longleftrightarrow> status \<in> {AuthRevoked, AuthExpired, AuthUnavailable}"
    by (simp only: fields(3) closed)
  moreover have "rr_fresh_replan_required r \<longleftrightarrow> rr_fail_closed r
        \<or> ff_current_event_sha256 (el_facts ledger) \<noteq> event \<or> el_bundle_sha256 ledger \<noteq> bundle"
    unfolding fields(6) ec_def bc_def by blast
  ultimately show ?thesis by blast
qed

theorem belief_revision_never_refreshes_witness:
  "\<exists>l r. demo_belief_ledger = Inr l
     \<and> build_belief_revision_receipt belief_crypto demo_case_id zero_sha l zero_sha AuthRevoked zero_sha = Inr r
     \<and> rr_fail_closed r \<and> verify_belief_revision_receipt belief_crypto r = Inr ()"
proof -
  obtain l where l: "demo_belief_ledger = Inr l" "verify_belief_ledger belief_crypto l = Inr ()" "el_snapshots l \<noteq> []"
    using demo_ledger_ok by blast
  have ids: "map eb_hypothesis_id (el_snapshots l) = [''h1'', ''h2'']" using demo_ledger_ids l(1) by auto
  have clean: "list_all clean (demo_case_id # map eb_hypothesis_id (el_snapshots l))" unfolding ids by code_simp
  have sha: "list_all is_sha256 [zero_sha, zero_sha, zero_sha]" "is_case_id (trim demo_case_id)" by code_simp+
  have "\<exists>t. revise_snapshot AuthRevoked ec bc b = Inr t" if "b \<in> set (el_snapshots l)" for ec bc b
  proof -
    have "eb_hypothesis_id b \<in> {''h1'', ''h2''}" using ids that by (metis list.set(1,2) list.set_map image_eqI)
    moreover have "trim ''h1'' \<noteq> []" "trim ''h2'' \<noteq> []" by code_simp+
    ultimately show ?thesis by (auto simp: revise_snapshot_def make_transition_def revision_reasons_def Let_def)
  qed
  then have "\<exists>ts. rmap (revise_snapshot AuthRevoked ec bc) (el_snapshots l) = Inr ts" for ec bc by (rule rmap_total)
  then obtain ts where ts: "rmap (revise_snapshot AuthRevoked (ff_current_event_sha256 (el_facts l) \<noteq> zero_sha)
      (el_bundle_sha256 l \<noteq> zero_sha)) (el_snapshots l) = Inr ts" by blast
  have "ts \<noteq> []" using rmap_length[OF ts] l(3) by auto
  have "kernel_digest belief_crypto ''VDG_BELIEF_REVISION_RECEIPT_V1'' (revision_payload q)
      = (case kernel_frame ''VDG_BELIEF_REVISION_RECEIPT_V1'' ''x'' of None \<Rightarrow> Inl KernelOverflow
         | Some f \<Rightarrow> Inr (sha256 belief_crypto f))" for q
    by (simp add: kernel_digest_def belief_crypto_def revision_payload_def of_opt_def split: option.splits)
  moreover have "(case kernel_frame ''VDG_BELIEF_REVISION_RECEIPT_V1'' ''x'' of None \<Rightarrow> Inl KernelOverflow
         | Some f \<Rightarrow> Inr (sha256 belief_crypto f)) = Inr zero_sha" by code_simp
  ultimately have dig: "kernel_digest belief_crypto ''VDG_BELIEF_REVISION_RECEIPT_V1'' (revision_payload q) = Inr zero_sha" for q
    by simp
  have "\<exists>r. build_belief_revision_receipt belief_crypto demo_case_id zero_sha l zero_sha AuthRevoked zero_sha = Inr r"
    using l(2) ts \<open>ts \<noteq> []\<close> sha ledger_digest_hex[OF belief_hex_digests l(2)] clean
    by (simp add: build_belief_revision_receipt_def revision_verdict_def dig make_revision_def Let_def cleanD sha256_clean)
  then obtain r where r: "build_belief_revision_receipt belief_crypto demo_case_id zero_sha l zero_sha AuthRevoked zero_sha = Inr r"
    by blast
  show ?thesis using belief_revision_never_refreshes[OF r belief_hex_digests clean sha(1)] l(1) r by blast
qed

end
