(* ===== verification/Incident_Wave.thy ===== *)
theory Incident_Wave
  imports Incident_Planner Kernel_Safety
begin

text \<open>
  One wave of an incident case: the runtime profile (\<open>incident_runtime_profile.py\<close>), the autonomy guard
  (\<open>incident_agent_kernel.py\<close>), and how the case builder of \<open>industrial_incident.py\<close> chains them after the selection of the
  workers: planner, execution plan, guard, each receipt verified before it is used.
\<close>

section \<open>Runtime profiles\<close>

datatype model_profile = DeterministicOff | DeepseekChat | DeepseekReplay | WorkspaceByok

fun model_profile_str :: "model_profile \<Rightarrow> string" where
  "model_profile_str DeterministicOff = ''deterministic-off''" | "model_profile_str DeepseekChat = ''deepseek-chat''"
| "model_profile_str DeepseekReplay = ''deepseek-replay''" | "model_profile_str WorkspaceByok = ''workspace-byok''"

datatype memory_mode = MemoryOff | MemoryApprovedSite

fun memory_mode_str :: "memory_mode \<Rightarrow> string" where
  "memory_mode_str MemoryOff = ''off''" | "memory_mode_str MemoryApprovedSite = ''approved_site''"

datatype profile_error =
    ProfileConstraint | SiteCharacters | ProviderInvalid
  | OffProfile | OffTemperature | ReplayProfile | ReplayTemperature | ActiveProfile | GatedTemperature
  | ProviderNotByok | MemoryOffFields | MemorySiteFields

record runtime_profile =
  rf_model_profile :: model_profile
  rf_provider_profile_id :: "string option"
  rf_planner_mode :: planner_mode
  rf_temperature :: rat
  rf_max_output_tokens :: nat
  rf_context_budget :: nat
  rf_memory_mode :: memory_mode
  rf_memory_top_k :: nat
  rf_site_profile_id :: "string option"

definition SITE_CHARACTERS :: string where
  "SITE_CHARACTERS = ''abcdefghijklmnopqrstuvwxyz0123456789-_.''"

text \<open>A normalized identifier: \<open>None\<close> for a blank one.\<close>

definition normalize_identifier :: "string option \<Rightarrow> string option" where
  "normalize_identifier value = (case value of None \<Rightarrow> None
     | Some s \<Rightarrow> (let normalized = lower (strip s) in if normalized = [] then None else Some normalized))"

definition provider_id_ok :: "string \<Rightarrow> bool" where
  "provider_id_ok s \<longleftrightarrow> take 4 s = ''prv_'' \<and> length s = 24 \<and> list_all is_hex (drop 4 s)"

definition validate_runtime_boundary :: "runtime_profile \<Rightarrow> profile_error + runtime_profile" where
  "validate_runtime_boundary p =
     rbind (case rf_planner_mode p of
         ModeOff \<Rightarrow> rbind (require (rf_model_profile p = DeterministicOff) OffProfile) (\<lambda>_.
           require (rf_temperature p = 0) OffTemperature)
       | ModeReplay \<Rightarrow> rbind (require (rf_model_profile p = DeepseekReplay) ReplayProfile) (\<lambda>_.
           require (rf_temperature p = 0) ReplayTemperature)
       | _ \<Rightarrow> rbind (require (rf_model_profile p \<in> {DeepseekChat, WorkspaceByok}) ActiveProfile) (\<lambda>_.
           require (\<not> (rf_planner_mode p = ModeGated \<and> rf_temperature p \<noteq> 0)) GatedTemperature)) (\<lambda>_.
     rbind (require (rf_model_profile p = WorkspaceByok \<or> \<not> opt_truthy (rf_provider_profile_id p)) ProviderNotByok) (\<lambda>_.
     rbind (if rf_memory_mode p = MemoryOff
        then require (rf_memory_top_k p = 0 \<and> rf_site_profile_id p = None) MemoryOffFields
        else require (1 \<le> rf_memory_top_k p \<and> rf_site_profile_id p \<noteq> None) MemorySiteFields) (\<lambda>_.
     Inr p)))"

definition make_runtime_profile :: "runtime_profile \<Rightarrow> profile_error + runtime_profile" where
  "make_runtime_profile raw =
     (let p = raw\<lparr>rf_provider_profile_id := map_option trim (rf_provider_profile_id raw),
                rf_site_profile_id := map_option trim (rf_site_profile_id raw)\<rparr>;
          provider = normalize_identifier (rf_provider_profile_id p); site = normalize_identifier (rf_site_profile_id p) in
      rbind (require (pred_option (\<lambda>s. length s \<le> 24) (rf_provider_profile_id p)
         \<and> 0 \<le> rf_temperature p \<and> rf_temperature p \<le> 3 / 10 \<and> 200 \<le> rf_max_output_tokens p
         \<and> rf_max_output_tokens p \<le> 2000 \<and> 1024 \<le> rf_context_budget p \<and> rf_context_budget p \<le> 32768
         \<and> rf_memory_top_k p \<le> 12 \<and> pred_option (\<lambda>s. length s \<le> 120) (rf_site_profile_id p)) ProfileConstraint) (\<lambda>_.
      rbind (require (pred_option provider_id_ok provider) ProviderInvalid) (\<lambda>_.
      rbind (require (pred_option (list_all (\<lambda>c. c \<in> set SITE_CHARACTERS)) site) SiteCharacters) (\<lambda>_.
      validate_runtime_boundary (p\<lparr>rf_provider_profile_id := provider, rf_site_profile_id := site\<rparr>)))))"

definition runtime_profile_json :: "runtime_profile \<Rightarrow> json" where
  "runtime_profile_json p = JObj
     [(''schema_version'', JStr ''visiondata-gate.incident-runtime-profile.v1''),
      (''model_profile_id'', JStr (model_profile_str (rf_model_profile p))),
      (''provider_profile_id'', JOpt JStr (rf_provider_profile_id p)), (''planner_mode'', JStr (mode_str (rf_planner_mode p))),
      (''temperature'', JNum (rf_temperature p)), (''max_output_tokens'', JInt (int (rf_max_output_tokens p))),
      (''context_budget_tokens'', JInt (int (rf_context_budget p))), (''memory_mode'', JStr (memory_mode_str (rf_memory_mode p))),
      (''memory_top_k'', JInt (int (rf_memory_top_k p))), (''site_profile_id'', JOpt JStr (rf_site_profile_id p)),
      (''human_approval_required'', JBool True), (''structured_output_schema'', JStr proposal_schema)]"

definition profile_sha256 :: "crypto \<Rightarrow> runtime_profile \<Rightarrow> string" where
  "profile_sha256 C p = canonical_json_sha C (runtime_profile_json p)"

section \<open>The autonomy guard\<close>

datatype model_effect = EffectNone | EffectAdvisory | EffectPriority

fun model_effect_str :: "model_effect \<Rightarrow> string" where
  "model_effect_str EffectNone = ''NONE''" | "model_effect_str EffectAdvisory = ''ADVISORY_ONLY''"
| "model_effect_str EffectPriority = ''WORKER_PRIORITY_ONLY''"

datatype guard_error =
    GuardConstraint | GuardSelection selection_error | GuardPlanner planner_error | GuardDigestError kernel_error
  | ModeDiverged | PlannerReceiptMissing
  | PriorityEscapedSelection | BudgetExcessCalled | OffWithAuthority | ShadowWithPriority
  | GuardDigest | GuardSelectionBinding | GuardPlannerBinding | GuardPlannerMissing

record guard_receipt =
  ag_case_id :: string
  ag_profile_sha256 :: "string option"
  ag_planner_mode :: planner_mode
  ag_selection_sha256 :: string
  ag_worker_budget :: int
  ag_selected_worker_ids :: "string list"
  ag_applied_worker_ids :: "string list"
  ag_call_count :: nat
  ag_budget_exceeded :: bool
  ag_fallback_used :: bool
  ag_allowed_effect :: model_effect
  ag_receipt_sha256 :: string

definition guard_payload :: "guard_receipt \<Rightarrow> json" where
  "guard_payload g = JObj
     [(''schema_version'', JStr ''visiondata-gate.autonomy-guard-receipt.v1''), (''case_id'', JStr (ag_case_id g)),
      (''runtime_profile_sha256'', JOpt JStr (ag_profile_sha256 g)), (''planner_mode'', JStr (mode_str (ag_planner_mode g))),
      (''selection_receipt_sha256'', JStr (ag_selection_sha256 g)), (''worker_budget'', JInt (ag_worker_budget g)),
      (''selected_worker_ids'', JStrs (ag_selected_worker_ids g)),
      (''applied_worker_priority_ids'', JStrs (ag_applied_worker_ids g)),
      (''model_call_count'', JInt (int (ag_call_count g))), (''context_budget_enforced'', JBool True),
      (''context_budget_exceeded'', JBool (ag_budget_exceeded g)),
      (''deterministic_fallback_used'', JBool (ag_fallback_used g)),
      (''allowed_model_effect'', JStr (model_effect_str (ag_allowed_effect g))),
      (''model_may_create_findings'', JBool False), (''model_may_approve_capa'', JBool False),
      (''model_may_release_production'', JBool False), (''model_may_write_machine'', JBool False)]"

definition make_guard :: "guard_receipt \<Rightarrow> guard_error + guard_receipt" where
  "make_guard raw =
     (let g = raw\<lparr>ag_case_id := trim (ag_case_id raw), ag_profile_sha256 := map_option trim (ag_profile_sha256 raw),
                ag_selection_sha256 := trim (ag_selection_sha256 raw),
                ag_selected_worker_ids := map trim (ag_selected_worker_ids raw),
                ag_applied_worker_ids := map trim (ag_applied_worker_ids raw),
                ag_receipt_sha256 := trim (ag_receipt_sha256 raw)\<rparr> in
      rbind (require (is_case_id (ag_case_id g) \<and> pred_option is_sha256 (ag_profile_sha256 g) \<and> is_sha256 (ag_selection_sha256 g)
         \<and> 0 \<le> ag_worker_budget g \<and> ag_call_count g \<le> 1 \<and> is_sha256 (ag_receipt_sha256 g)) GuardConstraint) (\<lambda>_.
      rbind (require (set (ag_applied_worker_ids g) \<subseteq> set (ag_selected_worker_ids g)) PriorityEscapedSelection) (\<lambda>_.
      rbind (require (\<not> ag_budget_exceeded g \<or> ag_call_count g = 0) BudgetExcessCalled) (\<lambda>_.
      rbind (require (ag_planner_mode g \<noteq> ModeOff \<or> (ag_call_count g = 0 \<and> ag_allowed_effect g = EffectNone))
        OffWithAuthority) (\<lambda>_.
      rbind (require (ag_planner_mode g \<noteq> ModeShadow \<or> ag_applied_worker_ids g = []) ShadowWithPriority) (\<lambda>_. Inr g))))))"

definition allowed_effect :: "planner_mode \<Rightarrow> model_effect" where
  "allowed_effect mode = (if mode = ModeOff then EffectNone else if mode = ModeShadow then EffectAdvisory else EffectPriority)"

definition build_autonomy_guard ::
    "crypto \<Rightarrow> string \<Rightarrow> runtime_profile option \<Rightarrow> selection_receipt \<Rightarrow> planner_receipt option \<Rightarrow> guard_error + guard_receipt" where
  "build_autonomy_guard C case_id profile selection receipt =
     rbind (lift_err GuardSelection (verify_worker_selection_receipt C selection)) (\<lambda>_.
     (let mode = (case profile of None \<Rightarrow> ModeOff | Some p \<Rightarrow> rf_planner_mode p) in
      rbind (case receipt of
          None \<Rightarrow> rbind (require (mode = ModeOff) PlannerReceiptMissing) (\<lambda>_. Inr ([], 0, False, False))
        | Some r \<Rightarrow>
            rbind (lift_err GuardPlanner (verify_planner_receipt C r)) (\<lambda>_.
            rbind (require (mr_mode r = mode) ModeDiverged) (\<lambda>_.
            Inr (mr_applied r, mr_call_count r, ''CONTEXT_BUDGET_EXCEEDED'' \<in> set (mr_errors r),
                 mr_effect r = DeterministicFallback)))) (\<lambda>(applied, calls, exceeded, fallback).
      (let draft = \<lparr>ag_case_id = case_id, ag_profile_sha256 = map_option (profile_sha256 C) profile, ag_planner_mode = mode,
             ag_selection_sha256 = ws_receipt_sha256 selection, ag_worker_budget = ws_worker_budget selection,
             ag_selected_worker_ids = ws_selected_worker_ids selection, ag_applied_worker_ids = applied,
             ag_call_count = calls, ag_budget_exceeded = exceeded, ag_fallback_used = fallback,
             ag_allowed_effect = allowed_effect mode, ag_receipt_sha256 = []\<rparr> in
       rbind (lift_err GuardDigestError (kernel_digest C ''VDG_AUTONOMY_GUARD_RECEIPT_V1'' (guard_payload draft))) (\<lambda>d.
       make_guard (draft\<lparr>ag_receipt_sha256 := d\<rparr>))))))"

definition verify_autonomy_guard ::
    "crypto \<Rightarrow> guard_receipt \<Rightarrow> selection_receipt option \<Rightarrow> planner_receipt option \<Rightarrow> bool \<Rightarrow> guard_error + unit" where
  "verify_autonomy_guard C g selection receipt require_binding =
     rbind (lift_err GuardDigestError (kernel_digest C ''VDG_AUTONOMY_GUARD_RECEIPT_V1'' (guard_payload g))) (\<lambda>d.
     rbind (require (ag_receipt_sha256 g = d) GuardDigest) (\<lambda>_.
     rbind (case selection of None \<Rightarrow> Inr ()
         | Some s \<Rightarrow> require (ag_selection_sha256 g = ws_receipt_sha256 s \<and> ag_selected_worker_ids g = ws_selected_worker_ids s)
             GuardSelectionBinding) (\<lambda>_.
     (case receipt of
        Some r \<Rightarrow> rbind (lift_err GuardPlanner (verify_planner_receipt C r)) (\<lambda>_.
          require (ag_call_count g = mr_call_count r \<and> ag_applied_worker_ids g = mr_applied r) GuardPlannerBinding)
      | None \<Rightarrow> require (\<not> (require_binding \<and> ag_planner_mode g \<noteq> ModeOff)) GuardPlannerMissing))))"

section \<open>The wave\<close>

text \<open>The role and the reason codes of a dynamic worker, and the auditor that waits for all others.\<close>

type_synonym worker_spec = "string list \<times> string"

definition AUDITOR :: string where
  "AUDITOR = ''CounterevidenceAuditorAgent''"

definition active_reason_codes :: "selection_receipt \<Rightarrow> worker_spec list \<Rightarrow> (string \<times> string list) list" where
  "active_reason_codes sel specs =
     foldl (\<lambda>d (codes, role). if codes \<noteq> [] \<and> role \<in> set (ws_selected_worker_ids sel) then dict_set role codes d else d) [] specs"

definition auditor_dependencies :: "selection_receipt \<Rightarrow> string \<Rightarrow> string list" where
  "auditor_dependencies sel w =
     (if AUDITOR \<in> set (ws_selected_worker_ids sel) \<and> w = AUDITOR
      then sorted_set (filter (\<lambda>x. x \<noteq> AUDITOR) (ws_selected_worker_ids sel)) else [])"

datatype wave_error = WaveSelection selection_error | WavePlanner planner_error | WaveKernel kernel_error | WaveGuard guard_error

record wave =
  wv_planner_receipt :: "planner_receipt option"
  wv_plan :: plan_receipt
  wv_guard :: guard_receipt

text \<open>The planner is asked only if there is one, a budget and a selected worker with a reason.\<close>

definition ask_planner ::
    "crypto \<Rightarrow> planner_env \<Rightarrow> (nat \<Rightarrow> rat) \<Rightarrow> (nat \<Rightarrow> attempt_io) \<Rightarrow> planner option \<Rightarrow> selection_receipt \<Rightarrow> worker_spec list
       \<Rightarrow> planner_request \<Rightarrow> http_client \<Rightarrow> (wave_error + planner_receipt option) \<times> http_client" where
  "ask_planner C E clock ios planner sel specs q client =
     (let codes = active_reason_codes sel specs in
      case planner of
        Some pl \<Rightarrow>
          if 0 < ws_worker_budget sel \<and> codes \<noteq> []
          then (let (result, client') = planner_plan C E clock ios pl
                      (q\<lparr>rp_reason_codes := codes, rp_worker_budget := ws_worker_budget sel\<rparr>) client in
                (rbind (lift_err WavePlanner result) (\<lambda>(r, _).
                 rbind (lift_err WavePlanner (verify_planner_receipt C r)) (\<lambda>_. Inr (Some r))), client'))
          else (Inr None, client)
      | None \<Rightarrow> (Inr None, client))"

definition schedule_wave ::
    "crypto \<Rightarrow> runtime_profile option \<Rightarrow> string \<Rightarrow> selection_receipt \<Rightarrow> planner_receipt option \<Rightarrow> wave_error + wave" where
  "schedule_wave C profile case_id sel receipt =
     (let priority = (case receipt of None \<Rightarrow> [] | Some r \<Rightarrow> mr_applied r) in
      rbind (lift_err WaveKernel (build_worker_execution_plan C sel (auditor_dependencies sel) priority)) (\<lambda>p.
      rbind (lift_err WaveKernel (verify_worker_execution_plan C p (Some sel))) (\<lambda>_.
      rbind (lift_err WaveGuard (build_autonomy_guard C case_id profile sel receipt)) (\<lambda>g.
      rbind (lift_err WaveGuard (verify_autonomy_guard C g (Some sel) receipt False)) (\<lambda>_.
      Inr \<lparr>wv_planner_receipt = receipt, wv_plan = p, wv_guard = g\<rparr>)))))"

definition incident_wave ::
    "crypto \<Rightarrow> planner_env \<Rightarrow> (nat \<Rightarrow> rat) \<Rightarrow> (nat \<Rightarrow> attempt_io) \<Rightarrow> planner option \<Rightarrow> runtime_profile option \<Rightarrow> string
       \<Rightarrow> selection_receipt \<Rightarrow> worker_spec list \<Rightarrow> planner_request \<Rightarrow> http_client \<Rightarrow> (wave_error + wave) \<times> http_client" where
  "incident_wave C E clock ios planner profile case_id sel specs q client =
     (case verify_worker_selection_receipt C sel of
        Inl e \<Rightarrow> (Inl (WaveSelection e), client)
      | Inr _ \<Rightarrow>
        (let (asked, client') = ask_planner C E clock ios planner sel specs q client in
         (rbind asked (schedule_wave C profile case_id sel), client')))"

end
