(* ===== verification/Planner_Safety.thy ===== *)
theory Planner_Safety
  imports Incident_Wave
begin

text \<open>
  What the untrusted model may change: a proposal that passes validation is well-formed and inside the allowlists, its order is applied
  in two modes only, no request is sent over the token budget, and every outcome that could be read leaves a receipt, unless the
  name the model reports of itself cannot be encoded.
\<close>

section \<open>Encodable texts\<close>

lemma encodable_trim: "encodable s \<Longrightarrow> encodable (trim s)"
proof -
  assume s: "encodable s"
  have "s = takeWhile trim_char s @ rev (dropWhile trim_char (rev (dropWhile trim_char s)))
      @ rev (takeWhile trim_char (rev (dropWhile trim_char s)))"
    by (metis rev_append rev_rev_ident takeWhile_dropWhile_id)
  then have "s = takeWhile trim_char s @ trim s @ rev (takeWhile trim_char (rev (dropWhile trim_char s)))"
    by (simp add: trim_def)
  then have "encodable (takeWhile trim_char s @ trim s @ rev (takeWhile trim_char (rev (dropWhile trim_char s))))"
    using s by metis
  then show ?thesis unfolding encodable_def successively_append_iff by blast
qed

section \<open>Parsing proposals\<close>

named_theorems parse_simps \<open>validation of one field\<close>

lemma omap_list_all2: "omap f xs = Some ys \<longleftrightarrow> list_all2 (\<lambda>x y. f x = Some y) xs ys"
  by (induction xs arbitrary: ys) (auto simp: list_all2_Cons1 split: option.splits)

lemma omap_length: "omap f xs = Some ys \<Longrightarrow> length ys = length xs"
  by (auto simp: omap_list_all2 dest: list_all2_lengthD)

lemma omap_all: "omap f xs = Some ys \<Longrightarrow> (\<And>x y. f x = Some y \<Longrightarrow> P y) \<Longrightarrow> list_all P ys"
  by (auto simp: omap_list_all2 list_all_iff dest: list_all2_preimage)

lemma omap_map: "(\<And>x. x \<in> set xs \<Longrightarrow> f (g x) = Some x) \<Longrightarrow> omap f (map g xs) = Some xs"
  by (induction xs) auto

lemma text_field_Some: "text_field lo hi v = Some t \<Longrightarrow> clean t \<and> encodable t \<and> lo \<le> length t \<and> length t \<le> hi"
  by (cases v) (auto simp: encodable_trim split: if_splits)

lemma text_field_clean [parse_simps]: "clean t \<Longrightarrow> encodable t \<Longrightarrow> lo \<le> length t \<Longrightarrow> length t \<le> hi \<Longrightarrow> text_field lo hi (JStr t) = Some t"
  by (simp add: cleanD)

lemma any_text_Some: "any_text v = Some t \<Longrightarrow> clean t \<and> encodable t"
  by (cases v) (auto simp: encodable_trim split: if_splits)

lemma list_field_Some:
  "list_field lo hi f v = Some xs \<Longrightarrow> lo \<le> length xs \<and> length xs \<le> hi \<and> (\<exists>vs. omap f vs = Some xs)"
  by (cases v) (auto split: if_splits dest: omap_length)

definition unique_texts :: "nat \<Rightarrow> string list \<Rightarrow> bool" where
  "unique_texts hi xs \<longleftrightarrow> xs \<noteq> [] \<and> length xs \<le> hi \<and> distinct xs \<and> list_all clean xs \<and> list_all encodable xs"

lemma unique_field_Some: "unique_field 1 hi v = Some xs \<Longrightarrow> unique_texts hi xs"
  using any_text_Some
  by (auto simp: unique_field_def unique_texts_def bind_eq_Some_conv split: if_splits
      dest!: list_field_Some elim!: omap_all)

lemma unique_field_texts [parse_simps]: "unique_texts hi xs \<Longrightarrow> unique_field 1 hi (JStrs xs) = Some xs"
proof -
  assume u: "unique_texts hi xs"
  then have "omap any_text (map JStr xs) = Some xs"
    by (intro omap_map) (auto simp: unique_texts_def list_all_iff cleanD)
  then show ?thesis using u by (cases xs) (auto simp: unique_field_def unique_texts_def)
qed

text \<open>The invariant of the model class.\<close>

definition text_ok :: "nat \<Rightarrow> string \<Rightarrow> bool" where
  "text_ok hi t \<longleftrightarrow> clean t \<and> encodable t \<and> t \<noteq> [] \<and> length t \<le> hi"

definition proposal_ok :: "planner_proposal \<Rightarrow> bool" where
  "proposal_ok p \<longleftrightarrow> unique_texts 6 (pp_hypotheses p)
     \<and> pp_missing p \<noteq> [] \<and> length (pp_missing p) \<le> 8
     \<and> list_all (\<lambda>m. text_ok 240 (me_evidence_ref m) \<and> text_ok 500 (me_reason m) \<and> unique_texts 6 (me_hypothesis_ids m)) (pp_missing p)
     \<and> pp_workers p \<noteq> [] \<and> length (pp_workers p) \<le> 8 \<and> distinct (map wk_worker_role (pp_workers p))
     \<and> list_all (\<lambda>w. text_ok 120 (wk_worker_role w) \<and> unique_texts 12 (wk_reason_codes w) \<and> unique_texts 12 (wk_receipt_ids w))
         (pp_workers p)
     \<and> unique_texts 16 (pp_receipt_ids p) \<and> unique_texts 6 (pp_questions p) \<and> text_ok 800 (pp_summary p)"

lemma need_field_Some: "need_field kvs k f = Some x \<longleftrightarrow> (\<exists>v. map_of kvs k = Some v \<and> f v = Some x)"
  by (simp add: need_field_def bind_eq_Some_conv)

lemma parse_missing_Some:
  "parse_missing v = Some m \<Longrightarrow> text_ok 240 (me_evidence_ref m) \<and> text_ok 500 (me_reason m) \<and> unique_texts 6 (me_hypothesis_ids m)"
  by (cases v) (auto simp: bind_eq_Some_conv need_field_Some text_ok_def simp del: One_nat_def split: if_splits
      dest!: text_field_Some unique_field_Some)

lemma parse_recommendation_Some:
  "parse_recommendation v = Some w \<Longrightarrow>
     text_ok 120 (wk_worker_role w) \<and> unique_texts 12 (wk_reason_codes w) \<and> unique_texts 12 (wk_receipt_ids w)"
  by (cases v) (auto simp: bind_eq_Some_conv need_field_Some text_ok_def simp del: One_nat_def split: if_splits
      dest!: text_field_Some unique_field_Some)

lemma need_list_Some:
  assumes "need_field kvs k (list_field 1 hi f) = Some xs"
  obtains vs where "xs \<noteq> []" "length xs \<le> hi" "omap f vs = Some xs"
proof -
  obtain v where "list_field 1 hi f v = Some xs" using assms unfolding need_field_Some by blast
  from list_field_Some[OF this] obtain vs where "1 \<le> length xs" "length xs \<le> hi" "omap f vs = Some xs" by blast
  then show ?thesis using that[of vs] by fastforce
qed

lemma parse_proposal_ok: "parse_proposal kvs = Some p \<Longrightarrow> proposal_ok p"
proof -
  assume "parse_proposal kvs = Some p"
  then obtain hs ms ws rs qs t where f: "need_field kvs ''hypotheses_to_discriminate'' (unique_field 1 6) = Some hs"
    "need_field kvs ''missing_evidence'' (list_field 1 8 parse_missing) = Some ms"
    "need_field kvs ''recommended_workers'' (list_field 1 8 parse_recommendation) = Some ws"
    "need_field kvs ''supporting_receipt_ids'' (unique_field 1 16) = Some rs"
    "need_field kvs ''counterevidence_questions'' (unique_field 1 6) = Some qs"
    "need_field kvs ''summary'' (text_field 1 800) = Some t"
    and d: "distinct (map wk_worker_role ws)"
    and p: "p = \<lparr>pp_hypotheses = hs, pp_missing = ms, pp_workers = ws, pp_receipt_ids = rs, pp_questions = qs, pp_summary = t\<rparr>"
    by (auto simp: parse_proposal_def bind_eq_Some_conv simp del: One_nat_def split: if_splits)
  have "unique_texts 6 hs" "unique_texts 16 rs" "unique_texts 6 qs" "text_ok 800 t"
    using f unfolding need_field_Some by (auto dest: unique_field_Some text_field_Some simp: text_ok_def simp del: One_nat_def)
  moreover obtain vs where "ms \<noteq> []" "length ms \<le> 8" "omap parse_missing vs = Some ms"
    using f(2) by (rule need_list_Some)
  moreover obtain us where "ws \<noteq> []" "length ws \<le> 8" "omap parse_recommendation us = Some ws"
    using f(3) by (rule need_list_Some)
  ultimately show ?thesis using d omap_all[of parse_missing vs ms, OF _ parse_missing_Some]
      omap_all[of parse_recommendation us ws, OF _ parse_recommendation_Some]
    by (simp add: proposal_ok_def p)
qed

lemma proposal_json_parses:
  assumes "proposal_ok p"
  shows "\<exists>kvs. proposal_json p = JObj kvs \<and> parse_proposal kvs = Some p"
proof -
  let ?missing = "\<lambda>m. JObj [(''evidence_ref'', JStr (me_evidence_ref m)), (''reason'', JStr (me_reason m)),
      (''related_hypothesis_ids'', JStrs (me_hypothesis_ids m))]"
  let ?worker = "\<lambda>w. JObj [(''worker_role'', JStr (wk_worker_role w)), (''reason_codes'', JStrs (wk_reason_codes w)),
      (''supporting_receipt_ids'', JStrs (wk_receipt_ids w))]"
  have txtf: "text_field 1 hi (JStr t) = Some t" if "text_ok hi t" for hi t
    using that by (intro text_field_clean) (auto simp: text_ok_def Suc_le_eq)
  have "omap parse_missing (map ?missing (pp_missing p)) = Some (pp_missing p)"
  proof (rule omap_map)
    fix m assume "m \<in> set (pp_missing p)"
    then show "parse_missing (?missing m) = Some m"
      using assms by (simp add: proposal_ok_def list_all_iff need_field_def txtf unique_field_texts del: One_nat_def text_field.simps)
  qed
  then have ms: "list_field 1 8 parse_missing (JArr (map ?missing (pp_missing p))) = Some (pp_missing p)"
    using assms by (auto simp: proposal_ok_def Suc_le_eq)
  have "omap parse_recommendation (map ?worker (pp_workers p)) = Some (pp_workers p)"
  proof (rule omap_map)
    fix w assume "w \<in> set (pp_workers p)"
    then show "parse_recommendation (?worker w) = Some w"
      using assms by (simp add: proposal_ok_def list_all_iff need_field_def txtf unique_field_texts del: One_nat_def text_field.simps)
  qed
  then have ws: "list_field 1 8 parse_recommendation (JArr (map ?worker (pp_workers p))) = Some (pp_workers p)"
    using assms by (auto simp: proposal_ok_def Suc_le_eq)
  note fs = txtf[of 800] unique_field_texts ms ws
  have "unique_texts 6 (pp_hypotheses p)" "unique_texts 16 (pp_receipt_ids p)" "unique_texts 6 (pp_questions p)"
    "text_ok 800 (pp_summary p)" "distinct (map wk_worker_role (pp_workers p))"
    using assms by (auto simp: proposal_ok_def)
  note oks = this
  define kvs where "kvs = (case proposal_json p of JObj kvs \<Rightarrow> kvs | _ \<Rightarrow> [])"
  then have "need_field kvs ''hypotheses_to_discriminate'' (unique_field 1 6) = Some (pp_hypotheses p)"
    "need_field kvs ''missing_evidence'' (list_field 1 8 parse_missing) = Some (pp_missing p)"
    "need_field kvs ''recommended_workers'' (list_field 1 8 parse_recommendation) = Some (pp_workers p)"
    "need_field kvs ''supporting_receipt_ids'' (unique_field 1 16) = Some (pp_receipt_ids p)"
    "need_field kvs ''counterevidence_questions'' (unique_field 1 6) = Some (pp_questions p)"
    "need_field kvs ''summary'' (text_field 1 800) = Some (pp_summary p)"
    "list_all (\<lambda>(k, _). k \<in> set PROPOSAL_FIELDS) kvs" "literal_field kvs ''schema_version'' (JStr proposal_schema)"
    "literal_field kvs ''decision_authority'' (JStr ''none'')"
    "list_all (\<lambda>k. literal_field kvs k (JBool False)) [''root_cause_claimed'', ''capa_approval_claimed'',
        ''production_release_recommended'', ''equipment_control_requested'']"
    using oks by (simp_all add: proposal_json_def need_field_def literal_field_def fs PROPOSAL_FIELDS_def
        del: One_nat_def text_field.simps list_field.simps)
  then have "parse_proposal kvs = Some p" using oks by (simp add: parse_proposal_def del: One_nat_def)
  moreover have "proposal_json p = JObj kvs" by (simp add: kvs_def proposal_json_def)
  ultimately show ?thesis by blast
qed

section \<open>Validation\<close>

lemma validate_proposal_Some:
  assumes "validate_proposal hyps missing receipts codes budget max_workers payload = (proposal, checks, errors)"
  shows "proposal \<noteq> None \<longleftrightarrow> errors = []" and "list_all clean errors \<and> list_all (\<lambda>(k, b). clean k) checks"
    and "''CONTEXT_BUDGET_EXCEEDED'' \<notin> set errors"
    and "proposal = Some p \<Longrightarrow> parse_proposal payload = Some p
      \<and> list_all id (proposal_checks hyps missing receipts codes budget max_workers p)"
proof -
  have names: "list_all clean CHECK_NAMES" "list_all clean ERROR_CODES" "''CONTEXT_BUDGET_EXCEEDED'' \<notin> set ERROR_CODES"
    by code_simp+
  have schema: "ERROR_CODES = ''SCHEMA_INVALID'' # tl ERROR_CODES" by (simp add: ERROR_CODES_def)
  then have head: "''SCHEMA_INVALID'' \<in> set ERROR_CODES" by (metis list.set_intros(1))
  have len: "length (proposal_checks hyps missing receipts codes budget max_workers q) = length ERROR_CODES" for q
    by (simp add: proposal_checks_def ERROR_CODES_def Let_def)
  have sub: "set errors \<subseteq> set ERROR_CODES"
    using assms head by (auto simp: validate_proposal_def Let_def split: option.splits dest!: set_zip_rightD)
  show "proposal \<noteq> None \<longleftrightarrow> errors = []"
  proof (cases "parse_proposal payload")
    case None
    then show ?thesis using assms by (auto simp: validate_proposal_def)
  next
    case (Some q)
    show ?thesis
      using assms[unfolded validate_proposal_def Some option.case Let_def prod.inject] by (elim conjE, hypsubst) simp
  qed
  have "fst ` set checks \<subseteq> set CHECK_NAMES"
    using assms by (auto simp: validate_proposal_def Let_def split: option.splits dest: set_zip_leftD)
  then show "list_all clean errors \<and> list_all (\<lambda>(k, b). clean k) checks"
    using sub names(1,2) by (auto simp: list_all_iff)
  show "''CONTEXT_BUDGET_EXCEEDED'' \<notin> set errors" using sub names(3) by blast
  show "parse_proposal payload = Some p \<and> list_all id (proposal_checks hyps missing receipts codes budget max_workers p)"
    if "proposal = Some p"
  proof -
    let ?r = "proposal_checks hyps missing receipts codes budget max_workers p"
    have parse: "parse_proposal payload = Some p" and none: "filter (\<lambda>(ok, _). \<not> ok) (zip ?r ERROR_CODES) = []"
      using assms that by (auto simp: validate_proposal_def Let_def split: option.splits if_splits)
    have "x" if x: "x \<in> set ?r" for x
    proof -
      obtain i where i: "i < length ?r" "x = ?r ! i" using x by (metis in_set_conv_nth)
      then have "(?r ! i, ERROR_CODES ! i) \<in> set (zip ?r ERROR_CODES)" using len by (auto simp: set_zip)
      then show ?thesis using none i(2) by (auto simp: filter_empty_conv)
    qed
    then have "\<forall>x\<in>set ?r. id x" unfolding id_def by (rule ballI)
    then show ?thesis unfolding list_all_iff using parse by (intro conjI)
  qed
qed

section \<open>Drafts\<close>

text \<open>What holds of the draft of every receipt, whatever the model answered.\<close>

definition draft_bound :: "crypto \<Rightarrow> planner_config \<Rightarrow> planner_receipt \<Rightarrow> bool" where
  "draft_bound C c d \<longleftrightarrow> mr_mode d = pc_mode c \<and> mr_configured_model d = pc_model c \<and> mr_context_budget d = pc_context_budget c
     \<and> mr_config_sha256 d = secret_free_digest C c \<and> (\<exists>v. mr_input_sha256 d = canonical_json_sha C v)
     \<and> ((mr_memory_sha256 d = None) = (mr_retrieval_sha256 d = None))
     \<and> pred_option is_sha256 (mr_memory_sha256 d) \<and> pred_option is_sha256 (mr_retrieval_sha256 d)
     \<and> (mr_output_sha256 d = None \<or> (\<exists>x. mr_output_sha256 d = Some (sha256 C x)))
     \<and> pred_option (\<lambda>m. length m \<le> 240) (mr_reported_model d)
     \<and> list_all clean (mr_errors d) \<and> list_all (\<lambda>(k, b). clean k) (mr_checks d)
     \<and> mr_call_count d \<le> 1 \<and> 1 \<le> mr_estimated_tokens d \<and> (mr_call_count d = 0 \<longrightarrow> mr_transport d = None)
     \<and> (''CONTEXT_BUDGET_EXCEEDED'' \<in> set (mr_errors d) \<longrightarrow> mr_call_count d = 0) \<and> mr_receipt_sha256 d = []"

definition draft_order :: "planner_config \<Rightarrow> planner_request \<Rightarrow> planner_receipt \<Rightarrow> bool" where
  "draft_order c q d \<longleftrightarrow> (mr_status d = PlanAccepted \<longleftrightarrow> mr_proposal d \<noteq> None)
     \<and> mr_applied d = (if mr_status d = PlanAccepted \<and> pc_mode c \<in> {ModeGated, ModeReplay} then mr_recommended d else [])
     \<and> (mr_effect d = PriorityApplied \<longleftrightarrow> mr_applied d \<noteq> [])
     \<and> list_all clean (mr_recommended d) \<and> distinct (mr_recommended d)
     \<and> set (mr_recommended d) \<subseteq> set (map fst (rp_reason_codes q))
     \<and> int (length (mr_recommended d)) \<le> max 0 (min (int (pc_max_recommended c)) (rp_worker_budget q))"

lemma check_memory_digests:
  "check_memory m = Inr () \<Longrightarrow> \<exists>a b. memory_field m ''input_sha256'' = JStr a \<and> is_sha256 a
     \<and> memory_field m ''retrieval_receipt_sha256'' = JStr b \<and> is_sha256 b"
  by (cases "memory_field m ''input_sha256''"; cases "memory_field m ''retrieval_receipt_sha256''")
     (auto simp: check_memory_def)

lemma normalized_memory_digests:
  assumes "normalize_governed_memory C E v = Inr memory"
  shows "((memory_digest ''input_sha256'' memory = None) = (memory_digest ''retrieval_receipt_sha256'' memory = None))
    \<and> pred_option is_sha256 (memory_digest ''input_sha256'' memory)
    \<and> pred_option is_sha256 (memory_digest ''retrieval_receipt_sha256'' memory)"
proof (cases memory)
  case None
  then show ?thesis by (simp add: memory_digest_def)
next
  case (Some m)
  then obtain kvs where "m = JObj kvs" "check_memory kvs = Inr ()"
    using assms by (auto simp: normalize_governed_memory_def split: option.splits json.splits loading.splits)
  then show ?thesis using check_memory_digests[of kvs] by (auto simp: Some memory_digest_def)
qed

lemma blank_receipt_ok:
  assumes "normalize_governed_memory C E v = Inr memory" and "1 \<le> estimated"
  shows "draft_bound C c (blank_receipt C c pinput memory estimated) \<and> draft_order c q (blank_receipt C c pinput memory estimated)"
  using normalized_memory_digests[OF assms(1)] assms(2)
  by (auto simp: draft_bound_def draft_order_def blank_receipt_def)

text \<open>The order of an accepted proposal.\<close>

lemma accepted_order:
  assumes "validate_proposal hyps missing receipts codes budget max_workers payload = (Some p, checks, errors)"
  shows "map wk_worker_role (pp_workers p) \<noteq> [] \<and> list_all clean (map wk_worker_role (pp_workers p))
    \<and> distinct (map wk_worker_role (pp_workers p)) \<and> set (map wk_worker_role (pp_workers p)) \<subseteq> set (map fst codes)
    \<and> int (length (map wk_worker_role (pp_workers p))) \<le> min (int max_workers) budget"
proof -
  note v = validate_proposal_Some(4)[OF assms refl]
  have "proposal_ok p" by (rule parse_proposal_ok[OF conjunct1[OF v]])
  then have "map wk_worker_role (pp_workers p) \<noteq> []" "list_all clean (map wk_worker_role (pp_workers p))"
    "distinct (map wk_worker_role (pp_workers p))"
    by (auto simp: proposal_ok_def text_ok_def list_all_iff)
  moreover have "set (map wk_worker_role (pp_workers p)) \<subseteq> set (map fst codes)"
    "int (length (map wk_worker_role (pp_workers p))) \<le> min (int max_workers) budget"
    using v by (auto simp: proposal_checks_def Let_def)
  ultimately show ?thesis by blast
qed

text \<open>What reading can return: a digest of the content, a reported name cut to its length, no transport without a call.\<close>

definition read_ok :: "crypto \<Rightarrow> nat \<Rightarrow> read_end \<Rightarrow> bool" where
  "read_ok C calls r \<longleftrightarrow> (case r of
       ReadProposal kvs sha reported usage connection transport \<Rightarrow>
         (\<exists>x. sha = sha256 C x) \<and> pred_option (\<lambda>m. length m \<le> 240) reported \<and> (calls = 0 \<longrightarrow> transport = None)
     | ReadTransportFailed x \<Rightarrow> calls = 1
     | ReadRejected usage transport \<Rightarrow> calls = 0 \<longrightarrow> transport = None
     | ReadAssertion \<Rightarrow> True | ReadRecursion \<Rightarrow> True)"

lemma read_replay_ok: "read_ok C 0 (read_replay C E c)"
  by (auto simp: read_replay_def read_ok_def split: option.splits loading.splits)

lemma read_response_ok: "read_ok C 1 (read_response C E outcome)"
  by (auto simp: read_response_def read_ok_def reported_model_of_def Let_def
      split: request_outcome.splits json.splits option.splits loading.splits)

lemma outcome_receipt_ok:
  assumes "outcome_receipt c q hyps calls blank r = Inr d" and "read_ok C calls r" and "calls \<le> 1"
    and "draft_bound C c blank" and "draft_order c q blank" and "mr_effect blank = DeterministicFallback"
    and "mr_status blank = PlanRejected" and "mr_proposal blank = None" and "mr_applied blank = []"
    and "mr_recommended blank = []" and "mr_reported_model blank = None" and "mr_transport blank = None" and "mr_checks blank = []"
  shows "draft_bound C c d \<and> draft_order c q d"
proof (cases r)
  case (ReadProposal payload sha reported usage connection transport)
  obtain proposal checks errors where v: "validate_proposal hyps (rp_missing_ids q) (rp_receipt_ids q) (rp_reason_codes q)
      (rp_worker_budget q) (pc_max_recommended c) payload = (proposal, checks, errors)"
    by (cases "validate_proposal hyps (rp_missing_ids q) (rp_receipt_ids q) (rp_reason_codes q)
      (rp_worker_budget q) (pc_max_recommended c) payload") blast
  note V = validate_proposal_Some[OF v]
  have d: "Inr d = outcome_receipt c q hyps calls blank r" using assms(1) by simp
  have "draft_bound C c d"
    using assms(2-4) V(2,3) d by (auto simp: draft_bound_def read_ok_def ReadProposal outcome_receipt_def v Let_def)
  moreover have "draft_order c q d"
  proof (cases proposal)
    case None
    then show ?thesis using d by (auto simp: draft_order_def ReadProposal outcome_receipt_def v Let_def)
  next
    case (Some p)
    then have "errors = []" using V(1) by simp
    then show ?thesis
      using d accepted_order[OF v[unfolded Some]]
      by (auto simp: draft_order_def ReadProposal outcome_receipt_def v Let_def Some)
  qed
  ultimately show ?thesis by blast
next
  case (ReadTransportFailed x)
  have names: "clean ''MODEL_TRANSPORT_FAILED''" by code_simp
  have "d = blank\<lparr>mr_status := PlanTransportFailed, mr_connection := NotConnected,
            mr_errors := [''MODEL_TRANSPORT_FAILED''], mr_call_count := 1, mr_transport := Some x\<rparr>"
    using assms(1) by (simp add: outcome_receipt_def ReadTransportFailed)
  then show ?thesis using assms(4-) names by (simp add: draft_bound_def draft_order_def)
next
  case (ReadRejected usage transport)
  have names: "clean ''MODEL_RESPONSE_UNREADABLE_OR_POLICY_BLOCKED''" by code_simp
  define con where "con = (if pc_mode c = ModeReplay then ReplayOnly else case transport of None \<Rightarrow> NotConnected
      | Some x \<Rightarrow> if xr_endpoint_scope x = Local then LocalTest else RealConnected)"
  have "d = blank\<lparr>mr_connection := con, mr_errors := [''MODEL_RESPONSE_UNREADABLE_OR_POLICY_BLOCKED''],
            mr_call_count := calls, mr_usage := usage, mr_transport := transport\<rparr>"
    using assms(1) by (simp add: outcome_receipt_def ReadRejected con_def)
  then show ?thesis using assms(2-) names by (simp add: draft_bound_def draft_order_def ReadRejected read_ok_def)
next
  case ReadAssertion
  then show ?thesis using assms(1) by (simp add: outcome_receipt_def)
next
  case ReadRecursion
  then show ?thesis using assms(1) by (simp add: outcome_receipt_def)
qed

lemma planner_outcome_ok:
  assumes "planner_outcome C E clock ios pl q client = (Inr d, client')"
  shows "draft_bound C (im_config pl) d \<and> draft_order (im_config pl) q d"
proof -
  let ?c = "im_config pl"
  obtain pinput memory hyps where i: "planner_input C E ?c q = Inr (pinput, memory, hyps)"
    using assms by (cases "planner_input C E ?c q") (auto simp: planner_outcome_def)
  let ?est = "estimate_request_tokens C (request_payload E ?c pinput)"
  let ?blank = "blank_receipt C ?c pinput memory ?est"
  have "normalize_governed_memory C E (rp_memory q) = Inr memory" using i by (auto simp: planner_input_def)
  moreover have "1 \<le> ?est" by (simp add: estimate_request_tokens_def)
  ultimately have b: "draft_bound C ?c ?blank" "draft_order ?c q ?blank" using blank_receipt_ok by blast+
  have names: "clean ''context_budget_valid''" "clean ''CONTEXT_BUDGET_EXCEEDED''" by code_simp+
  note blank = blank_receipt_def planner_receipt.simps
  consider "pc_context_budget ?c < ?est" | "\<not> pc_context_budget ?c < ?est" "pc_mode ?c = ModeReplay"
    | "\<not> pc_context_budget ?c < ?est" "pc_mode ?c \<noteq> ModeReplay" by blast
  then show ?thesis
  proof cases
    case 1
    then have "d = ?blank\<lparr>mr_checks := [(''context_budget_valid'', False)], mr_errors := [''CONTEXT_BUDGET_EXCEEDED'']\<rparr>"
      using assms by (simp add: planner_outcome_def i Let_def)
    then show ?thesis using b names by (auto simp: draft_bound_def draft_order_def blank_receipt_def)
  next
    case 2
    then have "outcome_receipt ?c q hyps 0 ?blank (read_replay C E ?c) = Inr d"
      using assms by (simp add: planner_outcome_def i Let_def)
    then show ?thesis by (rule outcome_receipt_ok[OF _ read_replay_ok _ b]) (simp_all add: blank_receipt_def)
  next
    case 3
    then obtain outcome where "outcome_receipt ?c q hyps 1 ?blank (read_response C E outcome) = Inr d"
      using assms by (auto simp: planner_outcome_def i Let_def split: option.splits prod.splits)
    then show ?thesis by (rule outcome_receipt_ok[OF _ read_response_ok _ b]) (simp_all add: blank_receipt_def)
  qed
qed

section \<open>Sealing\<close>

lemma planner_payload_digest [simp]: "planner_payload legacy (d\<lparr>mr_receipt_sha256 := x\<rparr>) = planner_payload legacy d"
  by (simp add: planner_payload_def)

text \<open>Construction changes nothing of a draft but the name the model reported of itself.\<close>

lemma length_trim: "length (trim s) \<le> length s"
  unfolding trim_def by (metis length_dropWhile_le length_rev order_trans)

lemma sealed_stripped:
  assumes "draft_bound C c d" and "draft_order c q d" and "hex_digests C"
    and "clean (pc_model c)" and "pc_model c \<noteq> []" and "length (pc_model c) \<le> 240"
    and "1024 \<le> pc_context_budget c" and "pc_context_budget c \<le> 32768"
    and "pred_option encodable (mr_reported_model d)"
  shows "sealed_planner_receipt C d = Inr (d\<lparr>mr_reported_model := map_option trim (mr_reported_model d),
      mr_receipt_sha256 := canonical_json_sha C (planner_payload False d)\<rparr>)"
proof -
  let ?d = "canonical_json_sha C (planner_payload False d)"
  note b = assms(1)[unfolded draft_bound_def] and o = assms(2)[unfolded draft_order_def]
  have sha: "is_sha256 ?d" "is_sha256 (mr_config_sha256 d)" "is_sha256 (mr_input_sha256 d)" "pred_option is_sha256 (mr_output_sha256 d)"
    using b canonical_clean[OF assms(3)] assms(3) by (auto simp: secret_free_digest_def hex_digests_def)
  have hex: "map_option trim x = x" if "pred_option is_sha256 x" for x
    using that by (cases x) (auto simp: cleanD sha256_clean)
  have checks: "map (\<lambda>(k, b). (trim k, b)) (mr_checks d) = mr_checks d"
    using b by (intro map_idI) (auto simp: list_all_iff cleanD)
  have reported: "pred_option (\<lambda>m. length m \<le> 240) (map_option trim (mr_reported_model d))"
    using b length_trim by (cases "mr_reported_model d") (auto intro: order_trans)
  have "map trim (mr_applied d) = mr_applied d" using o by (simp add: map_trim_clean)
  then show ?thesis
    using b o sha assms(4-9) reported checks
    by (simp add: sealed_planner_receipt_def make_planner_receipt_def Let_def hex cleanD sha256_clean map_trim_clean)
qed

lemma sealed_unencodable: "\<not> pred_option encodable (mr_reported_model d) \<Longrightarrow> sealed_planner_receipt C d = Inl PlannerEncoding"
  by (simp add: sealed_planner_receipt_def)

lemma tampered_receipt:
  assumes "\<And>b. mr_receipt_sha256 r \<noteq> canonical_json_sha C (planner_payload b r)"
  shows "verify_planner_receipt C r = Inl ReceiptTampered"
  using assms by (simp add: verify_planner_receipt_def Let_def)

lemma sealed_draft:
  assumes "draft_bound C c d" and "draft_order c q d" and "hex_digests C"
    and "clean (pc_model c)" and "pc_model c \<noteq> []" and "length (pc_model c) \<le> 240"
    and "1024 \<le> pc_context_budget c" and "pc_context_budget c \<le> 32768"
    and "pred_option encodable (mr_reported_model d)"
    and "pred_option clean (mr_reported_model d)"
  shows "sealed_planner_receipt C d = Inr (d\<lparr>mr_receipt_sha256 := canonical_json_sha C (planner_payload False d)\<rparr>)
    \<and> verify_planner_receipt C (d\<lparr>mr_receipt_sha256 := canonical_json_sha C (planner_payload False d)\<rparr>) = Inr ()"
proof -
  have "map_option trim (mr_reported_model d) = mr_reported_model d"
    using assms(10) by (cases "mr_reported_model d") (simp_all add: cleanD)
  then have "d\<lparr>mr_reported_model := map_option trim (mr_reported_model d)\<rparr> = d" by simp
  moreover have "verify_planner_receipt C (d\<lparr>mr_receipt_sha256 := canonical_json_sha C (planner_payload False d)\<rparr>) = Inr ()"
    using assms(1,2)[unfolded draft_bound_def draft_order_def] by (auto simp: verify_planner_receipt_def Let_def split: if_splits)
  ultimately show ?thesis using sealed_stripped[OF assms(1-9)] by simp
qed

lemma verify_untampered:
  assumes "(mr_memory_sha256 r = None) = (mr_retrieval_sha256 r = None)" and "mr_status r = PlanAccepted \<longrightarrow> mr_proposal r \<noteq> None"
    and "mr_status r \<noteq> PlanAccepted \<longrightarrow> mr_applied r = []"
    and "mr_effect r = PriorityApplied \<longrightarrow> mr_mode r \<in> {ModeGated, ModeReplay} \<and> mr_applied r \<noteq> []"
    and "mr_call_count r = 0 \<longrightarrow> mr_transport r = None"
  shows "verify_planner_receipt C r \<in> {Inr (), Inl ReceiptTampered}"
proof -
  have pass: "require P e = Inr ()" if P for P and e :: planner_error using that by (simp add: require_def)
  have "require ((mr_memory_sha256 r = None) = (mr_retrieval_sha256 r = None)) MemoryBindingIncomplete = Inr ()"
    "require (mr_status r \<noteq> PlanAccepted \<or> mr_proposal r \<noteq> None) AcceptedWithoutProposal = Inr ()"
    "require (mr_status r = PlanAccepted \<or> mr_applied r = []) RejectedWithPriority = Inr ()"
    "require (mr_effect r \<noteq> PriorityApplied \<or> (mr_mode r \<in> {ModeGated, ModeReplay} \<and> mr_applied r \<noteq> [])) PriorityOutsideMode = Inr ()"
    "require (mr_call_count r \<noteq> 0 \<or> mr_transport r = None) ZeroCallTransport = Inr ()"
    by (rule pass, use assms in auto)+
  note later = this
  show ?thesis unfolding verify_planner_receipt_def Let_def later rbind_Inr by (simp add: require_def)
qed

text \<open>So the receipt of a draft verifies, or is rejected for a name that construction has stripped.\<close>

lemma sealed_verdict:
  assumes "draft_bound C c d" and "draft_order c q d" and "hex_digests C"
    and "clean (pc_model c)" and "pc_model c \<noteq> []" and "length (pc_model c) \<le> 240"
    and "1024 \<le> pc_context_budget c" and "pc_context_budget c \<le> 32768" and "pred_option encodable (mr_reported_model d)"
  shows "\<exists>r. sealed_planner_receipt C d = Inr r \<and> (verify_planner_receipt C r = Inr ()
     \<or> verify_planner_receipt C r = Inl ReceiptTampered \<and> \<not> pred_option clean (mr_reported_model d))"
proof (cases "pred_option clean (mr_reported_model d)")
  case True
  then show ?thesis using sealed_draft[OF assms] by blast
next
  case False
  let ?r = "d\<lparr>mr_reported_model := map_option trim (mr_reported_model d), mr_receipt_sha256 := canonical_json_sha C (planner_payload False d)\<rparr>"
  have "mr_effect d = PriorityApplied \<longrightarrow> mr_mode d \<in> {ModeGated, ModeReplay} \<and> mr_applied d \<noteq> []"
    using assms(1,2) by (auto simp: draft_bound_def draft_order_def split: if_splits)
  then have "verify_planner_receipt C ?r \<in> {Inr (), Inl ReceiptTampered}"
    using assms(1,2)[unfolded draft_bound_def draft_order_def] by (intro verify_untampered) simp_all
  then show ?thesis using sealed_stripped[OF assms] False by auto
qed

lemma validate_mode_contract_same: "validate_mode_contract E c0 = Inr c \<Longrightarrow> c = c0"
  by (auto simp: validate_mode_contract_def Let_def split: planner_mode.splits if_splits)

lemma made_planner_config:
  assumes "make_planner_config E raw = Inr c"
  shows "clean (pc_model c)" "1024 \<le> pc_context_budget c" "pc_context_budget c \<le> 32768" "validate_mode_contract E c = Inr c"
proof -
  let ?c = "\<lambda>hosts. raw\<lparr>pc_endpoint := trim (pc_endpoint raw), pc_model := trim (pc_model raw),
                pc_replay_path := map_option trim (pc_replay_path raw), pc_hosts := hosts\<rparr>"
  obtain hosts where v: "validate_mode_contract E (?c hosts) = Inr c"
    and bounds: "1024 \<le> pc_context_budget raw" "pc_context_budget raw \<le> 32768"
    using assms by (auto simp: make_planner_config_def Let_def)
  note same = validate_mode_contract_same[OF v]
  show "clean (pc_model c)" "1024 \<le> pc_context_budget c" "pc_context_budget c \<le> 32768" using same bounds by simp_all
  show "validate_mode_contract E c = Inr c" using v by (simp only: same)
qed

lemma new_planner_config: "new_planner E c key = Inr pl \<Longrightarrow> im_config pl = c \<and> pc_mode c \<noteq> ModeOff"
  by (auto simp: new_planner_def Let_def split: if_splits)

section \<open>Plans\<close>

lemma outcome_call_count:
  "outcome_receipt c q hyps 1 blank r = Inr d \<Longrightarrow> mr_call_count d = 1"
  by (cases r) (auto simp: outcome_receipt_def Let_def split: prod.splits)

lemma replay_call_count:
  "outcome_receipt c q hyps 0 blank (read_replay C E c) = Inr d \<Longrightarrow> mr_call_count d = 0"
  by (cases "read_replay C E c")
    (auto simp: outcome_receipt_def Let_def read_replay_def split: prod.splits option.splits loading.splits if_splits)

text \<open>
  The request is over the budget if its canonical text with the final newline has more than four bytes for each token. What a draft
  counts is then pinned: one call unless the request is over the budget or the mode is replay, and without a call the network is
  left alone.
\<close>

definition over_token_budget :: "crypto \<Rightarrow> planner_env \<Rightarrow> planner_config \<Rightarrow> json \<Rightarrow> bool" where
  "over_token_budget C E c pinput \<longleftrightarrow> 4 * pc_context_budget c < length (dumps C (request_payload E c pinput)) + 1"

lemma estimate_over: "pc_context_budget c < estimate_request_tokens C (request_payload E c pinput) \<longleftrightarrow> over_token_budget C E c pinput"
  by (auto simp: estimate_request_tokens_def over_token_budget_def less_max_iff_disj)

lemma planner_outcome_calls:
  assumes "planner_outcome C E clock ios pl q client = (Inr d, client')"
  obtains pinput memory hyps where "planner_input C E (im_config pl) q = Inr (pinput, memory, hyps)"
    "mr_call_count d = (if over_token_budget C E (im_config pl) pinput \<or> pc_mode (im_config pl) = ModeReplay then 0 else 1)"
    "over_token_budget C E (im_config pl) pinput \<longrightarrow> mr_status d = PlanRejected \<and> mr_applied d = [] \<and> mr_output_sha256 d = None
       \<and> mr_errors d = [''CONTEXT_BUDGET_EXCEEDED'']"
    "mr_call_count d = 0 \<longrightarrow> client' = client"
proof -
  let ?c = "im_config pl"
  obtain pinput memory hyps where i: "planner_input C E ?c q = Inr (pinput, memory, hyps)"
    using assms by (cases "planner_input C E ?c q") (auto simp: planner_outcome_def)
  let ?blank = "blank_receipt C ?c pinput memory (estimate_request_tokens C (request_payload E ?c pinput))"
  note o = assms[unfolded planner_outcome_def i Let_def sum.case prod.case estimate_over]
  consider "over_token_budget C E ?c pinput" | "\<not> over_token_budget C E ?c pinput" "pc_mode ?c = ModeReplay"
    | "\<not> over_token_budget C E ?c pinput" "pc_mode ?c \<noteq> ModeReplay" by blast
  then show thesis
  proof cases
    case 1
    then have "d = ?blank\<lparr>mr_checks := [(''context_budget_valid'', False)], mr_errors := [''CONTEXT_BUDGET_EXCEEDED'']\<rparr>"
      "client' = client" using o by simp_all
    then show thesis using 1 by (intro that[OF i]) (simp_all add: blank_receipt_def)
  next
    case 2
    then have "outcome_receipt ?c q hyps 0 ?blank (read_replay C E ?c) = Inr d" "client' = client" using o by simp_all
    then show thesis using 2 replay_call_count by (intro that[OF i]) simp_all
  next
    case 3
    then obtain outcome where "outcome_receipt ?c q hyps 1 ?blank (read_response C E outcome) = Inr d"
      using o by (auto split: option.splits prod.splits)
    from outcome_call_count[OF this] show thesis using 3 by (intro that[OF i]) simp_all
  qed
qed

lemma planner_plan_Inr:
  assumes "planner_plan C E clock ios pl q client = (Inr (r, applied), client')"
  obtains d where "planner_outcome C E clock ios pl q client = (Inr d, client')" "sealed_planner_receipt C d = Inr r" "applied = mr_applied d"
  using assms
  by (cases "planner_outcome C E clock ios pl q client"; cases "fst (planner_outcome C E clock ios pl q client)")
     (auto simp: planner_plan_def)

lemma sealed_fields:
  assumes "sealed_planner_receipt C d = Inr r"
  shows "mr_mode r = mr_mode d \<and> mr_status r = mr_status d \<and> mr_effect r = mr_effect d \<and> mr_call_count r = mr_call_count d
    \<and> mr_applied r = map trim (mr_applied d) \<and> mr_recommended r = map trim (mr_recommended d)
    \<and> mr_errors r = map trim (mr_errors d) \<and> mr_reported_model r = map_option trim (mr_reported_model d)"
  using assms by (auto simp: sealed_planner_receipt_def make_planner_receipt_def Let_def)

lemma attempt_loop_raised:
  "attempt_loop p clock ios scheme ns st = (LoopRaised e, st') \<Longrightarrow> e \<noteq> BreakerAssertion
     \<and> (e = RecursionExhausted \<longrightarrow> (\<exists>n. io_end (ios n) = DecodingRecursion))"
proof (induction ns arbitrary: st)
  case (Cons n ns)
  have r: "snd (run_attempt p scheme (ios n)) = Inl e' \<Longrightarrow> e' \<noteq> BreakerAssertion
      \<and> (e' = RecursionExhausted \<longrightarrow> (\<exists>n. io_end (ios n) = DecodingRecursion))" for e'
    by (auto simp: run_attempt_def validate_addresses_def rbind_eq_Inl split: resolution.splits sum.splits exchange_end.splits if_splits json.splits)
  show ?case
    using Cons r by (cases "run_attempt p scheme (ios n)") (auto simp: Let_def split: sum.splits option.splits attempt_result.splits if_splits)
qed simp

definition breakers_ok :: "http_client \<Rightarrow> bool" where
  "breakers_ok client \<longleftrightarrow> (\<forall>origin. cb_state (breaker_for client origin) = Open \<longrightarrow> cb_opened_at (breaker_for client origin) \<noteq> None)"

lemma request_never_asserts:
  assumes "request_json C p clock ios url method payload client = (out, client')" and "breakers_ok client"
  shows "out \<noteq> Raised BreakerAssertion \<and> (out = Raised RecursionExhausted \<longrightarrow> (\<exists>n. io_end (ios n) = DecodingRecursion))"
  using assms(1)
proof (cases rule: request_json_cases)
  case (endpoint e)
  then show ?thesis by (auto simp: endpoint_metadata_def Let_def rbind_eq_Inl)
next
  case (assertion eid host port scheme origin)
  then show ?thesis using assms(2) by (auto simp: breakers_ok_def breaker_allow_def split: if_splits option.splits)
next
  case (raised eid host port scheme origin b1 ticks st e)
  then show ?thesis using attempt_loop_raised by blast
qed auto

text \<open>Some JSON text that is read nests too deeply for \<open>json.loads\<close>: the answer's body or the text of the proposal.\<close>

definition recursion_possible :: "planner_env \<Rightarrow> (nat \<Rightarrow> attempt_io) \<Rightarrow> bool" where
  "recursion_possible E ios \<longleftrightarrow> (\<exists>s. pe_loads E s = LoadRecursion) \<or> (\<exists>n. io_end (ios n) = DecodingRecursion)"

lemma safe_json_recursion: "safe_json_object E t = LoadRecursion \<Longrightarrow> \<exists>s. pe_loads E s = LoadRecursion"
  by (auto simp: safe_json_object_def split: loading.splits json.splits)

text \<open>Nothing else the model, the network or the replay file does ends a plan without a draft.\<close>

lemma planner_outcome_total:
  assumes "make_planner_config E raw = Inr c" and "new_planner E c key = Inr pl" and "planner_input C E c q = Inr i"
    and "breakers_ok client"
  shows "\<exists>res client'. planner_outcome C E clock ios pl q client = (res, client')
    \<and> (case res of Inr d \<Rightarrow> True | Inl e \<Rightarrow> e = PlannerRecursion \<and> recursion_possible E ios)"
proof -
  obtain pinput memory hyps where i: "planner_input C E c q = Inr (pinput, memory, hyps)" using assms(3) by (cases i) auto
  have config: "im_config pl = c" using new_planner_config[OF assms(2)] by simp
  have total: "case outcome_receipt c q hyps calls blank r of Inr d \<Rightarrow> True
      | Inl e \<Rightarrow> e = PlannerRecursion \<and> recursion_possible E ios"
    if "r \<noteq> ReadAssertion" "r = ReadRecursion \<longrightarrow> recursion_possible E ios" for calls blank r
    using that by (cases r) (auto simp: outcome_receipt_def Let_def split: prod.splits)
  show ?thesis
  proof (cases "pc_mode c = ModeReplay")
    case True
    have "pc_replay_path c \<noteq> None"
      using made_planner_config(4)[OF assms(1)] by (auto simp: validate_mode_contract_def True opt_truthy_def split: option.splits)
    then have "read_replay C E c \<noteq> ReadAssertion" "read_replay C E c = ReadRecursion \<longrightarrow> recursion_possible E ios"
      using safe_json_recursion[of E]
      by (auto simp: read_replay_def recursion_possible_def split: option.splits loading.splits)
    then show ?thesis using total[of "read_replay C E c"] True by (auto simp: planner_outcome_def config i Let_def)
  next
    case False
    then obtain p where p: "im_policy pl = Some p" using assms(2) by (auto simp: new_planner_def Let_def split: if_splits)
    obtain out client' where r: "request_json C p clock ios (pe_urlsplit E (pc_endpoint c)) POST
        (Some (request_payload E c pinput)) client = (out, client')" by fastforce
    have "read_response C E out \<noteq> ReadAssertion" "read_response C E out = ReadRecursion \<longrightarrow> recursion_possible E ios"
      using request_never_asserts[OF r assms(4)] safe_json_recursion[of E]
      by (auto simp: read_response_def recursion_possible_def Let_def
          split: request_outcome.splits json.splits option.splits if_splits loading.splits)
    then show ?thesis using total[of "read_response C E out"] False by (auto simp: planner_outcome_def config i Let_def p r)
  qed
qed

section \<open>Evaluated examples\<close>

definition demo_payload :: "(string \<times> json) list" where
  "demo_payload = [(''hypotheses_to_discriminate'', JStrs [''h1'']),
     (''missing_evidence'', JArr [JObj [(''evidence_ref'', JStr ''m1''), (''reason'', JStr '' why ''),
        (''related_hypothesis_ids'', JStrs [''h1''])]]),
     (''recommended_workers'', JArr [JObj [(''worker_role'', JStr ''w2''), (''reason_codes'', JStrs [''R1'']),
        (''supporting_receipt_ids'', JStrs [''r1''])]]),
     (''supporting_receipt_ids'', JStrs [''r1'']), (''counterevidence_questions'', JStrs [''q'']), (''summary'', JStr ''s'')]"

definition demo_planner_config :: "planner_mode \<Rightarrow> planner_config" where
  "demo_planner_config mode = \<lparr>pc_mode = mode, pc_endpoint = ''https://api.test/v1/chat/completions'', pc_model = ''gpt'',
     pc_allow_remote = True, pc_hosts = [''api.test''], pc_timeout = 20, pc_max_retries = 1,
     pc_max_response_bytes = 500000, pc_temperature = 0, pc_max_tokens = 900, pc_context_budget = 8192, pc_max_recommended = 4,
     pc_replay_path = Some ''plan.json''\<rparr>"

definition demo_planner_env :: planner_env where
  "demo_planner_env = \<lparr>pe_urlsplit = (\<lambda>_. demo_url\<lparr>ur_path := ''/v1/chat/completions''\<rparr>),
     pe_loads = (\<lambda>_. Loaded (JObj demo_payload)), pe_text = (\<lambda>_. []), pe_str = (\<lambda>_. []), pe_read = (\<lambda>_. Some ''{}''), pe_utf8 = Some\<rparr>"

definition demo_planner_request :: planner_request where
  "demo_planner_request = \<lparr>rp_case_id = ''incident_0123456789abcdef0123'', rp_bundle_sha256 = zero_sha, rp_trigger_kind = ''t'', rp_issues = [],
     rp_hypotheses = [[(''hypothesis_id'', JStr ''h1'')]], rp_receipt_ids = [''r1''], rp_missing_ids = [''m1''],
     rp_reason_codes = [(''w2'', [''R1''])], rp_worker_budget = 2, rp_memory = None\<rparr>"

definition demo_planner :: "planner_mode \<Rightarrow> planner" where
  "demo_planner mode = \<lparr>im_config = demo_planner_config mode, im_policy = (if mode = ModeReplay then None
     else Some \<lparr>hp_allowed_hosts = [''api.test''], hp_allow_local = False, hp_timeout_seconds = 20, hp_max_retries = 1,
       hp_backoff_seconds = 1 / 10, hp_circuit_failure_threshold = 2, hp_circuit_recovery_seconds = 5,
       hp_max_response_bytes = 500000\<rparr>)\<rparr>"

text \<open>The answer of a server that reports its model with a given name, like one with a trailing blank or with a lone surrogate.\<close>

definition named_answer :: "string \<Rightarrow> json" where
  "named_answer name = JObj [(''model'', JStr name), (''choices'', JArr [JObj [(''message'', JObj [(''content'', JStr ''{}'')])]])]"

definition named_ios :: "string \<Rightarrow> nat \<Rightarrow> attempt_io" where
  "named_ios name n = \<lparr>io_resolution = Resolved [demo_address],
     io_end = Response 200 ''{}'' ''application/json'' (Inr (named_answer name))\<rparr>"

definition surrogate_name :: string where
  "surrogate_name = [CHR 0xED, CHR 0xA0, CHR 0x80]"

lemma demo_planner_texts:
  "trim ''https://api.test/v1/chat/completions'' = ''https://api.test/v1/chat/completions''" "trim ''gpt'' = ''gpt''"
  "trim ''plan.json'' = ''plan.json''" "normalize_planner_hosts [''api.test''] = Inr [''api.test'']"
  "ends_with ''/chat/completions'' (rstrip_slashes ''/v1/chat/completions'')" "strip ''key'' = ''key''" "trim ''api.test'' = ''api.test''"
  by code_simp+

lemma demo_planner_made:
  "make_planner_config demo_planner_env (demo_planner_config ModeReplay) = Inr (demo_planner_config ModeReplay)"
  "make_planner_config demo_planner_env (demo_planner_config ModeShadow) = Inr (demo_planner_config ModeShadow)"
  "new_planner demo_planner_env (demo_planner_config ModeReplay) None = Inr (demo_planner ModeReplay)"
  by (simp_all add: make_planner_config_def demo_planner_config_def demo_planner_env_def validate_mode_contract_def demo_url_def
      endpoint_host_def local_host_def demo_host opt_truthy_def demo_planner_texts new_planner_def demo_planner_def Let_def)

lemma demo_validation:
  "\<exists>p checks. validate_proposal [''h1''] [''m1''] [''r1''] [(''w2'', [''R1''])] 2 4 demo_payload = (Some p, checks, [])
     \<and> map wk_worker_role (pp_workers p) = [''w2'']"
proof -
  have "case validate_proposal [''h1''] [''m1''] [''r1''] [(''w2'', [''R1''])] 2 4 demo_payload of
     (Some p, checks, errors) \<Rightarrow> errors = [] \<and> map wk_worker_role (pp_workers p) = [''w2''] | _ \<Rightarrow> False"
    by code_simp
  then show ?thesis by (auto split: prod.splits option.splits)
qed

lemma demo_replay_outcome:
  "\<exists>d. planner_outcome toy_crypto demo_planner_env (\<lambda>_. 0) demo_ios (demo_planner ModeReplay) demo_planner_request demo_client
     = (Inr d, demo_client) \<and> mr_applied d = [''w2''] \<and> mr_reported_model d = None"
proof -
  obtain p checks where v: "validate_proposal [''h1''] [''m1''] [''r1''] [(''w2'', [''R1''])] 2 4 demo_payload = (Some p, checks, [])"
    "map wk_worker_role (pp_workers p) = [''w2'']"
    using demo_validation by (elim exE conjE)
  have "\<exists>d. planner_outcome toy_crypto demo_planner_env (\<lambda>_. 0) demo_ios (demo_planner ModeReplay) demo_planner_request demo_client
     = (Inr d, demo_client) \<and> mr_applied d = [''w2''] \<and> mr_reported_model d = None"
    using v by (simp add: planner_outcome_def demo_planner_def demo_planner_config_def demo_planner_request_def demo_planner_env_def
        planner_input_def normalize_governed_memory_def hypothesis_id_of_def estimate_request_tokens_def toy_crypto_def read_replay_def
        safe_json_object_def outcome_receipt_def blank_receipt_def Let_def)
  then show ?thesis .
qed

text \<open>A crypto instance whose digest tells the padded name from the others.\<close>

definition padded_crypto :: crypto where
  "padded_crypto = \<lparr>jcs = (\<lambda>_. Some ''doc''),
     dumps = (\<lambda>v. case v of JObj kvs \<Rightarrow> (case map_of kvs ''reported_model'' of Some (JStr m) \<Rightarrow> m | _ \<Rightarrow> []) | _ \<Rightarrow> []),
     dumps_spaced = (\<lambda>_. ''doc''), sha256 = (\<lambda>s. if s = ''gpt '' @ [CHR 0x0A] then replicate 64 (CHR ''1'') else zero_sha)\<rparr>"

lemma padded_hex: "hex_digests padded_crypto"
proof -
  have "is_sha256 zero_sha" "is_sha256 (replicate 64 (CHR ''1''))" by code_simp+
  then show ?thesis by (simp add: hex_digests_def padded_crypto_def)
qed

lemma padded_sha:
  "canonical_json_sha padded_crypto (planner_payload b d) =
     (if mr_reported_model d = Some ''gpt '' then replicate 64 (CHR ''1'') else zero_sha)"
proof -
  have "\<exists>kvs. planner_payload b d = JObj kvs \<and> map_of kvs ''reported_model'' = Some (JOpt JStr (mr_reported_model d))"
    unfolding planner_payload_def by simp
  then show ?thesis
    by (cases "mr_reported_model d") (auto simp: padded_crypto_def canonical_json_sha_def JOpt_def)
qed

lemma demo_planner_network: "new_planner demo_planner_env (demo_planner_config ModeShadow) (Some ''key'') = Inr (demo_planner ModeShadow)"
proof -
  have "normalize_hosts [''api.test''] = Inr [''api.test'']" "''key'' \<noteq> ''YOUR_API_KEY''" by code_simp+
  then show ?thesis
    by (simp add: demo_planner_config_def demo_planner_env_def demo_url_def endpoint_host_def local_host_def demo_host opt_truthy_def
        demo_planner_texts new_planner_def demo_planner_def Let_def validate_policy_def)
qed

lemma demo_encodable: "encodable ''{}''" "encodable ''gpt ''"
  by code_simp+

lemma named_request:
  "\<exists>x raw client'. request_json padded_crypto (the (im_policy (demo_planner ModeShadow))) (\<lambda>_. 0) (named_ios name)
     (demo_url\<lparr>ur_path := ''/v1/chat/completions''\<rparr>) POST v demo_client = (JsonResult (named_answer name) x raw, client')"
proof -
  let ?policy = "the (im_policy (demo_planner ModeShadow))"
  have e: "endpoint_metadata (demo_url\<lparr>ur_path := ''/v1/chat/completions''\<rparr>) ?policy
    = Inr (''https://api.test/v1/chat/completions'', ''api.test'', 443, ''https'', ''https://api.test'')"
    by (simp add: endpoint_metadata_def demo_url_def demo_host opt_truthy_def Let_def demo_planner_def)
  have a: "run_attempt ?policy ''https'' (named_ios name 0) = (Some Remote, Inr (Answered 200 (named_answer name) ''{}''))"
    by (simp add: run_attempt_def named_ios_def validate_addresses_def demo_address_def is_forbidden_remote_ip_def demo_planner_def
        named_answer_def)
  have "[0..<hp_max_retries ?policy + 1] = 0 # [1..<hp_max_retries ?policy + 1]" by (simp add: upt_rec)
  then show ?thesis
    by (simp add: request_json_def e Let_def breaker_for_def demo_client_def new_breaker_def breaker_allow_def a)
qed

lemma demo_named_outcome:
  assumes "length name \<le> 240"
  shows "\<exists>d client'. planner_outcome padded_crypto demo_planner_env (\<lambda>_. 0) (named_ios name) (demo_planner ModeShadow)
     demo_planner_request demo_client = (Inr d, client') \<and> mr_applied d = [] \<and> mr_reported_model d = Some name"
proof -
  let ?q = demo_planner_request and ?c = "demo_planner_config ModeShadow" and ?pl = "demo_planner ModeShadow"
  obtain p checks where v: "validate_proposal [''h1''] [''m1''] [''r1''] [(''w2'', [''R1''])] 2 4 demo_payload = (Some p, checks, [])"
    "map wk_worker_role (pp_workers p) = [''w2'']"
    using demo_validation by (elim exE conjE)
  obtain pinput where i: "planner_input padded_crypto demo_planner_env ?c ?q = Inr (pinput, None, [''h1''])"
    by (simp add: planner_input_def normalize_governed_memory_def hypothesis_id_of_def demo_planner_request_def)
  obtain x raw client' where r: "request_json padded_crypto (the (im_policy ?pl)) (\<lambda>_. 0) (named_ios name)
     (demo_url\<lparr>ur_path := ''/v1/chat/completions''\<rparr>) POST (Some (request_payload demo_planner_env ?c pinput)) demo_client
       = (JsonResult (named_answer name) x raw, client')" using named_request by blast
  have "im_policy ?pl \<noteq> None" "im_config ?pl = ?c" by (simp_all add: demo_planner_def)
  moreover have "pc_mode ?c = ModeShadow" "pe_urlsplit demo_planner_env (pc_endpoint ?c) = demo_url\<lparr>ur_path := ''/v1/chat/completions''\<rparr>"
    "\<not> pc_context_budget ?c < estimate_request_tokens padded_crypto (request_payload demo_planner_env ?c pinput)"
    by (simp_all add: demo_planner_config_def demo_planner_env_def estimate_request_tokens_def padded_crypto_def request_payload_def)
  moreover obtain u con t where rd: "read_response padded_crypto demo_planner_env (JsonResult (named_answer name) x raw)
      = ReadProposal demo_payload (sha256 padded_crypto ''{}'') (Some name) u con t"
    using assms by (simp add: read_response_def named_answer_def message_content_def safe_json_object_def demo_planner_env_def reported_model_of_def Let_def
        demo_encodable)
  ultimately have o: "planner_outcome padded_crypto demo_planner_env (\<lambda>_. 0) (named_ios name) ?pl ?q demo_client
      = (outcome_receipt ?c ?q [''h1''] 1 (blank_receipt padded_crypto ?c pinput None
          (estimate_request_tokens padded_crypto (request_payload demo_planner_env ?c pinput)))
         (ReadProposal demo_payload (sha256 padded_crypto ''{}'') (Some name) u con t), client')"
    using r i by (auto simp: planner_outcome_def Let_def)
  have "rp_missing_ids ?q = [''m1'']" "rp_receipt_ids ?q = [''r1'']" "rp_reason_codes ?q = [(''w2'', [''R1''])]" "rp_worker_budget ?q = 2"
    "pc_max_recommended ?c = 4" "pc_mode ?c = ModeShadow"
    by (simp_all add: demo_planner_request_def demo_planner_config_def)
  then show ?thesis unfolding o outcome_receipt_def using v by simp
qed

section \<open>Properties\<close>

text \<open>C25: a proposal that passes validation has the shape of its model, names only identifiers of the allowlists and keeps to the
  budget; reading back what is stored of it and validating that again gives the same proposal, checks and errors.\<close>

theorem proposal_validation_is_sound:
  assumes "validate_proposal hyps missing receipts codes budget max_workers payload = (Some p, checks, errors)"
  shows "proposal_ok p \<and> errors = []
    \<and> set (pp_hypotheses p) \<subseteq> set hyps \<and> set (pp_receipt_ids p) \<subseteq> set receipts
    \<and> (\<forall>m\<in>set (pp_missing p). me_evidence_ref m \<in> set missing \<and> set (me_hypothesis_ids m) \<subseteq> set hyps)
    \<and> (\<forall>w\<in>set (pp_workers p). wk_worker_role w \<in> set (map fst codes) \<and> set (wk_receipt_ids w) \<subseteq> set receipts
         \<and> set (wk_reason_codes w) \<subseteq> set (reason_codes_of codes (wk_worker_role w)))
    \<and> int (length (pp_workers p)) \<le> min (int max_workers) budget
    \<and> (\<exists>kvs. proposal_json p = JObj kvs
         \<and> validate_proposal hyps missing receipts codes budget max_workers kvs = (Some p, checks, errors))"
proof -
  note v = validate_proposal_Some(4)[OF assms refl]
  have ok: "proposal_ok p" by (rule parse_proposal_ok[OF conjunct1[OF v]])
  obtain kvs where "proposal_json p = JObj kvs" "parse_proposal kvs = Some p" using proposal_json_parses[OF ok] by blast
  then have again: "\<exists>kvs. proposal_json p = JObj kvs
         \<and> validate_proposal hyps missing receipts codes budget max_workers kvs = (Some p, checks, errors)"
    using assms v by (auto simp: validate_proposal_def)
  have "errors = []" using validate_proposal_Some(1)[OF assms] by simp
  then show ?thesis using ok again v by (auto simp: proposal_checks_def Let_def list_all_iff)
qed

theorem proposal_validation_is_sound_witness:
  "\<exists>p checks. validate_proposal [''h1''] [''m1''] [''r1''] [(''w2'', [''R1''])] 2 4 demo_payload = (Some p, checks, []) \<and> proposal_ok p"
proof -
  obtain p checks where v: "validate_proposal [''h1''] [''m1''] [''r1''] [(''w2'', [''R1''])] 2 4 demo_payload = (Some p, checks, [])"
    using demo_validation by (elim exE conjE)
  show ?thesis using proposal_validation_is_sound[OF v] v by blast
qed



text \<open>C32: for a made configuration, once the answer is read (only the recursion limit of the JSON parser can prevent that), the
  receipt is returned exactly if the model name the server reported, if any, can be encoded in UTF-8; for a name with a lone surrogate
  \<open>plan\<close> raises instead of returning a receipt. A returned receipt verifies exactly if that name has no white space at an end: the
  digest is taken before the name is stripped. (No collision between the two payloads is assumed.)\<close>

theorem planner_receipt_verifies_iff_clean_name:
  assumes "make_planner_config E raw = Inr c" and "new_planner E c key = Inr pl" and "hex_digests C"
    and "pc_model c \<noteq> []" and "length (pc_model c) \<le> 240"
    and "planner_outcome C E clock ios pl q client = (Inr d, client')"
    and "\<And>b. pred_option encodable (mr_reported_model d) \<Longrightarrow>
          canonical_json_sha C (planner_payload b (d\<lparr>mr_reported_model := map_option trim (mr_reported_model d)\<rparr>))
            = canonical_json_sha C (planner_payload False d)
        \<Longrightarrow> planner_payload b (d\<lparr>mr_reported_model := map_option trim (mr_reported_model d)\<rparr>) = planner_payload False d"
  shows "if pred_option encodable (mr_reported_model d)
    then \<exists>r. planner_plan C E clock ios pl q client = (Inr (r, mr_applied d), client')
      \<and> (verify_planner_receipt C r = Inr () \<longleftrightarrow> pred_option clean (mr_reported_model d))
    else planner_plan C E clock ios pl q client = (Inl PlannerEncoding, client')"
proof (cases "pred_option encodable (mr_reported_model d)")
  case False
  then have "planner_plan C E clock ios pl q client = (Inl PlannerEncoding, client')"
    using sealed_unencodable[OF False] assms(6) by (simp add: planner_plan_def)
  then show ?thesis using False by simp
next
  case enc: True
  note config = made_planner_config[OF assms(1)] new_planner_config[OF assms(2)]
  have ok: "draft_bound C c d" "draft_order c q d" using planner_outcome_ok[OF assms(6)] config by auto
  let ?sha = "canonical_json_sha C (planner_payload False d)"
  let ?r = "d\<lparr>mr_reported_model := map_option trim (mr_reported_model d), mr_receipt_sha256 := ?sha\<rparr>"
  have sealed: "sealed_planner_receipt C d = Inr ?r" by (rule sealed_stripped[OF ok assms(3) config(1) assms(4,5) config(2,3) enc])
  have "verify_planner_receipt C ?r = Inr () \<longleftrightarrow> pred_option clean (mr_reported_model d)"
  proof (cases "pred_option clean (mr_reported_model d)")
    case True
    then show ?thesis using sealed_draft[OF ok assms(3) config(1) assms(4,5) config(2,3) enc] sealed by simp
  next
    case False
    then have "map_option trim (mr_reported_model d) \<noteq> mr_reported_model d"
      by (cases "mr_reported_model d") (auto simp: clean_def)
    then have "planner_payload b (d\<lparr>mr_reported_model := map_option trim (mr_reported_model d)\<rparr>) \<noteq> planner_payload False d" for b
      by (cases "mr_reported_model d") (auto simp: planner_payload_def JOpt_def)
    moreover have "planner_payload b ?r = planner_payload b (d\<lparr>mr_reported_model := map_option trim (mr_reported_model d)\<rparr>)" for b
      by (simp only: planner_payload_digest)
    ultimately have ne: "canonical_json_sha C (planner_payload b ?r) \<noteq> ?sha" for b using assms(7)[OF enc, of b] by metis
    have "mr_receipt_sha256 ?r = ?sha" by simp
    then have "mr_receipt_sha256 ?r \<noteq> canonical_json_sha C (planner_payload b ?r)" for b using ne[of b] by metis
    then have "verify_planner_receipt C ?r = Inl ReceiptTampered" by (rule tampered_receipt)
    then show ?thesis using False by simp
  qed
  then show ?thesis using assms(6) sealed enc by (simp add: planner_plan_def)
qed

text \<open>Two evaluated answers: a name with a trailing blank, and one with a lone surrogate.\<close>

theorem planner_receipt_verifies_iff_clean_name_witness:
  "(\<exists>r client'. planner_plan padded_crypto demo_planner_env (\<lambda>_. 0) (named_ios ''gpt '') (demo_planner ModeShadow)
        demo_planner_request demo_client = (Inr (r, []), client') \<and> verify_planner_receipt padded_crypto r \<noteq> Inr ())
   \<and> (\<exists>client'. planner_plan padded_crypto demo_planner_env (\<lambda>_. 0) (named_ios surrogate_name) (demo_planner ModeShadow)
        demo_planner_request demo_client = (Inl PlannerEncoding, client'))"
proof -
  have names: "pc_model (demo_planner_config ModeShadow) = ''gpt''" "trim ''gpt '' = ''gpt''" "\<not> clean ''gpt ''"
      "trim surrogate_name = surrogate_name" "\<not> encodable surrogate_name"
    by (simp_all add: demo_planner_config_def surrogate_name_def) code_simp+
  have one: "replicate 64 CHR ''1'' \<noteq> zero_sha" by code_simp
  note verifies = planner_receipt_verifies_iff_clean_name[OF demo_planner_made(2) demo_planner_network padded_hex]
  obtain d client' where d: "planner_outcome padded_crypto demo_planner_env (\<lambda>_. 0) (named_ios ''gpt '') (demo_planner ModeShadow)
      demo_planner_request demo_client = (Inr d, client')" "mr_applied d = []" "mr_reported_model d = Some ''gpt ''"
    using demo_named_outcome[of "''gpt ''"] by auto
  have ne: "canonical_json_sha padded_crypto (planner_payload b (d\<lparr>mr_reported_model := map_option trim (mr_reported_model d)\<rparr>))
      \<noteq> canonical_json_sha padded_crypto (planner_payload False d)" for b
    by (simp only: padded_sha planner_receipt.simps d(3) option.map names(2)) (simp add: one[symmetric])
  have "if pred_option encodable (mr_reported_model d)
    then \<exists>r. planner_plan padded_crypto demo_planner_env (\<lambda>_. 0) (named_ios ''gpt '') (demo_planner ModeShadow) demo_planner_request
        demo_client = (Inr (r, mr_applied d), client')
      \<and> (verify_planner_receipt padded_crypto r = Inr () \<longleftrightarrow> pred_option clean (mr_reported_model d))
    else planner_plan padded_crypto demo_planner_env (\<lambda>_. 0) (named_ios ''gpt '') (demo_planner ModeShadow) demo_planner_request
        demo_client = (Inl PlannerEncoding, client')"
    by (rule verifies[OF _ _ d(1)]) (use names in \<open>simp_all add: ne\<close>)
  then have padded: "\<exists>r. planner_plan padded_crypto demo_planner_env (\<lambda>_. 0) (named_ios ''gpt '') (demo_planner ModeShadow)
      demo_planner_request demo_client = (Inr (r, []), client') \<and> verify_planner_receipt padded_crypto r \<noteq> Inr ()"
    unfolding d(2,3) using names(3) demo_encodable(2) by auto
  obtain e client2 where e: "planner_outcome padded_crypto demo_planner_env (\<lambda>_. 0) (named_ios surrogate_name)
      (demo_planner ModeShadow) demo_planner_request demo_client = (Inr e, client2)" "mr_reported_model e = Some surrogate_name"
    using demo_named_outcome[of surrogate_name] by (auto simp: surrogate_name_def)
  have "if pred_option encodable (mr_reported_model e)
    then \<exists>r. planner_plan padded_crypto demo_planner_env (\<lambda>_. 0) (named_ios surrogate_name) (demo_planner ModeShadow)
        demo_planner_request demo_client = (Inr (r, mr_applied e), client2)
      \<and> (verify_planner_receipt padded_crypto r = Inr () \<longleftrightarrow> pred_option clean (mr_reported_model e))
    else planner_plan padded_crypto demo_planner_env (\<lambda>_. 0) (named_ios surrogate_name) (demo_planner ModeShadow)
        demo_planner_request demo_client = (Inl PlannerEncoding, client2)"
    by (rule verifies[OF _ _ e(1)]) (use names e(2) in simp_all)
  then show ?thesis unfolding e(2) using padded names(5) by auto
qed

end
