(* ===== verification/Wave_Safety.thy ===== *)
theory Wave_Safety
  imports Planner_Safety
begin

text \<open>
  What one wave of a case promises: the plan orders the selected workers whatever the model answers, the auditor of counterevidence
  comes last, the guard binds the mode of the runtime profile, and the few ways in which a wave can fail to be built. The
  execution of the planned workers is not part of the model of a wave.
\<close>

section \<open>The auditor's dependencies\<close>

lemma set_auditor_dependencies:
  "set (auditor_dependencies sel w) = (if w = AUDITOR \<and> AUDITOR \<in> set (ws_selected_worker_ids sel)
     then set (ws_selected_worker_ids sel) - {AUDITOR} else {})"
  by (auto simp: auditor_dependencies_def)

lemma auditor_dependencies_acyclic: "acyclic (dep_graph ws (auditor_dependencies sel))"
proof -
  have "dep_graph ws (auditor_dependencies sel) \<subseteq> measure (\<lambda>x. if x = AUDITOR then 1 else 0)"
    by (auto simp: dep_graph_def set_auditor_dependencies split: if_splits)
  then show ?thesis by (meson wf_acyclic wf_measure wf_subset)
qed

lemma topological_last:
  assumes "topological deps out" and "distinct out" and "a \<in> set out" and "set out - {a} \<subseteq> set (deps a)"
  shows "last out = a"
proof -
  obtain us vs where s: "out = us @ a # vs" using assms(3) by (meson split_list)
  then have "set (deps a) \<subseteq> set us" using assms(1) by (auto simp: topological_def)
  then have "set vs \<subseteq> {a} \<union> set us" using assms(4) s by auto
  then have "vs = []" using assms(2) s by (cases vs) auto
  then show ?thesis using s by simp
qed

section \<open>The guard\<close>

lemma guard_payload_digest [simp]: "guard_payload (g\<lparr>ag_receipt_sha256 := d\<rparr>) = guard_payload g"
  by (simp add: guard_payload_def)

definition profile_mode :: "runtime_profile option \<Rightarrow> planner_mode" where
  "profile_mode profile = (case profile of None \<Rightarrow> ModeOff | Some p \<Rightarrow> rf_planner_mode p)"

lemma make_guard_Inr:
  assumes "make_guard raw = Inr g"
  shows "ag_planner_mode g = ag_planner_mode raw \<and> ag_selected_worker_ids g = map trim (ag_selected_worker_ids raw)
    \<and> ag_applied_worker_ids g = map trim (ag_applied_worker_ids raw) \<and> ag_call_count g = ag_call_count raw
    \<and> ag_worker_budget g = ag_worker_budget raw \<and> ag_call_count raw \<le> 1
    \<and> set (ag_applied_worker_ids g) \<subseteq> set (ag_selected_worker_ids g)
    \<and> (ag_planner_mode raw = ModeOff \<longrightarrow> ag_call_count raw = 0)
    \<and> (ag_planner_mode raw = ModeShadow \<longrightarrow> ag_applied_worker_ids g = [])"
  using assms by (auto simp: make_guard_def Let_def image_subset_iff)

abbreviation guard_draft ::
    "crypto \<Rightarrow> string \<Rightarrow> runtime_profile option \<Rightarrow> selection_receipt \<Rightarrow> string list \<Rightarrow> nat \<Rightarrow> bool \<Rightarrow> bool \<Rightarrow> string \<Rightarrow> guard_receipt" where
  "guard_draft C case_id profile sel applied calls exceeded fallback d \<equiv>
     \<lparr>ag_case_id = case_id, ag_profile_sha256 = map_option (profile_sha256 C) profile, ag_planner_mode = profile_mode profile,
      ag_selection_sha256 = ws_receipt_sha256 sel, ag_worker_budget = ws_worker_budget sel,
      ag_selected_worker_ids = ws_selected_worker_ids sel, ag_applied_worker_ids = applied,
      ag_call_count = calls, ag_budget_exceeded = exceeded, ag_fallback_used = fallback,
      ag_allowed_effect = allowed_effect (profile_mode profile), ag_receipt_sha256 = d\<rparr>"

lemma build_guard_Inr:
  assumes "build_autonomy_guard C case_id profile sel receipt = Inr g"
  shows "(receipt = None \<longrightarrow> profile_mode profile = ModeOff)
    \<and> (\<forall>r. receipt = Some r \<longrightarrow> verify_planner_receipt C r = Inr () \<and> mr_mode r = profile_mode profile
         \<and> ag_call_count g = mr_call_count r \<and> ag_applied_worker_ids g = map trim (mr_applied r))
    \<and> ag_planner_mode g = profile_mode profile \<and> ag_selected_worker_ids g = map trim (ws_selected_worker_ids sel)
    \<and> ag_worker_budget g = ws_worker_budget sel
    \<and> ag_call_count g \<le> 1 \<and> set (ag_applied_worker_ids g) \<subseteq> set (ag_selected_worker_ids g)
    \<and> (profile_mode profile = ModeOff \<longrightarrow> ag_call_count g = 0)
    \<and> (profile_mode profile = ModeShadow \<longrightarrow> ag_applied_worker_ids g = [])
    \<and> (receipt = None \<longrightarrow> ag_call_count g = 0 \<and> ag_applied_worker_ids g = [])"
proof (cases receipt)
  case None
  obtain d where "profile_mode profile = ModeOff" "make_guard (guard_draft C case_id profile sel [] 0 False False d) = Inr g"
    using assms unfolding build_autonomy_guard_def profile_mode_def[symmetric] by (auto simp: None Let_def)
  then show ?thesis using make_guard_Inr by (fastforce simp: None)
next
  case (Some r)
  obtain d exceeded fallback where r: "verify_planner_receipt C r = Inr ()" "mr_mode r = profile_mode profile"
    and g: "make_guard (guard_draft C case_id profile sel (mr_applied r) (mr_call_count r) exceeded fallback d) = Inr g"
    using assms unfolding build_autonomy_guard_def profile_mode_def[symmetric] by (auto simp: Some Let_def)
  show ?thesis using make_guard_Inr[OF g] r by (auto simp: Some image_subset_iff)
qed

text \<open>A guard is built and verifies whenever the receipt of the planner fits, unless the digest of its payload is refused.\<close>

definition guard_digest :: "crypto \<Rightarrow> guard_receipt \<Rightarrow> kernel_error + string" where
  "guard_digest C g = kernel_digest C ''VDG_AUTONOMY_GUARD_RECEIPT_V1'' (guard_payload g)"

lemma guard_if_matching:
  assumes "hex_digests C" and "verify_worker_selection_receipt C sel = Inr ()" and "candidates_ok sel"
    and "is_case_id case_id" and "clean case_id"
    and "case receipt of None \<Rightarrow> profile_mode profile = ModeOff
      | Some r \<Rightarrow> verify_planner_receipt C r = Inr () \<and> mr_mode r = profile_mode profile \<and> profile_mode profile \<noteq> ModeOff
          \<and> mr_call_count r \<le> 1 \<and> set (mr_applied r) \<subseteq> set (ws_selected_worker_ids sel)
          \<and> (''CONTEXT_BUDGET_EXCEEDED'' \<in> set (mr_errors r) \<longrightarrow> mr_call_count r = 0)
          \<and> (profile_mode profile = ModeShadow \<longrightarrow> mr_applied r = [])"
  shows "(\<exists>g k. build_autonomy_guard C case_id profile sel receipt = Inl (GuardDigestError k) \<and> guard_digest C g = Inl k)
    \<or> (\<exists>g. build_autonomy_guard C case_id profile sel receipt = Inr g
        \<and> verify_autonomy_guard C g (Some sel) receipt False = Inr ())"
proof -
  let ?ids = "ws_selected_worker_ids sel" and ?mode = "profile_mode profile"
  obtain applied calls exceeded fallback where v: "(case receipt of
          None \<Rightarrow> rbind (require (?mode = ModeOff) PlannerReceiptMissing) (\<lambda>_. Inr ([], 0, False, False))
        | Some r \<Rightarrow> rbind (lift_err GuardPlanner (verify_planner_receipt C r)) (\<lambda>_.
            rbind (require (mr_mode r = ?mode) ModeDiverged) (\<lambda>_.
            Inr (mr_applied r, mr_call_count r, ''CONTEXT_BUDGET_EXCEEDED'' \<in> set (mr_errors r),
                 mr_effect r = DeterministicFallback)))) = Inr (applied, calls, exceeded, fallback)"
    and a: "calls \<le> 1" "set applied \<subseteq> set ?ids" "exceeded \<longrightarrow> calls = 0" "?mode = ModeShadow \<longrightarrow> applied = []"
      "?mode = ModeOff \<longrightarrow> calls = 0"
      "\<forall>r. receipt = Some r \<longrightarrow> verify_planner_receipt C r = Inr () \<and> mr_call_count r = calls \<and> mr_applied r = applied"
    using assms(6) by (cases receipt) auto
  let ?draft = "guard_draft C case_id profile sel applied calls exceeded fallback []"
  show ?thesis
  proof (cases "guard_digest C ?draft")
    case (Inl k)
    then have "build_autonomy_guard C case_id profile sel receipt = Inl (GuardDigestError k)"
      using assms(2) v unfolding build_autonomy_guard_def profile_mode_def[symmetric] Let_def
      by (simp add: guard_digest_def lift_err_def)
    then show ?thesis using Inl by blast
  next
    case (Inr d)
    then have d: "kernel_digest C ''VDG_AUTONOMY_GUARD_RECEIPT_V1'' (guard_payload ?draft) = Inr d" by (simp add: guard_digest_def)
    have sha: "is_sha256 d" "clean d" "is_sha256 (ws_receipt_sha256 sel)"
      using kernel_digest_hex[OF assms(1) d] verified_selection(6)[OF assms(2) assms(1)] by auto
    have profile: "pred_option is_sha256 (map_option (profile_sha256 C) profile)"
      "map_option trim (map_option (profile_sha256 C) profile) = map_option (profile_sha256 C) profile"
      using canonical_clean[OF assms(1)] by (cases profile; simp add: profile_sha256_def cleanD)+
    let ?g = "?draft\<lparr>ag_receipt_sha256 := d\<rparr>"
    have "make_guard ?g = Inr ?g"
      using a sha profile assms(4,5) verified_selection(1)[OF assms(2)] selected_clean[OF assms(2,3)]
      by (simp add: make_guard_def Let_def cleanD sha256_clean allowed_effect_def)
    then have built: "build_autonomy_guard C case_id profile sel receipt = Inr ?g"
      using assms(2) v d unfolding build_autonomy_guard_def profile_mode_def[symmetric] Let_def by simp
    have "kernel_digest C ''VDG_AUTONOMY_GUARD_RECEIPT_V1'' (guard_payload ?g) = Inr d"
      using d by (simp only: guard_payload_digest)
    then have "verify_autonomy_guard C ?g (Some sel) receipt False = Inr ()"
      using a(6) by (cases receipt) (simp_all add: verify_autonomy_guard_def)
    then show ?thesis using built by blast
  qed
qed

section \<open>Waves\<close>

lemma wave_Inr:
  assumes "incident_wave C E clock ios planner profile case_id sel specs q client = (Inr w, client')"
  shows "verify_worker_selection_receipt C sel = Inr ()
    \<and> ask_planner C E clock ios planner sel specs q client = (Inr (wv_planner_receipt w), client')
    \<and> build_worker_execution_plan C sel (auditor_dependencies sel)
        (case wv_planner_receipt w of None \<Rightarrow> [] | Some r \<Rightarrow> mr_applied r) = Inr (wv_plan w)
    \<and> build_autonomy_guard C case_id profile sel (wv_planner_receipt w) = Inr (wv_guard w)"
  using assms by (auto simp: incident_wave_def schedule_wave_def Let_def split: sum.splits prod.splits)

lemma active_reason_codes_selected:
  "set (map fst (active_reason_codes sel specs)) \<subseteq> set (ws_selected_worker_ids sel)"
proof -
  have "set (map fst (foldl (\<lambda>d (codes, role). if codes \<noteq> [] \<and> role \<in> set ids then dict_set role codes d else d) d0 specs))
      \<subseteq> set (map fst d0) \<union> set ids" for d0 and ids :: "string list"
  proof (induction specs arbitrary: d0)
    case (Cons s specs)
    obtain codes role where s: "s = (codes, role)" by (cases s)
    show ?case
      using Cons[of "dict_set role codes d0"] Cons[of d0] by (auto simp: s)
  qed simp
  from this[of "ws_selected_worker_ids sel" "[]"] show ?thesis by (simp add: active_reason_codes_def)
qed

text \<open>The plan of a wave is built for every priority among the selected workers, and verified by its checker, unless the digest of
  its payload is refused.\<close>

lemma wave_plan:
  assumes "hex_digests C" and "verify_worker_selection_receipt C sel = Inr ()" and "candidates_ok sel"
    and "distinct priority" and "set priority \<subseteq> set (ws_selected_worker_ids sel)"
  shows "(\<exists>p k. build_worker_execution_plan C sel (auditor_dependencies sel) priority = Inl k \<and> plan_digest C p = Inl k)
    \<or> (\<exists>p. build_worker_execution_plan C sel (auditor_dependencies sel) priority = Inr p
        \<and> verify_worker_execution_plan C p (Some sel) = Inr ())"
proof -
  let ?ws = "ws_selected_worker_ids sel"
  have inside: "set (auditor_dependencies sel w) \<subseteq> set ?ws \<and> w \<notin> set (auditor_dependencies sel w)" for w
    by (auto simp: set_auditor_dependencies split: if_splits)
  obtain out where out: "schedule (plan_order sel priority) (auditor_dependencies sel) ?ws [] = Inr out"
    using schedule_total[OF auditor_dependencies_acyclic, of ?ws "plan_order sel priority" sel "[]"] inside by auto
  have "\<exists>p. build_worker_execution_plan C sel (auditor_dependencies sel) priority
      = rbind (plan_digest C p) (\<lambda>d. Inr (p\<lparr>pl_receipt_sha256 := d\<rparr>))"
    using plan_if_scheduled[OF assms out] inside by blast
  then obtain p where p: "build_worker_execution_plan C sel (auditor_dependencies sel) priority
      = rbind (plan_digest C p) (\<lambda>d. Inr (p\<lparr>pl_receipt_sha256 := d\<rparr>))" by (elim exE)
  show ?thesis
  proof (cases "plan_digest C p")
    case (Inl k)
    then show ?thesis using p by auto
  next
    case (Inr d)
    then have "build_worker_execution_plan C sel (auditor_dependencies sel) priority = Inr (p\<lparr>pl_receipt_sha256 := d\<rparr>)"
      using p by simp
    then show ?thesis using built_plan_verifies[OF assms(3,1)] by blast
  qed
qed

lemma schedule_wave_guard:
  assumes "hex_digests C" and "verify_worker_selection_receipt C sel = Inr ()" and "candidates_ok sel"
    and "case receipt of None \<Rightarrow> True | Some r \<Rightarrow> distinct (mr_applied r) \<and> set (mr_applied r) \<subseteq> set (ws_selected_worker_ids sel)"
  shows "(\<exists>p k. plan_digest C p = Inl k \<and> schedule_wave C profile case_id sel receipt = Inl (WaveKernel k)
      \<and> build_worker_execution_plan C sel (auditor_dependencies sel) (case receipt of None \<Rightarrow> [] | Some r \<Rightarrow> mr_applied r) = Inl k)
   \<or> (\<exists>p. build_worker_execution_plan C sel (auditor_dependencies sel) (case receipt of None \<Rightarrow> [] | Some r \<Rightarrow> mr_applied r) = Inr p
      \<and> schedule_wave C profile case_id sel receipt =
     rbind (lift_err WaveGuard (build_autonomy_guard C case_id profile sel receipt)) (\<lambda>g.
     rbind (lift_err WaveGuard (verify_autonomy_guard C g (Some sel) receipt False)) (\<lambda>_.
       Inr \<lparr>wv_planner_receipt = receipt, wv_plan = p, wv_guard = g\<rparr>)))"
proof -
  let ?priority = "case receipt of None \<Rightarrow> [] | Some r \<Rightarrow> mr_applied r"
  have "distinct ?priority" "set ?priority \<subseteq> set (ws_selected_worker_ids sel)" using assms(4) by (cases receipt; auto)+
  from wave_plan[OF assms(1-3) this] show ?thesis
  proof (elim disjE exE conjE)
    fix p k
    assume "build_worker_execution_plan C sel (auditor_dependencies sel) ?priority = Inl k" "plan_digest C p = Inl k"
    then show ?thesis by (intro disjI1 exI[of _ p] exI[of _ k]) (simp add: schedule_wave_def Let_def lift_err_def)
  next
    fix p
    assume "build_worker_execution_plan C sel (auditor_dependencies sel) ?priority = Inr p"
      "verify_worker_execution_plan C p (Some sel) = Inr ()"
    then show ?thesis by (intro disjI2 exI[of _ p]) (simp add: schedule_wave_def Let_def)
  qed
qed

text \<open>With the toy oracles no digest is refused.\<close>

lemma toy_plan_digest: "plan_digest toy_crypto p \<noteq> Inl k"
  using toy_digest[of "''VDG_WORKER_EXECUTION_PLAN_RECEIPT_V1''" "plan_payload p"] by (auto simp: plan_digest_def)

lemma toy_guard_digest: "guard_digest toy_crypto g \<noteq> Inl k"
  using toy_digest[of "''VDG_AUTONOMY_GUARD_RECEIPT_V1''" "guard_payload g"] by (auto simp: guard_digest_def)

lemma ask_planner_Some:
  assumes "ask_planner C E clock ios planner sel specs q client = (Inr (Some r), client')"
  shows "\<exists>pl d. planner = Some pl \<and> planner_outcome C E clock ios pl (q\<lparr>rp_reason_codes := active_reason_codes sel specs,
      rp_worker_budget := ws_worker_budget sel\<rparr>) client = (Inr d, client') \<and> sealed_planner_receipt C d = Inr r"
proof -
  obtain pl where pl: "planner = Some pl" using assms by (cases planner) (auto simp: ask_planner_def)
  let ?q = "q\<lparr>rp_reason_codes := active_reason_codes sel specs, rp_worker_budget := ws_worker_budget sel\<rparr>"
  obtain applied where "planner_plan C E clock ios pl ?q client = (Inr (r, applied), client')"
    using assms by (auto simp: ask_planner_def pl Let_def split: if_splits prod.splits)
  then show ?thesis using pl by (rule_tac planner_plan_Inr) blast+
qed

text \<open>What the receipt of an asked planner may change.\<close>

lemma asked_receipt:
  assumes "planner_outcome C E clock ios pl (q\<lparr>rp_reason_codes := active_reason_codes sel specs,
      rp_worker_budget := ws_worker_budget sel\<rparr>) client = (Inr d, client')" and "sealed_planner_receipt C d = Inr r"
  shows "mr_mode r = pc_mode (im_config pl) \<and> distinct (mr_applied r) \<and> set (mr_applied r) \<subseteq> set (ws_selected_worker_ids sel)
    \<and> mr_call_count r \<le> 1 \<and> (''CONTEXT_BUDGET_EXCEEDED'' \<in> set (mr_errors r) \<longrightarrow> mr_call_count r = 0)
    \<and> (mr_mode r \<notin> {ModeGated, ModeReplay} \<longrightarrow> mr_applied r = [])"
proof -
  note ok = planner_outcome_ok[OF assms(1)] and f = sealed_fields[OF assms(2)]
  have "list_all clean (mr_applied d)" "list_all clean (mr_errors d)" using ok by (auto simp: draft_order_def draft_bound_def)
  then have "mr_applied r = mr_applied d" "mr_errors r = mr_errors d" using f by (simp_all add: map_trim_clean)
  moreover have "set (mr_applied d) \<subseteq> set (map fst (active_reason_codes sel specs))" using ok by (auto simp: draft_order_def)
  ultimately show ?thesis
    using ok f active_reason_codes_selected[of sel specs] by (auto simp: draft_order_def draft_bound_def split: if_splits)
qed

lemma case_id_clean: "is_case_id s \<Longrightarrow> clean s"
proof -
  assume s: "is_case_id s"
  have "list_all (\<lambda>c. \<not> trim_char c) ''incident_''" by code_simp
  moreover have "s = ''incident_'' @ drop 9 s" using s by (metis is_case_id_def append_take_drop_id)
  moreover have "list_all (\<lambda>c. \<not> trim_char c) (drop 9 s)" using s hex_not_trimmed by (auto simp: is_case_id_def list_all_iff)
  ultimately show ?thesis by (metis clean_plain list_all_append)
qed

section \<open>Evaluated examples\<close>

definition demo_specs :: "worker_spec list" where
  "demo_specs = [([''R1''], ''w2''), ([], ''w1'')]"

definition demo_profile :: runtime_profile where
  "demo_profile = \<lparr>rf_model_profile = DeepseekReplay, rf_provider_profile_id = None, rf_planner_mode = ModeReplay, rf_temperature = 0,
     rf_max_output_tokens = 900, rf_context_budget = 8192, rf_memory_mode = MemoryOff, rf_memory_top_k = 0, rf_site_profile_id = None\<rparr>"

lemma demo_wave_selection:
  "\<exists>sel. demo_plan_selection = Inr sel \<and> verify_worker_selection_receipt toy_crypto sel = Inr () \<and> candidates_ok sel
     \<and> ws_selected_worker_ids sel = [''w2'', ''w1''] \<and> ws_worker_budget sel = 2"
proof -
  have "case demo_plan_selection of Inl _ \<Rightarrow> False
     | Inr sel \<Rightarrow> verify_worker_selection_receipt toy_crypto sel = Inr () \<and> candidates_ok sel
         \<and> ws_selected_worker_ids sel = [''w2'', ''w1''] \<and> ws_worker_budget sel = 2"
    by code_simp
  then show ?thesis by (auto split: sum.splits)
qed

lemma demo_case_id_ok: "is_case_id demo_case_id"
  by code_simp

lemma demo_wave_without_planner:
  "\<exists>sel w. demo_plan_selection = Inr sel \<and> candidates_ok sel \<and> ws_selected_worker_ids sel = [''w2'', ''w1'']
     \<and> incident_wave toy_crypto demo_planner_env (\<lambda>_. 0) demo_ios None None demo_case_id sel demo_specs demo_planner_request demo_client
         = (Inr w, demo_client)"
proof -
  obtain sel where sel: "demo_plan_selection = Inr sel" "verify_worker_selection_receipt toy_crypto sel = Inr ()" "candidates_ok sel"
    "ws_selected_worker_ids sel = [''w2'', ''w1'']"
    using demo_wave_selection by blast
  obtain g where g: "build_autonomy_guard toy_crypto demo_case_id None sel None = Inr g"
    "verify_autonomy_guard toy_crypto g (Some sel) None False = Inr ()"
    using guard_if_matching[OF toy_hex_digests sel(2,3) demo_case_id_ok case_id_clean[OF demo_case_id_ok], of None None]
    by (auto simp: profile_mode_def toy_guard_digest)
  obtain p where "schedule_wave toy_crypto None demo_case_id sel None = Inr \<lparr>wv_planner_receipt = None, wv_plan = p, wv_guard = g\<rparr>"
    using schedule_wave_guard[OF toy_hex_digests sel(2,3), of None None demo_case_id] g by (auto simp: toy_plan_digest)
  then show ?thesis using sel by (auto simp: incident_wave_def ask_planner_def Let_def)
qed

section \<open>Properties\<close>

text \<open>C19: whatever the model answers, the plan of a wave that is built orders exactly the selected workers, once each, the auditor of
  counterevidence after all others; the model was called at most once, its priority names selected workers only, and outside
  gated and replay mode the plan is the one built without a model.\<close>

theorem wave_only_reorders:
  assumes "incident_wave C E clock ios planner profile case_id sel specs q client = (Inr w, client')"
    and "candidates_ok sel" and "hex_digests C"
  shows "distinct (pl_execution_order (wv_plan w)) \<and> set (pl_execution_order (wv_plan w)) = set (ws_selected_worker_ids sel)
    \<and> (AUDITOR \<in> set (ws_selected_worker_ids sel) \<longrightarrow> last (pl_execution_order (wv_plan w)) = AUDITOR)
    \<and> ag_planner_mode (wv_guard w) = profile_mode profile \<and> ag_selected_worker_ids (wv_guard w) = ws_selected_worker_ids sel
    \<and> ag_call_count (wv_guard w) \<le> 1
    \<and> ag_applied_worker_ids (wv_guard w) = pl_requested_priority_order (wv_plan w)
    \<and> set (pl_requested_priority_order (wv_plan w)) \<subseteq> set (ws_selected_worker_ids sel)
    \<and> (profile_mode profile \<notin> {ModeGated, ModeReplay} \<longrightarrow>
         build_worker_execution_plan C sel (auditor_dependencies sel) [] = Inr (wv_plan w))"
proof -
  let ?ws = "ws_selected_worker_ids sel" and ?deps = "auditor_dependencies sel" and ?out = "pl_execution_order (wv_plan w)"
  let ?priority = "case wv_planner_receipt w of None \<Rightarrow> [] | Some r \<Rightarrow> mr_applied r"
  note W = wave_Inr[OF assms(1)]
  note v = W[THEN conjunct1] and ask = W[THEN conjunct2, THEN conjunct1] and p = W[THEN conjunct2, THEN conjunct2, THEN conjunct1]
    and g = W[THEN conjunct2, THEN conjunct2, THEN conjunct2]
  note b = p[unfolded build_plan_Inr[OF assms(2,3)]] and G = build_guard_Inr[OF g]
  have s: "schedule (plan_order sel ?priority) ?deps ?ws [] = Inr ?out" using b by (elim conjE)
  have out: "set ?out = set ?ws" "distinct ?out" using schedule_set[OF s] by simp_all
  have "last ?out = AUDITOR" if a: "AUDITOR \<in> set ?ws"
    by (rule topological_last[OF schedule_topological[OF s] out(2)]) (use a out in \<open>auto simp: set_auditor_dependencies\<close>)
  moreover have "map trim ?ws = ?ws" by (rule selected_clean[OF v assms(2)]) simp
  moreover have req: "pl_requested_priority_order (wv_plan w) = ?priority" using b by (elim conjE)
  moreover have sub: "set ?priority \<subseteq> set ?ws" using b by (elim conjE)
  moreover have "map trim ?priority = ?priority" by (rule selected_clean[OF v assms(2) sub])
  moreover have "?priority = []" if m: "profile_mode profile \<notin> {ModeGated, ModeReplay}"
  proof (cases "wv_planner_receipt w")
    case (Some r)
    obtain pl d where "planner_outcome C E clock ios pl (q\<lparr>rp_reason_codes := active_reason_codes sel specs,
        rp_worker_budget := ws_worker_budget sel\<rparr>) client = (Inr d, client')" "sealed_planner_receipt C d = Inr r"
      using ask_planner_Some[OF ask[unfolded Some]] by (elim exE conjE)
    from asked_receipt[OF this] have "mr_mode r \<notin> {ModeGated, ModeReplay} \<longrightarrow> mr_applied r = []" by (elim conjE)
    moreover have "mr_mode r = profile_mode profile" using G Some by simp
    ultimately show ?thesis using m by (simp add: Some)
  qed simp
  moreover have "ag_applied_worker_ids (wv_guard w) = map trim ?priority" using G by (cases "wv_planner_receipt w") simp_all
  ultimately show ?thesis using out G p by auto
qed

theorem wave_only_reorders_witness:
  "\<exists>sel w. demo_plan_selection = Inr sel
     \<and> incident_wave toy_crypto demo_planner_env (\<lambda>_. 0) demo_ios None None demo_case_id sel demo_specs demo_planner_request demo_client
         = (Inr w, demo_client)
     \<and> set (pl_execution_order (wv_plan w)) = {''w2'', ''w1''}"
proof -
  obtain sel w where w: "demo_plan_selection = Inr sel" "candidates_ok sel" "ws_selected_worker_ids sel = [''w2'', ''w1'']"
    "incident_wave toy_crypto demo_planner_env (\<lambda>_. 0) demo_ios None None demo_case_id sel demo_specs demo_planner_request demo_client
         = (Inr w, demo_client)"
    using demo_wave_without_planner by (elim exE conjE)
  show ?thesis using wave_only_reorders[OF w(4,2) toy_hex_digests] w by auto
qed



text \<open>C33: a mode that does not match stops the wave. With a profile that enables the planner, a wave in which the planner is not asked
  (none is configured, the budget is spent, or no selected worker has a reason) is always refused: for the missing receipt,
  or before that with the error of the plan, when the digest of the plan is refused. And a planner of another mode than the profile's,
  once asked, never gives a wave.\<close>

theorem unmatched_mode_stops_wave:
  assumes "hex_digests C" and "verify_worker_selection_receipt C sel = Inr ()" and "candidates_ok sel"
  shows "((planner = None \<or> ws_worker_budget sel = 0 \<or> active_reason_codes sel specs = []) \<and> profile_mode profile \<noteq> ModeOff
      \<longrightarrow> incident_wave C E clock ios planner profile case_id sel specs q client
          = (Inl (case build_worker_execution_plan C sel (auditor_dependencies sel) [] of
                Inr p \<Rightarrow> WaveGuard PlannerReceiptMissing | Inl k \<Rightarrow> WaveKernel k), client))
    \<and> (\<forall>k. build_worker_execution_plan C sel (auditor_dependencies sel) [] = Inl k \<longrightarrow> (\<exists>p. plan_digest C p = Inl k))
    \<and> (0 < ws_worker_budget sel \<and> active_reason_codes sel specs \<noteq> [] \<and> pc_mode (im_config pl) \<noteq> profile_mode profile
      \<longrightarrow> fst (incident_wave C E clock ios (Some pl) profile case_id sel specs q client) \<noteq> Inr w)"
proof (intro conjI)
  show "(planner = None \<or> ws_worker_budget sel = 0 \<or> active_reason_codes sel specs = []) \<and> profile_mode profile \<noteq> ModeOff
      \<longrightarrow> incident_wave C E clock ios planner profile case_id sel specs q client
          = (Inl (case build_worker_execution_plan C sel (auditor_dependencies sel) [] of
                Inr p \<Rightarrow> WaveGuard PlannerReceiptMissing | Inl k \<Rightarrow> WaveKernel k), client)"
  proof
    assume a: "(planner = None \<or> ws_worker_budget sel = 0 \<or> active_reason_codes sel specs = []) \<and> profile_mode profile \<noteq> ModeOff"
    then have ask: "ask_planner C E clock ios planner sel specs q client = (Inr None, client)"
      by (auto simp: ask_planner_def Let_def split: option.splits)
    have guard: "build_autonomy_guard C case_id profile sel None = Inl PlannerReceiptMissing"
      using a assms(2) unfolding build_autonomy_guard_def profile_mode_def[symmetric] by (simp add: Let_def)
    show "incident_wave C E clock ios planner profile case_id sel specs q client
          = (Inl (case build_worker_execution_plan C sel (auditor_dependencies sel) [] of
                Inr p \<Rightarrow> WaveGuard PlannerReceiptMissing | Inl k \<Rightarrow> WaveKernel k), client)"
      using schedule_wave_guard[OF assms, of None profile case_id] assms(2) ask guard
      by (auto simp: incident_wave_def lift_err_def)
  qed
  show "\<forall>k. build_worker_execution_plan C sel (auditor_dependencies sel) [] = Inl k \<longrightarrow> (\<exists>p. plan_digest C p = Inl k)"
    using wave_plan[OF assms, of "[]"] by auto
  show "0 < ws_worker_budget sel \<and> active_reason_codes sel specs \<noteq> [] \<and> pc_mode (im_config pl) \<noteq> profile_mode profile
      \<longrightarrow> fst (incident_wave C E clock ios (Some pl) profile case_id sel specs q client) \<noteq> Inr w"
  proof (intro impI notI)
    assume a: "0 < ws_worker_budget sel \<and> active_reason_codes sel specs \<noteq> [] \<and> pc_mode (im_config pl) \<noteq> profile_mode profile"
    assume "fst (incident_wave C E clock ios (Some pl) profile case_id sel specs q client) = Inr w"
    then obtain client' where "incident_wave C E clock ios (Some pl) profile case_id sel specs q client = (Inr w, client')"
      by (metis prod.collapse)
    note W = wave_Inr[OF this]
    then obtain r where r: "wv_planner_receipt w = Some r"
      using a by (cases "wv_planner_receipt w") (auto simp: ask_planner_def Let_def split: prod.splits)
    obtain d where "planner_outcome C E clock ios pl (q\<lparr>rp_reason_codes := active_reason_codes sel specs,
        rp_worker_budget := ws_worker_budget sel\<rparr>) client = (Inr d, client')" "sealed_planner_receipt C d = Inr r"
      using ask_planner_Some W unfolding r by (metis option.inject)
    from asked_receipt[OF this] have "mr_mode r = pc_mode (im_config pl)" by (elim conjE)
    moreover have "mr_mode r = profile_mode profile" using build_guard_Inr W r by blast
    ultimately show False using a by simp
  qed
qed

theorem unmatched_mode_stops_wave_witness:
  "\<exists>sel. demo_plan_selection = Inr sel
     \<and> incident_wave toy_crypto demo_planner_env (\<lambda>_. 0) demo_ios None (Some demo_profile) demo_case_id sel demo_specs
         demo_planner_request demo_client = (Inl (WaveGuard PlannerReceiptMissing), demo_client)"
proof -
  obtain sel where sel: "demo_plan_selection = Inr sel" "verify_worker_selection_receipt toy_crypto sel = Inr ()" "candidates_ok sel"
    using demo_wave_selection by blast
  have "profile_mode (Some demo_profile) \<noteq> ModeOff" by (simp add: profile_mode_def demo_profile_def)
  then show ?thesis
    using unmatched_mode_stops_wave[OF toy_hex_digests sel(2,3), of None demo_specs "Some demo_profile" demo_planner_env "\<lambda>_. 0" demo_ios
      demo_case_id demo_planner_request demo_client] sel(1)
    by (auto simp: toy_plan_digest split: sum.splits)
qed

end
