(* ===== verification/Agent_Core.thy ===== *)
theory Agent_Core
  imports Gate_Contracts Clean_Texts
begin

text \<open>
  \<open>agent_core.py\<close>: the live events of one agent run (\<open>RuntimeEvent\<close> of \<open>runtime_models.py\<close>), the contract a chain of events must
  meet before a receipt is sealed over it, and the receipt with its verification. A loop that may raise is \<open>rfold\<close> of its body.
\<close>

section \<open>Events\<close>

datatype stage = StIntake | StRouter | StMemory | StPlanner | StTool | StCouncil | StJudge | StRepair | StVerify | StDelivery

fun stage_str :: "stage \<Rightarrow> string" where
  "stage_str StIntake = ''intake''" | "stage_str StRouter = ''router''" | "stage_str StMemory = ''memory''"
| "stage_str StPlanner = ''planner''" | "stage_str StTool = ''tool''" | "stage_str StCouncil = ''council''"
| "stage_str StJudge = ''judge''" | "stage_str StRepair = ''repair''" | "stage_str StVerify = ''verify''"
| "stage_str StDelivery = ''delivery''"

datatype run_status = RsQueued | RsRunning | RsSuccess | RsWarning | RsError | RsSkipped

fun run_status_str :: "run_status \<Rightarrow> string" where
  "run_status_str RsQueued = ''queued''" | "run_status_str RsRunning = ''running''" | "run_status_str RsSuccess = ''success''"
| "run_status_str RsWarning = ''warning''" | "run_status_str RsError = ''error''" | "run_status_str RsSkipped = ''skipped''"

datatype phase = PhSystem | PhInitial | PhVerification

fun phase_str :: "phase \<Rightarrow> string" where
  "phase_str PhSystem = ''system''" | "phase_str PhInitial = ''initial''" | "phase_str PhVerification = ''verification''"

record core_event =
  ce_sequence :: int
  ce_phase :: phase
  ce_stage :: stage
  ce_actor :: string
  ce_action :: string
  ce_status :: run_status
  ce_summary :: string
  ce_task_id :: "string option"
  ce_tool_name :: "string option"
  ce_duration_ms :: rat
  ce_evidence_refs :: "string list"
  ce_retry :: nat
  ce_collaboration :: "(string \<times> string) list"

definition core_event_json :: "core_event \<Rightarrow> json" where
  "core_event_json e = JObj
     [(''sequence'', JInt (ce_sequence e)), (''phase'', JStr (phase_str (ce_phase e))), (''stage'', JStr (stage_str (ce_stage e))),
      (''actor'', JStr (ce_actor e)), (''action'', JStr (ce_action e)), (''status'', JStr (run_status_str (ce_status e))),
      (''summary'', JStr (ce_summary e)), (''task_id'', JOpt JStr (ce_task_id e)), (''tool_name'', JOpt JStr (ce_tool_name e)),
      (''duration_ms'', JNum (ce_duration_ms e)), (''evidence_refs'', JStrs (ce_evidence_refs e)),
      (''retry'', JInt (int (ce_retry e))), (''collaboration'', JObj (map (\<lambda>(k, v). (k, JStr v)) (ce_collaboration e)))]"

definition REQUIRED_STAGES :: "stage list" where
  "REQUIRED_STAGES = [StIntake, StPlanner, StTool, StCouncil, StJudge, StDelivery]"

definition SUCCESS_STAGES :: "stage list" where
  "SUCCESS_STAGES = [StIntake, StPlanner, StJudge, StDelivery]"

definition terminal_status :: "run_status \<Rightarrow> bool" where
  "terminal_status s \<longleftrightarrow> s \<in> {RsSuccess, RsWarning, RsError, RsSkipped}"

section \<open>The event contract\<close>

datatype core_error =
    EmptyChain | BadSequence | IncompleteStages | StagesOutOfOrder | DeliveryPhase | DeliveryNotTerminal
  | ToolUnbound | ToolDrifted | ToolWithoutPlanner | ToolAfterClose
  | ControlUnsuccessful "stage list" | StagesUnfinished "stage list" | ToolsUnfinished "string list"
  | ToolCountDiverged | DynamicCountDiverged | ToolErrorWithPass | PassToolsUnsuccessful "string list" | PassStagesUnsuccessful "stage list"
  | CoreConstraint | UnexpectedStageSet | UnexpectedSuccessSet | ControlChainUnsuccessful | EventCountSmall | CoreDigestMismatch | CoreBindingMismatch

text \<open>A loop whose body may raise.\<close>

fun rfold :: "('s \<Rightarrow> 'a \<Rightarrow> 'e + 's) \<Rightarrow> 's \<Rightarrow> 'a list \<Rightarrow> 'e + 's" where
  "rfold f s [] = Inr s"
| "rfold f s (x # xs) = rbind (f s x) (\<lambda>s'. rfold f s' xs)"

fun first_appearances :: "stage list \<Rightarrow> stage list \<Rightarrow> stage list" where
  "first_appearances seen [] = []"
| "first_appearances seen (s # ss) =
     (if s \<in> set REQUIRED_STAGES \<and> s \<notin> set seen then s # first_appearances (s # seen) ss else first_appearances seen ss)"

definition stage_terminal_statuses :: "core_event list \<Rightarrow> (stage \<times> run_status) list" where
  "stage_terminal_statuses events =
     foldl (\<lambda>d e. if ce_stage e \<in> set REQUIRED_STAGES then dict_set (ce_stage e) (ce_status e) d else d) [] events"

text \<open>The last event and the identity of each tool invocation, by its task.\<close>

type_synonym tool_state = "(string \<times> phase \<times> string) list \<times> (string \<times> core_event) list"

definition tool_step :: "tool_state \<Rightarrow> core_event \<Rightarrow> core_error + tool_state" where
  "tool_step st e =
     (if ce_stage e \<noteq> StTool then Inr st
      else rbind (require (opt_truthy (ce_task_id e) \<and> opt_truthy (ce_tool_name e)) ToolUnbound) (\<lambda>_.
        (let (ids, terminal) = st; task = the (ce_task_id e); ident = (ce_phase e, the (ce_tool_name e)) in
         rbind (require (map_of ids task \<in> {None, Some ident}) ToolDrifted) (\<lambda>_.
         Inr (dict_set task ident ids, dict_set task e terminal)))))"

definition tool_call_terminal_events :: "core_event list \<Rightarrow> core_error + (string \<times> core_event) list" where
  "tool_call_terminal_events events = rbind (rfold tool_step ([], []) events) (\<lambda>(_, terminal). Inr terminal)"

text \<open>\<open>latest_planner\<close> and \<open>closed_wave\<close>, and the loop over the enumerated events.\<close>

type_synonym wave_state = "(phase \<times> nat) list \<times> (phase \<times> bool) list"

definition causality_step :: "wave_state \<Rightarrow> nat \<times> core_event \<Rightarrow> core_error + wave_state" where
  "causality_step st ie =
     (let (latest, closed) = st; (index, e) = ie; p = ce_phase e in
      if ce_stage e = StPlanner then Inr (dict_set p index latest, dict_set p False closed)
      else if ce_stage e \<in> {StCouncil, StJudge}
      then Inr (latest, if map_of latest p \<noteq> None then dict_set p True closed else closed)
      else if ce_stage e = StTool
      then rbind (require (map_of latest p \<noteq> None) ToolWithoutPlanner) (\<lambda>_.
           rbind (require (map_of closed p \<noteq> Some True) ToolAfterClose) (\<lambda>_. Inr (latest, closed)))
      else Inr (latest, closed))"

definition validate_tool_causality :: "core_event list \<Rightarrow> core_error + unit" where
  "validate_tool_causality events = rbind (rfold causality_step ([], []) (zip [0..<length events] events)) (\<lambda>_. Inr ())"

definition delivery_step :: "bool \<Rightarrow> core_event \<Rightarrow> core_error + bool" where
  "delivery_step started e =
     rbind (require (\<not> (ce_stage e = StDelivery \<and> ce_phase e \<noteq> PhVerification)) DeliveryPhase) (\<lambda>_.
     rbind (require (\<not> (started \<and> ce_stage e \<noteq> StDelivery)) DeliveryNotTerminal) (\<lambda>_.
     Inr (started \<or> ce_stage e = StDelivery)))"

definition tool_error_count :: "core_event list \<Rightarrow> nat" where
  "tool_error_count events = length (filter (\<lambda>e. ce_stage e = StTool \<and> ce_status e = RsError) events)"

definition validate_live_event_contract :: "core_event list \<Rightarrow> gate_decision \<Rightarrow> int \<Rightarrow> int \<Rightarrow> core_error + unit" where
  "validate_live_event_contract events decision tool_call_count dynamic_task_count =
     rbind (require (events \<noteq> []) EmptyChain) (\<lambda>_.
     rbind (require (map ce_sequence events = map int [1..<length events + 1]) BadSequence) (\<lambda>_.
     (let observed = first_appearances [] (map ce_stage events) in
      rbind (require (length observed = length REQUIRED_STAGES) IncompleteStages) (\<lambda>_.
      rbind (require (observed = REQUIRED_STAGES) StagesOutOfOrder) (\<lambda>_.
      rbind (rfold delivery_step False events) (\<lambda>_.
      rbind (tool_call_terminal_events events) (\<lambda>terminal.
      rbind (validate_tool_causality events) (\<lambda>_.
      (let statuses = stage_terminal_statuses events;
           unfinished = filter (\<lambda>s. map_of statuses s \<noteq> Some RsSuccess) SUCCESS_STAGES;
           nonterminal = filter (\<lambda>s. case map_of statuses s of None \<Rightarrow> True | Some x \<Rightarrow> \<not> terminal_status x) REQUIRED_STAGES;
           unfinished_tools = map fst (filter (\<lambda>(t, e). \<not> terminal_status (ce_status e)) terminal) in
       rbind (require (unfinished = []) (ControlUnsuccessful unfinished)) (\<lambda>_.
       rbind (require (nonterminal = []) (StagesUnfinished nonterminal)) (\<lambda>_.
       rbind (require (unfinished_tools = []) (ToolsUnfinished (sort unfinished_tools))) (\<lambda>_.
       rbind (require (int (length terminal) = tool_call_count) ToolCountDiverged) (\<lambda>_.
       rbind (require (int (length (filter (\<lambda>(t, e). ce_phase e = PhVerification) terminal)) = dynamic_task_count)
         DynamicCountDiverged) (\<lambda>_.
       rbind (require (\<not> (tool_error_count events \<noteq> 0 \<and> decision = GatePass)) ToolErrorWithPass) (\<lambda>_.
       if decision = GatePass
       then (let bad_tools = map fst (filter (\<lambda>(t, e). ce_status e \<noteq> RsSuccess) terminal);
                 bad_stages = filter (\<lambda>s. map_of statuses s \<noteq> Some RsSuccess) REQUIRED_STAGES in
             rbind (require (bad_tools = []) (PassToolsUnsuccessful (sort bad_tools))) (\<lambda>_.
             require (bad_stages = []) (PassStagesUnsuccessful bad_stages)))
       else Inr ())))))))))))))))"

section \<open>The execution receipt\<close>

fun gate_decision_str :: "gate_decision \<Rightarrow> string" where
  "gate_decision_str GatePass = ''PASS''" | "gate_decision_str GateQuarantine = ''QUARANTINE''"
| "gate_decision_str GateRecapture = ''RECAPTURE''" | "gate_decision_str GateDefer = ''DEFER''"

text \<open>The fields with a single literal value are constants of the payload.\<close>

record core_receipt =
  xc_run_id :: string
  xc_planner_backend :: string
  xc_council_backend :: string
  xc_model_call_count :: int
  xc_tool_call_count :: int
  xc_dynamic_task_count :: int
  xc_decision :: gate_decision
  xc_event_count :: nat
  xc_chain_sha256 :: string
  xc_trace_sha256 :: string
  xc_initial_sha256 :: string
  xc_final_sha256 :: string
  xc_plan_sha256 :: string
  xc_stage_sequence :: "stage list"
  xc_stage_checks :: "(string \<times> bool) list"
  xc_success_checks :: "(string \<times> bool) list"
  xc_tool_errors :: nat
  xc_receipt_sha256 :: string

definition core_payload :: "core_receipt \<Rightarrow> json" where
  "core_payload r = JObj
     [(''schema_version'', JStr ''visiondata-gate.agent-core-execution.v2''), (''run_id'', JStr (xc_run_id r)),
      (''execution_mode'', JStr ''authorized_local_readonly''), (''source_kind'', JStr ''local_authorized_directory''),
      (''signal_capture_mode'', JStr ''LIVE_CORE_SIGNALS''), (''posthoc_event_synthesis'', JBool False),
      (''trace_materialization_mode'', JStr ''POST_EXECUTION_FROM_LIVE_SIGNALS''),
      (''planner_backend'', JStr (xc_planner_backend r)), (''council_backend'', JStr (xc_council_backend r)),
      (''policy_judge'', JStr ''frozen_deterministic''), (''model_call_count'', JInt (xc_model_call_count r)),
      (''tool_call_count'', JInt (xc_tool_call_count r)), (''dynamic_task_count'', JInt (xc_dynamic_task_count r)),
      (''final_gate_decision'', JStr (gate_decision_str (xc_decision r))),
      (''runtime_event_count'', JInt (int (xc_event_count r))), (''runtime_event_chain_sha256'', JStr (xc_chain_sha256 r)),
      (''runtime_trace_sha256'', JStr (xc_trace_sha256 r)), (''initial_gate_result_sha256'', JStr (xc_initial_sha256 r)),
      (''final_gate_result_sha256'', JStr (xc_final_sha256 r)), (''dynamic_leader_plan_sha256'', JStr (xc_plan_sha256 r)),
      (''stage_sequence'', JStrs (map stage_str (xc_stage_sequence r))),
      (''required_stage_checks'', JObj (map (\<lambda>(k, b). (k, JBool b)) (xc_stage_checks r))),
      (''required_success_checks'', JObj (map (\<lambda>(k, b). (k, JBool b)) (xc_success_checks r))),
      (''tool_error_event_count'', JInt (int (xc_tool_errors r))), (''event_sequence_contract'', JStr ''contiguous_1_based''),
      (''production_decision_authority'', JStr ''human_only'')]"

text \<open>\<open>list(dict.fromkeys(stages))\<close>: the distinct values in the order of their first appearance.\<close>

definition distinct_stages :: "core_event list \<Rightarrow> stage list" where
  "distinct_stages events = foldl (\<lambda>d e. if ce_stage e \<in> set d then d else d @ [ce_stage e]) [] events"

definition stage_checks :: "core_event list \<Rightarrow> (string \<times> bool) list" where
  "stage_checks events = map (\<lambda>s. (stage_str s, s \<in> set (distinct_stages events))) REQUIRED_STAGES"

definition success_checks :: "core_event list \<Rightarrow> (string \<times> bool) list" where
  "success_checks events = map (\<lambda>s. (stage_str s, map_of (stage_terminal_statuses events) s = Some RsSuccess)) SUCCESS_STAGES"

definition event_chain_sha256 :: "crypto \<Rightarrow> core_event list \<Rightarrow> string" where
  "event_chain_sha256 C events = canonical_json_sha C (JArr (map core_event_json events))"

definition make_core_receipt :: "core_receipt \<Rightarrow> core_error + core_receipt" where
  "make_core_receipt raw =
     (let r = raw\<lparr>xc_run_id := trim (xc_run_id raw), xc_planner_backend := trim (xc_planner_backend raw),
                xc_council_backend := trim (xc_council_backend raw), xc_chain_sha256 := trim (xc_chain_sha256 raw),
                xc_trace_sha256 := trim (xc_trace_sha256 raw), xc_initial_sha256 := trim (xc_initial_sha256 raw),
                xc_final_sha256 := trim (xc_final_sha256 raw), xc_plan_sha256 := trim (xc_plan_sha256 raw),
                xc_stage_checks := map (\<lambda>(k, b). (trim k, b)) (xc_stage_checks raw),
                xc_success_checks := map (\<lambda>(k, b). (trim k, b)) (xc_success_checks raw),
                xc_receipt_sha256 := trim (xc_receipt_sha256 raw)\<rparr>;
          observed = first_appearances [] (xc_stage_sequence r) in
      rbind (require (list_all (\<lambda>s. s \<noteq> []) [xc_run_id r, xc_planner_backend r, xc_council_backend r]
         \<and> 0 \<le> xc_model_call_count r \<and> 0 \<le> xc_tool_call_count r \<and> 0 \<le> xc_dynamic_task_count r \<and> 1 \<le> xc_event_count r
         \<and> list_all is_sha256 [xc_chain_sha256 r, xc_trace_sha256 r, xc_initial_sha256 r, xc_final_sha256 r, xc_plan_sha256 r,
             xc_receipt_sha256 r]
         \<and> xc_stage_sequence r \<noteq> []) CoreConstraint) (\<lambda>_.
      rbind (require (set (map fst (xc_stage_checks r)) = set (map stage_str REQUIRED_STAGES)) UnexpectedStageSet) (\<lambda>_.
      rbind (require (list_all snd (xc_stage_checks r)) IncompleteStages) (\<lambda>_.
      rbind (require (set (map fst (xc_success_checks r)) = set (map stage_str SUCCESS_STAGES)) UnexpectedSuccessSet) (\<lambda>_.
      rbind (require (list_all snd (xc_success_checks r)) ControlChainUnsuccessful) (\<lambda>_.
      rbind (require (\<not> (xc_tool_errors r \<noteq> 0 \<and> xc_decision r = GatePass)) ToolErrorWithPass) (\<lambda>_.
      rbind (require (length observed = length REQUIRED_STAGES) IncompleteStages) (\<lambda>_.
      rbind (require (observed = REQUIRED_STAGES) StagesOutOfOrder) (\<lambda>_.
      rbind (require (length (xc_stage_sequence r) \<le> xc_event_count r) EventCountSmall) (\<lambda>_. Inr r))))))))))"

text \<open>The arguments of the builder that are not the events.\<close>

record core_run =
  rn_run_id :: string
  rn_trace_sha256 :: string
  rn_initial_sha256 :: string
  rn_final_sha256 :: string
  rn_plan_sha256 :: string
  rn_planner_backend :: string
  rn_council_backend :: string
  rn_model_call_count :: int
  rn_tool_call_count :: int
  rn_dynamic_task_count :: int
  rn_decision :: gate_decision

definition build_agent_core_execution_receipt :: "crypto \<Rightarrow> core_run \<Rightarrow> core_event list \<Rightarrow> core_error + core_receipt" where
  "build_agent_core_execution_receipt C n events =
     rbind (validate_live_event_contract events (rn_decision n) (rn_tool_call_count n) (rn_dynamic_task_count n)) (\<lambda>_.
     (let stable = \<lparr>xc_run_id = rn_run_id n, xc_planner_backend = rn_planner_backend n, xc_council_backend = rn_council_backend n,
            xc_model_call_count = rn_model_call_count n, xc_tool_call_count = rn_tool_call_count n,
            xc_dynamic_task_count = rn_dynamic_task_count n, xc_decision = rn_decision n, xc_event_count = length events,
            xc_chain_sha256 = event_chain_sha256 C events, xc_trace_sha256 = rn_trace_sha256 n,
            xc_initial_sha256 = rn_initial_sha256 n, xc_final_sha256 = rn_final_sha256 n, xc_plan_sha256 = rn_plan_sha256 n,
            xc_stage_sequence = distinct_stages events, xc_stage_checks = stage_checks events,
            xc_success_checks = success_checks events, xc_tool_errors = tool_error_count events, xc_receipt_sha256 = []\<rparr> in
      make_core_receipt (stable\<lparr>xc_receipt_sha256 := canonical_json_sha C (core_payload stable)\<rparr>)))"

text \<open>Equality of two dictionaries.\<close>

definition same_dict :: "(string \<times> bool) list \<Rightarrow> (string \<times> bool) list \<Rightarrow> bool" where
  "same_dict a b \<longleftrightarrow> set a = set b"

definition verify_agent_core_execution_receipt :: "crypto \<Rightarrow> core_receipt \<Rightarrow> core_event list option \<Rightarrow> core_error + unit" where
  "verify_agent_core_execution_receipt C r events =
     rbind (require (canonical_json_sha C (core_payload r) = xc_receipt_sha256 r) CoreDigestMismatch) (\<lambda>_.
     (case events of
        None \<Rightarrow> Inr ()
      | Some es \<Rightarrow>
          rbind (validate_live_event_contract es (xc_decision r) (xc_tool_call_count r) (xc_dynamic_task_count r)) (\<lambda>_.
          require (xc_event_count r = length es \<and> xc_chain_sha256 r = event_chain_sha256 C es
             \<and> xc_stage_sequence r = distinct_stages es \<and> same_dict (xc_stage_checks r) (stage_checks es)
             \<and> same_dict (xc_success_checks r) (success_checks es) \<and> xc_tool_errors r = tool_error_count es) CoreBindingMismatch)))"

end
