(* ===== verification/Core_Safety.thy ===== *)
theory Core_Safety
  imports Agent_Core
begin

text \<open>
  What a sealed run of the agent core means: the contract its loops check is restated over the positions of the events, and shown
  to be exactly what they accept; receipts that are built verify, and a verified receipt binds one chain that meets the contract.
\<close>

section \<open>Loops that may raise\<close>

lemma rfold_append: "rfold f s (xs @ ys) = rbind (rfold f s xs) (\<lambda>s'. rfold f s' ys)"
  by (induction xs arbitrary: s) (simp_all add: rbind_assoc)

lemma rfold_snoc: "rfold f s (xs @ [x]) = rbind (rfold f s xs) (\<lambda>s'. f s' x)"
  by (cases "rfold f s xs") (simp_all add: rfold_append rbind_def split: sum.splits)

lemma all_below_snoc:
  "(\<forall>j<length (xs @ [x]). P (xs @ [x]) j) \<longleftrightarrow> (\<forall>j<length xs. P (xs @ [x]) j) \<and> P (xs @ [x]) (length xs)"
  by (auto simp: less_Suc_eq)

section \<open>Delivery\<close>

text \<open>Delivery runs in the verification phase, and nothing else follows it.\<close>

definition delivery_last :: "core_event list \<Rightarrow> bool" where
  "delivery_last es \<longleftrightarrow> (\<forall>e\<in>set es. ce_stage e = StDelivery \<longrightarrow> ce_phase e = PhVerification)
     \<and> (\<forall>i j. i < j \<and> j < length es \<and> ce_stage (es ! i) = StDelivery \<longrightarrow> ce_stage (es ! j) = StDelivery)"

lemma delivery_last_snoc:
  "delivery_last (es @ [e]) \<longleftrightarrow> delivery_last es \<and> (ce_stage e = StDelivery \<longrightarrow> ce_phase e = PhVerification)
     \<and> ((\<exists>x\<in>set es. ce_stage x = StDelivery) \<longrightarrow> ce_stage e = StDelivery)"
proof -
  have "(\<forall>i j. i < j \<and> j < length (es @ [e]) \<and> ce_stage ((es @ [e]) ! i) = StDelivery \<longrightarrow> ce_stage ((es @ [e]) ! j) = StDelivery)
    \<longleftrightarrow> (\<forall>i j. i < j \<and> j < length es \<and> ce_stage (es ! i) = StDelivery \<longrightarrow> ce_stage (es ! j) = StDelivery)
      \<and> (\<forall>i<length es. ce_stage (es ! i) = StDelivery \<longrightarrow> ce_stage e = StDelivery)"
    (is "?l \<longleftrightarrow> ?r1 \<and> ?r2")
  proof
    assume l: ?l
    have ?r1
    proof (intro allI impI)
      fix i j assume a: "i < j \<and> j < length es \<and> ce_stage (es ! i) = StDelivery"
      then show "ce_stage (es ! j) = StDelivery" using l[rule_format, of i j] by (simp add: nth_append)
    qed
    moreover have ?r2
    proof (intro allI impI)
      fix i assume "i < length es" "ce_stage (es ! i) = StDelivery"
      then show "ce_stage e = StDelivery" using l[rule_format, of i "length es"] by (simp add: nth_append)
    qed
    ultimately show "?r1 \<and> ?r2" ..
  next
    assume r: "?r1 \<and> ?r2"
    show ?l
    proof (intro allI impI)
      fix i j assume a: "i < j \<and> j < length (es @ [e]) \<and> ce_stage ((es @ [e]) ! i) = StDelivery"
      then show "ce_stage ((es @ [e]) ! j) = StDelivery"
        using r by (cases "j < length es") (auto simp: nth_append less_Suc_eq)
    qed
  qed
  moreover have "(\<forall>i<length es. ce_stage (es ! i) = StDelivery \<longrightarrow> ce_stage e = StDelivery)
    \<longleftrightarrow> ((\<exists>x\<in>set es. ce_stage x = StDelivery) \<longrightarrow> ce_stage e = StDelivery)"
    by (metis in_set_conv_nth)
  ultimately show ?thesis unfolding delivery_last_def by (simp only: set_append list.set) blast
qed

lemma delivery_loop:
  "rfold delivery_step False es = Inr b \<longleftrightarrow> delivery_last es \<and> b = (\<exists>x\<in>set es. ce_stage x = StDelivery)"
proof (induction es arbitrary: b rule: rev_induct)
  case Nil
  then show ?case by (auto simp: delivery_last_def)
next
  case (snoc e es)
  show ?case unfolding rfold_snoc rbind_eq_Inr snoc.IH delivery_last_snoc by (auto simp: delivery_step_def)
qed

section \<open>Tool invocations\<close>

text \<open>The last event of a tool invocation.\<close>

definition last_tool_event :: "core_event list \<Rightarrow> string \<Rightarrow> core_event option" where
  "last_tool_event es t = find (\<lambda>e. ce_stage e = StTool \<and> ce_task_id e = Some t) (rev es)"

text \<open>Every tool event names its task and its tool, and the events of one task agree on phase and tool.\<close>

definition tools_agree :: "core_event \<Rightarrow> core_event \<Rightarrow> bool" where
  "tools_agree e e' \<longleftrightarrow> (ce_stage e = StTool \<and> ce_stage e' = StTool \<and> ce_task_id e = ce_task_id e'
     \<longrightarrow> ce_phase e = ce_phase e' \<and> ce_tool_name e = ce_tool_name e')"

definition tools_bound :: "core_event list \<Rightarrow> bool" where
  "tools_bound es \<longleftrightarrow> (\<forall>e\<in>set es. ce_stage e = StTool \<longrightarrow> opt_truthy (ce_task_id e) \<and> opt_truthy (ce_tool_name e))
     \<and> (\<forall>e\<in>set es. \<forall>e'\<in>set es. tools_agree e e')"

lemma tools_agree_refl: "tools_agree e e"
  by (simp add: tools_agree_def)

lemma tools_agree_sym: "tools_agree e e' \<Longrightarrow> tools_agree e' e"
  by (simp add: tools_agree_def)

lemma agree_insert:
  "(\<forall>x\<in>insert e A. \<forall>y\<in>insert e A. tools_agree x y) \<longleftrightarrow> (\<forall>x\<in>A. \<forall>y\<in>A. tools_agree x y) \<and> (\<forall>x\<in>A. tools_agree x e)"
  by (blast intro: tools_agree_refl tools_agree_sym)

lemma last_tool_event_snoc:
  "last_tool_event (es @ [e]) t = (if ce_stage e = StTool \<and> ce_task_id e = Some t then Some e else last_tool_event es t)"
  by (simp add: last_tool_event_def)

lemma last_tool_event_Some:
  "last_tool_event es t = Some e \<Longrightarrow> e \<in> set es \<and> ce_stage e = StTool \<and> ce_task_id e = Some t"
  by (induction es rule: rev_induct) (auto simp: last_tool_event_snoc split: if_splits, simp add: last_tool_event_def)

lemma last_tool_event_None:
  "last_tool_event es t = None \<longleftrightarrow> (\<forall>e\<in>set es. \<not> (ce_stage e = StTool \<and> ce_task_id e = Some t))"
  by (auto simp: last_tool_event_def find_None_iff)

definition tool_identity :: "core_event \<Rightarrow> phase \<times> string" where
  "tool_identity e = (ce_phase e, the (ce_tool_name e))"

lemma tools_bound_insert:
  "tools_bound (es @ [e]) \<longleftrightarrow> tools_bound es \<and> (ce_stage e = StTool \<longrightarrow> opt_truthy (ce_task_id e) \<and> opt_truthy (ce_tool_name e))
     \<and> (\<forall>x\<in>set es. tools_agree x e)"
proof -
  have "set (es @ [e]) = insert e (set es)" by simp
  then show ?thesis unfolding tools_bound_def
    by (simp only: agree_insert) (unfold ball_simps, intro iffI conjI; elim conjE; assumption)
qed

lemma tools_bound_snoc:
  "tools_bound (es @ [e]) \<longleftrightarrow> tools_bound es \<and> (ce_stage e = StTool \<longrightarrow>
     opt_truthy (ce_task_id e) \<and> opt_truthy (ce_tool_name e)
     \<and> map_option tool_identity (last_tool_event es (the (ce_task_id e))) \<in> {None, Some (tool_identity e)})"
proof (cases "ce_stage e = StTool \<and> opt_truthy (ce_task_id e) \<and> opt_truthy (ce_tool_name e) \<and> tools_bound es")
  case False
  then show ?thesis unfolding tools_bound_insert by (auto simp: tools_agree_def)
next
  case True
  then have bound: "tools_bound es" and tool: "ce_stage e = StTool" by blast+
  obtain t n where t: "ce_task_id e = Some t" "t \<noteq> []" "ce_tool_name e = Some n" "n \<noteq> []"
    using True by (auto simp: opt_truthy_def split: option.splits)
  have tn: "ce_tool_name x \<noteq> None" if "x \<in> set es" "ce_stage x = StTool" for x
    using bound that by (fastforce simp: tools_bound_def opt_truthy_def split: option.splits)
  have "(\<forall>x\<in>set es. tools_agree x e) \<longleftrightarrow> map_option tool_identity (last_tool_event es t) \<in> {None, Some (tool_identity e)}"
  proof (cases "last_tool_event es t")
    case None
    then show ?thesis using t by (auto simp: last_tool_event_None tools_agree_def)
  next
    case (Some l)
    note l = last_tool_event_Some[OF Some]
    have "ce_phase x = ce_phase l \<and> ce_tool_name x = ce_tool_name l"
      if "x \<in> set es" "ce_stage x = StTool" "ce_task_id x = Some t" for x
      using bound that l unfolding tools_bound_def tools_agree_def by metis
    then have "(\<forall>x\<in>set es. tools_agree x e) \<longleftrightarrow> ce_phase l = ce_phase e \<and> ce_tool_name l = ce_tool_name e"
      using l t(1) tool unfolding tools_agree_def by metis
    then show ?thesis using Some l t tn[of l] by (auto simp: tool_identity_def)
  qed
  then show ?thesis using True t unfolding tools_bound_insert by simp
qed

lemma tool_loop:
  "rfold tool_step ([], []) es = Inr (ids, terminal) \<Longrightarrow> tools_bound es \<and> distinct (map fst terminal)
     \<and> (\<forall>t. map_of terminal t = last_tool_event es t) \<and> (\<forall>t. map_of ids t = map_option tool_identity (last_tool_event es t))"
  "tools_bound es \<Longrightarrow> \<exists>st. rfold tool_step ([], []) es = Inr st"
proof (induction es arbitrary: ids terminal rule: rev_induct)
  case Nil
  case 1
  then show ?case by (simp add: tools_bound_def last_tool_event_def)
next
  case Nil
  case 2
  then show ?case by simp
next
  case (snoc e es)
  case 1
  then obtain ids0 terminal0 where r: "rfold tool_step ([], []) es = Inr (ids0, terminal0)"
    and st: "tool_step (ids0, terminal0) e = Inr (ids, terminal)"
    unfolding rfold_snoc rbind_eq_Inr by auto
  from snoc.IH(1)[OF r] st show ?case
    unfolding tools_bound_snoc last_tool_event_snoc
    by (auto simp: tool_step_def Let_def distinct_dict_set tool_identity_def opt_truthy_def split: if_splits option.splits)
next
  case (snoc e es)
  case 2
  then have b: "tools_bound es" and e: "ce_stage e = StTool \<longrightarrow>
     opt_truthy (ce_task_id e) \<and> opt_truthy (ce_tool_name e)
     \<and> map_option tool_identity (last_tool_event es (the (ce_task_id e))) \<in> {None, Some (tool_identity e)}"
    unfolding tools_bound_snoc by blast+
  obtain ids terminal where r: "rfold tool_step ([], []) es = Inr (ids, terminal)" using snoc.IH(2)[OF b] by auto
  then show ?case using snoc.IH(1)[OF r] e unfolding rfold_snoc by (auto simp: tool_step_def Let_def tool_identity_def)
qed

section \<open>Causality of tool events\<close>

text \<open>A wave of a phase is open when its last planner has no council or judge of the phase after it.\<close>

definition open_wave :: "core_event list \<Rightarrow> phase \<Rightarrow> bool" where
  "open_wave es p \<longleftrightarrow> (\<exists>us e vs. es = us @ e # vs \<and> ce_stage e = StPlanner \<and> ce_phase e = p
     \<and> (\<forall>x\<in>set vs. ce_phase x = p \<longrightarrow> ce_stage x \<notin> {StCouncil, StJudge}))"

definition tools_causal :: "core_event list \<Rightarrow> bool" where
  "tools_causal es \<longleftrightarrow> (\<forall>us e vs. es = us @ e # vs \<longrightarrow> ce_stage e = StTool \<longrightarrow> open_wave us (ce_phase e))"

lemma open_wave_snoc:
  "open_wave (es @ [e]) p \<longleftrightarrow> ce_stage e = StPlanner \<and> ce_phase e = p
     \<or> open_wave es p \<and> \<not> (ce_phase e = p \<and> ce_stage e \<in> {StCouncil, StJudge})" (is "?l \<longleftrightarrow> ?a \<or> ?b")
proof
  assume ?l
  then obtain us x vs where s: "es @ [e] = us @ x # vs" and x: "ce_stage x = StPlanner" "ce_phase x = p"
    and vs: "\<forall>x\<in>set vs. ce_phase x = p \<longrightarrow> ce_stage x \<notin> {StCouncil, StJudge}"
    unfolding open_wave_def by blast
  show "?a \<or> ?b"
  proof (cases vs rule: rev_cases)
    case Nil
    then show ?thesis using s x by simp
  next
    case (snoc ws w)
    then have "es = us @ x # ws" "e = w" using s by simp_all
    then show ?thesis using x vs snoc unfolding open_wave_def by auto
  qed
next
  assume "?a \<or> ?b"
  then show ?l
  proof
    assume ?a
    then show ?l unfolding open_wave_def by (intro exI[of _ es] exI[of _ e] exI[of _ "[]"]) simp
  next
    assume ?b
    then obtain us x vs where "es = us @ x # vs" "ce_stage x = StPlanner" "ce_phase x = p"
      "\<forall>x\<in>set vs. ce_phase x = p \<longrightarrow> ce_stage x \<notin> {StCouncil, StJudge}" "\<not> (ce_phase e = p \<and> ce_stage e \<in> {StCouncil, StJudge})"
      unfolding open_wave_def by blast
    then show ?l unfolding open_wave_def by (intro exI[of _ us] exI[of _ x] exI[of _ "vs @ [e]"]) auto
  qed
qed

lemma tools_causal_snoc:
  "tools_causal (es @ [e]) \<longleftrightarrow> tools_causal es \<and> (ce_stage e = StTool \<longrightarrow> open_wave es (ce_phase e))" (is "?l \<longleftrightarrow> ?r")
proof
  assume l: ?l
  show ?r
    unfolding tools_causal_def
  proof (intro conjI allI impI)
    fix us x vs assume "es = us @ x # vs" "ce_stage x = StTool"
    then show "open_wave us (ce_phase x)" using l[unfolded tools_causal_def, rule_format, of us x "vs @ [e]"] by simp
  next
    assume "ce_stage e = StTool"
    then show "open_wave es (ce_phase e)" using l[unfolded tools_causal_def, rule_format, of es e "[]"] by simp
  qed
next
  assume r: ?r
  show ?l
    unfolding tools_causal_def
  proof (intro allI impI)
    fix us x vs assume s: "es @ [e] = us @ x # vs" "ce_stage x = StTool"
    show "open_wave us (ce_phase x)"
    proof (cases vs rule: rev_cases)
      case Nil
      then show ?thesis using s r by simp
    next
      case (snoc ws w)
      then have "es = us @ x # ws" using s by simp
      then show ?thesis using r s(2) unfolding tools_causal_def by blast
    qed
  qed
qed

lemma enumerate_snoc: "zip [0..<length (es @ [e])] (es @ [e]) = zip [0..<length es] es @ [(length es, e)]"
  by (simp add: zip_append)

definition wave_open :: "wave_state \<Rightarrow> phase \<Rightarrow> bool" where
  "wave_open st p \<longleftrightarrow> map_of (fst st) p \<noteq> None \<and> map_of (snd st) p \<noteq> Some True"

lemma causality_step_Inr:
  "causality_step st (i, e) = Inr st' \<Longrightarrow> (ce_stage e = StTool \<longrightarrow> wave_open st (ce_phase e))
     \<and> (wave_open st' p \<longleftrightarrow> ce_stage e = StPlanner \<and> ce_phase e = p
         \<or> wave_open st p \<and> \<not> (ce_phase e = p \<and> ce_stage e \<in> {StCouncil, StJudge}))"
  by (cases st; cases "ce_stage e") (auto simp: causality_step_def Let_def wave_open_def split: if_splits)

lemma causality_step_total:
  "(ce_stage e = StTool \<longrightarrow> wave_open st (ce_phase e)) \<Longrightarrow> \<exists>st'. causality_step st (i, e) = Inr st'"
  by (cases st; cases "ce_stage e") (auto simp: causality_step_def Let_def wave_open_def)

lemma causality_loop:
  "rfold causality_step ([], []) (zip [0..<length es] es) = Inr st \<Longrightarrow> tools_causal es \<and> (\<forall>p. wave_open st p \<longleftrightarrow> open_wave es p)"
  "tools_causal es \<Longrightarrow> \<exists>st. rfold causality_step ([], []) (zip [0..<length es] es) = Inr st"
proof (induction es arbitrary: st rule: rev_induct)
  case Nil
  case 1
  then show ?case by (auto simp: tools_causal_def open_wave_def wave_open_def)
next
  case Nil
  case 2
  then show ?case by simp
next
  case (snoc e es)
  case 1
  then obtain st0 where r: "rfold causality_step ([], []) (zip [0..<length es] es) = Inr st0"
    and st: "causality_step st0 (length es, e) = Inr st"
    unfolding enumerate_snoc rfold_snoc rbind_eq_Inr by blast
  show ?case
    unfolding tools_causal_snoc open_wave_snoc using snoc.IH(1)[OF r] causality_step_Inr[OF st] by simp
next
  case (snoc e es)
  case 2
  then have c: "tools_causal es" and e: "ce_stage e = StTool \<longrightarrow> open_wave es (ce_phase e)" unfolding tools_causal_snoc by blast+
  obtain st where r: "rfold causality_step ([], []) (zip [0..<length es] es) = Inr st" using snoc.IH(2)[OF c] by blast
  show ?case using snoc.IH(1)[OF r] e causality_step_total[of e st] unfolding enumerate_snoc rfold_snoc r by simp
qed

lemma validate_tool_causality_ok: "validate_tool_causality es = Inr () \<longleftrightarrow> tools_causal es"
  unfolding validate_tool_causality_def rbind_eq_Inr using causality_loop[of es] by auto

section \<open>The order of the stages\<close>

definition first_before :: "stage set \<Rightarrow> stage \<Rightarrow> stage list \<Rightarrow> bool" where
  "first_before X d ss \<longleftrightarrow> (\<exists>us vs. ss = us @ d # vs \<and> set us \<inter> X = {})"

text \<open>Every required stage appears, before the first event of any stage that comes after it.\<close>

definition stages_ordered :: "stage list \<Rightarrow> stage list \<Rightarrow> bool" where
  "stages_ordered D ss \<longleftrightarrow> (\<forall>k<length D. first_before (set (drop k D)) (D ! k) ss)"

lemma first_before_Nil: "\<not> first_before X d []"
  by (simp add: first_before_def)

lemma first_before_Cons: "first_before X d (s # ss) \<longleftrightarrow> s = d \<or> s \<notin> X \<and> first_before X d ss" (is "?l \<longleftrightarrow> ?r")
proof
  assume ?l
  then obtain us vs where "s # ss = us @ d # vs" "set us \<inter> X = {}" unfolding first_before_def by blast
  then show ?r by (cases us) (auto simp: first_before_def)
next
  assume ?r
  then show ?l
  proof
    assume "s = d"
    then show ?l unfolding first_before_def by (intro exI[of _ "[]"] exI[of _ ss]) simp
  next
    assume "s \<notin> X \<and> first_before X d ss"
    then obtain us vs where "s \<notin> X" "ss = us @ d # vs" "set us \<inter> X = {}" unfolding first_before_def by blast
    then show ?l unfolding first_before_def by (intro exI[of _ "s # us"] exI[of _ vs]) simp
  qed
qed

lemma stages_ordered_skip: "s \<notin> set D \<Longrightarrow> stages_ordered D (s # ss) \<longleftrightarrow> stages_ordered D ss"
  unfolding stages_ordered_def first_before_Cons by (metis in_set_dropD nth_mem)

lemma stages_ordered_head: "s \<notin> set D \<Longrightarrow> stages_ordered (s # D) (s # ss) \<longleftrightarrow> stages_ordered D ss"
  unfolding stages_ordered_def first_before_Cons
  by (simp add: All_less_Suc2) (metis in_set_dropD nth_mem)

lemma stages_ordered_stop: "s \<in> set D \<Longrightarrow> D \<noteq> [] \<Longrightarrow> hd D \<noteq> s \<Longrightarrow> \<not> stages_ordered D (s # ss)"
  unfolding stages_ordered_def first_before_Cons by (cases D) auto

lemma first_appearances_iff:
  "distinct D \<Longrightarrow> set REQUIRED_STAGES - set seen = set D \<Longrightarrow> first_appearances seen ss = D \<longleftrightarrow> stages_ordered D ss"
proof (induction ss arbitrary: D seen)
  case Nil
  then show ?case by (cases D) (auto simp: stages_ordered_def first_before_Nil)
next
  case (Cons s ss)
  show ?case
  proof (cases "s \<in> set D")
    case False
    then have "first_appearances seen (s # ss) = first_appearances seen ss" using Cons.prems(2) by auto
    then show ?thesis using Cons.IH[OF Cons.prems] stages_ordered_skip[OF False] by simp
  next
    case True
    then have f: "first_appearances seen (s # ss) = s # first_appearances (s # seen) ss" using Cons.prems(2) by auto
    from True obtain d D' where D: "D = d # D'" by (cases D) auto
    show ?thesis
    proof (cases "d = s")
      case True
      have "set REQUIRED_STAGES - set (s # seen) = set D'" using Cons.prems D True by auto
      then show ?thesis using Cons.IH[of D' "s # seen"] Cons.prems(1) D True f by (simp add: stages_ordered_head)
    next
      case False
      then show ?thesis using stages_ordered_stop[OF \<open>s \<in> set D\<close>, of ss] D f by simp
    qed
  qed
qed

lemma required_order: "first_appearances [] ss = REQUIRED_STAGES \<longleftrightarrow> stages_ordered REQUIRED_STAGES ss"
  by (rule first_appearances_iff) (simp_all add: REQUIRED_STAGES_def)

section \<open>Terminal statuses\<close>

definition last_status :: "core_event list \<Rightarrow> stage \<Rightarrow> run_status option" where
  "last_status es s = map_option ce_status (find (\<lambda>e. ce_stage e = s) (rev es))"

lemma last_status_snoc: "last_status (es @ [e]) s = (if ce_stage e = s then Some (ce_status e) else last_status es s)"
  by (simp add: last_status_def)

lemma stage_statuses_last: "s \<in> set REQUIRED_STAGES \<Longrightarrow> map_of (stage_terminal_statuses es) s = last_status es s"
proof (induction es rule: rev_induct)
  case Nil
  then show ?case by (simp add: stage_terminal_statuses_def last_status_def)
next
  case (snoc e es)
  have "stage_terminal_statuses (es @ [e])
      = (if ce_stage e \<in> set REQUIRED_STAGES then dict_set (ce_stage e) (ce_status e) (stage_terminal_statuses es) else stage_terminal_statuses es)"
    by (simp add: stage_terminal_statuses_def)
  then show ?case using snoc.IH snoc.prems by (auto simp: last_status_snoc)
qed

lemma success_required: "set SUCCESS_STAGES \<subseteq> set REQUIRED_STAGES"
  by (auto simp: SUCCESS_STAGES_def REQUIRED_STAGES_def)

section \<open>The terminal events of the tools\<close>

definition tool_events :: "core_event list \<Rightarrow> core_event set" where
  "tool_events es = {e \<in> set es. ce_stage e = StTool}"

definition tool_tasks :: "core_event list \<Rightarrow> string set" where
  "tool_tasks es = (\<lambda>e. the (ce_task_id e)) ` tool_events es"

definition dynamic_tasks :: "core_event list \<Rightarrow> string set" where
  "dynamic_tasks es = (\<lambda>e. the (ce_task_id e)) ` {e \<in> tool_events es. ce_phase e = PhVerification}"

lemma terminal_events:
  "tool_call_terminal_events es = Inr terminal \<Longrightarrow> distinct (map fst terminal) \<and> (\<forall>t. map_of terminal t = last_tool_event es t)"
  unfolding tool_call_terminal_events_def rbind_eq_Inr by (auto dest: tool_loop(1))

lemma terminal_events_total: "(\<exists>terminal. tool_call_terminal_events es = Inr terminal) \<longleftrightarrow> tools_bound es"
proof
  assume "\<exists>terminal. tool_call_terminal_events es = Inr terminal"
  then show "tools_bound es" unfolding tool_call_terminal_events_def rbind_eq_Inr by (auto dest: tool_loop(1))
next
  assume "tools_bound es"
  from tool_loop(2)[OF this] obtain ids terminal where "rfold tool_step ([], []) es = Inr (ids, terminal)" by auto
  then show "\<exists>terminal. tool_call_terminal_events es = Inr terminal" by (simp add: tool_call_terminal_events_def)
qed

lemma last_tool_event_phase:
  assumes "tools_bound es" "last_tool_event es t = Some l" "e \<in> tool_events es" "ce_task_id e = Some t"
  shows "ce_phase l = ce_phase e"
  using assms last_tool_event_Some[OF assms(2)] unfolding tools_bound_def tools_agree_def tool_events_def by auto

lemma tool_task_last:
  assumes "tools_bound es"
  shows "t \<in> tool_tasks es \<longleftrightarrow> (\<exists>l. last_tool_event es t = Some l)"
    and "t \<in> dynamic_tasks es \<longleftrightarrow> (\<exists>l. last_tool_event es t = Some l \<and> ce_phase l = PhVerification)"
proof -
  have named: "ce_task_id e = Some (the (ce_task_id e))" if "e \<in> tool_events es" for e
    using assms that by (fastforce simp: tools_bound_def tool_events_def opt_truthy_def split: option.splits)
  have some_last: "\<exists>l. last_tool_event es t = Some l" if "e \<in> tool_events es" "ce_task_id e = Some t" for e
    using that last_tool_event_None[of es t] by (auto simp: tool_events_def)
  have forth: "l \<in> tool_events es \<and> ce_task_id l = Some t" if "last_tool_event es t = Some l" for l
    using last_tool_event_Some[OF that] by (simp add: tool_events_def)
  show "t \<in> tool_tasks es \<longleftrightarrow> (\<exists>l. last_tool_event es t = Some l)"
    unfolding tool_tasks_def using named some_last forth by (auto simp: image_iff) (metis option.sel)+
  show "t \<in> dynamic_tasks es \<longleftrightarrow> (\<exists>l. last_tool_event es t = Some l \<and> ce_phase l = PhVerification)"
  proof
    assume "t \<in> dynamic_tasks es"
    then obtain e where e: "e \<in> tool_events es" "ce_phase e = PhVerification" "ce_task_id e = Some t"
      unfolding dynamic_tasks_def using named by auto
    from some_last[OF e(1,3)] obtain l where "last_tool_event es t = Some l" ..
    then show "\<exists>l. last_tool_event es t = Some l \<and> ce_phase l = PhVerification"
      using last_tool_event_phase[OF assms _ e(1,3)] e(2) by auto
  next
    assume "\<exists>l. last_tool_event es t = Some l \<and> ce_phase l = PhVerification"
    then obtain l where "last_tool_event es t = Some l" "ce_phase l = PhVerification" by blast
    then show "t \<in> dynamic_tasks es" unfolding dynamic_tasks_def using forth[of l] by (auto simp: image_iff)
  qed
qed

lemma length_distinct_keys: "distinct (map fst xs) \<Longrightarrow> length (filter (\<lambda>(k, v). P v) xs) = card {k. \<exists>v. map_of xs k = Some v \<and> P v}"
proof -
  assume d: "distinct (map fst xs)"
  have "distinct (map fst (filter (\<lambda>(k, v). P v) xs))" using d by (rule distinct_map_filter)
  then have "length (filter (\<lambda>(k, v). P v) xs) = card (set (map fst (filter (\<lambda>(k, v). P v) xs)))"
    by (metis distinct_card length_map)
  also have "set (map fst (filter (\<lambda>(k, v). P v) xs)) = {k. \<exists>v. map_of xs k = Some v \<and> P v}"
    using d by (force simp: map_of_eq_Some_iff)
  finally show ?thesis .
qed

lemma terminal_counts:
  assumes "tool_call_terminal_events es = Inr terminal"
  shows "length terminal = card (tool_tasks es)"
    and "length (filter (\<lambda>(t, e). ce_phase e = PhVerification) terminal) = card (dynamic_tasks es)"
proof -
  have b: "tools_bound es" using terminal_events_total assms by blast
  note t = terminal_events[OF assms]
  have "tool_tasks es = {k. \<exists>v. map_of terminal k = Some v \<and> True}" using tool_task_last(1)[OF b] t by auto
  then show "length terminal = card (tool_tasks es)" using length_distinct_keys[of terminal "\<lambda>_. True"] t by simp
  have "dynamic_tasks es = {k. \<exists>v. map_of terminal k = Some v \<and> ce_phase v = PhVerification}" using tool_task_last(2)[OF b] t by auto
  then show "length (filter (\<lambda>(t, e). ce_phase e = PhVerification) terminal) = card (dynamic_tasks es)"
    using length_distinct_keys[of terminal "\<lambda>e. ce_phase e = PhVerification"] t by simp
qed

lemma terminal_all:
  assumes "tool_call_terminal_events es = Inr terminal"
  shows "map fst (filter (\<lambda>(t, e). \<not> P e) terminal) = [] \<longleftrightarrow> (\<forall>t e. last_tool_event es t = Some e \<longrightarrow> P e)"
proof -
  note t = terminal_events[OF assms]
  have "map fst (filter (\<lambda>(t, e). \<not> P e) terminal) = [] \<longleftrightarrow> (\<forall>(t, e)\<in>set terminal. P e)"
    by (auto simp: filter_empty_conv)
  also have "\<dots> \<longleftrightarrow> (\<forall>t e. map_of terminal t = Some e \<longrightarrow> P e)" using map_of_eq_Some_iff[of terminal] t by auto
  finally show ?thesis using t by simp
qed

section \<open>The contract of a live chain\<close>

definition live_contract :: "core_event list \<Rightarrow> gate_decision \<Rightarrow> int \<Rightarrow> int \<Rightarrow> bool" where
  "live_contract es decision tools dynamic \<longleftrightarrow>
     es \<noteq> [] \<and> (\<forall>i<length es. ce_sequence (es ! i) = int i + 1)
     \<and> stages_ordered REQUIRED_STAGES (map ce_stage es) \<and> delivery_last es \<and> tools_bound es \<and> tools_causal es
     \<and> (\<forall>s\<in>set SUCCESS_STAGES. last_status es s = Some RsSuccess)
     \<and> (\<forall>s\<in>set REQUIRED_STAGES. \<exists>x. last_status es s = Some x \<and> terminal_status x)
     \<and> (\<forall>t e. last_tool_event es t = Some e \<longrightarrow> terminal_status (ce_status e))
     \<and> int (card (tool_tasks es)) = tools \<and> int (card (dynamic_tasks es)) = dynamic
     \<and> (decision = GatePass \<longrightarrow> (\<forall>e\<in>tool_events es. ce_status e \<noteq> RsError)
         \<and> (\<forall>t e. last_tool_event es t = Some e \<longrightarrow> ce_status e = RsSuccess)
         \<and> (\<forall>s\<in>set REQUIRED_STAGES. last_status es s = Some RsSuccess))"

lemma sequence_iff: "map ce_sequence es = map int [1..<length es + 1] \<longleftrightarrow> (\<forall>i<length es. ce_sequence (es ! i) = int i + 1)"
proof -
  have n: "map int [1..<length es + 1] ! i = int i + 1" if "i < length es" for i
    using that by (simp only: nth_map length_upt nth_upt diff_add_inverse2 add_less_cancel_right)
  show ?thesis unfolding list_eq_iff_nth_eq length_map length_upt diff_add_inverse2 using n by (metis nth_map)
qed

lemma statuses_all:
  "set xs \<subseteq> set REQUIRED_STAGES \<Longrightarrow>
     filter (\<lambda>s. map_of (stage_terminal_statuses es) s \<noteq> Some x) xs = [] \<longleftrightarrow> (\<forall>s\<in>set xs. last_status es s = Some x)"
  by (auto simp: filter_empty_conv stage_statuses_last subset_iff)

lemma statuses_terminal:
  "filter (\<lambda>s. case map_of (stage_terminal_statuses es) s of None \<Rightarrow> True | Some x \<Rightarrow> \<not> terminal_status x) REQUIRED_STAGES = []
     \<longleftrightarrow> (\<forall>s\<in>set REQUIRED_STAGES. \<exists>x. last_status es s = Some x \<and> terminal_status x)"
  by (auto simp: filter_empty_conv stage_statuses_last split: option.splits)

lemma tool_error_none: "tool_error_count es = 0 \<longleftrightarrow> (\<forall>e\<in>tool_events es. ce_status e \<noteq> RsError)"
  by (auto simp: tool_error_count_def tool_events_def filter_empty_conv)

lemma contract_checks:
  "(\<exists>x. validate_tool_causality es = Inr x \<and> Q) \<longleftrightarrow> tools_causal es \<and> Q"
  "(\<exists>x. rfold delivery_step False es = Inr x \<and> Q) \<longleftrightarrow> delivery_last es \<and> Q"
  "length (first_appearances [] ss) = length REQUIRED_STAGES \<and> stages_ordered REQUIRED_STAGES ss \<and> Q
     \<longleftrightarrow> stages_ordered REQUIRED_STAGES ss \<and> Q"
proof -
  show "(\<exists>x. validate_tool_causality es = Inr x \<and> Q) \<longleftrightarrow> tools_causal es \<and> Q" by (simp add: validate_tool_causality_ok)
  show "(\<exists>x. rfold delivery_step False es = Inr x \<and> Q) \<longleftrightarrow> delivery_last es \<and> Q" unfolding delivery_loop by blast
  show "length (first_appearances [] ss) = length REQUIRED_STAGES \<and> stages_ordered REQUIRED_STAGES ss \<and> Q
     \<longleftrightarrow> stages_ordered REQUIRED_STAGES ss \<and> Q" unfolding required_order[symmetric] by auto
qed

lemma live_contract_iff: "validate_live_event_contract es d tc dc = Inr () \<longleftrightarrow> live_contract es d tc dc"
proof (cases "\<exists>terminal. tool_call_terminal_events es = Inr terminal")
  case False
  then show ?thesis
    unfolding validate_live_event_contract_def Let_def rbind_eq_Inr live_contract_def terminal_events_total[symmetric] by blast
next
  case True
  then obtain terminal where t: "tool_call_terminal_events es = Inr terminal" ..
  have b: "tools_bound es" using terminal_events_total True by blast
  show ?thesis
    unfolding validate_live_event_contract_def Let_def t rbind_Inr live_contract_def
    by (cases "d = GatePass") (simp_all only: rbind_eq_Inr require_Inr if_True if_False simp_thms sequence_iff required_order
        contract_checks statuses_all[OF success_required] statuses_all[OF order_refl] statuses_terminal terminal_all[OF t]
        terminal_counts[OF t] tool_error_none b de_Morgan_conj not_not)
qed

section \<open>Sealing a receipt\<close>

lemma first_before_snoc:
  "first_before X d (ss @ [s]) \<longleftrightarrow> first_before X d ss \<or> s = d \<and> set ss \<inter> X = {}" (is "?l \<longleftrightarrow> ?r")
proof
  assume ?l
  then obtain us vs where u: "ss @ [s] = us @ d # vs" "set us \<inter> X = {}" unfolding first_before_def by blast
  show ?r
  proof (cases vs rule: rev_cases)
    case Nil
    then show ?thesis using u by simp
  next
    case (snoc ws w)
    then have "ss = us @ d # ws" using u(1) by simp
    then show ?thesis using u(2) unfolding first_before_def by blast
  qed
next
  assume ?r
  then show ?l
  proof
    assume "first_before X d ss"
    then obtain us vs where "ss = us @ d # vs" "set us \<inter> X = {}" unfolding first_before_def by blast
    then show ?l unfolding first_before_def by (intro exI[of _ us] exI[of _ "vs @ [s]"]) simp
  next
    assume "s = d \<and> set ss \<inter> X = {}"
    then show ?l unfolding first_before_def by (intro exI[of _ ss] exI[of _ "[]"]) simp
  qed
qed

lemma distinct_stages_snoc:
  "distinct_stages (es @ [e]) = (if ce_stage e \<in> set (distinct_stages es) then distinct_stages es else distinct_stages es @ [ce_stage e])"
  by (simp add: distinct_stages_def)

lemma set_distinct_stages: "set (distinct_stages es) = ce_stage ` set es"
  by (induction es rule: rev_induct) (auto simp: distinct_stages_snoc, simp add: distinct_stages_def)

lemma length_distinct_stages: "length (distinct_stages es) \<le> length es"
  by (induction es rule: rev_induct) (auto simp: distinct_stages_snoc, simp add: distinct_stages_def)

lemma first_before_distinct: "d \<in> X \<Longrightarrow> first_before X d (distinct_stages es) \<longleftrightarrow> first_before X d (map ce_stage es)"
proof (induction es rule: rev_induct)
  case Nil
  then show ?case by (simp add: distinct_stages_def)
next
  case (snoc e es)
  then show ?case by (auto simp: distinct_stages_snoc first_before_snoc set_distinct_stages)
qed

lemma stages_ordered_distinct: "stages_ordered D (distinct_stages es) \<longleftrightarrow> stages_ordered D (map ce_stage es)"
proof -
  have "D ! k \<in> set (drop k D)" if "k < length D" for k using that by (simp add: Cons_nth_drop_Suc[symmetric])
  then show ?thesis unfolding stages_ordered_def using first_before_distinct by blast
qed

lemma stages_ordered_present: "stages_ordered D ss \<Longrightarrow> set D \<subseteq> set ss"
  unfolding stages_ordered_def first_before_def by (fastforce simp: in_set_conv_nth[of _ D])

lemma clean_stage_str: "clean (stage_str s)"
  by (cases s) (simp_all add: clean_def trim_def trim_char_def)

lemma check_keys_clean:
  "map (\<lambda>(k, b). (trim k, b)) (stage_checks es) = stage_checks es"
  "map (\<lambda>(k, b). (trim k, b)) (success_checks es) = success_checks es"
  by (simp_all add: stage_checks_def success_checks_def cleanD[OF clean_stage_str])

lemma core_payload_unsealed: "core_payload (r\<lparr>xc_receipt_sha256 := d\<rparr>) = core_payload r"
  by (simp add: core_payload_def)

definition run_fields_ok :: "core_run \<Rightarrow> bool" where
  "run_fields_ok n \<longleftrightarrow> list_all (\<lambda>s. clean s \<and> s \<noteq> []) [rn_run_id n, rn_planner_backend n, rn_council_backend n]
     \<and> list_all is_sha256 [rn_trace_sha256 n, rn_initial_sha256 n, rn_final_sha256 n, rn_plan_sha256 n] \<and> 0 \<le> rn_model_call_count n"

lemma contract_checks_hold:
  assumes "live_contract es d tc dc"
  shows "list_all snd (stage_checks es)" "list_all snd (success_checks es)" "0 \<le> tc" "0 \<le> dc" "distinct_stages es \<noteq> []"
    "first_appearances [] (distinct_stages es) = REQUIRED_STAGES" "tool_error_count es = 0 \<or> d \<noteq> GatePass" "1 \<le> length es"
proof -
  note c = assms[unfolded live_contract_def]
  have o: "stages_ordered REQUIRED_STAGES (distinct_stages es)" using c stages_ordered_distinct by blast
  show f: "first_appearances [] (distinct_stages es) = REQUIRED_STAGES" using o required_order by blast
  show "list_all snd (stage_checks es)" using stages_ordered_present[OF o] by (auto simp: stage_checks_def list_all_iff)
  show "list_all snd (success_checks es)" using c success_required
    by (auto simp: success_checks_def list_all_iff stage_statuses_last subset_iff)
  show "0 \<le> tc" "0 \<le> dc" using c by auto
  show "distinct_stages es \<noteq> []" using f by (auto simp: REQUIRED_STAGES_def)
  show "tool_error_count es = 0 \<or> d \<noteq> GatePass" using c tool_error_none[of es] by (cases "d = GatePass") simp_all
  show "1 \<le> length es" using c by (cases es) auto
qed

lemma core_receipt_sealed:
  assumes "hex_digests C" "run_fields_ok n" "live_contract es (rn_decision n) (rn_tool_call_count n) (rn_dynamic_task_count n)"
  shows "\<exists>r. build_agent_core_execution_receipt C n es = Inr r \<and> verify_agent_core_execution_receipt C r (Some es) = Inr ()
     \<and> xc_run_id r = rn_run_id n \<and> xc_decision r = rn_decision n \<and> xc_chain_sha256 r = event_chain_sha256 C es"
proof -
  note c = contract_checks_hold[OF assms(3)]
  define raw where "raw = \<lparr>xc_run_id = rn_run_id n, xc_planner_backend = rn_planner_backend n, xc_council_backend = rn_council_backend n,
      xc_model_call_count = rn_model_call_count n, xc_tool_call_count = rn_tool_call_count n,
      xc_dynamic_task_count = rn_dynamic_task_count n, xc_decision = rn_decision n, xc_event_count = length es,
      xc_chain_sha256 = event_chain_sha256 C es, xc_trace_sha256 = rn_trace_sha256 n,
      xc_initial_sha256 = rn_initial_sha256 n, xc_final_sha256 = rn_final_sha256 n, xc_plan_sha256 = rn_plan_sha256 n,
      xc_stage_sequence = distinct_stages es, xc_stage_checks = stage_checks es,
      xc_success_checks = success_checks es, xc_tool_errors = tool_error_count es, xc_receipt_sha256 = []\<rparr>"
  define r where "r = raw\<lparr>xc_receipt_sha256 := canonical_json_sha C (core_payload raw)\<rparr>"
  have sha: "is_sha256 (canonical_json_sha C v)" "trim (canonical_json_sha C v) = canonical_json_sha C v" for v
    using canonical_clean[OF assms(1)] cleanD by blast+
  have fields: "trim (rn_run_id n) = rn_run_id n" "trim (rn_planner_backend n) = rn_planner_backend n"
    "trim (rn_council_backend n) = rn_council_backend n" "trim (rn_trace_sha256 n) = rn_trace_sha256 n"
    "trim (rn_initial_sha256 n) = rn_initial_sha256 n" "trim (rn_final_sha256 n) = rn_final_sha256 n"
    "trim (rn_plan_sha256 n) = rn_plan_sha256 n"
    using assms(2) by (simp_all add: run_fields_ok_def cleanD sha256_clean)
  have keys: "fst ` set (stage_checks es) = stage_str ` set REQUIRED_STAGES"
    "fst ` set (success_checks es) = stage_str ` set SUCCESS_STAGES"
    by (simp_all add: stage_checks_def success_checks_def image_image)
  have made: "make_core_receipt r = Inr r"
    using assms(2) c unfolding make_core_receipt_def Let_def r_def raw_def
    by (simp add: sha fields keys check_keys_clean event_chain_sha256_def length_distinct_stages run_fields_ok_def)
  have built: "build_agent_core_execution_receipt C n es = Inr r"
    unfolding build_agent_core_execution_receipt_def live_contract_iff[THEN iffD2, OF assms(3)] rbind_Inr Let_def raw_def[symmetric]
      r_def[symmetric] by (rule made)
  have "verify_agent_core_execution_receipt C r (Some es) = Inr ()"
    unfolding verify_agent_core_execution_receipt_def r_def core_payload_unsealed
    using live_contract_iff[THEN iffD2, OF assms(3)] by (simp add: raw_def same_dict_def)
  then show ?thesis using built by (intro exI[of _ r]) (simp add: r_def raw_def)
qed

section \<open>A sealed demonstration\<close>

definition demo_core_event :: "int \<Rightarrow> phase \<Rightarrow> stage \<Rightarrow> string option \<Rightarrow> core_event" where
  "demo_core_event i p s t = \<lparr>ce_sequence = i, ce_phase = p, ce_stage = s, ce_actor = ''core'', ce_action = ''run'', ce_status = RsSuccess,
     ce_summary = ''done'', ce_task_id = t, ce_tool_name = t, ce_duration_ms = 1, ce_evidence_refs = [], ce_retry = 0,
     ce_collaboration = []\<rparr>"

definition demo_core_chain :: "core_event list" where
  "demo_core_chain =
     [demo_core_event 1 PhSystem StIntake None, demo_core_event 2 PhInitial StPlanner None,
      demo_core_event 3 PhInitial StTool (Some ''quality''), demo_core_event 4 PhInitial StCouncil None,
      demo_core_event 5 PhInitial StJudge None, demo_core_event 6 PhVerification StDelivery None]"

definition demo_core_run :: core_run where
  "demo_core_run = \<lparr>rn_run_id = ''run-1'', rn_trace_sha256 = zero_sha, rn_initial_sha256 = zero_sha, rn_final_sha256 = zero_sha,
     rn_plan_sha256 = zero_sha, rn_planner_backend = ''local'', rn_council_backend = ''local'', rn_model_call_count = 0,
     rn_tool_call_count = 1, rn_dynamic_task_count = 0, rn_decision = GatePass\<rparr>"

lemma demo_core_contract: "live_contract demo_core_chain GatePass 1 0"
  unfolding live_contract_iff[symmetric] by code_simp

lemma demo_core_fields: "run_fields_ok demo_core_run"
  by code_simp

section \<open>Properties\<close>

text \<open>C22: a chain of live events is accepted exactly when it is not empty and numbered from one, the required stages start in their
  order, delivery is last and in the verification phase, every tool event names one task with one phase and one tool and follows a
  planner of its phase with no council or judge between them, the control stages end in success and every required stage and tool
  in a terminal status, the tool counts are those of the distinct tasks, and a PASS has no failed tool and no unsuccessful stage.\<close>

theorem live_contract_exact:
  "validate_live_event_contract es decision tools dynamic = Inr () \<longleftrightarrow> live_contract es decision tools dynamic"
  by (rule live_contract_iff)

text \<open>C23: over a chain that meets the contract and clean run fields the builder always seals a receipt, and that receipt verifies
  against the chain it was built from and carries the run, the decision and the digest of the chain.\<close>

theorem core_receipt_verifies:
  assumes "hex_digests C" "run_fields_ok n" "live_contract es (rn_decision n) (rn_tool_call_count n) (rn_dynamic_task_count n)"
  shows "\<exists>r. build_agent_core_execution_receipt C n es = Inr r \<and> verify_agent_core_execution_receipt C r (Some es) = Inr ()
     \<and> xc_run_id r = rn_run_id n \<and> xc_decision r = rn_decision n \<and> xc_chain_sha256 r = event_chain_sha256 C es"
  by (rule core_receipt_sealed[OF assms])

lemma core_receipt_verifies_witness:
  "\<exists>r. build_agent_core_execution_receipt toy_crypto demo_core_run demo_core_chain = Inr r
     \<and> verify_agent_core_execution_receipt toy_crypto r (Some demo_core_chain) = Inr () \<and> xc_decision r = GatePass"
  using core_receipt_verifies[OF toy_hex_digests demo_core_fields, of demo_core_chain] demo_core_contract
  by (auto simp: demo_core_run_def)

text \<open>C24: a receipt that verifies against a chain guarantees of it that no tool ran outside an open planning wave of its phase, that
  nothing but delivery follows a delivery, that the receipt counts the distinct tool tasks, and, under PASS, that no tool event
  failed and every tool ended in success.\<close>

theorem verified_core_run_is_governed:
  assumes "verify_agent_core_execution_receipt C r (Some es) = Inr ()"
  shows "(\<forall>us e vs. es = us @ e # vs \<longrightarrow> ce_stage e = StTool \<longrightarrow> open_wave us (ce_phase e))
     \<and> (\<forall>i j. i < j \<and> j < length es \<and> ce_stage (es ! i) = StDelivery \<longrightarrow> ce_stage (es ! j) = StDelivery)
     \<and> int (card (tool_tasks es)) = xc_tool_call_count r
     \<and> (xc_decision r = GatePass \<longrightarrow> (\<forall>e\<in>tool_events es. ce_status e \<noteq> RsError)
         \<and> (\<forall>t\<in>tool_tasks es. \<exists>e. last_tool_event es t = Some e \<and> ce_status e = RsSuccess))"
proof -
  have "live_contract es (xc_decision r) (xc_tool_call_count r) (xc_dynamic_task_count r)"
    using assms unfolding verify_agent_core_execution_receipt_def live_contract_iff[symmetric] by auto
  note c = this[unfolded live_contract_def]
  have ended: "\<exists>e. last_tool_event es t = Some e \<and> ce_status e = RsSuccess"
    if "t \<in> tool_tasks es" "xc_decision r = GatePass" for t
  proof -
    have "tools_bound es" using c by (elim conjE)
    from that(1) obtain e where e: "last_tool_event es t = Some e" unfolding tool_task_last(1)[OF \<open>tools_bound es\<close>] ..
    have "\<forall>t e. last_tool_event es t = Some e \<longrightarrow> ce_status e = RsSuccess" using c that(2) by simp
    then show ?thesis using e by blast
  qed
  have "delivery_last es" using c by simp
  note dl = this[unfolded delivery_last_def, THEN conjunct2]
  have "tools_causal es" "int (card (tool_tasks es)) = xc_tool_call_count r" using c by simp_all
  moreover have "\<forall>e\<in>tool_events es. ce_status e \<noteq> RsError" if "xc_decision r = GatePass" using c that by simp
  ultimately show ?thesis
    unfolding tools_causal_def[symmetric] using ended by (intro conjI impI ballI dl) simp_all
qed

lemma verified_core_run_is_governed_witness:
  "\<exists>r. verify_agent_core_execution_receipt toy_crypto r (Some demo_core_chain) = Inr ()
     \<and> (\<forall>e\<in>tool_events demo_core_chain. ce_status e \<noteq> RsError) \<and> int (card (tool_tasks demo_core_chain)) = 1"
proof -
  from core_receipt_sealed[OF toy_hex_digests demo_core_fields, of demo_core_chain] demo_core_contract
  obtain r where r: "verify_agent_core_execution_receipt toy_crypto r (Some demo_core_chain) = Inr ()" "xc_decision r = GatePass"
    by (auto simp: demo_core_run_def)
  from verified_core_run_is_governed[OF r(1)] r(2) demo_core_contract show ?thesis
    by (intro exI[of _ r]) (auto simp: r(1) live_contract_def)
qed

end
