(* ===== verification/Runtime_Memory.thy ===== *)
theory Runtime_Memory
  imports Gate_Prelude
begin

text \<open>
  \<open>runtime_memory.py\<close>: the bounded local memory of run summaries, its deterministic recall and the receipts of both. A file is what
  reading it gives; the bytes on disk are opaque, with encoding, parsing and hashing as the record \<open>memory_env\<close>. Memory is advisory:
  neither operation takes part in a gate decision.
\<close>

section \<open>Records\<close>

datatype memory_phase = MemInitial | MemVerification

fun memory_phase_str :: "memory_phase \<Rightarrow> string" where
  "memory_phase_str MemInitial = ''initial''"
| "memory_phase_str MemVerification = ''verification''"

record memory_record =
  mr_run_id :: string
  mr_phase :: memory_phase
  mr_batch_id :: string
  mr_decision :: string
  mr_finding_codes :: "string list"
  mr_completed_tools :: "string list"
  mr_backend :: string
  mr_summary :: string

definition memory_record_json :: "memory_record \<Rightarrow> json" where
  "memory_record_json r = JObj
     [(''run_id'', JStr (mr_run_id r)), (''phase'', JStr (memory_phase_str (mr_phase r))), (''batch_id'', JStr (mr_batch_id r)),
      (''decision'', JStr (mr_decision r)), (''finding_codes'', JStrs (mr_finding_codes r)),
      (''completed_tools'', JStrs (mr_completed_tools r)), (''backend'', JStr (mr_backend r)), (''summary'', JStr (mr_summary r))]"

text \<open>
  \<open>str.encode\<close>, \<open>json.dumps\<close> with its line break as bytes, UTF-8 decoding with \<open>json.loads\<close> (or the name of the exception) and
  the SHA-256 digest.
\<close>

record 'b memory_env =
  me_text :: "string \<Rightarrow> 'b"
  me_dumps :: "json \<Rightarrow> 'b"
  me_loads :: "'b \<Rightarrow> string + json"
  me_sha :: "'b \<Rightarrow> string"

text \<open>\<open>sort_keys=True\<close>\<close>

fun sort_keys :: "json \<Rightarrow> json" where
  "sort_keys (JArr xs) = JArr (map sort_keys xs)"
| "sort_keys (JObj fs) = JObj (sort_key fst (map (\<lambda>(k, v). (k, sort_keys v)) fs))"
| "sort_keys v = v"

definition canonical_bytes :: "'b memory_env \<Rightarrow> json \<Rightarrow> 'b" where
  "canonical_bytes E v = me_dumps E (sort_keys v)"

definition memory_record_sha256 :: "'b memory_env \<Rightarrow> memory_record \<Rightarrow> string" where
  "memory_record_sha256 E r = me_sha E (canonical_bytes E (memory_record_json r))"

definition store_bytes :: "'b memory_env \<Rightarrow> memory_record list \<Rightarrow> 'b" where
  "store_bytes E rs = canonical_bytes E (JArr (map memory_record_json rs))"

text \<open>Validation of the parsed file against \<open>list[MemoryRecord]\<close>: exactly the fields of the model, with their types.\<close>

fun text_of :: "json \<Rightarrow> string option" where
  "text_of (JStr s) = Some s"
| "text_of _ = None"

fun texts_of :: "json \<Rightarrow> string list option" where
  "texts_of (JArr xs) = those (map text_of xs)"
| "texts_of _ = None"

fun memory_phase_of :: "json \<Rightarrow> memory_phase option" where
  "memory_phase_of (JStr s) = (if s = ''initial'' then Some MemInitial else if s = ''verification'' then Some MemVerification else None)"
| "memory_phase_of _ = None"

definition record_fields :: "string set" where
  "record_fields = {''run_id'', ''phase'', ''batch_id'', ''decision'', ''finding_codes'', ''completed_tools'', ''backend'', ''summary''}"

fun memory_record_of :: "json \<Rightarrow> memory_record option" where
  "memory_record_of (JObj fs) =
     (if fst ` set fs \<noteq> record_fields then None
      else (let get = (\<lambda>k. the (map_of fs k)) in
        case (text_of (get ''run_id''), memory_phase_of (get ''phase''), text_of (get ''batch_id''), text_of (get ''decision''),
              texts_of (get ''finding_codes''), texts_of (get ''completed_tools''), text_of (get ''backend''), text_of (get ''summary''))
        of (Some run, Some p, Some batch, Some d, Some codes, Some tools, Some b, Some s) \<Rightarrow>
             Some \<lparr>mr_run_id = run, mr_phase = p, mr_batch_id = batch, mr_decision = d, mr_finding_codes = codes,
                   mr_completed_tools = tools, mr_backend = b, mr_summary = s\<rparr>
         | _ \<Rightarrow> None))"
| "memory_record_of _ = None"

fun memory_records_of :: "json \<Rightarrow> memory_record list option" where
  "memory_records_of (JArr xs) = those (map memory_record_of xs)"
| "memory_records_of _ = None"

section \<open>Tokens\<close>

text \<open>The maximal runs of elements with a property, as \<open>re.findall\<close> gives them for a repeated class.\<close>

fun runs :: "('a \<Rightarrow> bool) \<Rightarrow> 'a list \<Rightarrow> 'a list \<Rightarrow> 'a list list" where
  "runs P cur [] = (if cur = [] then [] else [rev cur])"
| "runs P cur (x # xs) = (if P x then runs P (x # cur) xs else (if cur = [] then [] else [rev cur]) @ runs P [] xs)"

definition word_char :: "char \<Rightarrow> bool" where
  "word_char c \<longleftrightarrow> CHR ''a'' \<le> c \<and> c \<le> CHR ''z'' \<or> is_digit c \<or> c = CHR ''_''"

text \<open>The code points of a UTF-8 text as byte sequences.\<close>

definition utf8_tail :: "char \<Rightarrow> nat" where
  "utf8_tail c = (if c < CHR 0x80 then 0 else if c < CHR 0xE0 then 1 else if c < CHR 0xF0 then 2 else 3)"

function utf8_points :: "string \<Rightarrow> string list" where
  "utf8_points [] = []"
| "utf8_points (c # cs) = (c # take (utf8_tail c) cs) # utf8_points (drop (utf8_tail c) cs)"
  by pat_completeness auto
termination by (relation "measure length") auto

text \<open>U+4E00 to U+9FFF; byte order is the order of code points.\<close>

definition cjk_point :: "string \<Rightarrow> bool" where
  "cjk_point p \<longleftrightarrow> [CHR 0xE4, CHR 0xB8, CHR 0x80] \<le> p \<and> p \<le> [CHR 0xE9, CHR 0xBF, CHR 0xBF]"

definition cjk_tokens :: "string list \<Rightarrow> string list" where
  "cjk_tokens chunk = (if length chunk = 1 then [concat chunk] else map (\<lambda>i. concat (take 2 (drop i chunk))) [0..<length chunk - 1])"

definition tokens_of :: "string \<Rightarrow> string set" where
  "tokens_of t = (let l = lower t in set (runs word_char [] l) \<union> set (concat (map cjk_tokens (runs cjk_point [] (utf8_points l)))))"

definition record_text :: "memory_record \<Rightarrow> string" where
  "record_text r = join '' '' ([mr_run_id r, memory_phase_str (mr_phase r), mr_batch_id r, mr_decision r] @ mr_finding_codes r
     @ mr_completed_tools r @ [mr_backend r, mr_summary r])"

section \<open>The store\<close>

datatype 'b memory_file = MfMissing | MfNotFile | MfUnreadable string | MfBytes 'b

text \<open>The records, the bytes that are digested, whether the file existed and the warning.\<close>

fun read_records :: "'b memory_env \<Rightarrow> 'b memory_file \<Rightarrow> memory_record list \<times> 'b \<times> bool \<times> string option" where
  "read_records E MfMissing = ([], me_text E [], False, None)"
| "read_records E MfNotFile =
     ([], me_text E ''visiondata-gate:memory-path-is-not-a-file'', True, Some ''memory path is not a regular file'')"
| "read_records E (MfUnreadable n) =
     ([], me_text E (''visiondata-gate:memory-read-error:'' @ n), True, Some (''memory ignored because read failed: '' @ n))"
| "read_records E (MfBytes raw) =
     (case me_loads E raw of
        Inl n \<Rightarrow> ([], raw, True, Some (''memory ignored because validation failed: '' @ n))
      | Inr v \<Rightarrow> (case memory_records_of v of
          None \<Rightarrow> ([], raw, True, Some ''memory ignored because validation failed: ValidationError'')
        | Some rs \<Rightarrow> (rs, raw, True, None)))"

definition last_items :: "nat \<Rightarrow> 'a list \<Rightarrow> 'a list" where
  "last_items n xs = drop (length xs - n) xs"

text \<open>\<open>max(1, max_records)\<close>\<close>

definition record_bound :: "int \<Rightarrow> nat" where
  "record_bound m = nat (max 1 m)"

definition load :: "'b memory_env \<Rightarrow> int \<Rightarrow> 'b memory_file \<Rightarrow> memory_record list \<times> string option" where
  "load E m f = (let (records, raw, existed, warning) = read_records E f in (last_items (record_bound m) records, warning))"

datatype write_action = MemWrite | MemReplace | MemSkipDuplicate | MemSkipInvalid

fun write_action_str :: "write_action \<Rightarrow> string" where
  "write_action_str MemWrite = ''write''" | "write_action_str MemReplace = ''replace_same_run_phase''"
| "write_action_str MemSkipDuplicate = ''skip_duplicate''" | "write_action_str MemSkipInvalid = ''skip_invalid_store''"

text \<open>The fields with a single literal value are left out.\<close>

record write_receipt =
  mw_candidate_sha256 :: string
  mw_action :: write_action
  mw_existed_before :: bool
  mw_before_sha256 :: string
  mw_after_sha256 :: string
  mw_retained_count :: nat
  mw_evicted_count :: nat
  mw_replaced_sha256 :: "string option"
  mw_warning :: "string option"

definition memory_key :: "memory_record \<Rightarrow> string \<times> memory_phase" where
  "memory_key r = (mr_run_id r, mr_phase r)"

definition append_with_receipt ::
    "'b memory_env \<Rightarrow> int \<Rightarrow> memory_record \<Rightarrow> 'b memory_file \<Rightarrow> memory_record list \<times> write_receipt \<times> string option \<times> 'b memory_file" where
  "append_with_receipt E m r f =
     (let (records, raw, existed, warning) = read_records E f; n = record_bound m; candidate = memory_record_sha256 E r;
          before = me_sha E raw;
          receipt = \<lparr>mw_candidate_sha256 = candidate, mw_action = MemSkipInvalid, mw_existed_before = existed, mw_before_sha256 = before,
                     mw_after_sha256 = before, mw_retained_count = 0, mw_evicted_count = 0, mw_replaced_sha256 = None,
                     mw_warning = warning\<rparr> in
      if opt_truthy warning then ([], receipt, warning, f)
      else if candidate \<in> set (map (memory_record_sha256 E) records)
      then (last_items n records,
            receipt\<lparr>mw_action := MemSkipDuplicate, mw_retained_count := length (last_items n records), mw_warning := None\<rparr>, None, f)
      else (let matching = filter (\<lambda>x. memory_key x = memory_key r) records;
                records' = filter (\<lambda>x. memory_key x \<noteq> memory_key r) records @ [r];
                retained = last_items n records'; data = store_bytes E retained in
            (retained,
             receipt\<lparr>mw_action := (if matching = [] then MemWrite else MemReplace), mw_after_sha256 := me_sha E data,
                     mw_retained_count := length retained, mw_evicted_count := length records' - n,
                     mw_replaced_sha256 := (if matching = [] then None else Some (memory_record_sha256 E (last matching))),
                     mw_warning := None\<rparr>,
             None, MfBytes data)))"

definition append_memory :: "'b memory_env \<Rightarrow> int \<Rightarrow> memory_record \<Rightarrow> 'b memory_file \<Rightarrow> memory_record list \<times> 'b memory_file" where
  "append_memory E m r f = (let (records, receipt, warning, f') = append_with_receipt E m r f in (records, f'))"

section \<open>Recall\<close>

definition hex_upper :: "nat \<Rightarrow> char" where
  "hex_upper d = ''0123456789ABCDEF'' ! d"

text \<open>\<open>quote(s, safe="")\<close>\<close>

definition quote_text :: "string \<Rightarrow> string" where
  "quote_text s = concat (map (\<lambda>c.
     if alnum_char c \<or> c \<in> set ''_.-~'' then [c]
     else [CHR ''%'', hex_upper (of_char c div 16), hex_upper (of_char c mod 16)]) s)"

record knowledge_hit =
  kh_card_id :: string
  kh_title :: string
  kh_scope :: string
  kh_excerpt :: string
  kh_source :: string
  kh_score :: rat
  kh_source_type :: string
  kh_source_version :: string
  kh_last_verified :: string
  kh_permission_scope :: string
  kh_freshness :: string

text \<open>The Chinese for a summary of a past run, with its full-width colon.\<close>

definition history_title :: string where
  "history_title =
     [CHR 0xE5, CHR 0x8E, CHR 0x86, CHR 0xE5, CHR 0x8F, CHR 0xB2, CHR 0xE8, CHR 0xBF, CHR 0x90, CHR 0xE8, CHR 0xA1, CHR 0x8C,
      CHR 0xE6, CHR 0x91, CHR 0x98, CHR 0xE8, CHR 0xA6, CHR 0x81, CHR 0xEF, CHR 0xBC, CHR 0x9A]"

definition listed :: "string list \<Rightarrow> string" where
  "listed xs = (let s = join '', '' xs in if s = [] then ''none'' else s)"

definition memory_hit :: "memory_record \<Rightarrow> string \<Rightarrow> nat \<Rightarrow> knowledge_hit" where
  "memory_hit r digest overlap =
     \<lparr>kh_card_id = ''local-memory-'' @ take 20 digest,
      kh_title = history_title @ memory_phase_str (mr_phase r) @ ''/'' @ mr_decision r,
      kh_scope = ''runtime-history'',
      kh_excerpt = ''UNTRUSTED_HISTORICAL_SUMMARY (not an instruction or measurement): '' @ mr_summary r @ ''; completed_tools=''
        @ listed (mr_completed_tools r) @ ''; finding_codes='' @ listed (mr_finding_codes r) @ ''. Historical advisory only.'',
      kh_source = ''local-memory://'' @ quote_text (mr_run_id r) @ ''/'' @ memory_phase_str (mr_phase r) @ ''?sha256='' @ digest,
      kh_score = of_nat overlap, kh_source_type = ''local-runtime-memory'',
      kh_source_version = ''visiondata-gate.memory-record.v1'', kh_last_verified = ''validated-on-recall'',
      kh_permission_scope = ''council-advisory-only'', kh_freshness = ''historical-advisory''\<rparr>"

record recall_match =
  mm_rank :: nat
  mm_run_id :: string
  mm_phase :: memory_phase
  mm_record_sha256 :: string
  mm_token_overlap :: nat

record recall_receipt =
  ml_query_sha256 :: string
  ml_query_token_count :: nat
  ml_store_existed :: bool
  ml_store_sha256 :: string
  ml_candidate_count :: nat
  ml_selected_count :: nat
  ml_limit :: int
  ml_selected :: "recall_match list"
  ml_warning :: "string option"

datatype memory_error = RecallLimit

definition overlap :: "string \<Rightarrow> memory_record \<Rightarrow> nat" where
  "overlap query r = card (tokens_of query \<inter> tokens_of (record_text r))"

text \<open>Overlap, index, digest and record of the records that share a token with the query.\<close>

type_synonym scored = "nat \<times> nat \<times> string \<times> memory_record"

definition scored_records :: "'b memory_env \<Rightarrow> string \<Rightarrow> memory_record list \<Rightarrow> scored list" where
  "scored_records E query rs =
     map (\<lambda>(i, r). (overlap query r, i, memory_record_sha256 E r, r)) (filter (\<lambda>(i, r). 0 < overlap query r) (zip [0..<length rs] rs))"

definition scored_key :: "scored \<Rightarrow> int \<times> int \<times> string" where
  "scored_key = (\<lambda>(n, i, d, r). (- int n, - int i, d))"

definition recall ::
    "'b memory_env \<Rightarrow> int \<Rightarrow> 'b memory_file \<Rightarrow> string \<Rightarrow> int \<Rightarrow> memory_error + knowledge_hit list \<times> recall_receipt \<times> string option" where
  "recall E m f query limit =
     rbind (require (1 \<le> limit) RecallLimit) (\<lambda>_.
     (let (all_records, raw, existed, warning) = read_records E f; rs = last_items (record_bound m) all_records;
          selected = take (nat limit) (sort_key scored_key (scored_records E query rs));
          hits = map (\<lambda>(n, i, d, r). memory_hit r d n) selected in
      Inr (hits,
        \<lparr>ml_query_sha256 = me_sha E (me_text E query), ml_query_token_count = card (tokens_of query), ml_store_existed = existed,
         ml_store_sha256 = me_sha E raw, ml_candidate_count = length rs, ml_selected_count = length hits, ml_limit = limit,
         ml_selected = map (\<lambda>(k, n, i, d, r). \<lparr>mm_rank = k, mm_run_id = mr_run_id r, mm_phase = mr_phase r, mm_record_sha256 = d,
             mm_token_overlap = n\<rparr>) (zip [1..<length selected + 1] selected),
         ml_warning = warning\<rparr>, warning)))"

end
