(* ===== verification/Memory_Safety.thy ===== *)
theory Memory_Safety
  imports Runtime_Memory "HOL-Library.Multiset"
begin

text \<open>
  What the local memory promises: a store written by it can be read back, holds at most the configured number of records and one per
  run and phase after any history of writes; and a recall returns exactly the best records that share a token with the query.
\<close>

section \<open>Reading back what was written\<close>

lemma map_of_sorted: "distinct (map fst xs) \<Longrightarrow> map_of (sort_key fst xs) = map_of xs"
  by (subst map_of_inject_set) (simp_all add: distinct_map)

lemma texts_back: "those (map (text_of \<circ> (sort_keys \<circ> JStr)) xs) = Some xs"
  by (induction xs) simp_all

lemma phase_back: "memory_phase_of (JStr (memory_phase_str p)) = Some p"
  by (cases p) simp_all

lemma record_back: "memory_record_of (sort_keys (memory_record_json r)) = Some r"
proof -
  define fs where "fs = [(''run_id'', JStr (mr_run_id r)), (''phase'', JStr (memory_phase_str (mr_phase r))),
      (''batch_id'', JStr (mr_batch_id r)), (''decision'', JStr (mr_decision r)),
      (''finding_codes'', sort_keys (JStrs (mr_finding_codes r))), (''completed_tools'', sort_keys (JStrs (mr_completed_tools r))),
      (''backend'', JStr (mr_backend r)), (''summary'', JStr (mr_summary r))]"
  have s: "sort_keys (memory_record_json r) = JObj (sort_key fst fs)" by (simp add: memory_record_json_def fs_def)
  have d: "distinct (map fst fs)" by (simp add: fs_def)
  have k: "fst ` set (sort_key fst fs) = record_fields" by (auto simp: fs_def record_fields_def)
  show ?thesis
    unfolding s memory_record_of.simps k Let_def map_of_sorted[OF d]
    by (simp add: fs_def phase_back texts_back del: memory_phase_of.simps)
qed

lemma records_back: "memory_records_of (sort_keys (JArr (map memory_record_json rs))) = Some rs"
proof -
  have "those (map (memory_record_of \<circ> sort_keys \<circ> memory_record_json) rs) = Some rs"
    by (induction rs) (simp_all add: record_back)
  then show ?thesis by (simp add: comp_assoc)
qed

text \<open>Parsing gives back a printed list of records, with the keys in the order they were printed.\<close>

definition reads_back :: "'b memory_env \<Rightarrow> bool" where
  "reads_back E \<longleftrightarrow> (\<forall>rs. me_loads E (store_bytes E rs) = Inr (sort_keys (JArr (map memory_record_json rs))))"

lemma written_readable: "reads_back E \<Longrightarrow> read_records E (MfBytes (store_bytes E rs)) = (rs, store_bytes E rs, True, None)"
  by (simp add: reads_back_def records_back del: sort_keys.simps memory_records_of.simps)

section \<open>Histories of writes\<close>

definition exec_memory :: "'b memory_env \<Rightarrow> int \<Rightarrow> memory_record \<Rightarrow> 'b memory_file \<Rightarrow> unit + write_receipt \<times> 'b memory_file" where
  "exec_memory E m r f = (let (records, receipt, warning, f') = append_with_receipt E m r f in Inr (receipt, f'))"

definition memory_ok :: "'b memory_env \<Rightarrow> int \<Rightarrow> 'b memory_file \<Rightarrow> bool" where
  "memory_ok E m f \<longleftrightarrow> reads_back E \<and> (let (rs, raw, existed, warning) = read_records E f in
     warning = None \<and> length rs \<le> record_bound m \<and> distinct (map memory_key rs))"

lemma last_items_props:
  "length (last_items n xs) = min n (length xs)" "set (last_items n xs) \<subseteq> set xs" "distinct xs \<Longrightarrow> distinct (last_items n xs)"
  "map f (last_items n xs) = last_items n (map f xs)" "length xs \<le> n \<Longrightarrow> last_items n xs = xs"
  by (auto simp: last_items_def set_drop_subset drop_map)

lemma last_items_snoc: "0 < n \<Longrightarrow> x \<in> set (last_items n (xs @ [x]))"
  by (auto simp: last_items_def)

lemma record_bound_pos: "0 < record_bound m"
  by (simp add: record_bound_def)

text \<open>What one write does to a store that can be read.\<close>

lemma append_effect:
  assumes "reads_back E" "read_records E f = (rs, raw, existed, None)" "append_with_receipt E m r f = (out, rc, w, f')"
  shows "w = None \<and> (if memory_record_sha256 E r \<in> memory_record_sha256 E ` set rs then f' = f
     else read_records E f' = (last_items (record_bound m) (filter (\<lambda>x. memory_key x \<noteq> memory_key r) rs @ [r]), 
            store_bytes E (last_items (record_bound m) (filter (\<lambda>x. memory_key x \<noteq> memory_key r) rs @ [r])), True, None))
     \<and> mw_before_sha256 rc = me_sha E raw \<and> mw_after_sha256 rc = me_sha E (fst (snd (read_records E f')))"
  using assms(2,3) written_readable[OF assms(1)]
  by (auto simp: append_with_receipt_def Let_def opt_truthy_def split: if_splits simp del: read_records.simps(4))

lemma append_keeps_ok:
  assumes "memory_ok E m f" "append_with_receipt E m r f = (out, rc, w, f')"
  shows "memory_ok E m f'"
proof -
  obtain rs raw existed where rd: "read_records E f = (rs, raw, existed, None)" and rb: "reads_back E"
    and ok: "length rs \<le> record_bound m" "distinct (map memory_key rs)"
    using assms(1) by (auto simp: memory_ok_def split: prod.splits)
  note e = append_effect[OF rb rd assms(2)]
  show ?thesis
  proof (cases "memory_record_sha256 E r \<in> memory_record_sha256 E ` set rs")
    case True
    then show ?thesis using e assms(1) by simp
  next
    case False
    have "distinct (map memory_key (filter (\<lambda>x. memory_key x \<noteq> memory_key r) rs @ [r]))"
      using ok(2) by (auto simp: distinct_map_filter)
    then have "distinct (map memory_key (last_items (record_bound m) (filter (\<lambda>x. memory_key x \<noteq> memory_key r) rs @ [r])))"
      unfolding last_items_props(4) by (rule last_items_props(3))
    then show ?thesis using e False rb by (simp add: memory_ok_def last_items_props(1))
  qed
qed

interpretation mst: guarded_store "exec_memory E m" "memory_ok E m" for E :: "'b memory_env" and m
proof
  fix f c rc and f' :: "'b memory_file"
  assume "memory_ok E m f" "exec_memory E m c f = Inr (rc, f')"
  then show "memory_ok E m f'" by (auto simp: exec_memory_def intro: append_keeps_ok split: prod.splits)
qed

abbreviation run_memory :: "'b memory_env \<Rightarrow> int \<Rightarrow> memory_record list \<Rightarrow> 'b memory_file \<Rightarrow> 'b memory_file" where
  "run_memory E m rs f \<equiv> guarded_store.run (exec_memory E m) rs f"

definition stored_records :: "'b memory_env \<Rightarrow> 'b memory_file \<Rightarrow> memory_record list" where
  "stored_records E f = fst (read_records E f)"

lemma missing_ok: "reads_back E \<Longrightarrow> memory_ok E m MfMissing"
  by (simp add: memory_ok_def)

lemma run_memory_Cons:
  "append_with_receipt E m r f = (out, rc, w, f1) \<Longrightarrow> run_memory E m (r # ops) f = run_memory E m ops f1"
  by (simp add: mst.run.simps exec_memory_def)

lemma run_memory_snoc:
  "append_with_receipt E m r (run_memory E m ops f) = (out, rc, w, f1) \<Longrightarrow> run_memory E m (ops @ [r]) f = f1"
  by (simp add: mst.run_append mst.run.simps exec_memory_def)

lemma run_memory_from:
  assumes "memory_ok E m f" "f' = run_memory E m ops f"
  shows "set (stored_records E f') \<subseteq> set (stored_records E f) \<union> set ops"
  using assms
proof (induction ops arbitrary: f)
  case Nil
  then show ?case by simp
next
  case (Cons r ops)
  obtain out rc w f1 where a: "append_with_receipt E m r f = (out, rc, w, f1)" by (metis prod_cases4)
  obtain rs raw existed where rd: "read_records E f = (rs, raw, existed, None)" and rb: "reads_back E"
    using Cons.prems(1) by (auto simp: memory_ok_def split: prod.splits)
  have "set (stored_records E f1) \<subseteq> set rs \<union> {r}"
    using append_effect[OF rb rd a] rd last_items_props(2)[of "record_bound m" "filter (\<lambda>x. memory_key x \<noteq> memory_key r) rs @ [r]"]
    by (auto simp: stored_records_def split: if_splits)
  then show ?case using Cons.IH[OF append_keeps_ok[OF Cons.prems(1) a] Cons.prems(2)[unfolded run_memory_Cons[OF a]]] rd
    by (auto simp: stored_records_def)
qed

lemma append_stores:
  assumes "memory_ok E m f" "append_with_receipt E m r f = (out, rc, w, f')"
  shows "memory_record_sha256 E r \<in> memory_record_sha256 E ` set (stored_records E f')"
proof -
  obtain rs raw existed where rd: "read_records E f = (rs, raw, existed, None)" and rb: "reads_back E"
    using assms(1) by (auto simp: memory_ok_def split: prod.splits)
  show ?thesis using append_effect[OF rb rd assms(2)] rd
    by (auto simp: stored_records_def intro!: imageI last_items_snoc[OF record_bound_pos] split: if_splits)
qed

section \<open>Ranking\<close>

definition ranks_above :: "string \<Rightarrow> memory_record list \<Rightarrow> nat \<Rightarrow> nat \<Rightarrow> bool" where
  "ranks_above q rs i j \<longleftrightarrow> overlap q (rs ! j) < overlap q (rs ! i) \<or> overlap q (rs ! j) = overlap q (rs ! i) \<and> j < i"

definition matching_records :: "string \<Rightarrow> memory_record list \<Rightarrow> nat set" where
  "matching_records q rs = {i. i < length rs \<and> 0 < overlap q (rs ! i)}"

definition score_of :: "'b memory_env \<Rightarrow> string \<Rightarrow> memory_record list \<Rightarrow> nat \<Rightarrow> scored" where
  "score_of E q rs i = (overlap q (rs ! i), i, memory_record_sha256 E (rs ! i), rs ! i)"

lemma scored_records_index:
  "scored_records E q rs = map (score_of E q rs) (filter (\<lambda>i. 0 < overlap q (rs ! i)) [0..<length rs])"
proof -
  have z: "zip [0..<length rs] rs = map (\<lambda>i. (i, rs ! i)) [0..<length rs]"
    by (rule nth_equalityI) simp_all
  show ?thesis unfolding scored_records_def z by (simp add: filter_map comp_def score_of_def)
qed

lemma scored_key_less:
  "i \<noteq> j \<Longrightarrow> scored_key (score_of E q rs i) \<le> scored_key (score_of E q rs j) \<longleftrightarrow> ranks_above q rs i j"
  by (auto simp: scored_key_def score_of_def ranks_above_def less_eq_prod_def)

lemma ranked_indices:
  assumes "is = sort_key (scored_key \<circ> score_of E q rs) (filter (\<lambda>i. 0 < overlap q (rs ! i)) [0..<length rs])"
  shows "distinct is" "set is = matching_records q rs" "sorted_wrt (ranks_above q rs) is"
proof -
  show d: "distinct is" and "set is = matching_records q rs" by (auto simp: assms matching_records_def)
  have "sorted (map (scored_key \<circ> score_of E q rs) is)" unfolding assms by (rule sorted_sort_key)
  then show "sorted_wrt (ranks_above q rs) is"
    using d unfolding sorted_map sorted_wrt_iff_nth_less by (simp add: scored_key_less nth_eq_iff_index_eq)
qed

lemma sort_key_map: "sort_key f (map g xs) = map g (sort_key (f \<circ> g) xs)"
proof (rule properties_for_sort_key)
  show "mset (map g (sort_key (f \<circ> g) xs)) = mset (map g xs)" by simp
  show "sorted (map f (map g (sort_key (f \<circ> g) xs)))" using sorted_sort_key[of "f \<circ> g" xs] by simp
  fix k
  show "filter (\<lambda>y. f k = f y) (map g (sort_key (f \<circ> g) xs)) = filter (\<lambda>y. f k = f y) (map g xs)"
    using sort_key_stable[of "f \<circ> g" "f k" xs] by (simp add: filter_map comp_def eq_commute)
qed

definition match_of :: "nat \<times> scored \<Rightarrow> recall_match" where
  "match_of = (\<lambda>(k, n, i, d, r). \<lparr>mm_rank = k, mm_run_id = mr_run_id r, mm_phase = mr_phase r, mm_record_sha256 = d, mm_token_overlap = n\<rparr>)"

lemma match_fields: "mm_rank (match_of x) = fst x" "mm_record_sha256 (match_of x) = fst (snd (snd (snd x)))"
  by (simp_all add: match_of_def case_prod_beta)

lemma matches_listed:
  "map mm_rank (map match_of (zip [1..<length xs + 1] xs)) = [1..<length xs + 1]"
  "map mm_record_sha256 (map match_of (zip [1..<length xs + 1] xs)) = map (\<lambda>x. fst (snd (snd x))) xs"
proof -
  show "map mm_rank (map match_of (zip [1..<length xs + 1] xs)) = [1..<length xs + 1]"
    by (simp add: comp_def match_fields del: upt_Suc)
  have "map mm_record_sha256 (map match_of (zip [1..<length xs + 1] xs))
      = map (\<lambda>x. fst (snd (snd x))) (map snd (zip [1..<length xs + 1] xs))" by (simp only: map_map comp_def match_fields)
  then show "map mm_record_sha256 (map match_of (zip [1..<length xs + 1] xs)) = map (\<lambda>x. fst (snd (snd x))) xs"
    by (simp del: upt_Suc)
qed

lemma recall_ranked:
  assumes "1 \<le> limit" "rs = fst (load E m f)"
  shows "\<exists>hits rc w ks. recall E m f q limit = Inr (hits, rc, w)
     \<and> distinct ks \<and> set ks \<subseteq> matching_records q rs \<and> length ks = min (nat limit) (card (matching_records q rs))
     \<and> sorted_wrt (ranks_above q rs) ks \<and> (\<forall>i\<in>set ks. \<forall>j\<in>matching_records q rs - set ks. ranks_above q rs i j)
     \<and> hits = map (\<lambda>i. memory_hit (rs ! i) (memory_record_sha256 E (rs ! i)) (overlap q (rs ! i))) ks
     \<and> map mm_rank (ml_selected rc) = [1..<length ks + 1]
     \<and> map mm_record_sha256 (ml_selected rc) = map (\<lambda>i. memory_record_sha256 E (rs ! i)) ks
     \<and> ml_selected_count rc = length ks \<and> ml_candidate_count rc = length rs"
proof -
  obtain records raw existed w where rd: "read_records E f = (records, raw, existed, w)" by (metis prod_cases4)
  have rs: "rs = last_items (record_bound m) records" using assms(2) rd by (simp add: load_def)
  define js where "js = sort_key (scored_key \<circ> score_of E q rs) (filter (\<lambda>i. 0 < overlap q (rs ! i)) [0..<length rs])"
  note j = ranked_indices[OF js_def]
  define ks where "ks = take (nat limit) js"
  have sel: "take (nat limit) (sort_key scored_key (scored_records E q rs)) = map (score_of E q rs) ks"
    by (simp add: scored_records_index sort_key_map js_def ks_def take_map)
  have split: "js = ks @ drop (nat limit) js" by (simp add: ks_def)
  have "length js = card (matching_records q rs)" using distinct_card[OF j(1)] j(2) by simp
  then have len: "length ks = min (nat limit) (card (matching_records q rs))" by (simp add: ks_def)
  have sw: "sorted_wrt (ranks_above q rs) (ks @ drop (nat limit) js)" using j(3) split by simp
  have rest: "matching_records q rs - set ks \<subseteq> set (drop (nat limit) js)" using j(2) split by (metis Diff_subset_conv set_append subset_refl)
  show ?thesis
  proof (intro exI conjI)
    show "recall E m f q limit = Inr (map (\<lambda>i. memory_hit (rs ! i) (memory_record_sha256 E (rs ! i)) (overlap q (rs ! i))) ks,
        \<lparr>ml_query_sha256 = me_sha E (me_text E q), ml_query_token_count = card (tokens_of q), ml_store_existed = existed,
         ml_store_sha256 = me_sha E raw, ml_candidate_count = length rs, ml_selected_count = length ks, ml_limit = limit,
         ml_selected = map match_of (zip [1..<length (map (score_of E q rs) ks) + 1] (map (score_of E q rs) ks)), ml_warning = w\<rparr>, w)"
      unfolding recall_def rd prod.case Let_def rs[symmetric] sel match_of_def[symmetric]
      using assms(1) by (simp add: score_of_def comp_def del: upt_Suc)
    show "distinct ks" using j(1) by (simp add: ks_def)
    show "set ks \<subseteq> matching_records q rs" using j(2) by (auto simp: ks_def dest: in_set_takeD)
    show "sorted_wrt (ranks_above q rs) ks" using sw by (simp add: sorted_wrt_append)
    show "\<forall>i\<in>set ks. \<forall>j\<in>matching_records q rs - set ks. ranks_above q rs i j"
      using sw rest unfolding sorted_wrt_append by blast
  qed (unfold recall_receipt.simps matches_listed, simp_all add: len[symmetric] score_of_def del: upt_Suc)
qed

section \<open>A demonstration\<close>

text \<open>Bytes as the texts and documents they encode, digested to the run and summary of a record.\<close>

definition toy_memory_env :: "(string + json) memory_env" where
  "toy_memory_env = \<lparr>me_text = Inl, me_dumps = Inr, me_loads = (\<lambda>b. case b of Inl _ \<Rightarrow> Inl ''JSONDecodeError'' | Inr v \<Rightarrow> Inr v),
     me_sha = (\<lambda>b. case b of Inl s \<Rightarrow> s
       | Inr v \<Rightarrow> (case memory_record_of v of Some r \<Rightarrow> mr_run_id r @ mr_summary r | None \<Rightarrow> ''store''))\<rparr>"

lemma toy_reads_back: "reads_back toy_memory_env"
  by (simp add: reads_back_def toy_memory_env_def store_bytes_def canonical_bytes_def del: sort_keys.simps)

definition demo_record :: "string \<Rightarrow> string \<Rightarrow> memory_record" where
  "demo_record run s = \<lparr>mr_run_id = run, mr_phase = MemInitial, mr_batch_id = ''b'', mr_decision = ''PASS'', mr_finding_codes = [],
     mr_completed_tools = [''quality''], mr_backend = ''local'', mr_summary = s\<rparr>"

definition demo_memory :: "(string + json) memory_file" where
  "demo_memory = MfBytes (store_bytes toy_memory_env [demo_record ''a'' ''x''])"

lemma demo_memory_load: "fst (load toy_memory_env 2 demo_memory) = [demo_record ''a'' ''x'']"
  unfolding load_def demo_memory_def written_readable[OF toy_reads_back] by (simp add: last_items_def record_bound_def)

lemma demo_overlap: "overlap ''quality pass'' (demo_record ''a'' ''x'') = 2"
  by code_simp

section \<open>Properties\<close>

text \<open>C30: after any history of writes to a store that did not exist, the file can be read, holds at most the configured number of
  records (at least one is allowed) and one per run and phase, holds only records that were written, and the last record written is
  in it, up to its digest.\<close>

theorem memory_stays_bounded:
  assumes "reads_back E" "f = run_memory E m (ops @ [r]) MfMissing"
  shows "length (stored_records E f) \<le> record_bound m \<and> distinct (map memory_key (stored_records E f))
     \<and> set (stored_records E f) \<subseteq> set (ops @ [r]) \<and> snd (load E m f) = None
     \<and> memory_record_sha256 E r \<in> memory_record_sha256 E ` set (stored_records E f)"
proof -
  have ok: "memory_ok E m f" unfolding assms(2) by (rule mst.run_inv[OF missing_ok[OF assms(1)]])
  have "set (stored_records E f) \<subseteq> set (ops @ [r])"
    using run_memory_from[OF missing_ok[OF assms(1)] assms(2)] by (simp add: stored_records_def)
  moreover obtain out rc w f1 where a: "append_with_receipt E m r (run_memory E m ops MfMissing) = (out, rc, w, f1)" by (metis prod_cases4)
  have "memory_record_sha256 E r \<in> memory_record_sha256 E ` set (stored_records E f)"
    using append_stores[OF mst.run_inv[OF missing_ok[OF assms(1)]] a] assms(2) run_memory_snoc[OF a] by simp
  ultimately show ?thesis using ok by (auto simp: memory_ok_def stored_records_def load_def split: prod.splits)
qed

lemma memory_stays_bounded_witness:
  "length (stored_records toy_memory_env (run_memory toy_memory_env 1 ([demo_record ''a'' ''x''] @ [demo_record ''b'' ''y'']) MfMissing)) \<le> 1"
  using memory_stays_bounded[OF toy_reads_back refl, of 1 "[demo_record ''a'' ''x'']" "demo_record ''b'' ''y''"]
  by (simp add: record_bound_def)

text \<open>C31: a recall with a positive limit always succeeds and returns, of the retained records that share a token with the query, as many
  as the limit allows, ordered by overlap and then by recency; every record left out ranks below every record returned, and the
  receipt lists the ranks, digests and counts of exactly these.\<close>

theorem recall_returns_the_best:
  assumes "1 \<le> limit" "rs = fst (load E m f)"
  shows "\<exists>hits rc w ks. recall E m f q limit = Inr (hits, rc, w)
     \<and> distinct ks \<and> set ks \<subseteq> matching_records q rs \<and> length ks = min (nat limit) (card (matching_records q rs))
     \<and> sorted_wrt (ranks_above q rs) ks \<and> (\<forall>i\<in>set ks. \<forall>j\<in>matching_records q rs - set ks. ranks_above q rs i j)
     \<and> hits = map (\<lambda>i. memory_hit (rs ! i) (memory_record_sha256 E (rs ! i)) (overlap q (rs ! i))) ks
     \<and> map mm_rank (ml_selected rc) = [1..<length ks + 1]
     \<and> map mm_record_sha256 (ml_selected rc) = map (\<lambda>i. memory_record_sha256 E (rs ! i)) ks
     \<and> ml_selected_count rc = length ks \<and> ml_candidate_count rc = length rs"
  by (rule recall_ranked[OF assms])

lemma recall_returns_the_best_witness:
  "\<exists>hits rc w. recall toy_memory_env 2 demo_memory ''quality pass'' 4 = Inr (hits, rc, w) \<and> length hits = 1"
proof -
  have "matching_records ''quality pass'' [demo_record ''a'' ''x''] = {0}"
    using demo_overlap by (auto simp: matching_records_def)
  then show ?thesis
    using recall_returns_the_best[of 4 "[demo_record ''a'' ''x'']" toy_memory_env 2 demo_memory "''quality pass''"] demo_memory_load
    by auto
qed

end
