(* ===== verification/Retention_Gate.thy ===== *)
theory Retention_Gate
  imports Gate_Prelude
begin

text \<open>
  \<open>continual_learning.py\<close>: the policy and the stage matrix of a continual-learning run with their validators, and the gate that holds a
  candidate model when it forgot an object. Scores are exact rationals, rounded to twelve digits as the code rounds them.
\<close>

section \<open>The policy\<close>

datatype direction = HigherBetter | LowerBetter

fun direction_str :: "direction \<Rightarrow> string" where
  "direction_str HigherBetter = ''HIGHER_IS_BETTER''"
| "direction_str LowerBetter = ''LOWER_IS_BETTER''"

record metric_policy =
  mp_metric_id :: string
  mp_direction :: direction
  mp_max_average :: rat
  mp_max_worst :: rat
  mp_minimum_final :: "rat option"
  mp_maximum_final :: "rat option"

datatype strategy = EpisodicTtt | ObjectAdapter | ReplayDistillation

fun strategy_str :: "strategy \<Rightarrow> string" where
  "strategy_str EpisodicTtt = ''EPISODIC_TTT''"
| "strategy_str ObjectAdapter = ''OBJECT_SCOPED_ADAPTER''"
| "strategy_str ReplayDistillation = ''REPLAY_DISTILLATION''"

record retention_policy =
  rp_strategy :: strategy
  rp_minimum_replay :: int
  rp_frozen_backbone :: bool
  rp_teacher :: bool
  rp_metrics :: "metric_policy list"

record retention_stage =
  rs_stage_index :: int
  rs_trained_object :: string
  rs_stage_model :: string
  rs_backbone :: string
  rs_object_metrics :: "(string \<times> (string \<times> rat) list) list"
  rs_replay_counts :: "(string \<times> int) list"
  rs_replay_manifest :: "string option"
  rs_teacher_model :: "string option"

datatype evidence_scope = ScopeSynthetic | ScopePublicProxy | ScopeFactoryShadow

fun evidence_scope_str :: "evidence_scope \<Rightarrow> string" where
  "evidence_scope_str ScopeSynthetic = ''SYNTHETIC_CONTRACT_FIXTURE''"
| "evidence_scope_str ScopePublicProxy = ''PUBLIC_PROXY''"
| "evidence_scope_str ScopeFactoryShadow = ''FACTORY_SHADOW''"

record retention_request =
  rr_request_key :: string
  rr_review_note :: string
  rr_parent_id :: string
  rr_parent_sha256 :: string
  rr_candidate_id :: string
  rr_candidate_sha256 :: string
  rr_scope :: evidence_scope
  rr_dataset_sha256 :: string
  rr_membership_sha256 :: string
  rr_evaluator_sha256 :: string
  rr_backbone_sha256 :: string
  rr_objects :: "string list"
  rr_policy :: retention_policy
  rr_stages :: "retention_stage list"
  rr_attest_independent :: bool
  rr_attest_replay :: bool

datatype retention_error =
    RetentionField | HigherNeedsMinimum | LowerNeedsMaximum | DuplicateMetrics | ReplayRequired | TeacherRequired
  | ObjectKeys | ObjectWithoutMetric | ReplayCounts | DuplicateObjects | SameModel | SameWeights | StageCount
  | StageIndex nat | StageOrder nat | FirstStageModel | FinalStageModel | BackboneThawed nat | ObjectPrefix nat | MetricSet nat
  | ReplaySet nat | ReplayMinimum nat | FirstReplayManifest | ReplayManifestMissing nat | ReplayUnseen nat
  | FirstTeacher | TeacherMissing nat | TeacherLineage nat | BadProject | BadPrincipal | NotCanonical

section \<open>Validation\<close>

text \<open>\<open>[A-Za-z0-9_.-]{1,120}\<close> and \<open>[A-Za-z0-9_-]{12,100}\<close>, over the whole text\<close>

definition id_char :: "char \<Rightarrow> bool" where
  "id_char c \<longleftrightarrow> alnum_char c \<or> c \<in> set ''_-''"

definition bounded_id :: "string \<Rightarrow> bool" where
  "bounded_id s \<longleftrightarrow> 1 \<le> length s \<and> length s \<le> 120 \<and> list_all (\<lambda>c. id_char c \<or> c = CHR ''.'') s"

definition request_key_ok :: "string \<Rightarrow> bool" where
  "request_key_ok s \<longleftrightarrow> 12 \<le> length s \<and> length s \<le> 100 \<and> list_all id_char s"

text \<open>
  The validators receive the texts stripped, as the models store them. Pydantic collects the errors of all fields; the model gives the
  first one.
\<close>

definition check_metric_policy :: "metric_policy \<Rightarrow> retention_error + unit" where
  "check_metric_policy p =
     rbind (require (bounded_id (mp_metric_id p) \<and> 0 \<le> mp_max_average p \<and> 0 \<le> mp_max_worst p) RetentionField) (\<lambda>_.
     (case mp_direction p of
        HigherBetter \<Rightarrow> require (mp_minimum_final p \<noteq> None \<and> mp_maximum_final p = None) HigherNeedsMinimum
      | LowerBetter \<Rightarrow> require (mp_maximum_final p \<noteq> None \<and> mp_minimum_final p = None) LowerNeedsMaximum))"

fun check_each :: "('a \<Rightarrow> 'e + unit) \<Rightarrow> 'a list \<Rightarrow> 'e + unit" where
  "check_each f [] = Inr ()"
| "check_each f (x # xs) = rbind (f x) (\<lambda>_. check_each f xs)"

definition check_retention_policy :: "retention_policy \<Rightarrow> retention_error + unit" where
  "check_retention_policy p =
     rbind (check_each check_metric_policy (rp_metrics p)) (\<lambda>_.
     rbind (require (0 \<le> rp_minimum_replay p \<and> 1 \<le> length (rp_metrics p) \<and> length (rp_metrics p) \<le> 32) RetentionField) (\<lambda>_.
     rbind (require (distinct (map mp_metric_id (rp_metrics p))) DuplicateMetrics) (\<lambda>_.
     if rp_strategy p = ReplayDistillation
     then rbind (require (1 \<le> rp_minimum_replay p) ReplayRequired) (\<lambda>_. require (rp_teacher p) TeacherRequired)
     else Inr ())))"

definition check_stage :: "retention_stage \<Rightarrow> retention_error + unit" where
  "check_stage s =
     rbind (require (0 \<le> rs_stage_index s \<and> bounded_id (rs_trained_object s) \<and> is_sha256 (rs_stage_model s) \<and> is_sha256 (rs_backbone s)
         \<and> 1 \<le> length (rs_object_metrics s) \<and> length (rs_object_metrics s) \<le> 64 \<and> length (rs_replay_counts s) \<le> 64
         \<and> (case rs_replay_manifest s of None \<Rightarrow> True | Some d \<Rightarrow> is_sha256 d)
         \<and> (case rs_teacher_model s of None \<Rightarrow> True | Some d \<Rightarrow> is_sha256 d)) RetentionField) (\<lambda>_.
     rbind (require (list_all bounded_id (map fst (rs_object_metrics s))) ObjectKeys) (\<lambda>_.
     rbind (require (list_all (\<lambda>(i, m). m \<noteq> []) (rs_object_metrics s)) ObjectWithoutMetric) (\<lambda>_.
     require (list_all (\<lambda>(i, n). bounded_id i \<and> 0 \<le> n) (rs_replay_counts s)) ReplayCounts)))"

text \<open>One turn of the loop over the enumerated stages.\<close>

definition check_stage_at :: "retention_request \<Rightarrow> nat \<Rightarrow> retention_error + unit" where
  "check_stage_at r i =
     (let s = rr_stages r ! i; p = rr_policy r; objects = rr_objects r; metric_ids = set (map mp_metric_id (rp_metrics p));
          prior = set (take i objects); replay = set (map fst (rs_replay_counts s)) in
      rbind (require (rs_stage_index s = int i) (StageIndex i)) (\<lambda>_.
      rbind (require (rs_trained_object s = objects ! i) (StageOrder i)) (\<lambda>_.
      rbind (require (\<not> (i = 0 \<and> rs_stage_model s \<noteq> rr_parent_sha256 r)) FirstStageModel) (\<lambda>_.
      rbind (require (\<not> (i = length (rr_stages r) - 1 \<and> rs_stage_model s \<noteq> rr_candidate_sha256 r)) FinalStageModel) (\<lambda>_.
      rbind (require (\<not> (rp_frozen_backbone p \<and> rs_backbone s \<noteq> rr_backbone_sha256 r)) (BackboneThawed i)) (\<lambda>_.
      rbind (require (set (map fst (rs_object_metrics s)) = set (take (i + 1) objects)) (ObjectPrefix i)) (\<lambda>_.
      rbind (require (list_all (\<lambda>(o', m). set (map fst m) = metric_ids) (rs_object_metrics s)) (MetricSet i)) (\<lambda>_.
      rbind
        (if rp_strategy p = ReplayDistillation
         then rbind (require (replay = prior) (ReplaySet i)) (\<lambda>_.
              rbind (require (list_all (\<lambda>(o', n). rp_minimum_replay p \<le> n) (rs_replay_counts s)) (ReplayMinimum i)) (\<lambda>_.
              rbind (require (\<not> (i = 0 \<and> rs_replay_manifest s \<noteq> None)) FirstReplayManifest) (\<lambda>_.
              require (\<not> (0 < i \<and> rs_replay_manifest s = None)) (ReplayManifestMissing i))))
         else require (replay \<subseteq> prior) (ReplayUnseen i)) (\<lambda>_.
      rbind (require (\<not> (i = 0 \<and> rs_teacher_model s \<noteq> None)) FirstTeacher) (\<lambda>_.
      rbind (require (\<not> (0 < i \<and> rp_teacher p \<and> rs_teacher_model s = None)) (TeacherMissing i)) (\<lambda>_.
      require (\<not> (0 < i \<and> rs_teacher_model s \<noteq> None \<and> rs_teacher_model s \<noteq> Some (rs_stage_model (rr_stages r ! (i - 1)))))
        (TeacherLineage i))))))))))))"

definition check_retention_request :: "retention_request \<Rightarrow> retention_error + unit" where
  "check_retention_request r =
     rbind (check_retention_policy (rr_policy r)) (\<lambda>_.
     rbind (check_each check_stage (rr_stages r)) (\<lambda>_.
     rbind (require (request_key_ok (rr_request_key r) \<and> 8 \<le> length (rr_review_note r) \<and> length (rr_review_note r) \<le> 2000
         \<and> list_all bounded_id [rr_parent_id r, rr_candidate_id r]
         \<and> list_all is_sha256 [rr_parent_sha256 r, rr_candidate_sha256 r, rr_dataset_sha256 r, rr_membership_sha256 r,
              rr_evaluator_sha256 r, rr_backbone_sha256 r]
         \<and> 2 \<le> length (rr_objects r) \<and> length (rr_objects r) \<le> 64 \<and> 2 \<le> length (rr_stages r) \<and> length (rr_stages r) \<le> 64
         \<and> rr_attest_independent r \<and> rr_attest_replay r) RetentionField) (\<lambda>_.
     rbind (require (distinct (rr_objects r) \<and> list_all bounded_id (rr_objects r)) DuplicateObjects) (\<lambda>_.
     rbind (require (rr_parent_id r \<noteq> rr_candidate_id r) SameModel) (\<lambda>_.
     rbind (require (rr_parent_sha256 r \<noteq> rr_candidate_sha256 r) SameWeights) (\<lambda>_.
     rbind (require (length (rr_stages r) = length (rr_objects r)) StageCount) (\<lambda>_.
     check_each (check_stage_at r) [0..<length (rr_stages r)])))))))"

section \<open>The gate\<close>

text \<open>\<open>round(x, 12)\<close>: to the nearest multiple, ties to the even one\<close>

definition half_even :: "rat \<Rightarrow> int" where
  "half_even x = (let f = \<lfloor>x\<rfloor>; d = x - of_int f in if d < 1 / 2 then f else if 1 / 2 < d then f + 1 else if even f then f else f + 1)"

definition rounded :: "rat \<Rightarrow> rat" where
  "rounded x = of_int (half_even (x * 10 ^ 12)) / 10 ^ 12"

text \<open>Best score, forgetting and backward transfer of one history.\<close>

definition forgetting :: "direction \<Rightarrow> rat list \<Rightarrow> rat \<times> rat \<times> rat" where
  "forgetting d history =
     (let final = last history in
      case d of
        HigherBetter \<Rightarrow> (let best = Max (set history) in (rounded best, rounded (max 0 (best - final)), rounded (final - hd history)))
      | LowerBetter \<Rightarrow> (let best = Min (set history) in (rounded best, rounded (max 0 (final - best)), rounded (hd history - final))))"

record object_result =
  or_learned :: rat
  or_best :: rat
  or_final :: rat
  or_forgetting :: rat
  or_transfer :: rat
  or_count :: nat

datatype blocker_code = BelowMinimum | AboveMaximum | AverageForgetting | WorstForgetting

fun blocker_code_str :: "blocker_code \<Rightarrow> string" where
  "blocker_code_str BelowMinimum = ''FINAL_SCORE_BELOW_MINIMUM''"
| "blocker_code_str AboveMaximum = ''FINAL_SCORE_ABOVE_MAXIMUM''"
| "blocker_code_str AverageForgetting = ''AVERAGE_FORGETTING_EXCEEDED''"
| "blocker_code_str WorstForgetting = ''WORST_OBJECT_FORGETTING_EXCEEDED''"

record blocker =
  bl_code :: blocker_code
  bl_metric_id :: string
  bl_object_id :: "string option"
  bl_observed :: rat
  bl_limit :: rat

record metric_result =
  rm_direction :: direction
  rm_denominator :: nat
  rm_average :: rat
  rm_worst :: rat
  rm_worst_object :: string
  rm_transfer :: rat
  rm_objects :: "(string \<times> object_result) list"

text \<open>\<open>stage.object_metrics[object][metric]\<close> over the stages from the one that learned the object\<close>

definition history_of :: "retention_request \<Rightarrow> metric_policy \<Rightarrow> nat \<Rightarrow> rat list" where
  "history_of r p i =
     map (\<lambda>s. the (map_of (the (map_of (rs_object_metrics s) (rr_objects r ! i))) (mp_metric_id p))) (drop i (rr_stages r))"

definition object_result_of :: "retention_request \<Rightarrow> metric_policy \<Rightarrow> nat \<Rightarrow> object_result" where
  "object_result_of r p i =
     (let h = history_of r p i; (best, forgot, transfer) = forgetting (mp_direction p) h in
      \<lparr>or_learned = rounded (hd h), or_best = best, or_final = rounded (last h), or_forgetting = forgot, or_transfer = transfer,
       or_count = length h\<rparr>)"

definition final_blockers :: "retention_request \<Rightarrow> metric_policy \<Rightarrow> nat \<Rightarrow> blocker list" where
  "final_blockers r p i =
     (let final = or_final (object_result_of r p i);
          block = (\<lambda>c limit. \<lparr>bl_code = c, bl_metric_id = mp_metric_id p, bl_object_id = Some (rr_objects r ! i), bl_observed = final,
                     bl_limit = limit\<rparr>) in
      (case mp_minimum_final p of None \<Rightarrow> [] | Some m \<Rightarrow> if final < m then [block BelowMinimum m] else [])
      @ (case mp_maximum_final p of None \<Rightarrow> [] | Some m \<Rightarrow> if m < final then [block AboveMaximum m] else []))"

text \<open>\<open>xs.index(x)\<close> of a value that is in the list\<close>

definition index_of :: "'a \<Rightarrow> 'a list \<Rightarrow> nat" where
  "index_of x xs = length (takeWhile (\<lambda>y. y \<noteq> x) xs)"

definition metric_gate :: "retention_request \<Rightarrow> metric_policy \<Rightarrow> metric_result \<times> blocker list" where
  "metric_gate r p =
     (let n = length (rr_objects r) - 1; results = map (object_result_of r p) [0..<n + 1];
          forgot = map or_forgetting (take n results); transfers = map or_transfer (take n results);
          average = rounded (sum_list forgot / of_nat n); worst = rounded (Max (set forgot));
          worst_object = rr_objects r ! index_of worst forgot;
          block = (\<lambda>c ob v limit. \<lparr>bl_code = c, bl_metric_id = mp_metric_id p, bl_object_id = ob, bl_observed = v, bl_limit = limit\<rparr>) in
      (\<lparr>rm_direction = mp_direction p, rm_denominator = n, rm_average = average, rm_worst = worst, rm_worst_object = worst_object,
        rm_transfer = rounded (sum_list transfers / of_nat n), rm_objects = zip (rr_objects r) results\<rparr>,
       concat (map (final_blockers r p) [0..<n + 1])
       @ (if mp_max_average p < average then [block AverageForgetting None average (mp_max_average p)] else [])
       @ (if mp_max_worst p < worst then [block WorstForgetting (Some worst_object) worst (mp_max_worst p)] else [])))"

section \<open>The receipt\<close>

definition metric_policy_json :: "metric_policy \<Rightarrow> json" where
  "metric_policy_json p = JObj
     [(''metric_id'', JStr (mp_metric_id p)), (''direction'', JStr (direction_str (mp_direction p))),
      (''max_average_forgetting'', JNum (mp_max_average p)), (''max_worst_object_forgetting'', JNum (mp_max_worst p)),
      (''minimum_final_score'', JOpt JNum (mp_minimum_final p)), (''maximum_final_score'', JOpt JNum (mp_maximum_final p))]"

definition retention_policy_json :: "retention_policy \<Rightarrow> json" where
  "retention_policy_json p = JObj
     [(''strategy'', JStr (strategy_str (rp_strategy p))), (''minimum_replay_samples_per_prior_object'', JInt (rp_minimum_replay p)),
      (''require_frozen_backbone'', JBool (rp_frozen_backbone p)), (''require_teacher_distillation'', JBool (rp_teacher p)),
      (''metrics'', JArr (map metric_policy_json (rp_metrics p)))]"

definition retention_stage_json :: "retention_stage \<Rightarrow> json" where
  "retention_stage_json s = JObj
     [(''stage_index'', JInt (rs_stage_index s)), (''trained_object_id'', JStr (rs_trained_object s)),
      (''stage_model_sha256'', JStr (rs_stage_model s)), (''backbone_sha256'', JStr (rs_backbone s)),
      (''object_metrics'', JObj (map (\<lambda>(k, m). (k, JObj (map (\<lambda>(i, v). (i, JNum v)) m))) (rs_object_metrics s))),
      (''replay_sample_counts'', JObj (map (\<lambda>(k, n). (k, JInt n)) (rs_replay_counts s))),
      (''replay_manifest_sha256'', JOpt JStr (rs_replay_manifest s)), (''teacher_model_sha256'', JOpt JStr (rs_teacher_model s))]"

definition retention_request_json :: "retention_request \<Rightarrow> json" where
  "retention_request_json r = JObj
     [(''request_key'', JStr (rr_request_key r)), (''review_note'', JStr (rr_review_note r)),
      (''parent_model_id'', JStr (rr_parent_id r)), (''parent_model_sha256'', JStr (rr_parent_sha256 r)),
      (''candidate_model_id'', JStr (rr_candidate_id r)), (''candidate_model_sha256'', JStr (rr_candidate_sha256 r)),
      (''evidence_scope'', JStr (evidence_scope_str (rr_scope r))), (''retention_dataset_sha256'', JStr (rr_dataset_sha256 r)),
      (''retention_membership_sha256'', JStr (rr_membership_sha256 r)), (''evaluator_sha256'', JStr (rr_evaluator_sha256 r)),
      (''base_backbone_sha256'', JStr (rr_backbone_sha256 r)), (''object_sequence'', JStrs (rr_objects r)),
      (''policy'', retention_policy_json (rr_policy r)), (''stages'', JArr (map retention_stage_json (rr_stages r))),
      (''operator_attests_independent_evaluation'', JBool (rr_attest_independent r)),
      (''operator_attests_replay_buffer_authorized'', JBool (rr_attest_replay r))]"

text \<open>The fields of the receipt that are computed; the others repeat the request.\<close>

record retention_receipt =
  rt_project_id :: string
  rt_evaluated_by :: string
  rt_request :: retention_request
  rt_policy_sha256 :: string
  rt_matrix_sha256 :: string
  rt_request_sha256 :: string
  rt_metrics :: "(string \<times> metric_result) list"
  rt_blockers :: "blocker list"
  rt_eligible :: bool
  rt_receipt_sha256 :: string

definition object_result_json :: "object_result \<Rightarrow> json" where
  "object_result_json x = JObj
     [(''learned_stage_score'', JNum (or_learned x)), (''best_observed_score'', JNum (or_best x)), (''final_score'', JNum (or_final x)),
      (''forgetting'', JNum (or_forgetting x)), (''backward_transfer'', JNum (or_transfer x)),
      (''observation_count'', JInt (int (or_count x)))]"

definition metric_result_json :: "metric_result \<Rightarrow> json" where
  "metric_result_json x = JObj
     [(''direction'', JStr (direction_str (rm_direction x))), (''prior_object_denominator'', JInt (int (rm_denominator x))),
      (''average_forgetting'', JNum (rm_average x)), (''worst_forgetting'', JNum (rm_worst x)),
      (''worst_object_id'', JStr (rm_worst_object x)), (''average_backward_transfer'', JNum (rm_transfer x)),
      (''objects'', JObj (map (\<lambda>(k, v). (k, object_result_json v)) (rm_objects x)))]"

definition blocker_json :: "blocker \<Rightarrow> json" where
  "blocker_json b = JObj
     [(''code'', JStr (blocker_code_str (bl_code b))), (''metric_id'', JStr (bl_metric_id b)),
      (''object_id'', JOpt JStr (bl_object_id b)), (''observed'', JNum (bl_observed b)), (''limit'', JNum (bl_limit b))]"

definition retention_payload :: "retention_receipt \<Rightarrow> json" where
  "retention_payload t = (let r = rt_request t in JObj
     [(''schema_version'', JStr ''visiondata-gate.continual-retention-receipt.v1''), (''project_id'', JStr (rt_project_id t)),
      (''evaluated_by'', JStr (rt_evaluated_by t)), (''request_key'', JStr (rr_request_key r)),
      (''review_note'', JStr (rr_review_note r)), (''parent_model_id'', JStr (rr_parent_id r)),
      (''parent_model_sha256'', JStr (rr_parent_sha256 r)), (''candidate_model_id'', JStr (rr_candidate_id r)),
      (''candidate_model_sha256'', JStr (rr_candidate_sha256 r)), (''evidence_scope'', JStr (evidence_scope_str (rr_scope r))),
      (''retention_dataset_sha256'', JStr (rr_dataset_sha256 r)), (''retention_membership_sha256'', JStr (rr_membership_sha256 r)),
      (''evaluator_sha256'', JStr (rr_evaluator_sha256 r)), (''base_backbone_sha256'', JStr (rr_backbone_sha256 r)),
      (''object_sequence'', JStrs (rr_objects r)), (''evaluated_object_count'', JInt (int (length (rr_objects r)))),
      (''prior_object_denominator'', JInt (int (length (rr_objects r) - 1))), (''policy'', retention_policy_json (rr_policy r)),
      (''policy_sha256'', JStr (rt_policy_sha256 t)), (''retention_matrix_sha256'', JStr (rt_matrix_sha256 t)),
      (''stage_model_sha256s'', JStrs (map rs_stage_model (rr_stages r))),
      (''replay_manifest_sha256s'', JArr (map (JOpt JStr \<circ> rs_replay_manifest) (rr_stages r))),
      (''request_sha256'', JStr (rt_request_sha256 t)),
      (''metrics'', JObj (map (\<lambda>(k, v). (k, metric_result_json v)) (rt_metrics t))),
      (''blockers'', JArr (map blocker_json (rt_blockers t))),
      (''decision'', JStr (if rt_eligible t then ''ELIGIBLE_FOR_SANDBOX_REVIEW'' else ''HOLD_CATASTROPHIC_FORGETTING'')),
      (''sandbox_promotion_eligible'', JBool (rt_eligible t)), (''industrial_acceptance'', JStr ''HOLD''),
      (''production_release_allowed'', JBool False), (''machine_write_permitted'', JBool False),
      (''claim_boundary'', JStr (''The receipt evaluates the supplied fixed retention matrix. It does not prove that training occurred, ''
         @ ''validate factory performance, or grant production-release authority.'')),
      (''final_stage_trained_object_id'', JStr (rs_trained_object (last (rr_stages r))))])"

definition retention_sha :: "crypto \<Rightarrow> json \<Rightarrow> retention_error + string" where
  "retention_sha C v = of_opt NotCanonical (jcs_sha C v)"

definition evaluate_continual_retention :: "crypto \<Rightarrow> string \<Rightarrow> string \<Rightarrow> retention_request \<Rightarrow> retention_error + retention_receipt" where
  "evaluate_continual_retention C project_id evaluated_by r =
     rbind (require (bounded_id project_id) BadProject) (\<lambda>_.
     rbind (require (evaluated_by \<noteq> [] \<and> length evaluated_by \<le> 120) BadPrincipal) (\<lambda>_.
     (let gates = map (metric_gate r) (rp_metrics (rr_policy r));
          results = zip (map mp_metric_id (rp_metrics (rr_policy r))) (map fst gates); blockers = concat (map snd gates) in
      rbind (retention_sha C (retention_policy_json (rr_policy r))) (\<lambda>policy.
      rbind (retention_sha C (JArr (map retention_stage_json (rr_stages r)))) (\<lambda>matrix.
      rbind (retention_sha C (retention_request_json r)) (\<lambda>request.
      (let stable = \<lparr>rt_project_id = project_id, rt_evaluated_by = evaluated_by, rt_request = r, rt_policy_sha256 = policy,
             rt_matrix_sha256 = matrix, rt_request_sha256 = request, rt_metrics = results, rt_blockers = blockers,
             rt_eligible = (blockers = []), rt_receipt_sha256 = []\<rparr> in
       rbind (retention_sha C (retention_payload stable)) (\<lambda>sha. Inr (stable\<lparr>rt_receipt_sha256 := sha\<rparr>)))))))))"

end
