(* ===== verification/Retention_Safety.thy ===== *)
theory Retention_Safety
  imports Retention_Gate Clean_Texts
begin

text \<open>
  What the gate of a continual-learning run guarantees: a validated request is one chain of models from the parent to the candidate in
  which every score the gate reads is present, and a candidate is eligible exactly when no metric forgot beyond its policy.
\<close>

section \<open>Validated requests\<close>

lemma check_each_Inr: "check_each f xs = Inr () \<longleftrightarrow> (\<forall>x\<in>set xs. f x = Inr ())"
  by (induction xs) auto

definition stage_chained :: "retention_request \<Rightarrow> nat \<Rightarrow> bool" where
  "stage_chained r i \<longleftrightarrow> (let s = rr_stages r ! i in
     rs_trained_object s = rr_objects r ! i \<and> set (map fst (rs_object_metrics s)) = set (take (i + 1) (rr_objects r))
     \<and> (\<forall>(ob, m)\<in>set (rs_object_metrics s). set (map fst m) = set (map mp_metric_id (rp_metrics (rr_policy r))))
     \<and> set (map fst (rs_replay_counts s)) \<subseteq> set (take i (rr_objects r))
     \<and> (rp_frozen_backbone (rr_policy r) \<longrightarrow> rs_backbone s = rr_backbone_sha256 r)
     \<and> (i = 0 \<longrightarrow> rs_stage_model s = rr_parent_sha256 r \<and> rs_teacher_model s = None)
     \<and> (i = length (rr_stages r) - 1 \<longrightarrow> rs_stage_model s = rr_candidate_sha256 r)
     \<and> (0 < i \<longrightarrow> rs_teacher_model s \<in> {None, Some (rs_stage_model (rr_stages r ! (i - 1)))})
     \<and> (0 < i \<and> rp_teacher (rr_policy r) \<longrightarrow> rs_teacher_model s \<noteq> None)
     \<and> (rp_strategy (rr_policy r) = ReplayDistillation \<longrightarrow> rp_teacher (rr_policy r)
          \<and> (\<forall>ob\<in>set (take i (rr_objects r)). \<exists>n\<ge>1. (ob, n) \<in> set (rs_replay_counts s))))"

lemma check_stage_at_Inr:
  assumes "check_stage_at r i = Inr ()" "check_retention_policy (rr_policy r) = Inr ()"
  shows "stage_chained r i"
proof -
  have pol: "rp_strategy (rr_policy r) = ReplayDistillation \<longrightarrow> 1 \<le> rp_minimum_replay (rr_policy r) \<and> rp_teacher (rr_policy r)"
    using assms(2) by (auto simp: check_retention_policy_def split: if_splits)
  note c = assms(1)[unfolded check_stage_at_def Let_def rbind_eq_Inr require_Inr]
  define s where "s = rr_stages r ! i"
  have replay: "set (map fst (rs_replay_counts s)) \<subseteq> set (take i (rr_objects r))
      \<and> (rp_strategy (rr_policy r) = ReplayDistillation \<longrightarrow> (\<forall>ob\<in>set (take i (rr_objects r)). \<exists>n\<ge>1. (ob, n) \<in> set (rs_replay_counts s)))"
  proof (cases "rp_strategy (rr_policy r) = ReplayDistillation")
    case True
    then have eq: "set (map fst (rs_replay_counts s)) = set (take i (rr_objects r))"
      and mn: "\<forall>(ob, n)\<in>set (rs_replay_counts s). rp_minimum_replay (rr_policy r) \<le> n"
      using c by (auto simp: s_def list_all_iff)
    have "\<exists>n\<ge>1. (ob, n) \<in> set (rs_replay_counts s)" if "ob \<in> set (take i (rr_objects r))" for ob
    proof -
      from that eq obtain n where "(ob, n) \<in> set (rs_replay_counts s)" by (auto simp: image_iff) (metis eq image_iff prod.collapse set_map)
      then show ?thesis using mn pol True by (intro exI[of _ n]) auto
    qed
    then show ?thesis using eq by simp
  next
    case False
    then show ?thesis using c by (simp add: s_def)
  qed
  have others: "rs_trained_object s = rr_objects r ! i" "set (map fst (rs_object_metrics s)) = set (take (i + 1) (rr_objects r))"
    "\<forall>(ob, m)\<in>set (rs_object_metrics s). set (map fst m) = set (map mp_metric_id (rp_metrics (rr_policy r)))"
    "rp_frozen_backbone (rr_policy r) \<longrightarrow> rs_backbone s = rr_backbone_sha256 r"
    "i = 0 \<longrightarrow> rs_stage_model s = rr_parent_sha256 r \<and> rs_teacher_model s = None"
    "i = length (rr_stages r) - 1 \<longrightarrow> rs_stage_model s = rr_candidate_sha256 r"
    using c by (cases "i = 0"; simp add: s_def list_all_iff)+
  have teacher: "0 < i \<longrightarrow> rs_teacher_model s \<in> {None, Some (rs_stage_model (rr_stages r ! (i - 1)))}"
    "0 < i \<and> rp_teacher (rr_policy r) \<longrightarrow> rs_teacher_model s \<noteq> None"
    using c by (cases "i = 0"; simp add: s_def)+
  show ?thesis
    unfolding stage_chained_def Let_def s_def[symmetric] using others teacher replay pol by (intro conjI impI) simp_all
qed

lemma validated_stages:
  assumes "check_retention_request r = Inr ()"
  shows "length (rr_stages r) = length (rr_objects r)" "2 \<le> length (rr_objects r)" "distinct (rr_objects r)"
    "i < length (rr_stages r) \<Longrightarrow> stage_chained r i" "rr_parent_sha256 r \<noteq> rr_candidate_sha256 r"
proof -
  note c = assms[unfolded check_retention_request_def rbind_eq_Inr require_Inr check_each_Inr]
  show "length (rr_stages r) = length (rr_objects r)" "2 \<le> length (rr_objects r)" "distinct (rr_objects r)"
    "rr_parent_sha256 r \<noteq> rr_candidate_sha256 r" using c by simp_all
  assume "i < length (rr_stages r)"
  then have "check_stage_at r i = Inr ()" "check_retention_policy (rr_policy r) = Inr ()" using c by auto
  then show "stage_chained r i" by (rule check_stage_at_Inr)
qed

text \<open>Every lookup of the gate finds its object and its metric.\<close>

lemma scores_present:
  assumes "check_retention_request r = Inr ()" "p \<in> set (rp_metrics (rr_policy r))" "i \<le> j" "j < length (rr_stages r)"
  shows "\<exists>m v. map_of (rs_object_metrics (rr_stages r ! j)) (rr_objects r ! i) = Some m \<and> map_of m (mp_metric_id p) = Some v"
proof -
  have st: "stage_chained r j" using validated_stages(4)[OF assms(1,4)] .
  have len: "length (rr_stages r) = length (rr_objects r)" using validated_stages(1)[OF assms(1)] .
  have "rr_objects r ! i \<in> set (take (j + 1) (rr_objects r))"
    using assms(3,4) len by (auto simp: in_set_conv_nth intro!: exI[of _ i])
  then have "rr_objects r ! i \<in> fst ` set (rs_object_metrics (rr_stages r ! j))" using st by (simp add: stage_chained_def Let_def)
  then obtain m where m: "map_of (rs_object_metrics (rr_stages r ! j)) (rr_objects r ! i) = Some m"
    by (metis map_of_eq_None_iff not_None_eq)
  then have "(rr_objects r ! i, m) \<in> set (rs_object_metrics (rr_stages r ! j))" by (rule map_of_SomeD)
  then have "set (map fst m) = set (map mp_metric_id (rp_metrics (rr_policy r)))"
    using st unfolding stage_chained_def Let_def by blast
  then have "mp_metric_id p \<in> fst ` set m" using assms(2) by simp
  then obtain v where "map_of m (mp_metric_id p) = Some v" by (metis map_of_eq_None_iff not_None_eq)
  then show ?thesis using m by blast
qed

section \<open>The gate\<close>

lemma half_even_int: "half_even (of_int k) = k"
  by (simp add: half_even_def)

lemma rounded_rounded: "rounded (rounded x) = rounded x"
proof -
  have "rounded x * 10 ^ 12 = of_int (half_even (x * 10 ^ 12))" by (simp add: rounded_def)
  then show ?thesis unfolding rounded_def[of "rounded x"] by (simp only: half_even_int rounded_def)
qed

text \<open>Rounding moves a score by at most half a unit of the twelfth digit.\<close>

lemma rounded_close: "\<bar>rounded x - x\<bar> \<le> 1 / (2 * 10 ^ 12)"
proof -
  define y where "y = x * 10 ^ 12"
  have f: "of_int \<lfloor>y\<rfloor> \<le> y" "y < of_int \<lfloor>y\<rfloor> + 1" by linarith+
  have "\<bar>of_int (half_even y) - y\<bar> \<le> 1 / 2" using f unfolding half_even_def Let_def by (auto simp: abs_le_iff)
  then have "\<bar>(of_int (half_even y) - y) / 10 ^ 12\<bar> \<le> 1 / 2 / 10 ^ 12" by (simp only: abs_divide) (simp add: divide_right_mono)
  then show ?thesis by (simp add: rounded_def y_def diff_divide_distrib)
qed

definition final_ok :: "metric_policy \<Rightarrow> rat \<Rightarrow> bool" where
  "final_ok p v \<longleftrightarrow> (\<forall>m. mp_minimum_final p = Some m \<longrightarrow> m \<le> v) \<and> (\<forall>m. mp_maximum_final p = Some m \<longrightarrow> v \<le> m)"

text \<open>
  What a metric lost on an object: the largest drop from any stage since the object was learned to the last stage, read off the scores of
  the request.
\<close>

definition stage_score :: "retention_request \<Rightarrow> metric_policy \<Rightarrow> nat \<Rightarrow> nat \<Rightarrow> rat" where
  "stage_score r p i j = the (map_of (the (map_of (rs_object_metrics (rr_stages r ! j)) (rr_objects r ! i))) (mp_metric_id p))"

definition drop_in :: "direction \<Rightarrow> rat \<Rightarrow> rat \<Rightarrow> rat" where
  "drop_in d before after = (case d of HigherBetter \<Rightarrow> before - after | LowerBetter \<Rightarrow> after - before)"

definition score_loss :: "retention_request \<Rightarrow> metric_policy \<Rightarrow> nat \<Rightarrow> rat" where
  "score_loss r p i = (let n = length (rr_stages r) in
     Max ((\<lambda>j. drop_in (mp_direction p) (stage_score r p i j) (stage_score r p i (n - 1))) ` {i..<n}))"

text \<open>No object ends beyond its limit, the prior objects lost little on average, and none lost too much.\<close>

definition metric_retained :: "retention_request \<Rightarrow> metric_policy \<Rightarrow> bool" where
  "metric_retained r p \<longleftrightarrow> (let n = length (rr_objects r) - 1 in
     (\<forall>i\<le>n. final_ok p (rounded (stage_score r p i n)))
     \<and> rounded ((\<Sum>i<n. rounded (score_loss r p i)) / of_nat n) \<le> mp_max_average p
     \<and> (\<forall>i<n. rounded (score_loss r p i) \<le> mp_max_worst p))"

lemma history_scores: "history_of r p i = map (stage_score r p i) [i..<length (rr_stages r)]"
  by (rule nth_equalityI) (simp_all add: history_of_def stage_score_def)

lemma forgetting_is_loss:
  assumes "h \<noteq> []"
  shows "fst (snd (forgetting d h)) = rounded (Max ((\<lambda>x. drop_in d x (last h)) ` set h))"
proof (cases d)
  case HigherBetter
  have "last h \<le> Max (set h)" using assms by simp
  moreover have "Max ((\<lambda>x. x - last h) ` set h) = Max (set h) - last h" using assms by (intro Max_eqI) auto
  ultimately show ?thesis using HigherBetter by (simp add: forgetting_def drop_in_def Let_def)
next
  case LowerBetter
  have "Min (set h) \<le> last h" using assms by simp
  moreover have "Max ((\<lambda>x. last h - x) ` set h) = last h - Min (set h)" using assms by (intro Max_eqI) auto
  ultimately show ?thesis using LowerBetter by (simp add: forgetting_def drop_in_def Let_def)
qed

lemma last_history:
  assumes "i < length (rr_stages r)"
  shows "history_of r p i \<noteq> []" "last (history_of r p i) = stage_score r p i (length (rr_stages r) - 1)"
proof -
  have ne: "[i..<length (rr_stages r)] \<noteq> []" "last [i..<length (rr_stages r)] = length (rr_stages r) - 1"
    using assms by (auto simp: last_upt simp del: upt_Suc)
  then show "history_of r p i \<noteq> []" by (simp only: history_scores map_is_Nil_conv not_False_eq_True)
  from ne show "last (history_of r p i) = stage_score r p i (length (rr_stages r) - 1)" unfolding history_scores by (simp only: last_map not_False_eq_True)
qed

lemma final_blockers_none: "final_blockers r p i = [] \<longleftrightarrow> final_ok p (rounded (last (history_of r p i)))"
  by (auto simp: final_blockers_def final_ok_def object_result_of_def Let_def not_less split: option.splits prod.splits)

lemma object_forgetting:
  assumes "i < length (rr_stages r)"
  shows "or_forgetting (object_result_of r p i) = rounded (score_loss r p i)"
proof -
  have "or_forgetting (object_result_of r p i) = fst (snd (forgetting (mp_direction p) (history_of r p i)))"
    by (simp add: object_result_of_def Let_def split: prod.splits)
  also have "\<dots> = rounded (score_loss r p i)" using last_history[OF assms]
    by (simp add: forgetting_is_loss score_loss_def Let_def history_scores image_image)
  finally show ?thesis .
qed

lemma metric_gate_none:
  assumes "2 \<le> length (rr_objects r)" "length (rr_stages r) = length (rr_objects r)"
  shows "snd (metric_gate r p) = [] \<longleftrightarrow> metric_retained r p"
proof -
  define n where "n = length (rr_objects r) - 1"
  define g where "g i = rounded (score_loss r p i)" for i
  have n: "0 < n" "length (rr_stages r) = n + 1" using assms by (simp_all add: n_def)
  have fs: "map or_forgetting (take n (map (object_result_of r p) [0..<n + 1])) = map g [0..<n]"
    using n by (simp add: take_map object_forgetting g_def)
  have sm: "sum_list (map g [0..<n]) = (\<Sum>i<n. g i)" by (simp add: interv_sum_list_conv_sum_set_nat lessThan_atLeast0)
  have ne: "finite (g ` {..<n})" "g ` {..<n} \<noteq> {}" using n by auto
  have st: "set (map g [0..<n]) = g ` {..<n}" by auto
  have "Max (g ` {..<n}) \<in> g ` {..<n}" using ne by (rule Max_in)
  then have mx: "rounded (Max (g ` {..<n})) = Max (g ` {..<n})" by (auto simp: g_def rounded_rounded)
  have fin: "final_blockers r p i = [] \<longleftrightarrow> final_ok p (rounded (stage_score r p i n))" if "i \<le> n" for i
    using that n by (simp add: final_blockers_none last_history(2))
  have "snd (metric_gate r p) = [] \<longleftrightarrow> (\<forall>i\<le>n. final_blockers r p i = [])
      \<and> rounded ((\<Sum>i<n. g i) / of_nat n) \<le> mp_max_average p \<and> Max (g ` {..<n}) \<le> mp_max_worst p"
    unfolding metric_gate_def n_def[symmetric] Let_def snd_conv fs sm st mx
    by (auto simp: not_less less_Suc_eq_le simp del: upt_Suc)
  also have "Max (g ` {..<n}) \<le> mp_max_worst p \<longleftrightarrow> (\<forall>i<n. g i \<le> mp_max_worst p)" using ne by (auto simp: Max_le_iff)
  also have "(\<forall>i\<le>n. final_blockers r p i = []) \<longleftrightarrow> (\<forall>i\<le>n. final_ok p (rounded (stage_score r p i n)))" using fin by blast
  finally show ?thesis unfolding metric_retained_def Let_def n_def g_def .
qed

lemma evaluated_receipt:
  "evaluate_continual_retention C project by r = Inr t \<Longrightarrow> rt_request t = r
     \<and> rt_blockers t = concat (map (snd \<circ> metric_gate r) (rp_metrics (rr_policy r)))
     \<and> rt_eligible t = (rt_blockers t = []) \<and> retention_sha C (retention_payload (t\<lparr>rt_receipt_sha256 := []\<rparr>)) = Inr (rt_receipt_sha256 t)"
  by (auto simp: evaluate_continual_retention_def Let_def)

lemma evaluation_exact:
  assumes "check_retention_request r = Inr ()" "evaluate_continual_retention C project by r = Inr t"
  shows "rt_eligible t \<longleftrightarrow> (\<forall>p\<in>set (rp_metrics (rr_policy r)). metric_retained r p)"
  using evaluated_receipt[OF assms(2)] metric_gate_none[OF validated_stages(2,1)[OF assms(1)]] by (simp add: concat_eq_Nil_conv)

section \<open>A demonstration\<close>

definition one_sha :: string where
  "one_sha = replicate 64 (CHR ''1'')"

definition demo_metric :: metric_policy where
  "demo_metric = \<lparr>mp_metric_id = ''auroc'', mp_direction = HigherBetter, mp_max_average = 1 / 10, mp_max_worst = 1 / 10,
     mp_minimum_final = Some 0, mp_maximum_final = None\<rparr>"

definition demo_retention :: retention_request where
  "demo_retention = \<lparr>rr_request_key = ''request-0001'', rr_review_note = ''reviewed'', rr_parent_id = ''m0'', rr_parent_sha256 = zero_sha,
     rr_candidate_id = ''m1'', rr_candidate_sha256 = one_sha, rr_scope = ScopeSynthetic, rr_dataset_sha256 = zero_sha,
     rr_membership_sha256 = zero_sha, rr_evaluator_sha256 = zero_sha, rr_backbone_sha256 = zero_sha, rr_objects = [''a'', ''b''],
     rr_policy = \<lparr>rp_strategy = EpisodicTtt, rp_minimum_replay = 0, rp_frozen_backbone = True, rp_teacher = True,
       rp_metrics = [demo_metric]\<rparr>,
     rr_stages =
       [\<lparr>rs_stage_index = 0, rs_trained_object = ''a'', rs_stage_model = zero_sha, rs_backbone = zero_sha,
         rs_object_metrics = [(''a'', [(''auroc'', 9 / 10)])], rs_replay_counts = [], rs_replay_manifest = None,
         rs_teacher_model = None\<rparr>,
        \<lparr>rs_stage_index = 1, rs_trained_object = ''b'', rs_stage_model = one_sha, rs_backbone = zero_sha,
         rs_object_metrics = [(''a'', [(''auroc'', 3 / 10)]), (''b'', [(''auroc'', 9 / 10)])], rs_replay_counts = [],
         rs_replay_manifest = None, rs_teacher_model = Some zero_sha\<rparr>],
     rr_attest_independent = True, rr_attest_replay = True\<rparr>"

lemma demo_shas: "is_sha256 zero_sha" "is_sha256 one_sha" "zero_sha \<noteq> one_sha"
  by code_simp+

lemma demo_retention_ok: "check_retention_request demo_retention = Inr ()"
  by (simp add: check_retention_request_def demo_retention_def check_retention_policy_def check_metric_policy_def demo_metric_def
      check_stage_def check_stage_at_def Let_def demo_shas bounded_id_def id_char_def alnum_char_def request_key_ok_def is_digit_def less_eq_char_def)

section \<open>Properties\<close>

text \<open>C28: a candidate of a validated request is eligible exactly when, for every metric of the policy, every object's score at the last stage
  is within its absolute limits, and the rounded largest drop of a prior object's score, from any stage since it was learned to the last
  stage, is within its limit, for each prior object and on average; eligible or not, the receipt seals the request it was evaluated for.\<close>

theorem retention_gate_exact:
  assumes "check_retention_request r = Inr ()" "evaluate_continual_retention C project by r = Inr t"
  shows "(rt_eligible t \<longleftrightarrow> (\<forall>p\<in>set (rp_metrics (rr_policy r)). metric_retained r p)) \<and> rt_request t = r
     \<and> retention_sha C (retention_payload (t\<lparr>rt_receipt_sha256 := []\<rparr>)) = Inr (rt_receipt_sha256 t)"
  using evaluation_exact[OF assms] evaluated_receipt[OF assms(2)] by simp

lemma retention_gate_exact_witness:
  "\<exists>t. evaluate_continual_retention toy_crypto ''p1'' ''ana'' demo_retention = Inr t \<and> \<not> rt_eligible t"
proof -
  have "\<exists>t. evaluate_continual_retention toy_crypto ''p1'' ''ana'' demo_retention = Inr t"
    by (simp add: evaluate_continual_retention_def retention_sha_def jcs_sha_def toy_crypto_def of_opt_def bounded_id_def id_char_def alnum_char_def
        less_eq_char_def is_digit_def Let_def)
  then obtain t where t: "evaluate_continual_retention toy_crypto ''p1'' ''ana'' demo_retention = Inr t" ..
  have "{0..<length (rr_stages demo_retention)} = {0, 1}" by (auto simp: demo_retention_def)
  then have "score_loss demo_retention demo_metric 0 = 3 / 5"
    by (simp add: score_loss_def stage_score_def drop_in_def Let_def demo_metric_def demo_retention_def)
  moreover have "1 / 10 < rounded (3 / 5)" using rounded_close[of "3 / 5"] by (simp add: abs_if split: if_splits)
  moreover have "0 < length (rr_objects demo_retention) - 1" "mp_max_worst demo_metric = 1 / 10"
    by (simp_all add: demo_retention_def demo_metric_def)
  ultimately have "\<not> metric_retained demo_retention demo_metric"
    unfolding metric_retained_def Let_def by (metis linorder_not_le)
  moreover have "demo_metric \<in> set (rp_metrics (rr_policy demo_retention))" by (simp add: demo_retention_def)
  ultimately show ?thesis using retention_gate_exact[OF demo_retention_ok t] t by blast
qed

text \<open>C29: a validated request is one chain: each stage trains the next object and measures exactly the objects seen so far with every metric of
  the policy, starts at the parent's and ends at the candidate's weights, names only the model of the stage before it as teacher, and
  under replay covers every prior object; so every score the gate looks up exists.\<close>

theorem retention_stages_are_chained:
  assumes "check_retention_request r = Inr ()"
  shows "length (rr_stages r) = length (rr_objects r) \<and> rr_parent_sha256 r \<noteq> rr_candidate_sha256 r
     \<and> (\<forall>i<length (rr_stages r). stage_chained r i)
     \<and> (\<forall>p\<in>set (rp_metrics (rr_policy r)). \<forall>j<length (rr_stages r). \<forall>i\<le>j. \<exists>m v.
          map_of (rs_object_metrics (rr_stages r ! j)) (rr_objects r ! i) = Some m \<and> map_of m (mp_metric_id p) = Some v)"
  using validated_stages[OF assms] scores_present[OF assms] by blast

lemma retention_stages_are_chained_witness:
  "stage_chained demo_retention 1 \<and> rs_teacher_model (rr_stages demo_retention ! 1) = Some (rs_stage_model (rr_stages demo_retention ! 0))"
  using retention_stages_are_chained[OF demo_retention_ok] by (simp add: demo_retention_def)

end
