(* ===== verification/Spec2Isabelle.thy ===== *)
theory Spec2Isabelle
  imports Gate_Apply Worker_Selection Command_Store Command_Journal Hidden_Truth Reserve_Repair
    Resilient_Client Recovery_Safety Event_Safety Kernel_Safety Wave_Safety Core_Safety Memory_Safety
    Retention_Safety
begin

text \<open>
  Verification of the decision core of VisionData Gate.

  VisionData Gate decides whether a batch of images may enter a sandbox training pool. Deterministic
  tools examine the batch and leave findings, tool traces and metrics; an advisory council comments on
  them; the policy turns them into work orders, rule checks and one of the decisions PASS, QUARANTINE,
  RECAPTURE and DEFER; a PASS must also be allowed by the runtime invariants. Every step leaves a
  receipt whose digest a later reader recomputes. Incidents are handled by commands that are admitted
  once, executed once and closed by a terminal receipt. The theories follow the modules under
  \<open>src/src/visiondata_gate\<close>.

  Theories and code

  \<^item> \<open>Gate_Prelude\<close>: results as \<open>error + 'a\<close> with \<open>rbind\<close> and \<open>require\<close>, the part of Python's string and
    dictionary library the modules use, JSON values, the record \<open>crypto\<close> of external functions, and two
    interfaces: \<open>replayed_receipt\<close> (a receipt that is verified by building it again) and
    \<open>guarded_store\<close> (a table whose operations keep an invariant and settle a row once).
  \<^item> \<open>Gate_Contracts\<close> (\<open>contracts.py\<close>): samples, manifests, batch contracts, acceptance requirements,
    findings, tool traces, opinions and work orders, with their validators. \<open>validate_manifest\<close> and its
    parts are the pydantic validation of a manifest.
  \<^item> \<open>Runtime_Safety\<close> (\<open>runtime_safety.py\<close>): the facts about a proposed transition, the six invariants
    \<open>eval_inv1\<close> to \<open>eval_inv6\<close>, \<open>build_runtime_invariant_receipt\<close>, its verification by replay and
    \<open>assert_runtime_invariants\<close>. Interprets \<open>replayed_receipt\<close> as \<open>rsr\<close>.
  \<^item> \<open>Council\<close> (\<open>agents.py\<close>): the six advisory roles, their opinions and the council trace.
  \<^item> \<open>Rule_Pack\<close> (\<open>rulepack.py\<close>): validation of a rule pack, its compilation into a runtime binding
    (finding code to action, finding code to rule, trigger budgets) and the check of a binding before use.
  \<^item> \<open>Gate_Policy\<close>, \<open>Gate_Checks\<close>, \<open>Gate_Apply\<close> (\<open>policy.py\<close>): work orders and the raw decision; metric
    parsing, the rule checks and the counterfactual probes; the scenario snapshot and \<open>apply_policy\<close>.
  \<^item> \<open>Worker_Selection\<close> (\<open>worker_selection.py\<close>): candidate validation, the priority order, selection
    receipts (interprets \<open>replayed_receipt\<close> as \<open>wsr\<close>) and behaviour receipts in a length-prefixed frame.
  \<^item> \<open>Command_Store\<close> (\<open>task_store.py\<close>, table \<open>incident_commands\<close>): \<open>claim_incident_command\<close>,
    \<open>finish_incident_command\<close>, \<open>mark_incident_command_uncertain\<close> and the checked reads over the list of rows;
    the UNIQUE constraints and the partial unique index are conditions of insertion and update. Interprets
    \<open>guarded_store\<close> as \<open>cst\<close>.
  \<^item> \<open>Command_Journal\<close> (\<open>incident_commands.py\<close>): admission, terminal and command receipts and the
    derivation of keys and identifiers.
  \<^item> \<open>Clean_Texts\<close>: texts that stripping leaves alone, and the hypothesis \<open>hex_digests\<close> (a digest is 64 hexadecimal
    digits, the documented behaviour of \<open>hexdigest\<close>). Receipts whose text is stripped by their model rest on it.
  \<^item> \<open>Truth_Matching\<close>, \<open>Hidden_Truth\<close> (\<open>evaluation.py\<close>): the augmenting-path assignment of findings to truth issues and
    its maximality; the evaluation of a gate result with exact rational rates.
  \<^item> \<open>Reserve_Repair\<close> (\<open>repair.py\<close>): repair of a batch from reserve samples over an abstract file system: input checks,
    choice of replacements and coverage additions, the repaired manifest and its publication.
  \<^item> \<open>Resilient_Client\<close> (\<open>network_resilience.py\<close>): outbound policy, address checks, the circuit breaker as a state machine
    and \<open>request_json\<close> with its retry loop and exchange receipt.
  \<^item> \<open>Task_Tables\<close>, \<open>Task_Lineage\<close>, \<open>Source_Ledger\<close>, \<open>Task_Lifecycle\<close> (\<open>task_store.py\<close>, \<open>lineage.py\<close>,
    \<open>execution_recovery.py\<close>): the tables of the task store as one record of row lists, the tenant operations, sealed lineage
    edges and reports, the hash-chained events of a source, and the life of a task from creation over claim, plan approval and
    execution to recovery. One operation is one function of the store that returns the new store when its transaction commits.
  \<^item> \<open>Task_History\<close>: every operation as a \<open>store_op\<close>, histories of operations and their effect on the tables.
    \<open>Task_Safety\<close>, \<open>Source_Safety\<close>, \<open>Lineage_Safety\<close>, \<open>Recovery_Safety\<close>, \<open>Event_Safety\<close>: what holds in every store
    a history of the service reaches (\<open>Task_Safety\<close> interprets \<open>guarded_store\<close> as \<open>hst\<close>).
  \<^item> \<open>Evidence_State\<close> (\<open>evidence_state_contracts.py\<close>): freshness facts, belief snapshots and the ledger of a case.
  \<^item> \<open>Incident_Kernel\<close> (\<open>incident_agent_kernel.py\<close>): belief revision of a resumed case, the execution plan of the selected
    workers and the council arbitration. \<open>Kernel_Safety\<close> proves their contracts.
  \<^item> \<open>Incident_Planner\<close> (\<open>incident_model_planner.py\<close>): the optional model that may reorder workers: configuration,
    request, validation of its answer, receipt and the plan with its one request. \<open>Planner_Safety\<close> bounds what it can change.
  \<^item> \<open>Incident_Wave\<close> (\<open>incident_runtime_profile.py\<close>, the guard of \<open>incident_agent_kernel.py\<close>, one wave of
    \<open>build_industrial_incident_case\<close>): runtime profile, planner, execution plan and autonomy guard composed as the case composes
    them. \<open>Wave_Safety\<close> states what a wave promises.
  \<^item> \<open>Agent_Core\<close> (\<open>agent_core.py\<close>, the events of \<open>runtime_models.py\<close>): the contract a chain of live events must meet, the
    execution receipt sealed over it and its verification. \<open>Core_Safety\<close> restates the contract over positions of the chain and
    proves the loops equivalent to it.
  \<^item> \<open>Runtime_Memory\<close> (\<open>runtime_memory.py\<close>, \<open>MemoryRecord\<close> and \<open>KnowledgeHit\<close> of \<open>runtime_models.py\<close>): the local memory of run summaries,
    its tokens, its ranked recall and its governed write. \<open>Memory_Safety\<close> interprets \<open>guarded_store\<close> as \<open>mst\<close>.
  \<^item> \<open>Retention_Gate\<close> (\<open>continual_learning.py\<close>): the validated stage matrix of a continual-learning run and the gate that holds a
    candidate that forgot. \<open>Retention_Safety\<close> states the gate declaratively.

  How state and effects correspond. Pydantic models are records, their validators functions that return an
  error or the normalised record. Raising is \<open>Inl\<close> with a constructor per raise site; a theorem about a result
  is complemented by one about when the result exists where that is not evident (\<open>apply_policy_succeeds_iff\<close>,
  \<open>execution_plan_exists_iff_acyclic\<close>, \<open>core_receipt_verifies\<close>). Loops over a list are recursion on it (a loop that may raise is
  \<open>rfold\<close>); the loops that are not structural (the augmenting path \<open>assign_from\<close>, \<open>next_coverage\<close>, the wave scheduler \<open>schedule\<close>,
  \<open>nat_str\<close>, \<open>utf8_points\<close>) are functions with a termination measure, so no fuel is needed and no function is partial. A store operation takes
  the tables and returns them only when its transaction commits. Messages that enter a digest or a result are constructors with a
  function that gives their text.

  What the lemmas show. Policy: \<open>apply_policy_refines_gate_spec\<close> reduces the module to the five-line \<open>gate_spec\<close>; further claims
  give the safety of PASS and the conditions of success; lemmas give the exact work orders, the governance check, the probes'
  budget and the irrelevance of the council. Receipts: what is built verifies, and what verifies was built (up to the named
  fields that are not compared), for runtime, selection, plan, council, ledger, planner and agent-core receipts. Selection and
  execution plan: the chosen workers are the best eligible ones, and the plan runs each once after its dependencies, in the
  greedy order, and exists exactly for acyclic dependencies. Commands: after any history one writer owns an effect scope and an
  admission can be repeated without effect. Tasks: statuses follow the transition table, a start had its approval, a source's
  ledger ends with at most one terminal event, lineage reports are refused for no other reason than a source binding that is no digest, recovery replaces once, event logs are completed
  without rewriting. Evaluation and repair: the true positives are a maximum matching; a reserve is used once. Transport: the
  breaker's invariant and, as a lemma, the bounds of attempts and sleeps. Incidents: beliefs are justified by their facts and never refreshed by
  a resume, the council fails closed, and the model only reorders within its allowlist and budget. Agent core: the event loops
  accept exactly the declarative contract, and a verified receipt rests on it. Memory: the store stays bounded with one record per run
  and phase, and a recall is the top of the ranking. Retention: a validated request is one chain of models, and a candidate is eligible
  exactly when no metric forgot beyond its policy.

  Parameters. \<open>crypto\<close> holds RFC 8785 canonicalization (\<open>jcs\<close>, None when it refuses a value), the two
  forms of \<open>json.dumps\<close> and SHA-256 as a hexadecimal text; \<open>json_codec\<close> the parser and printer of stored documents;
  \<open>attempt_io\<close> what one HTTP attempt observes, \<open>planner_env\<close> URL and JSON parsing and the replay file of the planner;
  \<open>filesystem\<close> the observations a repair makes of paths; \<open>memory_env\<close> bytes, parsing and hashing of the memory file. \<open>tenancy\<close> holds the tables on tasks and memberships that
  the command table only reads. Clocks, fresh identifiers and ticks are arguments.
  Nothing is assumed of these unless a theorem says so: \<open>hex_digests\<close>, \<open>reads_back\<close> (parsing a printed list of records gives it
  back), \<open>candidates_ok\<close> (worker identifiers have the pattern of their model) and that named pairs of payloads do not collide
  are the hypotheses, each with an instance in the witnesses. No theorem assumes that a value can be canonicalized: where
  \<open>jcs\<close> may refuse, the statement names the digest that is refused (\<open>guard_accepted\<close>, \<open>plan_digest\<close>, \<open>guard_digest\<close>). Errors that no
  handler of the code catches are ends of their own: an \<open>OSError\<close> outside the transport's wrapping, the \<open>RecursionError\<close> of a JSON
  text nested too deeply (\<open>PlannerRecursion\<close>), and a reported model name with a lone surrogate (\<open>PlannerEncoding\<close>); the other texts
  of a receipt come out of models, whose texts can be encoded, so \<open>canonical_json_bytes\<close> is total on them.

  Simplifications. Dictionaries keep insertion order and have distinct keys. Floating-point numbers are exact rationals. Strings
  are their UTF-8 bytes, so lengths and cuts count bytes; the white-space and case functions are those of Python on ASCII text,
  and non-ASCII case mapping is not modelled. A rule-pack binding is an instance of its model, so its strings are stripped already and
  its claim boundary is the fixed one: re-validation only recomputes the seal and the checks. The tenancy tables that
  \<open>claim_incident_command\<close> reads are constant over a history of commands.

  Not modelled. A wave ends with its plan and its guard: the execution of the workers and the auditor's barrier at run time in
  \<open>build_industrial_incident_case\<close> are not modelled, so claims about an order are claims about the plan. File and database
  access, HTTP and command-line front ends: I/O around the modelled operations. Pixel
  statistics, duplicate hashing, local learning and normality models: arithmetic of numpy, Pillow and torch, which are not part
  of the repository. The full record of an industrial incident case with its detectors, rendering, control-plane sidecars,
  corrective actions and governed memory: thousands of lines of field declarations over the parts modelled here. The prompt-injection guard:
  regular expressions over Unicode normalization. Benchmarks, reports, release packaging and demonstration data.
\<close>

end
